(* ===== verification/Prelude.thy ===== *)
theory Prelude
  imports Main "HOL-Library.List_Lexorder" "HOL-Library.Char_ord" "HOL-Library.Product_Lexorder"
begin

text \<open>
  Shared vocabulary of the development: exceptions as values, the result monad of pure
  Python functions that may raise, the state-and-exception monad of methods that also
  change the world, its Hoare triples, the Python string operations the sources use, and
  dictionaries as association lists in insertion order.

  Strings are lists of 8-bit characters, read as the code points below 256.
\<close>

section \<open>Exceptions and results\<close>

datatype exn =
    ValueError | KeyError | TypeError | RuntimeError | AssertionError | OverflowError
  | ZeroDivisionError | TimeoutError | OSError | JournalCorruptError | BrokerReadError
  | TradingDisabledError | TradingConfigError | OtherException | Interrupted | NotReturned
  | FileNotFoundError | StrategyStoreError | ExistingStoreUnreadableError | StoreLockTimeoutError
  | EvictedPartitionError | ClientError | RawCaptureError | IndexError
  | DartNonRetryableError | DartQuotaExhaustedError | DartKeysUnusableError

text \<open>
  The subclasses the handlers of the sources catch by their base class:
  \<open>StrategyStoreError\<close> is a \<open>ValueError\<close>, \<open>FileNotFoundError\<close>, \<open>TimeoutError\<close> and the store and
  capture errors are \<open>OSError\<close>s, the key pool's errors are \<open>DartNonRetryableError\<close>s and these,
  like \<open>EvictedPartitionError\<close>, the journal's and the broker's own errors, are \<open>RuntimeError\<close>s.
\<close>

definition is_value_error :: "exn \<Rightarrow> bool" where
  "is_value_error e \<longleftrightarrow> e \<in> {ValueError, StrategyStoreError}"

definition is_os_error :: "exn \<Rightarrow> bool" where
  "is_os_error e \<longleftrightarrow> e \<in> {OSError, FileNotFoundError, TimeoutError, ExistingStoreUnreadableError,
     StoreLockTimeoutError, RawCaptureError}"

definition is_dart_fatal :: "exn \<Rightarrow> bool" where
  "is_dart_fatal e \<longleftrightarrow> e \<in> {DartNonRetryableError, DartQuotaExhaustedError, DartKeysUnusableError}"

definition is_runtime_error :: "exn \<Rightarrow> bool" where
  "is_runtime_error e \<longleftrightarrow> e \<in> {RuntimeError, EvictedPartitionError, BrokerReadError,
     TradingDisabledError, TradingConfigError, JournalCorruptError} \<or> is_dart_fatal e"

type_synonym 'a res = "exn + 'a"

definition rbind :: "'a res \<Rightarrow> ('a \<Rightarrow> 'b res) \<Rightarrow> 'b res" where
  "rbind m f = (case m of Inl e \<Rightarrow> Inl e | Inr a \<Rightarrow> f a)"

text \<open>\<open>guard_ok c e\<close> is the early \<open>raise\<close>: it fails with \<open>e\<close> unless \<open>c\<close> holds.\<close>

definition guard_ok :: "bool \<Rightarrow> exn \<Rightarrow> unit res" where
  "guard_ok c e = (if c then Inr () else Inl e)"

fun rforeach :: "('a \<Rightarrow> unit res) \<Rightarrow> 'a list \<Rightarrow> unit res" where
  "rforeach f [] = Inr ()"
| "rforeach f (x # xs) = rbind (f x) (\<lambda>_. rforeach f xs)"

fun rmap :: "('a \<Rightarrow> 'b res) \<Rightarrow> 'a list \<Rightarrow> 'b list res" where
  "rmap f [] = Inr []"
| "rmap f (x # xs) = rbind (f x) (\<lambda>y. rbind (rmap f xs) (\<lambda>ys. Inr (y # ys)))"

fun rfold :: "('a \<Rightarrow> 's \<Rightarrow> 's res) \<Rightarrow> 'a list \<Rightarrow> 's \<Rightarrow> 's res" where
  "rfold f [] s = Inr s"
| "rfold f (x # xs) s = rbind (f x s) (\<lambda>s'. rfold f xs s')"

named_theorems res_simps \<open>evaluation of the result monad\<close>

lemma rbind_simps [simp, res_simps]:
  "rbind (Inl e) f = Inl e" "rbind (Inr a) f = f a"
  by (simp_all add: rbind_def)

lemma rbind_Inr_iff [simp]: "rbind m f = Inr b \<longleftrightarrow> (\<exists>a. m = Inr a \<and> f a = Inr b)"
  by (cases m) auto

lemma rbind_Inl_iff: "rbind m f = Inl e \<longleftrightarrow> m = Inl e \<or> (\<exists>a. m = Inr a \<and> f a = Inl e)"
  by (cases m) auto

lemma rbind_assoc: "rbind (rbind m f) g = rbind m (\<lambda>a. rbind (f a) g)"
  by (cases m) auto

lemma guard_ok_Inr_iff [simp]: "guard_ok c e = Inr u \<longleftrightarrow> c"
  by (simp add: guard_ok_def)

lemma guard_ok_simps [res_simps]: "guard_ok True e = Inr ()" "guard_ok False e = Inl e"
  by (simp_all add: guard_ok_def)

lemma guard_ok_Inl_iff [simp]: "guard_ok c e = Inl e' \<longleftrightarrow> \<not> c \<and> e = e'"
  by (simp add: guard_ok_def)

lemma rbind_cong [fundef_cong]:
  "m = m' \<Longrightarrow> (\<And>a. m' = Inr a \<Longrightarrow> f a = f' a) \<Longrightarrow> rbind m f = rbind m' f'"
  by (cases m') auto

lemma rforeach_cong [fundef_cong]:
  "xs = ys \<Longrightarrow> (\<And>x. x \<in> set ys \<Longrightarrow> f x = g x) \<Longrightarrow> rforeach f xs = rforeach g ys"
proof (induction ys arbitrary: xs)
  case (Cons y ys)
  have "rforeach f ys = rforeach g ys" by (rule Cons.IH) (simp_all add: Cons.prems)
  moreover have "f y = g y" by (simp add: Cons.prems)
  ultimately show ?case by (simp add: Cons.prems)
qed simp

lemma rforeach_Inr_iff: "rforeach f xs = Inr u \<longleftrightarrow> (\<forall>x\<in>set xs. f x = Inr ())"
  by (induction xs) auto

lemma rforeach_append: "rforeach f (xs @ ys) = rbind (rforeach f xs) (\<lambda>_. rforeach f ys)"
  by (induction xs) (simp_all add: rbind_assoc)

lemma rmap_Inr_length: "rmap f xs = Inr ys \<Longrightarrow> length ys = length xs"
  by (induction xs arbitrary: ys) auto

lemma rfold_append: "rfold f (xs @ ys) s = rbind (rfold f xs s) (\<lambda>s'. rfold f ys s')"
  by (induction xs arbitrary: s) (simp_all add: rbind_assoc cong: rbind_cong)

lemma rbind_Inr_right [simp]: "rbind m (\<lambda>a. Inr a) = m" "rbind m Inr = m"
  by (cases m; simp)+

lemma rfold_Nil_fun: "rfold f [] = Inr"
  by (rule ext) simp

lemma rfold_snoc: "rfold f (xs @ [x]) s = rbind (rfold f xs s) (f x)"
  by (cases "rfold f xs s") (simp_all add: rfold_append rfold_Nil_fun)

text \<open>An invariant of the accumulator holds for the result of a fold that returns.\<close>

lemma rfold_invariant:
  assumes "rfold f xs s = Inr s'" "I s" "\<And>x a b. x \<in> set xs \<Longrightarrow> I a \<Longrightarrow> f x a = Inr b \<Longrightarrow> I b"
  shows "I s'"
  using assms
proof (induction xs arbitrary: s)
  case Nil
  then show ?case by simp
next
  case (Cons x xs)
  then obtain t where t: "f x s = Inr t" "rfold f xs t = Inr s'" by auto
  have "I t" by (rule Cons.prems(3) [OF _ Cons.prems(2) t(1)]) simp
  then show ?case by (rule Cons.IH [OF t(2)]) (auto intro: Cons.prems(3))
qed

section \<open>Effects: state and exceptions\<close>

text \<open>
  A method that reads and writes the journal, the broker or the clock is a function from
  the state to its outcome and the state it leaves, also when it raises: what was written
  before the exception stays written.
\<close>

type_synonym ('s, 'a) eff = "'s \<Rightarrow> 'a res \<times> 's"

definition ret :: "'a \<Rightarrow> ('s, 'a) eff" where
  "ret a = (\<lambda>s. (Inr a, s))"

definition throw :: "exn \<Rightarrow> ('s, 'a) eff" where
  "throw e = (\<lambda>s. (Inl e, s))"

definition bnd :: "('s, 'a) eff \<Rightarrow> ('a \<Rightarrow> ('s, 'b) eff) \<Rightarrow> ('s, 'b) eff" where
  "bnd m f = (\<lambda>s. case m s of (Inl e, s') \<Rightarrow> (Inl e, s') | (Inr a, s') \<Rightarrow> f a s')"

definition gets :: "('s \<Rightarrow> 'a) \<Rightarrow> ('s, 'a) eff" where
  "gets f = (\<lambda>s. (Inr (f s), s))"

definition modify :: "('s \<Rightarrow> 's) \<Rightarrow> ('s, unit) eff" where
  "modify f = (\<lambda>s. (Inr (), f s))"

definition lift_res :: "('s \<Rightarrow> 'a res) \<Rightarrow> ('s, 'a) eff" where
  "lift_res f = (\<lambda>s. (f s, s))"

text \<open>
  \<open>attempt m\<close> is \<open>try: m except Exception\<close>, with the outcome as a value. \<open>Interrupted\<close>
  stands for the exceptions outside \<open>Exception\<close> (a cancelled task, a keyboard interrupt,
  the end of the process), which no handler of the sources stops. \<open>finally_do m g\<close> runs \<open>g\<close>
  on the state whatever the outcome.
\<close>

definition attempt :: "('s, 'a) eff \<Rightarrow> ('s, 'a res) eff" where
  "attempt m = (\<lambda>s. case m s of (r, s') \<Rightarrow> if r = Inl Interrupted then (Inl Interrupted, s') else (Inr r, s'))"

definition finally_do :: "('s, 'a) eff \<Rightarrow> ('s \<Rightarrow> 's) \<Rightarrow> ('s, 'a) eff" where
  "finally_do m g = (\<lambda>s. case m s of (r, s') \<Rightarrow> (r, g s'))"

text \<open>\<open>catch_only e m h\<close> is \<open>try: m except E: h\<close> for one exception class.\<close>

definition catch_only :: "exn \<Rightarrow> ('s, 'a) eff \<Rightarrow> ('s, 'a) eff \<Rightarrow> ('s, 'a) eff" where
  "catch_only e m h = (\<lambda>s. case m s of
     (Inl e', s') \<Rightarrow> if e' = e then h s' else (Inl e', s')
   | (Inr a, s') \<Rightarrow> (Inr a, s'))"

text \<open>\<open>catch_when c m h\<close> is \<open>try: m except (\<dots>) as e: h e\<close> for the classes \<open>c\<close> holds of.\<close>

definition catch_when :: "(exn \<Rightarrow> bool) \<Rightarrow> ('s, 'a) eff \<Rightarrow> (exn \<Rightarrow> ('s, 'a) eff) \<Rightarrow> ('s, 'a) eff" where
  "catch_when c m h = (\<lambda>s. case m s of
     (Inl e, s') \<Rightarrow> if c e then h e s' else (Inl e, s')
   | (Inr a, s') \<Rightarrow> (Inr a, s'))"

fun for_each :: "'a list \<Rightarrow> ('a \<Rightarrow> ('s, unit) eff) \<Rightarrow> ('s, unit) eff" where
  "for_each [] f = ret ()"
| "for_each (x # xs) f = bnd (f x) (\<lambda>_. for_each xs f)"

fun fold_eff :: "'a list \<Rightarrow> ('a \<Rightarrow> 'b \<Rightarrow> ('s, 'b) eff) \<Rightarrow> 'b \<Rightarrow> ('s, 'b) eff" where
  "fold_eff [] f b = ret b"
| "fold_eff (x # xs) f b = bnd (f x b) (\<lambda>b'. fold_eff xs f b')"

named_theorems eff_simps \<open>running the effect monad\<close>

lemma eff_run [eff_simps]:
  "ret a s = (Inr a, s)" "throw e s = (Inl e, s)" "gets g s = (Inr (g s), s)"
  "modify h s = (Inr (), h s)" "lift_res r s = (r s, s)"
  by (simp_all add: ret_def throw_def gets_def modify_def lift_res_def)

lemma bnd_run [eff_simps]:
  "m s = (Inl e, s') \<Longrightarrow> bnd m f s = (Inl e, s')"
  "m s = (Inr a, s') \<Longrightarrow> bnd m f s = f a s'"
  by (simp_all add: bnd_def)

lemma attempt_run [eff_simps]:
  "m s = (r, s') \<Longrightarrow> r \<noteq> Inl Interrupted \<Longrightarrow> attempt m s = (Inr r, s')"
  by (simp add: attempt_def)

subsection \<open>Hoare triples\<close>

text \<open>
  \<open>triple P m Q\<close>: from a state with \<open>P\<close>, the outcome and the final state satisfy \<open>Q\<close>,
  whether the method returns or raises.
\<close>

definition triple :: "('s \<Rightarrow> bool) \<Rightarrow> ('s, 'a) eff \<Rightarrow> ('a res \<Rightarrow> 's \<Rightarrow> bool) \<Rightarrow> bool" where
  "triple P m Q \<longleftrightarrow> (\<forall>s. P s \<longrightarrow> Q (fst (m s)) (snd (m s)))"

named_theorems triple_rules \<open>rules of the Hoare triples\<close>

lemma tripleI: "(\<And>s r s'. P s \<Longrightarrow> m s = (r, s') \<Longrightarrow> Q r s') \<Longrightarrow> triple P m Q"
  by (auto simp: triple_def intro: prod.collapse [symmetric])

lemma tripleD: "triple P m Q \<Longrightarrow> P s \<Longrightarrow> m s = (r, s') \<Longrightarrow> Q r s'"
  by (force simp: triple_def)

lemma triple_weaken:
  "triple P m Q \<Longrightarrow> (\<And>s. P' s \<Longrightarrow> P s) \<Longrightarrow> (\<And>r s. Q r s \<Longrightarrow> Q' r s) \<Longrightarrow> triple P' m Q'"
  by (simp add: triple_def)

lemma triple_pre: "triple P m Q \<Longrightarrow> (\<And>s. P' s \<Longrightarrow> P s) \<Longrightarrow> triple P' m Q"
  by (rule triple_weaken)

lemma triple_post: "triple P m Q \<Longrightarrow> (\<And>r s. Q r s \<Longrightarrow> Q' r s) \<Longrightarrow> triple P m Q'"
  by (rule triple_weaken)

lemma triple_ret [triple_rules]: "triple (\<lambda>s. Q (Inr a) s) (ret a) Q"
  by (simp add: triple_def ret_def)

lemma triple_throw [triple_rules]: "triple (\<lambda>s. Q (Inl e) s) (throw e) Q"
  by (simp add: triple_def throw_def)

lemma triple_gets [triple_rules]: "triple (\<lambda>s. Q (Inr (f s)) s) (gets f) Q"
  by (simp add: triple_def gets_def)

lemma triple_modify [triple_rules]: "triple (\<lambda>s. Q (Inr ()) (f s)) (modify f) Q"
  by (simp add: triple_def modify_def)

lemma triple_lift_res [triple_rules]: "triple (\<lambda>s. Q (f s) s) (lift_res f) Q"
  by (simp add: triple_def lift_res_def)

lemma triple_bnd:
  assumes "triple P m (\<lambda>r s. case r of Inl e \<Rightarrow> Q (Inl e) s | Inr a \<Rightarrow> B a s)"
    and "\<And>a. triple (B a) (f a) Q"
  shows "triple P (bnd m f) Q"
  unfolding triple_def
proof (intro allI impI)
  fix s
  assume "P s"
  with assms(1) have *: "case fst (m s) of Inl e \<Rightarrow> Q (Inl e) (snd (m s)) | Inr a \<Rightarrow> B a (snd (m s))"
    by (simp add: triple_def)
  show "Q (fst (bnd m f s)) (snd (bnd m f s))"
    using * assms(2) by (cases "m s"; cases "fst (m s)") (auto simp: bnd_def triple_def)
qed

lemma triple_if [triple_rules]:
  "triple P m Q \<Longrightarrow> triple P' n Q \<Longrightarrow>
   triple (\<lambda>s. (c \<longrightarrow> P s) \<and> (\<not> c \<longrightarrow> P' s)) (if c then m else n) Q"
  by (auto simp: triple_def)

lemma triple_attempt:
  "triple P m (\<lambda>r s. if r = Inl Interrupted then Q (Inl Interrupted) s else Q (Inr r) s) \<Longrightarrow>
   triple P (attempt m) Q"
  by (auto simp: triple_def attempt_def case_prod_beta split: if_splits)

lemma triple_finally: "triple P m (\<lambda>r s. Q r (g s)) \<Longrightarrow> triple P (finally_do m g) Q"
  by (simp add: triple_def finally_do_def case_prod_beta)

lemma triple_catch_only:
  "triple P m (\<lambda>r s. if r = Inl e then R s else Q r s) \<Longrightarrow> triple R h Q \<Longrightarrow>
   triple P (catch_only e m h) Q"
  unfolding triple_def catch_only_def
  by (auto simp: case_prod_beta split: sum.splits if_splits)

text \<open>An invariant of the state, kept whatever the outcome.\<close>

abbreviation keeps :: "('s \<Rightarrow> bool) \<Rightarrow> ('s, 'a) eff \<Rightarrow> bool" where
  "keeps I m \<equiv> triple I m (\<lambda>_ s. I s)"

named_theorems keeps_intros \<open>methods that keep an invariant\<close>

lemma keeps_basic [keeps_intros]:
  "keeps I (ret a)" "keeps I (throw e)" "keeps I (gets f)" "keeps I (lift_res g)"
  by (simp_all add: triple_def ret_def throw_def gets_def lift_res_def)

lemma keeps_bnd [keeps_intros]: "keeps I m \<Longrightarrow> (\<And>a. keeps I (f a)) \<Longrightarrow> keeps I (bnd m f)"
  by (rule triple_bnd [where B = "\<lambda>_. I"]) (auto elim!: triple_post split: sum.splits)

lemma keeps_if [keeps_intros]:
  "(c \<Longrightarrow> keeps I m) \<Longrightarrow> (\<not> c \<Longrightarrow> keeps I n) \<Longrightarrow> keeps I (if c then m else n)"
  by simp

lemma keeps_attempt [keeps_intros]: "keeps I m \<Longrightarrow> keeps I (attempt m)"
  by (rule triple_attempt) simp

lemma keeps_stop: "triple I m (\<lambda>r s. (\<exists>e. r = Inl e) \<and> I s) \<Longrightarrow> keeps I (bnd m f)"
  by (rule triple_bnd [where B = "\<lambda>_ _. False"]) (auto simp: triple_def split: sum.splits)

lemma keeps_then: "keeps I m \<Longrightarrow> (\<And>s e. I s \<Longrightarrow> Q (Inl e) s) \<Longrightarrow> (\<And>a. triple I (g a) Q) \<Longrightarrow> triple I (bnd m g) Q"
  by (rule triple_bnd [where B = "\<lambda>_. I"]) (auto simp: triple_def split: sum.splits)

lemma triple_branch: "(c \<Longrightarrow> triple P m Q) \<Longrightarrow> (\<not> c \<Longrightarrow> triple P n Q) \<Longrightarrow> triple P (if c then m else n) Q"
  by simp

lemma keeps_lift:
  "(\<And>a. x = Inr a \<Longrightarrow> keeps P (g a)) \<Longrightarrow> keeps P (bnd (lift_res (\<lambda>_. x)) g)"
  by (cases x) (auto simp: triple_def bnd_def lift_res_def)

text \<open>A result computed from the state: its error ends the run, its value is known.\<close>

lemma triple_lift_read:
  assumes "\<And>s. P s \<Longrightarrow> f s = x" "\<And>e s. P s \<Longrightarrow> x = Inl e \<Longrightarrow> Q (Inl e) s" "\<And>a. x = Inr a \<Longrightarrow> triple P (g a) Q"
  shows "triple P (bnd (lift_res f) g) Q"
  using assms by (cases x) (auto simp: triple_def bnd_def lift_res_def)

lemma keeps_modify [keeps_intros]: "(\<And>s. I s \<Longrightarrow> I (f s)) \<Longrightarrow> keeps I (modify f)"
  by (simp add: triple_def modify_def)

lemma keeps_finally [keeps_intros]:
  "keeps I m \<Longrightarrow> (\<And>s. I s \<Longrightarrow> I (g s)) \<Longrightarrow> keeps I (finally_do m g)"
  by (rule triple_finally) (auto elim: triple_post)

lemma keeps_catch_only [keeps_intros]:
  "keeps I m \<Longrightarrow> keeps I h \<Longrightarrow> keeps I (catch_only e m h)"
  by (rule triple_catch_only [where R = I]) (auto elim: triple_post)

lemma keeps_catch_when [keeps_intros]:
  "keeps I m \<Longrightarrow> (\<And>e. c e \<Longrightarrow> keeps I (h e)) \<Longrightarrow> keeps I (catch_when c m h)"
  by (auto simp: triple_def catch_when_def case_prod_beta split: sum.splits)

lemma keeps_for_each [keeps_intros]:
  "(\<And>x. x \<in> set xs \<Longrightarrow> keeps I (f x)) \<Longrightarrow> keeps I (for_each xs f)"
  by (induction xs) (auto intro: keeps_intros)

lemma keeps_fold_eff [keeps_intros]:
  "(\<And>x b. x \<in> set xs \<Longrightarrow> keeps I (f x b)) \<Longrightarrow> keeps I (fold_eff xs f b)"
  by (induction xs arbitrary: b) (auto intro: keeps_intros)

lemma keepsD: "keeps I m \<Longrightarrow> I s \<Longrightarrow> I (snd (m s))"
  by (simp add: triple_def)

lemma bndE:
  assumes "bnd m f s = (r, s')"
  obtains (raised) e where "m s = (Inl e, s')" "r = Inl e"
    | (next_step) a t where "m s = (Inr a, t)" "f a t = (r, s')"
  using assms by (auto simp: bnd_def split: prod.splits sum.splits)

lemma keeps_cases [keeps_intros]:
  "(v = None \<Longrightarrow> keeps I m) \<Longrightarrow> (\<And>x. v = Some x \<Longrightarrow> keeps I (f x)) \<Longrightarrow> keeps I (case v of None \<Rightarrow> m | Some x \<Rightarrow> f x)"
  "(\<And>e. q = Inl e \<Longrightarrow> keeps I (g e)) \<Longrightarrow> (\<And>x. q = Inr x \<Longrightarrow> keeps I (h x)) \<Longrightarrow>
     keeps I (case q of Inl e \<Rightarrow> g e | Inr x \<Rightarrow> h x)"
  "(xs = [] \<Longrightarrow> keeps I m) \<Longrightarrow> (\<And>y ys. xs = y # ys \<Longrightarrow> keeps I (k y ys)) \<Longrightarrow>
     keeps I (case xs of [] \<Rightarrow> m | y # ys \<Rightarrow> k y ys)"
  "(\<And>y z. p = (y, z) \<Longrightarrow> keeps I (l y z)) \<Longrightarrow> keeps I (case p of (y, z) \<Rightarrow> l y z)"
  by (auto split: option.splits sum.splits list.splits prod.splits)

section \<open>Python strings\<close>

definition py_isspace :: "char \<Rightarrow> bool" where
  "py_isspace c = (let n = (of_char c :: nat)
     in (9 \<le> n \<and> n \<le> 13) \<or> (28 \<le> n \<and> n \<le> 32) \<or> n = 133 \<or> n = 160)"

definition py_strip :: "string \<Rightarrow> string" where
  "py_strip s = rev (dropWhile py_isspace (rev (dropWhile py_isspace s)))"

text \<open>\<open>not s.strip()\<close> of the sources: the string is empty or all white space.\<close>

definition py_blank :: "string \<Rightarrow> bool" where
  "py_blank s = (py_strip s = [])"

definition py_lstrip_char :: "char \<Rightarrow> string \<Rightarrow> string" where
  "py_lstrip_char c s = dropWhile (\<lambda>d. d = c) s"

definition is_digit :: "char \<Rightarrow> bool" where
  "is_digit c = (48 \<le> (of_char c :: nat) \<and> (of_char c :: nat) \<le> 57)"

definition is_upper :: "char \<Rightarrow> bool" where
  "is_upper c = (65 \<le> (of_char c :: nat) \<and> (of_char c :: nat) \<le> 90)"

definition digit_val :: "char \<Rightarrow> nat" where
  "digit_val c = of_char c - 48"

definition digits_val :: "string \<Rightarrow> nat" where
  "digits_val s = foldl (\<lambda>n c. 10 * n + digit_val c) 0 s"

definition digit_char :: "nat \<Rightarrow> char" where
  "digit_char n = char_of (n mod 10 + 48)"

fun nat_str :: "nat \<Rightarrow> string" where
  "nat_str n = (if n < 10 then [digit_char n] else nat_str (n div 10) @ [digit_char n])"

declare nat_str.simps [simp del]

definition int_str :: "int \<Rightarrow> string" where
  "int_str i = (if i < 0 then CHR ''-'' # nat_str (nat (- i)) else nat_str (nat i))"

definition py_zfill :: "nat \<Rightarrow> string \<Rightarrow> string" where
  "py_zfill w s = (let pad = replicate (w - length s) (CHR ''0'') in
     case s of
       c # cs \<Rightarrow> if c = CHR ''+'' \<or> c = CHR ''-'' then c # pad @ cs else pad @ s
     | [] \<Rightarrow> pad)"

lemma dropWhile_stop: "xs \<noteq> [] \<Longrightarrow> \<not> P (hd xs) \<Longrightarrow> dropWhile P xs = xs"
  by (cases xs) auto

lemma py_blank_iff: "py_blank s \<longleftrightarrow> (\<forall>c\<in>set s. py_isspace c)"
proof -
  have "py_strip s = [] \<longleftrightarrow> dropWhile py_isspace (rev (dropWhile py_isspace s)) = []"
    by (simp add: py_strip_def)
  also have "\<dots> \<longleftrightarrow> (\<forall>c\<in>set (dropWhile py_isspace s). py_isspace c)"
    by (simp add: dropWhile_eq_Nil_conv)
  also have "\<dots> \<longleftrightarrow> (\<forall>c\<in>set s. py_isspace c)"
    by (metis dropWhile_eq_Nil_conv hd_dropWhile hd_in_set set_dropWhileD)
  finally show ?thesis by (simp add: py_blank_def)
qed

lemma py_blank_Nil [simp]: "py_blank []"
  by (simp add: py_blank_iff)

lemma py_strip_idem: "py_strip (py_strip s) = py_strip s"
proof -
  let ?t = "dropWhile py_isspace s"
  let ?u = "dropWhile py_isspace (rev ?t)"
  have drop_u: "dropWhile py_isspace (rev ?u) = rev ?u"
  proof (cases "rev ?u = []")
    case False
    obtain pre where "rev ?t = pre @ ?u" by (metis takeWhile_dropWhile_id)
    then have "?t = rev ?u @ rev pre" by (metis rev_append rev_rev_ident)
    with False have "hd (rev ?u) = hd ?t" and "?t \<noteq> []" by (metis hd_append2, metis append_is_Nil_conv)
    then have "\<not> py_isspace (hd (rev ?u))" using hd_dropWhile [of py_isspace s] by simp
    then show ?thesis using False by (simp add: dropWhile_stop)
  next
    case True
    show ?thesis by (simp only: True dropWhile.simps)
  qed
  have "dropWhile py_isspace ?u = ?u" by (simp add: dropWhile_idem)
  then show ?thesis by (simp add: py_strip_def drop_u)
qed

section \<open>Dictionaries as association lists\<close>

text \<open>
  A Python dictionary iterates in insertion order. \<open>dset\<close> is \<open>d[k] = v\<close>: it replaces in
  place or appends; \<open>map_of d\<close> is the lookup.
\<close>

fun dset :: "'k \<Rightarrow> 'v \<Rightarrow> ('k \<times> 'v) list \<Rightarrow> ('k \<times> 'v) list" where
  "dset k v [] = [(k, v)]"
| "dset k v ((k', v') # d) = (if k = k' then (k, v) # d else (k', v') # dset k v d)"

definition dget :: "'v \<Rightarrow> ('k \<times> 'v) list \<Rightarrow> 'k \<Rightarrow> 'v" where
  "dget dflt d k = (case map_of d k of None \<Rightarrow> dflt | Some v \<Rightarrow> v)"

lemma map_of_dset [simp]: "map_of (dset k v d) = (map_of d)(k \<mapsto> v)"
  by (induction d) (auto simp: fun_eq_iff)

lemma keys_dset: "set (map fst (dset k v d)) = insert k (set (map fst d))"
proof (induction d)
  case (Cons p d)
  then show ?case by (cases p) auto
qed simp

lemma distinct_dset [simp]: "distinct (map fst d) \<Longrightarrow> distinct (map fst (dset k v d))"
proof (induction d)
  case (Cons p d)
  then show ?case using keys_dset [of k v d] by (cases p) auto
qed simp

lemma dget_dset: "dget z (dset k v d) k' = (if k' = k then v else dget z d k')"
  by (simp add: dget_def)

end
