(* ===== verification/Civil_Date.thy ===== *)
theory Civil_Date
  imports Prelude
begin

text \<open>
  Calendar dates as the sources use them: text in the form \<open>YYYY-MM-DD\<close>, parsed to a
  civil date of the proleptic Gregorian calendar, and day differences through the ordinal
  of Python's \<open>datetime.date\<close>. Only the extended form is read; the basic and week forms
  \<open>date.fromisoformat\<close> also accepts never occur in the modelled code.
\<close>

type_synonym civil = "nat \<times> nat \<times> nat"

definition leap_year :: "nat \<Rightarrow> bool" where
  "leap_year y \<longleftrightarrow> y mod 4 = 0 \<and> (y mod 100 \<noteq> 0 \<or> y mod 400 = 0)"

definition month_days :: "nat list" where
  "month_days = [31, 28, 31, 30, 31, 30, 31, 31, 30, 31, 30, 31]"

definition days_in_month :: "nat \<Rightarrow> nat \<Rightarrow> nat" where
  "days_in_month y m = (if m = 2 \<and> leap_year y then 29 else month_days ! (m - 1))"

definition valid_civil :: "civil \<Rightarrow> bool" where
  "valid_civil c = (case c of (y, m, d) \<Rightarrow>
     1 \<le> y \<and> y \<le> 9999 \<and> 1 \<le> m \<and> m \<le> 12 \<and> 1 \<le> d \<and> d \<le> days_in_month y m)"

definition days_before_year :: "nat \<Rightarrow> nat" where
  "days_before_year y = (let p = y - 1 in p * 365 + p div 4 - p div 100 + p div 400)"

fun days_before_month :: "nat \<Rightarrow> nat \<Rightarrow> nat" where
  "days_before_month y 0 = 0"
| "days_before_month y (Suc 0) = 0"
| "days_before_month y (Suc (Suc m)) = days_before_month y (Suc m) + days_in_month y (Suc m)"

lemma days_before_month_numeral:
  "days_before_month y (numeral n) = (if pred_numeral n = 0 then 0
     else days_before_month y (pred_numeral n) + days_in_month y (pred_numeral n))"
  by (cases "pred_numeral n") (simp_all add: numeral_eq_Suc)

definition toordinal :: "civil \<Rightarrow> nat" where
  "toordinal c = (case c of (y, m, d) \<Rightarrow> days_before_year y + days_before_month y m + d)"

definition parse_iso :: "string \<Rightarrow> civil option" where
  "parse_iso s =
     (if length s = 10 \<and> s ! 4 = CHR ''-'' \<and> s ! 7 = CHR ''-''
         \<and> list_all is_digit (take 4 s) \<and> list_all is_digit (take 2 (drop 5 s))
         \<and> list_all is_digit (drop 8 s)
      then let c = (digits_val (take 4 s), digits_val (take 2 (drop 5 s)), digits_val (drop 8 s))
           in if valid_civil c then Some c else None
      else None)"

text \<open>
  \<open>strptime\<close> followed by a \<open>strftime\<close> that must give the text back: the platform's
  \<open>%Y\<close> does not pad, so years below 1000 do not come back.
\<close>

definition is_trading_date :: "string \<Rightarrow> bool" where
  "is_trading_date s = (case parse_iso s of None \<Rightarrow> False | Some (y, m, d) \<Rightarrow> 1000 \<le> y)"

definition date_fromisoformat :: "string \<Rightarrow> civil res" where
  "date_fromisoformat s = (case parse_iso s of None \<Rightarrow> Inl ValueError | Some c \<Rightarrow> Inr c)"

definition days_between :: "civil \<Rightarrow> civil \<Rightarrow> int" where
  "days_between later earlier = int (toordinal later) - int (toordinal earlier)"

lemma is_trading_dateE:
  assumes "is_trading_date s"
  obtains c where "parse_iso s = Some c" "date_fromisoformat s = Inr c"
  using assms by (auto simp: is_trading_date_def date_fromisoformat_def split: option.splits)

lemma parse_iso_valid: "parse_iso s = Some c \<Longrightarrow> valid_civil c"
  by (auto simp: parse_iso_def Let_def split: if_splits)

lemma days_in_month_pos: "1 \<le> m \<Longrightarrow> m \<le> 12 \<Longrightarrow> 28 \<le> days_in_month y m"
proof -
  assume "1 \<le> m" "m \<le> 12"
  then show ?thesis
    by (auto simp: days_in_month_def month_days_def numeral_eq_Suc le_Suc_eq)
qed

text \<open>Ordinals grow with the civil date: within a month, across months, across years.\<close>

lemma days_before_month_step:
  "1 \<le> m \<Longrightarrow> days_before_month y (Suc m) = days_before_month y m + days_in_month y m"
  by (cases m) simp_all

lemma days_before_month_mono:
  assumes "1 \<le> m" "m < m'"
  shows "days_before_month y m + days_in_month y m \<le> days_before_month y m'"
  using assms(2)
proof (induction m')
  case (Suc k)
  show ?case
  proof (cases "m = k")
    case True
    then show ?thesis using days_before_month_step [OF assms(1)] by simp
  next
    case False
    then have "days_before_month y m + days_in_month y m \<le> days_before_month y k"
      using Suc by simp
    then show ?thesis using days_before_month_step [of k y] Suc.prems assms(1) False by simp
  qed
qed simp

lemma year_length:
  "1 \<le> y \<Longrightarrow> days_before_year (Suc y) = days_before_year y + 365 + (if leap_year y then 1 else 0)"
proof -
  assume "1 \<le> y"
  then obtain p where y: "y = Suc p" by (cases y) auto
  have 4: "Suc p div 4 = p div 4 + (if Suc p mod 4 = 0 then 1 else 0)" by (simp add: div_Suc)
  have 100: "Suc p div 100 = p div 100 + (if Suc p mod 100 = 0 then 1 else 0)" by (simp add: div_Suc)
  have 400: "Suc p div 400 = p div 400 + (if Suc p mod 400 = 0 then 1 else 0)" by (simp add: div_Suc)
  have sub: "p div 100 \<le> p * 365 + p div 4" by (simp add: div_le_mono2 trans_le_add2)
  have m1: "Suc p mod 100 = 0 \<Longrightarrow> Suc p mod 4 = 0"
    using dvd_trans [of 4 100 "Suc p"] by (simp add: mod_eq_0_iff_dvd)
  have m2: "Suc p mod 400 = 0 \<Longrightarrow> Suc p mod 100 = 0"
    using dvd_trans [of 100 400 "Suc p"] by (simp add: mod_eq_0_iff_dvd)
  have days: "days_before_year (Suc y) = Suc p * 365 + (p div 4 + (if Suc p mod 4 = 0 then 1 else 0))
      - (p div 100 + (if Suc p mod 100 = 0 then 1 else 0)) + (p div 400 + (if Suc p mod 400 = 0 then 1 else 0))"
    by (simp only: y days_before_year_def Let_def diff_Suc_1 4 100 400)
  have days0: "days_before_year y = p * 365 + p div 4 - p div 100 + p div 400"
    by (simp only: y days_before_year_def Let_def diff_Suc_1)
  define a b c where "a = p * 365 + p div 4" and "b = p div 100" and "c = p div 400"
  have "days_before_year (Suc y) = a + 365 + (if Suc p mod 4 = 0 then 1 else 0)
      - (b + (if Suc p mod 100 = 0 then 1 else 0)) + (c + (if Suc p mod 400 = 0 then 1 else 0))"
    unfolding days a_def b_def c_def by (simp only: mult_Suc ac_simps)
  moreover have "days_before_year y = a - b + c" and "b \<le> a"
    using sub unfolding days0 a_def b_def c_def by simp_all
  ultimately show ?thesis
    using m1 m2 unfolding leap_year_def y
    by (cases "Suc p mod 4 = 0"; cases "Suc p mod 100 = 0"; cases "Suc p mod 400 = 0") simp_all
qed

lemma days_before_month_13:
  "days_before_month y 12 + days_in_month y 12 = 365 + (if leap_year y then 1 else 0)"
  by (simp add: days_before_month_numeral days_in_month_def month_days_def)

lemma days_before_year_mono:
  assumes "1 \<le> y" "y < y'"
  shows "days_before_year y + 365 + (if leap_year y then 1 else 0) \<le> days_before_year y'"
  using assms(2)
proof (induction y')
  case (Suc k)
  show ?case
  proof (cases "y = k")
    case True
    then show ?thesis using year_length [OF assms(1)] by simp
  next
    case False
    then show ?thesis using Suc year_length [of k] assms(1) by simp
  qed
qed simp

text \<open>
  The order of ordinals is the lexicographic order of year, month and day, so an interval
  test on day differences is a test on calendar order.
\<close>

lemma toordinal_less:
  assumes "valid_civil c" "valid_civil c'" "c < c'"
  shows "toordinal c < toordinal c'"
proof -
  obtain y m d where c: "c = (y, m, d)" by (cases c)
  obtain y' m' d' where c': "c' = (y', m', d')" by (cases c')
  have v: "1 \<le> y" "1 \<le> m" "m \<le> 12" "1 \<le> d" "d \<le> days_in_month y m"
    and v': "1 \<le> m'" "1 \<le> d'"
    using assms(1,2) by (simp_all add: c c' valid_civil_def)
  consider "y < y'" | "y = y'" "m < m'" | "y = y'" "m = m'" "d < d'"
    using assms(3) by (auto simp: c c' le_less)
  then show ?thesis
  proof cases
    case 1
    have "days_before_month y m + d \<le> days_before_month y 12 + days_in_month y 12"
      using days_before_month_mono [OF v(2), of 12 y] v by (cases "m = 12") auto
    then have "toordinal c < days_before_year y + 365 + (if leap_year y then 1 else 0) + 1"
      by (simp add: c toordinal_def days_before_month_13)
    also have "\<dots> \<le> days_before_year y' + 1" using days_before_year_mono [OF v(1) 1] by simp
    also have "\<dots> \<le> toordinal c'" using v' by (simp add: c' toordinal_def)
    finally show ?thesis .
  next
    case 2
    then show ?thesis using days_before_month_mono [OF v(2) 2(2), of y] v v'
      by (simp add: c c' toordinal_def)
  next
    case 3
    then show ?thesis by (simp add: c c' toordinal_def)
  qed
qed

definition next_day :: "civil \<Rightarrow> civil" where
  "next_day c = (case c of (y, m, d) \<Rightarrow>
     if d < days_in_month y m then (y, m, d + 1)
     else if m < 12 then (y, m + 1, 1)
     else (y + 1, 1, 1))"

lemma toordinal_next_day:
  assumes "valid_civil c"
  shows "toordinal (next_day c) = Suc (toordinal c)"
proof -
  obtain y m d where c: "c = (y, m, d)" by (cases c)
  have v: "1 \<le> y" "1 \<le> m" "m \<le> 12" "d \<le> days_in_month y m"
    using assms by (simp_all add: c valid_civil_def)
  consider "d < days_in_month y m" | "d = days_in_month y m" "m < 12" | "d = days_in_month y m" "m = 12"
    using v by linarith
  then show ?thesis
  proof cases
    case 3
    then show ?thesis
      using days_before_month_13 [of y] year_length [OF v(1)]
      by (simp add: c next_day_def toordinal_def)
  qed (use v in \<open>simp_all add: c next_day_def toordinal_def days_before_month_step\<close>)
qed

lemma valid_next_day:
  assumes "valid_civil c" "c < e" "valid_civil e"
  shows "valid_civil (next_day c)"
proof -
  obtain y m d where c: "c = (y, m, d)" by (cases c)
  obtain y' m' d' where e: "e = (y', m', d')" by (cases e)
  have "y + 1 \<le> 9999" if "m = 12" "d = days_in_month y m"
    using assms that by (auto simp: c e valid_civil_def days_in_month_def month_days_def)
  then show ?thesis
    using assms(1) days_in_month_pos [of "m + 1" y] days_in_month_pos [of 1 "y + 1"]
    by (auto simp: c next_day_def valid_civil_def)
qed

lemmas civil_eval =
  toordinal_def days_before_year_def days_before_month_numeral days_in_month_def month_days_def
  leap_year_def Let_def

lemma toordinal_less_iff:
  "valid_civil c \<Longrightarrow> valid_civil c' \<Longrightarrow> toordinal c < toordinal c' \<longleftrightarrow> c < c'"
  by (metis less_asym linorder_less_linear toordinal_less)

end
