(* ===== verification/Market_Session.thy ===== *)
theory Market_Session
  imports Prelude
begin

text \<open>
  The constants of \<open>src/config/market_session.py\<close> that the modelled code reads. A time of
  day is the six-digit text the sources compare as text; \<open>_HMS\<close> is the same as a number.
\<close>

definition DECISION_WINDOW_START_HHMMSS :: string where
  "DECISION_WINDOW_START_HHMMSS = ''152000''"

definition DECISION_WINDOW_END_HHMMSS :: string where
  "DECISION_WINDOW_END_HHMMSS = ''153000''"

definition DECISION_WINDOW_START_HMS :: int where
  "DECISION_WINDOW_START_HMS = int (digits_val DECISION_WINDOW_START_HHMMSS)"

definition DECISION_WINDOW_END_HMS :: int where
  "DECISION_WINDOW_END_HMS = int (digits_val DECISION_WINDOW_END_HHMMSS)"

definition REALTIME_REQUOTE_DEADLINE_HHMMSS :: string where
  "REALTIME_REQUOTE_DEADLINE_HHMMSS = ''152800''"

definition CLOSING_AUCTION_CONFIRMED_MKOP_CODE :: string where
  "CLOSING_AUCTION_CONFIRMED_MKOP_CODE = ''112''"

definition CLOSING_AUCTION_CONFIRM_EARLIEST_HHMMSS :: string where
  "CLOSING_AUCTION_CONFIRM_EARLIEST_HHMMSS = DECISION_WINDOW_END_HHMMSS"

definition ARCHIVE_REGULAR_READY_HHMMSS :: string where
  "ARCHIVE_REGULAR_READY_HHMMSS = ''154000''"

definition PAPER_EXIT_OPEN_QUOTE_EARLIEST_HHMMSS :: string where
  "PAPER_EXIT_OPEN_QUOTE_EARLIEST_HHMMSS = ''090030''"

definition PAPER_EXIT_WINDOW_END_HHMMSS :: string where
  "PAPER_EXIT_WINDOW_END_HHMMSS = ''093000''"

definition ORDER_ENTRY_EARLIEST_HHMMSS :: string where
  "ORDER_ENTRY_EARLIEST_HHMMSS = DECISION_WINDOW_START_HHMMSS"

definition ORDER_ENTRY_DECISION_WAIT_DEADLINE_HHMMSS :: string where
  "ORDER_ENTRY_DECISION_WAIT_DEADLINE_HHMMSS = REALTIME_REQUOTE_DEADLINE_HHMMSS"

definition ORDER_ENTRY_SUBMIT_DEADLINE_HHMMSS :: string where
  "ORDER_ENTRY_SUBMIT_DEADLINE_HHMMSS = ''152900''"

definition ORDER_EXIT_EARLIEST_HHMMSS :: string where
  "ORDER_EXIT_EARLIEST_HHMMSS = ''084000''"

definition ORDER_EXIT_SUBMIT_DEADLINE_HHMMSS :: string where
  "ORDER_EXIT_SUBMIT_DEADLINE_HHMMSS = ''085900''"

definition ORDER_ENTRY_RECONCILE_EARLIEST_HHMMSS :: string where
  "ORDER_ENTRY_RECONCILE_EARLIEST_HHMMSS = ''153030''"

definition ORDER_ENTRY_RECONCILE_DEADLINE_HHMMSS :: string where
  "ORDER_ENTRY_RECONCILE_DEADLINE_HHMMSS = ARCHIVE_REGULAR_READY_HHMMSS"

definition ORDER_EXIT_RECONCILE_EARLIEST_HHMMSS :: string where
  "ORDER_EXIT_RECONCILE_EARLIEST_HHMMSS = PAPER_EXIT_OPEN_QUOTE_EARLIEST_HHMMSS"

definition ORDER_EXIT_RECONCILE_DEADLINE_HHMMSS :: string where
  "ORDER_EXIT_RECONCILE_DEADLINE_HHMMSS = PAPER_EXIT_WINDOW_END_HHMMSS"

text \<open>
  Texts of equal length made of digits compare as the numbers they write, so comparing
  clock texts is comparing times.
\<close>

lemma digits_val_snoc: "digits_val (s @ [c]) = 10 * digits_val s + digit_val c"
  by (simp add: digits_val_def)

lemma digits_val_Cons: "digits_val (c # s) = digit_val c * 10 ^ length s + digits_val s"
proof (induction s rule: rev_induct)
  case (snoc d s)
  have "digits_val (c # s @ [d]) = 10 * digits_val (c # s) + digit_val d"
    using digits_val_snoc [of "c # s" d] by simp
  then show ?case using snoc by (simp add: digits_val_snoc algebra_simps)
qed (simp add: digits_val_def)

lemma digit_val_less: "is_digit c \<Longrightarrow> digit_val c < 10"
  by (auto simp: is_digit_def digit_val_def)

lemma digits_val_bound: "list_all is_digit s \<Longrightarrow> digits_val s < 10 ^ length s"
proof (induction s)
  case (Cons c s)
  have "digit_val c * 10 ^ length s \<le> 9 * 10 ^ length s"
    using digit_val_less [of c] Cons.prems by (intro mult_le_mono1) simp
  moreover have "digits_val s < 10 ^ length s" using Cons by simp
  ultimately have "digit_val c * 10 ^ length s + digits_val s < 10 * 10 ^ length s" by linarith
  then show ?case by (simp add: digits_val_Cons)
qed (simp add: digits_val_def)

lemma digit_val_less_iff: "is_digit c \<Longrightarrow> is_digit d \<Longrightarrow> digit_val c < digit_val d \<longleftrightarrow> c < d"
  by (auto simp: is_digit_def digit_val_def less_char_def)

lemma digit_val_inject: "is_digit c \<Longrightarrow> is_digit d \<Longrightarrow> digit_val c = digit_val d \<longleftrightarrow> c = d"
  by (metis digit_val_less_iff less_irrefl linorder_neqE)

lemma digits_less_iff:
  "list_all is_digit s \<Longrightarrow> list_all is_digit t \<Longrightarrow> length s = length t \<Longrightarrow>
   s < t \<longleftrightarrow> digits_val s < digits_val t"
proof (induction s arbitrary: t)
  case Nil
  then show ?case by (simp add: digits_val_def)
next
  case (Cons c s)
  then obtain d u where t: "t = d # u" by (cases t) auto
  have bs: "digits_val s < 10 ^ length s" and bu: "digits_val u < 10 ^ length s"
    using digits_val_bound [of s] digits_val_bound [of u] Cons.prems t by simp_all
  have IH: "s < u \<longleftrightarrow> digits_val s < digits_val u" using Cons t by simp
  have dc: "is_digit c" "is_digit d" using Cons.prems t by simp_all
  consider "c = d" | "c < d" | "d < c" by (metis linorder_neqE)
  then show ?case
  proof cases
    case 1
    then show ?thesis using IH Cons.prems t by (simp add: digits_val_Cons)
  next
    case 2
    then have "Suc (digit_val c) * 10 ^ length s \<le> digit_val d * 10 ^ length s"
      using dc by (intro mult_le_mono1) (simp add: digit_val_less_iff Suc_le_eq)
    then show ?thesis using 2 bs Cons.prems t by (simp add: digits_val_Cons)
  next
    case 3
    then have "Suc (digit_val d) * 10 ^ length s \<le> digit_val c * 10 ^ length s"
      using dc by (intro mult_le_mono1) (simp add: digit_val_less_iff Suc_le_eq)
    moreover have "\<not> c < d" and "c \<noteq> d" using 3 by auto
    ultimately show ?thesis using bu Cons.prems t by (simp add: digits_val_Cons)
  qed
qed

end
