(* ===== verification/Session_Calendar.thy ===== *)
theory Session_Calendar
  imports Civil_Date Market_Session
begin

text \<open>
  \<open>src/config/krx_calendar.py\<close> and \<open>src/data/session_calendar.py\<close>, with the session clock
  of \<open>src/data/capture_contracts.py\<close>: the verified calendar of a bounded date range and
  the resolver of one date's session. A moment of Korean time is a civil date and the
  second of the day.
\<close>

section \<open>Clocks\<close>

type_synonym moment = "civil \<times> nat"

record session_clock =
  trading_date :: civil
  open_at :: moment
  close_at :: moment
  close_confirmation_deadline :: moment
  clock_provenance :: string

definition path_safe :: "string \<Rightarrow> bool" where
  "path_safe v \<longleftrightarrow> \<not> py_blank v \<and> CHR ''/'' \<notin> set v \<and> CHR 0x5C \<notin> set v \<and> CHR 0x00 \<notin> set v
     \<and> py_strip v = v \<and> v \<noteq> ''.'' \<and> v \<noteq> ''..''
     \<and> list_all (\<lambda>i. take 2 (drop i v) \<noteq> ''..'') [0..<length v]"

text \<open>The validators of \<open>SessionClock\<close>.\<close>

definition make_clock :: "session_clock \<Rightarrow> session_clock res" where
  "make_clock c =
     (if \<not> path_safe (clock_provenance c) then Inl ValueError
      else if \<not> (open_at c < close_at c \<and> close_at c \<le> close_confirmation_deadline c) then Inl ValueError
      else if fst (open_at c) \<noteq> trading_date c \<or> fst (close_at c) \<noteq> trading_date c
         \<or> fst (close_confirmation_deadline c) \<noteq> trading_date c then Inl ValueError
      else Inr c)"

definition at_hhmmss :: "civil \<Rightarrow> string \<Rightarrow> moment" where
  "at_hhmmss d s = (d, digits_val (take 2 s) * 3600 + digits_val (take 2 (drop 2 s)) * 60
      + digits_val (take 2 (drop 4 s)))"

definition standard_clock :: "civil \<Rightarrow> session_clock res" where
  "standard_clock d = make_clock \<lparr>trading_date = d, open_at = at_hhmmss d ''090000'',
     close_at = at_hhmmss d ''153000'', close_confirmation_deadline = at_hhmmss d ''153300'',
     clock_provenance = ''standard_profile''\<rparr>"

section \<open>The calendar\<close>

text \<open>Monday is 0, as in \<open>date.weekday()\<close>.\<close>

definition weekday :: "civil \<Rightarrow> nat" where
  "weekday c = (toordinal c + 6) mod 7"

definition is_weekend :: "civil \<Rightarrow> bool" where
  "is_weekend c = (5 \<le> weekday c)"

record krx_calendar =
  verified_from :: civil
  verified_through :: civil
  closed_weekdays :: "civil list"
  shifted_sessions :: "(civil \<times> session_clock) list"

definition in_verified_range :: "krx_calendar \<Rightarrow> civil \<Rightarrow> bool" where
  "in_verified_range cal d = (verified_from cal \<le> d \<and> d \<le> verified_through cal)"

definition make_calendar :: "krx_calendar \<Rightarrow> krx_calendar res" where
  "make_calendar cal =
     rbind (rforeach (\<lambda>d.
         if is_weekend d then Inl ValueError
         else if \<not> in_verified_range cal d then Inl ValueError
         else if map_of (shifted_sessions cal) d \<noteq> None then Inl ValueError
         else Inr ()) (closed_weekdays cal)) (\<lambda>_.
     rbind (rforeach (\<lambda>(key, clock).
         if is_weekend key then Inl ValueError
         else if \<not> in_verified_range cal key then Inl ValueError
         else if trading_date clock \<noteq> key then Inl ValueError
         else Inr ()) (shifted_sessions cal)) (\<lambda>_. Inr cal))"

definition KRX_CALENDAR :: krx_calendar where
  "KRX_CALENDAR = \<lparr>verified_from = (2026, 9, 25), verified_through = (2026, 12, 31),
     closed_weekdays = [(2026, 9, 25), (2026, 10, 5), (2026, 10, 9), (2026, 12, 25), (2026, 12, 31)],
     shifted_sessions = [((2026, 11, 19),
        \<lparr>trading_date = (2026, 11, 19), open_at = at_hhmmss (2026, 11, 19) ''100000'',
         close_at = at_hhmmss (2026, 11, 19) ''163000'',
         close_confirmation_deadline = at_hhmmss (2026, 11, 19) ''163300'',
         clock_provenance = ''csat_delayed_open''\<rparr>)]\<rparr>"

section \<open>The resolver\<close>

datatype session_kind = STANDARD | SHIFTED | CLOSED | UNKNOWN_SESSION

record session_day =
  day_date :: civil
  day_kind :: session_kind
  day_clock :: "session_clock option"
  day_provenance :: string

text \<open>Overrides are keyed by the ISO text of their date.\<close>

definition iso_str :: "civil \<Rightarrow> string" where
  "iso_str c = (case c of (y, m, d) \<Rightarrow>
     py_zfill 4 (nat_str y) @ ''-'' @ py_zfill 2 (nat_str m) @ ''-'' @ py_zfill 2 (nat_str d))"

definition resolve_session_day ::
  "krx_calendar \<Rightarrow> (string \<times> session_clock) list \<Rightarrow> civil \<Rightarrow> session_day res" where
  "resolve_session_day cal overrides d =
     (if is_weekend d then
        Inr \<lparr>day_date = d, day_kind = CLOSED, day_clock = None, day_provenance = ''weekend''\<rparr>
      else case map_of overrides (iso_str d) of
        Some clock \<Rightarrow>
          (if d \<in> set (closed_weekdays cal) then Inl ValueError
           else if trading_date clock \<noteq> d then Inl ValueError
           else Inr \<lparr>day_date = d, day_kind = SHIFTED, day_clock = Some clock,
                     day_provenance = ''operator_override''\<rparr>)
      | None \<Rightarrow>
          (if \<not> in_verified_range cal d then
             Inr \<lparr>day_date = d, day_kind = UNKNOWN_SESSION, day_clock = None,
                  day_provenance = ''outside_verified_range''\<rparr>
           else if d \<in> set (closed_weekdays cal) then
             Inr \<lparr>day_date = d, day_kind = CLOSED, day_clock = None, day_provenance = ''krx_calendar''\<rparr>
           else case map_of (shifted_sessions cal) d of
             Some clock \<Rightarrow> Inr \<lparr>day_date = d, day_kind = SHIFTED, day_clock = Some clock,
                                day_provenance = ''krx_calendar''\<rparr>
           | None \<Rightarrow> rbind (standard_clock d) (\<lambda>clock.
               Inr \<lparr>day_date = d, day_kind = STANDARD, day_clock = Some clock,
                    day_provenance = ''standard''\<rparr>)))"

definition trading_session_gate :: "session_day \<Rightarrow> string option" where
  "trading_session_gate day =
     (if day_kind day = STANDARD then None
      else if day_kind day = CLOSED then Some ''non_trading_day''
      else if day_kind day = SHIFTED then Some ''session_shifted''
      else Some ''calendar_unverified'')"

section \<open>Facts\<close>

lemma standard_clock_Inr: "\<exists>c. standard_clock d = Inr c \<and> trading_date c = d
    \<and> open_at c = (d, 32400) \<and> close_at c = (d, 55800)"
proof -
  have "path_safe ''standard_profile''" by code_simp
  then show ?thesis
    by (simp add: standard_clock_def make_clock_def at_hhmmss_def digits_val_def digit_val_def)
qed

lemma resolve_session_day_cases:
  assumes "resolve_session_day cal ovr d = Inr day"
  shows "day_date day = d"
    and "day_kind day = STANDARD \<Longrightarrow> \<not> is_weekend d \<and> map_of ovr (iso_str d) = None
      \<and> in_verified_range cal d \<and> d \<notin> set (closed_weekdays cal) \<and> map_of (shifted_sessions cal) d = None"
    and "day_kind day = UNKNOWN_SESSION \<Longrightarrow> \<not> in_verified_range cal d"
    and "day_kind day = CLOSED \<Longrightarrow> is_weekend d \<or> d \<in> set (closed_weekdays cal)"
    and "day_kind day = SHIFTED \<Longrightarrow> map_of ovr (iso_str d) \<noteq> None \<or> map_of (shifted_sessions cal) d \<noteq> None"
  using assms by (auto simp: resolve_session_day_def split: if_splits option.splits)

lemma resolve_without_override:
  "map_of ovr (iso_str d) = None \<Longrightarrow> \<exists>day. resolve_session_day cal ovr d = Inr day"
  using standard_clock_Inr [of d] by (auto simp: resolve_session_day_def split: option.splits)

text \<open>The calendar shipped in the source passes its own validators.\<close>

lemma KRX_CALENDAR_weekdays:
  "\<not> is_weekend (2026, 9, 25)" "\<not> is_weekend (2026, 10, 5)" "\<not> is_weekend (2026, 10, 9)"
  "\<not> is_weekend (2026, 12, 25)" "\<not> is_weekend (2026, 12, 31)" "\<not> is_weekend (2026, 11, 19)"
  by (simp_all add: is_weekend_def weekday_def civil_eval)

lemma KRX_CALENDAR_valid: "make_calendar KRX_CALENDAR = Inr KRX_CALENDAR"
  by (simp add: make_calendar_def KRX_CALENDAR_def in_verified_range_def KRX_CALENDAR_weekdays)

lemma trading_session_gate_None: "trading_session_gate day = None \<longleftrightarrow> day_kind day = STANDARD"
  by (simp add: trading_session_gate_def)

end
