(* ===== verification/Float64.thy ===== *)
theory Float64
  imports Complex_Main Prelude
begin

text \<open>
  Python's floating point numbers and decimals as exact rationals with their rounding
  written out. A \<open>float\<close> operation is the exact rational operation followed by
  \<open>rnd64\<close> (53 significant bits, ties to even, gradual underflow); a \<open>Decimal\<close>
  operation in the default context is followed by \<open>dec28\<close> (28 significant digits, ties
  to even). Both are instances of \<open>rnd_sig\<close>. \<open>float_repr\<close> is the shortest decimal
  that reads back as the same double, the text \<open>str\<close> of a float shows.

  The sign of a zero is not represented, and the exponent range is not bounded above:
  magnitudes of \<open>2 ^ 1024\<close> and more, where Python raises \<open>OverflowError\<close> or yields an
  infinity, are outside the model.
\<close>

section \<open>Rounding\<close>

definition round_half_even :: "rat \<Rightarrow> int" where
  "round_half_even x = (let f = \<lfloor>x\<rfloor>; d = x - of_int f in
     if d < 1/2 then f else if 1/2 < d then f + 1 else if even f then f else f + 1)"

lemma round_half_even_of_int [simp]: "round_half_even (of_int n) = n"
  by (simp add: round_half_even_def)

lemma round_half_even_ge_floor: "\<lfloor>x\<rfloor> \<le> round_half_even x"
  by (simp add: round_half_even_def Let_def)

lemma round_half_even_le_floor: "round_half_even x \<le> \<lfloor>x\<rfloor> + 1"
  by (simp add: round_half_even_def Let_def)

lemma round_half_even_mono: "x \<le> y \<Longrightarrow> round_half_even x \<le> round_half_even y"
proof (cases "\<lfloor>x\<rfloor> = \<lfloor>y\<rfloor>")
  case True
  assume "x \<le> y"
  then show ?thesis using True by (auto simp: round_half_even_def Let_def)
next
  case False
  assume "x \<le> y"
  then have "\<lfloor>x\<rfloor> < \<lfloor>y\<rfloor>" using False floor_mono [of x y] by linarith
  then show ?thesis
    using round_half_even_le_floor [of x] round_half_even_ge_floor [of y] by linarith
qed

lemma round_half_even_near: "\<bar>of_int (round_half_even x) - x\<bar> \<le> 1/2"
  by (auto simp: round_half_even_def Let_def abs_if field_simps) linarith+

text \<open>The termination measure of \<open>flog\<close> below: the integer part from \<open>b\<close> on, one more than that of the inverse below one.\<close>

lemma floor_div_less: "1 < y \<Longrightarrow> 1 < b \<Longrightarrow> \<lfloor>y / of_int b\<rfloor> < \<lfloor>y :: rat\<rfloor>"
proof -
  assume y: "1 < y" and b: "1 < b"
  have half: "y / of_int b \<le> y / 2"
  proof (rule divide_left_mono)
    show "2 \<le> (of_int b :: rat)" using b by linarith
  qed (use y b in simp_all)
  show ?thesis
  proof (cases "y < 2")
    case True
    then have "y / of_int b < 1" using half by linarith
    then have "\<lfloor>y / of_int b\<rfloor> < 1" by (simp add: floor_less_iff)
    moreover have "1 \<le> \<lfloor>y\<rfloor>" using y by (simp add: le_floor_iff)
    ultimately show ?thesis by linarith
  next
    case False
    then have "y / of_int b \<le> y - 1" using half by linarith
    then show ?thesis using floor_mono by fastforce
  qed
qed

text \<open>\<open>flog b x\<close> is the exponent of the leading digit of \<open>x > 0\<close> in base \<open>b\<close>.\<close>

function flog :: "int \<Rightarrow> rat \<Rightarrow> int" where
  "flog b x = (if x \<le> 0 \<or> b \<le> 1 then 0
     else if of_int b \<le> x then 1 + flog b (x / of_int b)
     else if x < 1 then flog b (x * of_int b) - 1
     else 0)"
  by pat_completeness auto

termination
proof (relation "measure (\<lambda>(b, x). if of_int b \<le> x then nat \<lfloor>x\<rfloor> else if 1 \<le> x then 0 else 1 + nat \<lfloor>1 / x\<rfloor>)")
  show "wf (measure (\<lambda>(b, x). if of_int b \<le> x then nat \<lfloor>x :: rat\<rfloor> else if 1 \<le> x then 0 else 1 + nat \<lfloor>1 / x\<rfloor>))" by simp
next
  fix b :: int and x :: rat
  assume a: "\<not> (x \<le> 0 \<or> b \<le> 1)" "of_int b \<le> x"
  then have b2: "(1::rat) < of_int b" by simp
  then have x1: "1 < x" using a by linarith
  have q: "1 \<le> x / of_int b" using a b2 by (simp add: le_divide_eq)
  have "\<lfloor>x / of_int b\<rfloor> < \<lfloor>x\<rfloor>" using floor_div_less [OF x1, of b] a by simp
  then show "((b, x / of_int b), b, x) \<in> measure (\<lambda>(b, x). if of_int b \<le> x then nat \<lfloor>x\<rfloor> else if 1 \<le> x then 0 else 1 + nat \<lfloor>1 / x\<rfloor>)"
    using q x1 a by simp
next
  fix b :: int and x :: rat
  assume a: "\<not> (x \<le> 0 \<or> b \<le> 1)" "\<not> of_int b \<le> x" "x < 1"
  have inv: "1 < 1 / x" using a by (simp add: less_divide_eq)
  have eq: "1 / (x * of_int b) = (1 / x) / of_int b" by simp
  have lt: "\<lfloor>1 / (x * of_int b)\<rfloor> < \<lfloor>1 / x\<rfloor>"
    using floor_div_less [OF inv, of b] a unfolding eq by simp
  have ge: "1 \<le> \<lfloor>1 / x\<rfloor>" using inv by (simp add: le_floor_iff)
  have small: "x * of_int b < of_int b" using a by simp
  show "((b, x * of_int b), b, x) \<in> measure (\<lambda>(b, x). if of_int b \<le> x then nat \<lfloor>x\<rfloor> else if 1 \<le> x then 0 else 1 + nat \<lfloor>1 / x\<rfloor>)"
    using lt ge a by simp
qed

declare flog.simps [simp del]

lemma powi_less_imp_less: "(a :: rat) powi m < a powi n \<Longrightarrow> 1 < a \<Longrightarrow> m < n"
  using power_int_increasing [of n m a] by (meson leI less_imp_le not_le)

lemma flog_bounds:
  "0 < x \<Longrightarrow> 1 < b \<Longrightarrow> of_int b powi flog b x \<le> x \<and> x < of_int b powi (flog b x + 1)"
proof (induction b x rule: flog.induct)
  case (1 b x)
  then have b0: "(0::rat) < of_int b" and b1: "(1::rat) < of_int b" by simp_all
  consider "of_int b \<le> x" | "x < 1" | "1 \<le> x" "x < of_int b" by linarith
  then show ?case
  proof cases
    case 1
    have "of_int b powi flog b (x / of_int b) \<le> x / of_int b
        \<and> x / of_int b < of_int b powi (flog b (x / of_int b) + 1)"
      using "1.IH"(1) "1.prems" 1 b0 by simp
    moreover have "flog b x = 1 + flog b (x / of_int b)"
      using "1.prems" 1 by (subst flog.simps) simp
    ultimately show ?thesis using b0
      by (simp add: power_int_add field_simps power2_eq_square)
  next
    case 2
    have "of_int b powi flog b (x * of_int b) \<le> x * of_int b
        \<and> x * of_int b < of_int b powi (flog b (x * of_int b) + 1)"
      using "1.IH"(2) "1.prems" 2 b0 b1 by simp
    moreover have "flog b (x * of_int b) = flog b x + 1"
      using "1.prems" 2 b1 by (subst (2) flog.simps) simp
    ultimately have lo: "of_int b powi flog b x * of_int b \<le> x * of_int b"
        and hi: "x * of_int b < of_int b powi (flog b x + 1) * of_int b"
      using b0 by (simp_all add: power_int_add power2_eq_square mult_ac)
    from mult_right_le_imp_le [OF lo b0] mult_right_less_imp_less [OF hi] b0
    show ?thesis by simp
  next
    case 3
    then have "flog b x = 0" using "1.prems" by (subst flog.simps) simp
    then show ?thesis using 3 by simp
  qed
qed

lemma flog_eqI:
  assumes "1 < b" "of_int b powi k \<le> x" "x < of_int b powi (k + 1)"
  shows "flog b x = k"
proof -
  have b1: "(1::rat) < of_int b" using assms(1) by simp
  have x0: "0 < x" using assms(2) b1 by (meson less_le_trans zero_less_power_int order.strict_trans zero_less_one)
  note fb = flog_bounds [OF x0 assms(1)]
  have "of_int b powi k < (of_int b :: rat) powi (flog b x + 1)" using assms(2) fb by linarith
  then have "k < flog b x + 1" using b1 by (rule powi_less_imp_less)
  moreover have "of_int b powi flog b x < (of_int b :: rat) powi (k + 1)" using assms(3) fb by linarith
  then have "flog b x < k + 1" using b1 by (rule powi_less_imp_less)
  ultimately show ?thesis by simp
qed

lemma flog_mono: "0 < x \<Longrightarrow> x \<le> y \<Longrightarrow> 1 < b \<Longrightarrow> flog b x \<le> flog b y"
proof -
  assume x0: "0 < x" and xy: "x \<le> y" and b: "1 < b"
  have "of_int b powi flog b x < (of_int b :: rat) powi (flog b y + 1)"
    using flog_bounds [OF x0 b] flog_bounds [of y b] x0 xy b by linarith
  then have "flog b x < flog b y + 1" by (rule powi_less_imp_less) (simp add: b)
  then show ?thesis by simp
qed

text \<open>
  \<open>rnd_sig b p emin x\<close> rounds to \<open>p\<close> significant digits in base \<open>b\<close>, never with a unit in
  the last place below \<open>b powi emin\<close>.
\<close>

definition ulp_exp :: "int \<Rightarrow> nat \<Rightarrow> int \<Rightarrow> rat \<Rightarrow> int" where
  "ulp_exp b p emin x = max (flog b \<bar>x\<bar> - int p + 1) emin"

definition rnd_sig :: "int \<Rightarrow> nat \<Rightarrow> int \<Rightarrow> rat \<Rightarrow> rat" where
  "rnd_sig b p emin x = (if x = 0 then 0
     else let u = of_int b powi ulp_exp b p emin x
          in of_int (round_half_even (x / u)) * u)"

definition rnd64 :: "rat \<Rightarrow> rat" where
  "rnd64 x = rnd_sig 2 53 (-1074) x"

definition dec28 :: "rat \<Rightarrow> rat" where
  "dec28 x = rnd_sig 10 28 (-1000026) x"

lemma rnd_sig_0 [simp]: "rnd_sig b p emin 0 = 0"
  by (simp add: rnd_sig_def)

text \<open>Integers bound the rounding: between two multiples of a power, so is the result.\<close>

lemma round_half_even_le: "x \<le> of_int n \<Longrightarrow> round_half_even x \<le> n"
  using round_half_even_mono [of x "of_int n"] by simp

lemma round_half_even_ge: "of_int n \<le> x \<Longrightarrow> n \<le> round_half_even x"
  using round_half_even_mono [of "of_int n" x] by simp

lemma power_int_nonneg_of_int:
  "0 \<le> k \<Longrightarrow> (of_int b :: rat) powi k = of_int (b ^ nat k)"
  by (simp add: power_int_def)

lemma rnd_sig_le_power:
  assumes b: "1 < b" and x: "x \<noteq> 0" and le: "x \<le> of_int b powi k" and e: "ulp_exp b p emin x \<le> k"
  shows "rnd_sig b p emin x \<le> of_int b powi k"
proof -
  let ?e = "ulp_exp b p emin x"
  have b0: "(0::rat) < of_int b" using b by simp
  then have u0: "0 < (of_int b :: rat) powi ?e" by simp
  have "x / of_int b powi ?e \<le> of_int b powi k / of_int b powi ?e"
    using le u0 by (simp add: divide_right_mono)
  also have "\<dots> = of_int (b ^ nat (k - ?e))"
    using b0 e power_int_nonneg_of_int [of "k - ?e" b] by (simp add: power_int_diff)
  finally have "round_half_even (x / of_int b powi ?e) \<le> b ^ nat (k - ?e)"
    by (rule round_half_even_le)
  then have "of_int (round_half_even (x / of_int b powi ?e)) * of_int b powi ?e
      \<le> of_int (b ^ nat (k - ?e)) * (of_int b :: rat) powi ?e"
    using u0 by (simp only: mult_le_cancel_right_pos of_int_le_iff)
  also have "\<dots> = of_int b powi k"
    using b0 e power_int_nonneg_of_int [of "k - ?e" b, symmetric]
    by (simp add: power_int_diff)
  finally show ?thesis using x by (simp add: rnd_sig_def Let_def)
qed

lemma rnd_sig_ge_power:
  assumes b: "1 < b" and ge: "of_int b powi k \<le> x" and e: "ulp_exp b p emin x \<le> k"
  shows "of_int b powi k \<le> rnd_sig b p emin x"
proof -
  let ?e = "ulp_exp b p emin x"
  have b0: "(0::rat) < of_int b" using b by simp
  then have u0: "0 < (of_int b :: rat) powi ?e" by simp
  have "0 < x" using ge zero_less_power_int [OF b0, of k] by linarith
  then have x: "x \<noteq> 0" by simp
  have "of_int (b ^ nat (k - ?e)) = (of_int b :: rat) powi k / of_int b powi ?e"
    using b0 e power_int_nonneg_of_int [of "k - ?e" b] by (simp add: power_int_diff)
  also have "\<dots> \<le> x / of_int b powi ?e"
    using ge u0 by (simp add: divide_right_mono)
  finally have *: "b ^ nat (k - ?e) \<le> round_half_even (x / of_int b powi ?e)"
    by (rule round_half_even_ge)
  have "of_int b powi k = of_int (b ^ nat (k - ?e)) * (of_int b :: rat) powi ?e"
    using b0 e power_int_nonneg_of_int [of "k - ?e" b, symmetric]
    by (simp add: power_int_diff)
  also have "\<dots> \<le> of_int (round_half_even (x / of_int b powi ?e)) * of_int b powi ?e"
    using u0 * by (simp only: mult_le_cancel_right_pos of_int_le_iff)
  finally show ?thesis using x by (simp add: rnd_sig_def Let_def)
qed

lemma rnd_sig_nonneg: "1 < b \<Longrightarrow> 0 \<le> x \<Longrightarrow> 0 \<le> rnd_sig b p emin x"
  using round_half_even_ge [of 0 "x / of_int b powi ulp_exp b p emin x"]
  by (auto simp: rnd_sig_def Let_def)

lemma rnd_sig_uminus: "rnd_sig b p emin (- x) = - rnd_sig b p emin x"
proof -
  have "round_half_even (- y) = - round_half_even y" for y
  proof (cases "y = of_int \<lfloor>y\<rfloor>")
    case True
    then show ?thesis by (metis of_int_minus round_half_even_of_int)
  next
    case False
    then have "\<lfloor>- y\<rfloor> = - \<lfloor>y\<rfloor> - 1"
      by (metis ceiling_altdef ceiling_def minus_diff_eq add.inverse_inverse minus_add_distrib diff_conv_add_uminus)
    then show ?thesis by (auto simp: round_half_even_def Let_def)
  qed
  then show ?thesis by (simp add: rnd_sig_def ulp_exp_def Let_def)
qed

lemma rnd_sig_mono_pos:
  assumes b: "1 < b" and p: "0 < p" and x: "0 < x" and xy: "x \<le> y"
  shows "rnd_sig b p emin x \<le> rnd_sig b p emin y"
proof -
  let ?ex = "ulp_exp b p emin x" and ?ey = "ulp_exp b p emin y"
  have y: "0 < y" using x xy by simp
  have le: "?ex \<le> ?ey" using flog_mono [OF x xy b] x y by (simp add: ulp_exp_def)
  show ?thesis
  proof (cases "?ex = ?ey")
    case True
    have u0: "0 < (of_int b :: rat) powi ?ey" using b by simp
    then have "x / of_int b powi ?ey \<le> y / of_int b powi ?ey" using xy by (simp add: divide_right_mono)
    then have "round_half_even (x / of_int b powi ?ey) \<le> round_half_even (y / of_int b powi ?ey)"
      by (rule round_half_even_mono)
    then show ?thesis using True x y u0 by (simp add: rnd_sig_def Let_def)
  next
    case False
    let ?k = "flog b y"
    from False le have lt: "?ex < ?ey" by simp
    then have ey: "?ey = ?k - int p + 1" using y by (auto simp: ulp_exp_def max_def split: if_splits)
    have kx: "flog b x < ?k" using lt ey x by (simp add: ulp_exp_def)
    have "x < of_int b powi (flog b x + 1)" using flog_bounds [OF x b] by simp
    also have "\<dots> \<le> of_int b powi ?k" using b kx by (simp add: power_int_increasing)
    finally have "rnd_sig b p emin x \<le> of_int b powi ?k"
      using rnd_sig_le_power [OF b, of x ?k p emin] x lt ey p by simp
    also have "\<dots> \<le> rnd_sig b p emin y"
      using rnd_sig_ge_power [OF b, of ?k y p emin] flog_bounds [OF y b] ey p by simp
    finally show ?thesis .
  qed
qed

theorem rnd_sig_mono:
  assumes b: "1 < b" and p: "0 < p" and xy: "x \<le> y"
  shows "rnd_sig b p emin x \<le> rnd_sig b p emin y"
proof -
  consider "0 < x" | "y < 0" | "x \<le> 0" "0 \<le> y" using xy by linarith
  then show ?thesis
  proof cases
    case 1
    then show ?thesis using rnd_sig_mono_pos [OF b p] xy by simp
  next
    case 2
    then have "rnd_sig b p emin (- y) \<le> rnd_sig b p emin (- x)"
      using rnd_sig_mono_pos [OF b p, of "- y" "- x"] xy by simp
    then show ?thesis by (simp add: rnd_sig_uminus)
  next
    case 3
    then have "0 \<le> rnd_sig b p emin (- x)" and "0 \<le> rnd_sig b p emin y"
      using rnd_sig_nonneg [OF b] by simp_all
    then show ?thesis by (simp add: rnd_sig_uminus)
  qed
qed

text \<open>A number with at most \<open>p\<close> digits is its own rounding.\<close>

lemma rnd_sig_exact:
  assumes b: "1 < b" and m: "\<bar>m\<bar> < b ^ p" and e: "emin \<le> e"
  shows "rnd_sig b p emin (of_int m * of_int b powi e) = of_int m * of_int b powi e"
proof (cases "m = 0")
  case False
  let ?x = "of_int m * (of_int b :: rat) powi e"
  have b0: "(0::rat) < of_int b" and b1: "(1::rat) < of_int b" using b by simp_all
  have x0: "?x \<noteq> 0" using False b0 by simp
  have "\<bar>?x\<bar> < of_int b powi (int p + e)"
  proof -
    have "(of_int \<bar>m\<bar> :: rat) < of_int (b ^ p)" using m by (simp only: of_int_less_iff)
    then show ?thesis using b0 by (simp add: abs_mult power_int_add)
  qed
  moreover have "of_int b powi flog b \<bar>?x\<bar> \<le> \<bar>?x\<bar>" using flog_bounds [of "\<bar>?x\<bar>" b] b x0 by simp
  ultimately have "(of_int b :: rat) powi flog b \<bar>?x\<bar> < of_int b powi (int p + e)" by linarith
  then have "flog b \<bar>?x\<bar> < int p + e" using b1 by (rule powi_less_imp_less)
  then have ue: "ulp_exp b p emin ?x \<le> e" using e by (simp add: ulp_exp_def)
  let ?u = "ulp_exp b p emin ?x"
  have "?x / of_int b powi ?u = of_int (m * b ^ nat (e - ?u))"
    using ue b0 power_int_nonneg_of_int [of "e - ?u" b]
    by (simp add: power_int_diff flip: times_divide_eq_right)
  then have "of_int (round_half_even (?x / of_int b powi ?u)) = ?x / of_int b powi ?u"
    by (simp only: round_half_even_of_int)
  then show ?thesis using x0 b0 by (simp add: rnd_sig_def Let_def)
qed simp

lemma rnd64_mono: "x \<le> y \<Longrightarrow> rnd64 x \<le> rnd64 y"
  by (simp add: rnd64_def rnd_sig_mono)

lemma dec28_mono: "x \<le> y \<Longrightarrow> dec28 x \<le> dec28 y"
  by (simp add: dec28_def rnd_sig_mono)

lemma rnd64_0 [simp]: "rnd64 0 = 0" and dec28_0 [simp]: "dec28 0 = 0"
  by (simp_all add: rnd64_def dec28_def)

lemma rnd64_of_int: "\<bar>n\<bar> < 2 ^ 53 \<Longrightarrow> rnd64 (of_int n) = of_int n"
  using rnd_sig_exact [of 2 n 53 "-1074" 0] by (simp add: rnd64_def)

lemma dec28_of_int: "\<bar>n\<bar> < 10 ^ 28 \<Longrightarrow> dec28 (of_int n) = of_int n"
  using rnd_sig_exact [of 10 n 28 "-1000026" 0] by (simp add: dec28_def)

lemma rnd64_nonneg: "0 \<le> x \<Longrightarrow> 0 \<le> rnd64 x"
  using rnd64_mono [of 0 x] by simp

lemma dec28_nonneg: "0 \<le> x \<Longrightarrow> 0 \<le> dec28 x"
  using dec28_mono [of 0 x] by simp

subsection \<open>Evaluation on concrete values\<close>

lemma floor_rat_numeral [simp]:
  "\<lfloor>numeral a / numeral b :: rat\<rfloor> = numeral a div numeral b"
  "\<lfloor>1 / numeral b :: rat\<rfloor> = 1 div numeral b"
  "\<lfloor>- (numeral a / numeral b) :: rat\<rfloor> = - numeral a div numeral b"
  "\<lfloor>- (1 / numeral b) :: rat\<rfloor> = - 1 div numeral b"
  using floor_divide_of_int_eq [of "numeral a" "numeral b", where 'a = rat]
    floor_divide_of_int_eq [of 1 "numeral b", where 'a = rat]
    floor_divide_of_int_eq [of "- numeral a" "numeral b", where 'a = rat]
    floor_divide_of_int_eq [of "- 1" "numeral b", where 'a = rat]
  by simp_all

lemmas float_eval =
  rnd64_def dec28_def rnd_sig_def ulp_exp_def flog.simps round_half_even_def Let_def

section \<open>Float values with infinities and NaN\<close>

datatype fl = NegInf | Fin rat | PosInf | NaN

definition f_isfinite :: "fl \<Rightarrow> bool" where
  "f_isfinite a = (case a of Fin _ \<Rightarrow> True | _ \<Rightarrow> False)"

definition f_isnan :: "fl \<Rightarrow> bool" where
  "f_isnan a = (a = NaN)"

text \<open>Comparisons are false as soon as one side is NaN.\<close>

fun f_lt :: "fl \<Rightarrow> fl \<Rightarrow> bool" where
  "f_lt NaN b = False"
| "f_lt a NaN = False"
| "f_lt NegInf b = (b \<noteq> NegInf)"
| "f_lt PosInf b = False"
| "f_lt (Fin x) (Fin y) = (x < y)"
| "f_lt (Fin x) b = (b = PosInf)"

definition f_le :: "fl \<Rightarrow> fl \<Rightarrow> bool" where
  "f_le a b = (f_lt a b \<or> (a = b \<and> a \<noteq> NaN))"

fun f_neg :: "fl \<Rightarrow> fl" where
  "f_neg NaN = NaN"
| "f_neg NegInf = PosInf"
| "f_neg PosInf = NegInf"
| "f_neg (Fin x) = Fin (- x)"

text \<open>Arithmetic of numpy's \<open>float64\<close>, where a division by zero does not raise.\<close>

fun f_add :: "fl \<Rightarrow> fl \<Rightarrow> fl" where
  "f_add (Fin x) (Fin y) = Fin (rnd64 (x + y))"
| "f_add NaN b = NaN"
| "f_add a NaN = NaN"
| "f_add PosInf NegInf = NaN"
| "f_add NegInf PosInf = NaN"
| "f_add (Fin x) b = b"
| "f_add a b = a"

fun f_mul :: "fl \<Rightarrow> fl \<Rightarrow> fl" where
  "f_mul (Fin x) (Fin y) = Fin (rnd64 (x * y))"
| "f_mul NaN b = NaN"
| "f_mul a NaN = NaN"
| "f_mul (Fin x) b = (if x = 0 then NaN else if 0 < x then b else f_neg b)"
| "f_mul a (Fin y) = (if y = 0 then NaN else if 0 < y then a else f_neg a)"
| "f_mul PosInf b = b"
| "f_mul NegInf b = f_neg b"

fun f_div :: "fl \<Rightarrow> fl \<Rightarrow> fl" where
  "f_div (Fin x) (Fin y) =
     (if y = 0 then if x = 0 then NaN else if 0 < x then PosInf else NegInf
      else Fin (rnd64 (x / y)))"
| "f_div NaN b = NaN"
| "f_div a NaN = NaN"
| "f_div (Fin x) b = Fin 0"
| "f_div a (Fin y) = (if y < 0 then f_neg a else a)"
| "f_div a b = NaN"

lemma f_isfinite_iff: "f_isfinite a \<longleftrightarrow> (\<exists>x. a = Fin x)"
  by (cases a) (simp_all add: f_isfinite_def)

lemma f_isfinite_simps [simp]:
  "f_isfinite (Fin x)" "\<not> f_isfinite NaN" "\<not> f_isfinite PosInf" "\<not> f_isfinite NegInf"
  by (simp_all add: f_isfinite_def)

text \<open>
  The total order that sorting by a key with no NaN uses; a NaN is put last, which no
  comparison of the sources relies on.
\<close>

definition fl_rank :: "fl \<Rightarrow> nat \<times> rat" where
  "fl_rank a = (case a of NegInf \<Rightarrow> (0, 0) | Fin x \<Rightarrow> (1, x) | PosInf \<Rightarrow> (2, 0) | NaN \<Rightarrow> (3, 0))"

lemma fl_rank_inject [simp]: "fl_rank a = fl_rank b \<longleftrightarrow> a = b"
  by (cases a; cases b) (simp_all add: fl_rank_def)

instantiation fl :: linorder
begin

definition less_eq_fl :: "fl \<Rightarrow> fl \<Rightarrow> bool" where
  "less_eq_fl a b = (fl_rank a \<le> fl_rank b)"

definition less_fl :: "fl \<Rightarrow> fl \<Rightarrow> bool" where
  "less_fl a b = (fl_rank a < fl_rank b)"

instance
proof
  fix a b :: fl
  show "a \<le> b \<Longrightarrow> b \<le> a \<Longrightarrow> a = b"
    by (metis antisym fl_rank_inject less_eq_fl_def)
  show "a < b \<longleftrightarrow> a \<le> b \<and> \<not> b \<le> a"
    by (simp only: less_eq_fl_def less_fl_def less_le_not_le)
  show "a \<le> b \<or> b \<le> a"
    by (simp only: less_eq_fl_def linear)
qed (simp_all only: less_eq_fl_def order.refl order.trans)

end

lemma fl_less_iff_f_lt: "a \<noteq> NaN \<Longrightarrow> b \<noteq> NaN \<Longrightarrow> a < b \<longleftrightarrow> f_lt a b"
  by (cases a; cases b) (simp_all add: less_fl_def fl_rank_def)

section \<open>Shortest decimal representation\<close>

text \<open>
  The number of digits is the least for which rounding to that many decimal digits reads
  back as the same double; seventeen always are enough.
\<close>

definition repr_digits :: "rat \<Rightarrow> nat" where
  "repr_digits x = (case find (\<lambda>n. rnd64 (rnd_sig 10 n (-1000026) x) = x) [1..<17] of
     Some n \<Rightarrow> n | None \<Rightarrow> 17)"

definition repr_val :: "rat \<Rightarrow> rat" where
  "repr_val x = rnd_sig 10 (repr_digits x) (-1000026) x"

definition exp_str :: "int \<Rightarrow> string" where
  "exp_str e = ''e'' @ (if e < 0 then ''-'' else ''+'') @ py_zfill 2 (nat_str (nat \<bar>e\<bar>))"

definition pos_repr :: "rat \<Rightarrow> string" where
  "pos_repr x = (let n = repr_digits x; v = repr_val x; e = flog 10 v;
       ds = nat_str (nat \<lfloor>v / 10 powi (e - int n + 1)\<rfloor>) in
     if - 4 \<le> e \<and> e < 16 then
       if int n \<le> e + 1 then ds @ replicate (nat (e + 1 - int n)) (CHR ''0'') @ ''.0''
       else if 0 \<le> e then take (nat (e + 1)) ds @ ''.'' @ drop (nat (e + 1)) ds
       else ''0.'' @ replicate (nat (- e - 1)) (CHR ''0'') @ ds
     else if n = 1 then ds @ exp_str e
     else take 1 ds @ ''.'' @ drop 1 ds @ exp_str e)"

definition float_str :: "fl \<Rightarrow> string" where
  "float_str a = (case a of
     NaN \<Rightarrow> ''nan'' | PosInf \<Rightarrow> ''inf'' | NegInf \<Rightarrow> ''-inf''
   | Fin x \<Rightarrow> if x = 0 then ''0.0'' else if x < 0 then ''-'' @ pos_repr (- x) else pos_repr x)"

lemma repr_val_0 [simp]: "repr_val 0 = 0"
  by (simp add: repr_val_def)

lemma repr_val_nonneg: "0 \<le> x \<Longrightarrow> 0 \<le> repr_val x"
  by (simp add: repr_val_def rnd_sig_nonneg)

end
