(* ===== verification/Cost_Model.thy ===== *)
theory Cost_Model
  imports Float64 Civil_Date Market_Session
begin

text \<open>
  \<open>src/execution/cost_model.py\<close>: the tick ladder, the statutory schedule and the
  round-trip cost composed of them. The vectorised functions act element by element, so
  each is modelled on one element and mapped over the columns by
  \<open>estimate_round_trip_cost_bp\<close>. A trade date is the ordinal of its day, \<open>None\<close> for
  NaT: every date the code compares with is a midnight, so the time of day is irrelevant.
  Reading partitions from disk and the frame means of \<open>summarize_cost_breakdown\<close> and
  \<open>breakeven_cost_bp\<close> are not modelled.
\<close>

section \<open>Contract tables\<close>

type_synonym bands = "(fl \<times> fl) list"

definition KRX_TICK_BANDS :: bands where
  "KRX_TICK_BANDS = [(Fin 2000, Fin 1), (Fin 5000, Fin 5), (Fin 20000, Fin 10),
     (Fin 50000, Fin 50), (Fin 200000, Fin 100), (Fin 500000, Fin 500), (PosInf, Fin 1000)]"

definition KRX_TICK_BANDS_PRE_REFORM_KOSPI :: bands where
  "KRX_TICK_BANDS_PRE_REFORM_KOSPI = [(Fin 1000, Fin 1), (Fin 5000, Fin 5), (Fin 10000, Fin 10),
     (Fin 50000, Fin 50), (Fin 100000, Fin 100), (Fin 500000, Fin 500), (PosInf, Fin 1000)]"

definition KRX_TICK_BANDS_PRE_REFORM_KOSDAQ :: bands where
  "KRX_TICK_BANDS_PRE_REFORM_KOSDAQ = [(Fin 1000, Fin 1), (Fin 5000, Fin 5), (Fin 10000, Fin 10),
     (Fin 50000, Fin 50), (PosInf, Fin 100)]"

definition TICK_REFORM_DATE :: nat where
  "TICK_REFORM_DATE = toordinal (2023, 1, 25)"

definition STATUTORY_BP_SCHEDULE :: "(nat \<times> rat) list" where
  "STATUTORY_BP_SCHEDULE =
     [(toordinal (1996, 1, 1), 30), (toordinal (2019, 6, 3), 25), (toordinal (2021, 1, 1), 23),
      (toordinal (2023, 1, 1), 20), (toordinal (2024, 1, 1), 18), (toordinal (2025, 1, 1), 15),
      (toordinal (2026, 1, 1), 20)]"

definition KOSDAQ_MARKET_LABELS :: "string list" where
  "KOSDAQ_MARKET_LABELS = [''KOSDAQ'', ''KSQ150'']"

definition STATUTORY_COST_BP :: rat where
  "STATUTORY_COST_BP = 20"

text \<open>The literal \<open>0.000036396\<close> is read to the nearest double, as is the product.\<close>

definition BROKERAGE_SIDE_BP :: rat where
  "BROKERAGE_SIDE_BP = rnd64 (rnd64 (36396 / 1000000000) * 10000)"

definition BROKERAGE_FEE_BP :: rat where
  "BROKERAGE_FEE_BP = rnd64 (2 * BROKERAGE_SIDE_BP)"

section \<open>Ticks\<close>

text \<open>The loop over the ladder: a band is taken while no tick is set yet.\<close>

definition tick_in_bands :: "bands \<Rightarrow> fl \<Rightarrow> fl" where
  "tick_in_bands bs x =
     fold (\<lambda>(bound, size) tick. if f_isnan tick \<and> f_lt x bound then size else tick) bs NaN"

definition valid_price :: "fl \<Rightarrow> bool" where
  "valid_price x = (f_isfinite x \<and> f_lt (Fin 0) x)"

definition krx_tick_size :: "fl \<Rightarrow> fl" where
  "krx_tick_size x = (if valid_price x then tick_in_bands KRX_TICK_BANDS x else NaN)"

definition spread_cost_bp :: "fl \<Rightarrow> fl \<Rightarrow> fl" where
  "spread_cost_bp round_trip_ticks x = (let tick = krx_tick_size x in
     if f_isfinite tick \<and> f_isfinite x \<and> f_lt (Fin 0) x
     then f_mul (f_div (f_mul round_trip_ticks tick) x) (Fin 10000) else NaN)"

definition krx_tick_size_asof :: "fl \<Rightarrow> nat option \<Rightarrow> string \<Rightarrow> fl" where
  "krx_tick_size_asof x trade_date market = (case trade_date of
     None \<Rightarrow> NaN
   | Some d \<Rightarrow>
       if \<not> valid_price x then NaN
       else if TICK_REFORM_DATE \<le> d then tick_in_bands KRX_TICK_BANDS x
       else if market \<in> set KOSDAQ_MARKET_LABELS then tick_in_bands KRX_TICK_BANDS_PRE_REFORM_KOSDAQ x
       else tick_in_bands KRX_TICK_BANDS_PRE_REFORM_KOSPI x)"

definition tick_cost_bp :: "fl \<Rightarrow> nat option \<Rightarrow> string \<Rightarrow> fl" where
  "tick_cost_bp x trade_date market = (let tick = krx_tick_size_asof x trade_date market in
     if f_isfinite tick \<and> f_isfinite x \<and> f_lt (Fin 0) x
     then f_mul (f_div tick x) (Fin 10000) else NaN)"

section \<open>Statutory tax and the round trip\<close>

text \<open>\<open>searchsorted(edges, date, side="right") - 1\<close> on the sorted edges.\<close>

definition statutory_bp_asof :: "nat option \<Rightarrow> fl" where
  "statutory_bp_asof trade_date = (case trade_date of
     None \<Rightarrow> NaN
   | Some d \<Rightarrow> (let idx = int (length (takeWhile (\<lambda>e. fst e \<le> d) STATUTORY_BP_SCHEDULE)) - 1 in
       if 0 \<le> idx then Fin (snd (STATUTORY_BP_SCHEDULE ! nat idx)) else NaN))"

definition pit_round_trip_cost_bp :: "fl \<Rightarrow> nat option \<Rightarrow> fl \<Rightarrow> fl res" where
  "pit_round_trip_cost_bp per_tick_bp trade_date round_trip_ticks =
     (if \<not> f_isfinite round_trip_ticks then Inl ValueError
      else Inr (f_add (f_add (statutory_bp_asof trade_date) (f_mul round_trip_ticks per_tick_bp))
                      (Fin BROKERAGE_FEE_BP)))"

text \<open>A column argument: not named, named but absent from the frame, or its values.\<close>

datatype 'a column = NotGiven | Absent | Column "'a list"

record cost_row =
  tick_krw :: fl
  spread_bp :: fl
  statutory_bp :: fl
  auction_impact_bp :: fl
  brokerage_bp :: fl
  round_trip_cost_bp :: fl

definition compose_row :: "fl \<Rightarrow> fl \<Rightarrow> fl \<Rightarrow> fl option \<Rightarrow> cost_row" where
  "compose_row tick spread statutory impact =
     (let impact_value = (case impact of None \<Rightarrow> NaN | Some v \<Rightarrow> v);
          impact_term = (case impact of None \<Rightarrow> Fin 0 | Some v \<Rightarrow> if f_isfinite v then v else Fin 0)
      in \<lparr>tick_krw = tick, spread_bp = spread, statutory_bp = statutory,
          auction_impact_bp = impact_value, brokerage_bp = Fin BROKERAGE_FEE_BP,
          round_trip_cost_bp = f_add (f_add (f_add statutory spread) (Fin BROKERAGE_FEE_BP)) impact_term\<rparr>)"

definition estimate_round_trip_cost_bp ::
  "fl column \<Rightarrow> fl \<Rightarrow> fl option \<Rightarrow> fl column \<Rightarrow> nat option column \<Rightarrow> string column
   \<Rightarrow> cost_row list res" where
  "estimate_round_trip_cost_bp price_col round_trip_ticks statutory impact_col date_col market_col =
     (if market_col \<noteq> NotGiven \<and> date_col = NotGiven then Inl ValueError
      else if date_col = Absent then Inl ValueError
      else case price_col of
        Column prices \<Rightarrow>
          (let n = length prices;
               impacts = (case impact_col of Column vs \<Rightarrow> map Some vs | _ \<Rightarrow> replicate n None)
           in case date_col of
             Column dates \<Rightarrow>
               (case market_col of
                  Absent \<Rightarrow> Inl KeyError
                | _ \<Rightarrow>
                  (let markets = (case market_col of Column ms \<Rightarrow> ms | _ \<Rightarrow> replicate n ''UNKNOWN'');
                       ticks = map (\<lambda>(x, d, m). krx_tick_size_asof x d m) (zip prices (zip dates markets));
                       spreads = map (\<lambda>(t, x). if f_isfinite t \<and> f_isfinite x \<and> f_lt (Fin 0) x
                          then f_mul (f_div (f_mul round_trip_ticks t) x) (Fin 10000) else NaN) (zip ticks prices)
                   in if statutory \<noteq> None then Inl ValueError
                      else Inr (map (\<lambda>(t, sp, d, i). compose_row t sp (statutory_bp_asof d) i)
                                 (zip ticks (zip spreads (zip dates impacts))))))
           | _ \<Rightarrow>
               (let s = (case statutory of None \<Rightarrow> Fin STATUTORY_COST_BP | Some v \<Rightarrow> v)
                in Inr (map (\<lambda>(x, i). compose_row (krx_tick_size x) (spread_cost_bp round_trip_ticks x) s i)
                         (zip prices impacts))))
      | _ \<Rightarrow> Inl ValueError)"

text \<open>
  The measured drift of one symbol: the last close before the decision against the last
  close of the auction, in basis points; \<open>None\<close> when it is not measured. A bar is its
  time stamp and its close.
\<close>

definition symbol_auction_impact_bp :: "int \<Rightarrow> (int \<times> fl) list \<Rightarrow> fl option" where
  "symbol_auction_impact_bp decision_hms bars =
     (let frame = filter (\<lambda>b. fst b \<le> DECISION_WINDOW_END_HMS) bars;
          ordered = sort_key fst frame;
          cont = filter (\<lambda>b. fst b < decision_hms) ordered;
          auc = filter (\<lambda>b. decision_hms \<le> fst b) ordered
      in if length cont < 10 \<or> auc = [] then None
         else let last_cont = snd (last cont); auction_close = snd (last auc)
              in if \<not> f_isfinite last_cont \<or> \<not> f_isfinite auction_close then None
                 else if f_le last_cont (Fin 0) \<or> f_le auction_close (Fin 0) then None
                 else Some (f_mul (f_add (f_div auction_close last_cont) (Fin (-1))) (Fin 10000)))"

section \<open>Facts about ticks and costs\<close>

named_theorems cost_defs \<open>tables and scalar cost functions\<close>

lemmas [cost_defs] =
  KRX_TICK_BANDS_def KRX_TICK_BANDS_PRE_REFORM_KOSPI_def KRX_TICK_BANDS_PRE_REFORM_KOSDAQ_def
  tick_in_bands_def valid_price_def krx_tick_size_def f_isnan_def

lemma valid_price_iff: "valid_price x \<longleftrightarrow> (\<exists>r. x = Fin r \<and> 0 < r)"
  by (cases x) (simp_all add: valid_price_def)

text \<open>The loop keeps the first band whose bound exceeds the price.\<close>

lemma krx_tick_size_Fin:
  "0 < r \<Longrightarrow> krx_tick_size (Fin r) =
     Fin (if r < 2000 then 1 else if r < 5000 then 5 else if r < 20000 then 10
       else if r < 50000 then 50 else if r < 200000 then 100 else if r < 500000 then 500 else 1000)"
  by (simp add: cost_defs)

lemma krx_tick_size_invalid: "\<not> valid_price x \<Longrightarrow> krx_tick_size x = NaN"
  by (simp add: krx_tick_size_def)

lemma krx_tick_size_range:
  "0 < r \<Longrightarrow> krx_tick_size (Fin r) \<in> Fin ` {1, 5, 10, 50, 100, 500, 1000}"
  by (simp add: krx_tick_size_Fin)

lemma krx_tick_size_mono:
  "0 < r \<Longrightarrow> r \<le> s \<Longrightarrow>
   \<exists>t u. krx_tick_size (Fin r) = Fin t \<and> krx_tick_size (Fin s) = Fin u \<and> t \<le> u"
  by (simp add: krx_tick_size_Fin)

lemma krx_tick_size_asof_post_reform:
  "TICK_REFORM_DATE \<le> d \<Longrightarrow> krx_tick_size_asof x (Some d) m = krx_tick_size x"
  by (simp add: krx_tick_size_asof_def krx_tick_size_def)

lemma tick_kospi_pre_reform:
  "tick_in_bands KRX_TICK_BANDS_PRE_REFORM_KOSPI (Fin r) =
     Fin (if r < 1000 then 1 else if r < 5000 then 5 else if r < 10000 then 10
       else if r < 50000 then 50 else if r < 100000 then 100 else if r < 500000 then 500 else 1000)"
  by (simp add: cost_defs)

lemma tick_kosdaq_pre_reform:
  "tick_in_bands KRX_TICK_BANDS_PRE_REFORM_KOSDAQ (Fin r) =
     Fin (if r < 1000 then 1 else if r < 5000 then 5 else if r < 10000 then 10
       else if r < 50000 then 50 else 100)"
  by (simp add: cost_defs)

lemma krx_tick_size_asof_Fin:
  assumes "0 < r"
  shows "krx_tick_size_asof (Fin r) (Some d) m \<in> Fin ` {1, 5, 10, 50, 100, 500, 1000}"
proof (cases "TICK_REFORM_DATE \<le> d")
  case True
  then show ?thesis using krx_tick_size_range [OF assms] by (simp only: krx_tick_size_asof_post_reform)
next
  case False
  then show ?thesis using assms
    by (simp add: krx_tick_size_asof_def valid_price_def tick_kospi_pre_reform tick_kosdaq_pre_reform)
qed

text \<open>The schedule is the step function of the statutory dates.\<close>

lemma toordinal_schedule:
  "toordinal (1996, 1, 1) = 728659" "toordinal (2019, 6, 3) = 737213" "toordinal (2021, 1, 1) = 737791"
  "toordinal (2023, 1, 1) = 738521" "toordinal (2024, 1, 1) = 738886" "toordinal (2025, 1, 1) = 739252"
  "toordinal (2026, 1, 1) = 739617" "toordinal (2023, 1, 25) = 738545"
  by (simp_all add: toordinal_def days_before_year_def days_before_month_numeral days_in_month_def month_days_def leap_year_def Let_def)

end
