(* ===== verification/Json_Value.thy ===== *)
theory Json_Value
  imports Float64
begin

text \<open>
  Decoded JSON values and the Python conversions the journal applies to them: \<open>str\<close>,
  \<open>int\<close>, \<open>bool\<close>, \<open>==\<close> and the scalar test of \<open>order_journal.py\<close>. An object is an
  association list in insertion order.
\<close>

datatype jval =
    JNull | JBool bool | JInt int | JFloat fl | JStr string
  | JList "jval list" | JObj "(string \<times> jval) list"

type_synonym payload = "(string \<times> jval) list"

text \<open>\<open>payload.get(key)\<close>: \<open>None\<close> for a missing key.\<close>

definition pget :: "payload \<Rightarrow> string \<Rightarrow> jval" where
  "pget p k = (case map_of p k of None \<Rightarrow> JNull | Some v \<Rightarrow> v)"

definition pget_default :: "payload \<Rightarrow> string \<Rightarrow> jval \<Rightarrow> jval" where
  "pget_default p k d = (case map_of p k of None \<Rightarrow> d | Some v \<Rightarrow> v)"

text \<open>\<open>payload[key]\<close> raises \<open>KeyError\<close> for a missing key.\<close>

definition pindex :: "payload \<Rightarrow> string \<Rightarrow> jval res" where
  "pindex p k = (case map_of p k of None \<Rightarrow> Inl KeyError | Some v \<Rightarrow> Inr v)"

text \<open>
  \<open>str(value)\<close>. Of a list or an object only the opening bracket is kept: its text is
  compared with plain words and never equals one.
\<close>

fun py_str :: "jval \<Rightarrow> string" where
  "py_str JNull = ''None''"
| "py_str (JBool b) = (if b then ''True'' else ''False'')"
| "py_str (JInt i) = int_str i"
| "py_str (JFloat f) = float_str f"
| "py_str (JStr s) = s"
| "py_str (JList _) = ''[''"
| "py_str (JObj _) = ''{''"

text \<open>The text form \<open>int\<close> accepts: white space around a sign and digits, single
  underscores between digits.\<close>

fun int_digits :: "string \<Rightarrow> string option" where
  "int_digits [] = None"
| "int_digits [c] = (if is_digit c then Some [c] else None)"
| "int_digits (c # d # s) =
     (if \<not> is_digit c then None
      else map_option (\<lambda>t. c # t) (if d = CHR ''_'' then int_digits s else int_digits (d # s)))"

definition int_of_str :: "string \<Rightarrow> int res" where
  "int_of_str s = (let t = py_strip s;
       (neg, body) = (case t of
          c # cs \<Rightarrow> if c = CHR ''-'' then (True, cs) else if c = CHR ''+'' then (False, cs) else (False, t)
        | [] \<Rightarrow> (False, []))
     in case int_digits body of
          None \<Rightarrow> Inl ValueError
        | Some ds \<Rightarrow> Inr (if neg then - int (digits_val ds) else int (digits_val ds)))"

text \<open>\<open>int(value)\<close> truncates floats towards zero.\<close>

fun py_int :: "jval \<Rightarrow> int res" where
  "py_int JNull = Inl TypeError"
| "py_int (JBool b) = Inr (if b then 1 else 0)"
| "py_int (JInt i) = Inr i"
| "py_int (JFloat f) = (case f of
     Fin x \<Rightarrow> Inr (if x < 0 then \<lceil>x\<rceil> else \<lfloor>x\<rfloor>) | NaN \<Rightarrow> Inl ValueError | _ \<Rightarrow> Inl OverflowError)"
| "py_int (JStr s) = int_of_str s"
| "py_int (JList _) = Inl TypeError"
| "py_int (JObj _) = Inl TypeError"

fun py_truth :: "jval \<Rightarrow> bool" where
  "py_truth JNull = False"
| "py_truth (JBool b) = b"
| "py_truth (JInt i) = (i \<noteq> 0)"
| "py_truth (JFloat f) = (f \<noteq> Fin 0)"
| "py_truth (JStr s) = (s \<noteq> [])"
| "py_truth (JList xs) = (xs \<noteq> [])"
| "py_truth (JObj d) = (d \<noteq> [])"

text \<open>\<open>==\<close> compares booleans, integers and floats by value.\<close>

fun num_of :: "jval \<Rightarrow> fl option" where
  "num_of (JBool b) = Some (Fin (if b then 1 else 0))"
| "num_of (JInt i) = Some (Fin (of_int i))"
| "num_of (JFloat f) = Some f"
| "num_of _ = None"

definition jeq_scalar :: "jval \<Rightarrow> jval \<Rightarrow> bool" where
  "jeq_scalar a b = (case (num_of a, num_of b) of
     (Some x, Some y) \<Rightarrow> x = y \<and> x \<noteq> NaN
   | (None, None) \<Rightarrow> a = b
   | _ \<Rightarrow> False)"

text \<open>Two flat dictionaries are equal when they have the same keys with equal values.\<close>

definition payload_eq :: "payload \<Rightarrow> payload \<Rightarrow> bool" where
  "payload_eq p q \<longleftrightarrow> set (map fst p) = set (map fst q) \<and>
     list_all (\<lambda>k. jeq_scalar (pget p k) (pget q k)) (map fst p)"

definition is_scalar :: "jval \<Rightarrow> bool" where
  "is_scalar v = (case v of
     JNull \<Rightarrow> True | JStr _ \<Rightarrow> True | JBool _ \<Rightarrow> True | JInt _ \<Rightarrow> True
   | JFloat f \<Rightarrow> f_isfinite f | _ \<Rightarrow> False)"

definition is_str :: "jval \<Rightarrow> bool" where
  "is_str v = (case v of JStr _ \<Rightarrow> True | _ \<Rightarrow> False)"

definition is_str_list :: "jval \<Rightarrow> bool" where
  "is_str_list v = (case v of JList xs \<Rightarrow> list_all is_str xs | _ \<Rightarrow> False)"

text \<open>The optional text fields of a payload: \<open>null\<close> or a string.\<close>

definition jopt_str :: "string option \<Rightarrow> jval" where
  "jopt_str v = (case v of None \<Rightarrow> JNull | Some s \<Rightarrow> JStr s)"

definition jopt_int :: "int option \<Rightarrow> jval" where
  "jopt_int v = (case v of None \<Rightarrow> JNull | Some i \<Rightarrow> JInt i)"

definition opt_py_str :: "jval \<Rightarrow> string option" where
  "opt_py_str v = (if v = JNull then None else Some (py_str v))"

lemma is_scalar_simps [simp]:
  "is_scalar JNull" "is_scalar (JStr s)" "is_scalar (JBool b)" "is_scalar (JInt i)"
  "is_scalar (JFloat f) = f_isfinite f" "\<not> is_scalar (JList xs)" "\<not> is_scalar (JObj d)"
  by (simp_all add: is_scalar_def)

lemma is_scalar_jopt [simp]: "is_scalar (jopt_str a)" "is_scalar (jopt_int b)"
  by (simp_all add: jopt_str_def jopt_int_def split: option.splits)

lemma is_str_list_JList [simp]: "is_str_list (JList (map JStr xs))"
  by (simp add: is_str_list_def is_str_def list_all_iff)

lemma opt_py_str_jopt [simp]: "opt_py_str (jopt_str v) = v"
  by (simp add: opt_py_str_def jopt_str_def split: option.splits)

lemma jeq_scalar_refl: "is_scalar v \<Longrightarrow> jeq_scalar v v"
  by (cases v) (auto simp: jeq_scalar_def f_isfinite_iff)

lemma py_int_JFloat_error: "py_int v = Inl e \<Longrightarrow> is_scalar v \<Longrightarrow> e = TypeError \<or> e = ValueError"
  by (cases v)
    (auto simp: int_of_str_def f_isfinite_iff Let_def split: option.splits prod.splits if_splits)

end
