(* ===== verification/Paper_Fills.thy ===== *)
theory Paper_Fills
  imports Cost_Model Session_Calendar Json_Value
begin

text \<open>
  The order level of \<open>src/execution/paper_broker.py\<close>: the one-side fee, the sizing rules
  and the fill oracle. Prices and quantities are whole won and shares; a time stamp is a
  moment of Korean time.
\<close>

section \<open>Orders and fills\<close>

record paper_order =
  po_order_id :: string
  po_decision_date :: string
  po_symbol :: string
  po_side :: string
  po_qty :: int
  po_limit_price :: "int option"
  po_placed_at :: moment
  po_reason :: string
  po_entry_order_id :: "string option"

record paper_fill =
  pf_order_id :: string
  pf_symbol :: string
  pf_side :: string
  pf_qty :: int
  pf_fill_price :: int
  pf_filled_at :: moment
  pf_trigger :: string

section \<open>Fees and sizing\<close>

text \<open>\<open>math.floor\<close> and \<open>math.ceil\<close> of a float raise on infinities and NaN.\<close>

definition py_floor :: "fl \<Rightarrow> int res" where
  "py_floor a = (case a of Fin x \<Rightarrow> Inr \<lfloor>x\<rfloor> | NaN \<Rightarrow> Inl ValueError | _ \<Rightarrow> Inl OverflowError)"

definition py_ceil :: "fl \<Rightarrow> int res" where
  "py_ceil a = (case a of Fin x \<Rightarrow> Inr \<lceil>x\<rceil> | NaN \<Rightarrow> Inl ValueError | _ \<Rightarrow> Inl OverflowError)"

definition fl_of_int :: "int \<Rightarrow> fl" where
  "fl_of_int n = Fin (rnd64 (of_int n))"

definition PAPER_BROKERAGE_SIDE_BP :: rat where
  "PAPER_BROKERAGE_SIDE_BP = BROKERAGE_SIDE_BP"

definition side_fee_krw :: "int \<Rightarrow> int" where
  "side_fee_krw notional_krw =
     \<lfloor>rnd64 (rnd64 (rnd64 (of_int notional_krw) * PAPER_BROKERAGE_SIDE_BP) / 10000)\<rfloor>"

definition size_order_qty :: "int \<Rightarrow> fl \<Rightarrow> int \<Rightarrow> int res" where
  "size_order_qty seed_capital allocation price =
     (if price \<le> 0 then Inl ValueError
      else if f_le allocation (Fin 0) then Inl ValueError
      else py_floor (f_div (f_mul (fl_of_int seed_capital) allocation) (fl_of_int price)))"

definition investable_capital :: "int \<Rightarrow> int \<Rightarrow> int" where
  "investable_capital cash seed_capital =
     max 0 (min seed_capital
       \<lfloor>rnd64 (rnd64 (of_int cash) / rnd64 (1 + rnd64 (PAPER_BROKERAGE_SIDE_BP / 10000)))\<rfloor>)"

definition sizing_price :: "int \<Rightarrow> fl \<Rightarrow> int res" where
  "sizing_price decision_price buffer_bp =
     (if decision_price \<le> 0 then Inl ValueError
      else if f_lt buffer_bp (Fin 0) then Inl ValueError
      else py_ceil (f_mul (fl_of_int decision_price) (f_add (Fin 1) (f_div buffer_bp (Fin 10000)))))"

section \<open>The fill oracle\<close>

definition fill_of :: "paper_order \<Rightarrow> int \<Rightarrow> moment \<Rightarrow> string \<Rightarrow> paper_fill" where
  "fill_of ord price filled trigger =
     \<lparr>pf_order_id = po_order_id ord, pf_symbol = po_symbol ord, pf_side = po_side ord,
      pf_qty = po_qty ord, pf_fill_price = price, pf_filled_at = filled, pf_trigger = trigger\<rparr>"

definition decide_fill :: "paper_order \<Rightarrow> int \<Rightarrow> moment \<Rightarrow> paper_fill option res" where
  "decide_fill ord print_price print_ts =
     (if print_ts < po_placed_at ord then Inl ValueError
      else case po_limit_price ord of
        None \<Rightarrow> Inr (Some (fill_of ord print_price print_ts ''market''))
      | Some limit \<Rightarrow>
          if po_side ord = ''buy'' then
            Inr (if print_price \<le> limit then Some (fill_of ord print_price print_ts ''limit'') else None)
          else
            Inr (if limit \<le> print_price then Some (fill_of ord print_price print_ts ''limit'') else None))"

text \<open>
  The decision row of the archive: its confirmation flag as it comes back (a boolean, a
  float, NaN or missing), its close in whole won and the time the row was taken.
\<close>

record decision_row =
  row_confirmed :: jval
  row_close :: int
  row_execution_timestamp :: moment

definition notna_true :: "jval \<Rightarrow> bool" where
  "notna_true v = (v \<noteq> JNull \<and> v \<noteq> JFloat NaN \<and> py_truth v)"

definition build_auction_fill :: "paper_order \<Rightarrow> decision_row \<Rightarrow> paper_fill option res" where
  "build_auction_fill ord row =
     (if \<not> notna_true (row_confirmed row) then Inr None
      else if row_close row \<le> 0 then Inl ValueError
      else if row_execution_timestamp row < po_placed_at ord then Inl ValueError
      else Inr (Some (fill_of ord (row_close row) (row_execution_timestamp row) ''auction_close'')))"

definition build_open_auction_fill :: "paper_order \<Rightarrow> int \<Rightarrow> moment \<Rightarrow> paper_fill option res" where
  "build_open_auction_fill ord open_price observed_at =
     (if observed_at < po_placed_at ord then Inl ValueError
      else if open_price \<le> 0 then Inr None
      else Inr (Some (fill_of ord open_price (po_placed_at ord) ''auction_open'')))"

section \<open>Order records\<close>

definition ORDER_STATUSES :: "string list" where
  "ORDER_STATUSES = [''FILLED'', ''UNCONFIRMED'', ''NO_SNAPSHOT_ROW'', ''ZERO_QTY'', ''UNFILLED'',
     ''MISSED_AUCTION'', ''INSUFFICIENT_CASH'']"

record order_row =
  or_order :: paper_order
  or_status :: string
  or_recorded_at :: moment

definition order_record :: "paper_order \<Rightarrow> string \<Rightarrow> moment \<Rightarrow> order_row res" where
  "order_record ord status now =
     (if status \<notin> set ORDER_STATUSES then Inl ValueError
      else Inr \<lparr>or_order = ord, or_status = status, or_recorded_at = now\<rparr>)"

section \<open>Carry days\<close>

text \<open>
  The loop steps from the entry's day to the exit's and counts the days that are not
  closed; both are dates of the calendar, so it makes as many steps as there are days
  between them.
\<close>

function count_sessions ::
  "(civil \<Rightarrow> session_day res) \<Rightarrow> civil \<Rightarrow> civil \<Rightarrow> nat \<Rightarrow> nat res" where
  "count_sessions resolve day until sessions =
     (if valid_civil day \<and> valid_civil until \<and> day < until then
        rbind (resolve (next_day day)) (\<lambda>sd.
          count_sessions resolve (next_day day) until
            (if day_kind sd \<noteq> CLOSED then Suc sessions else sessions))
      else Inr sessions)"
  by pat_completeness auto
termination
proof (relation "measure (\<lambda>(r, day, until, n). toordinal until - toordinal day)")
  show "wf (measure (\<lambda>(r :: civil \<Rightarrow> session_day res, day, until, n :: nat). toordinal until - toordinal day))"
    by simp
next
  fix resolve :: "civil \<Rightarrow> session_day res" and day until :: civil and sessions :: nat and sd
  assume a: "valid_civil day \<and> valid_civil until \<and> day < until"
  then have "toordinal day < toordinal until" by (simp add: toordinal_less)
  then show "((resolve, next_day day, until, if day_kind sd \<noteq> CLOSED then Suc sessions else sessions),
      resolve, day, until, sessions) \<in> measure (\<lambda>(r, day, until, n). toordinal until - toordinal day)"
    using a by (simp add: toordinal_next_day)
qed

declare count_sessions.simps [simp del]

definition carry_days ::
  "(civil \<Rightarrow> session_day res) \<Rightarrow> moment option \<Rightarrow> moment option \<Rightarrow> nat res" where
  "carry_days resolve entry_filled_at exit_filled_at =
     (case (entry_filled_at, exit_filled_at) of
        (Some entry, Some exit) \<Rightarrow>
          rbind (count_sessions resolve (fst entry) (fst exit) 0) (\<lambda>sessions. Inr (sessions - 1))
      | _ \<Rightarrow> Inl ValueError)"

section \<open>Facts about fees and fills\<close>

lemma BROKERAGE_SIDE_BP_nonneg: "0 \<le> BROKERAGE_SIDE_BP"
  by (simp add: BROKERAGE_SIDE_BP_def rnd64_nonneg)

lemma side_fee_krw_0 [simp]: "side_fee_krw 0 = 0"
  by (simp add: side_fee_krw_def)

lemma side_fee_krw_mono: "m \<le> n \<Longrightarrow> side_fee_krw m \<le> side_fee_krw n"
proof -
  assume "m \<le> n"
  then have "rnd64 (of_int m) * PAPER_BROKERAGE_SIDE_BP \<le> rnd64 (of_int n) * PAPER_BROKERAGE_SIDE_BP"
    by (intro mult_right_mono rnd64_mono) (simp_all add: PAPER_BROKERAGE_SIDE_BP_def BROKERAGE_SIDE_BP_nonneg)
  then show ?thesis
    unfolding side_fee_krw_def by (intro floor_mono rnd64_mono divide_right_mono) simp_all
qed

lemma side_fee_krw_nonneg: "0 \<le> n \<Longrightarrow> 0 \<le> side_fee_krw n"
  using side_fee_krw_mono [of 0 n] by simp

text \<open>No fill is ever declared at a time before the order was placed, nor off the limit.\<close>

lemma decide_fill_no_lookahead:
  "decide_fill ord p t = Inr (Some f) \<Longrightarrow> po_placed_at ord \<le> pf_filled_at f \<and> pf_fill_price f = p"
  by (auto simp: decide_fill_def fill_of_def split: if_splits option.splits)

lemma decide_fill_limit:
  "decide_fill ord p t = Inr (Some f) \<Longrightarrow> po_limit_price ord = Some l \<Longrightarrow>
   (if po_side ord = ''buy'' then pf_fill_price f \<le> l else l \<le> pf_fill_price f)"
  by (auto simp: decide_fill_def fill_of_def split: if_splits)

lemma build_auction_fill_confirmed:
  "build_auction_fill ord row = Inr (Some f) \<Longrightarrow>
   notna_true (row_confirmed row) \<and> 0 < pf_fill_price f \<and> pf_fill_price f = row_close row
   \<and> po_placed_at ord \<le> pf_filled_at f"
  by (auto simp: build_auction_fill_def fill_of_def split: if_splits)

end
