(* ===== verification/Order_Contract.thy ===== *)
theory Order_Contract
  imports Paper_Fills "HOL-Library.Multiset"
begin

text \<open>
  \<open>src/execution/order_contract.py\<close>: the order domain. The string enumerations are
  datatypes with their values; \<open>__post_init__\<close> is a constructor function that raises;
  prices go through \<open>Decimal\<close> and \<open>float\<close> with their rounding (see \<open>Float64\<close>).
\<close>

section \<open>Enumerations\<close>

datatype order_side = BUY | SELL
datatype order_type = LIMIT | MARKET
datatype order_phase = ENTRY | EXIT
datatype submit_verdict = ACCEPTED | REJECTED | THROTTLED | AUTH_REJECTED | NOT_SENT | AMBIGUOUS

definition side_value :: "order_side \<Rightarrow> string" where
  "side_value s = (case s of BUY \<Rightarrow> ''buy'' | SELL \<Rightarrow> ''sell'')"

definition type_value :: "order_type \<Rightarrow> string" where
  "type_value t = (case t of LIMIT \<Rightarrow> ''limit'' | MARKET \<Rightarrow> ''market'')"

definition phase_value :: "order_phase \<Rightarrow> string" where
  "phase_value p = (case p of ENTRY \<Rightarrow> ''entry'' | EXIT \<Rightarrow> ''exit'')"

definition verdict_value :: "submit_verdict \<Rightarrow> string" where
  "verdict_value v = (case v of ACCEPTED \<Rightarrow> ''accepted'' | REJECTED \<Rightarrow> ''rejected''
     | THROTTLED \<Rightarrow> ''throttled'' | AUTH_REJECTED \<Rightarrow> ''auth_rejected''
     | NOT_SENT \<Rightarrow> ''not_sent'' | AMBIGUOUS \<Rightarrow> ''ambiguous'')"

text \<open>\<open>Enum(value)\<close> looks the member up and raises \<open>ValueError\<close> for an unknown value.\<close>

definition enum_of :: "('e \<Rightarrow> string) \<Rightarrow> 'e list \<Rightarrow> string \<Rightarrow> 'e res" where
  "enum_of val members s = (case find (\<lambda>e. val e = s) members of None \<Rightarrow> Inl ValueError | Some e \<Rightarrow> Inr e)"

definition side_of :: "string \<Rightarrow> order_side res" where
  "side_of = enum_of side_value [BUY, SELL]"

definition type_of :: "string \<Rightarrow> order_type res" where
  "type_of = enum_of type_value [LIMIT, MARKET]"

definition phase_of :: "string \<Rightarrow> order_phase res" where
  "phase_of = enum_of phase_value [ENTRY, EXIT]"

definition verdict_of :: "string \<Rightarrow> submit_verdict res" where
  "verdict_of = enum_of verdict_value [ACCEPTED, REJECTED, THROTTLED, AUTH_REJECTED, NOT_SENT, AMBIGUOUS]"

section \<open>Intents and broker rows\<close>

text \<open>
  The prices of an intent arrive as decoded JSON, so a field the validator types is a
  JSON value here: \<open>type(x) is int\<close> is \<open>JInt\<close>, which excludes booleans.
\<close>

record order_intent =
  intent_id :: string
  trading_date :: string
  phase :: order_phase
  symbol :: string
  side :: order_side
  order_type :: order_type
  qty :: int
  limit_price :: jval
  decision_price :: jval
  parent_intent_id :: jval

record submit_result =
  verdict :: submit_verdict
  broker_order_no :: "string option"
  broker_org_no :: "string option"
  http_status :: "int option"
  msg_cd :: string
  msg :: string
  latency_ms :: fl

record broker_order =
  bo_order_no :: string
  bo_orig_order_no :: string
  bo_org_no :: string
  bo_symbol :: string
  bo_side :: order_side
  bo_order_qty :: int
  bo_order_price :: int
  bo_filled_qty :: int
  bo_filled_amount_krw :: int
  bo_remaining_qty :: int
  bo_cancelled :: bool
  bo_rejected_qty :: int

record broker_position =
  bp_symbol :: string
  bp_holding_qty :: int
  bp_sellable_qty :: int

record price_limits =
  pl_symbol :: string
  pl_last :: int
  pl_upper :: int
  pl_lower :: int

record entry_pick =
  ep_symbol :: string
  ep_allocation :: fl
  ep_pred :: fl
  ep_decision_price :: int
  ep_limit_price :: int

definition is_symbol :: "string \<Rightarrow> bool" where
  "is_symbol s \<longleftrightarrow> length s = 6 \<and> list_all (\<lambda>c. is_digit c \<or> is_upper c) s"

definition is_pos_int :: "jval \<Rightarrow> bool" where
  "is_pos_int v = (case v of JInt i \<Rightarrow> 0 < i | _ \<Rightarrow> False)"

definition is_nonblank_str :: "jval \<Rightarrow> bool" where
  "is_nonblank_str v = (case v of JStr s \<Rightarrow> \<not> py_blank s | _ \<Rightarrow> False)"

text \<open>\<open>OrderIntent.__post_init__\<close>, check by check.\<close>

definition make_intent :: "order_intent \<Rightarrow> order_intent res" where
  "make_intent i =
     (if \<not> is_symbol (symbol i) then Inl ValueError
      else if qty i \<le> 0 then Inl ValueError
      else if \<not> is_trading_date (trading_date i) then Inl ValueError
      else if order_type i = LIMIT \<and> \<not> is_pos_int (limit_price i) then Inl ValueError
      else if order_type i \<noteq> LIMIT \<and> limit_price i \<noteq> JNull then Inl ValueError
      else if phase i = ENTRY then
        (if side i \<noteq> BUY then Inl ValueError
         else if parent_intent_id i \<noteq> JNull then Inl ValueError
         else if \<not> is_pos_int (decision_price i) then Inl ValueError
         else Inr i)
      else
        (if side i \<noteq> SELL then Inl ValueError
         else if \<not> is_nonblank_str (parent_intent_id i) then Inl ValueError
         else Inr i))"

text \<open>The limit price of a valid intent: an integer or none.\<close>

definition int_price :: "jval \<Rightarrow> int option" where
  "int_price v = (case v of JInt i \<Rightarrow> Some i | _ \<Rightarrow> None)"

section \<open>Identities\<close>

definition entry_intent_id :: "string \<Rightarrow> string \<Rightarrow> string" where
  "entry_intent_id trade_date s = trade_date @ '':'' @ s @ '':entry''"

definition exit_intent_id :: "string \<Rightarrow> string \<Rightarrow> string" where
  "exit_intent_id parent trade_date = parent @ '':exit:'' @ trade_date"

definition normalize_order_no :: "string \<Rightarrow> string" where
  "normalize_order_no raw = (let text = py_strip raw in
     if text = [] then [] else py_lstrip_char (CHR ''0'') text)"

section \<open>Classifying a response\<close>

definition KIS_AUTH_REJECTION_CODES :: "string list" where
  "KIS_AUTH_REJECTION_CODES = [''EGW00121'', ''EGW00123'']"

definition classify_order_response :: "int \<Rightarrow> jval \<Rightarrow> submit_verdict" where
  "classify_order_response status body = (case body of
     JObj b \<Rightarrow>
       (let code = py_str (pget_default b ''msg_cd'' (JStr []));
            rt_cd = pget b ''rt_cd''
        in if code = ''EGW00201'' then THROTTLED
           else if code \<in> set KIS_AUTH_REJECTION_CODES then AUTH_REJECTED
           else if code = ''EGW02006'' then REJECTED
           else if rt_cd = JStr ''0'' then
             (case pget b ''output'' of
                JObj out \<Rightarrow> if is_nonblank_str (pget out ''ODNO'') then ACCEPTED else AMBIGUOUS
              | _ \<Rightarrow> AMBIGUOUS)
           else if status = 200 \<and> (case rt_cd of JStr r \<Rightarrow> r \<noteq> [] \<and> r \<noteq> ''0'' | _ \<Rightarrow> False)
             then REJECTED
           else AMBIGUOUS)
   | _ \<Rightarrow> AMBIGUOUS)"

section \<open>Prices and sizes\<close>

definition entry_limit_price :: "int \<Rightarrow> fl \<Rightarrow> int \<Rightarrow> int res" where
  "entry_limit_price decision_px buffer_bp upper_limit_price =
     (if decision_px \<le> 0 then Inl ValueError
      else case buffer_bp of
        Fin b \<Rightarrow>
          (if b < 0 then Inl ValueError
           else if upper_limit_price \<le> 0 then Inl ValueError
           else if upper_limit_price < decision_px then Inl ValueError
           else let raw = dec28 (of_int decision_px * dec28 (1 + dec28 (repr_val b / 10000))) in
             case krx_tick_size (Fin (rnd64 raw)) of
               Fin t \<Rightarrow>
                 (let tick = \<lfloor>t\<rfloor>;
                      floored = \<lfloor>dec28 (raw / of_int tick)\<rfloor> * tick;
                      result = min floored upper_limit_price
                  in if result < decision_px then Inl ValueError else Inr result)
             | _ \<Rightarrow> Inl ValueError)
      | _ \<Rightarrow> Inl ValueError)"

text \<open>The binary search for the largest affordable quantity.\<close>

definition affordable :: "int \<Rightarrow> int \<Rightarrow> int \<Rightarrow> bool" where
  "affordable price remaining q = (q * price + side_fee_krw (q * price) \<le> remaining)"

function search_qty :: "int \<Rightarrow> int \<Rightarrow> int \<Rightarrow> int \<Rightarrow> int" where
  "search_qty price remaining lo hi =
     (if lo < hi then
        let mid = (lo + hi + 1) div 2 in
        if affordable price remaining mid then search_qty price remaining mid hi
        else search_qty price remaining lo (mid - 1)
      else lo)"
  by pat_completeness auto
termination
  by (relation "measure (\<lambda>(p, r, lo, hi). nat (hi - lo))") auto

declare search_qty.simps [simp del]

fun check_picks :: "entry_pick list \<Rightarrow> string list \<Rightarrow> unit res" where
  "check_picks [] seen = Inr ()"
| "check_picks (p # ps) seen =
     (if ep_symbol p \<in> set seen then Inl ValueError
      else if \<not> f_isfinite (ep_allocation p) \<or> f_le (ep_allocation p) (Fin 0) then Inl ValueError
      else if ep_limit_price p \<le> 0 then Inl ValueError
      else check_picks ps (ep_symbol p # seen))"

definition rank_key :: "fl \<Rightarrow> string \<Rightarrow> nat \<times> fl \<times> string" where
  "rank_key pred s = (if f_isnan pred then (1, Fin 0, s) else (0, f_neg pred, s))"

definition alloc_budget :: "int \<Rightarrow> int \<Rightarrow> fl \<Rightarrow> int" where
  "alloc_budget capital cap allocation = (case allocation of
     Fin a \<Rightarrow> min \<lfloor>dec28 (of_int capital * repr_val a)\<rfloor> cap | _ \<Rightarrow> 0)"

fun size_loop :: "int \<Rightarrow> int \<Rightarrow> entry_pick list \<Rightarrow> int \<Rightarrow> (string \<times> int) list" where
  "size_loop capital cap [] remaining = []"
| "size_loop capital cap (p # ps) remaining =
     (let budget = alloc_budget capital cap (ep_allocation p);
          q = search_qty (ep_limit_price p) remaining 0 (budget div ep_limit_price p);
          notional = q * ep_limit_price p
      in (ep_symbol p, q) # size_loop capital cap ps (remaining - (notional + side_fee_krw notional)))"

definition size_entry_orders :: "entry_pick list \<Rightarrow> int \<Rightarrow> int \<Rightarrow> (string \<times> int) list res" where
  "size_entry_orders picks capital_krw max_notional_per_order_krw =
     (if capital_krw < 0 then Inl ValueError
      else if max_notional_per_order_krw \<le> 0 then Inl ValueError
      else rbind (check_picks picks []) (\<lambda>_.
        Inr (size_loop capital_krw max_notional_per_order_krw
               (sort_key (\<lambda>p. rank_key (ep_pred p) (ep_symbol p)) picks) capital_krw)))"

section \<open>Facts about the domain\<close>

named_theorems enum_values \<open>the text of every enumeration member\<close>

lemmas [enum_values] = side_value_def type_value_def phase_value_def verdict_value_def

lemma side_of_value [simp]: "side_of (side_value s) = Inr s"
  by (cases s) (simp_all add: side_of_def enum_of_def enum_values)

lemma type_of_value [simp]: "type_of (type_value t) = Inr t"
  by (cases t) (simp_all add: type_of_def enum_of_def enum_values)

lemma phase_of_value [simp]: "phase_of (phase_value p) = Inr p"
  by (cases p) (simp_all add: phase_of_def enum_of_def enum_values)

lemma verdict_of_value [simp]: "verdict_of (verdict_value v) = Inr v"
  by (cases v) (simp_all add: verdict_of_def enum_of_def enum_values)

lemma enum_of_Inl: "enum_of val ms s = Inl e \<Longrightarrow> e = ValueError"
  by (auto simp: enum_of_def split: option.splits)

lemma verdict_of_Inr: "verdict_of s = Inr v \<Longrightarrow> s = verdict_value v"
  by (auto simp: verdict_of_def enum_of_def enum_values split: if_splits)

definition valid_intent :: "order_intent \<Rightarrow> bool" where
  "valid_intent i \<longleftrightarrow> make_intent i = Inr i"

lemma make_intent_Inr: "make_intent i = Inr j \<longleftrightarrow> j = i \<and> valid_intent i"
  by (auto simp: make_intent_def valid_intent_def split: if_splits)

lemma make_intent_Inl: "make_intent i = Inl e \<Longrightarrow> e = ValueError"
  by (auto simp: make_intent_def split: if_splits)

lemma valid_intentD:
  assumes "valid_intent i"
  shows "0 < qty i" "is_symbol (symbol i)" "is_trading_date (trading_date i)"
    and "phase i = ENTRY \<longleftrightarrow> side i = BUY"
    and "phase i = EXIT \<longleftrightarrow> side i = SELL"
    and "phase i = ENTRY \<Longrightarrow> parent_intent_id i = JNull \<and> (\<exists>p. decision_price i = JInt p \<and> 0 < p)"
    and "phase i = EXIT \<Longrightarrow> \<exists>s. parent_intent_id i = JStr s \<and> \<not> py_blank s"
    and "order_type i = LIMIT \<Longrightarrow> \<exists>p. limit_price i = JInt p \<and> 0 < p"
    and "order_type i = MARKET \<Longrightarrow> limit_price i = JNull"
  using assms
  by (cases "phase i"; cases "side i"; cases "order_type i";
      auto simp: valid_intent_def make_intent_def is_pos_int_def is_nonblank_str_def
        split: if_splits jval.splits)+

lemma digit_not_space: "is_digit c \<Longrightarrow> \<not> py_isspace c"
  by (auto simp: is_digit_def py_isspace_def Let_def)

lemma py_strip_no_space: "(\<And>c. c \<in> set s \<Longrightarrow> \<not> py_isspace c) \<Longrightarrow> py_strip s = s"
proof -
  assume s: "\<And>c. c \<in> set s \<Longrightarrow> \<not> py_isspace c"
  have "dropWhile py_isspace t = t" if "set t = set s" for t
    using that s by (cases t) auto
  then show ?thesis by (simp add: py_strip_def)
qed

text \<open>Order numbers without inner white space are compared up to padding.\<close>

lemma normalize_order_no_pad:
  assumes "\<And>c. c \<in> set s \<Longrightarrow> \<not> py_isspace c"
  shows "normalize_order_no (replicate n (CHR ''0'') @ s) = normalize_order_no s"
proof -
  have plain: "normalize_order_no t = dropWhile (\<lambda>d. d = CHR ''0'') t" if "py_strip t = t" for t
    using that by (simp add: normalize_order_no_def py_lstrip_char_def)
  have "py_strip (replicate n (CHR ''0'') @ s) = replicate n (CHR ''0'') @ s"
    using assms by (intro py_strip_no_space) (auto simp: digit_not_space is_digit_def)
  moreover have "dropWhile (\<lambda>d. d = CHR ''0'') (replicate n (CHR ''0'') @ s) = dropWhile (\<lambda>d. d = CHR ''0'') s"
    by (induction n) simp_all
  ultimately show ?thesis using plain py_strip_no_space [OF assms] by simp
qed

section \<open>Facts about sizing\<close>

text \<open>A smaller order of the same price never costs more.\<close>

lemma affordable_antimono:
  "0 < price \<Longrightarrow> q \<le> r \<Longrightarrow> affordable price remaining r \<Longrightarrow> affordable price remaining q"
proof -
  assume "0 < price" "q \<le> r" and r: "affordable price remaining r"
  then have le: "q * price \<le> r * price" by (simp add: mult_right_mono)
  show ?thesis using le side_fee_krw_mono [OF le] r by (simp add: affordable_def)
qed

lemma search_qty_bounds: "lo \<le> hi \<Longrightarrow> lo \<le> search_qty price rem lo hi \<and> search_qty price rem lo hi \<le> hi"
proof (induction price rem lo hi rule: search_qty.induct)
  case (1 price rem lo hi)
  show ?case
  proof (cases "lo < hi")
    case True
    let ?mid = "(lo + hi + 1) div 2"
    have m: "lo < ?mid" "?mid \<le> hi" using True by auto
    show ?thesis
    proof (cases "affordable price rem ?mid")
      case True
      then have "search_qty price rem lo hi = search_qty price rem ?mid hi"
        using \<open>lo < hi\<close> by (subst search_qty.simps) simp
      then show ?thesis using "1.IH"(1) [OF \<open>lo < hi\<close> refl True] m by simp
    next
      case False
      then have "search_qty price rem lo hi = search_qty price rem lo (?mid - 1)"
        using \<open>lo < hi\<close> by (subst search_qty.simps) simp
      then show ?thesis using "1.IH"(2) [OF \<open>lo < hi\<close> refl False] m by simp
    qed
  next
    case False
    then show ?thesis using "1.prems" by (subst (1 2) search_qty.simps) simp
  qed
qed

lemma search_qty_spec:
  assumes "0 < price"
  shows "lo \<le> hi \<Longrightarrow> affordable price rem lo \<Longrightarrow>
    affordable price rem (search_qty price rem lo hi)
    \<and> (\<forall>q. search_qty price rem lo hi < q \<and> q \<le> hi \<longrightarrow> \<not> affordable price rem q)"
  using assms
proof (induction price rem lo hi rule: search_qty.induct)
  case (1 price rem lo hi)
  show ?case
  proof (cases "lo < hi")
    case True
    let ?mid = "(lo + hi + 1) div 2"
    have m: "lo < ?mid" "?mid \<le> hi" using True by auto
    show ?thesis
    proof (cases "affordable price rem ?mid")
      case True
      then have "search_qty price rem lo hi = search_qty price rem ?mid hi"
        using \<open>lo < hi\<close> by (subst search_qty.simps) simp
      then show ?thesis using "1.IH"(1) [OF \<open>lo < hi\<close> refl True] m True "1.prems"(3) by simp
    next
      case False
      then have eq: "search_qty price rem lo hi = search_qty price rem lo (?mid - 1)"
        using \<open>lo < hi\<close> by (subst search_qty.simps) simp
      have high: "\<not> affordable price rem q" if "?mid \<le> q" for q
        using affordable_antimono [OF "1.prems"(3) that] False by blast
      show ?thesis using "1.IH"(2) [OF \<open>lo < hi\<close> refl False] m "1.prems" high
        unfolding eq by (metis add.commute diff_add_cancel not_le zle_diff1_eq less_imp_le)
    qed
  next
    case False
    then have "search_qty price rem lo hi = lo" by (subst search_qty.simps) simp
    then show ?thesis using "1.prems" False by auto
  qed
qed

lemma alloc_budget_nonneg: "0 \<le> capital \<Longrightarrow> 0 < cap \<Longrightarrow> f_lt (Fin 0) a \<Longrightarrow> 0 \<le> alloc_budget capital cap a"
  by (cases a) (auto simp: alloc_budget_def intro!: dec28_nonneg mult_nonneg_nonneg repr_val_nonneg)

text \<open>What one order costs, and what a plan spends in the order it was made.\<close>

definition order_cost :: "int \<Rightarrow> int \<Rightarrow> int" where
  "order_cost price q = q * price + side_fee_krw (q * price)"

definition pick_ok :: "entry_pick \<Rightarrow> bool" where
  "pick_ok p \<longleftrightarrow> f_lt (Fin 0) (ep_allocation p) \<and> f_isfinite (ep_allocation p) \<and> 0 < ep_limit_price p"

lemma size_loop_spec:
  assumes "\<And>p. p \<in> set ps \<Longrightarrow> pick_ok p" "0 \<le> capital" "0 < cap" "0 \<le> remaining"
  shows "map fst (size_loop capital cap ps remaining) = map ep_symbol ps"
    and "list_all2 (\<lambda>p x. 0 \<le> snd x \<and> snd x * ep_limit_price p \<le> alloc_budget capital cap (ep_allocation p))
      ps (size_loop capital cap ps remaining)"
    and "sum_list (map2 (\<lambda>p x. order_cost (ep_limit_price p) (snd x)) ps (size_loop capital cap ps remaining))
      \<le> remaining"
proof -
  have "map fst (size_loop capital cap ps remaining) = map ep_symbol ps
    \<and> list_all2 (\<lambda>p x. 0 \<le> snd x \<and> snd x * ep_limit_price p \<le> alloc_budget capital cap (ep_allocation p))
      ps (size_loop capital cap ps remaining)
    \<and> sum_list (map2 (\<lambda>p x. order_cost (ep_limit_price p) (snd x)) ps (size_loop capital cap ps remaining))
      \<le> remaining"
    using assms
  proof (induction ps arbitrary: remaining)
    case (Cons p ps)
    let ?price = "ep_limit_price p" and ?budget = "alloc_budget capital cap (ep_allocation p)"
    let ?q = "search_qty ?price remaining 0 (?budget div ?price)"
    have price: "0 < ?price" and b0: "0 \<le> ?budget"
      using Cons.prems(1) [of p] alloc_budget_nonneg [OF Cons.prems(2,3)] by (auto simp: pick_ok_def)
    have hi: "0 \<le> ?budget div ?price" using price b0 by (simp add: pos_imp_zdiv_nonneg_iff)
    have q: "0 \<le> ?q" "?q \<le> ?budget div ?price" using search_qty_bounds [OF hi] by simp_all
    have "affordable ?price remaining ?q"
      using search_qty_spec [OF price hi, of remaining] Cons.prems(4) by (simp add: affordable_def)
    then have left: "0 \<le> remaining - order_cost ?price ?q" by (simp add: affordable_def order_cost_def)
    have "?q * ?price \<le> ?budget div ?price * ?price" using q(2) price by (simp add: mult_right_mono)
    also have "\<dots> \<le> ?budget" using price pos_mod_sign [of ?price ?budget]
      by (simp add: minus_mod_eq_div_mult [symmetric])
    finally have cap: "?q * ?price \<le> ?budget" .
    have IH: "map fst (size_loop capital cap ps (remaining - order_cost ?price ?q)) = map ep_symbol ps
      \<and> list_all2 (\<lambda>p x. 0 \<le> snd x \<and> snd x * ep_limit_price p \<le> alloc_budget capital cap (ep_allocation p))
        ps (size_loop capital cap ps (remaining - order_cost ?price ?q))
      \<and> sum_list (map2 (\<lambda>p x. order_cost (ep_limit_price p) (snd x)) ps
          (size_loop capital cap ps (remaining - order_cost ?price ?q))) \<le> remaining - order_cost ?price ?q"
      using Cons.prems(1-3) left by (intro Cons.IH) auto
    then show ?case using q(1) cap by (simp add: Let_def order_cost_def)
  qed simp
  then show "map fst (size_loop capital cap ps remaining) = map ep_symbol ps"
    and "list_all2 (\<lambda>p x. 0 \<le> snd x \<and> snd x * ep_limit_price p \<le> alloc_budget capital cap (ep_allocation p))
      ps (size_loop capital cap ps remaining)"
    and "sum_list (map2 (\<lambda>p x. order_cost (ep_limit_price p) (snd x)) ps (size_loop capital cap ps remaining))
      \<le> remaining" by blast+
qed

lemma check_picks_Inr:
  "check_picks ps seen = Inr u \<Longrightarrow>
   (\<forall>p\<in>set ps. pick_ok p) \<and> distinct (map ep_symbol ps) \<and> set (map ep_symbol ps) \<inter> set seen = {}"
proof (induction ps arbitrary: seen)
  case (Cons p ps)
  then have "ep_symbol p \<notin> set seen" "f_isfinite (ep_allocation p)" "\<not> f_le (ep_allocation p) (Fin 0)"
    "0 < ep_limit_price p" and rest: "check_picks ps (ep_symbol p # seen) = Inr u"
    by (auto split: if_splits)
  moreover from this have "pick_ok p" by (auto simp: pick_ok_def f_isfinite_iff f_le_def)
  ultimately show ?case using Cons.IH [OF rest] by auto
qed simp

lemma map2_map_of:
  assumes "map fst kvs = map k xs" "distinct (map k xs)"
  shows "map2 (\<lambda>x kv. f x (snd kv)) xs kvs = map (\<lambda>x. f x (the (map_of kvs (k x)))) xs"
  using assms
proof (induction xs arbitrary: kvs)
  case (Cons x xs)
  then obtain v rest where kvs: "kvs = (k x, v) # rest" "map fst rest = map k xs" by (cases kvs) auto
  have "map2 (\<lambda>x kv. f x (snd kv)) xs rest = map (\<lambda>x. f x (the (map_of rest (k x)))) xs"
    using Cons kvs by simp
  also have "\<dots> = map (\<lambda>y. f y (the (map_of kvs (k y)))) xs"
    using Cons.prems(2) kvs(1) by (intro map_cong) (auto simp: image_iff)
  finally show ?case by (simp add: kvs(1))
qed simp

lemma sum_list_mset_eq: "mset xs = mset ys \<Longrightarrow> sum_list xs = (sum_list ys :: int)"
  by (metis sum_mset_sum_list)

text \<open>The plan as a dictionary: every pick has a quantity within its budget, and all of
  them together with their fees fit the capital.\<close>

lemma size_entry_orders_plan:
  assumes "size_entry_orders picks capital cap = Inr plan"
  shows "set (map fst plan) = set (map ep_symbol picks)" "distinct (map fst plan)"
    and "\<forall>p\<in>set picks. \<exists>q. map_of plan (ep_symbol p) = Some q \<and> 0 \<le> q
      \<and> q * ep_limit_price p \<le> alloc_budget capital cap (ep_allocation p)"
    and "sum_list (map (\<lambda>p. order_cost (ep_limit_price p) (the (map_of plan (ep_symbol p)))) picks) \<le> capital"
proof -
  let ?k = "\<lambda>p. rank_key (ep_pred p) (ep_symbol p)"
  let ?ps = "sort_key ?k picks"
  have c: "0 \<le> capital" "0 < cap" "check_picks picks [] = Inr ()"
    and plan: "plan = size_loop capital cap ?ps capital"
    using assms by (auto simp: size_entry_orders_def split: if_splits)
  note ok = check_picks_Inr [OF c(3)]
  have okp: "\<And>p. p \<in> set ?ps \<Longrightarrow> pick_ok p" using ok by simp
  note spec = size_loop_spec [where ps = ?ps, OF okp c(1,2) c(1), folded plan]
  have "mset (map ep_symbol ?ps) = mset (map ep_symbol picks)" by (simp only: mset_map mset_sort)
  then have dist: "distinct (map ep_symbol ?ps)" using ok by (metis mset_eq_imp_distinct_iff)
  show "set (map fst plan) = set (map ep_symbol picks)" "distinct (map fst plan)"
    using spec(1) dist by simp_all
  have costs: "sum_list (map (\<lambda>p. order_cost (ep_limit_price p) (the (map_of plan (ep_symbol p)))) ?ps) \<le> capital"
    using spec(3) map2_map_of [OF spec(1) dist, of "\<lambda>p. order_cost (ep_limit_price p)"] by simp
  have "mset (map (\<lambda>p. order_cost (ep_limit_price p) (the (map_of plan (ep_symbol p)))) ?ps)
      = mset (map (\<lambda>p. order_cost (ep_limit_price p) (the (map_of plan (ep_symbol p)))) picks)"
    by (simp only: mset_map mset_sort)
  from sum_list_mset_eq [OF this] costs
  show "sum_list (map (\<lambda>p. order_cost (ep_limit_price p) (the (map_of plan (ep_symbol p)))) picks) \<le> capital"
    by (simp only:)
  show "\<forall>p\<in>set picks. \<exists>q. map_of plan (ep_symbol p) = Some q \<and> 0 \<le> q
      \<and> q * ep_limit_price p \<le> alloc_budget capital cap (ep_allocation p)"
  proof
    fix p
    assume "p \<in> set picks"
    then have "p \<in> set ?ps" by (simp only: set_sort)
    then obtain i where i: "i < length ?ps" "?ps ! i = p" unfolding in_set_conv_nth by blast
    have len: "length plan = length ?ps" using map_eq_imp_length_eq [OF spec(1)] .
    have "map fst plan ! i = map ep_symbol ?ps ! i" by (simp only: spec(1))
    then have key: "fst (plan ! i) = ep_symbol p" using i len by simp
    have "plan ! i \<in> set plan" using i(1) len by (simp only: nth_mem)
    then have "(ep_symbol p, snd (plan ! i)) \<in> set plan" by (simp only: key [symmetric] prod.collapse)
    moreover have "distinct (map fst plan)" using spec(1) dist by simp
    ultimately have "map_of plan (ep_symbol p) = Some (snd (plan ! i))" by simp
    then show "\<exists>q. map_of plan (ep_symbol p) = Some q \<and> 0 \<le> q
        \<and> q * ep_limit_price p \<le> alloc_budget capital cap (ep_allocation p)"
      using list_all2_nthD [OF spec(2), of i] i by simp
  qed
qed

lemma entry_limit_price_bounds:
  "entry_limit_price d b u = Inr p \<Longrightarrow> d \<le> p \<and> p \<le> u \<and> 0 < p"
  by (auto simp: entry_limit_price_def Let_def split: fl.splits if_splits)

lemma entry_limit_price_tick:
  assumes "entry_limit_price d b u = Inr p" "p < u"
  shows "\<exists>t::int. t \<in> {1, 5, 10, 50, 100, 500, 1000} \<and> t dvd p"
proof -
  obtain b' t where b: "b = Fin b'"
    and t: "krx_tick_size (Fin (rnd64 (dec28 (of_int d * dec28 (1 + dec28 (repr_val b' / 10000)))))) = Fin t"
    and p: "\<lfloor>t\<rfloor> dvd p"
    using assms by (auto simp: entry_limit_price_def Let_def min_def split: fl.splits if_splits)
  have "valid_price (Fin (rnd64 (dec28 (of_int d * dec28 (1 + dec28 (repr_val b' / 10000))))))"
    using t by (auto simp: krx_tick_size_def split: if_splits)
  then have "Fin t \<in> Fin ` {1, 5, 10, 50, 100, 500, 1000}"
    using krx_tick_size_range t by (metis fl.inject valid_price_iff)
  then show ?thesis using p by (intro exI [of _ "\<lfloor>t\<rfloor>"]) auto
qed

end
