(* ===== verification/Transport.thy ===== *)
theory Transport
  imports Json_Value
begin

text \<open>
  \<open>src/api/_transport.py\<close> and \<open>src/api/auth_rejection.py\<close>: the classification of token
  rejections and the request loop with one auth refresh, host admission before every send
  and rate-limit backoff. What the loop is given (admission, the token, the request, the
  refresh, the pause) are methods over an abstract state.
\<close>

section \<open>Auth rejections\<close>

datatype broker_vendor = KIS | LS | DBSEC | TOSS | KIWOOM

definition AUTH_REJECTION_CODES :: "broker_vendor \<Rightarrow> string list" where
  "AUTH_REJECTION_CODES v = (case v of
     KIS \<Rightarrow> [''EGW00121'', ''EGW00123'']
   | LS \<Rightarrow> [''IGW00101'', ''IGW00102'', ''IGW00123'']
   | DBSEC \<Rightarrow> [''IGW00121'', ''IGW00123'']
   | TOSS \<Rightarrow> [''invalid-token'']
   | KIWOOM \<Rightarrow> [''8005''])"

definition KIWOOM_AUTH_EXPIRED_RETURN_CODE :: int where
  "KIWOOM_AUTH_EXPIRED_RETURN_CODE = 3"

fun is_substring :: "string \<Rightarrow> string \<Rightarrow> bool" where
  "is_substring w [] = (w = [])"
| "is_substring w (c # s) = (take (length w) (c # s) = w \<or> is_substring w s)"

definition field_text :: "payload \<Rightarrow> string \<Rightarrow> string" where
  "field_text b k = py_str (pget_default b k (JStr []))"

definition is_auth_rejected :: "broker_vendor \<Rightarrow> int \<Rightarrow> jval \<Rightarrow> bool" where
  "is_auth_rejected vendor status body = (let codes = set (AUTH_REJECTION_CODES vendor) in
     case vendor of
       KIS \<Rightarrow> (case body of JObj b \<Rightarrow> field_text b ''msg_cd'' \<in> codes | _ \<Rightarrow> False)
     | KIWOOM \<Rightarrow> (case body of
         JObj b \<Rightarrow> jeq_scalar (pget b ''return_code'') (JInt KIWOOM_AUTH_EXPIRED_RETURN_CODE)
           \<and> (\<exists>code\<in>codes. is_substring code (field_text b ''return_msg''))
       | _ \<Rightarrow> False)
     | _ \<Rightarrow>
         if status = 401 then True
         else (case body of
           JObj b \<Rightarrow>
             if vendor = TOSS then (case pget b ''error'' of
                 JObj e \<Rightarrow> field_text e ''code'' \<in> codes | _ \<Rightarrow> False)
             else field_text b ''rsp_cd'' \<in> codes
         | _ \<Rightarrow> False))"

section \<open>The request loop\<close>

record transport_response =
  tr_body :: jval
  tr_headers :: "(string \<times> string) list"
  tr_status :: int

text \<open>The methods the loop is given; \<open>tp_open\<close> is the request with the body decoded.\<close>

record 's transport_port =
  tp_acquire :: "('s, unit) eff"
  tp_token :: "'s \<Rightarrow> string"
  tp_open :: "string \<Rightarrow> ('s, transport_response) eff"
  tp_refresh :: "string \<Rightarrow> ('s, unit) eff"
  tp_sleep :: "fl \<Rightarrow> ('s, unit) eff"

type_synonym rate_limit_wait = "nat \<Rightarrow> transport_response \<Rightarrow> fl option"

text \<open>One admitted send, with the token read after the admission.\<close>

definition admitted_send :: "'s transport_port \<Rightarrow> ('s, string \<times> transport_response) eff" where
  "admitted_send T = bnd (tp_acquire T) (\<lambda>_.
     bnd (gets (tp_token T)) (\<lambda>token.
     bnd (tp_open T token) (\<lambda>response. ret (token, response))))"

text \<open>The loop: \<open>attempt\<close> of \<open>attempt + Suc left\<close> attempts, \<open>refreshed\<close> once a refresh was made.\<close>

fun retry_loop ::
    "'s transport_port \<Rightarrow> (transport_response \<Rightarrow> bool) \<Rightarrow> rate_limit_wait \<Rightarrow> nat \<Rightarrow> bool \<Rightarrow> nat \<Rightarrow>
     ('s, transport_response) eff" where
  "retry_loop T rejected wait_of attempt_no refreshed 0 = throw AssertionError"
| "retry_loop T rejected wait_of attempt_no refreshed (Suc left) =
     bnd (admitted_send T) (\<lambda>(token, response).
     if rejected response \<and> \<not> refreshed then
       bnd (tp_refresh T token) (\<lambda>_.
       bnd (admitted_send T) (\<lambda>(_, response').
         if rejected response' then ret response'
         else (case wait_of attempt_no response' of
           None \<Rightarrow> ret response'
         | Some w \<Rightarrow>
             if 0 < left then bnd (tp_sleep T w) (\<lambda>_.
               retry_loop T rejected wait_of (attempt_no + 1) True left)
             else ret response')))
     else (case wait_of attempt_no response of
         None \<Rightarrow> ret response
       | Some w \<Rightarrow>
           if 0 < left then bnd (tp_sleep T w) (\<lambda>_.
             retry_loop T rejected wait_of (attempt_no + 1) refreshed left)
           else ret response))"

text \<open>\<open>RetryPolicy\<close> refuses a budget below one.\<close>

definition make_policy :: "int \<Rightarrow> nat res" where
  "make_policy max_attempts = (if max_attempts < 1 then Inl ValueError else Inr (nat max_attempts))"

definition send_with_auth_retry ::
    "'s transport_port \<Rightarrow> (transport_response \<Rightarrow> bool) \<Rightarrow> nat \<Rightarrow> rate_limit_wait \<Rightarrow>
     ('s, transport_response) eff" where
  "send_with_auth_retry T rejected max_attempts wait_of = retry_loop T rejected wait_of 0 False max_attempts"

section \<open>The loop's contract\<close>

text \<open>
  A client of the loop counts its HTTP calls and its refreshes in the state; the other
  methods leave the counts alone, and every call and refresh adds at most one.
\<close>

locale counted_transport =
  fixes T :: "'s transport_port" and calls :: "'s \<Rightarrow> nat" and refreshes :: "'s \<Rightarrow> nat"
  assumes acquire_calls: "calls (snd (tp_acquire T s)) = calls s"
    and acquire_refreshes: "refreshes (snd (tp_acquire T s)) = refreshes s"
    and open_calls: "calls (snd (tp_open T tok s)) \<le> calls s + 1"
    and open_refreshes: "refreshes (snd (tp_open T tok s)) = refreshes s"
    and refresh_calls: "calls (snd (tp_refresh T tok s)) = calls s"
    and refresh_refreshes: "refreshes (snd (tp_refresh T tok s)) \<le> refreshes s + 1"
    and sleep_calls: "calls (snd (tp_sleep T w s)) = calls s"
    and sleep_refreshes: "refreshes (snd (tp_sleep T w s)) = refreshes s"
begin

text \<open>\<open>costs a b m\<close>: at most \<open>a\<close> calls and \<open>b\<close> refreshes.\<close>

definition costs :: "nat \<Rightarrow> nat \<Rightarrow> ('s, 'a) eff \<Rightarrow> bool" where
  "costs a b m \<longleftrightarrow> (\<forall>s. calls (snd (m s)) \<le> calls s + a \<and> refreshes (snd (m s)) \<le> refreshes s + b)"

lemma costs_bnd:
  assumes "costs a b m" "\<And>x. costs c d (f x)"
  shows "costs (a + c) (b + d) (bnd m f)"
  unfolding costs_def
proof (intro allI)
  fix s
  obtain r t where m: "m s = (r, t)" by (cases "m s")
  have t: "calls t \<le> calls s + a" "refreshes t \<le> refreshes s + b"
    using assms(1) m unfolding costs_def by (metis snd_conv)+
  show "calls (snd (bnd m f s)) \<le> calls s + (a + c) \<and> refreshes (snd (bnd m f s)) \<le> refreshes s + (b + d)"
  proof (cases r)
    case (Inl e)
    then show ?thesis using t m by (simp add: bnd_def)
  next
    case (Inr x)
    have "calls (snd (f x t)) \<le> calls t + c" "refreshes (snd (f x t)) \<le> refreshes t + d"
      using assms(2) by (auto simp: costs_def)
    then show ?thesis using t m Inr by (simp add: bnd_def)
  qed
qed

lemma costs_mono: "costs a b m \<Longrightarrow> a \<le> a' \<Longrightarrow> b \<le> b' \<Longrightarrow> costs a' b' m"
  unfolding costs_def by (meson add_left_mono le_trans)

lemma costs_basic: "costs a b (ret x)" "costs a b (throw e)" "costs a b (gets g)"
  by (simp_all add: costs_def ret_def throw_def gets_def)

lemma costs_methods:
  "costs 0 0 (tp_acquire T)" "costs 1 0 (tp_open T tok)" "costs 0 1 (tp_refresh T tok)" "costs 0 0 (tp_sleep T w)"
  using acquire_calls acquire_refreshes open_calls open_refreshes refresh_calls refresh_refreshes
    sleep_calls sleep_refreshes by (simp_all add: costs_def)

lemma costs_send: "costs 1 0 (admitted_send T)"
proof -
  have "costs (0 + (0 + (1 + 0))) (0 + (0 + (0 + 0))) (admitted_send T)"
    unfolding admitted_send_def by (intro costs_bnd costs_methods costs_basic)
  then show ?thesis by simp
qed

lemma costs_if: "(c \<Longrightarrow> costs a b m) \<Longrightarrow> (\<not> c \<Longrightarrow> costs a b n) \<Longrightarrow> costs a b (if c then m else n)"
  by simp

lemma costs_retry_loop:
  "costs (left + (if refreshed then 0 else 1)) (if refreshed then 0 else 1)
     (retry_loop T rejected wait_of attempt_no refreshed left)"
proof (induction left arbitrary: attempt_no refreshed)
  case 0
  show ?case by (simp add: costs_basic)
next
  case (Suc left)
  have again: "costs (0 + (left + (if r then 0 else 1))) (0 + (if r then 0 else 1))
      (bnd (tp_sleep T w) (\<lambda>_. retry_loop T rejected wait_of (attempt_no + 1) r left))" for r w
    by (intro costs_bnd costs_methods Suc.IH)
  have wait: "costs (left + (if r then 0 else 1)) (if r then 0 else 1)
      (case wait_of attempt_no response of None \<Rightarrow> ret response
       | Some w \<Rightarrow> if 0 < left then bnd (tp_sleep T w) (\<lambda>_.
             retry_loop T rejected wait_of (attempt_no + 1) r left) else ret response)" for r response
    by (cases "wait_of attempt_no response"; cases "0 < left")
      (use again [of r] in \<open>simp_all only: costs_basic option.simps if_True if_False add_0\<close>)
  have replay: "costs (1 + left) (0 + 0)
      (bnd (admitted_send T) (\<lambda>(_, response').
         if rejected response' then ret response'
         else (case wait_of attempt_no response' of None \<Rightarrow> ret response'
          | Some w \<Rightarrow> if 0 < left then bnd (tp_sleep T w) (\<lambda>_.
             retry_loop T rejected wait_of (attempt_no + 1) True left) else ret response')))"
    by (rule costs_bnd [OF costs_send]) (use wait [of True] in \<open>auto simp: costs_basic split: prod.splits\<close>)
  have refresh: "costs (0 + (1 + left)) (1 + (0 + 0)) (bnd (tp_refresh T token) (\<lambda>_.
      bnd (admitted_send T) (\<lambda>(_, response').
         if rejected response' then ret response'
         else (case wait_of attempt_no response' of None \<Rightarrow> ret response'
          | Some w \<Rightarrow> if 0 < left then bnd (tp_sleep T w) (\<lambda>_.
             retry_loop T rejected wait_of (attempt_no + 1) True left) else ret response'))))" for token
    by (rule costs_bnd [OF costs_methods(3) replay])
  show ?case
    unfolding retry_loop.simps
  proof (rule costs_mono [OF costs_bnd [OF costs_send, where c = "left + (if refreshed then 0 else 1)"
        and d = "if refreshed then 0 else 1"]])
    fix x :: "string \<times> transport_response"
    obtain token response where x: "x = (token, response)" by (cases x)
    show "costs (left + (if refreshed then 0 else 1)) (if refreshed then 0 else 1) (case x of (token, response) \<Rightarrow>
      if rejected response \<and> \<not> refreshed then
       bnd (tp_refresh T token) (\<lambda>_.
       bnd (admitted_send T) (\<lambda>(_, response').
         if rejected response' then ret response'
         else (case wait_of attempt_no response' of
           None \<Rightarrow> ret response'
         | Some w \<Rightarrow>
             if 0 < left then bnd (tp_sleep T w) (\<lambda>_.
               retry_loop T rejected wait_of (attempt_no + 1) True left)
             else ret response')))
     else (case wait_of attempt_no response of
         None \<Rightarrow> ret response
       | Some w \<Rightarrow>
           if 0 < left then bnd (tp_sleep T w) (\<lambda>_.
             retry_loop T rejected wait_of (attempt_no + 1) refreshed left)
           else ret response))"
      using refresh [of token] wait [of refreshed response] x by (cases refreshed) auto
  qed simp_all
qed

text \<open>The HTTP call cap the policy documents: one more than the attempts.\<close>

lemma send_costs: "costs (max_attempts + 1) 1 (send_with_auth_retry T rejected max_attempts wait_of)"
  using costs_retry_loop [of max_attempts False rejected wait_of 0] by (simp add: send_with_auth_retry_def)

end

end
