(* ===== verification/Kis_Trading.thy ===== *)
theory Kis_Trading
  imports Order_Contract Transport
begin

text \<open>
  \<open>src/api/kis/trading.py\<close>: the KIS order and account client bound to one trading
  environment. The API client (token, rate limiter, HTTP session) is the parameter
  \<open>kis_env\<close>; the client's state is its token and a history: the counters of GET requests and
  token refreshes and the log of the POSTs it made, each with what came back. \<open>urlsplit\<close> and the redaction of secrets are parameters. Log output is
  left out.
\<close>

section \<open>The trading binding\<close>

definition KIS_LIVE_HOST :: string where "KIS_LIVE_HOST = ''openapi.koreainvestment.com''"
definition KIS_MOCK_HOST :: string where "KIS_MOCK_HOST = ''openapivts.koreainvestment.com''"
definition TR_SUFFIX_BUY :: string where "TR_SUFFIX_BUY = ''TTC0012U''"
definition TR_SUFFIX_SELL :: string where "TR_SUFFIX_SELL = ''TTC0011U''"
definition TR_SUFFIX_REVISE_CANCEL :: string where "TR_SUFFIX_REVISE_CANCEL = ''TTC0013U''"
definition TR_SUFFIX_BALANCE :: string where "TR_SUFFIX_BALANCE = ''TTC8434R''"
definition TR_SUFFIX_DAILY_ORDERS :: string where "TR_SUFFIX_DAILY_ORDERS = ''TTC0081R''"
definition TR_SUFFIX_BUYING_POWER :: string where "TR_SUFFIX_BUYING_POWER = ''TTC8908R''"
definition ORDER_EXCHANGE_CODE :: string where "ORDER_EXCHANGE_CODE = ''KRX''"
definition MAX_CONTINUATION_PAGES :: nat where "MAX_CONTINUATION_PAGES = 10"

definition ALLOWED_SUFFIXES :: "string list" where
  "ALLOWED_SUFFIXES = [TR_SUFFIX_BUY, TR_SUFFIX_SELL, TR_SUFFIX_REVISE_CANCEL, TR_SUFFIX_BALANCE,
     TR_SUFFIX_DAILY_ORDERS, TR_SUFFIX_BUYING_POWER]"

definition LIVE_REQUIRED_ORDER_LIMITS :: "string list" where
  "LIVE_REQUIRED_ORDER_LIMITS = [''ORDER_SEED_CAPITAL'', ''ORDER_ENTRY_LIMIT_BUFFER_BP'',
     ''ORDER_MAX_NOTIONAL_PER_ORDER_KRW'', ''ORDER_MAX_SENDS_PER_RUN'']"

datatype trading_env = MOCK | LIVE

record trading_binding =
  tb_env :: trading_env
  tb_base_url :: string
  tb_app_key :: string
  tb_app_secret :: string
  tb_account_no :: string
  tb_product_code :: string
  tb_hts_id :: string
  tb_rest_tps :: fl

record trading_settings =
  KIS_TRADING_ENV :: string
  KIS_BASE_URL :: string
  KIS_APP_KEY :: string
  KIS_APP_SECRET :: string
  KIS_ACCOUNT_ID :: string
  KIS_ACCOUNT_PRODUCT_CODE :: string
  KIS_LIVE_TRADING_CONFIRM :: string
  KIS_MOCK_BASE_URL :: string
  KIS_MOCK_APP_KEY :: string
  KIS_MOCK_APP_SECRET :: string
  KIS_MOCK_ACCOUNT_NO :: string
  KIS_MOCK_ACCOUNT_PRODUCT_CODE :: string
  KIS_MOCK_REST_TPS :: fl
  KIS_HTS_ID :: string
  model_fields_set :: "string list"

definition KIS_REST_TPS_PER_APP_KEY :: fl where
  "KIS_REST_TPS_PER_APP_KEY = Fin 18"

definition tr_id :: "trading_binding \<Rightarrow> string \<Rightarrow> string res" where
  "tr_id b suffix = (if suffix \<notin> set ALLOWED_SUFFIXES then Inl ValueError
     else Inr ((if tb_env b = MOCK then ''V'' else ''T'') @ suffix))"

text \<open>The parts of a URL that \<open>urlsplit\<close> gives; a bad URL or port raises \<open>ValueError\<close>.\<close>

record url_parts =
  url_scheme :: string
  url_hostname :: "string option"
  url_username :: "string option"
  url_password :: "string option"
  url_query :: string
  url_fragment :: string
  url_path :: string
  url_port :: "int option"

definition validate_endpoint :: "(string \<Rightarrow> url_parts res) \<Rightarrow> string \<Rightarrow> string \<Rightarrow> unit res" where
  "validate_endpoint urlsplit base_url host = (case urlsplit base_url of
     Inl e \<Rightarrow> Inl (if e = ValueError then TradingConfigError else e)
   | Inr p \<Rightarrow>
       if url_scheme p = ''https'' \<and> url_hostname p = Some host \<and> url_username p = None
         \<and> url_password p = None \<and> url_query p = [] \<and> url_fragment p = [] \<and> url_path p \<in> {[], ''/''}
         \<and> url_port p \<noteq> Some 0
       then Inr () else Inl TradingConfigError)"

definition all_digits :: "nat \<Rightarrow> string \<Rightarrow> bool" where
  "all_digits n s \<longleftrightarrow> length s = n \<and> list_all is_digit s"

definition validate_mock :: "(string \<Rightarrow> url_parts res) \<Rightarrow> trading_settings \<Rightarrow> unit res" where
  "validate_mock urlsplit c = rbind (validate_endpoint urlsplit (KIS_MOCK_BASE_URL c) KIS_MOCK_HOST) (\<lambda>_.
     if py_blank (KIS_MOCK_APP_KEY c) \<or> py_blank (KIS_MOCK_APP_SECRET c) then Inl TradingConfigError
     else if KIS_MOCK_APP_KEY c = KIS_APP_KEY c then Inl TradingConfigError
     else if \<not> py_blank (KIS_ACCOUNT_ID c) \<and> KIS_MOCK_ACCOUNT_NO c = KIS_ACCOUNT_ID c then Inl TradingConfigError
     else if \<not> all_digits 8 (KIS_MOCK_ACCOUNT_NO c) then Inl TradingConfigError
     else if \<not> all_digits 2 (KIS_MOCK_ACCOUNT_PRODUCT_CODE c) then Inl TradingConfigError
     else Inr ())"

definition last_chars :: "nat \<Rightarrow> string \<Rightarrow> string" where
  "last_chars n s = drop (length s - n) s"

definition validate_live :: "(string \<Rightarrow> url_parts res) \<Rightarrow> trading_settings \<Rightarrow> unit res" where
  "validate_live urlsplit c = rbind (validate_endpoint urlsplit (KIS_BASE_URL c) KIS_LIVE_HOST) (\<lambda>_.
     if py_blank (KIS_APP_KEY c) \<or> py_blank (KIS_APP_SECRET c) \<or> py_blank (KIS_ACCOUNT_ID c)
       then Inl TradingConfigError
     else if \<not> py_blank (KIS_MOCK_APP_KEY c) \<and> KIS_APP_KEY c = KIS_MOCK_APP_KEY c then Inl TradingConfigError
     else if \<not> all_digits 8 (KIS_ACCOUNT_ID c) then Inl TradingConfigError
     else if \<not> all_digits 2 (KIS_ACCOUNT_PRODUCT_CODE c) then Inl TradingConfigError
     else if ''LIVE-'' @ last_chars 4 (KIS_ACCOUNT_ID c) \<noteq> KIS_LIVE_TRADING_CONFIRM c then Inl TradingConfigError
     else if \<not> list_all (\<lambda>n. n \<in> set (model_fields_set c)) LIVE_REQUIRED_ORDER_LIMITS then Inl TradingConfigError
     else Inr ())"

definition resolve_trading_binding :: "(string \<Rightarrow> url_parts res) \<Rightarrow> trading_settings \<Rightarrow> trading_binding res" where
  "resolve_trading_binding urlsplit c =
     (if KIS_TRADING_ENV c = ''off'' then Inl TradingDisabledError
      else if KIS_TRADING_ENV c = ''mock'' then rbind (validate_mock urlsplit c) (\<lambda>_.
        Inr \<lparr>tb_env = MOCK, tb_base_url = KIS_MOCK_BASE_URL c, tb_app_key = KIS_MOCK_APP_KEY c,
          tb_app_secret = KIS_MOCK_APP_SECRET c, tb_account_no = KIS_MOCK_ACCOUNT_NO c,
          tb_product_code = KIS_MOCK_ACCOUNT_PRODUCT_CODE c, tb_hts_id = KIS_HTS_ID c, tb_rest_tps = KIS_MOCK_REST_TPS c\<rparr>)
      else if KIS_TRADING_ENV c = ''live'' then rbind (validate_live urlsplit c) (\<lambda>_.
        Inr \<lparr>tb_env = LIVE, tb_base_url = KIS_BASE_URL c, tb_app_key = KIS_APP_KEY c,
          tb_app_secret = KIS_APP_SECRET c, tb_account_no = KIS_ACCOUNT_ID c,
          tb_product_code = KIS_ACCOUNT_PRODUCT_CODE c, tb_hts_id = KIS_HTS_ID c, tb_rest_tps = KIS_REST_TPS_PER_APP_KEY\<rparr>)
      else Inl TradingConfigError)"

text \<open>
  The constructor of the client: a positive timeout and an API client that carries the
  binding's credentials, by default one made from them. The account never enters it.
\<close>

record api_client =
  ac_app_key :: string
  ac_app_secret :: string
  ac_base_url :: string
  ac_account_id :: string

definition rstrip_slash :: "string \<Rightarrow> string" where
  "rstrip_slash s = rev (dropWhile (\<lambda>c. c = CHR ''/'') (rev s))"

definition make_trading_client :: "trading_binding \<Rightarrow> fl \<Rightarrow> api_client option \<Rightarrow> api_client res" where
  "make_trading_client b timeout given =
     (if \<not> f_isfinite timeout \<or> f_le timeout (Fin 0) then Inl TradingConfigError
      else
        let api = (case given of None \<Rightarrow> \<lparr>ac_app_key = tb_app_key b, ac_app_secret = tb_app_secret b,
              ac_base_url = tb_base_url b, ac_account_id = []\<rparr> | Some a \<Rightarrow> a)
        in if ac_app_key api \<noteq> tb_app_key b \<or> ac_app_secret api \<noteq> tb_app_secret b
              \<or> rstrip_slash (ac_base_url api) \<noteq> rstrip_slash (tb_base_url b)
           then Inl TradingConfigError
           else Inr (api\<lparr>ac_account_id := []\<rparr>))"

section \<open>Reading vendor rows\<close>

definition parse_int :: "jval \<Rightarrow> int option" where
  "parse_int v = (if v = JNull then None else
     let text = py_strip (py_str v) in
     if text = [] then None else (case int_of_str text of Inl _ \<Rightarrow> None | Inr i \<Rightarrow> Some i))"

definition normalize_raw :: "jval \<Rightarrow> string" where
  "normalize_raw v = (if v = JNull then [] else normalize_order_no (py_str v))"

definition context_value :: "payload \<Rightarrow> string list \<Rightarrow> string res" where
  "context_value body names = (case List.map_filter (\<lambda>n. case pget body n of JStr s \<Rightarrow> Some (py_strip s) | _ \<Rightarrow> None) names of
     [] \<Rightarrow> Inl BrokerReadError | s # _ \<Rightarrow> Inr s)"

definition text_or_empty :: "jval \<Rightarrow> string" where
  "text_or_empty v = py_strip (if py_truth v then py_str v else [])"

definition parse_side :: "jval \<Rightarrow> order_side res" where
  "parse_side v = (let code = py_strip (py_str v) in
     if code = ''02'' then Inr BUY else if code = ''01'' then Inr SELL else Inl BrokerReadError)"

definition parse_order_row :: "jval \<Rightarrow> broker_order res" where
  "parse_order_row v = (case v of
     JObj row \<Rightarrow> rbind (parse_side (pget_default row ''sll_buy_dvsn_cd'' (JStr []))) (\<lambda>sd.
       case (parse_int (pget row ''ord_qty''), parse_int (pget row ''ord_unpr''),
             parse_int (pget row ''tot_ccld_qty''), parse_int (pget row ''tot_ccld_amt''),
             parse_int (pget row ''rmn_qty''), parse_int (pget row ''rjct_qty'')) of
         (Some oq, Some op, Some fq, Some fa, Some rm, Some rj) \<Rightarrow>
           (if Min {oq, op, fq, fa, rm, rj} < 0 then Inl BrokerReadError
            else
              let no = normalize_raw (pget row ''odno''); orig = normalize_raw (pget row ''orgn_odno'');
                  org = text_or_empty (pget row ''ord_gno_brno''); sy = text_or_empty (pget row ''pdno'')
              in if no = [] \<or> org = [] \<or> sy = [] then Inl BrokerReadError
                 else if pget row ''cncl_yn'' \<notin> {JStr ''Y'', JStr ''N''} then Inl BrokerReadError
                 else Inr \<lparr>bo_order_no = no, bo_orig_order_no = orig, bo_org_no = org, bo_symbol = sy,
                   bo_side = sd, bo_order_qty = oq, bo_order_price = op, bo_filled_qty = fq,
                   bo_filled_amount_krw = fa, bo_remaining_qty = rm,
                   bo_cancelled = (py_strip (py_str (pget_default row ''cncl_yn'' (JStr []))) = ''Y''),
                   bo_rejected_qty = rj\<rparr>)
       | _ \<Rightarrow> Inl BrokerReadError)
   | _ \<Rightarrow> Inl BrokerReadError)"

definition parse_position_row :: "jval \<Rightarrow> broker_position option res" where
  "parse_position_row v = (case v of
     JObj row \<Rightarrow>
       (let sy = text_or_empty (pget row ''pdno'') in
        case (parse_int (pget row ''hldg_qty''), parse_int (pget row ''ord_psbl_qty'')) of
          (Some holding, Some sellable) \<Rightarrow>
            if sy = [] \<or> holding < 0 \<or> sellable < 0 then Inl BrokerReadError
            else if holding = 0 then Inr None
            else Inr (Some \<lparr>bp_symbol = sy, bp_holding_qty = holding, bp_sellable_qty = sellable\<rparr>)
        | _ \<Rightarrow> Inl BrokerReadError)
   | _ \<Rightarrow> Inl BrokerReadError)"

text \<open>A cancel is reported as a row of its own, folded into the order it cancels.\<close>

definition is_cancel_child :: "broker_order \<Rightarrow> bool" where
  "is_cancel_child r \<longleftrightarrow> bo_cancelled r \<and> bo_orig_order_no r \<noteq> [] \<and> bo_orig_order_no r \<noteq> bo_order_no r"

definition fold_cancel_rows :: "broker_order list \<Rightarrow> broker_order list" where
  "fold_cancel_rows rows =
     (let parents = set (map bo_orig_order_no (filter is_cancel_child rows))
      in map (\<lambda>r. if bo_order_no r \<in> parents then r\<lparr>bo_cancelled := True\<rparr> else r)
           (filter (\<lambda>r. \<not> is_cancel_child r) rows))"

definition checked_body :: "transport_response \<Rightarrow> payload res" where
  "checked_body r = (case tr_body r of
     JObj b \<Rightarrow>
       if field_text b ''msg_cd'' = ''EGW00201'' then Inl BrokerReadError
       else if pget b ''rt_cd'' \<noteq> JStr ''0'' then Inl BrokerReadError
       else Inr b
   | _ \<Rightarrow> Inl BrokerReadError)"

definition output_rows :: "payload \<Rightarrow> jval list res" where
  "output_rows b = (case pget b ''output1'' of JList rows \<Rightarrow> Inr rows | _ \<Rightarrow> Inl BrokerReadError)"

section \<open>The account reads\<close>

record get_request =
  gr_path :: string
  gr_tr_id :: string
  gr_params :: "(string \<times> string) list"
  gr_tr_cont :: "string option"

text \<open>What a POST came to: the connection failed, it failed later (with the status if one was
  read), the body was no JSON, or a decoded body; each with the latency. Other exceptions
  propagate.\<close>

datatype post_outcome =
    Post_connect_error | Post_failed "int option" | Post_undecodable int | Post_decoded int jval
  | Post_raised exn

record 'w kis_env =
  ke_acquire :: "'w \<Rightarrow> unit res \<times> 'w"
  ke_get :: "get_request \<Rightarrow> string \<Rightarrow> 'w \<Rightarrow> transport_response res \<times> 'w"
  ke_post :: "string \<Rightarrow> string \<Rightarrow> (string \<times> string) list \<Rightarrow> string \<Rightarrow> 'w \<Rightarrow> (post_outcome \<times> fl) \<times> 'w"
  ke_ensure_token :: "string option \<Rightarrow> 'w \<Rightarrow> string res \<times> 'w"
  ke_quote :: "string \<Rightarrow> 'w \<Rightarrow> jval res \<times> 'w"
  ke_sleep :: "fl \<Rightarrow> 'w \<Rightarrow> unit \<times> 'w"

text \<open>One POST on the wire: what was sent, and what came of it.\<close>

record kis_post =
  kp_path :: string
  kp_tr_id :: string
  kp_body :: "(string \<times> string) list"
  kp_token :: string
  kp_outcome :: post_outcome

record 'w kis_client =
  kc_token :: string
  kc_world :: 'w
  kc_gets :: nat
  kc_refreshes :: nat
  kc_posts :: "kis_post list"

definition kis_call :: "('w \<Rightarrow> 'a res \<times> 'w) \<Rightarrow> ('w kis_client, 'a) eff" where
  "kis_call f = (\<lambda>s. let (r, w) = f (kc_world s) in (r, s\<lparr>kc_world := w\<rparr>))"

definition ensure_token :: "'w kis_env \<Rightarrow> string option \<Rightarrow> ('w kis_client, unit) eff" where
  "ensure_token E rejected_token = (\<lambda>s. let (r, w) = ke_ensure_token E rejected_token (kc_world s) in
     (case r of
        Inl e \<Rightarrow> (Inl e, s\<lparr>kc_world := w, kc_refreshes := kc_refreshes s + 1\<rparr>)
      | Inr tok \<Rightarrow> (Inr (), s\<lparr>kc_world := w, kc_refreshes := kc_refreshes s + 1, kc_token := tok\<rparr>)))"

definition send_get :: "'w kis_env \<Rightarrow> get_request \<Rightarrow> string \<Rightarrow> ('w kis_client, transport_response) eff" where
  "send_get E q tok = (\<lambda>s. let (r, w) = ke_get E q tok (kc_world s) in
     (r, s\<lparr>kc_world := w, kc_gets := kc_gets s + 1\<rparr>))"

definition send_post ::
    "'w kis_env \<Rightarrow> string \<Rightarrow> string \<Rightarrow> (string \<times> string) list \<Rightarrow> string \<Rightarrow> ('w kis_client, post_outcome \<times> fl) eff" where
  "send_post E path tr body tok = (\<lambda>s. let (r, w) = ke_post E path tr body tok (kc_world s) in
     (Inr r, s\<lparr>kc_world := w, kc_posts := kc_posts s @ [\<lparr>kp_path = path, kp_tr_id = tr, kp_body = body,
        kp_token = tok, kp_outcome = fst r\<rparr>]\<rparr>))"

definition pause :: "'w kis_env \<Rightarrow> fl \<Rightarrow> ('w kis_client, unit) eff" where
  "pause E d = (\<lambda>s. let (r, w) = ke_sleep E d (kc_world s) in (Inr r, s\<lparr>kc_world := w\<rparr>))"

definition kis_port :: "'w kis_env \<Rightarrow> get_request \<Rightarrow> 'w kis_client transport_port" where
  "kis_port E q = \<lparr>tp_acquire = kis_call (ke_acquire E), tp_token = kc_token, tp_open = send_get E q,
     tp_refresh = (\<lambda>sent. ensure_token E (Some sent)), tp_sleep = pause E\<rparr>"

definition rate_limited :: "trading_binding \<Rightarrow> rate_limit_wait" where
  "rate_limited b = (\<lambda>attempt_no r. case tr_body r of
     JObj body \<Rightarrow> if field_text body ''msg_cd'' = ''EGW00201'' then Some (f_div (Fin 1) (tb_rest_tps b)) else None
   | _ \<Rightarrow> None)"

text \<open>\<open>_get_page\<close>: any failure of the transport is a \<open>BrokerReadError\<close>.\<close>

definition get_page ::
    "'w kis_env \<Rightarrow> trading_binding \<Rightarrow> int \<Rightarrow> get_request \<Rightarrow> ('w kis_client, transport_response) eff" where
  "get_page E b max_attempts q =
     bnd (attempt (bnd (lift_res (\<lambda>_. make_policy max_attempts)) (\<lambda>n.
       send_with_auth_retry (kis_port E q) (\<lambda>r. is_auth_rejected KIS (tr_status r) (tr_body r)) n
         (rate_limited b)))) (\<lambda>r. case r of
       Inl _ \<Rightarrow> throw BrokerReadError
     | Inr response \<Rightarrow> ret response)"

definition ascii_lower :: "string \<Rightarrow> string" where
  "ascii_lower s = map (\<lambda>c. if is_upper c then char_of (of_char c + 32 :: nat) else c) s"

definition tr_cont_of :: "transport_response \<Rightarrow> string" where
  "tr_cont_of r = (case find (\<lambda>(k, v). ascii_lower k = ''tr_cont'') (tr_headers r) of
     None \<Rightarrow> [] | Some (_, v) \<Rightarrow> v)"

text \<open>The continuation loop of the paged reads; \<open>left\<close> pages may still be read.\<close>

fun read_pages ::
    "'w kis_env \<Rightarrow> trading_binding \<Rightarrow> int \<Rightarrow> (jval \<Rightarrow> 'r res) \<Rightarrow> get_request \<Rightarrow> 'r list \<Rightarrow> nat \<Rightarrow>
     ('w kis_client, 'r list) eff" where
  "read_pages E b max_attempts parse q collected 0 = throw BrokerReadError"
| "read_pages E b max_attempts parse q collected (Suc left) =
     bnd (get_page E b max_attempts q) (\<lambda>response.
     bnd (lift_res (\<lambda>_. checked_body response)) (\<lambda>body.
     bnd (lift_res (\<lambda>_. rbind (output_rows body) (rmap parse))) (\<lambda>rows.
     if tr_cont_of response \<notin> {''F'', ''M''} then ret (collected @ rows)
     else if left = 0 then throw BrokerReadError
     else
       bnd (lift_res (\<lambda>_. context_value body [''ctx_area_fk100'', ''CTX_AREA_FK100''])) (\<lambda>fk.
       bnd (lift_res (\<lambda>_. context_value body [''ctx_area_nk100'', ''CTX_AREA_NK100''])) (\<lambda>nk.
         read_pages E b max_attempts parse
           (q\<lparr>gr_params := dset ''CTX_AREA_NK100'' nk (dset ''CTX_AREA_FK100'' fk (gr_params q)),
              gr_tr_cont := Some ''N''\<rparr>)
           (collected @ rows) left)))))"

definition account_params :: "trading_binding \<Rightarrow> (string \<times> string) list" where
  "account_params b = [(''CANO'', tb_account_no b), (''ACNT_PRDT_CD'', tb_product_code b)]"

definition ymd :: "civil \<Rightarrow> string" where
  "ymd c = (case c of (y, m, d) \<Rightarrow> nat_str y @ py_zfill 2 (nat_str m) @ py_zfill 2 (nat_str d))"

definition with_tr_id :: "trading_binding \<Rightarrow> string \<Rightarrow> (string \<Rightarrow> ('w kis_client, 'a) eff) \<Rightarrow> ('w kis_client, 'a) eff" where
  "with_tr_id b suffix f = bnd (lift_res (\<lambda>_. tr_id b suffix)) f"

text \<open>\<open>date.fromisoformat\<close> of a canonical date; \<open>parse_iso\<close> accepts no other form.\<close>

definition fetch_daily_orders ::
    "'w kis_env \<Rightarrow> trading_binding \<Rightarrow> int \<Rightarrow> string \<Rightarrow> ('w kis_client, broker_order list) eff" where
  "fetch_daily_orders E b max_attempts trading_day = (case parse_iso trading_day of
     None \<Rightarrow> throw BrokerReadError
   | Some c \<Rightarrow> with_tr_id b TR_SUFFIX_DAILY_ORDERS (\<lambda>tr.
       bnd (read_pages E b max_attempts parse_order_row
         \<lparr>gr_path = ''/uapi/domestic-stock/v1/trading/inquire-daily-ccld'', gr_tr_id = tr,
          gr_params = account_params b @
            [(''INQR_STRT_DT'', ymd c), (''INQR_END_DT'', ymd c), (''SLL_BUY_DVSN_CD'', ''00''),
             (''INQR_DVSN'', ''00''), (''PDNO'', []), (''CCLD_DVSN'', ''00''), (''ORD_GNO_BRNO'', []),
             (''ODNO'', []), (''INQR_DVSN_3'', ''00''), (''INQR_DVSN_1'', []),
             (''EXCG_ID_DVSN_CD'', ORDER_EXCHANGE_CODE), (''CTX_AREA_FK100'', []), (''CTX_AREA_NK100'', [])],
          gr_tr_cont = None\<rparr> [] MAX_CONTINUATION_PAGES) (\<lambda>rows. ret (fold_cancel_rows rows))))"

definition fetch_positions ::
    "'w kis_env \<Rightarrow> trading_binding \<Rightarrow> int \<Rightarrow> ('w kis_client, broker_position list) eff" where
  "fetch_positions E b max_attempts = with_tr_id b TR_SUFFIX_BALANCE (\<lambda>tr.
     bnd (read_pages E b max_attempts parse_position_row
       \<lparr>gr_path = ''/uapi/domestic-stock/v1/trading/inquire-balance'', gr_tr_id = tr,
        gr_params = account_params b @
          [(''AFHR_FLPR_YN'', ''N''), (''OFL_YN'', []), (''INQR_DVSN'', ''02''), (''UNPR_DVSN'', ''01''),
           (''FUND_STTL_ICLD_YN'', ''N''), (''FNCG_AMT_AUTO_RDPT_YN'', ''N''), (''PRCS_DVSN'', ''00''),
           (''CTX_AREA_FK100'', []), (''CTX_AREA_NK100'', [])],
        gr_tr_cont = None\<rparr> [] MAX_CONTINUATION_PAGES) (\<lambda>ps. ret (List.map_filter id ps)))"

definition orderable_cash_of :: "transport_response \<Rightarrow> int res" where
  "orderable_cash_of response = rbind (checked_body response) (\<lambda>body. case pget body ''output'' of
     JObj out \<Rightarrow>
       (let candidates = filter (\<lambda>n. 0 \<le> n) (List.map_filter (\<lambda>k. parse_int (pget out k)) [''ord_psbl_cash'', ''nrcv_buy_amt''])
        in if candidates = [] then Inl BrokerReadError else Inr (Min (set candidates)))
   | _ \<Rightarrow> Inl BrokerReadError)"

definition fetch_orderable_cash ::
    "'w kis_env \<Rightarrow> trading_binding \<Rightarrow> int \<Rightarrow> string \<Rightarrow> int \<Rightarrow> ('w kis_client, int) eff" where
  "fetch_orderable_cash E b max_attempts sy price = with_tr_id b TR_SUFFIX_BUYING_POWER (\<lambda>tr.
     bnd (get_page E b max_attempts
       \<lparr>gr_path = ''/uapi/domestic-stock/v1/trading/inquire-psbl-order'', gr_tr_id = tr,
        gr_params = account_params b @
          [(''PDNO'', sy), (''ORD_UNPR'', int_str price), (''ORD_DVSN'', ''00''),
           (''CMA_EVLU_AMT_ICLD_YN'', ''N''), (''OVRS_ICLD_YN'', ''N'')],
        gr_tr_cont = None\<rparr>) (\<lambda>response. lift_res (\<lambda>_. orderable_cash_of response)))"

definition price_limits_of :: "string \<Rightarrow> jval \<Rightarrow> price_limits res" where
  "price_limits_of sy v = (case v of
     JObj q \<Rightarrow>
       if pget q ''rt_cd'' \<noteq> JStr ''0'' then Inl BrokerReadError
       else (case pget q ''output'' of
         JObj out \<Rightarrow>
           (case (parse_int (pget out ''stck_prpr''), parse_int (pget out ''stck_mxpr''), parse_int (pget out ''stck_llam'')) of
              (Some px, Some upper, Some lower) \<Rightarrow>
                if px \<le> 0 \<or> upper \<le> 0 \<or> lower \<le> 0 then Inl BrokerReadError
                else if \<not> (lower \<le> px \<and> px \<le> upper) then Inl BrokerReadError
                else Inr \<lparr>pl_symbol = sy, pl_last = px, pl_upper = upper, pl_lower = lower\<rparr>
            | _ \<Rightarrow> Inl BrokerReadError)
       | _ \<Rightarrow> Inl BrokerReadError)
   | _ \<Rightarrow> Inl BrokerReadError)"

definition fetch_price_limits :: "'w kis_env \<Rightarrow> string \<Rightarrow> ('w kis_client, price_limits) eff" where
  "fetch_price_limits E sy = bnd (attempt (kis_call (ke_quote E sy))) (\<lambda>r. case r of
     Inl _ \<Rightarrow> throw BrokerReadError
   | Inr v \<Rightarrow> lift_res (\<lambda>_. price_limits_of sy v))"

section \<open>The order POSTs\<close>

definition finish_send ::
    "submit_verdict \<Rightarrow> string option \<Rightarrow> string option \<Rightarrow> string \<Rightarrow> string \<Rightarrow> int option \<Rightarrow> fl \<Rightarrow> submit_result" where
  "finish_send v order_no org_no code text status latency = \<lparr>verdict = v, broker_order_no = order_no,
     broker_org_no = org_no, http_status = status, msg_cd = code, msg = text, latency_ms = latency\<rparr>"

definition or_none :: "string \<Rightarrow> string option" where
  "or_none s = (if s = [] then None else Some s)"

text \<open>The order and organisation numbers of an accepted order.\<close>

definition accepted_numbers :: "submit_verdict \<Rightarrow> payload \<Rightarrow> string option \<times> string option" where
  "accepted_numbers v b = (if v \<noteq> ACCEPTED then (None, None) else (case pget b ''output'' of
     JObj out \<Rightarrow>
       (or_none (normalize_raw (pget out ''ODNO'')),
        (let org = pget out ''KRX_FWDG_ORD_ORGNO'' in if org = JNull then None else or_none (py_strip (py_str org))))
   | _ \<Rightarrow> (None, None)))"

definition send_order ::
    "'w kis_env \<Rightarrow> trading_binding \<Rightarrow> (string list \<Rightarrow> string \<Rightarrow> string) \<Rightarrow> string \<Rightarrow> string \<Rightarrow>
     (string \<times> string) list \<Rightarrow> ('w kis_client, submit_result) eff" where
  "send_order E b redact path tr body =
     bnd (kis_call (ke_acquire E)) (\<lambda>_.
     bnd (gets kc_token) (\<lambda>sent_token.
     bnd (send_post E path tr body sent_token) (\<lambda>(outcome, latency).
     case outcome of
       Post_raised e \<Rightarrow> throw e
     | Post_connect_error \<Rightarrow> ret (finish_send NOT_SENT None None [] [] None latency)
     | Post_failed status \<Rightarrow> ret (finish_send AMBIGUOUS None None [] [] status latency)
     | Post_undecodable status \<Rightarrow> ret (finish_send AMBIGUOUS None None [] [] (Some status) latency)
     | Post_decoded status payload \<Rightarrow>
         let v = (case payload of JObj _ \<Rightarrow> classify_order_response status payload | _ \<Rightarrow> AMBIGUOUS);
             fields = (case payload of JObj p \<Rightarrow> p | _ \<Rightarrow> []);
             secrets = [tb_app_key b, tb_app_secret b, tb_account_no b, sent_token]
         in bnd (if v = AUTH_REJECTED then bnd (attempt (ensure_token E (Some sent_token))) (\<lambda>_. ret ()) else ret ()) (\<lambda>_.
            ret (finish_send v (fst (accepted_numbers v fields)) (snd (accepted_numbers v fields))
              (redact secrets (field_text fields ''msg_cd'')) (redact secrets (field_text fields ''msg1''))
              (Some status) latency)))))"

definition order_body :: "trading_binding \<Rightarrow> order_intent \<Rightarrow> (string \<times> string) list" where
  "order_body b i = account_params b @
     [(''PDNO'', symbol i), (''ORD_DVSN'', if order_type i = LIMIT then ''00'' else ''01''),
      (''ORD_QTY'', int_str (qty i)),
      (''ORD_UNPR'', if order_type i = LIMIT then py_str (limit_price i) else ''0''),
      (''EXCG_ID_DVSN_CD'', ORDER_EXCHANGE_CODE)]
     @ (if side i = SELL then [(''SLL_TYPE'', ''01'')] else [])"

definition submit_order ::
    "'w kis_env \<Rightarrow> trading_binding \<Rightarrow> (string list \<Rightarrow> string \<Rightarrow> string) \<Rightarrow> order_intent \<Rightarrow>
     ('w kis_client, submit_result) eff" where
  "submit_order E b redact i =
     with_tr_id b (if side i = BUY then TR_SUFFIX_BUY else TR_SUFFIX_SELL) (\<lambda>tr.
       send_order E b redact ''/uapi/domestic-stock/v1/trading/order-cash'' tr (order_body b i))"

definition cancel_body :: "trading_binding \<Rightarrow> string \<Rightarrow> string \<Rightarrow> (string \<times> string) list" where
  "cancel_body b org_no order_no = account_params b @
     [(''KRX_FWDG_ORD_ORGNO'', org_no), (''ORGN_ODNO'', order_no), (''ORD_DVSN'', ''00''),
      (''RVSE_CNCL_DVSN_CD'', ''02''), (''ORD_QTY'', ''0''), (''ORD_UNPR'', ''0''), (''QTY_ALL_ORD_YN'', ''Y''),
      (''EXCG_ID_DVSN_CD'', ORDER_EXCHANGE_CODE)]"

definition cancel_order ::
    "'w kis_env \<Rightarrow> trading_binding \<Rightarrow> (string list \<Rightarrow> string \<Rightarrow> string) \<Rightarrow> string \<Rightarrow> string \<Rightarrow>
     ('w kis_client, submit_result) eff" where
  "cancel_order E b redact org_no order_no = with_tr_id b TR_SUFFIX_REVISE_CANCEL (\<lambda>tr.
     send_order E b redact ''/uapi/domestic-stock/v1/trading/order-rvsecncl'' tr (cancel_body b org_no order_no))"

section \<open>The request budget\<close>

interpretation kis_http: counted_transport "kis_port E q" kc_gets kc_refreshes for E q
  by unfold_locales
    (simp_all add: kis_port_def kis_call_def send_get_def ensure_token_def pause_def case_prod_beta Let_def
      split: sum.splits)

lemma get_page_budget:
  "kc_gets (snd (get_page E b max_attempts q s)) \<le> kc_gets s + nat max_attempts + 1"
  "kc_refreshes (snd (get_page E b max_attempts q s)) \<le> kc_refreshes s + 1"
proof -
  have "kc_gets (snd (get_page E b max_attempts q s)) \<le> kc_gets s + nat max_attempts + 1
      \<and> kc_refreshes (snd (get_page E b max_attempts q s)) \<le> kc_refreshes s + 1"
  proof (cases "max_attempts < 1")
    case True
    then show ?thesis
      by (simp add: get_page_def make_policy_def attempt_def bnd_def lift_res_def throw_def)
  next
    case False
    let ?m = "send_with_auth_retry (kis_port E q) (\<lambda>r. is_auth_rejected KIS (tr_status r) (tr_body r))
      (nat max_attempts) (rate_limited b)"
    have "snd (get_page E b max_attempts q s) = snd (?m s)"
      using False by (cases "?m s")
        (auto simp: get_page_def make_policy_def attempt_def bnd_def lift_res_def throw_def ret_def split: sum.splits)
    then show ?thesis using kis_http.send_costs [unfolded kis_http.costs_def] by (metis add.assoc)
  qed
  then show "kc_gets (snd (get_page E b max_attempts q s)) \<le> kc_gets s + nat max_attempts + 1"
    "kc_refreshes (snd (get_page E b max_attempts q s)) \<le> kc_refreshes s + 1" by blast+
qed

text \<open>\<open>gets_bound n m\<close>: at most \<open>n\<close> GET requests.\<close>

definition gets_bound :: "nat \<Rightarrow> ('w kis_client, 'a) eff \<Rightarrow> bool" where
  "gets_bound n m \<longleftrightarrow> (\<forall>s. kc_gets (snd (m s)) \<le> kc_gets s + n)"

lemma gets_bound_basic: "gets_bound n (ret x)" "gets_bound n (throw e)" "gets_bound n (lift_res g)"
  by (simp_all add: gets_bound_def ret_def throw_def lift_res_def)

lemma gets_bound_bnd:
  assumes "gets_bound a m" "\<And>x. gets_bound c (f x)"
  shows "gets_bound (a + c) (bnd m f)"
  unfolding gets_bound_def
proof
  fix s
  obtain r t where m: "m s = (r, t)" by (cases "m s")
  have "kc_gets t \<le> kc_gets s + a" using assms(1) m unfolding gets_bound_def by (metis snd_conv)
  then show "kc_gets (snd (bnd m f s)) \<le> kc_gets s + (a + c)"
    using assms(2) m by (cases r) (auto simp: bnd_def gets_bound_def intro: le_trans [of _ "kc_gets t + c"])
qed

lemma gets_bound_free:
  "(\<And>x. gets_bound n (f x)) \<Longrightarrow> gets_bound n (bnd (lift_res g) f)"
  using gets_bound_bnd [of 0 "lift_res g" n f] by (simp add: gets_bound_basic)

lemma gets_bound_split:
  "gets_bound n a \<Longrightarrow> gets_bound n b \<Longrightarrow> gets_bound n (if c then a else b)"
  "gets_bound n a \<Longrightarrow> (\<And>x. gets_bound n (f x)) \<Longrightarrow> gets_bound n (case v of None \<Rightarrow> a | Some x \<Rightarrow> f x)"
  by (simp_all split: option.splits)

lemma gets_bound_get_page: "gets_bound (nat max_attempts + 1) (get_page E b max_attempts q)"
  unfolding gets_bound_def using get_page_budget(1) [of E b max_attempts q] by (simp add: add.assoc)

lemma gets_bound_read_pages:
  "gets_bound (left * (nat max_attempts + 1)) (read_pages E b max_attempts parse q collected left)"
proof (induction left arbitrary: q collected)
  case 0
  show ?case by (simp add: gets_bound_basic)
next
  case (Suc left)
  have "gets_bound ((nat max_attempts + 1) + left * (nat max_attempts + 1))
      (read_pages E b max_attempts parse q collected (Suc left))"
    unfolding read_pages.simps
    by (intro gets_bound_bnd gets_bound_get_page gets_bound_free gets_bound_split gets_bound_basic Suc.IH)
  then show ?case by (simp only: mult_Suc)
qed

lemma gets_bound_read_all:
  "gets_bound (10 * (nat max_attempts + 1))
     (bnd (read_pages E b max_attempts parse q [] MAX_CONTINUATION_PAGES) (\<lambda>rows. ret (f rows)))"
proof -
  have "gets_bound (MAX_CONTINUATION_PAGES * (nat max_attempts + 1) + 0)
      (bnd (read_pages E b max_attempts parse q [] MAX_CONTINUATION_PAGES) (\<lambda>rows. ret (f rows)))"
    by (intro gets_bound_bnd gets_bound_read_pages gets_bound_basic)
  then show ?thesis by (simp add: MAX_CONTINUATION_PAGES_def)
qed

section \<open>Properties\<close>

definition demo_urlsplit :: "string \<Rightarrow> url_parts res" where
  "demo_urlsplit u = Inr \<lparr>url_scheme = ''https'', url_hostname = Some (drop 8 u), url_username = None,
     url_password = None, url_query = [], url_fragment = [], url_path = [], url_port = None\<rparr>"

definition demo_settings :: "string \<Rightarrow> trading_settings" where
  "demo_settings env = \<lparr>KIS_TRADING_ENV = env, KIS_BASE_URL = ''https://openapi.koreainvestment.com'',
     KIS_APP_KEY = ''livekey'', KIS_APP_SECRET = ''s'', KIS_ACCOUNT_ID = ''12345678'',
     KIS_ACCOUNT_PRODUCT_CODE = ''01'', KIS_LIVE_TRADING_CONFIRM = ''LIVE-5678'',
     KIS_MOCK_BASE_URL = ''https://openapivts.koreainvestment.com'', KIS_MOCK_APP_KEY = ''mockkey'',
     KIS_MOCK_APP_SECRET = ''s'', KIS_MOCK_ACCOUNT_NO = ''87654321'', KIS_MOCK_ACCOUNT_PRODUCT_CODE = ''01'',
     KIS_MOCK_REST_TPS = Fin 2, KIS_HTS_ID = ''h'', model_fields_set = LIVE_REQUIRED_ORDER_LIMITS\<rparr>"

text \<open>C6. A binding never mixes the environments. A mock binding goes to the mock host with a key
  that is not the live key and, if a live account is configured, another account; a live
  binding goes to the live host with a key that is not the mock key, only when the operator
  confirmed its account and every order limit was set explicitly. The TR id of an order
  carries the prefix of its environment.\<close>

theorem binding_isolates_environments:
  assumes "resolve_trading_binding urlsplit c = Inr b"
  shows "\<exists>parts. urlsplit (tb_base_url b) = Inr parts \<and> url_scheme parts = ''https'' \<and>
      (if tb_env b = MOCK
       then url_hostname parts = Some KIS_MOCK_HOST \<and> tb_app_key b \<noteq> KIS_APP_KEY c
         \<and> (py_blank (KIS_ACCOUNT_ID c) \<or> tb_account_no b \<noteq> KIS_ACCOUNT_ID c)
       else url_hostname parts = Some KIS_LIVE_HOST
         \<and> (py_blank (KIS_MOCK_APP_KEY c) \<or> tb_app_key b \<noteq> KIS_MOCK_APP_KEY c)
         \<and> KIS_LIVE_TRADING_CONFIRM c = ''LIVE-'' @ last_chars 4 (tb_account_no b)
         \<and> set LIVE_REQUIRED_ORDER_LIMITS \<subseteq> set (model_fields_set c))
      \<and> (\<exists>t. tr_id b TR_SUFFIX_BUY = Inr t \<and> hd t = (if tb_env b = MOCK then CHR ''V'' else CHR ''T''))"
  using assms
  by (auto simp: resolve_trading_binding_def validate_mock_def validate_live_def validate_endpoint_def
      tr_id_def ALLOWED_SUFFIXES_def list_all_iff split: if_splits sum.splits)

lemma binding_isolates_environments_witness:
  "(\<exists>b. resolve_trading_binding demo_urlsplit (demo_settings ''mock'') = Inr b \<and> tb_env b = MOCK
      \<and> tb_app_key b \<noteq> ''livekey'')
   \<and> (\<exists>b. resolve_trading_binding demo_urlsplit (demo_settings ''live'') = Inr b \<and> tb_env b = LIVE)"
proof
  have "(case resolve_trading_binding demo_urlsplit (demo_settings ''mock'') of Inl _ \<Rightarrow> False | Inr b \<Rightarrow> tb_env b = MOCK)"
    by code_simp
  then obtain b where b: "resolve_trading_binding demo_urlsplit (demo_settings ''mock'') = Inr b" "tb_env b = MOCK"
    by (auto split: sum.splits)
  from binding_isolates_environments [OF b(1)] b show
    "\<exists>b. resolve_trading_binding demo_urlsplit (demo_settings ''mock'') = Inr b \<and> tb_env b = MOCK
      \<and> tb_app_key b \<noteq> ''livekey''" by (auto simp: demo_settings_def)
  have "(case resolve_trading_binding demo_urlsplit (demo_settings ''live'') of Inl _ \<Rightarrow> False | Inr b \<Rightarrow> tb_env b = LIVE)"
    by code_simp
  then show "\<exists>b. resolve_trading_binding demo_urlsplit (demo_settings ''live'') = Inr b \<and> tb_env b = LIVE"
    by (auto split: sum.splits)
qed

text \<open>An account read is bounded: with a budget of n attempts each page costs at most n + 1 HTTP
  requests and the whole read at most MAX_CONTINUATION_PAGES times that, whatever the
  vendor answers.\<close>

theorem account_read_budget:
  "kc_gets (snd (fetch_daily_orders E b max_attempts day s)) \<le> kc_gets s + 10 * (nat max_attempts + 1)
   \<and> kc_gets (snd (fetch_positions E b max_attempts s)) \<le> kc_gets s + 10 * (nat max_attempts + 1)
   \<and> kc_gets (snd (fetch_orderable_cash E b max_attempts sy price s)) \<le> kc_gets s + (nat max_attempts + 1)"
proof -
  have "gets_bound (10 * (nat max_attempts + 1)) (fetch_daily_orders E b max_attempts day)"
    unfolding fetch_daily_orders_def with_tr_id_def
    by (intro gets_bound_split gets_bound_free gets_bound_read_all gets_bound_basic)
  moreover have "gets_bound (10 * (nat max_attempts + 1)) (fetch_positions E b max_attempts)"
    unfolding fetch_positions_def with_tr_id_def by (intro gets_bound_free gets_bound_read_all)
  moreover have "gets_bound (nat max_attempts + 1 + 0) (fetch_orderable_cash E b max_attempts sy price)"
    unfolding fetch_orderable_cash_def with_tr_id_def
    by (intro gets_bound_free gets_bound_bnd gets_bound_get_page gets_bound_basic)
  ultimately show ?thesis by (simp add: gets_bound_def)
qed

lemma ensure_token_posts: "kc_posts (snd (ensure_token E r s)) = kc_posts s"
  by (simp add: ensure_token_def case_prod_beta Let_def split: sum.splits)

text \<open>The two stages of an order POST: no POST is made unless the rate limiter let the call pass, and
  then one is; the verdict is that of its outcome, and a refreshed token adds no POST.\<close>

lemma send_order_run:
  assumes "send_order E b redact path tr body s = (Inr x, s')"
  shows "\<exists>tok outcome. kc_posts s' = kc_posts s @ [\<lparr>kp_path = path, kp_tr_id = tr, kp_body = body,
        kp_token = tok, kp_outcome = outcome\<rparr>]
     \<and> verdict x = (case outcome of Post_connect_error \<Rightarrow> NOT_SENT
         | Post_decoded status (JObj p) \<Rightarrow> classify_order_response status (JObj p) | _ \<Rightarrow> AMBIGUOUS)"
proof -
  obtain t where acq: "kis_call (ke_acquire E) s = (Inr (), t)"
    using assms by (auto simp: send_order_def bnd_def split: prod.splits sum.splits)
  have t: "kc_posts t = kc_posts s" using acq by (auto simp: kis_call_def split: prod.splits)
  obtain outcome latency w' where post: "ke_post E path tr body (kc_token t) (kc_world t) = ((outcome, latency), w')"
    by (metis surj_pair)
  let ?p = "\<lparr>kp_path = path, kp_tr_id = tr, kp_body = body, kp_token = kc_token t, kp_outcome = outcome\<rparr>"
  let ?u = "t\<lparr>kc_world := w', kc_posts := kc_posts t @ [?p]\<rparr>"
  let ?v = "case outcome of Post_connect_error \<Rightarrow> NOT_SENT
         | Post_decoded status (JObj p) \<Rightarrow> classify_order_response status (JObj p) | _ \<Rightarrow> AMBIGUOUS"
  have sent: "send_post E path tr body (kc_token t) t = (Inr (outcome, latency), ?u)"
    by (simp add: send_post_def post)
  have tok: "gets kc_token t = (Inr (kc_token t), t)" by (simp add: gets_def)
  have steps: "bnd (kis_call (ke_acquire E)) (f :: unit \<Rightarrow> ('a kis_client, submit_result) eff) s = f () t"
      "bnd (gets kc_token) (g :: string \<Rightarrow> ('a kis_client, submit_result) eff) t = g (kc_token t) t"
      "bnd (send_post E path tr body (kc_token t)) (h :: post_outcome \<times> fl \<Rightarrow> ('a kis_client, submit_result) eff) t
        = h (outcome, latency) ?u" for f g h
    by (simp_all add: bnd_def acq tok sent)
  have posts: "kc_posts (snd (bnd (if c then bnd (attempt (ensure_token E r)) (\<lambda>_. ret ()) else ret ()) (\<lambda>_. ret y) ?u))
      = kc_posts ?u" for c r y
    using ensure_token_posts [of E r ?u]
    by (cases "ensure_token E r ?u") (auto simp: bnd_def ret_def attempt_def split: sum.splits)
  have out: "bnd (if c then bnd (attempt (ensure_token E r)) (\<lambda>_. ret ()) else ret ()) (\<lambda>_. ret y) ?u = (Inr x, s')
      \<Longrightarrow> x = y" for c r y
    by (cases "ensure_token E r ?u") (auto simp: bnd_def ret_def attempt_def split: sum.splits if_splits)
  have "send_order E b redact path tr body s = (Inr x, s') \<Longrightarrow> kc_posts s' = kc_posts ?u \<and> verdict x = ?v"
  proof (cases outcome)
    case (Post_decoded status v)
    let ?w = "case v of JObj _ \<Rightarrow> classify_order_response status v | _ \<Rightarrow> AMBIGUOUS"
    let ?f = "case v of JObj p \<Rightarrow> p | _ \<Rightarrow> []"
    let ?y = "finish_send ?w (fst (accepted_numbers ?w ?f)) (snd (accepted_numbers ?w ?f))
        (redact [tb_app_key b, tb_app_secret b, tb_account_no b, kc_token t] (field_text ?f ''msg_cd''))
        (redact [tb_app_key b, tb_app_secret b, tb_account_no b, kc_token t] (field_text ?f ''msg1''))
        (Some status) latency"
    have ev: "send_order E b redact path tr body s
        = bnd (if ?w = AUTH_REJECTED then bnd (attempt (ensure_token E (Some (kc_token t)))) (\<lambda>_. ret ()) else ret ())
            (\<lambda>_. ret ?y) ?u"
      unfolding send_order_def steps prod.case Let_def
      unfolding Post_decoded post_outcome.case by (rule refl)
    assume "send_order E b redact path tr body s = (Inr x, s')"
    then show ?thesis using posts [of "?w = AUTH_REJECTED" "Some (kc_token t)" ?y]
        out [of "?w = AUTH_REJECTED" "Some (kc_token t)" ?y]
      unfolding ev by (auto simp: finish_send_def Post_decoded split: jval.splits)
  qed (auto simp: send_order_def steps ret_def throw_def finish_send_def)
  then have "kc_posts s' = kc_posts ?u \<and> verdict x = ?v" using assms by blast
  then show ?thesis using t by auto
qed

text \<open>C5. The verdicts that let the gateway send an intent again are sound at the wire: a submit_order
  that answers one of them made exactly one POST, of this order, and either its connection was
  never made or the vendor's decoded reply to it carries the rate-limit code or one of the
  token-rejection codes.\<close>

theorem resend_verdicts_are_sound:
  assumes "submit_order E b redact i s = (Inr x, s')" "verdict x \<in> {THROTTLED, AUTH_REJECTED, NOT_SENT}"
  shows "\<exists>post. kc_posts s' = kc_posts s @ [post]
     \<and> kp_path post = ''/uapi/domestic-stock/v1/trading/order-cash'' \<and> kp_body post = order_body b i
     \<and> tr_id b (if side i = BUY then TR_SUFFIX_BUY else TR_SUFFIX_SELL) = Inr (kp_tr_id post)
     \<and> (kp_outcome post = Post_connect_error \<or> (\<exists>status p. kp_outcome post = Post_decoded status (JObj p)
          \<and> field_text p ''msg_cd'' \<in> {''EGW00201'', ''EGW00121'', ''EGW00123''}))"
proof -
  obtain tr where tr: "tr_id b (if side i = BUY then TR_SUFFIX_BUY else TR_SUFFIX_SELL) = Inr tr"
    and run: "send_order E b redact ''/uapi/domestic-stock/v1/trading/order-cash'' tr (order_body b i) s = (Inr x, s')"
    using assms(1) by (auto simp: submit_order_def with_tr_id_def bnd_def lift_res_def split: sum.splits)
  from send_order_run [OF run] obtain tok outcome where
    posts: "kc_posts s' = kc_posts s @ [\<lparr>kp_path = ''/uapi/domestic-stock/v1/trading/order-cash'', kp_tr_id = tr,
        kp_body = order_body b i, kp_token = tok, kp_outcome = outcome\<rparr>]"
    and v: "verdict x = (case outcome of Post_connect_error \<Rightarrow> NOT_SENT
         | Post_decoded status (JObj p) \<Rightarrow> classify_order_response status (JObj p) | _ \<Rightarrow> AMBIGUOUS)" by blast
  have "outcome = Post_connect_error \<or> (\<exists>status p. outcome = Post_decoded status (JObj p)
          \<and> field_text p ''msg_cd'' \<in> {''EGW00201'', ''EGW00121'', ''EGW00123''})"
    using v assms(2)
    by (auto simp: classify_order_response_def field_text_def KIS_AUTH_REJECTION_CODES_def Let_def
        split: post_outcome.splits jval.splits if_splits)
  then show ?thesis using posts tr by auto
qed

definition demo_binding :: trading_binding where
  "demo_binding = \<lparr>tb_env = MOCK, tb_base_url = ''u'', tb_app_key = ''k'', tb_app_secret = ''s'',
     tb_account_no = ''12345678'', tb_product_code = ''01'', tb_hts_id = ''h'', tb_rest_tps = Fin 2\<rparr>"

text \<open>A vendor whose orders are throttled.\<close>

definition demo_env :: "unit kis_env" where
  "demo_env = \<lparr>ke_acquire = (\<lambda>w. (Inr (), w)), ke_get = (\<lambda>q tok w. (Inl OtherException, w)),
     ke_post = (\<lambda>path tr body tok w.
       ((Post_decoded 500 (JObj [(''rt_cd'', JStr ''1''), (''msg_cd'', JStr ''EGW00201'')]), Fin 0), w)),
     ke_ensure_token = (\<lambda>t w. (Inr ''t'', w)), ke_quote = (\<lambda>sy w. (Inl OtherException, w)),
     ke_sleep = (\<lambda>d w. ((), w))\<rparr>"

definition demo_order :: order_intent where
  "demo_order = \<lparr>intent_id = ''d:005930:entry'', trading_date = ''2026-03-02'', phase = ENTRY,
     symbol = ''005930'', side = BUY, order_type = LIMIT, qty = 3, limit_price = JInt 70000,
     decision_price = JInt 69000, parent_intent_id = JNull\<rparr>"

lemma resend_verdicts_are_sound_witness:
  "\<exists>x s'. submit_order demo_env demo_binding (\<lambda>_ m. m) demo_order
       \<lparr>kc_token = ''t'', kc_world = (), kc_gets = 0, kc_refreshes = 0, kc_posts = []\<rparr> = (Inr x, s')
     \<and> verdict x = THROTTLED
     \<and> (\<exists>post. kc_posts s' = [post] \<and> kp_body post = order_body demo_binding demo_order
        \<and> (kp_outcome post = Post_connect_error \<or> (\<exists>status p. kp_outcome post = Post_decoded status (JObj p)
          \<and> field_text p ''msg_cd'' \<in> {''EGW00201'', ''EGW00121'', ''EGW00123''})))"
proof -
  let ?s = "\<lparr>kc_token = ''t'', kc_world = (), kc_gets = 0, kc_refreshes = 0, kc_posts = []\<rparr>"
  have "(case submit_order demo_env demo_binding (\<lambda>_ m. m) demo_order ?s of
      (Inl _, _) \<Rightarrow> False | (Inr x, _) \<Rightarrow> verdict x = THROTTLED)"
    by (simp add: submit_order_def with_tr_id_def tr_id_def ALLOWED_SUFFIXES_def send_order_def bnd_def ret_def
        lift_res_def gets_def kis_call_def send_post_def demo_env_def demo_binding_def demo_order_def classify_order_response_def
        finish_send_def pget_def pget_default_def KIS_AUTH_REJECTION_CODES_def Let_def)
  then obtain x s' where run: "submit_order demo_env demo_binding (\<lambda>_ m. m) demo_order ?s = (Inr x, s')"
    "verdict x = THROTTLED" by (auto split: prod.splits sum.splits)
  have v: "verdict x \<in> {THROTTLED, AUTH_REJECTED, NOT_SENT}" using run(2) by simp
  show ?thesis using run resend_verdicts_are_sound [OF run(1) v] by auto
qed

text \<open>Folding the vendor's cancel rows keeps exactly the orders, each once and in order, and marks
  an order cancelled when its row or a cancel row naming it says so.\<close>

theorem fold_cancel_rows_spec:
  "map bo_order_no (fold_cancel_rows rows) = map bo_order_no (filter (\<lambda>r. \<not> is_cancel_child r) rows)
   \<and> (r' \<in> set (fold_cancel_rows rows) \<longleftrightarrow> (\<exists>r\<in>set rows. \<not> is_cancel_child r
     \<and> r' = r\<lparr>bo_cancelled := (bo_cancelled r \<or> (\<exists>c\<in>set rows. is_cancel_child c \<and> bo_orig_order_no c = bo_order_no r))\<rparr>))"
proof
  show "map bo_order_no (fold_cancel_rows rows) = map bo_order_no (filter (\<lambda>r. \<not> is_cancel_child r) rows)"
    by (simp add: fold_cancel_rows_def Let_def comp_def if_distrib cong: if_cong)
  have row: "(if bo_order_no r \<in> set (map bo_orig_order_no (filter is_cancel_child rows)) then r\<lparr>bo_cancelled := True\<rparr> else r)
      = r\<lparr>bo_cancelled := (bo_cancelled r \<or> (\<exists>c\<in>set rows. is_cancel_child c \<and> bo_orig_order_no c = bo_order_no r))\<rparr>" for r
    by (cases r) (auto simp: image_iff)
  show "r' \<in> set (fold_cancel_rows rows) \<longleftrightarrow> (\<exists>r\<in>set rows. \<not> is_cancel_child r
     \<and> r' = r\<lparr>bo_cancelled := (bo_cancelled r \<or> (\<exists>c\<in>set rows. is_cancel_child c \<and> bo_orig_order_no c = bo_order_no r))\<rparr>)"
    unfolding fold_cancel_rows_def Let_def row by auto
qed

end
