(* ===== verification/Session_Clock.thy ===== *)
theory Session_Clock
  imports Session_Calendar Float64
begin

text \<open>
  The session's clock: an instant is the number of nanoseconds of Korean time since the
  midnight of ordinal day zero (\<open>Asia/Seoul\<close> is a fixed offset of nine hours, so the
  conversion of the zone is a shift). Its date and its \<open>HHMMSS\<close> text, and the deadlines
  the order session builds from a date and a \<open>HHMMSS\<close> constant, in microseconds as
  Python's \<open>datetime\<close> counts.
\<close>

section \<open>The date of an ordinal\<close>

fun climb_year :: "nat \<Rightarrow> nat \<Rightarrow> nat \<Rightarrow> nat" where
  "climb_year 0 y n = y"
| "climb_year (Suc k) y n = (if days_before_year (Suc y) < n then climb_year k (Suc y) n else y)"

fun climb_month :: "nat \<Rightarrow> nat \<Rightarrow> nat \<Rightarrow> nat \<Rightarrow> nat" where
  "climb_month 0 y m r = m"
| "climb_month (Suc k) y m r = (if days_before_month y (Suc m) < r then climb_month k y (Suc m) r else m)"

definition fromordinal :: "nat \<Rightarrow> civil" where
  "fromordinal n = (let y = climb_year n 1 n; r = n - days_before_year y; m = climb_month 11 y 1 r
     in (y, m, r - days_before_month y m))"

lemma climb_year_spec:
  assumes "days_before_year y < n" "1 \<le> y" "y + k \<ge> n"
  shows "days_before_year (climb_year k y n) < n \<and> n \<le> days_before_year (Suc (climb_year k y n)) \<and> 1 \<le> climb_year k y n"
  using assms
proof (induction k arbitrary: y)
  case 0
  have "y \<le> days_before_year (Suc y)" using year_length [of y] 0
    by (cases "y = 1") (auto simp: days_before_year_def Let_def)
  then show ?case using 0 by simp
next
  case (Suc k)
  then show ?case by simp
qed

lemma climb_month_spec:
  assumes "days_before_month y m < r" "1 \<le> m" "m + k = 12" "r \<le> days_before_month y 13"
  shows "days_before_month y (climb_month k y m r) < r \<and> r \<le> days_before_month y (Suc (climb_month k y m r))
    \<and> 1 \<le> climb_month k y m r \<and> climb_month k y m r \<le> 12"
  using assms by (induction k arbitrary: m) simp_all

lemma days_before_year_1 [simp]: "days_before_year (Suc 0) = 0"
  by (simp add: days_before_year_def)

theorem fromordinal_toordinal:
  assumes "valid_civil c"
  shows "fromordinal (toordinal c) = c"
proof -
  obtain y m d where c: "c = (y, m, d)" by (cases c)
  have v: "1 \<le> y" "1 \<le> m" "m \<le> 12" "1 \<le> d" "d \<le> days_in_month y m"
    using assms by (simp_all add: c valid_civil_def)
  let ?n = "toordinal c"
  let ?y = "climb_year ?n 1 ?n"
  have n: "?n = days_before_year y + days_before_month y m + d" by (simp add: c toordinal_def)
  have yspec: "days_before_year ?y < ?n" "?n \<le> days_before_year (Suc ?y)" "1 \<le> ?y"
    using climb_year_spec [of 1 ?n ?n] n v by auto
  have inyear: "days_before_month y m + d \<le> 365 + (if leap_year y then 1 else 0)"
    using days_before_month_mono [OF v(2), of 12 y] v days_before_month_13 [of y] by (cases "m = 12") auto
  have "?y = y"
  proof (rule ccontr)
    assume "?y \<noteq> y"
    then consider "?y < y" | "y < ?y" by linarith
    then show False
    proof cases
      case 1
      have "days_before_year (Suc ?y) \<le> days_before_year y"
        using days_before_year_mono [OF yspec(3) 1] year_length [OF yspec(3)] by simp
      then show False using yspec(2) n v by simp
    next
      case 2
      then show False using days_before_year_mono [OF v(1) 2] inyear yspec(1) n by simp
    qed
  qed
  then have y: "climb_year ?n 1 ?n = y" .
  let ?r = "days_before_month y m + d"
  let ?m = "climb_month 11 y 1 ?r"
  have r: "?n - days_before_year y = ?r" using n by simp
  have "days_before_month y 13 = 365 + (if leap_year y then 1 else 0)"
    using days_before_month_step [of 12 y] days_before_month_13 [of y] by simp
  then have mspec: "days_before_month y ?m < ?r" "?r \<le> days_before_month y (Suc ?m)" "1 \<le> ?m" "?m \<le> 12"
    using climb_month_spec [of y 1 ?r 11] inyear v by auto
  have "?m = m"
  proof (rule ccontr)
    assume "?m \<noteq> m"
    then consider "?m < m" | "m < ?m" by linarith
    then show False
    proof cases
      case 1
      have "days_before_month y (Suc ?m) \<le> days_before_month y m"
        using days_before_month_mono [OF mspec(3) 1, of y] days_before_month_step [OF mspec(3), of y] by simp
      then show False using mspec(2) v by simp
    next
      case 2
      then show False using days_before_month_mono [OF v(2) 2, of y] mspec(1) v by simp
    qed
  qed
  then show ?thesis unfolding fromordinal_def Let_def y r by (simp add: c)
qed

section \<open>Instants\<close>

definition day_ns :: int where
  "day_ns = 86400 * 10 ^ 9"

definition kst_date :: "int \<Rightarrow> civil" where
  "kst_date n = fromordinal (nat (n div day_ns))"

definition second_of_day :: "int \<Rightarrow> nat" where
  "second_of_day n = nat (n mod day_ns div 10 ^ 9)"

text \<open>\<open>_hhmmss\<close>\<close>

definition hhmmss :: "int \<Rightarrow> string" where
  "hhmmss n = (let s = second_of_day n in
     py_zfill 2 (nat_str (s div 3600)) @ py_zfill 2 (nat_str (s div 60 mod 60)) @ py_zfill 2 (nat_str (s mod 60)))"

text \<open>\<open>to_pydatetime\<close> drops the nanoseconds.\<close>

definition to_us :: "int \<Rightarrow> int" where
  "to_us n = n div 1000"

text \<open>\<open>_kst_deadline\<close>, in microseconds.\<close>

definition kst_deadline :: "string \<Rightarrow> string \<Rightarrow> int res" where
  "kst_deadline date_str s = rbind (date_fromisoformat date_str) (\<lambda>d.
     Inr ((int (toordinal d) * 86400 + int (snd (at_hhmmss d s))) * 10 ^ 6))"

text \<open>\<open>total_seconds\<close> of a \<open>datetime\<close> difference: an exact division, rounded once.\<close>

definition total_seconds :: "int \<Rightarrow> fl" where
  "total_seconds us = Fin (rnd64 (of_int us / 1000000))"

section \<open>The text of a time\<close>

lemma digit_char_digit [simp]: "is_digit (digit_char n)" "digit_val (digit_char n) = n mod 10"
  by (simp_all add: is_digit_def digit_char_def digit_val_def)

lemma digit_char_no_sign [simp]: "digit_char n \<noteq> CHR ''+''" "digit_char n \<noteq> CHR ''-''"
  using digit_char_digit(1) [of n] by (auto simp: is_digit_def)

lemma nat_str_two: "n < 10 \<Longrightarrow> py_zfill 2 (nat_str n) = [CHR ''0'', digit_char n]"
  "10 \<le> n \<Longrightarrow> n < 100 \<Longrightarrow> py_zfill 2 (nat_str n) = [digit_char (n div 10), digit_char n]"
  by (auto simp: nat_str.simps [of n] nat_str.simps [of "n div 10"] py_zfill_def Let_def)

lemma two_digits:
  assumes "n < 100"
  shows "length (py_zfill 2 (nat_str n)) = 2" "list_all is_digit (py_zfill 2 (nat_str n))"
    "digits_val (py_zfill 2 (nat_str n)) = n"
proof -
  have z: "is_digit (CHR ''0'')" "digit_val (CHR ''0'') = 0" by (simp_all add: is_digit_def digit_val_def)
  show "length (py_zfill 2 (nat_str n)) = 2" "list_all is_digit (py_zfill 2 (nat_str n))"
    "digits_val (py_zfill 2 (nat_str n)) = n"
    using nat_str_two [of n] assms z by (cases "n < 10"; simp add: digits_val_def; fail)+
qed

lemma digits_val_append: "digits_val (s @ t) = digits_val s * 10 ^ length t + digits_val t"
proof (induction t rule: rev_induct)
  case (snoc c t)
  have "digits_val (s @ t @ [c]) = 10 * digits_val (s @ t) + digit_val c"
    using digits_val_snoc [of "s @ t" c] by simp
  then show ?case using snoc by (simp add: digits_val_snoc algebra_simps)
qed (simp add: digits_val_def)

lemma second_of_day_bound: "second_of_day n < 86400"
proof -
  have "n mod day_ns < 86400 * 10 ^ 9" by (simp add: day_ns_def)
  moreover have "x < 86400000000000 \<Longrightarrow> x div 1000000000 < 86400" for x :: int by presburger
  ultimately have "n mod day_ns div 10 ^ 9 < 86400" by simp
  then show ?thesis by (simp add: second_of_day_def nat_less_iff)
qed

text \<open>Comparing the texts is comparing the times.\<close>

lemma hhmmss_val:
  "digits_val (hhmmss n) = second_of_day n div 3600 * 10000 + second_of_day n div 60 mod 60 * 100 + second_of_day n mod 60"
  "length (hhmmss n) = 6" "list_all is_digit (hhmmss n)"
proof -
  have h: "second_of_day n div 3600 < 100" using second_of_day_bound [of n] by simp
  show "digits_val (hhmmss n) = second_of_day n div 3600 * 10000 + second_of_day n div 60 mod 60 * 100 + second_of_day n mod 60"
    "length (hhmmss n) = 6" "list_all is_digit (hhmmss n)"
    using two_digits [OF h] two_digits [of "second_of_day n div 60 mod 60"] two_digits [of "second_of_day n mod 60"]
    by (simp_all add: hhmmss_def Let_def digits_val_append)
qed

text \<open>The seconds a \<open>HHMMSS\<close> text stands for.\<close>

definition clock_seconds :: "string \<Rightarrow> nat" where
  "clock_seconds s = (let v = digits_val s in v div 10000 * 3600 + v div 100 mod 100 * 60 + v mod 100)"

lemma clock_order:
  assumes "m < 60" "s < 60" "m' < 60" "s' < (60::nat)"
  shows "h * 10000 + m * 100 + s < h' * 10000 + m' * 100 + s' \<longleftrightarrow> h * 3600 + m * 60 + s < h' * 3600 + m' * 60 + s'"
proof -
  consider "h < h'" | "h' < h" | "h = h'" by linarith
  then show ?thesis
  proof cases
    case 1
    then have "Suc h \<le> h'" by simp
    then show ?thesis using assms by linarith
  next
    case 2
    then have "Suc h' \<le> h" by simp
    then show ?thesis using assms by linarith
  next
    case 3
    have "m * 100 + s < m' * 100 + s' \<longleftrightarrow> m * 60 + s < m' * 60 + s'"
    proof (cases "m = m'")
      case False
      then have "Suc m \<le> m' \<or> Suc m' \<le> m" by linarith
      then show ?thesis using assms by linarith
    qed simp
    then show ?thesis by (simp add: 3 add.assoc)
  qed
qed

lemma hhmmss_less_iff:
  assumes "length s = 6" "list_all is_digit s" "digits_val s div 100 mod 100 < 60" "digits_val s mod 100 < 60"
  shows "hhmmss n < s \<longleftrightarrow> second_of_day n < clock_seconds s"
proof -
  let ?t = "second_of_day n" and ?v = "digits_val s"
  have v: "?v = ?v div 10000 * 10000 + ?v div 100 mod 100 * 100 + ?v mod 100"
  proof -
    have "?v div 10000 = ?v div 100 div 100" by (simp add: div_mult2_eq [symmetric])
    then show ?thesis using div_mult_mod_eq [of ?v 100] div_mult_mod_eq [of "?v div 100" 100] by linarith
  qed
  have t: "?t = ?t div 3600 * 3600 + ?t div 60 mod 60 * 60 + ?t mod 60"
  proof -
    have "?t div 3600 = ?t div 60 div 60" by (simp add: div_mult2_eq [symmetric])
    then show ?thesis using div_mult_mod_eq [of ?t 60] div_mult_mod_eq [of "?t div 60" 60] by linarith
  qed
  have "hhmmss n < s \<longleftrightarrow> digits_val (hhmmss n) < ?v" using digits_less_iff hhmmss_val assms(1,2) by simp
  also have "\<dots> \<longleftrightarrow> ?t div 3600 * 10000 + ?t div 60 mod 60 * 100 + ?t mod 60
      < ?v div 10000 * 10000 + ?v div 100 mod 100 * 100 + ?v mod 100"
    using v hhmmss_val(1) [of n] by simp
  also have "\<dots> \<longleftrightarrow> ?t div 3600 * 3600 + ?t div 60 mod 60 * 60 + ?t mod 60 < clock_seconds s"
    unfolding clock_seconds_def Let_def using assms(3,4) by (intro clock_order) simp_all
  finally show ?thesis using t by simp
qed

section \<open>The instant of a date and a time\<close>

definition instant :: "civil \<Rightarrow> nat \<Rightarrow> int" where
  "instant d secs = int (toordinal d) * day_ns + int secs * 10 ^ 9"

lemma instant_parts:
  assumes "valid_civil d" "secs < 86400"
  shows "kst_date (instant d secs) = d" "second_of_day (instant d secs) = secs"
proof -
  have r: "0 \<le> int secs * 10 ^ 9" "int secs * 10 ^ 9 < day_ns" using assms(2) by (simp_all add: day_ns_def)
  then have "instant d secs div day_ns = int (toordinal d)" "instant d secs mod day_ns = int secs * 10 ^ 9"
    by (simp_all add: instant_def div_add1_eq)
  then show "kst_date (instant d secs) = d" "second_of_day (instant d secs) = secs"
    using assms(1) by (simp_all add: kst_date_def second_of_day_def fromordinal_toordinal)
qed

text \<open>The comparisons the sessions make with the clock constants, in seconds of the day.\<close>

lemmas clock_constants =
  ORDER_ENTRY_EARLIEST_HHMMSS_def DECISION_WINDOW_START_HHMMSS_def DECISION_WINDOW_END_HHMMSS_def
  ORDER_ENTRY_DECISION_WAIT_DEADLINE_HHMMSS_def REALTIME_REQUOTE_DEADLINE_HHMMSS_def
  ORDER_ENTRY_SUBMIT_DEADLINE_HHMMSS_def ORDER_ENTRY_RECONCILE_DEADLINE_HHMMSS_def ARCHIVE_REGULAR_READY_HHMMSS_def
  ORDER_EXIT_RECONCILE_DEADLINE_HHMMSS_def PAPER_EXIT_WINDOW_END_HHMMSS_def

lemma hhmmss_cases:
  "hhmmss n < ORDER_ENTRY_EARLIEST_HHMMSS \<longleftrightarrow> second_of_day n < 55200"
  "DECISION_WINDOW_END_HHMMSS \<le> hhmmss n \<longleftrightarrow> 55800 \<le> second_of_day n"
  "ORDER_ENTRY_DECISION_WAIT_DEADLINE_HHMMSS \<le> hhmmss n \<longleftrightarrow> 55680 \<le> second_of_day n"
  "ORDER_ENTRY_SUBMIT_DEADLINE_HHMMSS \<le> hhmmss n \<longleftrightarrow> 55740 \<le> second_of_day n"
  "ORDER_ENTRY_RECONCILE_DEADLINE_HHMMSS \<le> hhmmss n \<longleftrightarrow> 56400 \<le> second_of_day n"
  "ORDER_EXIT_RECONCILE_DEADLINE_HHMMSS \<le> hhmmss n \<longleftrightarrow> 34200 \<le> second_of_day n"
  unfolding not_less [symmetric] clock_constants
  by (subst hhmmss_less_iff; simp add: is_digit_def digits_val_def digit_val_def clock_seconds_def Let_def)+

end
