(* ===== verification/Entry_Decision.thy ===== *)
theory Entry_Decision
  imports Session_Clock Kis_Trading
begin

text \<open>
  The decision the order session enters with (\<open>_validate_decision\<close> and its helpers in
  \<open>src/daily/order_session.py\<close>): a data frame as its column names and its rows, a cell as
  the Python value it holds, and the check that turns it into ranked picks or names the
  rule it broke. A cell of \<open>decided_at\<close> is what \<open>pd.Timestamp\<close> makes of it.
\<close>

section \<open>Floats of Python values\<close>

text \<open>The nearest double; at \<open>2\<^sup>1\<^sup>0\<^sup>2\<^sup>4\<close> and above a number has none.\<close>

definition too_large :: "rat \<Rightarrow> bool" where
  "too_large x \<longleftrightarrow> 2 ^ 1024 \<le> \<bar>rnd64 x\<bar>"

definition opt_digits :: "string \<Rightarrow> string option" where
  "opt_digits s = (if s = [] then Some [] else int_digits s)"

definition signed :: "string \<Rightarrow> bool \<times> string" where
  "signed t = (case t of
     c # cs \<Rightarrow> if c = CHR ''-'' then (True, cs) else if c = CHR ''+'' then (False, cs) else (False, t)
   | [] \<Rightarrow> (False, []))"

definition exponent_of :: "string \<Rightarrow> int option" where
  "exponent_of ex = (case ex of [] \<Rightarrow> Some 0
   | _ # t \<Rightarrow> (case signed t of (neg, ds) \<Rightarrow>
       map_option (\<lambda>v. if neg then - int (digits_val v) else int (digits_val v)) (int_digits ds)))"

definition scale10 :: "nat \<Rightarrow> int \<Rightarrow> rat" where
  "scale10 v e = (if 0 \<le> e then of_nat v * 10 ^ nat e else of_nat v / 10 ^ nat (- e))"

text \<open>\<open>float(text)\<close>\<close>

definition float_of_str :: "string \<Rightarrow> fl res" where
  "float_of_str s = (case signed (py_strip s) of (neg, body) \<Rightarrow>
     let low = ascii_lower body;
         sign = (\<lambda>f. if neg then f_neg f else f);
         man = takeWhile (\<lambda>c. c \<noteq> CHR ''e'') low; ex = dropWhile (\<lambda>c. c \<noteq> CHR ''e'') low;
         ip = takeWhile (\<lambda>c. c \<noteq> CHR ''.'') man; fp = drop 1 (dropWhile (\<lambda>c. c \<noteq> CHR ''.'') man)
     in if low \<in> {''inf'', ''infinity''} then Inr (sign PosInf)
        else if low = ''nan'' then Inr NaN
        else (case (opt_digits ip, opt_digits fp, exponent_of ex) of
          (Some a, Some b, Some e) \<Rightarrow>
            if a = [] \<and> b = [] then Inl ValueError
            else let x = scale10 (digits_val (a @ b)) (e - int (length b))
                 in Inr (sign (if too_large x then PosInf else Fin (rnd64 x)))
        | _ \<Rightarrow> Inl ValueError))"

text \<open>\<open>float(value)\<close>\<close>

fun py_float :: "jval \<Rightarrow> fl res" where
  "py_float (JBool b) = Inr (Fin (if b then 1 else 0))"
| "py_float (JInt i) = (if too_large (of_int i) then Inl OverflowError else Inr (Fin (rnd64 (of_int i))))"
| "py_float (JFloat f) = Inr f"
| "py_float (JStr s) = float_of_str s"
| "py_float _ = Inl TypeError"

text \<open>\<open>try: float(raw) except (TypeError, ValueError)\<close>; other exceptions are raised.\<close>

definition try_float :: "jval \<Rightarrow> fl option res" where
  "try_float v = (case py_float v of
     Inr f \<Rightarrow> Inr (Some f)
   | Inl e \<Rightarrow> if e \<in> {TypeError, ValueError} then Inr None else Inl e)"

section \<open>The decision frame\<close>

datatype decided_cell = Not_a_stamp | Naive_stamp | Stamp int

record decision_row =
  dr_symbol :: string
  dr_allocation :: jval
  dr_pred :: jval
  dr_close :: jval
  dr_decided :: decided_cell

record decision_frame =
  df_columns :: "string list"
  df_rows :: "decision_row list"

record decision_pick =
  dp_symbol :: string
  dp_allocation :: fl
  dp_pred :: fl
  dp_close :: int

definition frame_empty :: "decision_frame \<Rightarrow> bool" where
  "frame_empty f \<longleftrightarrow> df_rows f = [] \<or> df_columns f = []"

definition pred_value :: "jval \<Rightarrow> fl res" where
  "pred_value v = rbind (try_float v) (\<lambda>r. Inr (case r of None \<Rightarrow> NaN | Some f \<Rightarrow> f))"

definition decision_rank :: "fl \<Rightarrow> string \<Rightarrow> nat \<times> fl \<times> string" where
  "decision_rank pred s = (if f_isnan pred then (1, Fin 0, s) else (0, f_neg pred, s))"

definition close_value :: "jval \<Rightarrow> int option" where
  "close_value v = (case v of
     JInt i \<Rightarrow> if i \<le> 0 then None else Some i
   | JFloat (Fin x) \<Rightarrow> if of_int \<lfloor>x\<rfloor> = x \<and> 0 < \<lfloor>x\<rfloor> then Some \<lfloor>x\<rfloor> else None
   | _ \<Rightarrow> None)"

text \<open>\<open>None\<close> for an allocation that is no positive finite number.\<close>

fun read_allocations :: "jval list \<Rightarrow> fl list option res" where
  "read_allocations [] = Inr (Some [])"
| "read_allocations (v # vs) = rbind (try_float v) (\<lambda>r. case r of
     None \<Rightarrow> Inr None
   | Some a \<Rightarrow>
       if \<not> f_isfinite a \<or> f_le a (Fin 0) then Inr None
       else rbind (read_allocations vs) (\<lambda>rest. Inr (map_option (\<lambda>as. a # as) rest)))"

definition allocation_limit :: fl where
  "allocation_limit = Fin (rnd64 (1 + rnd64 (1 / 10 ^ 9)))"

definition allocation_sum :: "fl list \<Rightarrow> fl" where
  "allocation_sum as = foldl f_add (Fin 0) as"

text \<open>The stamp rules of one row: the rule it breaks, if any.\<close>

definition stamp_rule :: "string \<Rightarrow> int \<Rightarrow> decided_cell \<Rightarrow> string option" where
  "stamp_rule date_str now cell = (case cell of
     Not_a_stamp \<Rightarrow> Some ''bad_decided_at''
   | Naive_stamp \<Rightarrow> Some ''naive_decided_at''
   | Stamp t \<Rightarrow>
       if iso_str (kst_date t) \<noteq> date_str then Some ''decided_at_wrong_day''
       else if hhmmss t < ORDER_ENTRY_EARLIEST_HHMMSS then Some ''decided_before_window''
       else if DECISION_WINDOW_END_HHMMSS \<le> hhmmss t then Some ''decided_after_close''
       else if now \<le> t then Some ''decided_in_future''
       else None)"

definition invalid_decision :: "string \<Rightarrow> string" where
  "invalid_decision rule = ''invalid_decision:'' @ rule"

fun read_picks ::
    "string \<Rightarrow> int \<Rightarrow> bool \<Rightarrow> decision_row list \<Rightarrow> (string + decision_pick list) res" where
  "read_picks date_str now has_pred [] = Inr (Inr [])"
| "read_picks date_str now has_pred (r # rs) =
     (case close_value (dr_close r) of
        None \<Rightarrow> Inr (Inl (invalid_decision ''bad_close''))
      | Some c \<Rightarrow> (case stamp_rule date_str now (dr_decided r) of
          Some rule \<Rightarrow> Inr (Inl (invalid_decision rule))
        | None \<Rightarrow>
            rbind (py_float (dr_allocation r)) (\<lambda>a.
            rbind (if has_pred then pred_value (dr_pred r) else Inr NaN) (\<lambda>p.
            rbind (read_picks date_str now has_pred rs) (\<lambda>rest. Inr (case rest of
              Inl rule \<Rightarrow> Inl rule
            | Inr picks \<Rightarrow> Inr (\<lparr>dp_symbol = dr_symbol r, dp_allocation = a, dp_pred = p, dp_close = c\<rparr> # picks)))))))"

definition missing_column :: "decision_frame \<Rightarrow> string option" where
  "missing_column f = find (\<lambda>c. c \<notin> set (df_columns f)) [''symbol'', ''allocation'', ''close'', ''decided_at'']"

definition validate_decision ::
    "decision_frame \<Rightarrow> string \<Rightarrow> int \<Rightarrow> int \<Rightarrow> (string + decision_pick list) res" where
  "validate_decision f date_str now max_sends = (case missing_column f of
     Some c \<Rightarrow> Inr (Inl (invalid_decision (''missing_column_'' @ c)))
   | None \<Rightarrow>
       if df_rows f = [] then Inr (Inl (invalid_decision ''empty''))
       else if max_sends < int (length (df_rows f)) then Inr (Inl (invalid_decision ''too_many_rows''))
       else let symbols = map dr_symbol (df_rows f) in
       if \<not> list_all is_symbol symbols then Inr (Inl (invalid_decision ''bad_symbol''))
       else if \<not> distinct symbols then Inr (Inl (invalid_decision ''duplicate_symbol''))
       else rbind (read_allocations (map dr_allocation (df_rows f))) (\<lambda>r. case r of
         None \<Rightarrow> Inr (Inl (invalid_decision ''bad_allocation''))
       | Some as \<Rightarrow>
           if f_lt allocation_limit (allocation_sum as) then Inr (Inl (invalid_decision ''over_allocated''))
           else rbind (read_picks date_str now (''pred'' \<in> set (df_columns f)) (df_rows f)) (\<lambda>r. Inr (case r of
             Inl rule \<Rightarrow> Inl rule
           | Inr picks \<Rightarrow> Inr (sort_key (\<lambda>p. decision_rank (dp_pred p) (dp_symbol p)) picks)))))"

section \<open>What a valid decision is\<close>

definition pick_from_row :: "string \<Rightarrow> int \<Rightarrow> decision_pick \<Rightarrow> decision_row \<Rightarrow> bool" where
  "pick_from_row date_str now p r \<longleftrightarrow> dp_symbol p = dr_symbol r \<and> py_float (dr_allocation r) = Inr (dp_allocation p)
     \<and> close_value (dr_close r) = Some (dp_close p) \<and> stamp_rule date_str now (dr_decided r) = None"

lemma case_sum_Inr_iff [simp]: "case_sum Inl (\<lambda>y. Inr (f y)) r = Inr z \<longleftrightarrow> (\<exists>y. r = Inr y \<and> z = f y)"
  by (cases r) auto

lemma read_picks_rows:
  "read_picks date_str now hp rs = Inr (Inr picks) \<Longrightarrow> list_all2 (pick_from_row date_str now) picks rs"
proof (induction rs arbitrary: picks)
  case (Cons r rs)
  then obtain c a p rest where "close_value (dr_close r) = Some c" "stamp_rule date_str now (dr_decided r) = None"
    "py_float (dr_allocation r) = Inr a" "read_picks date_str now hp rs = Inr (Inr rest)"
    "picks = \<lparr>dp_symbol = dr_symbol r, dp_allocation = a, dp_pred = p, dp_close = c\<rparr> # rest"
    by (auto split: option.splits sum.splits)
  then show ?case using Cons.IH by (simp add: pick_from_row_def)
qed simp

lemma read_allocations_Some:
  "read_allocations vs = Inr (Some as) \<Longrightarrow>
   list_all2 (\<lambda>v a. py_float v = Inr a) vs as \<and> (\<forall>a\<in>set as. f_isfinite a \<and> f_lt (Fin 0) a)"
proof (induction vs arbitrary: as)
  case (Cons v vs)
  then obtain a rest where "try_float v = Inr (Some a)" "f_isfinite a" "\<not> f_le a (Fin 0)"
    "read_allocations vs = Inr (Some rest)" "as = a # rest"
    by (auto split: option.splits if_splits)
  then show ?case using Cons.IH
    by (auto simp: try_float_def f_isfinite_iff f_le_def split: sum.splits if_splits)
qed simp

lemma close_value_pos: "close_value v = Some c \<Longrightarrow> 0 < c"
  by (auto simp: close_value_def split: jval.splits fl.splits if_splits)

text \<open>The rows in their order, and the picks a permutation of what they hold.\<close>

lemma validate_decision_Inr:
  assumes "validate_decision f date_str now max_sends = Inr (Inr picks)"
  shows "\<exists>rows. mset picks = mset rows \<and> list_all2 (pick_from_row date_str now) rows (df_rows f)
      \<and> (\<forall>p\<in>set rows. f_isfinite (dp_allocation p) \<and> f_lt (Fin 0) (dp_allocation p))
      \<and> \<not> f_lt allocation_limit (allocation_sum (map dp_allocation rows))"
    and "picks \<noteq> []" "int (length picks) \<le> max_sends" "distinct (map dp_symbol picks)"
    and "\<forall>p\<in>set picks. is_symbol (dp_symbol p)"
    and "sorted (map (\<lambda>p. decision_rank (dp_pred p) (dp_symbol p)) picks)"
proof -
  obtain as rows where rows0: "df_rows f \<noteq> []" "int (length (df_rows f)) \<le> max_sends"
      "list_all is_symbol (map dr_symbol (df_rows f))" "distinct (map dr_symbol (df_rows f))"
    and as: "read_allocations (map dr_allocation (df_rows f)) = Inr (Some as)"
    and lim: "\<not> f_lt allocation_limit (allocation_sum as)"
    and rd: "read_picks date_str now (''pred'' \<in> set (df_columns f)) (df_rows f) = Inr (Inr rows)"
    and picks: "picks = sort_key (\<lambda>p. decision_rank (dp_pred p) (dp_symbol p)) rows"
    using assms by (auto simp: validate_decision_def Let_def split: option.splits sum.splits if_splits)
  note rows = read_picks_rows [OF rd]
  have syms: "map dp_symbol rows = map dr_symbol (df_rows f)"
    using rows by (induction rule: list_all2_induct) (auto simp: pick_from_row_def)
  have "map dp_allocation rows = as"
  proof -
    have "list_all2 (\<lambda>r a. py_float (dr_allocation r) = Inr a) (df_rows f) as"
      using read_allocations_Some [OF as] by (simp add: list_all2_map1)
    with rows show ?thesis
      by (auto simp: list_all2_conv_all_nth pick_from_row_def intro: nth_equalityI)
  qed
  then show "\<exists>rows. mset picks = mset rows \<and> list_all2 (pick_from_row date_str now) rows (df_rows f)
      \<and> (\<forall>p\<in>set rows. f_isfinite (dp_allocation p) \<and> f_lt (Fin 0) (dp_allocation p))
      \<and> \<not> f_lt allocation_limit (allocation_sum (map dp_allocation rows))"
    using rows lim read_allocations_Some [OF as] by (intro exI [of _ rows]) (auto simp: picks)
  have len: "length picks = length (df_rows f)" using list_all2_lengthD [OF rows] by (simp add: picks)
  show "picks \<noteq> []" "int (length picks) \<le> max_sends" using rows0 len by auto
  have "mset (map dp_symbol picks) = mset (map dr_symbol (df_rows f))" by (simp add: picks syms [symmetric])
  then show "distinct (map dp_symbol picks)" using rows0(4) by (metis mset_eq_imp_distinct_iff)
  have "set (map dp_symbol picks) = set (map dr_symbol (df_rows f))" by (simp add: picks syms [symmetric])
  then show "\<forall>p\<in>set picks. is_symbol (dp_symbol p)" using rows0(3)
    by (auto simp: list_all_iff) (metis image_eqI image_iff)
  show "sorted (map (\<lambda>p. decision_rank (dp_pred p) (dp_symbol p)) picks)" by (simp add: picks)
qed

end
