(* ===== verification/Order_Journal.thy ===== *)
theory Order_Journal
  imports Order_Contract
begin

text \<open>
  \<open>src/execution/order_journal.py\<close>: the durable write-ahead journal of order events, the
  authority on what was already sent. A line of the file is kept as its decoded JSON value
  (writing and reading back a finite JSON value gives the value); a blank or undecodable
  line is a line of its own kind. The clock, the disk, the lock file and the HALT file are
  a parameter, the record \<open>host\<close>, each call a function of an abstract world.
\<close>

section \<open>Events and states\<close>

datatype event_kind =
    K_INTENT | K_SKIP | K_SEND | K_RESULT | K_ADOPT | K_NOT_FOUND | K_OPERATOR_RESOLVE
  | K_RESOLVE_CONFLICT | K_BROKER_STATE | K_CANCEL_SEND | K_CANCEL_RESULT

datatype intent_status =
    S_RECORDED | S_SKIPPED | S_NOT_SENT | S_UNKNOWN | S_NOT_FOUND | S_REJECTED
  | S_ACKED | S_FILLED | S_PARTIAL | S_UNFILLED | S_CANCELLED

definition kind_value :: "event_kind \<Rightarrow> string" where
  "kind_value k = (case k of
     K_INTENT \<Rightarrow> ''intent'' | K_SKIP \<Rightarrow> ''skip'' | K_SEND \<Rightarrow> ''send'' | K_RESULT \<Rightarrow> ''result''
   | K_ADOPT \<Rightarrow> ''adopt'' | K_NOT_FOUND \<Rightarrow> ''not_found''
   | K_OPERATOR_RESOLVE \<Rightarrow> ''operator_resolve'' | K_RESOLVE_CONFLICT \<Rightarrow> ''resolve_conflict''
   | K_BROKER_STATE \<Rightarrow> ''broker_state'' | K_CANCEL_SEND \<Rightarrow> ''cancel_send''
   | K_CANCEL_RESULT \<Rightarrow> ''cancel_result'')"

definition all_kinds :: "event_kind list" where
  "all_kinds = [K_INTENT, K_SKIP, K_SEND, K_RESULT, K_ADOPT, K_NOT_FOUND, K_OPERATOR_RESOLVE,
     K_RESOLVE_CONFLICT, K_BROKER_STATE, K_CANCEL_SEND, K_CANCEL_RESULT]"

definition kind_of :: "string \<Rightarrow> event_kind res" where
  "kind_of = enum_of kind_value all_kinds"

record journal_event =
  ev_seq :: int
  ev_ts :: string
  ev_kind :: event_kind
  ev_id :: string
  ev_run :: string
  ev_payload :: payload

record intent_state =
  st_intent :: "order_intent option"
  st_status :: intent_status
  st_n_sends :: int
  st_order_no :: "string option"
  st_org_no :: "string option"
  st_filled_qty :: int
  st_filled_amount_krw :: int
  st_remaining_qty :: int
  st_final :: bool
  st_reason :: string
  st_baseline :: "string list option"

record open_lot =
  ol_entry_intent_id :: string
  ol_symbol :: string
  ol_trading_date :: string
  ol_qty :: int

section \<open>Payloads\<close>

definition intent_to_payload :: "order_intent \<Rightarrow> payload" where
  "intent_to_payload i =
     [(''intent_id'', JStr (intent_id i)),
      (''trading_date'', JStr (trading_date i)),
      (''phase'', JStr (phase_value (phase i))),
      (''symbol'', JStr (symbol i)),
      (''side'', JStr (side_value (side i))),
      (''order_type'', JStr (type_value (order_type i))),
      (''qty'', JInt (qty i)),
      (''limit_price'', limit_price i),
      (''decision_price'', decision_price i),
      (''parent_intent_id'', parent_intent_id i)]"

text \<open>\<open>except (KeyError, ValueError, TypeError)\<close> turns a bad payload into a corrupt journal.\<close>

definition corrupt_bad :: "'a res \<Rightarrow> 'a res" where
  "corrupt_bad r = (case r of
     Inl e \<Rightarrow> Inl (if e \<in> {KeyError, ValueError, TypeError} then JournalCorruptError else e)
   | Inr a \<Rightarrow> Inr a)"

definition pindex_str :: "payload \<Rightarrow> string \<Rightarrow> string res" where
  "pindex_str p k = rbind (pindex p k) (\<lambda>v. Inr (py_str v))"

definition intent_from_payload :: "string \<Rightarrow> payload \<Rightarrow> order_intent res" where
  "intent_from_payload iid p = corrupt_bad (
     rbind (pindex_str p ''trading_date'') (\<lambda>td.
     rbind (rbind (pindex_str p ''phase'') phase_of) (\<lambda>ph.
     rbind (pindex_str p ''symbol'') (\<lambda>sy.
     rbind (rbind (pindex_str p ''side'') side_of) (\<lambda>sd.
     rbind (rbind (pindex_str p ''order_type'') type_of) (\<lambda>ot.
     rbind (rbind (pindex p ''qty'') py_int) (\<lambda>q.
     rbind (pindex p ''limit_price'') (\<lambda>lp.
     rbind (pindex p ''decision_price'') (\<lambda>dp.
     rbind (pindex p ''parent_intent_id'') (\<lambda>pa.
       make_intent \<lparr>intent_id = iid, trading_date = td, phase = ph, symbol = sy, side = sd,
         order_type = ot, qty = q, limit_price = lp, decision_price = dp,
         parent_intent_id = pa\<rparr>))))))))))"

text \<open>\<open>_payload_int\<close>: an integer field, booleans excluded.\<close>

definition payload_int :: "payload \<Rightarrow> string \<Rightarrow> int res" where
  "payload_int p k = (case pget p k of JInt i \<Rightarrow> Inr i | _ \<Rightarrow> Inl JournalCorruptError)"

definition baseline_element :: "jval \<Rightarrow> string res" where
  "baseline_element v = (case v of
     JStr s \<Rightarrow> if s = [] then Inl JournalCorruptError
       else (let n = normalize_order_no s in if n = [] then Inl JournalCorruptError else Inr n)
   | _ \<Rightarrow> Inl JournalCorruptError)"

definition payload_baseline :: "payload \<Rightarrow> string list option res" where
  "payload_baseline p = (case map_of p ''baseline_order_nos'' of
     None \<Rightarrow> Inr None
   | Some (JList xs) \<Rightarrow> rbind (rmap baseline_element xs) (\<lambda>ns. Inr (Some ns))
   | Some _ \<Rightarrow> Inl JournalCorruptError)"

definition validate_operator_payload :: "payload \<Rightarrow> string res" where
  "validate_operator_payload p =
     (let resolution = pget p ''resolution'' in
      if resolution \<noteq> JStr ''adopt'' \<and> resolution \<noteq> JStr ''not_found'' then Inl JournalCorruptError
      else if \<not> is_nonblank_str (pget p ''operator'') then Inl JournalCorruptError
      else if \<not> is_nonblank_str (pget p ''reason'') then Inl JournalCorruptError
      else if resolution = JStr ''adopt'' then
        (if \<not> is_nonblank_str (pget p ''broker_order_no'') then Inl JournalCorruptError
         else if \<not> is_nonblank_str (pget p ''broker_org_no'') then Inl JournalCorruptError
         else Inr (py_str resolution))
      else Inr (py_str resolution))"

section \<open>Deriving the state of one intent\<close>

definition ev_verdict :: "journal_event \<Rightarrow> submit_verdict res" where
  "ev_verdict e = verdict_of (py_str (pget_default (ev_payload e) ''verdict'' (JStr [])))"

definition is_result :: "submit_verdict \<Rightarrow> journal_event \<Rightarrow> bool" where
  "is_result v e \<longleftrightarrow> ev_kind e = K_RESULT \<and> ev_verdict e = Inr v"

definition of_kind :: "event_kind \<Rightarrow> journal_event list \<Rightarrow> journal_event list" where
  "of_kind k es = filter (\<lambda>e. ev_kind e = k) es"

definition operator_resolved :: "string \<Rightarrow> journal_event \<Rightarrow> bool" where
  "operator_resolved how e \<longleftrightarrow>
     ev_kind e = K_OPERATOR_RESOLVE \<and> pget (ev_payload e) ''resolution'' = JStr how"

definition is_adopt :: "journal_event \<Rightarrow> bool" where
  "is_adopt e \<longleftrightarrow> ev_kind e = K_ADOPT \<or> operator_resolved ''adopt'' e"

definition derive_intent :: "journal_event list \<Rightarrow> order_intent option res" where
  "derive_intent es = rfold (\<lambda>e acc. if ev_kind e = K_INTENT
     then rbind (intent_from_payload (ev_id e) (ev_payload e)) (\<lambda>i. Inr (Some i)) else Inr acc) es None"

definition derive_reason :: "journal_event list \<Rightarrow> string" where
  "derive_reason es = fold (\<lambda>e acc. if ev_kind e = K_SKIP
     then (case pget_default (ev_payload e) ''reason'' (JStr []) of JStr s \<Rightarrow> s | _ \<Rightarrow> []) else acc) es []"

definition derive_baseline :: "journal_event list \<Rightarrow> string list option res" where
  "derive_baseline es = rfold (\<lambda>e acc. if ev_kind e = K_SEND
     then rbind (payload_baseline (ev_payload e)) (\<lambda>parsed. Inr (if acc = None then parsed else acc))
     else Inr acc) es None"

definition order_nos :: "payload \<Rightarrow> string option \<times> string option" where
  "order_nos p = (opt_py_str (pget p ''broker_order_no''), opt_py_str (pget p ''broker_org_no''))"

definition derive_order_no :: "journal_event list \<Rightarrow> (string option \<times> string option) res" where
  "derive_order_no es = rfold (\<lambda>e acc.
     if ev_kind e = K_RESULT then
       (case ev_verdict e of
          Inl _ \<Rightarrow> Inl JournalCorruptError
        | Inr v \<Rightarrow> Inr (if v = ACCEPTED then order_nos (ev_payload e) else acc))
     else if is_adopt e then Inr (order_nos (ev_payload e))
     else Inr acc) es (None, None)"

text \<open>The fill invariants every \<open>BROKER_STATE\<close> row is checked against, one row at a time;
  the accumulator is the last filled quantity.\<close>

definition check_fill :: "order_intent option \<Rightarrow> payload \<Rightarrow> int option \<Rightarrow> int option res" where
  "check_fill intent p prev =
     rbind (payload_int p ''filled_qty'') (\<lambda>fq.
     rbind (payload_int p ''filled_amount_krw'') (\<lambda>fa.
     rbind (payload_int p ''remaining_qty'') (\<lambda>rq.
     rbind (payload_int p ''order_qty'') (\<lambda>_.
       if (case intent of None \<Rightarrow> False | Some i \<Rightarrow> qty i < fq) then Inl JournalCorruptError
       else if (case intent of None \<Rightarrow> False | Some i \<Rightarrow> qty i < fq + rq) then Inl JournalCorruptError
       else if fq < 0 \<or> rq < 0 \<or> fa < 0 then Inl JournalCorruptError
       else if (case prev of None \<Rightarrow> False | Some pf \<Rightarrow> fq < pf) then Inl JournalCorruptError
       else Inr (Some fq)))))"

definition derive_fills :: "order_intent option \<Rightarrow> journal_event list \<Rightarrow> (int \<times> int \<times> int) res" where
  "derive_fills intent es =
     (let payloads = map ev_payload (of_kind K_BROKER_STATE es) in
      if payloads = [] then Inr (0, 0, 0)
      else rbind (rfold (check_fill intent) payloads None) (\<lambda>_.
        rbind (payload_int (last payloads) ''filled_qty'') (\<lambda>fq.
        rbind (payload_int (last payloads) ''filled_amount_krw'') (\<lambda>fa.
        rbind (payload_int (last payloads) ''remaining_qty'') (\<lambda>rq. Inr (fq, fa, rq))))))"

definition final_states :: "journal_event list \<Rightarrow> journal_event list" where
  "final_states es = filter (\<lambda>e. ev_kind e = K_BROKER_STATE \<and> py_truth (pget (ev_payload e) ''final'')) es"

definition final_status :: "order_intent option \<Rightarrow> payload \<Rightarrow> intent_status res" where
  "final_status intent p =
     rbind (payload_int p ''filled_qty'') (\<lambda>fq.
     rbind (case intent of Some i \<Rightarrow> Inr (qty i) | None \<Rightarrow> payload_int p ''order_qty'') (\<lambda>ref_qty.
       Inr (if fq = ref_qty \<and> ref_qty > 0 then S_FILLED
            else if 0 < fq \<and> fq < ref_qty then S_PARTIAL
            else if fq = 0 \<and> py_truth (pget p ''cancelled'') then S_CANCELLED
            else S_UNFILLED)))"

definition max_seq :: "journal_event list \<Rightarrow> int" where
  "max_seq es = Max (set (map ev_seq es))"

definition safe_verdicts :: "submit_verdict list" where
  "safe_verdicts = [THROTTLED, AUTH_REJECTED, NOT_SENT]"

definition safe_result :: "journal_event \<Rightarrow> bool" where
  "safe_result e = (case ev_verdict e of Inr v \<Rightarrow> v \<in> set safe_verdicts | Inl _ \<Rightarrow> False)"

text \<open>The results written after the last send, and whether a conflict was.\<close>

definition later :: "journal_event list \<Rightarrow> journal_event list \<Rightarrow> journal_event list" where
  "later sends es = filter (\<lambda>e. max_seq sends < ev_seq e) es"

text \<open>The status of an intent with no final broker row, in the order of the code's tests,
  and whether it is final.\<close>

definition open_status :: "journal_event list \<Rightarrow> intent_status \<times> bool" where
  "open_status es =
     (let sends = of_kind K_SEND es; results = of_kind K_RESULT es;
          not_founds = of_kind K_NOT_FOUND es; conflicts = of_kind K_RESOLVE_CONFLICT es;
          later_results = later sends results
      in if list_ex (is_result ACCEPTED) es \<or> list_ex is_adopt es then (S_ACKED, False)
         else if list_ex (is_result REJECTED) es then (S_REJECTED, True)
         else if sends \<noteq> [] \<and> not_founds \<noteq> [] \<and> max_seq sends < max_seq not_founds then (S_NOT_FOUND, False)
         else if list_ex (operator_resolved ''not_found'') es then (S_NOT_FOUND, False)
         else if sends \<noteq> [] \<and> (later_results = [] \<or> later sends conflicts \<noteq> []) then (S_UNKNOWN, False)
         else if sends \<noteq> [] \<and> ev_verdict (last later_results) = Inr AMBIGUOUS then (S_UNKNOWN, False)
         else if sends \<noteq> [] \<and> safe_result (last later_results) then (S_NOT_SENT, False)
         else if results \<noteq> [] \<and> safe_result (last results) then (S_NOT_SENT, False)
         else if results \<noteq> [] \<and> ev_verdict (last results) = Inr AMBIGUOUS then (S_UNKNOWN, False)
         else if of_kind K_SKIP es \<noteq> [] then (S_SKIPPED, True)
         else (S_RECORDED, False))"

definition derive_status :: "order_intent option \<Rightarrow> journal_event list \<Rightarrow> (intent_status \<times> bool) res" where
  "derive_status intent es =
     (if final_states es \<noteq> []
      then rbind (final_status intent (ev_payload (last (final_states es)))) (\<lambda>s. Inr (s, True))
      else Inr (open_status es))"

text \<open>Everything of the fold but the checks on the operator's resolutions.\<close>

definition derive_fields :: "order_intent option \<Rightarrow> journal_event list \<Rightarrow> intent_state res" where
  "derive_fields intent es =
     rbind (derive_baseline es) (\<lambda>bl.
     rbind (derive_order_no es) (\<lambda>(ono, org).
     rbind (derive_fills intent es) (\<lambda>(fq, fa, rq).
     rbind (derive_status intent es) (\<lambda>(status, fin).
       Inr \<lparr>st_intent = intent, st_status = status, st_n_sends = int (length (of_kind K_SEND es)),
         st_order_no = ono, st_org_no = org, st_filled_qty = fq, st_filled_amount_krw = fa,
         st_remaining_qty = rq, st_final = fin, st_reason = derive_reason es,
         st_baseline = bl\<rparr>))))"

definition resolvable :: "intent_status \<Rightarrow> bool" where
  "resolvable s \<longleftrightarrow> s = S_UNKNOWN \<or> s = S_NOT_FOUND"

function derive_intent_state :: "journal_event list \<Rightarrow> intent_state res" where
  "derive_intent_state events =
     (if events = [] then Inl JournalCorruptError
      else let ordered = sort_key ev_seq events in
        if \<not> successively (<) (map ev_seq ordered) then Inl JournalCorruptError
        else if 1 < length (of_kind K_INTENT ordered) then Inl JournalCorruptError
        else rbind (derive_intent ordered) (\<lambda>intent.
          rbind (rforeach (\<lambda>i. if ev_kind (ordered ! i) = K_OPERATOR_RESOLVE then
              rbind (validate_operator_payload (ev_payload (ordered ! i))) (\<lambda>_.
                if i = 0 then Inl JournalCorruptError
                else rbind (derive_intent_state (take i ordered)) (\<lambda>prior.
                  if resolvable (st_status prior) then Inr () else Inl JournalCorruptError))
              else Inr ()) [0..<length ordered]) (\<lambda>_.
          derive_fields intent ordered)))"
  by pat_completeness auto
termination
  by (relation "measure length") auto

declare derive_intent_state.simps [simp del]

section \<open>The file\<close>

datatype jline = Blank | Undecodable | Line jval

record load_acc =
  la_events :: "journal_event list"
  la_seen :: "string list"
  la_seen_intent :: "string list"
  la_prev :: "int option"

definition load_start :: load_acc where
  "load_start = \<lparr>la_events = [], la_seen = [], la_seen_intent = [], la_prev = None\<rparr>"

definition payload_value_ok :: "string \<Rightarrow> jval \<Rightarrow> bool" where
  "payload_value_ok k v \<longleftrightarrow> (k = ''baseline_order_nos'' \<and> is_str_list v) \<or> is_scalar v"

text \<open>The type checks of one line; every failure is a corrupt journal.\<close>

definition decode_event :: "jval \<Rightarrow> journal_event res" where
  "decode_event v = (case v of
     JObj obj \<Rightarrow> (case (map_of obj ''seq'', map_of obj ''ts'', map_of obj ''kind'',
         map_of obj ''intent_id'', map_of obj ''run_id'', map_of obj ''payload'') of
       (Some seq, Some ts, Some kind_raw, Some iid, Some run, Some pl) \<Rightarrow>
         (case (seq, ts, iid, run, pl) of
            (JInt n, JStr t, JStr i, JStr r, JObj p) \<Rightarrow>
              (if n \<le> 0 \<or> py_blank t \<or> i = [] \<or> r = [] then Inl JournalCorruptError
               else (case kind_of (py_str kind_raw) of
                 Inl _ \<Rightarrow> Inl JournalCorruptError
               | Inr k \<Rightarrow>
                   if list_all (\<lambda>(key, x). payload_value_ok key x) p
                   then Inr \<lparr>ev_seq = n, ev_ts = t, ev_kind = k, ev_id = i, ev_run = r, ev_payload = p\<rparr>
                   else Inl JournalCorruptError))
          | _ \<Rightarrow> Inl JournalCorruptError)
     | _ \<Rightarrow> Inl JournalCorruptError)
   | _ \<Rightarrow> Inl JournalCorruptError)"

text \<open>The checks of one line against the lines before it.\<close>

definition load_event :: "journal_event \<Rightarrow> load_acc \<Rightarrow> load_acc res" where
  "load_event e a =
     (if (case la_prev a of None \<Rightarrow> False | Some q \<Rightarrow> ev_seq e \<le> q) then Inl JournalCorruptError
      else let a' = a\<lparr>la_prev := Some (ev_seq e), la_events := la_events a @ [e]\<rparr> in
        if ev_kind e = K_INTENT then
          (if ev_id e \<in> set (la_seen_intent a) then Inl JournalCorruptError
           else Inr (a'\<lparr>la_seen_intent := ev_id e # la_seen_intent a, la_seen := ev_id e # la_seen a\<rparr>))
        else if ev_kind e = K_SKIP then Inr (a'\<lparr>la_seen := ev_id e # la_seen a\<rparr>)
        else if ev_id e \<notin> set (la_seen a) then Inl JournalCorruptError
        else Inr a')"

definition load_line :: "jline \<Rightarrow> load_acc \<Rightarrow> load_acc res" where
  "load_line l a = (case l of
     Line v \<Rightarrow> rbind (decode_event v) (\<lambda>e. load_event e a)
   | _ \<Rightarrow> Inl JournalCorruptError)"

text \<open>\<open>_load_unchecked\<close>; the file may be missing.\<close>

definition load_lines :: "jline list option \<Rightarrow> journal_event list res" where
  "load_lines f = (case f of
     None \<Rightarrow> Inr []
   | Some ls \<Rightarrow> rbind (rfold load_line ls load_start) (\<lambda>a. Inr (la_events a)))"

text \<open>\<open>_intent_ids_with_intent\<close>, which also reads what it can of a corrupt file.\<close>

definition raw_intent_id :: "jline \<Rightarrow> string option" where
  "raw_intent_id l = (case l of
     Line (JObj obj) \<Rightarrow> (case (pget obj ''kind'', pget obj ''intent_id'') of
        (JStr k, JStr i) \<Rightarrow> if k = kind_value K_INTENT then Some i else None
      | _ \<Rightarrow> None)
   | _ \<Rightarrow> None)"

definition intent_ids_with_intent :: "jline list option \<Rightarrow> string list" where
  "intent_ids_with_intent f = (case load_lines f of
     Inl _ \<Rightarrow> (case f of None \<Rightarrow> [] | Some ls \<Rightarrow> List.map_filter raw_intent_id ls)
   | Inr es \<Rightarrow> map ev_id (of_kind K_INTENT es))"

definition event_line :: "journal_event \<Rightarrow> jline" where
  "event_line e = Line (JObj
     [(''seq'', JInt (ev_seq e)), (''ts'', JStr (ev_ts e)), (''kind'', JStr (kind_value (ev_kind e))),
      (''intent_id'', JStr (ev_id e)), (''run_id'', JStr (ev_run e)), (''payload'', JObj (ev_payload e))])"

section \<open>The journal object\<close>

text \<open>
  \<open>disk\<close> is the outcome of one append: written, refused before anything is written, cut
  off in the middle of the line, or written with an error reported (as by \<open>fsync\<close>). The
  last three raise \<open>OSError\<close>; they also stand for the process dying at that point.
\<close>

datatype disk = Disk_ok | Disk_refused | Disk_torn | Disk_late

record 'w host =
  h_ts :: "'w \<Rightarrow> string \<times> 'w"
  h_disk :: "'w \<Rightarrow> disk \<times> 'w"
  h_halted :: "'w \<Rightarrow> bool \<times> 'w"
  h_lock :: "'w \<Rightarrow> bool \<times> 'w"

record 'w journal =
  j_lines :: "jline list option"
  j_locked :: bool
  j_world :: 'w

text \<open>A call into the world.\<close>

definition world_call :: "('w \<Rightarrow> 'a \<times> 'w) \<Rightarrow> (('w, 'm) journal_scheme, 'a) eff" where
  "world_call f = (\<lambda>s. let (a, w) = f (j_world s) in (Inr a, s\<lparr>j_world := w\<rparr>))"

definition add_line :: "jline \<Rightarrow> jline list option \<Rightarrow> jline list option" where
  "add_line l f = Some (case f of None \<Rightarrow> [l] | Some ls \<Rightarrow> ls @ [l])"

text \<open>
  The append of one line. A write that fails leaves the file as it was, with a part of the line
  (no JSON text), or with the whole line and its newline; the one cut between the closing brace and the newline,
  after which the text would read as an event while the next append glues onto it, is left out.
\<close>

definition write_line :: "('w, 'h) host_scheme \<Rightarrow> jline \<Rightarrow> (('w, 'm) journal_scheme, unit) eff" where
  "write_line H l = bnd (world_call (h_disk H)) (\<lambda>d. case d of
     Disk_ok \<Rightarrow> modify (\<lambda>s. s\<lparr>j_lines := add_line l (j_lines s)\<rparr>)
   | Disk_refused \<Rightarrow> throw OSError
   | Disk_torn \<Rightarrow> bnd (modify (\<lambda>s. s\<lparr>j_lines := add_line Undecodable (j_lines s)\<rparr>)) (\<lambda>_. throw OSError)
   | Disk_late \<Rightarrow> bnd (modify (\<lambda>s. s\<lparr>j_lines := add_line l (j_lines s)\<rparr>)) (\<lambda>_. throw OSError))"

definition check_append :: "event_kind \<Rightarrow> string \<Rightarrow> payload \<Rightarrow> string \<Rightarrow> jline list option \<Rightarrow> unit res" where
  "check_append kind iid p run f =
     (if py_blank iid then Inl ValueError
      else if py_blank run then Inl ValueError
      else if \<not> list_all (\<lambda>(key, x). key \<noteq> [] \<and> payload_value_ok key x) p then Inl ValueError
      else if kind = K_SKIP \<and> \<not> is_nonblank_str (pget_default p ''reason'' (JStr [])) then Inl ValueError
      else if kind = K_INTENT \<and> iid \<in> set (intent_ids_with_intent f) then Inl ValueError
      else Inr ())"

definition next_seq :: "journal_event list \<Rightarrow> int" where
  "next_seq es = (if es = [] then 1 else ev_seq (last es) + 1)"

definition journal_append ::
    "('w, 'h) host_scheme \<Rightarrow> event_kind \<Rightarrow> string \<Rightarrow> payload \<Rightarrow> string \<Rightarrow>
     (('w, 'm) journal_scheme, journal_event) eff" where
  "journal_append H kind iid p run = bnd (gets j_locked) (\<lambda>locked.
     if \<not> locked then throw RuntimeError
     else bnd (lift_res (\<lambda>s. check_append kind iid p run (j_lines s))) (\<lambda>_.
       bnd (lift_res (\<lambda>s. load_lines (j_lines s))) (\<lambda>events.
       bnd (world_call (h_ts H)) (\<lambda>ts.
         let e = \<lparr>ev_seq = next_seq events, ev_ts = ts, ev_kind = kind, ev_id = iid, ev_run = run,
                  ev_payload = p\<rparr>
         in bnd (write_line H (event_line e)) (\<lambda>_. ret e)))))"

text \<open>\<open>exclusive()\<close> around a body.\<close>

definition exclusive ::
    "('w, 'h) host_scheme \<Rightarrow> (('w, 'm) journal_scheme, 'a) eff \<Rightarrow> (('w, 'm) journal_scheme, 'a) eff" where
  "exclusive H body = bnd (gets j_locked) (\<lambda>locked.
     if locked then throw RuntimeError
     else bnd (world_call (h_lock H)) (\<lambda>acquired.
       if \<not> acquired then throw TimeoutError
       else bnd (modify (\<lambda>s. s\<lparr>j_locked := True\<rparr>)) (\<lambda>_.
         finally_do body (\<lambda>s. s\<lparr>j_locked := False\<rparr>))))"

definition journal_init :: "string \<Rightarrow> jval \<Rightarrow> unit res" where
  "journal_init env timeout =
     (if env \<notin> {''mock'', ''live''} then Inl ValueError
      else case num_of timeout of
        Some (Fin t) \<Rightarrow> if t \<le> 0 then Inl ValueError else Inr ()
      | _ \<Rightarrow> Inl ValueError)"

definition is_halted :: "('w, 'h) host_scheme \<Rightarrow> (('w, 'm) journal_scheme, bool) eff" where
  "is_halted H = world_call (h_halted H)"

section \<open>States and open lots\<close>

definition group_events :: "journal_event list \<Rightarrow> (string \<times> journal_event list) list" where
  "group_events es = fold (\<lambda>e d. dset (ev_id e) (dget [] d (ev_id e) @ [e]) d) es []"

definition events_states :: "journal_event list \<Rightarrow> (string \<times> intent_state) list res" where
  "events_states es = rmap (\<lambda>(k, v). rbind (derive_intent_state (sort_key ev_seq v)) (\<lambda>st. Inr (k, st)))
     (group_events es)"

definition journal_states :: "jline list option \<Rightarrow> (string \<times> intent_state) list res" where
  "journal_states f = rbind (load_lines f) events_states"

definition has_phase :: "order_phase \<Rightarrow> intent_state \<Rightarrow> bool" where
  "has_phase ph st \<longleftrightarrow> (case st_intent st of None \<Rightarrow> False | Some i \<Rightarrow> phase i = ph)"

definition exits_by_parent :: "(string \<times> intent_state) list \<Rightarrow> (string \<times> int) list" where
  "exits_by_parent sts = fold (\<lambda>(k, st) d. case st_intent st of
       None \<Rightarrow> d
     | Some i \<Rightarrow> if phase i = EXIT
         then (let parent = py_str (parent_intent_id i)
               in dset parent (dget 0 d parent + st_filled_qty st) d)
         else d) sts []"

fun lots_of :: "(string \<times> int) list \<Rightarrow> (string \<times> intent_state) list \<Rightarrow> open_lot list res" where
  "lots_of exits [] = Inr []"
| "lots_of exits ((iid, st) # sts) = (case st_intent st of
     None \<Rightarrow> lots_of exits sts
   | Some i \<Rightarrow>
       if phase i \<noteq> ENTRY then lots_of exits sts
       else (let q = st_filled_qty st - dget 0 exits iid in
         if q < 0 then Inl JournalCorruptError
         else rbind (lots_of exits sts) (\<lambda>lots. Inr (if 0 < q
           then \<lparr>ol_entry_intent_id = iid, ol_symbol = symbol i, ol_trading_date = trading_date i,
                  ol_qty = q\<rparr> # lots
           else lots))))"

definition lot_key :: "open_lot \<Rightarrow> string \<times> string" where
  "lot_key l = (ol_trading_date l, ol_symbol l)"

definition states_open_lots :: "(string \<times> intent_state) list \<Rightarrow> open_lot list res" where
  "states_open_lots sts = rbind (lots_of (exits_by_parent sts) sts) (\<lambda>lots. Inr (sort_key lot_key lots))"

definition open_lots :: "jline list option \<Rightarrow> open_lot list res" where
  "open_lots f = rbind (journal_states f) states_open_lots"

section \<open>Reading back what was written\<close>

lemma kind_of_value [simp]: "kind_of (kind_value k) = Inr k"
  by (cases k) (simp_all add: kind_of_def enum_of_def all_kinds_def kind_value_def)

definition event_ok :: "journal_event \<Rightarrow> bool" where
  "event_ok e \<longleftrightarrow> 0 < ev_seq e \<and> \<not> py_blank (ev_ts e) \<and> ev_id e \<noteq> [] \<and> ev_run e \<noteq> []
     \<and> list_all (\<lambda>(key, x). payload_value_ok key x) (ev_payload e)"

lemma decode_event_line: "event_line e = Line v \<Longrightarrow>
   decode_event v = (if event_ok e then Inr e else Inl JournalCorruptError)"
  by (auto simp: event_line_def decode_event_def event_ok_def)

lemma decode_event_ok: "decode_event v = Inr e \<Longrightarrow> event_ok e"
  by (auto simp: decode_event_def event_ok_def split: jval.splits option.splits sum.splits if_splits)

lemma load_line_event: "load_line (event_line e) a =
   (if event_ok e then load_event e a else Inl JournalCorruptError)"
  by (auto simp: load_line_def event_line_def decode_event_line [unfolded event_line_def])

lemma load_event_Inr: "load_event e a = Inr a' \<Longrightarrow>
   la_events a' = la_events a @ [e] \<and> la_prev a' = Some (ev_seq e)
   \<and> (case la_prev a of None \<Rightarrow> True | Some q \<Rightarrow> q < ev_seq e)
   \<and> la_seen_intent a' = (if ev_kind e = K_INTENT then ev_id e # la_seen_intent a else la_seen_intent a)
   \<and> (ev_kind e = K_INTENT \<longrightarrow> ev_id e \<notin> set (la_seen_intent a))
   \<and> la_seen a' = (if ev_kind e = K_INTENT \<or> ev_kind e = K_SKIP then ev_id e # la_seen a else la_seen a)
   \<and> (ev_kind e \<noteq> K_INTENT \<and> ev_kind e \<noteq> K_SKIP \<longrightarrow> ev_id e \<in> set (la_seen a))"
  by (auto simp: load_event_def Let_def split: if_splits option.splits)

lemma load_event_Inl: "load_event e a = Inl x \<Longrightarrow> x = JournalCorruptError"
  by (auto simp: load_event_def Let_def split: if_splits option.splits)

text \<open>Every event but an \<open>INTENT\<close> or \<open>SKIP\<close> follows one of these for its intent.\<close>

definition declares :: "journal_event \<Rightarrow> bool" where
  "declares e \<longleftrightarrow> ev_kind e = K_INTENT \<or> ev_kind e = K_SKIP"

fun declared :: "string set \<Rightarrow> journal_event list \<Rightarrow> bool" where
  "declared ids [] = True"
| "declared ids (e # es) =
     (if declares e then declared (insert (ev_id e) ids) es else ev_id e \<in> ids \<and> declared ids es)"

lemma declared_append:
  "declared ids (es @ fs) \<longleftrightarrow> declared ids es \<and> declared (ids \<union> ev_id ` set (filter declares es)) fs"
proof (induction es arbitrary: ids)
  case (Cons e es)
  then show ?case by (cases "declares e") (simp_all add: insert_commute)
qed simp

text \<open>The well-formed journals: what every successful load establishes.\<close>

definition journal_wf :: "journal_event list \<Rightarrow> bool" where
  "journal_wf es \<longleftrightarrow> sorted_wrt (<) (map ev_seq es) \<and> (\<forall>e\<in>set es. event_ok e)
     \<and> distinct (map ev_id (of_kind K_INTENT es))
     \<and> declared {} es"

definition follows_wf :: "journal_event list \<Rightarrow> journal_event \<Rightarrow> bool" where
  "follows_wf es e \<longleftrightarrow> event_ok e \<and> (es \<noteq> [] \<longrightarrow> ev_seq (last es) < ev_seq e)
     \<and> (ev_kind e = K_INTENT \<longrightarrow> ev_id e \<notin> ev_id ` set (of_kind K_INTENT es))
     \<and> (declares e \<or> ev_id e \<in> ev_id ` set (filter declares es))"

lemma of_kind_simps [simp]:
  "of_kind k [] = []"
  "of_kind k (es @ fs) = of_kind k es @ of_kind k fs"
  "of_kind k (e # es) = (if ev_kind e = k then e # of_kind k es else of_kind k es)"
  by (simp_all add: of_kind_def)

lemma sorted_seq_snoc: "sorted_wrt (<) (map ev_seq es) \<Longrightarrow> (es \<noteq> [] \<Longrightarrow> ev_seq (last es) < n) \<Longrightarrow>
   e \<in> set es \<Longrightarrow> ev_seq e < n"
  by (cases es rule: rev_cases) (auto simp: sorted_wrt_append)

lemma journal_wf_Nil [simp]: "journal_wf []"
  by (simp add: journal_wf_def)

lemma journal_wf_snoc: "journal_wf es \<Longrightarrow> follows_wf es e \<Longrightarrow> journal_wf (es @ [e])"
  using sorted_seq_snoc [of es "ev_seq e"]
  by (auto simp: journal_wf_def follows_wf_def sorted_wrt_append declared_append)

definition acc_ok :: "load_acc \<Rightarrow> bool" where
  "acc_ok a \<longleftrightarrow> journal_wf (la_events a)
     \<and> la_prev a = (if la_events a = [] then None else Some (ev_seq (last (la_events a))))
     \<and> set (la_seen_intent a) = ev_id ` set (of_kind K_INTENT (la_events a))
     \<and> set (la_seen a) = ev_id ` set (filter declares (la_events a))"

lemma load_event_follows:
  assumes "acc_ok a"
  shows "(\<exists>a'. load_event e a = Inr a') \<and> event_ok e \<longleftrightarrow> follows_wf (la_events a) e"
  using assms
  by (auto simp: load_event_def Let_def follows_wf_def acc_ok_def declares_def image_iff Bex_def not_le
      split: if_splits option.splits)

lemma load_event_acc_ok:
  assumes "acc_ok a" "load_event e a = Inr a'" "event_ok e"
  shows "acc_ok a'" "la_events a' = la_events a @ [e]"
proof -
  note h = load_event_Inr [OF assms(2)]
  have "follows_wf (la_events a) e" using load_event_follows [OF assms(1)] assms(2,3) by blast
  then have "journal_wf (la_events a')" using journal_wf_snoc h assms(1) by (auto simp: acc_ok_def)
  then show "acc_ok a'" using h assms(1) by (auto simp: acc_ok_def declares_def)
  show "la_events a' = la_events a @ [e]" using h by blast
qed

lemma acc_ok_start [simp]: "acc_ok load_start"
  by (simp add: acc_ok_def load_start_def)

lemma load_line_acc_ok: "load_line l a = Inr a' \<Longrightarrow> acc_ok a \<Longrightarrow> acc_ok a'"
  by (auto simp: load_line_def split: jline.splits dest: decode_event_ok load_event_acc_ok(1))

lemma rfold_load_acc_ok: "rfold load_line ls load_start = Inr a \<Longrightarrow> acc_ok a"
  by (rule rfold_invariant [where I = acc_ok]) (auto intro: load_line_acc_ok)

theorem load_lines_wf: "load_lines f = Inr es \<Longrightarrow> journal_wf es"
  by (auto simp: load_lines_def acc_ok_def split: option.splits dest: rfold_load_acc_ok)

lemma load_lines_add_corrupt: "load_lines f = Inl x \<Longrightarrow> load_lines (add_line l f) = Inl x"
  by (auto simp: load_lines_def add_line_def rfold_append rbind_Inl_iff split: option.splits)

lemma load_lines_add_undecodable: "\<exists>x. load_lines (add_line Undecodable f) = Inl x"
proof (cases "load_lines f")
  case (Inl x)
  then show ?thesis using load_lines_add_corrupt by blast
next
  case (Inr es)
  then show ?thesis
    by (auto simp: load_lines_def add_line_def rfold_append load_line_def split: option.splits)
qed

lemma load_lines_add_event:
  assumes "load_lines f = Inr es"
  shows "load_lines (add_line (event_line e) f)
    = (if follows_wf es e then Inr (es @ [e]) else Inl JournalCorruptError)"
proof -
  obtain a where a: "acc_ok a" "la_events a = es"
    and red: "load_lines (add_line (event_line e) f)
      = rbind (load_line (event_line e) a) (\<lambda>a'. Inr (la_events a'))"
  proof (cases f)
    case None
    then have "es = []" using assms by (simp add: load_lines_def)
    with None show thesis
      by (intro that [of load_start])
        (simp_all add: load_start_def acc_ok_def load_lines_def add_line_def rbind_assoc)
  next
    case (Some ls)
    then obtain a where "rfold load_line ls load_start = Inr a" "la_events a = es"
      using assms by (auto simp: load_lines_def)
    with Some show thesis
      by (intro that [of a])
        (simp_all add: rfold_load_acc_ok load_lines_def add_line_def rfold_append rbind_assoc)
  qed
  show ?thesis
  proof (cases "follows_wf es e")
    case True
    then obtain a' where "load_event e a = Inr a'" "event_ok e"
      using load_event_follows [OF a(1), of e] a(2) by auto
    then show ?thesis using True red a load_event_acc_ok(2) [OF a(1)]
      by (simp add: load_line_event)
  next
    case False
    then have "\<nexists>a'. load_event e a = Inr a' \<and> event_ok e"
      using load_event_follows [OF a(1), of e] a(2) by auto
    then show ?thesis using False red load_event_Inl
      by (cases "load_event e a") (auto simp: load_line_event)
  qed
qed

section \<open>What an append does\<close>

definition appended_event :: "journal_event list \<Rightarrow> string \<Rightarrow> event_kind \<Rightarrow> string \<Rightarrow> string \<Rightarrow> payload \<Rightarrow> journal_event" where
  "appended_event es ts kind iid run p =
     \<lparr>ev_seq = next_seq es, ev_ts = ts, ev_kind = kind, ev_id = iid, ev_run = run, ev_payload = p\<rparr>"

text \<open>
  The three outcomes of an append: nothing written and an exception; a torn line and
  \<open>OSError\<close>; or the event written at the end of a journal that loads, returned or with
  \<open>OSError\<close>.
\<close>

inductive append_outcome ::
    "jline list option \<Rightarrow> event_kind \<Rightarrow> string \<Rightarrow> payload \<Rightarrow> string \<Rightarrow> journal_event res \<Rightarrow> jline list option \<Rightarrow> bool"
  for f kind iid p run where
  unwritten: "append_outcome f kind iid p run (Inl x) f"
| torn: "append_outcome f kind iid p run (Inl OSError) (add_line Undecodable f)"
| written: "load_lines f = Inr es \<Longrightarrow> check_append kind iid p run f = Inr () \<Longrightarrow>
    e = appended_event es ts kind iid run p \<Longrightarrow> r \<in> {Inr e, Inl OSError} \<Longrightarrow>
    append_outcome f kind iid p run r (add_line (event_line e) f)"

inductive_cases append_outcomeE: "append_outcome f kind iid p run r f'"
inductive_cases append_returnsE: "append_outcome f kind iid p run (Inr e) f'"

lemma write_line_run:
  assumes "write_line H l s = (r, s')"
  obtains w where "s' = s\<lparr>j_lines := j_lines s', j_world := w\<rparr>" "j_locked s' = j_locked s"
    "(r = Inl OSError \<and> j_lines s' \<in> {j_lines s, add_line Undecodable (j_lines s), add_line l (j_lines s)})
     \<or> r = Inr () \<and> j_lines s' = add_line l (j_lines s)"
proof -
  obtain d w where d: "h_disk H (j_world s) = (d, w)" by (cases "h_disk H (j_world s)") auto
  show thesis
    using assms by (intro that [of w]; cases d)
      (auto simp: write_line_def world_call_def bnd_def d modify_def throw_def)
qed

lemma journal_append_run:
  assumes "journal_append H kind iid p run s = (r, s')"
  shows "\<exists>w. s' = s\<lparr>j_lines := j_lines s', j_world := w\<rparr>"
    and "append_outcome (j_lines s) kind iid p run r (j_lines s')"
    and "\<not> j_locked s \<Longrightarrow> s' = s \<and> r = Inl RuntimeError"
proof -
  have "(\<exists>w. s' = s\<lparr>j_lines := j_lines s', j_world := w\<rparr>)
      \<and> append_outcome (j_lines s) kind iid p run r (j_lines s')
      \<and> (\<not> j_locked s \<longrightarrow> s' = s \<and> r = Inl RuntimeError)"
  proof (cases "j_locked s")
    case False
    then have "s' = s" "r = Inl RuntimeError"
      using assms by (auto simp: journal_append_def bnd_def gets_def throw_def)
    then show ?thesis by (auto intro: append_outcome.intros exI [of _ "j_world s"])
  next
    case lock: True
    show ?thesis
    proof (cases "check_append kind iid p run (j_lines s)")
      case (Inl x)
      then have "s' = s" "r = Inl x" using assms lock
        by (auto simp: journal_append_def bnd_def gets_def lift_res_def)
      then show ?thesis using lock by (auto intro: append_outcome.intros exI [of _ "j_world s"])
    next
      case chk: (Inr u)
      show ?thesis
      proof (cases "load_lines (j_lines s)")
        case (Inl x)
        then have "s' = s" "r = Inl x" using assms lock chk
          by (auto simp: journal_append_def bnd_def gets_def lift_res_def)
        then show ?thesis using lock by (auto intro: append_outcome.intros exI [of _ "j_world s"])
      next
        case es: (Inr es)
        obtain ts w1 where ts: "h_ts H (j_world s) = (ts, w1)" by (cases "h_ts H (j_world s)") auto
        let ?e = "appended_event es ts kind iid run p"
        obtain r1 s1 where wl: "write_line H (event_line ?e) (s\<lparr>j_world := w1\<rparr>) = (r1, s1)"
          by (cases "write_line H (event_line ?e) (s\<lparr>j_world := w1\<rparr>)") auto
        have res: "s' = s1" "r = (case r1 of Inl x \<Rightarrow> Inl x | Inr _ \<Rightarrow> Inr ?e)"
          using assms lock chk es ts wl
          by (auto simp: journal_append_def bnd_def gets_def lift_res_def world_call_def Let_def
              appended_event_def ret_def split: sum.splits)
        obtain w where w: "s1 = (s\<lparr>j_world := w1\<rparr>)\<lparr>j_lines := j_lines s1, j_world := w\<rparr>"
          "(r1 = Inl OSError \<and> j_lines s1 \<in> {j_lines s, add_line Undecodable (j_lines s),
              add_line (event_line ?e) (j_lines s)})
           \<or> r1 = Inr () \<and> j_lines s1 = add_line (event_line ?e) (j_lines s)"
          by (rule write_line_run [OF wl]) auto
        have "s' = s\<lparr>j_lines := j_lines s', j_world := w\<rparr>" using w(1) res(1) by simp
        moreover have "append_outcome (j_lines s) kind iid p run r (j_lines s')"
          using w(2) res chk es by (auto intro: append_outcome.intros)
        ultimately show ?thesis using lock by blast
      qed
    qed
  qed
  then show "\<exists>w. s' = s\<lparr>j_lines := j_lines s', j_world := w\<rparr>"
    and "append_outcome (j_lines s) kind iid p run r (j_lines s')"
    and "\<not> j_locked s \<Longrightarrow> s' = s \<and> r = Inl RuntimeError" by blast+
qed

text \<open>What a loader sees after an append that wrote.\<close>

lemma append_outcome_load:
  assumes "append_outcome f kind iid p run r f'"
  obtains (same) "f' = f" "\<exists>x. r = Inl x"
    | (event) es ts where "load_lines f = Inr es" "check_append kind iid p run f = Inr ()"
        "load_lines f' = Inr (es @ [appended_event es ts kind iid run p])"
        "follows_wf es (appended_event es ts kind iid run p)"
    | (broken) x where "load_lines f' = Inl x"
  using assms
proof (cases rule: append_outcome.cases)
  case torn
  then show ?thesis using broken load_lines_add_undecodable by metis
next
  case (written es e ts)
  then show ?thesis using event broken load_lines_add_event [of f es e] by metis
qed (use same in auto)

section \<open>The events of one intent\<close>

definition events_of :: "string \<Rightarrow> journal_event list \<Rightarrow> journal_event list" where
  "events_of iid es = filter (\<lambda>e. ev_id e = iid) es"

lemma events_of_simps [simp]:
  "events_of iid [] = []"
  "events_of iid (es @ fs) = events_of iid es @ events_of iid fs"
  "events_of iid [e] = (if ev_id e = iid then [e] else [])"
  by (simp_all add: events_of_def)

lemma group_events_snoc:
  "group_events (es @ [e]) = dset (ev_id e) (dget [] (group_events es) (ev_id e) @ [e]) (group_events es)"
  by (simp add: group_events_def)

lemma group_events_lookup:
  "map_of (group_events es) iid = (if events_of iid es = [] then None else Some (events_of iid es))"
  by (induction es rule: rev_induct)
    (auto simp: group_events_snoc dget_def group_events_def [of "[]"] split: option.splits if_splits)

lemma group_events_distinct: "distinct (map fst (group_events es))"
  by (induction es rule: rev_induct) (simp_all add: group_events_snoc group_events_def [of "[]"])

lemma sorted_events_of: "sorted_wrt (<) (map ev_seq es) \<Longrightarrow> sorted_wrt (<) (map ev_seq (events_of iid es))"
  unfolding events_of_def by (induction es) auto

lemma sort_key_sorted: "sorted_wrt (<) (map ev_seq es) \<Longrightarrow> sort_key ev_seq es = es"
  by (simp add: sort_key_id_if_sorted strict_sorted_imp_sorted)

lemma rmap_assoc:
  "rmap (\<lambda>(k, v). rbind (g v) (\<lambda>y. Inr (k, y))) d = Inr d' \<Longrightarrow>
   map fst d' = map fst d \<and>
   (\<forall>k. map_of d' k = (case map_of d k of None \<Rightarrow> None | Some v \<Rightarrow> (case g v of Inr y \<Rightarrow> Some y | Inl _ \<Rightarrow> None)))
   \<and> (\<forall>(k, v)\<in>set d. \<exists>y. g v = Inr y)"
proof (induction d arbitrary: d')
  case (Cons p d)
  then obtain k v y d1 where p: "p = (k, v)" "g v = Inr y" "d' = (k, y) # d1"
    and d1: "rmap (\<lambda>(k, v). rbind (g v) (\<lambda>y. Inr (k, y))) d = Inr d1" by (cases p) auto
  show ?case using Cons.IH [OF d1] p by auto
qed simp

text \<open>The table of states has one entry per intent of the journal, derived from its events.\<close>

lemma events_states_lookup:
  assumes "events_states es = Inr sts" "journal_wf es"
  shows "map_of sts iid = Some st \<longleftrightarrow>
      events_of iid es \<noteq> [] \<and> derive_intent_state (events_of iid es) = Inr st"
    and "distinct (map fst sts)"
    and "map fst sts = map fst (group_events es)"
proof -
  note r = rmap_assoc [OF assms(1) [unfolded events_states_def]]
  have "sorted_wrt (<) (map ev_seq es)" using assms(2) by (simp add: journal_wf_def)
  then have "sort_key ev_seq (events_of iid es) = events_of iid es"
    by (intro sort_key_sorted sorted_events_of)
  then show "map_of sts iid = Some st \<longleftrightarrow>
      events_of iid es \<noteq> [] \<and> derive_intent_state (events_of iid es) = Inr st"
    using r by (auto simp: group_events_lookup split: sum.splits option.splits)
  show "map fst sts = map fst (group_events es)" using r by blast
  then show "distinct (map fst sts)" using group_events_distinct by metis
qed

lemma journal_states_lookup:
  assumes "journal_states f = Inr sts"
  obtains es where "load_lines f = Inr es" "journal_wf es" "events_states es = Inr sts"
  using assms that by (auto simp: journal_states_def dest: load_lines_wf)

end
