(* ===== verification/Send_History.thy ===== *)
theory Send_History
  imports Order_Journal
begin

text \<open>
  The sends of one intent, seen as a small automaton over its events: a send opens an
  exchange, its result closes it. The lemmas tie the automaton to the status the journal
  derives, which is all the gateway looks at before it sends.
\<close>

section \<open>The exchange automaton\<close>

text \<open>
  \<open>Idle\<close>: every send was answered with a verdict that proves no order was placed.
  \<open>Waiting\<close>: the last send has no result. \<open>Settled v\<close>: its result is \<open>v\<close>, which proves
  nothing of the kind. \<open>Tangled\<close>: anything else, such as a send over an open exchange.
\<close>

datatype send_phase = Idle | Waiting | Settled submit_verdict | Tangled

fun send_step :: "journal_event \<Rightarrow> send_phase \<Rightarrow> send_phase" where
  "send_step e ph =
     (if ev_kind e = K_SEND then (if ph = Idle then Waiting else Tangled)
      else if ev_kind e = K_RESULT then
        (if ph = Waiting
         then (case ev_verdict e of
             Inr v \<Rightarrow> if v \<in> set safe_verdicts then Idle else Settled v
           | Inl _ \<Rightarrow> Tangled)
         else Tangled)
      else ph)"

definition send_phase_of :: "journal_event list \<Rightarrow> send_phase" where
  "send_phase_of es = fold send_step es Idle"

definition exchange_event :: "journal_event \<Rightarrow> bool" where
  "exchange_event e \<longleftrightarrow> ev_kind e = K_SEND \<or> ev_kind e = K_RESULT"

lemma send_phase_Nil [simp]: "send_phase_of [] = Idle"
  by (simp add: send_phase_of_def)

lemma send_phase_snoc [simp]: "send_phase_of (es @ [e]) = send_step e (send_phase_of es)"
  by (simp add: send_phase_of_def)

lemma send_step_other: "\<not> exchange_event e \<Longrightarrow> send_step e ph = ph"
  by (simp add: exchange_event_def)

lemma not_exchange_kinds:
  "\<forall>e\<in>set es. \<not> exchange_event e \<Longrightarrow> of_kind K_SEND es = [] \<and> of_kind K_RESULT es = []"
  by (auto simp: of_kind_def exchange_event_def filter_empty_conv)

text \<open>The shape of a history in each phase.\<close>

lemma phase_Waiting_shape:
  "send_phase_of es = Waiting \<Longrightarrow>
   \<exists>pre s post. es = pre @ s # post \<and> ev_kind s = K_SEND \<and> (\<forall>e\<in>set post. \<not> exchange_event e)"
proof (induction es rule: rev_induct)
  case (snoc e es)
  show ?case
  proof (cases "exchange_event e")
    case True
    then have "ev_kind e = K_SEND"
      using snoc.prems by (auto simp: exchange_event_def split: if_splits sum.splits)
    then show ?thesis by (intro exI [of _ es] exI [of _ e] exI [of _ "[]"]) simp
  next
    case False
    then have "send_phase_of es = Waiting" using snoc.prems send_step_other [OF False] by (simp only: send_phase_snoc)
    then obtain pre s post where "es = pre @ s # post" "ev_kind s = K_SEND" "\<forall>e\<in>set post. \<not> exchange_event e"
      using snoc.IH by blast
    then show ?thesis using False by (intro exI [of _ pre] exI [of _ s] exI [of _ "post @ [e]"]) auto
  qed
qed simp

lemma phase_Settled_shape:
  "send_phase_of es = Settled v \<Longrightarrow>
   v \<notin> set safe_verdicts \<and> (\<exists>pre r post. es = pre @ r # post \<and> is_result v r \<and> of_kind K_SEND pre \<noteq> []
     \<and> (\<forall>e\<in>set post. \<not> exchange_event e))"
proof (induction es rule: rev_induct)
  case (snoc e es)
  show ?case
  proof (cases "exchange_event e")
    case True
    then have e: "is_result v e" "v \<notin> set safe_verdicts" "send_phase_of es = Waiting"
      using snoc.prems by (auto simp: exchange_event_def is_result_def split: if_splits sum.splits)
    from phase_Waiting_shape [OF e(3)] have "of_kind K_SEND es \<noteq> []" by auto
    then show ?thesis using e by (intro conjI exI [of _ es] exI [of _ e] exI [of _ "[]"]) simp_all
  next
    case False
    then have "send_phase_of es = Settled v" using snoc.prems send_step_other [OF False] by (simp only: send_phase_snoc)
    then obtain pre r post where "v \<notin> set safe_verdicts" "es = pre @ r # post" "is_result v r"
      "of_kind K_SEND pre \<noteq> []" "\<forall>e\<in>set post. \<not> exchange_event e"
      using snoc.IH by blast
    then show ?thesis using False
      by (intro conjI exI [of _ pre] exI [of _ r] exI [of _ "post @ [e]"]) auto
  qed
qed simp

section \<open>The status of an open exchange\<close>

definition sendable :: "intent_status \<Rightarrow> bool" where
  "sendable s \<longleftrightarrow> s = S_RECORDED \<or> s = S_NOT_SENT"

lemma max_seq_ge: "e \<in> set es \<Longrightarrow> ev_seq e \<le> max_seq es"
  by (simp add: max_seq_def)

lemma max_seq_less: "es \<noteq> [] \<Longrightarrow> (\<And>e. e \<in> set es \<Longrightarrow> ev_seq e < n) \<Longrightarrow> max_seq es < n"
  by (auto simp: max_seq_def)

lemma later_empty: "(\<And>e. e \<in> set es \<Longrightarrow> ev_seq e \<le> max_seq sends) \<Longrightarrow> later sends es = []"
  by (auto simp: later_def filter_empty_conv not_less)

lemma open_status_Waiting:
  assumes "sorted_wrt (<) (map ev_seq es)" "send_phase_of es = Waiting"
  shows "\<not> sendable (fst (open_status es))"
proof -
  obtain pre s post where es: "es = pre @ s # post" "ev_kind s = K_SEND"
    and post: "\<forall>e\<in>set post. \<not> exchange_event e"
    using phase_Waiting_shape [OF assms(2)] by blast
  have s: "s \<in> set (of_kind K_SEND es)" using es by simp
  have res: "of_kind K_RESULT es = of_kind K_RESULT pre" using es not_exchange_kinds [OF post] by simp
  have "ev_seq e \<le> max_seq (of_kind K_SEND es)" if "e \<in> set (of_kind K_RESULT pre)" for e
  proof -
    have "e \<in> set pre" using that by (simp add: of_kind_def)
    then have "ev_seq e < ev_seq s" using assms(1) es(1) by (auto simp: sorted_wrt_append)
    then show ?thesis using max_seq_ge [OF s] by simp
  qed
  then have "later (of_kind K_SEND es) (of_kind K_RESULT es) = []"
    unfolding res by (rule later_empty)
  moreover have "of_kind K_SEND es \<noteq> []" using s by auto
  ultimately show ?thesis by (simp add: open_status_def Let_def sendable_def)
qed

lemma open_status_Settled:
  assumes "sorted_wrt (<) (map ev_seq es)" "send_phase_of es = Settled v"
  shows "\<not> sendable (fst (open_status es))"
proof -
  obtain pre r post where es: "es = pre @ r # post" "is_result v r" "of_kind K_SEND pre \<noteq> []"
    and post: "\<forall>e\<in>set post. \<not> exchange_event e" and v: "v \<notin> set safe_verdicts"
    using phase_Settled_shape [OF assms(2)] by blast
  have rk: "ev_kind r = K_RESULT" "ev_verdict r = Inr v" using es(2) by (simp_all add: is_result_def)
  note none = not_exchange_kinds [OF post]
  have sends: "of_kind K_SEND es = of_kind K_SEND pre" using es(1) rk none by simp
  have "ev_seq e < ev_seq r" if "e \<in> set (of_kind K_SEND pre)" for e
    using that assms(1) es(1) by (auto simp: of_kind_def sorted_wrt_append)
  then have "max_seq (of_kind K_SEND es) < ev_seq r" unfolding sends by (intro max_seq_less es(3))
  then have "later (of_kind K_SEND es) (of_kind K_RESULT es)
      = later (of_kind K_SEND es) (of_kind K_RESULT pre) @ [r]"
    using es(1) rk none by (simp add: later_def)
  then have last: "last (later (of_kind K_SEND es) (of_kind K_RESULT es)) = r" by simp
  have "of_kind K_SEND es \<noteq> []" using sends es(3) by simp
  moreover have "v = ACCEPTED \<or> v = REJECTED \<or> v = AMBIGUOUS"
    using v by (cases v) (simp_all add: safe_verdicts_def)
  moreover have "list_ex (is_result v) es" using es by simp
  ultimately show ?thesis using last rk(2)
    by (auto simp: open_status_def Let_def sendable_def)
qed

lemma final_status_not_sendable: "final_status i p = Inr s \<Longrightarrow> \<not> sendable s"
  by (auto simp: final_status_def sendable_def split: if_splits)

text \<open>What the derivation of a state consists of, on events in increasing order.\<close>

lemma successively_seq: "successively (<) (map ev_seq es) = sorted_wrt (<) (map ev_seq es)"
  by (rule successively_conv_sorted_wrt) (rule transpI, rule less_trans)

lemma derive_Inr:
  assumes "derive_intent_state es = Inr st" "sorted_wrt (<) (map ev_seq es)"
  obtains intent where "es \<noteq> []" "derive_intent es = Inr intent" "derive_fields intent es = Inr st"
    "length (of_kind K_INTENT es) \<le> 1"
  using assms that unfolding derive_intent_state.simps [of es]
  by (auto simp: sort_key_sorted Let_def split: if_splits)

lemma derive_fields_Inr:
  assumes "derive_fields intent es = Inr st"
  shows "st_intent st = intent" "derive_status intent es = Inr (st_status st, st_final st)"
    "st_n_sends st = int (length (of_kind K_SEND es))" "derive_baseline es = Inr (st_baseline st)"
    "derive_order_no es = Inr (st_order_no st, st_org_no st)"
    "derive_fills intent es = Inr (st_filled_qty st, st_filled_amount_krw st, st_remaining_qty st)"
  using assms by (auto simp: derive_fields_def)

text \<open>An open exchange is never sendable: the write-ahead send shuts the gate.\<close>

theorem open_exchange_not_sendable:
  assumes "derive_intent_state es = Inr st" "sorted_wrt (<) (map ev_seq es)"
    and "send_phase_of es = Waiting \<or> (\<exists>v. send_phase_of es = Settled v)"
  shows "\<not> sendable (st_status st)"
proof -
  obtain intent where f: "derive_fields intent es = Inr st" by (rule derive_Inr [OF assms(1,2)])
  have "\<not> sendable (fst (open_status es))"
    using assms(2,3) open_status_Waiting open_status_Settled by blast
  then show ?thesis
    using derive_fields_Inr(2) [OF f]
    by (auto simp: derive_status_def final_status_not_sendable split: if_splits)
qed

section \<open>The recorded intent\<close>

lemma corrupt_bad_Inr [simp]: "corrupt_bad r = Inr a \<longleftrightarrow> r = Inr a"
  by (cases r) (simp_all add: corrupt_bad_def)

lemma intent_from_payload_id: "intent_from_payload iid p = Inr i \<Longrightarrow> intent_id i = iid"
  by (auto simp: intent_from_payload_def make_intent_Inr)

lemma derive_intent_snoc: "derive_intent (es @ [e]) =
   rbind (derive_intent es) (\<lambda>i. if ev_kind e = K_INTENT
     then rbind (intent_from_payload (ev_id e) (ev_payload e)) (\<lambda>j. Inr (Some j)) else Inr i)"
  by (simp add: derive_intent_def rfold_snoc)

lemma derive_intent_Some:
  "derive_intent es = Inr (Some i) \<Longrightarrow>
   \<exists>e\<in>set es. ev_kind e = K_INTENT \<and> intent_from_payload (ev_id e) (ev_payload e) = Inr i"
proof (induction es rule: rev_induct)
  case Nil
  then show ?case by (simp add: derive_intent_def)
next
  case (snoc e es)
  then show ?case by (cases "ev_kind e = K_INTENT") (auto simp: derive_intent_snoc)
qed

end
