(* ===== verification/Order_Gateway.thy ===== *)
theory Order_Gateway
  imports Send_History
begin

text \<open>
  \<open>src/execution/order_gateway.py\<close>: the gateway that turns an intent into at most one
  broker order. Its state is the journal's with \<open>_sends_made\<close>; \<open>gw_posted\<close> is a history
  variable, one entry per call of \<open>submit_order\<close> that reached the broker port, with the
  verdict it gave (\<open>AMBIGUOUS\<close> when it raised). The broker port, \<open>now_fn\<close> and \<open>sleep_fn\<close> are
  parameters, functions of the world. Log output is left out.
\<close>

section \<open>Ports, limits and state\<close>

record 'w broker = "'w host" +
  b_submit :: "order_intent \<Rightarrow> 'w \<Rightarrow> submit_result res \<times> 'w"
  b_cancel :: "string \<Rightarrow> string \<Rightarrow> 'w \<Rightarrow> submit_result res \<times> 'w"
  b_daily_orders :: "string \<Rightarrow> 'w \<Rightarrow> broker_order list res \<times> 'w"
  b_positions :: "'w \<Rightarrow> broker_position list res \<times> 'w"
  b_now :: "'w \<Rightarrow> int \<times> 'w"
  b_sleep :: "fl \<Rightarrow> 'w \<Rightarrow> unit \<times> 'w"

record gateway_limits =
  seed_capital_krw :: int
  max_notional_per_order_krw :: int
  max_sends_per_run :: int
  send_max_attempts :: int
  unknown_resolve_polls :: int
  unknown_resolve_interval_seconds :: fl
  exit_resend_on_ambiguous :: bool
  carryover_lookback_days :: int

record planned_skip =
  ps_intent_id :: string
  ps_symbol :: string
  ps_trading_date :: string
  ps_phase :: order_phase
  ps_reason :: string

record reconcile_report =
  rr_trading_date :: string
  rr_n_intents :: int
  rr_n_filled :: int
  rr_n_partial :: int
  rr_n_unfilled :: int
  rr_n_working :: int
  rr_n_unknown :: int
  rr_n_missing_at_broker :: int
  rr_n_foreign_orders :: int
  rr_position_shortfalls :: "(string \<times> int \<times> int) list"
  rr_filled_amount_krw :: int
  rr_n_unknown_unresolved_total :: int
  rr_unknown_exposures :: "(string \<times> int \<times> int) list"

record 'w gateway_state = "'w journal" +
  gw_sends_made :: int
  gw_posted :: "(order_intent \<times> submit_verdict) list"

type_synonym ('w, 'a) gw = "('w gateway_state, 'a) eff"

definition broker_call :: "('w \<Rightarrow> 'a res \<times> 'w) \<Rightarrow> ('w, 'a) gw" where
  "broker_call f = (\<lambda>s. let (r, w) = f (j_world s) in (r, s\<lparr>j_world := w\<rparr>))"

definition require_lock :: "('w, unit) gw" where
  "require_lock = bnd (gets j_locked) (\<lambda>l. if l then ret () else throw RuntimeError)"

definition read_states :: "('w, (string \<times> intent_state) list) gw" where
  "read_states = lift_res (\<lambda>s. journal_states (j_lines s))"

definition read_events :: "('w, journal_event list) gw" where
  "read_events = lift_res (\<lambda>s. load_lines (j_lines s))"

text \<open>\<open>self._journal.states()[intent_id]\<close>\<close>

definition state_of :: "string \<Rightarrow> ('w, intent_state) gw" where
  "state_of iid = bnd read_states (\<lambda>sts. case map_of sts iid of None \<Rightarrow> throw KeyError | Some st \<Rightarrow> ret st)"

section \<open>Matching broker orders\<close>

definition notional :: "order_intent \<Rightarrow> int res" where
  "notional i = (let price = (if limit_price i \<noteq> JNull then limit_price i
       else if py_truth (decision_price i) then decision_price i else JInt 0)
     in rbind (py_int (if py_truth price then price else JInt 0)) (\<lambda>p. Inr (qty i * p)))"

definition is_candidate ::
    "order_intent \<Rightarrow> string list \<Rightarrow> string list option \<Rightarrow> broker_order \<Rightarrow> bool" where
  "is_candidate i bound baseline bo =
     (let no = normalize_order_no (bo_order_no bo) in
      if (case baseline of None \<Rightarrow> False | Some bl \<Rightarrow> no = [] \<or> no \<in> set bl) then False
      else if no \<in> set bound then False
      else if bo_symbol bo \<noteq> symbol i \<or> bo_side bo \<noteq> side i then False
      else if bo_order_qty bo \<noteq> qty i then False
      else if order_type i = LIMIT \<and> limit_price i \<noteq> JNull
          \<and> \<not> jeq_scalar (JInt (bo_order_price bo)) (limit_price i) then False
      else True)"

definition match_candidates ::
    "order_intent \<Rightarrow> broker_order list \<Rightarrow> string list \<Rightarrow> string list option \<Rightarrow> broker_order list" where
  "match_candidates i snapshot bound baseline = filter (is_candidate i bound baseline) snapshot"

text \<open>The normalized order numbers already bound to an intent.\<close>

definition bound_numbers :: "(string \<times> intent_state) list \<Rightarrow> string list" where
  "bound_numbers sts = List.map_filter (\<lambda>(k, st). case st_order_no st of
     None \<Rightarrow> None | Some no \<Rightarrow> if no = [] then None else Some (normalize_order_no no)) sts"

section \<open>Planning\<close>

definition skip_payload :: "string \<Rightarrow> string \<Rightarrow> string \<Rightarrow> order_phase \<Rightarrow> payload" where
  "skip_payload reason sy td ph =
     [(''reason'', JStr reason), (''symbol'', JStr sy), (''trading_date'', JStr td),
      (''phase'', JStr (phase_value ph))]"

definition plan_intent ::
    "('w, 'h) broker_scheme \<Rightarrow> string \<Rightarrow> order_intent \<Rightarrow> string list \<Rightarrow> ('w, string list) gw" where
  "plan_intent B run i recorded =
     (if intent_id i \<in> set recorded then ret recorded
      else bnd (journal_append B K_INTENT (intent_id i) (intent_to_payload i) run) (\<lambda>_.
        ret (intent_id i # recorded)))"

definition plan_skip ::
    "('w, 'h) broker_scheme \<Rightarrow> string \<Rightarrow> planned_skip \<Rightarrow> string list \<Rightarrow> ('w, string list) gw" where
  "plan_skip B run k recorded =
     (if ps_intent_id k \<in> set recorded then ret recorded
      else bnd (journal_append B K_SKIP (ps_intent_id k)
          (skip_payload (ps_reason k) (ps_symbol k) (ps_trading_date k) (ps_phase k)) run) (\<lambda>_.
        ret (ps_intent_id k # recorded)))"

definition plan ::
    "('w, 'h) broker_scheme \<Rightarrow> string \<Rightarrow> order_intent list \<Rightarrow> planned_skip list \<Rightarrow> ('w, unit) gw" where
  "plan B run intents skips =
     bnd require_lock (\<lambda>_.
     bnd read_states (\<lambda>sts.
     bnd (fold_eff intents (plan_intent B run) (map fst sts)) (\<lambda>recorded.
     bnd (fold_eff skips (plan_skip B run) recorded) (\<lambda>_. ret ()))))"

section \<open>Refusals\<close>

definition buy_exposure ::
    "order_intent \<Rightarrow> (string \<times> intent_state) list \<Rightarrow> int \<Rightarrow> int res" where
  "buy_exposure i sts start = rfold (\<lambda>(k, st) total. case st_intent st of
       None \<Rightarrow> Inr total
     | Some other \<Rightarrow>
         if side other \<noteq> BUY then Inr total
         else if trading_date other \<noteq> trading_date i \<or> intent_id other = intent_id i then Inr total
         else if st_status st \<in> {S_ACKED, S_UNKNOWN, S_FILLED, S_PARTIAL}
         then rbind (notional other) (\<lambda>n. Inr (total + n))
         else Inr total) sts start"

definition parent_lot_qty :: "order_intent \<Rightarrow> open_lot list \<Rightarrow> int" where
  "parent_lot_qty i lots =
     (let parent = py_str (if py_truth (parent_intent_id i) then parent_intent_id i else JStr [])
      in sum_list (map ol_qty (filter (\<lambda>l. ol_entry_intent_id l = parent) lots)))"

definition risk_refusal :: "gateway_limits \<Rightarrow> order_intent \<Rightarrow> ('w, string option) gw" where
  "risk_refusal L i =
     bnd (if side i = BUY then
        bnd (lift_res (\<lambda>_. notional i)) (\<lambda>own.
          if max_notional_per_order_krw L < own then ret (Some ''notional_cap'')
          else bnd read_states (\<lambda>sts.
            bnd (lift_res (\<lambda>_. buy_exposure i sts own)) (\<lambda>total.
              if seed_capital_krw L < total then ret (Some ''seed_cap'') else ret None)))
      else
        bnd (lift_res (\<lambda>s. open_lots (j_lines s))) (\<lambda>lots.
          if parent_lot_qty i lots < qty i then ret (Some ''exceeds_open_lot'') else ret None))
     (\<lambda>refusal. case refusal of
        Some r \<Rightarrow> ret (Some r)
      | None \<Rightarrow> bnd (gets gw_sends_made) (\<lambda>n.
          if max_sends_per_run L \<le> n then ret (Some ''run_send_cap'') else ret None))"

text \<open>Recording a refusal and returning the state it leaves.\<close>

definition refuse :: "('w, 'h) broker_scheme \<Rightarrow> string \<Rightarrow> order_intent \<Rightarrow> string \<Rightarrow> string \<Rightarrow> ('w, intent_state) gw" where
  "refuse B run i iid reason =
     bnd (journal_append B K_SKIP iid (skip_payload reason (symbol i) (trading_date i) (phase i)) run) (\<lambda>_.
       state_of iid)"

section \<open>Sending\<close>

definition ambiguous_result :: "string \<Rightarrow> submit_result" where
  "ambiguous_result m = \<lparr>verdict = AMBIGUOUS, broker_order_no = None, broker_org_no = None,
     http_status = None, msg_cd = [], msg = m, latency_ms = Fin 0\<rparr>"

text \<open>One call of the broker's \<open>submit_order\<close>, entered in the history.\<close>

definition post_order :: "('w, 'h) broker_scheme \<Rightarrow> order_intent \<Rightarrow> ('w, submit_result) gw" where
  "post_order B i = (\<lambda>s. let (r, w) = b_submit B i (j_world s) in
     (r, s\<lparr>j_world := w,
           gw_posted := gw_posted s @ [(i, case r of Inl _ \<Rightarrow> AMBIGUOUS | Inr x \<Rightarrow> verdict x)]\<rparr>))"

definition safe_submit :: "('w, 'h) broker_scheme \<Rightarrow> order_intent \<Rightarrow> ('w, submit_result) gw" where
  "safe_submit B i = bnd (attempt (post_order B i)) (\<lambda>r. case r of
     Inr x \<Rightarrow> ret x | Inl _ \<Rightarrow> ret (ambiguous_result ''submit raised''))"

definition read_baseline :: "('w, 'h) broker_scheme \<Rightarrow> string \<Rightarrow> ('w, string list option) gw" where
  "read_baseline B td = bnd (attempt (broker_call (b_daily_orders B td))) (\<lambda>r. case r of
     Inl _ \<Rightarrow> ret None
   | Inr snapshot \<Rightarrow> ret (Some (filter (\<lambda>n. n \<noteq> []) (map (\<lambda>bo. normalize_order_no (bo_order_no bo)) snapshot))))"

definition result_payload :: "int \<Rightarrow> submit_result \<Rightarrow> payload" where
  "result_payload attempt_no x =
     [(''attempt'', JInt attempt_no), (''verdict'', JStr (verdict_value (verdict x))),
      (''broker_order_no'', jopt_str (broker_order_no x)), (''broker_org_no'', jopt_str (broker_org_no x)),
      (''http_status'', jopt_int (http_status x)), (''msg_cd'', JStr (msg_cd x)),
      (''msg'', JStr (msg x)), (''latency_ms'', JFloat (latency_ms x))]"

definition send_payload :: "int \<Rightarrow> string list option \<Rightarrow> payload" where
  "send_payload attempt_no baseline = (''attempt'', JInt attempt_no) #
     (case baseline of None \<Rightarrow> [] | Some bl \<Rightarrow> [(''baseline_order_nos'', JList (map JStr bl))])"

text \<open>One exchange: the send is durable before the broker is called, the result after.\<close>

definition send_once ::
    "('w, 'h) broker_scheme \<Rightarrow> string \<Rightarrow> order_intent \<Rightarrow> string \<Rightarrow> string list option \<Rightarrow> ('w, submit_result) gw" where
  "send_once B run i iid baseline =
     bnd (state_of iid) (\<lambda>st.
     let attempt_no = st_n_sends st + 1 in
     bnd (journal_append B K_SEND iid (send_payload attempt_no baseline) run) (\<lambda>_.
     bnd (safe_submit B i) (\<lambda>x.
     bnd (modify (\<lambda>s. s\<lparr>gw_sends_made := gw_sends_made s + 1\<rparr>)) (\<lambda>_.
     bnd (journal_append B K_RESULT iid (result_payload attempt_no x) run) (\<lambda>_. ret x)))))"

definition was_not_found :: "string \<Rightarrow> ('w, bool) gw" where
  "was_not_found iid = bnd read_events (\<lambda>es.
     ret (list_ex (\<lambda>e. ev_id e = iid \<and> ev_kind e = K_NOT_FOUND) es))"

section \<open>Resolving an ambiguous send\<close>

definition adopt_payload :: "broker_order \<Rightarrow> payload" where
  "adopt_payload bo = [(''broker_order_no'', JStr (bo_order_no bo)), (''broker_org_no'', JStr (bo_org_no bo))]"

definition conflict_payload :: "broker_order list \<Rightarrow> payload" where
  "conflict_payload cs = [(''n_candidates'', JInt (int (length cs)))]"

datatype poll_end = Poll_decided intent_state | Poll_read_failed | Poll_exhausted

definition wait_interval :: "gateway_limits \<Rightarrow> fl" where
  "wait_interval L = (if f_lt (Fin 0) (unknown_resolve_interval_seconds L)
     then unknown_resolve_interval_seconds L else Fin 0)"

fun poll_loop ::
    "('w, 'h) broker_scheme \<Rightarrow> gateway_limits \<Rightarrow> string \<Rightarrow> order_intent \<Rightarrow> string list \<Rightarrow> nat \<Rightarrow>
     ('w, poll_end) gw" where
  "poll_loop B L run i bound 0 = ret Poll_exhausted"
| "poll_loop B L run i bound (Suc n) =
     bnd (attempt (broker_call (b_daily_orders B (trading_date i)))) (\<lambda>r. case r of
       Inl _ \<Rightarrow> ret Poll_read_failed
     | Inr snapshot \<Rightarrow>
         bnd (state_of (intent_id i)) (\<lambda>st.
         case match_candidates i snapshot bound (st_baseline st) of
           [bo] \<Rightarrow>
             bnd (journal_append B K_ADOPT (intent_id i) (adopt_payload bo) run) (\<lambda>_.
             bnd (state_of (intent_id i)) (\<lambda>st'. ret (Poll_decided st')))
         | [] \<Rightarrow>
             bnd (if 0 < n then world_call (b_sleep B (wait_interval L)) else ret ()) (\<lambda>_.
               poll_loop B L run i bound n)
         | c # d # cs \<Rightarrow>
             bnd (journal_append B K_RESOLVE_CONFLICT (intent_id i) (conflict_payload (c # d # cs)) run) (\<lambda>_.
             bnd (state_of (intent_id i)) (\<lambda>st'. ret (Poll_decided st')))))"

definition sellable_of :: "order_intent \<Rightarrow> broker_position list \<Rightarrow> int" where
  "sellable_of i ps = (case find (\<lambda>p. bp_symbol p = symbol i) ps of
     None \<Rightarrow> 0 | Some p \<Rightarrow> bp_sellable_qty p)"

text \<open>The resend of an exit whose order was not found, if the limits allow it.\<close>

definition resend_exit ::
    "('w, 'h) broker_scheme \<Rightarrow> string \<Rightarrow> order_intent \<Rightarrow> int \<Rightarrow> intent_state \<Rightarrow> ('w, intent_state) gw" where
  "resend_exit B run i deadline after =
     bnd (is_halted B) (\<lambda>halted.
     if halted then ret after
     else bnd (attempt (broker_call (b_positions B))) (\<lambda>r. case r of
       Inl _ \<Rightarrow> ret after
     | Inr ps \<Rightarrow>
         bnd (if sellable_of i ps \<ge> qty i then bnd (world_call (b_now B)) (\<lambda>t. ret (t < deadline))
              else ret False) (\<lambda>go.
         if go then bnd (send_once B run i (intent_id i) None) (\<lambda>_. state_of (intent_id i))
         else state_of (intent_id i))))"

definition resolve_unknown ::
    "('w, 'h) broker_scheme \<Rightarrow> gateway_limits \<Rightarrow> string \<Rightarrow> order_intent \<Rightarrow> int \<Rightarrow> ('w, intent_state) gw" where
  "resolve_unknown B L run i deadline =
     bnd read_states (\<lambda>sts.
     if unknown_resolve_polls L \<le> 0
     then (case map_of sts (intent_id i) of None \<Rightarrow> throw KeyError | Some st \<Rightarrow> ret st)
     else
       bnd (poll_loop B L run i (bound_numbers sts) (nat (unknown_resolve_polls L))) (\<lambda>r. case r of
         Poll_decided st \<Rightarrow> ret st
       | Poll_read_failed \<Rightarrow> state_of (intent_id i)
       | Poll_exhausted \<Rightarrow>
           let span = f_mul (fl_of_int (max 0 (unknown_resolve_polls L - 1))) (wait_interval L) in
           bnd (journal_append B K_NOT_FOUND (intent_id i)
               [(''n_polls'', JInt (unknown_resolve_polls L)), (''span_seconds'', JFloat span)] run) (\<lambda>_.
           bnd (state_of (intent_id i)) (\<lambda>after.
             if phase i = EXIT \<and> exit_resend_on_ambiguous L
             then resend_exit B run i deadline after
             else state_of (intent_id i)))))"

section \<open>Submitting one intent\<close>

text \<open>The attempts of a run; the broker's order list read before the first send goes with it.\<close>

fun send_loop ::
    "('w, 'h) broker_scheme \<Rightarrow> gateway_limits \<Rightarrow> string \<Rightarrow> order_intent \<Rightarrow> string \<Rightarrow> int \<Rightarrow>
     string list option \<Rightarrow> nat \<Rightarrow> ('w, intent_state) gw" where
  "send_loop B L run i iid deadline baseline 0 = state_of iid"
| "send_loop B L run i iid deadline baseline (Suc n) =
     bnd (world_call (b_now B)) (\<lambda>t.
     if deadline \<le> t then
       bnd (state_of iid) (\<lambda>fresh.
         if st_n_sends fresh = 0 then refuse B run i iid ''deadline_passed'' else ret fresh)
     else
       bnd (send_once B run i iid baseline) (\<lambda>x.
         if verdict x = ACCEPTED \<or> verdict x = REJECTED then state_of iid
         else if verdict x \<in> set safe_verdicts then send_loop B L run i iid deadline None n
         else bnd (was_not_found iid) (\<lambda>seen.
           if seen then state_of iid else resolve_unknown B L run i deadline)))"

definition submit_ready ::
    "('w, 'h) broker_scheme \<Rightarrow> gateway_limits \<Rightarrow> string \<Rightarrow> order_intent \<Rightarrow> string \<Rightarrow> int \<Rightarrow> intent_state \<Rightarrow>
     ('w, intent_state) gw" where
  "submit_ready B L run i iid deadline st =
     (let attempts = nat (max 1 (send_max_attempts L)) in
      if st_n_sends st = 0 then
        bnd (risk_refusal L i) (\<lambda>refusal. case refusal of
          Some reason \<Rightarrow> refuse B run i iid reason
        | None \<Rightarrow>
            bnd (read_baseline B (trading_date i)) (\<lambda>baseline.
            bnd (is_halted B) (\<lambda>halted.
              if halted then refuse B run i iid ''halted''
              else send_loop B L run i iid deadline baseline attempts)))
      else send_loop B L run i iid deadline None attempts)"

definition submit ::
    "('w, 'h) broker_scheme \<Rightarrow> gateway_limits \<Rightarrow> string \<Rightarrow> string \<Rightarrow> int \<Rightarrow> ('w, intent_state) gw" where
  "submit B L run iid deadline =
     bnd require_lock (\<lambda>_.
     bnd read_states (\<lambda>sts. case map_of sts iid of
       None \<Rightarrow> throw KeyError
     | Some st \<Rightarrow>
         if \<not> sendable (st_status st) then ret st
         else (case st_intent st of
           None \<Rightarrow> throw AssertionError
         | Some i \<Rightarrow>
             bnd (is_halted B) (\<lambda>halted.
               if halted then refuse B run i iid ''halted''
               else submit_ready B L run i iid deadline st))))"

section \<open>Reconciling a trading date\<close>

definition state_date :: "intent_state \<Rightarrow> string option" where
  "state_date st = map_option trading_date (st_intent st)"

definition day_ids_of :: "string \<Rightarrow> (string \<times> intent_state) list \<Rightarrow> string list" where
  "day_ids_of td sts = map fst (filter (\<lambda>(k, st). state_date st = Some td) sts)"

text \<open>The first pass binds unanswered intents to broker orders; the accumulator is \<open>bound\<close>.\<close>

definition reconcile_bind ::
    "('w, 'h) broker_scheme \<Rightarrow> string \<Rightarrow> broker_order list \<Rightarrow> string \<Rightarrow> string list \<Rightarrow> ('w, string list) gw" where
  "reconcile_bind B run snapshot iid bound =
     bnd (state_of iid) (\<lambda>st.
     if st_status st \<noteq> S_UNKNOWN then ret bound
     else (case st_intent st of
       None \<Rightarrow> ret bound
     | Some i \<Rightarrow> (case match_candidates i snapshot bound (st_baseline st) of
         [] \<Rightarrow> ret bound
       | [bo] \<Rightarrow>
           bnd (journal_append B K_ADOPT iid (adopt_payload bo) run) (\<lambda>_.
             ret (normalize_order_no (bo_order_no bo) # bound))
       | c # d # cs \<Rightarrow>
           bnd (journal_append B K_RESOLVE_CONFLICT iid (conflict_payload (c # d # cs)) run) (\<lambda>_.
             ret bound))))"

definition broker_state_payload :: "broker_order \<Rightarrow> bool \<Rightarrow> payload" where
  "broker_state_payload bo final =
     [(''order_qty'', JInt (bo_order_qty bo)), (''filled_qty'', JInt (bo_filled_qty bo)),
      (''filled_amount_krw'', JInt (bo_filled_amount_krw bo)), (''remaining_qty'', JInt (bo_remaining_qty bo)),
      (''cancelled'', JBool (bo_cancelled bo)), (''rejected_qty'', JInt (bo_rejected_qty bo)),
      (''final'', JBool final)]"

definition probe_event :: "string \<Rightarrow> string \<Rightarrow> journal_event list \<Rightarrow> payload \<Rightarrow> journal_event" where
  "probe_event run iid events p = \<lparr>ev_seq = ev_seq (last events) + 1, ev_ts = [], ev_kind = K_BROKER_STATE,
     ev_id = iid, ev_run = run, ev_payload = p\<rparr>"

text \<open>
  Appending a broker row unless it contradicts the intent; the accumulator collects the
  intents whose row was kept out. An error other than a corrupt journal is raised.
\<close>

definition append_broker_state ::
    "('w, 'h) broker_scheme \<Rightarrow> string \<Rightarrow> journal_event list \<Rightarrow> string \<Rightarrow> payload \<Rightarrow> string list \<Rightarrow>
     ('w, string list) gw" where
  "append_broker_state B run events iid p contradictions =
     (case derive_intent_state (events @ [probe_event run iid events p]) of
        Inl e \<Rightarrow> if e = JournalCorruptError then ret (contradictions @ [iid]) else throw e
      | Inr _ \<Rightarrow> bnd (journal_append B K_BROKER_STATE iid p run) (\<lambda>_. ret contradictions))"

definition is_final_row :: "broker_order \<Rightarrow> bool \<Rightarrow> bool" where
  "is_final_row bo finalize \<longleftrightarrow> bo_remaining_qty bo = 0 \<or> bo_cancelled bo
     \<or> bo_rejected_qty bo = bo_order_qty bo \<or> finalize"

definition find_order :: "string \<Rightarrow> broker_order list \<Rightarrow> broker_order option" where
  "find_order order_no snapshot = (let target = normalize_order_no order_no in
     find (\<lambda>bo. normalize_order_no (bo_order_no bo) = target \<and> target \<noteq> []) snapshot)"

definition last_broker_payload :: "journal_event list \<Rightarrow> payload option" where
  "last_broker_payload events = (case rev (of_kind K_BROKER_STATE events) of
     [] \<Rightarrow> None | e # _ \<Rightarrow> Some (ev_payload e))"

definition reconcile_state ::
    "('w, 'h) broker_scheme \<Rightarrow> string \<Rightarrow> broker_order list \<Rightarrow> bool \<Rightarrow> (string \<times> intent_state) list \<Rightarrow>
     (string \<times> journal_event list) list \<Rightarrow> string \<Rightarrow> string list \<Rightarrow> ('w, string list) gw" where
  "reconcile_state B run snapshot finalize sts history iid contradictions =
     (case map_of sts iid of
        None \<Rightarrow> throw KeyError
      | Some st \<Rightarrow> (case st_order_no st of
          None \<Rightarrow> ret contradictions
        | Some no \<Rightarrow>
            if st_final st then ret contradictions
            else (case find_order no snapshot of
              None \<Rightarrow> ret contradictions
            | Some found \<Rightarrow>
                let p = broker_state_payload found (is_final_row found finalize) in
                (case map_of history iid of
                   None \<Rightarrow> throw KeyError
                 | Some events \<Rightarrow>
                     (case last_broker_payload events of
                        Some prior \<Rightarrow>
                          if payload_eq prior p then ret contradictions
                          else append_broker_state B run events iid p contradictions
                      | None \<Rightarrow> append_broker_state B run events iid p contradictions)))))"

definition sum_by_symbol :: "open_lot list \<Rightarrow> (string \<times> int) list" where
  "sum_by_symbol lots = fold (\<lambda>l d. dset (ol_symbol l) (dget 0 d (ol_symbol l) + ol_qty l) d) lots []"

definition holdings :: "broker_position list \<Rightarrow> (string \<times> int) list" where
  "holdings ps = fold (\<lambda>p d. dset (bp_symbol p) (bp_holding_qty p) d) ps []"

definition position_shortfalls ::
    "(string \<times> int) list \<Rightarrow> (string \<times> int) list \<Rightarrow> (string \<times> int \<times> int) list" where
  "position_shortfalls journal_qty holding =
     map (\<lambda>(sy, q). (sy, q, dget 0 holding sy))
       (filter (\<lambda>(sy, q). dget 0 holding sy < q) (sort_key fst journal_qty))"

definition unknown_intents :: "(string \<times> intent_state) list \<Rightarrow> order_intent list" where
  "unknown_intents sts = List.map_filter (\<lambda>(k, st). if st_status st = S_UNKNOWN then st_intent st else None) sts"

definition unknown_exposures ::
    "(string \<times> intent_state) list \<Rightarrow> (string \<times> int) list \<Rightarrow> (string \<times> int) list \<Rightarrow> (string \<times> int \<times> int) list" where
  "unknown_exposures sts journal_qty holding =
     (let unknown_buy = fold (\<lambda>i d. dset (symbol i) (dget 0 d (symbol i) + qty i) d)
            (filter (\<lambda>i. side i = BUY) (unknown_intents sts)) []
      in List.map_filter (\<lambda>(sy, q). let excess = dget 0 holding sy - dget 0 journal_qty sy in
           if 0 < excess then Some (sy, q, excess) else None) (sort_key fst unknown_buy))"

definition count_status :: "intent_status \<Rightarrow> intent_state list \<Rightarrow> int" where
  "count_status s sts = int (length (filter (\<lambda>st. st_status st = s) sts))"

definition count_missing :: "broker_order list \<Rightarrow> intent_state list \<Rightarrow> int" where
  "count_missing snapshot sts = int (length (filter (\<lambda>st. case st_order_no st of
     None \<Rightarrow> False
   | Some no \<Rightarrow> no \<noteq> [] \<and> \<not> st_final st
       \<and> normalize_order_no no \<notin> set (map (\<lambda>bo. normalize_order_no (bo_order_no bo)) snapshot)) sts))"

definition reconcile_summary ::
    "string \<Rightarrow> string list \<Rightarrow> broker_order list \<Rightarrow> (string \<times> intent_state) list \<Rightarrow>
     broker_position list \<Rightarrow> open_lot list \<Rightarrow> reconcile_report res" where
  "reconcile_summary td day_ids snapshot sts positions lots =
     rbind (rmap (\<lambda>k. case map_of sts k of None \<Rightarrow> Inl KeyError | Some st \<Rightarrow> Inr st) day_ids) (\<lambda>day.
     let holding = holdings positions; journal_qty = sum_by_symbol lots; bound_final = bound_numbers sts in
     Inr \<lparr>rr_trading_date = td, rr_n_intents = int (length day_ids),
       rr_n_filled = count_status S_FILLED day, rr_n_partial = count_status S_PARTIAL day,
       rr_n_unfilled = count_status S_UNFILLED day,
       rr_n_working = int (length (filter (\<lambda>st. st_status st = S_ACKED \<and> \<not> st_final st) day)),
       rr_n_unknown = count_status S_UNKNOWN day,
       rr_n_missing_at_broker = count_missing snapshot day,
       rr_n_foreign_orders = int (length (filter (\<lambda>bo. normalize_order_no (bo_order_no bo) \<notin> set bound_final) snapshot)),
       rr_position_shortfalls = position_shortfalls journal_qty holding,
       rr_filled_amount_krw = sum_list (map (\<lambda>(k, st). st_filled_amount_krw st)
         (filter (\<lambda>(k, st). state_date st = Some td) sts)),
       rr_n_unknown_unresolved_total = int (length (unknown_intents sts)),
       rr_unknown_exposures = unknown_exposures sts journal_qty holding\<rparr>)"

definition reconcile ::
    "('w, 'h) broker_scheme \<Rightarrow> string \<Rightarrow> string \<Rightarrow> bool \<Rightarrow> ('w, reconcile_report) gw" where
  "reconcile B run td finalize =
     bnd require_lock (\<lambda>_.
     bnd (broker_call (b_daily_orders B td)) (\<lambda>snapshot.
     bnd read_states (\<lambda>sts.
     let day_ids = day_ids_of td sts in
     bnd (fold_eff day_ids (reconcile_bind B run snapshot) (bound_numbers sts)) (\<lambda>_.
     bnd read_states (\<lambda>sts'.
     bnd read_events (\<lambda>events.
     bnd (fold_eff day_ids (reconcile_state B run snapshot finalize sts' (group_events events)) []) (\<lambda>contradictions.
     if contradictions \<noteq> [] then throw BrokerReadError
     else
       bnd read_states (\<lambda>_.
       bnd (broker_call (b_positions B)) (\<lambda>positions.
       bnd (lift_res (\<lambda>s. open_lots (j_lines s))) (\<lambda>lots.
       bnd read_states (\<lambda>sts2.
         lift_res (\<lambda>_. reconcile_summary td day_ids snapshot sts2 positions lots))))))))))))"

section \<open>Carry-over and cancellation\<close>

definition in_lookback :: "civil \<Rightarrow> int \<Rightarrow> order_intent \<Rightarrow> bool res" where
  "in_lookback as_of lookback i =
     rbind (date_fromisoformat (trading_date i)) (\<lambda>d.
       Inr (1 \<le> days_between as_of d \<and> days_between as_of d \<le> lookback))"

text \<open>The unresolved intents of the dates before \<open>as_of\<close>, with the order baseline of each.\<close>

definition carryover_targets ::
    "civil \<Rightarrow> int \<Rightarrow> (string \<times> intent_state) list \<Rightarrow> (string \<times> order_intent \<times> string list option) list res" where
  "carryover_targets as_of lookback sts = rfold (\<lambda>(k, st) acc. case st_intent st of
       None \<Rightarrow> Inr acc
     | Some i \<Rightarrow>
         if st_status st \<noteq> S_UNKNOWN then Inr acc
         else rbind (in_lookback as_of lookback i) (\<lambda>inside.
           Inr (if inside then acc @ [(k, i, st_baseline st)] else acc))) sts []"

record carry_acc =
  ca_bound :: "string list"
  ca_conflicted :: "string list"
  ca_adopted :: "(string \<times> broker_order) list"

definition carryover_bind ::
    "('w, 'h) broker_scheme \<Rightarrow> string \<Rightarrow> broker_order list \<Rightarrow> string \<times> order_intent \<times> string list option \<Rightarrow>
     carry_acc \<Rightarrow> ('w, carry_acc) gw" where
  "carryover_bind B run snapshot target acc = (case target of (iid, i, baseline) \<Rightarrow>
     (case match_candidates i snapshot (ca_bound acc) baseline of
        [] \<Rightarrow> ret acc
      | [bo] \<Rightarrow>
          bnd (journal_append B K_ADOPT iid (adopt_payload bo) run) (\<lambda>_.
            ret (acc\<lparr>ca_bound := normalize_order_no (bo_order_no bo) # ca_bound acc,
                     ca_adopted := ca_adopted acc @ [(iid, bo)]\<rparr>))
      | c # d # cs \<Rightarrow>
          if iid \<in> set (ca_conflicted acc) then ret acc
          else bnd (journal_append B K_RESOLVE_CONFLICT iid (conflict_payload (c # d # cs)) run) (\<lambda>_.
            ret (acc\<lparr>ca_conflicted := iid # ca_conflicted acc\<rparr>))))"

text \<open>One date: a \<open>BrokerReadError\<close> skips it, any other exception ends the pass.\<close>

definition carryover_date ::
    "('w, 'h) broker_scheme \<Rightarrow> string \<Rightarrow> (string \<times> order_intent \<times> string list option) list \<Rightarrow> string \<Rightarrow>
     carry_acc \<Rightarrow> ('w, carry_acc) gw" where
  "carryover_date B run targets td acc =
     bnd (catch_only BrokerReadError
         (bnd (broker_call (b_daily_orders B td)) (\<lambda>snapshot. ret (Some snapshot))) (ret None)) (\<lambda>snap.
     case snap of
       None \<Rightarrow> ret acc
     | Some snapshot \<Rightarrow>
         fold_eff (sort_key fst (filter (\<lambda>(k, i, b). trading_date i = td) targets))
           (carryover_bind B run snapshot) acc)"

definition carryover_state ::
    "('w, 'h) broker_scheme \<Rightarrow> string \<Rightarrow> (string \<times> journal_event list) list \<Rightarrow> string \<times> broker_order \<Rightarrow>
     string list \<Rightarrow> ('w, string list) gw" where
  "carryover_state B run history adopted contradictions = (case adopted of (iid, found) \<Rightarrow>
     (case map_of history iid of
        None \<Rightarrow> throw KeyError
      | Some events \<Rightarrow>
          append_broker_state B run events iid (broker_state_payload found True) contradictions))"

definition resolve_carryover ::
    "('w, 'h) broker_scheme \<Rightarrow> gateway_limits \<Rightarrow> string \<Rightarrow> string \<Rightarrow> ('w, int) gw" where
  "resolve_carryover B L run as_of_date =
     bnd require_lock (\<lambda>_.
     bnd (lift_res (\<lambda>_. date_fromisoformat as_of_date)) (\<lambda>as_of.
     bnd read_states (\<lambda>sts.
     bnd (lift_res (\<lambda>_. carryover_targets as_of (carryover_lookback_days L) sts)) (\<lambda>targets.
     if targets = [] then ret 0
     else
       bnd read_events (\<lambda>events.
       bnd (fold_eff (sort (remdups (map (\<lambda>(k, i, b). trading_date i) targets)))
           (carryover_date B run targets)
           \<lparr>ca_bound = bound_numbers sts, ca_conflicted = map ev_id (of_kind K_RESOLVE_CONFLICT events),
            ca_adopted = []\<rparr>) (\<lambda>acc.
       if ca_adopted acc = [] then ret 0
       else
         bnd read_events (\<lambda>events'.
         bnd (fold_eff (ca_adopted acc) (carryover_state B run (group_events events')) []) (\<lambda>contradictions.
         if contradictions \<noteq> [] then throw BrokerReadError
         else ret (int (length (ca_adopted acc)))))))))))"

definition cancel_targets :: "string \<Rightarrow> (string \<times> intent_state) list \<Rightarrow> (string \<times> intent_state) list" where
  "cancel_targets td sts = filter (\<lambda>(k, st). state_date st = Some td \<and> st_status st = S_ACKED
     \<and> \<not> st_final st \<and> st_order_no st \<noteq> None \<and> st_order_no st \<noteq> Some []) sts"

definition cancel_result_payload :: "int \<Rightarrow> submit_result \<Rightarrow> payload" where
  "cancel_result_payload attempt_no x =
     [(''attempt'', JInt attempt_no), (''verdict'', JStr (verdict_value (verdict x))),
      (''msg_cd'', JStr (msg_cd x)), (''http_status'', jopt_int (http_status x))]"

definition or_empty :: "string option \<Rightarrow> string" where
  "or_empty v = (case v of None \<Rightarrow> [] | Some s \<Rightarrow> s)"

definition cancel_one ::
    "('w, 'h) broker_scheme \<Rightarrow> string \<Rightarrow> journal_event list \<Rightarrow> string \<times> intent_state \<Rightarrow> int \<Rightarrow> ('w, int) gw" where
  "cancel_one B run events target accepted = (case target of (iid, st) \<Rightarrow>
     let attempt_no = int (length (of_kind K_CANCEL_SEND (events_of iid events))) + 1 in
     bnd (journal_append B K_CANCEL_SEND iid [(''attempt'', JInt attempt_no)] run) (\<lambda>_.
     bnd (attempt (broker_call (b_cancel B (or_empty (st_org_no st)) (or_empty (st_order_no st))))) (\<lambda>r.
     let x = (case r of Inr x \<Rightarrow> x | Inl _ \<Rightarrow> ambiguous_result ''cancel raised'') in
     bnd (journal_append B K_CANCEL_RESULT iid (cancel_result_payload attempt_no x) run) (\<lambda>_.
       ret (if verdict x = ACCEPTED then accepted + 1 else accepted)))))"

definition cancel_working :: "('w, 'h) broker_scheme \<Rightarrow> string \<Rightarrow> string \<Rightarrow> ('w, int) gw" where
  "cancel_working B run td =
     bnd require_lock (\<lambda>_.
     bnd read_states (\<lambda>sts.
     bnd read_events (\<lambda>events.
       fold_eff (cancel_targets td sts) (cancel_one B run events) 0)))"

end
