(* ===== verification/Gateway_Safety.thy ===== *)
theory Gateway_Safety
  imports Order_Gateway
begin

text \<open>
  The gateway's contract: for an entry intent at most one call of \<open>submit_order\<close> may have
  placed an order, whatever the broker answers, the disk does, or the point where the
  process dies. The invariant ties the calls made (\<open>gw_posted\<close>) to what the journal file
  says; every operation of the gateway keeps it.
\<close>

section \<open>The invariant\<close>

definition recorded :: "order_intent \<Rightarrow> journal_event list \<Rightarrow> bool" where
  "recorded i es \<longleftrightarrow> (\<exists>e\<in>set es. ev_id e = intent_id i \<and> ev_kind e = K_INTENT
     \<and> intent_from_payload (ev_id e) (ev_payload e) = Inr i)"

definition recorded_as :: "order_phase \<Rightarrow> string \<Rightarrow> journal_event list \<Rightarrow> bool" where
  "recorded_as ph iid es \<longleftrightarrow> (\<exists>i. recorded i es \<and> intent_id i = iid \<and> phase i = ph)"

text \<open>The calls for an entry intent that may have placed an order: all but the ones
  answered with a verdict that proves none was placed.\<close>

definition live_posts :: "string \<Rightarrow> (order_intent \<times> submit_verdict) list \<Rightarrow> (order_intent \<times> submit_verdict) list" where
  "live_posts iid ps = filter (\<lambda>(i, v). intent_id i = iid \<and> phase i = ENTRY \<and> v \<notin> set safe_verdicts) ps"

definition posts_of :: "string \<Rightarrow> (order_intent \<times> submit_verdict) list \<Rightarrow> (order_intent \<times> submit_verdict) list" where
  "posts_of iid ps = filter (\<lambda>(i, v). intent_id i = iid) ps"

definition exchange_ok :: "string \<Rightarrow> journal_event list \<Rightarrow> (order_intent \<times> submit_verdict) list \<Rightarrow> bool" where
  "exchange_ok iid es ps \<longleftrightarrow>
     (\<not> recorded_as EXIT iid es \<longrightarrow> send_phase_of (events_of iid es) \<noteq> Tangled)
     \<and> (live_posts iid ps \<noteq> [] \<longrightarrow> recorded_as ENTRY iid es \<and> send_phase_of (events_of iid es) \<noteq> Idle)
     \<and> length (posts_of iid ps) \<le> length (of_kind K_SEND (events_of iid es))"

text \<open>The calls an at-most-once protocol accepts: \<open>T\<close> holds the entry intents that may have an
  order, and no call is made for one of them.\<close>

definition take_call :: "order_intent \<times> submit_verdict \<Rightarrow> string set \<Rightarrow> string set" where
  "take_call = (\<lambda>(i, v) T. if phase i = ENTRY \<and> v \<notin> set safe_verdicts then insert (intent_id i) T else T)"

fun accepted_calls :: "string set \<Rightarrow> (order_intent \<times> submit_verdict) list \<Rightarrow> bool" where
  "accepted_calls T [] = True"
| "accepted_calls T ((i, v) # cs) =
     ((phase i = ENTRY \<longrightarrow> intent_id i \<notin> T) \<and> accepted_calls (take_call (i, v) T) cs)"

definition gateway_inv :: "'w gateway_state \<Rightarrow> bool" where
  "gateway_inv s \<longleftrightarrow> accepted_calls {} (gw_posted s)
     \<and> (\<forall>es. load_lines (j_lines s) = Inr es \<longrightarrow> (\<forall>iid. exchange_ok iid es (gw_posted s)))"

definition knows :: "order_intent \<Rightarrow> 'w gateway_state \<Rightarrow> bool" where
  "knows i s \<longleftrightarrow> (\<forall>es. load_lines (j_lines s) = Inr es \<longrightarrow> recorded i es)"

text \<open>The intent is recorded and, if it is an entry, none of its exchanges is open.\<close>

definition ready :: "order_intent \<Rightarrow> 'w gateway_state \<Rightarrow> bool" where
  "ready i s \<longleftrightarrow> gateway_inv s \<and> knows i s \<and> (phase i = ENTRY \<longrightarrow>
     (\<forall>es. load_lines (j_lines s) = Inr es \<longrightarrow> send_phase_of (events_of (intent_id i) es) = Idle))"

section \<open>Facts about recorded intents\<close>

lemma recorded_unique:
  assumes "journal_wf es" "recorded i es" "recorded j es" "intent_id i = intent_id j"
  shows "i = j"
proof -
  obtain e f where e: "e \<in> set (of_kind K_INTENT es)" "ev_id e = intent_id i"
      "intent_from_payload (ev_id e) (ev_payload e) = Inr i"
    and f: "f \<in> set (of_kind K_INTENT es)" "ev_id f = intent_id j"
      "intent_from_payload (ev_id f) (ev_payload f) = Inr j"
    using assms(2,3) by (auto simp: recorded_def of_kind_def)
  have "distinct (map ev_id (of_kind K_INTENT es))" using assms(1) by (simp add: journal_wf_def)
  then have "inj_on ev_id (set (of_kind K_INTENT es))" by (simp add: distinct_map)
  then have "e = f" using e f assms(4) by (metis inj_onD)
  then show ?thesis using e f by simp
qed

lemma recorded_append: "recorded i es \<Longrightarrow> recorded i (es @ fs)"
  by (auto simp: recorded_def)

lemma recorded_as_append: "recorded_as ph iid es \<Longrightarrow> recorded_as ph iid (es @ fs)"
  by (auto simp: recorded_as_def intro: recorded_append)

lemma recorded_as_unique:
  "journal_wf es \<Longrightarrow> recorded_as ENTRY iid es \<Longrightarrow> recorded_as EXIT iid es \<Longrightarrow> False"
  using recorded_unique by (fastforce simp: recorded_as_def)

lemma recorded_of_state:
  assumes "journal_wf es" "derive_intent_state (events_of iid es) = Inr st" "st_intent st = Some i"
  shows "recorded i es" "intent_id i = iid"
proof -
  have "sorted_wrt (<) (map ev_seq (events_of iid es))"
    using assms(1) by (intro sorted_events_of) (simp add: journal_wf_def)
  then obtain intent where d: "derive_intent (events_of iid es) = Inr intent"
      "derive_fields intent (events_of iid es) = Inr st"
    by (rule derive_Inr [OF assms(2)])
  then have "derive_intent (events_of iid es) = Inr (Some i)"
    using derive_fields_Inr(1) [OF d(2)] assms(3) by simp
  then obtain e where e: "e \<in> set (events_of iid es)" "ev_kind e = K_INTENT"
      "intent_from_payload (ev_id e) (ev_payload e) = Inr i"
    using derive_intent_Some by blast
  then show "intent_id i = iid" using intent_from_payload_id [OF e(3)] by (simp add: events_of_def)
  then show "recorded i es" using e by (auto simp: recorded_def events_of_def)
qed

section \<open>Appends that are no exchange\<close>

lemma exchange_ok_other:
  assumes "exchange_ok iid es ps" "\<not> exchange_event e"
  shows "exchange_ok iid (es @ [e]) ps"
proof -
  have "send_phase_of (events_of iid (es @ [e])) = send_phase_of (events_of iid es)"
    using send_step_other [OF assms(2)] by simp
  then show ?thesis using assms by (auto simp: exchange_ok_def intro: recorded_as_append)
qed

lemma append_keeps_knows: "keeps (knows i) (journal_append H kind iid p run)"
proof (rule tripleI)
  fix s r s'
  assume k: "knows i s" and run: "journal_append H kind iid p run s = (r, s')"
  from journal_append_run(2) [OF run] show "knows i s'"
    by (rule append_outcome_load) (use k in \<open>auto simp: knows_def intro: recorded_append\<close>)
qed

lemma append_keeps_inv:
  assumes "kind \<noteq> K_SEND" "kind \<noteq> K_RESULT"
  shows "keeps gateway_inv (journal_append H kind iid p run)"
proof (rule tripleI)
  fix s :: "'a gateway_state" and r s'
  assume i: "gateway_inv s" and run: "journal_append H kind iid p run s = (r, s')"
  obtain w where s': "s' = s\<lparr>j_lines := j_lines s', j_world := w\<rparr>"
    using journal_append_run(1) [OF run] by blast
  have posted: "gw_posted s' = gw_posted s" by (subst s') simp
  from journal_append_run(2) [OF run] show "gateway_inv s'"
  proof (rule append_outcome_load)
    fix es ts
    let ?e = "appended_event es ts kind iid run p"
    assume "load_lines (j_lines s) = Inr es" "load_lines (j_lines s') = Inr (es @ [?e])"
    moreover have "\<not> exchange_event ?e" using assms by (simp add: exchange_event_def appended_event_def)
    ultimately show ?thesis using i exchange_ok_other by (fastforce simp: gateway_inv_def posted)
  qed (use i in \<open>auto simp: gateway_inv_def posted\<close>)
qed

section \<open>One exchange\<close>

text \<open>The send is durable and the broker not yet called.\<close>

definition sent :: "order_intent \<Rightarrow> 'w gateway_state \<Rightarrow> bool" where
  "sent i s \<longleftrightarrow> gateway_inv s \<and> knows i s \<and> live_posts (intent_id i) (gw_posted s) = []
     \<and> (\<forall>es. load_lines (j_lines s) = Inr es \<longrightarrow>
          length (posts_of (intent_id i) (gw_posted s)) < length (of_kind K_SEND (events_of (intent_id i) es))
          \<and> (phase i = ENTRY \<longrightarrow> send_phase_of (events_of (intent_id i) es) = Waiting))"

text \<open>The broker has answered with the verdict \<open>v\<close>, not yet in the journal.\<close>

definition answered :: "order_intent \<Rightarrow> submit_verdict \<Rightarrow> 'w gateway_state \<Rightarrow> bool" where
  "answered i v s \<longleftrightarrow> gateway_inv s \<and> knows i s
     \<and> (phase i = ENTRY \<longrightarrow> (\<forall>es. load_lines (j_lines s) = Inr es \<longrightarrow>
          send_phase_of (events_of (intent_id i) es) = Waiting))
     \<and> (v \<in> set safe_verdicts \<longrightarrow> live_posts (intent_id i) (gw_posted s) = [])"

lemma live_posts_snoc: "live_posts iid (ps @ [(i, v)]) = live_posts iid ps
   @ (if intent_id i = iid \<and> phase i = ENTRY \<and> v \<notin> set safe_verdicts then [(i, v)] else [])"
  by (simp add: live_posts_def)

lemma accepted_calls_append:
  "accepted_calls T (cs @ ds) \<longleftrightarrow> accepted_calls T cs \<and> accepted_calls (fold take_call cs T) ds"
  by (induction T cs rule: accepted_calls.induct) auto

lemma taken_calls: "fold take_call cs T = T \<union> {iid. live_posts iid cs \<noteq> []}"
  by (induction cs arbitrary: T) (auto simp: take_call_def live_posts_def split: if_splits)

lemma accepted_one_live: "accepted_calls {} cs \<Longrightarrow> length (live_posts iid cs) \<le> 1"
proof (induction cs rule: rev_induct)
  case (snoc c cs)
  then show ?case
    by (cases c) (auto simp: accepted_calls_append taken_calls live_posts_snoc)
qed (simp add: live_posts_def)

lemma posts_of_snoc: "posts_of iid (ps @ [(i, v)]) = posts_of iid ps @ (if intent_id i = iid then [(i, v)] else [])"
  by (simp add: posts_of_def)

lemma ready_inv: "ready i s \<Longrightarrow> gateway_inv s"
  by (simp add: ready_def)

lemma sent_inv: "sent i s \<Longrightarrow> gateway_inv s"
  by (simp add: sent_def)

lemma knows_phase:
  assumes "knows i s" "load_lines (j_lines s) = Inr es"
  shows "recorded_as (phase i) (intent_id i) es"
  using assms by (auto simp: knows_def recorded_as_def)

lemma load_lines_states: "journal_states f = Inr sts \<Longrightarrow> \<exists>es. load_lines f = Inr es"
  by (auto simp: journal_states_def)

lemma append_send:
  assumes "ready i s" "load_lines (j_lines s) = Inr es0"
    and run: "journal_append H K_SEND (intent_id i) p run s = (r, s')"
  shows "gateway_inv s'" and "r = Inr e \<Longrightarrow> sent i s'"
proof -
  obtain w where s': "s' = s\<lparr>j_lines := j_lines s', j_world := w\<rparr>"
    using journal_append_run(1) [OF run] by blast
  have posted: "gw_posted s' = gw_posted s" by (subst s') simp
  have inv: "gateway_inv s" and knows: "knows i s" using assms(1) by (auto simp: ready_def)
  have ok0: "exchange_ok iid es0 (gw_posted s)" for iid
    using inv assms(2) by (auto simp: gateway_inv_def)
  have wf: "journal_wf es0" using assms(2) by (rule load_lines_wf)
  have rec: "recorded_as (phase i) (intent_id i) es0" using knows_phase [OF knows assms(2)] .
  have none: "live_posts (intent_id i) (gw_posted s) = []"
  proof (rule ccontr)
    assume l: "live_posts (intent_id i) (gw_posted s) \<noteq> []"
    then have "recorded_as ENTRY (intent_id i) es0" "send_phase_of (events_of (intent_id i) es0) \<noteq> Idle"
      using ok0 by (auto simp: exchange_ok_def)
    moreover from this(1) rec have "phase i = ENTRY"
      using recorded_as_unique [OF wf] by (cases "phase i") auto
    ultimately show False using assms(1,2) by (auto simp: ready_def)
  qed
  have "gateway_inv s' \<and> ((\<exists>x. r = Inl x) \<or> sent i s')"
    using journal_append_run(2) [OF run]
  proof (rule append_outcome_load)
    assume "j_lines s' = j_lines s" "\<exists>x. r = Inl x"
    then show ?thesis using inv by (auto simp: gateway_inv_def posted)
  next
    fix x assume bad: "load_lines (j_lines s') = Inl x"
    then have "gateway_inv s'" using inv by (auto simp: gateway_inv_def posted)
    then show ?thesis using bad none by (auto simp: sent_def knows_def posted)
  next
    fix es ts
    let ?e = "appended_event es ts K_SEND (intent_id i) run p"
    assume l: "load_lines (j_lines s) = Inr es" "load_lines (j_lines s') = Inr (es @ [?e])"
      "follows_wf es ?e"
    have es: "es = es0" using l(1) assms(2) by simp
    have e: "ev_id ?e = intent_id i" "ev_kind ?e = K_SEND" by (simp_all add: appended_event_def)
    have ready: "phase i = ENTRY \<Longrightarrow> send_phase_of (events_of (intent_id i) es) = Idle"
      using assms(1) l(1) by (auto simp: ready_def)
    have ok: "exchange_ok iid (es @ [?e]) (gw_posted s)" for iid
    proof (cases "iid = intent_id i")
      case True
      have "\<not> recorded_as EXIT iid (es @ [?e]) \<longrightarrow> phase i = ENTRY"
        using rec recorded_as_append unfolding True es by (cases "phase i") auto
      then show ?thesis using ok0 [of iid] ready none e unfolding True es
        by (auto simp: exchange_ok_def)
    next
      case False
      then show ?thesis using ok0 [of iid] e es
        by (auto simp: exchange_ok_def intro: recorded_as_append)
    qed
    have "knows i s'" using knows l by (auto simp: knows_def intro: recorded_append)
    moreover have "length (posts_of (intent_id i) (gw_posted s))
        < length (of_kind K_SEND (events_of (intent_id i) (es @ [?e])))"
      using ok0 [of "intent_id i"] e es by (simp add: exchange_ok_def)
    moreover have "phase i = ENTRY \<longrightarrow> send_phase_of (events_of (intent_id i) (es @ [?e])) = Waiting"
      using ready e by simp
    moreover have "gateway_inv s'" using inv ok l(2) by (auto simp: gateway_inv_def posted)
    ultimately show ?thesis using none l(2) by (auto simp: sent_def posted)
  qed
  then show "gateway_inv s'" and "r = Inr e \<Longrightarrow> sent i s'" by auto
qed

lemma post_order_run:
  assumes "sent i s" "post_order B i s = (r, s')"
  shows "gateway_inv s'" and "r = Inr x \<Longrightarrow> answered i (verdict x) s'"
    and "r = Inl y \<Longrightarrow> answered i AMBIGUOUS s'"
proof -
  define v where "v = (case r of Inl _ \<Rightarrow> AMBIGUOUS | Inr x \<Rightarrow> verdict x)"
  have s': "j_lines s' = j_lines s" "gw_posted s' = gw_posted s @ [(i, v)]"
    using assms(2) by (auto simp: post_order_def v_def Let_def split: prod.splits)
  have inv: "gateway_inv s" and none: "live_posts (intent_id i) (gw_posted s) = []"
    using assms(1) by (auto simp: sent_def)
  have one: "accepted_calls {} (gw_posted s')"
    using inv none by (simp add: s' accepted_calls_append taken_calls gateway_inv_def)
  have ok: "exchange_ok iid es (gw_posted s')" if l: "load_lines (j_lines s) = Inr es" for es iid
  proof -
    have old: "exchange_ok iid es (gw_posted s)" using inv l by (simp add: gateway_inv_def)
    have "phase i = ENTRY \<Longrightarrow> recorded_as ENTRY (intent_id i) es
        \<and> send_phase_of (events_of (intent_id i) es) = Waiting"
      using assms(1) l knows_phase [of i s es] by (auto simp: sent_def)
    moreover have "length (posts_of (intent_id i) (gw_posted s)) < length (of_kind K_SEND (events_of (intent_id i) es))"
      using assms(1) l by (simp add: sent_def)
    ultimately show ?thesis using old
      by (auto simp: exchange_ok_def s' live_posts_snoc posts_of_snoc)
  qed
  show inv': "gateway_inv s'" using one ok by (simp add: gateway_inv_def s')
  have "answered i v s'"
    using inv' assms(1) none by (auto simp: answered_def sent_def knows_def s' live_posts_snoc)
  then show "r = Inr x \<Longrightarrow> answered i (verdict x) s'" and "r = Inl y \<Longrightarrow> answered i AMBIGUOUS s'"
    by (auto simp: v_def)
qed

lemma result_event_verdict:
  "ev_verdict (appended_event es ts K_RESULT iid run (result_payload n x)) = Inr (verdict x)"
  by (simp add: ev_verdict_def appended_event_def result_payload_def pget_default_def)

lemma append_result:
  assumes "answered i (verdict x) s"
    and run: "journal_append H K_RESULT (intent_id i) (result_payload n x) run s = (r, s')"
  shows "gateway_inv s'" and "verdict x \<in> set safe_verdicts \<Longrightarrow> r = Inr e \<Longrightarrow> ready i s'" and "knows i s'"
proof -
  obtain w where s': "s' = s\<lparr>j_lines := j_lines s', j_world := w\<rparr>"
    using journal_append_run(1) [OF run] by blast
  have posted: "gw_posted s' = gw_posted s" by (subst s') simp
  have inv: "gateway_inv s" and knows: "knows i s" using assms(1) by (auto simp: answered_def)
  have "gateway_inv s' \<and> knows i s' \<and> (verdict x \<in> set safe_verdicts \<longrightarrow> (\<exists>x. r = Inl x) \<or> ready i s')"
    using journal_append_run(2) [OF run]
  proof (rule append_outcome_load)
    assume "j_lines s' = j_lines s" "\<exists>x. r = Inl x"
    then show ?thesis using inv knows by (auto simp: gateway_inv_def knows_def posted)
  next
    fix y assume bad: "load_lines (j_lines s') = Inl y"
    then have "gateway_inv s'" using inv by (auto simp: gateway_inv_def posted)
    then show ?thesis using bad by (auto simp: ready_def knows_def posted)
  next
    fix es ts
    let ?e = "appended_event es ts K_RESULT (intent_id i) run (result_payload n x)"
    assume l: "load_lines (j_lines s) = Inr es" "load_lines (j_lines s') = Inr (es @ [?e])"
    have e: "ev_id ?e = intent_id i" "ev_kind ?e = K_RESULT" by (simp_all add: appended_event_def)
    note verd = result_event_verdict [of es ts "intent_id i" run n x]
    have wait: "phase i = ENTRY \<Longrightarrow> send_phase_of (events_of (intent_id i) es) = Waiting"
      using assms(1) l(1) by (auto simp: answered_def)
    have rec: "recorded_as (phase i) (intent_id i) es" using knows_phase [OF knows l(1)] .
    have wf: "journal_wf es" using l(1) by (rule load_lines_wf)
    have ok: "exchange_ok iid (es @ [?e]) (gw_posted s)" for iid
    proof (cases "iid = intent_id i")
      case True
      have old: "exchange_ok iid es (gw_posted s)" using inv l(1) by (simp add: gateway_inv_def)
      show ?thesis
      proof (cases "phase i")
        case ENTRY
        then show ?thesis using old wait rec e verd assms(1) unfolding True
          by (auto simp: exchange_ok_def answered_def intro: recorded_as_append)
      next
        case EXIT
        then have "live_posts iid (gw_posted s) = []"
          using old rec recorded_as_unique [OF wf] unfolding True by (auto simp: exchange_ok_def)
        then show ?thesis using old rec EXIT e unfolding True
          by (auto simp: exchange_ok_def intro: recorded_as_append)
      qed
    next
      case False
      then show ?thesis using inv l(1) e by (auto simp: gateway_inv_def exchange_ok_def intro: recorded_as_append)
    qed
    have inv': "gateway_inv s'" using inv ok l(2) by (auto simp: gateway_inv_def posted)
    moreover have knows': "knows i s'" using knows l by (auto simp: knows_def intro: recorded_append)
    moreover have "verdict x \<in> set safe_verdicts \<Longrightarrow> phase i = ENTRY \<Longrightarrow>
        send_phase_of (events_of (intent_id i) (es @ [?e])) = Idle"
      using wait e verd by simp
    ultimately show ?thesis using l(2) by (auto simp: ready_def)
  qed
  then show "gateway_inv s'" and "verdict x \<in> set safe_verdicts \<Longrightarrow> r = Inr e \<Longrightarrow> ready i s'"
    and "knows i s'" by auto
qed

section \<open>Operations that do not send\<close>

lemma inv_frame [simp]:
  "gateway_inv (s\<lparr>j_world := w\<rparr>) = gateway_inv s"
  "gateway_inv (s\<lparr>j_locked := l\<rparr>) = gateway_inv s"
  "gateway_inv (s\<lparr>gw_sends_made := n\<rparr>) = gateway_inv s"
  by (simp_all add: gateway_inv_def)

lemma knows_frame [simp]:
  "knows i (s\<lparr>j_world := w\<rparr>) = knows i s"
  "knows i (s\<lparr>j_locked := l\<rparr>) = knows i s"
  "knows i (s\<lparr>gw_sends_made := n\<rparr>) = knows i s"
  by (simp_all add: knows_def)

lemma ready_frame [simp]:
  "ready i (s\<lparr>j_world := w\<rparr>) = ready i s"
  "ready i (s\<lparr>gw_sends_made := n\<rparr>) = ready i s"
  by (simp_all add: ready_def)

lemma answered_frame [simp]: "answered i v (s\<lparr>gw_sends_made := n\<rparr>) = answered i v s"
  by (simp add: answered_def)

lemma keeps_world_call: "(\<And>s w. I (s\<lparr>j_world := w\<rparr>) = I s) \<Longrightarrow> keeps I (world_call f)"
  by (simp add: triple_def world_call_def case_prod_beta Let_def)

lemma keeps_broker_call: "(\<And>s w. I (s\<lparr>j_world := w\<rparr>) = I s) \<Longrightarrow> keeps I (broker_call f)"
  by (simp add: triple_def broker_call_def case_prod_beta Let_def)

lemma keeps_reads [keeps_intros]:
  "keeps I require_lock" "keeps I read_states" "keeps I read_events" "keeps I (state_of iid)"
  "keeps I (was_not_found iid)"
  by (auto simp: require_lock_def read_states_def read_events_def state_of_def was_not_found_def
      intro!: keeps_intros)

lemma keeps_world_calls [keeps_intros]:
  assumes "\<And>s w. I (s\<lparr>j_world := w\<rparr>) = I s"
  shows "keeps I (is_halted B)" "keeps I (read_baseline B td)" "keeps I (risk_refusal L i)"
    "keeps I (world_call f)" "keeps I (broker_call g)"
  by (auto simp: is_halted_def read_baseline_def risk_refusal_def
      intro!: keeps_intros keeps_world_call keeps_broker_call assms)

lemmas inv_intros = keeps_intros append_keeps_inv

lemma plan_keeps_inv: "keeps gateway_inv (plan B run intents skips)"
  by (auto simp: plan_def plan_intent_def plan_skip_def intro!: inv_intros)

lemma refuse_keeps_inv: "keeps gateway_inv (refuse B run i iid reason)"
  by (auto simp: refuse_def intro!: inv_intros)

lemma append_broker_state_keeps_inv:
  "keeps gateway_inv (append_broker_state B run events iid p contradictions)"
  by (auto simp: append_broker_state_def intro!: inv_intros)

lemma reconcile_keeps_inv: "keeps gateway_inv (reconcile B run td finalize)"
  by (auto simp: reconcile_def reconcile_bind_def reconcile_state_def Let_def
      intro!: inv_intros append_broker_state_keeps_inv)

lemma resolve_carryover_keeps_inv: "keeps gateway_inv (resolve_carryover B L run as_of)"
  by (auto simp: resolve_carryover_def carryover_date_def carryover_bind_def carryover_state_def
      intro!: inv_intros append_broker_state_keeps_inv)

lemma cancel_working_keeps_inv: "keeps gateway_inv (cancel_working B run td)"
  by (auto simp: cancel_working_def cancel_one_def Let_def intro!: inv_intros)

section \<open>Sending and submitting\<close>

lemma state_of_run:
  "state_of iid s = (r, s') \<Longrightarrow> s' = s \<and> (r = Inr st \<longrightarrow> (\<exists>sts. journal_states (j_lines s) = Inr sts \<and> map_of sts iid = Some st))"
  by (auto simp: state_of_def read_states_def bnd_def lift_res_def ret_def throw_def
      split: sum.splits option.splits)

lemma safe_submit_run:
  assumes "sent i s" "safe_submit B i s = (r, s')"
  shows "gateway_inv s'" and "r = Inr x \<Longrightarrow> answered i (verdict x) s'" and "knows i s'"
proof -
  obtain q t where q: "post_order B i s = (q, t)" by (cases "post_order B i s") auto
  note run = post_order_run [OF assms(1) q]
  have "s' = t" and r: "r = (case q of Inr x \<Rightarrow> Inr x
      | Inl e \<Rightarrow> if e = Interrupted then Inl Interrupted else Inr (ambiguous_result ''submit raised''))"
    using assms(2) q by (auto simp: safe_submit_def bnd_def attempt_def ret_def split: sum.splits if_splits)
  then show "gateway_inv s'" and "r = Inr x \<Longrightarrow> answered i (verdict x) s'" and "knows i s'"
    using run by (auto simp: ambiguous_result_def answered_def split: sum.splits if_splits)
qed

lemma sent_knows: "sent i s \<Longrightarrow> knows i s"
  by (simp add: sent_def)

definition after_send :: "order_intent \<Rightarrow> submit_result res \<Rightarrow> 'w gateway_state \<Rightarrow> bool" where
  "after_send i r s \<longleftrightarrow> gateway_inv s \<and> knows i s
     \<and> (\<forall>x. r = Inr x \<longrightarrow> verdict x \<in> set safe_verdicts \<longrightarrow> ready i s)"

lemma send_once_triple: "triple (ready i) (send_once B run i (intent_id i) bl) (after_send i)"
proof (rule tripleI)
  fix s r s'
  assume r0: "ready i s" and run: "send_once B run i (intent_id i) bl s = (r, s')"
  then have ik: "gateway_inv s" "knows i s" by (auto simp: ready_def)
  from run obtain q t where st: "state_of (intent_id i) s = (q, t)" and t: "t = s"
    using state_of_run by (metis surj_pair)
  show "after_send i r s'"
  proof (cases q)
    case (Inl e)
    then show ?thesis using run st t ik by (auto simp: send_once_def bnd_def after_send_def)
  next
    case (Inr stt)
    then obtain es where es: "load_lines (j_lines s) = Inr es"
      using state_of_run [OF st] load_lines_states by blast
    let ?n = "st_n_sends stt + 1"
    have body: "bnd (journal_append B K_SEND (intent_id i) (send_payload ?n bl) run) (\<lambda>_.
        bnd (safe_submit B i) (\<lambda>x.
        bnd (modify (\<lambda>s. s\<lparr>gw_sends_made := gw_sends_made s + 1\<rparr>)) (\<lambda>_.
        bnd (journal_append B K_RESULT (intent_id i) (result_payload ?n x) run) (\<lambda>_. ret x)))) s = (r, s')"
      using run st t Inr by (simp add: send_once_def bnd_def Let_def)
    obtain q1 s1 where a1: "journal_append B K_SEND (intent_id i) (send_payload ?n bl) run s = (q1, s1)"
      by (cases "journal_append B K_SEND (intent_id i) (send_payload ?n bl) run s") auto
    note send = append_send [OF r0 es a1]
    have k1: "knows i s1" using tripleD [OF append_keeps_knows ik(2) a1] .
    show ?thesis
    proof (cases q1)
      case (Inl e)
      then show ?thesis using body a1 send(1) k1 by (auto simp: bnd_def after_send_def)
    next
      case (Inr e1)
      obtain q2 s2 where a2: "safe_submit B i s1 = (q2, s2)" by (cases "safe_submit B i s1") auto
      note sub = safe_submit_run [OF send(2) [OF Inr] a2]
      show ?thesis
      proof (cases q2)
        case (Inl e)
        then show ?thesis using body a1 a2 Inr sub(1,3) by (auto simp: bnd_def after_send_def)
      next
        case q2: (Inr x)
        let ?s3 = "s2\<lparr>gw_sends_made := gw_sends_made s2 + 1\<rparr>"
        obtain q4 s4 where a4: "journal_append B K_RESULT (intent_id i) (result_payload ?n x) run ?s3 = (q4, s4)"
          by (cases "journal_append B K_RESULT (intent_id i) (result_payload ?n x) run ?s3") auto
        have "answered i (verdict x) ?s3" using sub(2) [OF q2] by simp
        note res = append_result [OF this a4]
        have "s' = s4" "r = (case q4 of Inl e \<Rightarrow> Inl e | Inr _ \<Rightarrow> Inr x)"
          using body a1 a2 a4 Inr q2 by (auto simp: bnd_def modify_def ret_def split: sum.splits)
        then show ?thesis using res by (auto simp: after_send_def split: sum.splits)
      qed
    qed
  qed
qed

text \<open>What is left when the exchange may be open. It is all an exit needs to be sent again.\<close>

definition known :: "order_intent \<Rightarrow> 'w gateway_state \<Rightarrow> bool" where
  "known i s \<longleftrightarrow> gateway_inv s \<and> knows i s"

lemma known_frame [simp]: "known i (s\<lparr>j_world := w\<rparr>) = known i s"
  by (simp add: known_def)

lemma append_keeps_known:
  "kind \<noteq> K_SEND \<Longrightarrow> kind \<noteq> K_RESULT \<Longrightarrow> keeps (known i) (journal_append H kind iid p run)"
  using append_keeps_inv [of kind H iid p run] append_keeps_knows [of i H kind iid p run]
  by (auto simp: known_def triple_def)

lemma send_once_keeps_known:
  assumes "phase i = EXIT"
  shows "keeps (known i) (send_once B run i (intent_id i) bl)"
  by (rule triple_weaken [OF send_once_triple])
    (use assms in \<open>auto simp: known_def ready_def after_send_def\<close>)

lemma poll_loop_keeps: "keeps (known i) (poll_loop B L run i bound n)"
  by (induction n) (auto intro!: keeps_intros append_keeps_known)

lemma resend_exit_keeps: "phase i = EXIT \<Longrightarrow> keeps (known i) (resend_exit B run i deadline after)"
  by (auto simp: resend_exit_def intro!: keeps_intros send_once_keeps_known)

lemma resolve_unknown_keeps: "keeps (known i) (resolve_unknown B L run i deadline)"
  by (auto simp: resolve_unknown_def Let_def
      intro!: keeps_intros poll_loop_keeps resend_exit_keeps append_keeps_known split: poll_end.split)

lemma ready_recorded: "ready i s \<Longrightarrow> known i s"
  by (simp add: ready_def known_def)

lemma after_send_recorded: "after_send i r s \<Longrightarrow> known i s"
  by (simp add: after_send_def known_def)

lemma keeps_imp_triple: "keeps I m \<Longrightarrow> (\<And>s. P s \<Longrightarrow> I s) \<Longrightarrow> (\<And>s. I s \<Longrightarrow> J s) \<Longrightarrow> triple P m (\<lambda>_. J)"
  by (rule triple_weaken)

lemma known_inv: "known i s \<Longrightarrow> gateway_inv s"
  by (simp add: known_def)

lemma refuse_keeps_recorded: "keeps (known i) (refuse B run j iid reason)"
  by (auto simp: refuse_def intro!: keeps_intros append_keeps_known)

lemma send_loop_triple:
  "triple (ready i) (send_loop B L run i (intent_id i) deadline bl n) (\<lambda>_. known i)"
proof (induction n arbitrary: bl)
  case 0
  show ?case unfolding send_loop.simps by (rule keeps_imp_triple [OF keeps_reads(4)]) (simp_all add: ready_recorded)
next
  case (Suc n)
  have tail: "triple (\<lambda>s. after_send i (Inr x) s)
      (if verdict x = ACCEPTED \<or> verdict x = REJECTED then state_of (intent_id i)
       else if verdict x \<in> set safe_verdicts then send_loop B L run i (intent_id i) deadline None n
       else bnd (was_not_found (intent_id i)) (\<lambda>seen.
         if seen then state_of (intent_id i) else resolve_unknown B L run i deadline))
      (\<lambda>_. known i)" for x
  proof (cases "verdict x \<in> set safe_verdicts")
    case True
    then have "\<not> (verdict x = ACCEPTED \<or> verdict x = REJECTED)" by (auto simp: safe_verdicts_def)
    moreover have "triple (\<lambda>s. after_send i (Inr x) s) (send_loop B L run i (intent_id i) deadline None n) (\<lambda>_. known i)"
      by (rule triple_pre [OF Suc.IH]) (use True in \<open>simp add: after_send_def\<close>)
    ultimately show ?thesis using True by simp
  next
    case False
    have "keeps (known i) (if verdict x = ACCEPTED \<or> verdict x = REJECTED then state_of (intent_id i)
       else if verdict x \<in> set safe_verdicts then state_of (intent_id i)
       else bnd (was_not_found (intent_id i)) (\<lambda>seen.
         if seen then state_of (intent_id i) else resolve_unknown B L run i deadline))"
      by (auto intro!: keeps_intros resolve_unknown_keeps)
    then show ?thesis using False by (auto elim!: keeps_imp_triple simp: after_send_recorded)
  qed
  have send: "triple (ready i) (bnd (send_once B run i (intent_id i) bl) (\<lambda>x.
         if verdict x = ACCEPTED \<or> verdict x = REJECTED then state_of (intent_id i)
         else if verdict x \<in> set safe_verdicts then send_loop B L run i (intent_id i) deadline None n
         else bnd (was_not_found (intent_id i)) (\<lambda>seen.
           if seen then state_of (intent_id i) else resolve_unknown B L run i deadline))) (\<lambda>_. known i)"
    by (rule triple_bnd [OF _ tail])
      (rule triple_post [OF send_once_triple], auto simp: after_send_recorded split: sum.splits)
  have late: "triple (ready i) (bnd (state_of (intent_id i)) (\<lambda>fresh.
      if st_n_sends fresh = 0 then refuse B run i (intent_id i) ''deadline_passed'' else ret fresh))
      (\<lambda>_. known i)"
    by (rule keeps_imp_triple [where I = "known i"])
      (auto intro!: keeps_intros refuse_keeps_recorded simp: ready_recorded)
  show ?case unfolding send_loop.simps
    by (rule triple_bnd [where B = "\<lambda>_. ready i"])
      (use send late in \<open>auto intro!: triple_post [OF keeps_world_call] simp: ready_recorded split: sum.splits\<close>)
qed

lemma ready_of_state:
  assumes inv: "gateway_inv s" and sts: "journal_states (j_lines s) = Inr sts"
    and st: "map_of sts iid = Some st" "sendable (st_status st)" "st_intent st = Some i"
  shows "ready i s" "intent_id i = iid"
proof -
  obtain es where es: "load_lines (j_lines s) = Inr es" "journal_wf es" "events_states es = Inr sts"
    using sts by (rule journal_states_lookup)
  have d: "derive_intent_state (events_of iid es) = Inr st"
    using events_states_lookup(1) [OF es(3,2)] st(1) by blast
  note rec = recorded_of_state [OF es(2) d st(3)]
  show id: "intent_id i = iid" by (rule rec(2))
  have sorted: "sorted_wrt (<) (map ev_seq (events_of iid es))"
    using es(2) by (intro sorted_events_of) (simp add: journal_wf_def)
  have "send_phase_of (events_of iid es) = Idle" if "phase i = ENTRY"
  proof -
    have "recorded_as ENTRY iid es" using rec that by (auto simp: recorded_as_def)
    then have "\<not> recorded_as EXIT iid es" using recorded_as_unique [OF es(2)] by blast
    then have "send_phase_of (events_of iid es) \<noteq> Tangled"
      using inv es(1) by (auto simp: gateway_inv_def exchange_ok_def)
    moreover have "send_phase_of (events_of iid es) \<noteq> Waiting" "\<And>v. send_phase_of (events_of iid es) \<noteq> Settled v"
      using open_exchange_not_sendable [OF d sorted] st(2) by blast+
    ultimately show ?thesis by (cases "send_phase_of (events_of iid es)") auto
  qed
  then show "ready i s" using inv rec(1) es(1) id by (auto simp: ready_def knows_def)
qed

lemma keeps_ready_reads:
  "keeps (ready i) (is_halted B)" "keeps (ready i) (read_baseline B td)" "keeps (ready i) (risk_refusal L j)"
  by (auto intro!: keeps_world_calls)

lemma refuse_from_ready: "triple (ready i) (refuse B run j iid reason) (\<lambda>_. gateway_inv)"
  by (rule keeps_imp_triple [OF refuse_keeps_inv]) (auto simp: ready_inv)

lemma send_loop_from_ready:
  "triple (ready i) (send_loop B L run i (intent_id i) deadline bl n) (\<lambda>_. gateway_inv)"
  by (rule triple_post [OF send_loop_triple]) (rule known_inv)

text \<open>Sequencing under an assertion that the first method keeps.\<close>

lemma triple_bnd_keeps:
  assumes "keeps P m" "\<And>s. P s \<Longrightarrow> I s" "\<And>a. triple P (f a) (\<lambda>_. I)"
  shows "triple P (bnd m f) (\<lambda>_. I)"
  by (rule triple_bnd [where B = "\<lambda>_. P"])
    (use assms in \<open>auto elim: triple_post split: sum.splits\<close>)

lemma submit_ready_triple:
  "triple (ready i) (submit_ready B L run i (intent_id i) deadline st) (\<lambda>_. gateway_inv)"
proof -
  have halted: "triple (ready i) (bnd (is_halted B) (\<lambda>halted.
      if halted then refuse B run i (intent_id i) ''halted''
      else send_loop B L run i (intent_id i) deadline bl n)) (\<lambda>_. gateway_inv)" for bl n
    by (rule triple_bnd_keeps [OF keeps_ready_reads(1)])
      (auto simp: ready_inv refuse_from_ready send_loop_from_ready)
  have base: "triple (ready i) (bnd (read_baseline B (trading_date i)) (\<lambda>bl. bnd (is_halted B) (\<lambda>halted.
      if halted then refuse B run i (intent_id i) ''halted''
      else send_loop B L run i (intent_id i) deadline bl n))) (\<lambda>_. gateway_inv)" for n
    by (rule triple_bnd_keeps [OF keeps_ready_reads(2)]) (auto simp: ready_inv halted)
  have risk: "triple (ready i) (bnd (risk_refusal L i) (\<lambda>refusal. case refusal of
      Some reason \<Rightarrow> refuse B run i (intent_id i) reason
    | None \<Rightarrow> bnd (read_baseline B (trading_date i)) (\<lambda>bl. bnd (is_halted B) (\<lambda>halted.
        if halted then refuse B run i (intent_id i) ''halted''
        else send_loop B L run i (intent_id i) deadline bl n)))) (\<lambda>_. gateway_inv)" for n
    by (rule triple_bnd_keeps [OF keeps_ready_reads(3)])
      (auto simp: ready_inv refuse_from_ready base split: option.splits)
  show ?thesis using risk send_loop_from_ready by (auto simp: submit_ready_def Let_def)
qed

lemma submit_keeps_inv: "keeps gateway_inv (submit B L run iid deadline)"
proof (rule tripleI)
  fix s r and s' :: "'a gateway_state"
  assume inv: "gateway_inv s" and run: "submit B L run iid deadline s = (r, s')"
  show "gateway_inv s'"
  proof (cases "j_locked s")
    case False
    then show ?thesis using run inv
      by (auto simp: submit_def require_lock_def bnd_def gets_def throw_def)
  next
    case lock: True
    show ?thesis
    proof (cases "journal_states (j_lines s)")
      case (Inl e)
      then show ?thesis using run inv lock
        by (auto simp: submit_def require_lock_def bnd_def gets_def ret_def read_states_def lift_res_def)
    next
      case sts: (Inr sts)
      note simps = submit_def require_lock_def bnd_def gets_def ret_def read_states_def lift_res_def throw_def
      show ?thesis
      proof (cases "map_of sts iid")
        case None
        then show ?thesis using run inv lock sts by (auto simp: simps)
      next
        case (Some st)
        show ?thesis
        proof (cases "sendable (st_status st) \<and> st_intent st \<noteq> None")
          case False
          then show ?thesis using run inv lock sts Some by (auto simp: simps split: if_splits)
        next
          case True
          then obtain i where i: "st_intent st = Some i" by auto
          have ready: "ready i s" "intent_id i = iid"
            using ready_of_state [OF inv sts Some _ i] True by simp_all
          have go: "bnd (is_halted B) (\<lambda>halted.
              if halted then refuse B run i iid ''halted''
              else submit_ready B L run i iid deadline st) s = (r, s')"
            using run lock sts Some True i by (simp add: simps)
          have tri: "triple (ready i) (bnd (is_halted B) (\<lambda>halted.
              if halted then refuse B run i iid ''halted''
              else submit_ready B L run i iid deadline st)) (\<lambda>_. gateway_inv)"
            unfolding ready(2) [symmetric]
            by (rule triple_bnd_keeps [OF keeps_ready_reads(1)])
              (auto simp: ready_inv refuse_from_ready submit_ready_triple)
          show ?thesis by (rule tripleD [OF tri ready(1) go])
        qed
      qed
    qed
  qed
qed

end
