(* ===== verification/Order_Resolve.thy ===== *)
theory Order_Resolve
  imports Gateway_Safety
begin

text \<open>
  \<open>src/daily/order_resolve.py\<close>: the operator's manual resolution of an intent whose order
  is unknown. The trading binding is resolved by the caller's settings, here its outcome;
  the token call is a further function of the broker.
\<close>

record 'w session_broker = "'w broker" +
  sb_ensure_token :: "'w \<Rightarrow> unit res \<times> 'w"
  sb_orderable_cash :: "string \<Rightarrow> int \<Rightarrow> 'w \<Rightarrow> int res \<times> 'w"
  sb_price_limits :: "string \<Rightarrow> 'w \<Rightarrow> price_limits res \<times> 'w"

record resolve_report =
  rv_intent_id :: string
  rv_action :: string
  rv_applied :: bool
  rv_reason_code :: string
  rv_candidates :: "string list"

definition refused :: "string \<Rightarrow> string \<Rightarrow> string list \<Rightarrow> resolve_report" where
  "refused iid reason cs = \<lparr>rv_intent_id = iid, rv_action = ''refused'', rv_applied = False,
     rv_reason_code = reason, rv_candidates = cs\<rparr>"

definition resolved :: "string \<Rightarrow> string \<Rightarrow> bool \<Rightarrow> string list \<Rightarrow> resolve_report" where
  "resolved iid action applied cs = \<lparr>rv_intent_id = iid, rv_action = action, rv_applied = applied,
     rv_reason_code = ''ok'', rv_candidates = cs\<rparr>"

definition operator_payload :: "string \<Rightarrow> string \<Rightarrow> string \<Rightarrow> payload" where
  "operator_payload resolution operator reason =
     [(''resolution'', JStr resolution), (''operator'', JStr operator), (''reason'', JStr reason)]"

text \<open>\<open>ensure_token\<close> and the day's orders; \<open>None\<close> for a \<open>BrokerReadError\<close>.\<close>

definition read_snapshot ::
    "('w, 'h) session_broker_scheme \<Rightarrow> string \<Rightarrow> ('w, broker_order list option) gw" where
  "read_snapshot B td = catch_only BrokerReadError
     (bnd (broker_call (sb_ensure_token B)) (\<lambda>_.
      bnd (broker_call (b_daily_orders B td)) (\<lambda>snapshot. ret (Some snapshot)))) (ret None)"

definition resolve_adopt ::
    "('w, 'h) session_broker_scheme \<Rightarrow> string \<Rightarrow> string \<Rightarrow> order_intent \<Rightarrow> string \<Rightarrow> string \<Rightarrow> string \<Rightarrow>
     bool \<Rightarrow> string list \<Rightarrow> broker_order list \<Rightarrow> ('w, resolve_report) gw" where
  "resolve_adopt B run iid i target_no operator reason apply bound snapshot =
     (let named = filter (\<lambda>bo. normalize_order_no (bo_order_no bo) = target_no) snapshot in
      case match_candidates i named bound None of
        [bo] \<Rightarrow>
          if py_blank (bo_org_no bo) then ret (refused iid ''order_mismatch'' [])
          else if apply then
            bnd (journal_append B K_OPERATOR_RESOLVE iid
                (operator_payload ''adopt'' operator reason @ adopt_payload bo) run) (\<lambda>_.
              ret (resolved iid ''adopt'' True [target_no]))
          else ret (resolved iid ''adopt'' False [target_no])
      | _ \<Rightarrow> ret (refused iid ''order_mismatch'' []))"

definition resolve_absent ::
    "('w, 'h) session_broker_scheme \<Rightarrow> string \<Rightarrow> string \<Rightarrow> order_intent \<Rightarrow> string list option \<Rightarrow> string \<Rightarrow>
     string \<Rightarrow> bool \<Rightarrow> string list \<Rightarrow> broker_order list \<Rightarrow> ('w, resolve_report) gw" where
  "resolve_absent B run iid i baseline operator reason apply bound snapshot =
     (let found = match_candidates i snapshot bound baseline in
      if found \<noteq> [] then ret (refused iid ''candidate_exists''
        (sort (remdups (map (\<lambda>bo. normalize_order_no (bo_order_no bo)) found))))
      else if apply then
        bnd (journal_append B K_OPERATOR_RESOLVE iid (operator_payload ''not_found'' operator reason) run) (\<lambda>_.
          ret (resolved iid ''not_found'' True []))
      else ret (resolved iid ''not_found'' False []))"

definition resolve_body ::
    "('w, 'h) session_broker_scheme \<Rightarrow> string \<Rightarrow> string option \<Rightarrow> string \<Rightarrow> string \<Rightarrow> bool \<Rightarrow>
     ('w, resolve_report) gw" where
  "resolve_body B iid order_no operator reason apply =
     (let run = ''operator-resolve:'' @ iid;
          has_order = (case order_no of None \<Rightarrow> False | Some n \<Rightarrow> \<not> py_blank n);
          allowed = (if has_order then {S_UNKNOWN, S_NOT_FOUND} else {S_UNKNOWN}) in
      bnd read_states (\<lambda>sts. case map_of sts iid of
        None \<Rightarrow> ret (refused iid ''not_unknown'' [])
      | Some st \<Rightarrow> (case st_intent st of
          None \<Rightarrow> ret (refused iid ''not_unknown'' [])
        | Some i \<Rightarrow>
            if st_status st \<notin> allowed then ret (refused iid ''not_unknown'' [])
            else
              let target_no = (case order_no of None \<Rightarrow> [] | Some n \<Rightarrow> normalize_order_no n) in
              if has_order \<and> target_no = [] then ret (refused iid ''bad_arguments'' [])
              else bnd (read_snapshot B (trading_date i)) (\<lambda>snap. case snap of
                None \<Rightarrow> ret (refused iid ''broker_unreadable'' [])
              | Some snapshot \<Rightarrow>
                  if has_order
                  then resolve_adopt B run iid i target_no operator reason apply (bound_numbers sts) snapshot
                  else resolve_absent B run iid i (st_baseline st) operator reason apply
                    (bound_numbers sts) snapshot))))"

definition resolve_unknown_intent ::
    "('w, 'h) session_broker_scheme \<Rightarrow> unit res \<Rightarrow> string \<Rightarrow> string option \<Rightarrow> bool \<Rightarrow> string \<Rightarrow> string \<Rightarrow>
     bool \<Rightarrow> ('w, resolve_report) gw" where
  "resolve_unknown_intent B binding iid order_no not_found operator reason apply =
     (let has_order = (case order_no of None \<Rightarrow> False | Some n \<Rightarrow> \<not> py_blank n) in
      if has_order = not_found then ret (refused iid ''bad_arguments'' [])
      else if py_blank operator then ret (refused iid ''bad_arguments'' [])
      else if py_blank reason then ret (refused iid ''bad_arguments'' [])
      else (case binding of
        Inl e \<Rightarrow> if e = TradingDisabledError then ret (refused iid ''trading_disabled'' []) else throw e
      | Inr _ \<Rightarrow>
          exclusive B (resolve_body B iid order_no (py_strip operator) (py_strip reason) apply)))"

section \<open>The gateway's invariant\<close>

lemma exclusive_keeps_inv: "keeps gateway_inv body \<Longrightarrow> keeps gateway_inv (exclusive H body)"
  by (auto simp: exclusive_def intro!: inv_intros keeps_finally)

lemma resolve_unknown_intent_keeps_inv:
  "keeps gateway_inv (resolve_unknown_intent B binding iid order_no not_found operator reason apply)"
  by (auto simp: resolve_unknown_intent_def resolve_body_def resolve_adopt_def resolve_absent_def
      read_snapshot_def Let_def intro!: inv_intros exclusive_keeps_inv)

end
