(* ===== verification/Gateway_Run.thy ===== *)
theory Gateway_Run
  imports Order_Resolve
begin

text \<open>
  The life of the gateway as a step relation: each operation runs to its end or raises, in
  any order, by any process, against any broker; between operations the world changes and
  the process may be replaced. A process that dies inside an operation is an operation
  whose append raised \<open>OSError\<close> or whose broker call was \<open>Interrupted\<close>.
\<close>

inductive gateway_step :: "'w gateway_state \<Rightarrow> 'w gateway_state \<Rightarrow> bool" where
  step_plan: "plan (B :: 'w session_broker) run intents skips s = (r, s') \<Longrightarrow> gateway_step s s'"
| step_submit: "submit (B :: 'w session_broker) L run iid deadline s = (r, s') \<Longrightarrow> gateway_step s s'"
| step_reconcile: "reconcile (B :: 'w session_broker) run td finalize s = (r, s') \<Longrightarrow> gateway_step s s'"
| step_carryover: "resolve_carryover (B :: 'w session_broker) L run as_of s = (r, s') \<Longrightarrow> gateway_step s s'"
| step_cancel: "cancel_working (B :: 'w session_broker) run td s = (r, s') \<Longrightarrow> gateway_step s s'"
| step_operator: "resolve_unknown_intent (B :: 'w session_broker) binding iid ono nf op reason ap s = (r, s') \<Longrightarrow> gateway_step s s'"
| step_world: "gateway_step s (s\<lparr>j_world := w\<rparr>)"
| step_lock: "gateway_step s (s\<lparr>j_locked := l\<rparr>)"
| step_process: "gateway_step s (s\<lparr>j_locked := l, gw_sends_made := 0\<rparr>)"

inductive gateway_reachable :: "'w gateway_state \<Rightarrow> bool" where
  fresh: "j_lines s = None \<Longrightarrow> gw_posted s = [] \<Longrightarrow> gateway_reachable s"
| step: "gateway_reachable s \<Longrightarrow> gateway_step s s' \<Longrightarrow> gateway_reachable s'"

inductive_cases gateway_stepE: "gateway_step s s'"

lemma gateway_step_inv: "gateway_step s s' \<Longrightarrow> gateway_inv s \<Longrightarrow> gateway_inv s'"
proof (induction rule: gateway_step.induct)
  case step_process
  then show ?case by (simp add: gateway_inv_def)
next
  case step_lock
  then show ?case by (simp add: gateway_inv_def)
qed (auto dest: tripleD [OF plan_keeps_inv] tripleD [OF submit_keeps_inv] tripleD [OF reconcile_keeps_inv]
    tripleD [OF resolve_carryover_keeps_inv] tripleD [OF cancel_working_keeps_inv]
    tripleD [OF resolve_unknown_intent_keeps_inv])

lemma gateway_reachable_inv: "gateway_reachable s \<Longrightarrow> gateway_inv s"
proof (induction rule: gateway_reachable.induct)
  case (fresh s)
  then show ?case
    by (simp add: gateway_inv_def load_lines_def exchange_ok_def live_posts_def posts_of_def)
next
  case (step s s')
  then show ?case by (blast intro: gateway_step_inv)
qed

end
