(* ===== verification/Order_Session.thy ===== *)
theory Order_Session
  imports Entry_Decision Gateway_Run
begin

text \<open>
  \<open>src/daily/order_session.py\<close>: the gated order session, one phase per run, over the
  journal and the gateway. Parameters of a run, in \<open>session_env\<close>: the broker and the host
  (\<open>src/api/kis/trading.py\<close> provides the broker), the clock, the decision loader, the store
  check, the run recorder, the day resolver, the settings, the resolved binding, and the
  conversion of a pandas time difference to seconds. Log output is left out. Two loops
  wait for the clock; their fuel is the number of rounds they may make, and running out of
  it raises \<open>NotReturned\<close>.
\<close>

section \<open>Reports and the environment\<close>

definition RUN_OUTCOME_OK :: string where "RUN_OUTCOME_OK = ''OK''"
definition RUN_OUTCOME_DEGRADED :: string where "RUN_OUTCOME_DEGRADED = ''DEGRADED''"
definition RUN_OUTCOME_SKIPPED :: string where "RUN_OUTCOME_SKIPPED = ''SKIPPED''"

definition ORDER_PHASES :: "string list" where
  "ORDER_PHASES = [''entry'', ''exit'', ''reconcile-entry'', ''reconcile-exit'', ''cancel'']"

definition ORDER_DECISION_POLL_SECONDS :: fl where "ORDER_DECISION_POLL_SECONDS = Fin 2"
definition ORDER_RECONCILE_POLL_SECONDS :: fl where "ORDER_RECONCILE_POLL_SECONDS = Fin 10"
definition ORDER_MAX_PRESTART_WAIT_SECONDS :: fl where "ORDER_MAX_PRESTART_WAIT_SECONDS = Fin 120"

record session_report =
  sr_phase :: string
  sr_trading_date :: string
  sr_outcome :: string
  sr_reason :: string
  sr_metrics :: payload

record order_settings =
  ORDER_SEED_CAPITAL :: int
  ORDER_MAX_NOTIONAL_PER_ORDER_KRW :: int
  ORDER_MAX_SENDS_PER_RUN :: int
  ORDER_SEND_MAX_ATTEMPTS :: int
  ORDER_UNKNOWN_RESOLVE_POLLS :: int
  ORDER_UNKNOWN_RESOLVE_INTERVAL_SECONDS :: fl
  ORDER_EXIT_RESEND_ON_AMBIGUOUS :: bool
  ORDER_UNKNOWN_CARRYOVER_LOOKBACK_DAYS :: int
  ORDER_ENTRY_LIMIT_BUFFER_BP :: fl

record 'w session_env =
  se_broker :: "'w session_broker"
  se_clock :: "'w \<Rightarrow> int \<times> 'w"
  se_decide :: "civil \<Rightarrow> 'w \<Rightarrow> decision_frame res \<times> 'w"
  se_store :: "'w \<Rightarrow> bool \<times> 'w"
  se_record :: "session_report \<Rightarrow> 'w \<Rightarrow> unit res \<times> 'w"
  se_session_day :: "civil \<Rightarrow> session_day res"
  se_settings :: order_settings
  se_binding :: "trading_binding res"
  se_timedelta_seconds :: "int \<Rightarrow> fl"

definition limits_from_settings :: "order_settings \<Rightarrow> gateway_limits" where
  "limits_from_settings c = \<lparr>seed_capital_krw = ORDER_SEED_CAPITAL c,
     max_notional_per_order_krw = ORDER_MAX_NOTIONAL_PER_ORDER_KRW c,
     max_sends_per_run = ORDER_MAX_SENDS_PER_RUN c, send_max_attempts = ORDER_SEND_MAX_ATTEMPTS c,
     unknown_resolve_polls = ORDER_UNKNOWN_RESOLVE_POLLS c,
     unknown_resolve_interval_seconds = ORDER_UNKNOWN_RESOLVE_INTERVAL_SECONDS c,
     exit_resend_on_ambiguous = ORDER_EXIT_RESEND_ON_AMBIGUOUS c,
     carryover_lookback_days = ORDER_UNKNOWN_CARRYOVER_LOOKBACK_DAYS c\<rparr>"

text \<open>The gateway's broker: its clock is the session's, without the nanoseconds.\<close>

definition gateway_port :: "'w session_env \<Rightarrow> 'w session_broker" where
  "gateway_port X = (se_broker X)\<lparr>b_now := (\<lambda>w. let (n, w') = se_clock X w in (to_us n, w'))\<rparr>"

abbreviation session_limits :: "'w session_env \<Rightarrow> gateway_limits" where
  "session_limits X \<equiv> limits_from_settings (se_settings X)"

definition now_of :: "'w session_env \<Rightarrow> ('w, int) gw" where
  "now_of X = world_call (se_clock X)"

definition sleep_for :: "'w session_env \<Rightarrow> fl \<Rightarrow> ('w, unit) gw" where
  "sleep_for X d = world_call (b_sleep (se_broker X) d)"

text \<open>A new \<open>OrderGateway\<close> has sent nothing in its run.\<close>

definition new_gateway :: "('w, unit) gw" where
  "new_gateway = modify (\<lambda>s. s\<lparr>gw_sends_made := 0\<rparr>)"

definition env_text :: "trading_binding \<Rightarrow> string" where
  "env_text b = (if tb_env b = MOCK then ''mock'' else ''live'')"

definition make_report :: "string \<Rightarrow> string \<Rightarrow> string \<Rightarrow> string \<Rightarrow> payload \<Rightarrow> session_report" where
  "make_report ph date_str outcome reason metrics = \<lparr>sr_phase = ph, sr_trading_date = date_str,
     sr_outcome = outcome, sr_reason = reason, sr_metrics = metrics\<rparr>"

section \<open>Reading the journal\<close>

definition OK_SEND_STATUSES :: "intent_status set" where
  "OK_SEND_STATUSES = {S_ACKED, S_FILLED}"

definition max_latency_ms :: "string \<Rightarrow> journal_event list \<Rightarrow> fl res" where
  "max_latency_ms run es = rfold (\<lambda>e peak.
     if ev_run e \<noteq> run \<or> ev_kind e \<noteq> K_RESULT then Inr peak
     else rbind (try_float (pget_default (ev_payload e) ''latency_ms'' (JFloat (Fin 0)))) (\<lambda>r.
       Inr (case r of None \<Rightarrow> peak | Some x \<Rightarrow> if f_lt peak x then x else peak))) es (Fin 0)"

definition send_class :: "intent_state option \<Rightarrow> string" where
  "send_class v = (case v of
     None \<Rightarrow> ''n_not_sent''
   | Some st \<Rightarrow>
       if st_status st \<in> OK_SEND_STATUSES then ''n_acked''
       else if st_status st = S_REJECTED then ''n_rejected''
       else if st_status st = S_UNKNOWN then ''n_unknown''
       else if st_status st = S_SKIPPED then ''n_skipped''
       else ''n_not_sent'')"

definition entry_counts :: "(string \<times> intent_state) list \<Rightarrow> string list \<Rightarrow> string \<Rightarrow> int" where
  "entry_counts sts ids key = int (length (filter (\<lambda>i. send_class (map_of sts i) = key) ids))"

definition in_scope :: "string \<Rightarrow> order_phase \<Rightarrow> journal_event \<Rightarrow> bool" where
  "in_scope date_str ph e \<longleftrightarrow> pget (ev_payload e) ''trading_date'' = JStr date_str
     \<and> pget (ev_payload e) ''phase'' = JStr (phase_value ph)"

definition stored_ids :: "string \<Rightarrow> journal_event list \<Rightarrow> string list" where
  "stored_ids date_str es = fold (\<lambda>e ids. if ev_id e \<in> set ids then ids else ids @ [ev_id e])
     (filter (\<lambda>e. ev_kind e = K_INTENT \<and> in_scope date_str ENTRY e) es) []"

definition stored_entry_intents :: "string \<Rightarrow> ('w, order_intent list) gw" where
  "stored_entry_intents date_str = bnd read_events (\<lambda>es. bnd read_states (\<lambda>sts.
     ret (List.map_filter (\<lambda>i. case map_of sts i of None \<Rightarrow> None | Some st \<Rightarrow> st_intent st)
       (stored_ids date_str es))))"

definition has_entry_history :: "string \<Rightarrow> ('w, bool) gw" where
  "has_entry_history date_str = bnd read_events (\<lambda>es.
     ret (list_ex (\<lambda>e. ev_kind e \<in> {K_INTENT, K_SKIP} \<and> in_scope date_str ENTRY e) es))"

definition planned_skip_count :: "string \<Rightarrow> order_phase \<Rightarrow> ('w, int) gw" where
  "planned_skip_count date_str ph = bnd read_states (\<lambda>sts. bnd read_events (\<lambda>es.
     bnd (lift_res (\<lambda>_. rfold (\<lambda>e ids.
       if ev_kind e \<noteq> K_SKIP \<or> \<not> in_scope date_str ph e then Inr ids
       else (case map_of sts (ev_id e) of
         None \<Rightarrow> Inl KeyError
       | Some st \<Rightarrow> Inr (if st_intent st = None then List.insert (ev_id e) ids else ids))) es []))
     (\<lambda>ids. ret (int (length ids)))))"

definition n_unknown_unresolved :: "(string \<times> intent_state) list \<Rightarrow> int" where
  "n_unknown_unresolved sts = int (length (filter (\<lambda>(k, st). st_intent st \<noteq> None \<and> st_status st = S_UNKNOWN) sts))"

definition in_phase :: "string \<Rightarrow> order_phase \<Rightarrow> intent_state \<Rightarrow> bool" where
  "in_phase date_str ph st = (case st_intent st of None \<Rightarrow> False
     | Some i \<Rightarrow> phase i = ph \<and> order_intent.trading_date i = date_str)"

definition scope_intents :: "string \<Rightarrow> order_phase \<Rightarrow> (string \<times> intent_state) list \<Rightarrow> string list" where
  "scope_intents date_str ph sts = map fst (filter (\<lambda>(k, st). in_phase date_str ph st) sts)"

definition has_working_orders :: "string \<Rightarrow> (string \<times> intent_state) list \<Rightarrow> bool" where
  "has_working_orders date_str sts = list_ex (\<lambda>(k, st). state_date st = Some date_str
     \<and> st_order_no st \<noteq> None \<and> \<not> st_final st) sts"

definition all_final :: "string \<Rightarrow> order_phase \<Rightarrow> (string \<times> intent_state) list \<Rightarrow> bool" where
  "all_final date_str ph sts = (let relevant = filter (\<lambda>(k, st). in_phase date_str ph st) sts in
     if relevant = [] then \<not> has_working_orders date_str sts else list_all (\<lambda>(k, st). st_final st) relevant)"

section \<open>The entry run\<close>

text \<open>\<open>_finish_entry_report\<close>\<close>

definition planned_notional :: "(string \<times> intent_state) list \<Rightarrow> string list \<Rightarrow> int" where
  "planned_notional sts ids = sum_list (map (\<lambda>k. case map_of sts k of
       None \<Rightarrow> 0
     | Some st \<Rightarrow> (case st_intent st of
         None \<Rightarrow> 0
       | Some i \<Rightarrow> (case int_price (limit_price i) of
           None \<Rightarrow> 0 | Some p \<Rightarrow> if st_status st \<noteq> S_SKIPPED then qty i * p else 0))) ids)"

definition entry_ok :: "(string \<times> intent_state) list \<Rightarrow> string list \<Rightarrow> int \<Rightarrow> bool" where
  "entry_ok sts ids n_skipped \<longleftrightarrow> ids \<noteq> [] \<and> n_skipped = 0
     \<and> list_all (\<lambda>k. case map_of sts k of None \<Rightarrow> False | Some st \<Rightarrow> st_status st \<in> OK_SEND_STATUSES) ids"

record entry_times =
  et_ready_at :: int
  et_first :: int
  et_last :: int
  et_deadline :: int

definition finish_entry_report ::
    "'w session_env \<Rightarrow> string \<Rightarrow> string \<Rightarrow> string \<Rightarrow> string list \<Rightarrow> int \<Rightarrow> int \<Rightarrow> int \<Rightarrow> entry_times \<Rightarrow>
     string option \<Rightarrow> ('w, session_report) gw" where
  "finish_entry_report X run env date_str ids n_picks n_skipped capital tm post_send =
     bnd read_states (\<lambda>sts.
     bnd read_events (\<lambda>es.
     bnd (lift_res (\<lambda>_. max_latency_ms run es)) (\<lambda>latency.
     let metrics =
       [(''env'', JStr env), (''n_picks'', JInt n_picks),
        (''n_acked'', JInt (entry_counts sts ids ''n_acked'')),
        (''n_rejected'', JInt (entry_counts sts ids ''n_rejected'')),
        (''n_unknown'', JInt (entry_counts sts ids ''n_unknown'')),
        (''n_not_sent'', JInt (entry_counts sts ids ''n_not_sent'')),
        (''n_skipped'', JInt (n_skipped + entry_counts sts ids ''n_skipped'')),
        (''n_unknown_unresolved_total'', JInt (n_unknown_unresolved sts)),
        (''capital_krw'', JInt capital),
        (''planned_notional_krw'', JInt (planned_notional sts ids)),
        (''decided_to_first_send_s'', JFloat (se_timedelta_seconds X (et_first tm - et_ready_at tm))),
        (''last_send_seconds_before_deadline'', JFloat (total_seconds (et_deadline tm - to_us (et_last tm)))),
        (''max_latency_ms'', JFloat latency)]
       @ (case post_send of None \<Rightarrow> [] | Some p \<Rightarrow> [(''post_send_reconcile'', JStr p)])
     in ret (if entry_ok sts ids n_skipped
             then make_report ''entry'' date_str RUN_OUTCOME_OK ''entry_complete'' metrics
             else make_report ''entry'' date_str RUN_OUTCOME_DEGRADED ''entry_incomplete'' metrics))))"

text \<open>The post-send reconcile: a \<open>BrokerReadError\<close> is reported, not raised.\<close>

definition post_send_reconcile :: "'w session_env \<Rightarrow> string \<Rightarrow> string \<Rightarrow> ('w, string option) gw" where
  "post_send_reconcile X run date_str = catch_only BrokerReadError
     (bnd (reconcile (gateway_port X) run date_str False) (\<lambda>_. ret None)) (ret (Some ''unreadable''))"

definition submit_all :: "'w session_env \<Rightarrow> string \<Rightarrow> int \<Rightarrow> string list \<Rightarrow> ('w, unit) gw" where
  "submit_all X run deadline ids = for_each ids (\<lambda>k.
     bnd (submit (gateway_port X) (session_limits X) run k deadline) (\<lambda>_. ret ()))"

definition submit_stored_entry ::
    "'w session_env \<Rightarrow> string \<Rightarrow> string \<Rightarrow> string \<Rightarrow> order_intent list \<Rightarrow> ('w, session_report) gw" where
  "submit_stored_entry X run env date_str stored =
     bnd (lift_res (\<lambda>_. kst_deadline date_str ORDER_ENTRY_SUBMIT_DEADLINE_HHMMSS)) (\<lambda>deadline.
     bnd (now_of X) (\<lambda>ready_at.
     bnd (now_of X) (\<lambda>t_first.
     bnd (submit_all X run deadline (map intent_id stored)) (\<lambda>_.
     bnd (now_of X) (\<lambda>t_last.
     bnd (if stored \<noteq> [] then post_send_reconcile X run date_str else ret None) (\<lambda>post_send.
     bnd (planned_skip_count date_str ENTRY) (\<lambda>n_plan_skips.
     let total = sum_list (map (\<lambda>i. case int_price (limit_price i) of None \<Rightarrow> 0 | Some p \<Rightarrow> qty i * p) stored)
     in finish_entry_report X run env date_str (map intent_id stored) (int (length stored) + n_plan_skips)
          n_plan_skips total
          \<lparr>et_ready_at = ready_at, et_first = t_first, et_last = t_last, et_deadline = deadline\<rparr> post_send)))))))"

text \<open>Waiting for a decision; \<open>None\<close> when the wait ended without one.\<close>

fun await_decision :: "'w session_env \<Rightarrow> civil \<Rightarrow> nat \<Rightarrow> ('w, decision_frame option) gw" where
  "await_decision X d 0 = throw NotReturned"
| "await_decision X d (Suc fuel) =
     bnd (broker_call (se_decide X d)) (\<lambda>frame.
     if \<not> frame_empty frame then ret (Some frame)
     else bnd (now_of X) (\<lambda>now.
       if ORDER_ENTRY_DECISION_WAIT_DEADLINE_HHMMSS \<le> hhmmss now then ret None
       else bnd (sleep_for X ORDER_DECISION_POLL_SECONDS) (\<lambda>_. await_decision X d fuel)))"

definition entry_skip :: "string \<Rightarrow> string \<Rightarrow> string \<Rightarrow> planned_skip" where
  "entry_skip date_str sy reason = \<lparr>ps_intent_id = entry_intent_id date_str sy, ps_symbol = sy,
     ps_trading_date = date_str, ps_phase = ENTRY, ps_reason = reason\<rparr>"

text \<open>The limit price of one pick; an unreadable or unusable price is a skip.\<close>

definition price_pick ::
    "'w session_env \<Rightarrow> string \<Rightarrow> decision_pick \<Rightarrow> entry_pick list \<times> planned_skip list \<Rightarrow>
     ('w, entry_pick list \<times> planned_skip list) gw" where
  "price_pick X date_str p acc = (case acc of (priced, skips) \<Rightarrow>
     let unusable = ret (priced, skips @ [entry_skip date_str (dp_symbol p) ''no_price_limits'']) in
     catch_only BrokerReadError (catch_only ValueError
       (bnd (broker_call (sb_price_limits (gateway_port X) (dp_symbol p))) (\<lambda>limits.
        bnd (lift_res (\<lambda>_. entry_limit_price (dp_close p) (ORDER_ENTRY_LIMIT_BUFFER_BP (se_settings X)) (pl_upper limits)))
          (\<lambda>price. ret (priced @ [\<lparr>ep_symbol = dp_symbol p, ep_allocation = dp_allocation p, ep_pred = dp_pred p,
             ep_decision_price = dp_close p, ep_limit_price = price\<rparr>], skips))))
       unusable) unusable)"

definition entry_order :: "string \<Rightarrow> entry_pick \<Rightarrow> int \<Rightarrow> order_intent" where
  "entry_order date_str c q = \<lparr>intent_id = entry_intent_id date_str (ep_symbol c), trading_date = date_str,
     phase = ENTRY, symbol = ep_symbol c, side = BUY, order_type = LIMIT, qty = q,
     limit_price = JInt (ep_limit_price c), decision_price = JInt (ep_decision_price c),
     parent_intent_id = JNull\<rparr>"

text \<open>Every priced pick becomes an order, or a skip when its quantity is zero.\<close>

definition entry_step ::
    "string \<Rightarrow> (string \<times> int) list \<Rightarrow> entry_pick \<Rightarrow> order_intent list \<times> planned_skip list \<Rightarrow>
     (order_intent list \<times> planned_skip list) res" where
  "entry_step date_str quantities c acc = (case acc of (intents, skips) \<Rightarrow>
     let q = dget 0 quantities (ep_symbol c) in
     if q \<le> 0 then Inr (intents, skips @ [entry_skip date_str (ep_symbol c) ''zero_qty''])
     else rbind (make_intent (entry_order date_str c q)) (\<lambda>i. Inr (intents @ [i], skips)))"

definition entry_orders ::
    "string \<Rightarrow> (string \<times> int) list \<Rightarrow> entry_pick list \<Rightarrow> planned_skip list \<Rightarrow>
     (order_intent list \<times> planned_skip list) res" where
  "entry_orders date_str quantities priced skips = rfold (entry_step date_str quantities) priced ([], skips)"

record entry_sent =
  es_ids :: "string list"
  es_n_skips :: int
  es_capital :: int
  es_times :: entry_times
  es_post_send :: "string option"

text \<open>The part of the entry run under the journal's lock: an early report, or what was sent.\<close>

definition entry_locked ::
    "'w session_env \<Rightarrow> string \<Rightarrow> string \<Rightarrow> string \<Rightarrow> decision_pick list \<Rightarrow> int \<Rightarrow> int \<Rightarrow>
     ('w, session_report + entry_sent) gw" where
  "entry_locked X run env date_str picks ready_at deadline =
     bnd (has_entry_history date_str) (\<lambda>history.
     if history then
       bnd (stored_entry_intents date_str) (\<lambda>stored.
       bnd (submit_stored_entry X run env date_str stored) (\<lambda>r. ret (Inl r)))
     else bnd (is_halted (gateway_port X)) (\<lambda>halted.
     if halted then
       let skips = map (\<lambda>p. entry_skip date_str (dp_symbol p) ''halted'') picks in
       bnd (plan (gateway_port X) run [] skips) (\<lambda>_.
       bnd (now_of X) (\<lambda>moment.
       bnd (finish_entry_report X run env date_str [] (int (length picks)) (int (length skips)) 0
           \<lparr>et_ready_at = ready_at, et_first = moment, et_last = moment, et_deadline = deadline\<rparr> None) (\<lambda>r.
         ret (Inl r))))
     else
       let unreadable = make_report ''entry'' date_str RUN_OUTCOME_DEGRADED ''orderable_cash_unreadable''
             [(''env'', JStr env), (''n_picks'', JInt (int (length picks)))];
           top = hd picks in
       bnd (catch_only BrokerReadError
           (bnd (broker_call (sb_ensure_token (gateway_port X))) (\<lambda>_.
            bnd (broker_call (sb_orderable_cash (gateway_port X) (dp_symbol top) (dp_close top))) (\<lambda>cash. ret (Some cash))))
           (ret None)) (\<lambda>cash_read. case cash_read of
         None \<Rightarrow> ret (Inl unreadable)
       | Some cash \<Rightarrow>
           let capital = min (ORDER_SEED_CAPITAL (se_settings X)) cash in
           bnd (fold_eff picks (price_pick X date_str) ([], [])) (\<lambda>(priced, skips0).
           bnd (lift_res (\<lambda>_. size_entry_orders priced capital (ORDER_MAX_NOTIONAL_PER_ORDER_KRW (se_settings X)))) (\<lambda>quantities.
           bnd (lift_res (\<lambda>_. entry_orders date_str quantities priced skips0)) (\<lambda>(intents, skips).
           bnd (plan (gateway_port X) run intents skips) (\<lambda>_.
           bnd (now_of X) (\<lambda>t_first.
           bnd (submit_all X run deadline (map intent_id intents)) (\<lambda>_.
           bnd (now_of X) (\<lambda>t_last.
           bnd (post_send_reconcile X run date_str) (\<lambda>post_send.
             ret (Inr \<lparr>es_ids = map intent_id intents, es_n_skips = int (length skips), es_capital = capital,
               es_times = \<lparr>et_ready_at = ready_at, et_first = t_first, et_last = t_last, et_deadline = deadline\<rparr>,
               es_post_send = post_send\<rparr>))))))))))))"

definition run_entry ::
    "'w session_env \<Rightarrow> nat \<Rightarrow> string \<Rightarrow> string \<Rightarrow> civil \<Rightarrow> ('w, session_report) gw" where
  "run_entry X fuel run env d =
     (let date_str = iso_str d in
     bnd (now_of X) (\<lambda>now.
     if hhmmss now < ORDER_ENTRY_EARLIEST_HHMMSS then
       ret (make_report ''entry'' date_str RUN_OUTCOME_SKIPPED ''before_window'' [(''env'', JStr env)])
     else if ORDER_ENTRY_SUBMIT_DEADLINE_HHMMSS \<le> hhmmss now then
       ret (make_report ''entry'' date_str RUN_OUTCOME_DEGRADED ''entry_window_expired'' [(''env'', JStr env)])
     else
       bnd new_gateway (\<lambda>_.
       bnd (exclusive (gateway_port X) (bnd (has_entry_history date_str) (\<lambda>history.
           if history then bnd (stored_entry_intents date_str) (\<lambda>stored.
             bnd (submit_stored_entry X run env date_str stored) (\<lambda>r. ret (Some r)))
           else ret None))) (\<lambda>early. case early of
         Some r \<Rightarrow> ret r
       | None \<Rightarrow>
           bnd (await_decision X d fuel) (\<lambda>decision. case decision of
             None \<Rightarrow> ret (make_report ''entry'' date_str RUN_OUTCOME_SKIPPED ''no_persisted_decision'' [(''env'', JStr env)])
           | Some frame \<Rightarrow>
               bnd (now_of X) (\<lambda>ready_at.
               bnd (now_of X) (\<lambda>now.
               bnd (lift_res (\<lambda>_. validate_decision frame date_str now (ORDER_MAX_SENDS_PER_RUN (se_settings X)))) (\<lambda>checked.
               case checked of
                 Inl rule \<Rightarrow> ret (make_report ''entry'' date_str RUN_OUTCOME_DEGRADED rule
                   [(''env'', JStr env), (''n_picks'', JInt (int (length (df_rows frame))))])
               | Inr picks \<Rightarrow>
                   bnd (lift_res (\<lambda>_. kst_deadline date_str ORDER_ENTRY_SUBMIT_DEADLINE_HHMMSS)) (\<lambda>deadline.
                   bnd (exclusive (gateway_port X) (entry_locked X run env date_str picks ready_at deadline)) (\<lambda>outcome.
                   case outcome of
                     Inl r \<Rightarrow> ret r
                   | Inr placed \<Rightarrow> finish_entry_report X run env date_str (es_ids placed) (int (length picks))
                       (es_n_skips placed) (es_capital placed) (es_times placed) (es_post_send placed)))))))))))"

section \<open>The exit run\<close>

definition prior_lots :: "string \<Rightarrow> ('w, open_lot list) gw" where
  "prior_lots date_str = bnd (lift_res (\<lambda>s. open_lots (j_lines s))) (\<lambda>lots.
     ret (filter (\<lambda>l. ol_trading_date l < date_str) lots))"

definition has_prior_unknown :: "string \<Rightarrow> (string \<times> intent_state) list \<Rightarrow> bool" where
  "has_prior_unknown date_str sts = list_ex (\<lambda>(k, st). case st_intent st of None \<Rightarrow> False
     | Some i \<Rightarrow> st_status st = S_UNKNOWN \<and> order_intent.trading_date i < date_str) sts"

definition exit_carryover :: "'w session_env \<Rightarrow> string \<Rightarrow> string \<Rightarrow> ('w, int) gw" where
  "exit_carryover X run date_str = bnd read_states (\<lambda>sts.
     if \<not> has_prior_unknown date_str sts then ret 0
     else catch_only BrokerReadError
       (bnd (broker_call (sb_ensure_token (gateway_port X))) (\<lambda>_.
        resolve_carryover (gateway_port X) (session_limits X) run date_str)) (ret 0))"

definition exit_skip :: "string \<Rightarrow> open_lot \<Rightarrow> string \<Rightarrow> planned_skip" where
  "exit_skip date_str l reason = \<lparr>ps_intent_id = exit_intent_id (ol_entry_intent_id l) date_str,
     ps_symbol = ol_symbol l, ps_trading_date = date_str, ps_phase = EXIT, ps_reason = reason\<rparr>"

definition exit_order :: "string \<Rightarrow> open_lot \<Rightarrow> int \<Rightarrow> order_intent" where
  "exit_order date_str l q = \<lparr>intent_id = exit_intent_id (ol_entry_intent_id l) date_str,
     trading_date = date_str, phase = EXIT, symbol = ol_symbol l, side = SELL, order_type = MARKET,
     qty = q, limit_price = JNull, decision_price = JNull, parent_intent_id = JStr (ol_entry_intent_id l)\<rparr>"

definition sellable_by_symbol :: "broker_position list \<Rightarrow> (string \<times> int) list" where
  "sellable_by_symbol ps = fold (\<lambda>p d. dset (bp_symbol p) (bp_sellable_qty p) d) ps []"

text \<open>The sells of the lots, oldest first, out of what the broker says is sellable.\<close>

fun exit_orders ::
    "string \<Rightarrow> (string \<times> int) list \<Rightarrow> open_lot list \<Rightarrow> (order_intent list \<times> planned_skip list) res" where
  "exit_orders date_str sellable [] = Inr ([], [])"
| "exit_orders date_str sellable (l # ls) =
     (let available = dget 0 sellable (ol_symbol l);
          q = min (ol_qty l) available;
          sellable' = dset (ol_symbol l) (available - q) sellable
      in if q \<le> 0 then rbind (exit_orders date_str sellable' ls) (\<lambda>(intents, skips).
           Inr (intents, exit_skip date_str l ''not_sellable'' # skips))
         else rbind (make_intent (exit_order date_str l q)) (\<lambda>i.
           rbind (exit_orders date_str sellable' ls) (\<lambda>(intents, skips). Inr (i # intents, skips))))"

text \<open>\<open>_finish_exit_report\<close>; the quantity sold per parent intent.\<close>

definition sold_by_parent :: "(string \<times> intent_state) list \<Rightarrow> string list \<Rightarrow> (jval \<times> int) list" where
  "sold_by_parent sts ids = fold (\<lambda>k d. case map_of sts k of
       None \<Rightarrow> d
     | Some st \<Rightarrow> (case st_intent st of
         None \<Rightarrow> d
       | Some i \<Rightarrow>
           if parent_intent_id i = JNull then d
           else dset (parent_intent_id i)
             (if st_status st \<in> OK_SEND_STATUSES then qty i else st_filled_qty st) d)) ids []"

definition exit_shortfall :: "(string \<times> intent_state) list \<Rightarrow> string list \<Rightarrow> open_lot list \<Rightarrow> int" where
  "exit_shortfall sts ids lots =
     sum_list (map (\<lambda>l. ol_qty l - dget 0 (sold_by_parent sts ids) (JStr (ol_entry_intent_id l))) lots)"

definition finish_exit_report ::
    "string \<Rightarrow> string \<Rightarrow> string \<Rightarrow> open_lot list \<Rightarrow> string list \<Rightarrow> int \<Rightarrow> int \<Rightarrow> int \<Rightarrow> int \<Rightarrow>
     ('w, session_report) gw" where
  "finish_exit_report run env date_str lots ids n_skipped t_last deadline n_carryover =
     bnd read_states (\<lambda>sts.
     bnd read_events (\<lambda>es.
     bnd (lift_res (\<lambda>_. max_latency_ms run es)) (\<lambda>latency.
     let short = exit_shortfall sts ids lots; counts = entry_counts sts ids;
       metrics =
         [(''env'', JStr env), (''n_lots'', JInt (int (length lots))),
          (''n_acked'', JInt (counts ''n_acked'')), (''n_rejected'', JInt (counts ''n_rejected'')),
          (''n_unknown'', JInt (counts ''n_unknown'')), (''n_skipped'', JInt n_skipped),
          (''n_carryover_adopted'', JInt n_carryover),
          (''n_unknown_unresolved_total'', JInt (n_unknown_unresolved sts)),
          (''shortfall_qty'', JInt short), (''max_latency_ms'', JFloat latency),
          (''last_send_seconds_before_deadline'', JFloat (total_seconds (deadline - to_us t_last)))]
     in ret (if short = 0 \<and> counts ''n_rejected'' = 0 \<and> counts ''n_unknown'' = 0 \<and> counts ''n_not_sent'' = 0
             then make_report ''exit'' date_str RUN_OUTCOME_OK ''exit_complete'' metrics
             else make_report ''exit'' date_str RUN_OUTCOME_DEGRADED ''exit_incomplete'' metrics))))"

text \<open>Lots are net of today's sells; adding those back gives the planned size.\<close>

definition filled_today :: "(string \<times> intent_state) list \<Rightarrow> order_intent list \<Rightarrow> (string \<times> int) list res" where
  "filled_today sts existing = rfold (\<lambda>i d. case map_of sts (intent_id i) of
       None \<Rightarrow> Inl KeyError
     | Some st \<Rightarrow> let parent = py_str (parent_intent_id i) in
         Inr (dset parent (dget 0 d parent + st_filled_qty st) d)) existing []"

definition add_filled :: "(string \<times> int) list \<Rightarrow> open_lot \<Rightarrow> open_lot" where
  "add_filled d l = l\<lparr>ol_qty := ol_qty l + dget 0 d (ol_entry_intent_id l)\<rparr>"

definition resume_exit ::
    "'w session_env \<Rightarrow> string \<Rightarrow> string \<Rightarrow> string \<Rightarrow> open_lot list \<Rightarrow> (string \<times> intent_state) list \<Rightarrow>
     order_intent list \<Rightarrow> int \<Rightarrow> int \<Rightarrow> ('w, session_report) gw" where
  "resume_exit X run env date_str lots sts existing deadline n_carryover =
     bnd (submit_all X run deadline (map intent_id existing)) (\<lambda>_.
     bnd (now_of X) (\<lambda>t_last.
     bnd (lift_res (\<lambda>_. filled_today sts existing)) (\<lambda>filled.
     bnd (planned_skip_count date_str EXIT) (\<lambda>n_skips.
       finish_exit_report run env date_str (map (add_filled filled) lots) (map intent_id existing)
         n_skips t_last deadline n_carryover))))"

definition add_post_send :: "string option \<Rightarrow> session_report \<Rightarrow> session_report" where
  "add_post_send post_send r = (case post_send of None \<Rightarrow> r
     | Some p \<Rightarrow> r\<lparr>sr_metrics := dset ''post_send_reconcile'' (JStr p) (sr_metrics r)\<rparr>)"

definition exit_locked ::
    "'w session_env \<Rightarrow> string \<Rightarrow> string \<Rightarrow> string \<Rightarrow> int \<Rightarrow> int option \<Rightarrow> ('w, session_report) gw" where
  "exit_locked X run env date_str deadline carried =
     bnd (case carried of Some n \<Rightarrow> ret n | None \<Rightarrow> exit_carryover X run date_str) (\<lambda>n_carryover.
     bnd (bnd (prior_lots date_str) (\<lambda>lots.
       ret (sort_key (\<lambda>l. (ol_trading_date l, ol_entry_intent_id l)) lots))) (\<lambda>lots.
     bnd read_states (\<lambda>sts.
     let existing = List.map_filter (\<lambda>(k, st). if in_phase date_str EXIT st then st_intent st else None) sts in
     if existing \<noteq> [] then resume_exit X run env date_str lots sts existing deadline n_carryover
     else bnd (is_halted (gateway_port X)) (\<lambda>halted.
     if halted then
       let skips = map (\<lambda>l. exit_skip date_str l ''halted'') lots in
       bnd (plan (gateway_port X) run [] skips) (\<lambda>_.
       bnd (now_of X) (\<lambda>t_last.
         finish_exit_report run env date_str lots [] (int (length skips)) t_last deadline n_carryover))
     else
       bnd (catch_only BrokerReadError
           (bnd (broker_call (sb_ensure_token (gateway_port X))) (\<lambda>_.
            bnd (broker_call (b_positions (gateway_port X))) (\<lambda>ps. ret (Some ps))))
           (ret None)) (\<lambda>positions. case positions of
         None \<Rightarrow> ret (make_report ''exit'' date_str RUN_OUTCOME_DEGRADED ''positions_unreadable''
           [(''env'', JStr env), (''n_lots'', JInt (int (length lots)))])
       | Some ps \<Rightarrow>
           bnd (lift_res (\<lambda>_. exit_orders date_str (sellable_by_symbol ps) lots)) (\<lambda>(intents, skips).
           bnd (plan (gateway_port X) run intents skips) (\<lambda>_.
           bnd (submit_all X run deadline (map intent_id intents)) (\<lambda>_.
           bnd (now_of X) (\<lambda>t_last.
           bnd (post_send_reconcile X run date_str) (\<lambda>post_send.
           bnd (finish_exit_report run env date_str lots (map intent_id intents) (int (length skips)) t_last deadline n_carryover)
             (\<lambda>r. ret (add_post_send post_send r))))))))))))"

definition or_zero :: "int option \<Rightarrow> int" where
  "or_zero v = (case v of None \<Rightarrow> 0 | Some n \<Rightarrow> n)"

text \<open>The end of the exit run, once there are lots and the clock is past the earliest time.\<close>

definition exit_in_window ::
    "'w session_env \<Rightarrow> string \<Rightarrow> string \<Rightarrow> string \<Rightarrow> open_lot list \<Rightarrow> int option \<Rightarrow> int \<Rightarrow> ('w, session_report) gw" where
  "exit_in_window X run env date_str lots carried now =
     (if ORDER_EXIT_SUBMIT_DEADLINE_HHMMSS \<le> hhmmss now then
       ret (make_report ''exit'' date_str RUN_OUTCOME_DEGRADED ''exit_window_expired''
         [(''env'', JStr env), (''n_lots'', JInt (int (length lots))), (''n_carryover_adopted'', JInt (or_zero carried))])
      else bnd (lift_res (\<lambda>_. kst_deadline date_str ORDER_EXIT_SUBMIT_DEADLINE_HHMMSS)) (\<lambda>deadline.
        exclusive (gateway_port X) (exit_locked X run env date_str deadline carried)))"

definition run_exit :: "'w session_env \<Rightarrow> string \<Rightarrow> string \<Rightarrow> string \<Rightarrow> ('w, session_report) gw" where
  "run_exit X run env date_str =
     bnd new_gateway (\<lambda>_.
     bnd (prior_lots date_str) (\<lambda>lots0.
     bnd (if lots0 \<noteq> [] then ret (lots0, None)
          else bnd (exclusive (gateway_port X) (exit_carryover X run date_str)) (\<lambda>n.
            bnd (prior_lots date_str) (\<lambda>lots. ret (lots, Some n)))) (\<lambda>(lots, carried).
     if lots = [] then
       ret (make_report ''exit'' date_str RUN_OUTCOME_SKIPPED ''no_open_positions''
         [(''env'', JStr env), (''n_carryover_adopted'', jopt_int carried)])
     else bnd (now_of X) (\<lambda>now.
     if hhmmss now < ORDER_EXIT_EARLIEST_HHMMSS then
       bnd (lift_res (\<lambda>_. kst_deadline date_str ORDER_EXIT_EARLIEST_HHMMSS)) (\<lambda>earliest.
       let gap = total_seconds (earliest - to_us now) in
       if f_lt ORDER_MAX_PRESTART_WAIT_SECONDS gap then
         ret (make_report ''exit'' date_str RUN_OUTCOME_SKIPPED ''before_window''
           [(''env'', JStr env), (''n_lots'', JInt (int (length lots)))])
       else bnd (sleep_for X (if f_lt (Fin 0) gap then gap else Fin 0)) (\<lambda>_.
         bnd (now_of X) (\<lambda>now'.
         bnd (prior_lots date_str) (\<lambda>lots'.
         if lots' = [] then
           ret (make_report ''exit'' date_str RUN_OUTCOME_SKIPPED ''no_open_positions''
             [(''env'', JStr env), (''n_carryover_adopted'', JInt (or_zero carried))])
         else exit_in_window X run env date_str lots' carried now'))))
     else exit_in_window X run env date_str lots carried now))))"

section \<open>The reconcile run\<close>

text \<open>One round: the carry-over count it adds, and the report unless a read failed.\<close>

definition reconcile_round ::
    "'w session_env \<Rightarrow> string \<Rightarrow> string \<Rightarrow> bool \<Rightarrow> ('w, int \<times> reconcile_report option) gw" where
  "reconcile_round X run date_str finalize = catch_only BrokerReadError
     (bnd (broker_call (sb_ensure_token (gateway_port X))) (\<lambda>_.
      exclusive (gateway_port X)
        (bnd (resolve_carryover (gateway_port X) (session_limits X) run date_str) (\<lambda>n.
         catch_only BrokerReadError
           (bnd (reconcile (gateway_port X) run date_str finalize) (\<lambda>r. ret (n, Some r)))
           (ret (n, None))))))
     (ret (0, None))"

record poll_acc =
  pa_report :: "reconcile_report option"
  pa_failed :: bool
  pa_carryover :: int

fun reconcile_polls ::
    "'w session_env \<Rightarrow> string \<Rightarrow> string \<Rightarrow> order_phase \<Rightarrow> bool \<Rightarrow> string \<Rightarrow> nat \<Rightarrow> poll_acc \<Rightarrow> ('w, poll_acc) gw" where
  "reconcile_polls X run date_str scope backdated deadline 0 acc = throw NotReturned"
| "reconcile_polls X run date_str scope backdated deadline (Suc fuel) acc =
     bnd (now_of X) (\<lambda>now.
     let past_deadline = (backdated \<or> deadline \<le> hhmmss now);
         finalize = (backdated \<or> (scope = ENTRY \<and> past_deadline)) in
     bnd (reconcile_round X run date_str finalize) (\<lambda>(n, outcome).
     let acc' = acc\<lparr>pa_report := (if outcome = None then pa_report acc else outcome),
           pa_failed := (outcome = None), pa_carryover := pa_carryover acc + n\<rparr> in
     bnd (if outcome = None then ret False
          else bnd read_states (\<lambda>sts. ret (all_final date_str scope sts))) (\<lambda>finished.
     if finished \<or> past_deadline then ret acc'
     else bnd (sleep_for X ORDER_RECONCILE_POLL_SECONDS) (\<lambda>_.
       reconcile_polls X run date_str scope backdated deadline fuel acc'))))"

definition triples_json :: "(string \<times> int \<times> int) list \<Rightarrow> jval" where
  "triples_json ts = JList (map (\<lambda>(s, a, b). JList [JStr s, JInt a, JInt b]) ts)"

definition fill_vs_decision_bp :: "intent_state list \<Rightarrow> fl option" where
  "fill_vs_decision_bp relevant =
     (let filled = sum_list (map st_filled_qty relevant);
          basis = sum_list (map (\<lambda>st. case st_intent st of None \<Rightarrow> 0
            | Some i \<Rightarrow> st_filled_qty st * (case int_price (decision_price i) of None \<Rightarrow> 0 | Some p \<Rightarrow> p)) relevant)
      in if 0 < filled \<and> 0 < basis then
           Some (f_mul (f_add (Fin (rnd64 (of_int (sum_list (map st_filled_amount_krw relevant)) / of_int basis))) (Fin (- 1))) (Fin 10000))
         else None)"

definition reconcile_complete :: "reconcile_report \<Rightarrow> intent_state list \<Rightarrow> bool" where
  "reconcile_complete r relevant \<longleftrightarrow> list_all (\<lambda>st. st_status st = S_FILLED) relevant \<and> rr_n_unknown r = 0
     \<and> rr_n_missing_at_broker r = 0 \<and> rr_position_shortfalls r = [] \<and> rr_n_unknown_unresolved_total r = 0"

definition incomplete_reason :: "order_phase \<Rightarrow> reconcile_report \<Rightarrow> string" where
  "incomplete_reason scope r =
     (if rr_unknown_exposures r \<noteq> [] then ''unknown_exposure''
      else if 0 < rr_n_unknown r then ''unknown_orders''
      else if 0 < rr_n_missing_at_broker r then ''missing_at_broker''
      else if rr_position_shortfalls r \<noteq> [] then ''position_shortfall''
      else if scope = EXIT \<and> 0 < rr_n_working r then ''exit_working''
      else ''partial_or_unfilled'')"

definition reconcile_metrics ::
    "string \<Rightarrow> order_phase \<Rightarrow> reconcile_report \<Rightarrow> int \<Rightarrow> intent_state list \<Rightarrow> payload" where
  "reconcile_metrics env scope r n_carryover relevant =
     [(''env'', JStr env), (''scope'', JStr (phase_value scope)), (''n_intents'', JInt (rr_n_intents r)),
      (''n_filled'', JInt (rr_n_filled r)), (''n_partial'', JInt (rr_n_partial r)),
      (''n_unfilled'', JInt (rr_n_unfilled r)), (''n_working'', JInt (rr_n_working r)),
      (''n_unknown'', JInt (rr_n_unknown r)), (''n_missing_at_broker'', JInt (rr_n_missing_at_broker r)),
      (''n_foreign_orders'', JInt (rr_n_foreign_orders r)),
      (''position_shortfalls'', triples_json (rr_position_shortfalls r)),
      (''filled_amount_krw'', JInt (rr_filled_amount_krw r)),
      (''n_unknown_unresolved_total'', JInt (rr_n_unknown_unresolved_total r)),
      (''unknown_exposures'', triples_json (rr_unknown_exposures r)),
      (''n_carryover_adopted'', JInt n_carryover)]
     @ (if scope = ENTRY then (case fill_vs_decision_bp relevant of
          None \<Rightarrow> [] | Some bp \<Rightarrow> [(''entry_fill_vs_decision_bp'', JFloat bp)]) else [])"

definition finish_reconcile ::
    "string \<Rightarrow> string \<Rightarrow> string \<Rightarrow> order_phase \<Rightarrow> poll_acc \<Rightarrow> ('w, session_report) gw" where
  "finish_reconcile ph env date_str scope acc = (case pa_report acc of
     Some r \<Rightarrow>
       if pa_failed acc then ret (make_report ph date_str RUN_OUTCOME_DEGRADED ''broker_unreadable''
         [(''env'', JStr env), (''scope'', JStr (phase_value scope))])
       else bnd read_states (\<lambda>sts.
         let relevant = map snd (filter (\<lambda>(k, st). in_phase date_str scope st) sts);
             metrics = reconcile_metrics env scope r (pa_carryover acc) relevant
         in ret (if reconcile_complete r relevant
                 then make_report ph date_str RUN_OUTCOME_OK ''reconcile_complete'' metrics
                 else make_report ph date_str RUN_OUTCOME_DEGRADED (incomplete_reason scope r) metrics))
   | None \<Rightarrow> ret (make_report ph date_str RUN_OUTCOME_DEGRADED ''broker_unreadable''
       [(''env'', JStr env), (''scope'', JStr (phase_value scope))]))"

text \<open>The polling once the window is open.\<close>

definition reconcile_in_window ::
    "'w session_env \<Rightarrow> nat \<Rightarrow> string \<Rightarrow> string \<Rightarrow> string \<Rightarrow> string \<Rightarrow> order_phase \<Rightarrow> bool \<Rightarrow> string \<Rightarrow> ('w, session_report) gw" where
  "reconcile_in_window X fuel ph run env date_str scope backdated deadline =
     bnd (if scope = ENTRY then bnd read_states (\<lambda>sts. ret (has_working_orders date_str sts)) else ret False) (\<lambda>sweeps_sells.
     bnd read_states (\<lambda>sts.
     if scope_intents date_str scope sts = [] \<and> \<not> sweeps_sells then
       ret (make_report ph date_str RUN_OUTCOME_SKIPPED ''no_orders''
         [(''env'', JStr env), (''scope'', JStr (phase_value scope))])
     else
       bnd (reconcile_polls X run date_str scope backdated deadline fuel
             \<lparr>pa_report = None, pa_failed = False, pa_carryover = 0\<rparr>) (\<lambda>acc.
         finish_reconcile ph env date_str scope acc)))"

definition run_reconcile ::
    "'w session_env \<Rightarrow> nat \<Rightarrow> string \<Rightarrow> string \<Rightarrow> string \<Rightarrow> string \<Rightarrow> ('w, session_report) gw" where
  "run_reconcile X fuel ph run env date_str =
     (let scope = (if ph = ''reconcile-entry'' then ENTRY else EXIT);
          earliest = (if ph = ''reconcile-entry'' then ORDER_ENTRY_RECONCILE_EARLIEST_HHMMSS else ORDER_EXIT_RECONCILE_EARLIEST_HHMMSS);
          deadline = (if ph = ''reconcile-entry'' then ORDER_ENTRY_RECONCILE_DEADLINE_HHMMSS else ORDER_EXIT_RECONCILE_DEADLINE_HHMMSS)
      in bnd (now_of X) (\<lambda>today.
     let backdated = (date_str \<noteq> iso_str (kst_date today)) in
     bnd new_gateway (\<lambda>_.
     if backdated then reconcile_in_window X fuel ph run env date_str scope backdated deadline
     else bnd (now_of X) (\<lambda>now.
     if hhmmss now < earliest then
       bnd (lift_res (\<lambda>_. kst_deadline date_str earliest)) (\<lambda>start.
       let gap = total_seconds (start - to_us now) in
       if f_lt ORDER_MAX_PRESTART_WAIT_SECONDS gap then
         ret (make_report ph date_str RUN_OUTCOME_SKIPPED ''before_window'' [(''env'', JStr env)])
       else bnd (sleep_for X (if f_lt (Fin 0) gap then gap else Fin 0)) (\<lambda>_.
         reconcile_in_window X fuel ph run env date_str scope backdated deadline))
     else reconcile_in_window X fuel ph run env date_str scope backdated deadline))))"

section \<open>The cancel run and the session\<close>

definition run_cancel :: "'w session_env \<Rightarrow> string \<Rightarrow> string \<Rightarrow> string \<Rightarrow> ('w, session_report) gw" where
  "run_cancel X run env date_str =
     bnd new_gateway (\<lambda>_.
     bnd (broker_call (sb_ensure_token (gateway_port X))) (\<lambda>_.
     bnd (exclusive (gateway_port X)
       (bnd (cancel_working (gateway_port X) run date_str) (\<lambda>accepted.
        bnd (reconcile (gateway_port X) run date_str False) (\<lambda>r. ret (accepted, r))))) (\<lambda>(accepted, r).
     ret (make_report ''cancel'' date_str RUN_OUTCOME_OK ''cancel_complete''
       [(''env'', JStr env), (''n_cancel_accepted'', JInt accepted), (''n_intents'', JInt (rr_n_intents r)),
        (''n_filled'', JInt (rr_n_filled r)), (''n_unknown'', JInt (rr_n_unknown r)),
        (''n_missing_at_broker'', JInt (rr_n_missing_at_broker r))]))))"

definition record_report :: "'w session_env \<Rightarrow> session_report \<Rightarrow> ('w, session_report) gw" where
  "record_report X r = bnd (broker_call (se_record X r)) (\<lambda>_. ret r)"

text \<open>A day without a standard session: an exit with open lots is held, and reported.\<close>

definition gated_report ::
    "'w session_env \<Rightarrow> string \<Rightarrow> string \<Rightarrow> string \<Rightarrow> string \<Rightarrow> ('w, session_report) gw" where
  "gated_report X ph env date_str gate =
     (let skipped = make_report ph date_str RUN_OUTCOME_SKIPPED gate [(''env'', JStr env)] in
      if ph = ''exit'' \<and> gate \<in> {''session_shifted'', ''calendar_unverified''} then
        bnd (prior_lots date_str) (\<lambda>lots.
        if lots \<noteq> [] then record_report X (make_report ph date_str RUN_OUTCOME_DEGRADED
          (if gate = ''session_shifted'' then ''shifted_session_hold'' else ''calendar_unverified_hold'')
          [(''env'', JStr env), (''n_lots'', JInt (int (length lots)))])
        else record_report X skipped)
      else record_report X skipped)"

definition execute_phase ::
    "'w session_env \<Rightarrow> nat \<Rightarrow> string \<Rightarrow> string \<Rightarrow> string \<Rightarrow> civil \<Rightarrow> ('w, session_report) gw" where
  "execute_phase X fuel ph run env d =
     (if ph = ''entry'' then run_entry X fuel run env d
      else if ph = ''exit'' then run_exit X run env (iso_str d)
      else if ph \<in> {''reconcile-entry'', ''reconcile-exit''} then run_reconcile X fuel ph run env (iso_str d)
      else run_cancel X run env (iso_str d))"

definition run_order_session :: "'w session_env \<Rightarrow> nat \<Rightarrow> string \<Rightarrow> civil \<Rightarrow> ('w, session_report) gw" where
  "run_order_session X fuel ph d =
     (let date_str = iso_str d in
      if ph \<notin> set ORDER_PHASES then throw ValueError
      else case se_binding X of
        Inl e \<Rightarrow>
          if e = TradingDisabledError then record_report X
            (make_report ph date_str RUN_OUTCOME_SKIPPED ''trading_disabled'' [(''env'', JStr ''off'')])
          else throw e
      | Inr binding \<Rightarrow>
          let env = env_text binding in
          bnd (world_call (se_store X)) (\<lambda>available.
          if \<not> available then record_report X
            (make_report ph date_str RUN_OUTCOME_DEGRADED ''strategy_store_unavailable'' [(''env'', JStr env)])
          else
            bnd (if ph \<in> {''entry'', ''exit''} then bnd (now_of X) (\<lambda>now. ret (kst_date now = d)) else ret True) (\<lambda>today.
            if \<not> today then throw ValueError
            else bnd (lift_res (\<lambda>_. se_session_day X d)) (\<lambda>day.
              case trading_session_gate day of
                Some gate \<Rightarrow> gated_report X ph env date_str gate
              | None \<Rightarrow>
                  bnd (now_of X) (\<lambda>now.
                  let run = ph @ '':'' @ date_str @ '':'' @ hhmmss now in
                  bnd (execute_phase X fuel ph run env d) (\<lambda>r. record_report X r))))))"

end
