(* ===== verification/Gateway_Limits.thy ===== *)
theory Gateway_Limits
  imports Gateway_Run
begin

text \<open>
  What bounds the broker calls of one \<open>submit\<close>: the HALT file, the statuses that are not
  sendable, the risk limits and the attempt budget.
\<close>

section \<open>Operations that do not call \<open>submit_order\<close>\<close>

abbreviation posted_is :: "(order_intent \<times> submit_verdict) list \<Rightarrow> 'w gateway_state \<Rightarrow> bool" where
  "posted_is ps \<equiv> (\<lambda>s. gw_posted s = ps)"

abbreviation silent :: "('w, 'a) gw \<Rightarrow> bool" where
  "silent m \<equiv> (\<forall>ps. keeps (posted_is ps) m)"

lemma append_silent [keeps_intros]: "keeps (posted_is ps) (journal_append H kind iid p run)"
proof (rule tripleI)
  fix s :: "'a gateway_state" and r s'
  assume p: "gw_posted s = ps" and run: "journal_append H kind iid p run s = (r, s')"
  obtain w where s': "s' = s\<lparr>j_lines := j_lines s', j_world := w\<rparr>"
    using journal_append_run(1) [OF run] by blast
  show "gw_posted s' = ps" using p by (subst s') simp
qed

lemma refuse_silent [keeps_intros]: "keeps (posted_is ps) (refuse B run i iid reason)"
  by (auto simp: refuse_def intro!: keeps_intros)

lemma poll_loop_silent [keeps_intros]: "keeps (posted_is ps) (poll_loop B L run i bound n)"
  by (induction n) (auto intro!: keeps_intros)

section \<open>Counting the calls\<close>

definition posts_at_most :: "nat \<Rightarrow> ('w, 'a) gw \<Rightarrow> bool" where
  "posts_at_most k m \<longleftrightarrow> (\<forall>s. length (gw_posted (snd (m s))) \<le> length (gw_posted s) + k)"

named_theorems posts_intros \<open>bounds on broker calls\<close>

lemma posts_silent: "silent m \<Longrightarrow> posts_at_most k m"
  by (simp add: posts_at_most_def triple_def)

lemma posts_mono: "posts_at_most j m \<Longrightarrow> j \<le> k \<Longrightarrow> posts_at_most k m"
  unfolding posts_at_most_def by (meson add_le_mono1 add_left_mono le_trans)

lemma posts_bnd:
  assumes "posts_at_most j m" "\<And>a. posts_at_most k (f a)"
  shows "posts_at_most (j + k) (bnd m f)"
  unfolding posts_at_most_def
proof
  fix s
  obtain r t where m: "m s = (r, t)" by (cases "m s")
  have t: "length (gw_posted t) \<le> length (gw_posted s) + j"
    using assms(1) m unfolding posts_at_most_def by (metis snd_conv)
  show "length (gw_posted (snd (bnd m f s))) \<le> length (gw_posted s) + (j + k)"
  proof (cases r)
    case (Inl e)
    then show ?thesis using t m by (simp add: bnd_def)
  next
    case (Inr a)
    have "length (gw_posted (snd (f a t))) \<le> length (gw_posted t) + k"
      using assms(2) by (simp add: posts_at_most_def)
    then show ?thesis using t m Inr by (simp add: bnd_def)
  qed
qed

lemma posts_bnd_silent: "silent m \<Longrightarrow> (\<And>a. posts_at_most k (f a)) \<Longrightarrow> posts_at_most k (bnd m f)"
  using posts_bnd [of 0 m k f] posts_silent [of m 0] by simp

lemma posts_then_silent: "posts_at_most k m \<Longrightarrow> (\<And>a. silent (f a)) \<Longrightarrow> posts_at_most k (bnd m f)"
  using posts_bnd [of k m 0 f, OF _ posts_silent] by simp

lemma posts_post_order: "posts_at_most 1 (post_order B i)"
  by (simp add: posts_at_most_def post_order_def case_prod_beta Let_def)

lemma posts_attempt: "posts_at_most k m \<Longrightarrow> posts_at_most k (attempt m)"
  by (auto simp: posts_at_most_def attempt_def case_prod_beta)

lemma posts_if [posts_intros]:
  "(c \<Longrightarrow> posts_at_most k m) \<Longrightarrow> (\<not> c \<Longrightarrow> posts_at_most k n) \<Longrightarrow> posts_at_most k (if c then m else n)"
  by simp

lemma posts_cases [posts_intros]:
  "posts_at_most k m \<Longrightarrow> (\<And>x. posts_at_most k (f x)) \<Longrightarrow> posts_at_most k (case v of None \<Rightarrow> m | Some x \<Rightarrow> f x)"
  "(\<And>e. posts_at_most k (g e)) \<Longrightarrow> (\<And>x. posts_at_most k (h x)) \<Longrightarrow>
     posts_at_most k (case q of Inl e \<Rightarrow> g e | Inr x \<Rightarrow> h x)"
  by (auto split: option.splits sum.splits)

lemma posts_leaves [posts_intros]:
  "posts_at_most k (ret a)" "posts_at_most k (throw e)" "posts_at_most k (state_of iid)"
  "posts_at_most k (refuse B run i iid reason)"
  by (rule posts_silent, auto intro!: keeps_intros)+

lemma silent_reads [posts_intros]:
  "silent (state_of iid)" "silent read_states" "silent (was_not_found iid)" "silent require_lock"
  "silent (is_halted B)" "silent (read_baseline B td)" "silent (risk_refusal L i)" "silent (world_call f)"
  "silent (attempt (broker_call g))" "silent (journal_append B kind iid p run)"
  "silent (poll_loop B L run i bound n)" "silent (modify (\<lambda>s. s\<lparr>gw_sends_made := gw_sends_made s + 1\<rparr>))"
  by (auto intro!: keeps_intros)

lemma posts_safe_submit: "posts_at_most 1 (safe_submit B i)"
  unfolding safe_submit_def
  by (rule posts_then_silent [OF posts_attempt [OF posts_post_order]]) (auto intro!: keeps_intros)

lemma posts_send_once: "posts_at_most 1 (send_once B run i iid bl)"
proof -
  have ex: "posts_at_most 1 (bnd (safe_submit B i) (\<lambda>x.
     bnd (modify (\<lambda>s. s\<lparr>gw_sends_made := gw_sends_made s + 1\<rparr>)) (\<lambda>_.
     bnd (journal_append B K_RESULT iid (result_payload n x) run) (\<lambda>_. ret x))))" for n
    by (rule posts_then_silent [OF posts_safe_submit]) (auto intro!: keeps_intros)
  show ?thesis unfolding send_once_def Let_def by (intro ex posts_bnd_silent silent_reads)
qed

lemma posts_resend_exit: "posts_at_most 1 (resend_exit B run i deadline after)"
proof -
  have tail: "posts_at_most 1 (bnd (send_once B run i (intent_id i) None) (\<lambda>_. state_of (intent_id i)))"
    by (rule posts_then_silent [OF posts_send_once]) (auto intro!: keeps_intros)
  have go: "silent (if sellable_of i ps \<ge> qty i then bnd (world_call (b_now B)) (\<lambda>t. ret (t < deadline))
      else ret False)" for ps
    by (auto intro!: keeps_intros)
  show ?thesis unfolding resend_exit_def by (intro posts_bnd_silent posts_intros go tail)
qed

lemma posts_resolve_unknown:
  "posts_at_most (if phase i = EXIT \<and> exit_resend_on_ambiguous L then 1 else 0)
     (resolve_unknown B L run i deadline)"
proof -
  let ?k = "if phase i = EXIT \<and> exit_resend_on_ambiguous L then 1 else 0 :: nat"
  have tail: "posts_at_most ?k (if phase i = EXIT \<and> exit_resend_on_ambiguous L
      then resend_exit B run i deadline after else state_of (intent_id i))" for after
    by (cases "phase i = EXIT \<and> exit_resend_on_ambiguous L")
      (auto simp: posts_resend_exit [unfolded One_nat_def] posts_leaves(3))
  have ends: "posts_at_most ?k (case r of
         Poll_decided st \<Rightarrow> ret st
       | Poll_read_failed \<Rightarrow> state_of (intent_id i)
       | Poll_exhausted \<Rightarrow>
           bnd (journal_append B K_NOT_FOUND (intent_id i)
               [(''n_polls'', JInt (unknown_resolve_polls L)),
                (''span_seconds'', JFloat (f_mul (fl_of_int (max 0 (unknown_resolve_polls L - 1))) (wait_interval L)))] run) (\<lambda>_.
           bnd (state_of (intent_id i)) (\<lambda>after.
             if phase i = EXIT \<and> exit_resend_on_ambiguous L
             then resend_exit B run i deadline after
             else state_of (intent_id i))))" for r
    by (cases r) (auto intro!: posts_bnd_silent posts_leaves keeps_intros posts_resend_exit [unfolded One_nat_def])
  show ?thesis unfolding resolve_unknown_def Let_def
    by (intro posts_bnd_silent posts_if posts_cases posts_leaves silent_reads ends)
qed

lemma posts_send_loop:
  "posts_at_most (n + (if phase i = EXIT \<and> exit_resend_on_ambiguous L then 1 else 0))
     (send_loop B L run i iid deadline bl n)"
proof (induction n arbitrary: bl)
  case 0
  show ?case unfolding send_loop.simps by (rule posts_leaves)
next
  case (Suc n)
  let ?x = "if phase i = EXIT \<and> exit_resend_on_ambiguous L then 1 else 0 :: nat"
  have unknown: "posts_at_most (n + ?x) (resolve_unknown B L run i deadline)"
    by (rule posts_mono [OF posts_resolve_unknown]) simp
  have tail: "posts_at_most (n + ?x) (if verdict x = ACCEPTED \<or> verdict x = REJECTED then state_of iid
      else if verdict x \<in> set safe_verdicts then send_loop B L run i iid deadline None n
      else bnd (was_not_found iid) (\<lambda>seen. if seen then state_of iid else resolve_unknown B L run i deadline))" for x
    by (intro posts_bnd_silent posts_if posts_leaves silent_reads Suc.IH unknown)
  have "posts_at_most (1 + (n + ?x)) (bnd (send_once B run i iid bl) (\<lambda>x.
      if verdict x = ACCEPTED \<or> verdict x = REJECTED then state_of iid
      else if verdict x \<in> set safe_verdicts then send_loop B L run i iid deadline None n
      else bnd (was_not_found iid) (\<lambda>seen. if seen then state_of iid else resolve_unknown B L run i deadline)))"
    by (rule posts_bnd [OF posts_send_once tail])
  then have send: "posts_at_most (Suc n + ?x) (bnd (send_once B run i iid bl) (\<lambda>x.
      if verdict x = ACCEPTED \<or> verdict x = REJECTED then state_of iid
      else if verdict x \<in> set safe_verdicts then send_loop B L run i iid deadline None n
      else bnd (was_not_found iid) (\<lambda>seen. if seen then state_of iid else resolve_unknown B L run i deadline)))"
    by (rule posts_mono) simp
  show ?case unfolding send_loop.simps
    by (intro posts_bnd_silent posts_if posts_leaves silent_reads send)
qed

lemma posts_submit:
  "posts_at_most (nat (max 1 (send_max_attempts L)) + (if exit_resend_on_ambiguous L then 1 else 0))
     (submit B L run iid deadline)"
proof -
  have loop: "posts_at_most (nat (max 1 (send_max_attempts L)) + (if exit_resend_on_ambiguous L then 1 else 0))
      (send_loop B L run i iid deadline bl (nat (max 1 (send_max_attempts L))))" for i bl
    by (rule posts_mono [OF posts_send_loop]) simp
  show ?thesis unfolding submit_def submit_ready_def Let_def
    by (intro posts_bnd_silent posts_if posts_cases posts_leaves silent_reads loop)
qed

section \<open>When a submit calls the broker\<close>

lemma submit_calls:
  assumes run: "submit B L run iid deadline s = (r, s')" and called: "gw_posted s' \<noteq> gw_posted s"
  obtains sts st i w where "j_locked s" "journal_states (j_lines s) = Inr sts" "map_of sts iid = Some st"
    "sendable (st_status st)" "st_intent st = Some i" "h_halted B (j_world s) = (False, w)"
    "submit_ready B L run i iid deadline st (s\<lparr>j_world := w\<rparr>) = (r, s')"
proof -
  note simps = submit_def require_lock_def bnd_def gets_def ret_def read_states_def lift_res_def throw_def
  have lock: "j_locked s" using run called by (rule_tac ccontr) (auto simp: simps)
  then obtain sts where sts: "journal_states (j_lines s) = Inr sts"
    using run called by (cases "journal_states (j_lines s)") (auto simp: simps)
  then obtain st where st: "map_of sts iid = Some st"
    using run called lock by (cases "map_of sts iid") (auto simp: simps)
  have sendable: "sendable (st_status st)"
    using run called lock sts st by (rule_tac ccontr) (auto simp: simps)
  then obtain i where i: "st_intent st = Some i"
    using run called lock sts st by (cases "st_intent st") (auto simp: simps)
  obtain h w where h: "h_halted B (j_world s) = (h, w)" by (cases "h_halted B (j_world s)") auto
  have go: "(if h then refuse B run i iid ''halted'' else submit_ready B L run i iid deadline st)
      (s\<lparr>j_world := w\<rparr>) = (r, s')"
    using run lock sts st sendable i h by (simp add: simps is_halted_def world_call_def)
  have "\<not> h"
  proof
    assume h
    then have "refuse B run i iid ''halted'' (s\<lparr>j_world := w\<rparr>) = (r, s')" using go by simp
    from tripleD [OF refuse_silent _ this, of "gw_posted s"] called show False by simp
  qed
  then show thesis using that lock sts st sendable i h go by simp
qed

lemma risk_refusal_run:
  assumes "risk_refusal L i s = (r, s')"
  shows "s' = s"
    and "r = Inr None \<Longrightarrow> gw_sends_made s < max_sends_per_run L
      \<and> (side i = BUY \<longrightarrow> (\<exists>own sts total. notional i = Inr own \<and> own \<le> max_notional_per_order_krw L
           \<and> journal_states (j_lines s) = Inr sts \<and> buy_exposure i sts own = Inr total
           \<and> total \<le> seed_capital_krw L))
      \<and> (side i = SELL \<longrightarrow> (\<exists>lots. open_lots (j_lines s) = Inr lots \<and> qty i \<le> parent_lot_qty i lots))"
  using assms
  by (auto simp: risk_refusal_def bnd_def lift_res_def ret_def read_states_def gets_def
      split: sum.splits if_splits option.splits order_side.splits)

lemma first_send_within_limits:
  assumes run: "submit B L run iid deadline s = (r, s')" and called: "gw_posted s' \<noteq> gw_posted s"
    and sts: "journal_states (j_lines s) = Inr sts" and st: "map_of sts iid = Some st" "st_n_sends st = 0"
  shows "\<exists>i. st_intent st = Some i \<and> gw_sends_made s < max_sends_per_run L
      \<and> (side i = BUY \<longrightarrow> (\<exists>own total. notional i = Inr own \<and> own \<le> max_notional_per_order_krw L
           \<and> buy_exposure i sts own = Inr total \<and> total \<le> seed_capital_krw L))
      \<and> (side i = SELL \<longrightarrow> (\<exists>lots. open_lots (j_lines s) = Inr lots \<and> qty i \<le> parent_lot_qty i lots))"
proof -
  obtain i w where i: "st_intent st = Some i"
    and ready: "submit_ready B L run i iid deadline st (s\<lparr>j_world := w\<rparr>) = (r, s')"
    using submit_calls [OF run called] sts st(1) by (metis Inr_inject option.inject)
  let ?s = "s\<lparr>j_world := w\<rparr>"
  obtain q t where q: "risk_refusal L i ?s = (q, t)" by (cases "risk_refusal L i ?s") auto
  have "q = Inr None"
  proof (rule ccontr)
    assume other: "q \<noteq> Inr None"
    have "gw_posted s' = gw_posted s"
    proof (cases q)
      case (Inl e)
      then show ?thesis using ready q st(2) risk_refusal_run(1) [OF q]
        by (auto simp: submit_ready_def Let_def bnd_def)
    next
      case (Inr x)
      with other obtain reason where "x = Some reason" by (cases x) auto
      then have "refuse B run i iid reason ?s = (r, s')"
        using ready q st(2) risk_refusal_run(1) [OF q] Inr
        by (auto simp: submit_ready_def Let_def bnd_def)
      from tripleD [OF refuse_silent _ this, of "gw_posted s"] show ?thesis by simp
    qed
    then show False using called by simp
  qed
  from risk_refusal_run(2) [OF q this] show ?thesis using i sts by auto
qed

end
