(* ===== verification/Gateway_Properties.thy ===== *)
theory Gateway_Properties
  imports Gateway_Limits
begin

text \<open>
  The properties of the order gateway, each with a run of the model in which its
  hypotheses hold: a broker that answers as told, a working disk and no HALT file.
\<close>

section \<open>A concrete run\<close>

definition demo_intent :: order_intent where
  "demo_intent = \<lparr>intent_id = ''d:005930:entry'', trading_date = ''2026-03-02'', phase = ENTRY,
     symbol = ''005930'', side = BUY, order_type = LIMIT, qty = 3, limit_price = JInt 70000,
     decision_price = JInt 69000, parent_intent_id = JNull\<rparr>"

definition demo_result :: "submit_verdict \<Rightarrow> submit_result" where
  "demo_result v = \<lparr>verdict = v, broker_order_no = Some ''77'', broker_org_no = Some ''1'',
     http_status = Some 200, msg_cd = ''m'', msg = ''ok'', latency_ms = Fin 0\<rparr>"

definition demo_broker :: "submit_result res \<Rightarrow> bool \<Rightarrow> nat session_broker" where
  "demo_broker answer halted = \<lparr>h_ts = (\<lambda>w. (''t'', w)), h_disk = (\<lambda>w. (Disk_ok, w)),
     h_halted = (\<lambda>w. (halted, w)), h_lock = (\<lambda>w. (True, w)), b_submit = (\<lambda>i w. (answer, Suc w)),
     b_cancel = (\<lambda>org no w. (Inl OtherException, w)), b_daily_orders = (\<lambda>td w. (Inr [], w)),
     b_positions = (\<lambda>w. (Inr [], w)), b_now = (\<lambda>w. (0, w)), b_sleep = (\<lambda>x w. ((), w)),
     sb_ensure_token = (\<lambda>w. (Inr (), w)), sb_orderable_cash = (\<lambda>sy p w. (Inr 0, w)),
     sb_price_limits = (\<lambda>sy w. (Inl BrokerReadError, w))\<rparr>"

definition demo_limits :: gateway_limits where
  "demo_limits = \<lparr>seed_capital_krw = 1000000, max_notional_per_order_krw = 500000,
     max_sends_per_run = 5, send_max_attempts = 3, unknown_resolve_polls = 2,
     unknown_resolve_interval_seconds = Fin 1, exit_resend_on_ambiguous = False,
     carryover_lookback_days = 5\<rparr>"

definition demo_start :: "nat gateway_state" where
  "demo_start = \<lparr>j_lines = None, j_locked = True, j_world = 0, gw_sends_made = 0, gw_posted = []\<rparr>"

definition demo_planned :: "nat gateway_state" where
  "demo_planned = snd (plan (demo_broker (Inr (demo_result ACCEPTED)) False) ''r'' [demo_intent] [] demo_start)"

definition demo_submit :: "submit_result res \<Rightarrow> bool \<Rightarrow> nat gateway_state \<Rightarrow> intent_state res \<times> nat gateway_state" where
  "demo_submit answer halted s = submit (demo_broker answer halted) demo_limits ''r'' ''d:005930:entry'' 10 s"

text \<open>The process dies after the broker took the order and before its answer is written.\<close>

definition demo_crashed :: "nat gateway_state" where
  "demo_crashed = snd (demo_submit (Inl Interrupted) False demo_planned)"

lemma demo_planned_reachable: "gateway_reachable demo_planned"
  unfolding demo_planned_def
  by (rule gateway_reachable.step [OF gateway_reachable.fresh step_plan [OF prod.collapse [symmetric]]])
    (simp_all add: demo_start_def)

lemma demo_submit_reachable: "gateway_reachable s \<Longrightarrow> gateway_reachable (snd (demo_submit answer halted s))"
  unfolding demo_submit_def
  by (rule gateway_reachable.step [OF _ step_submit [OF prod.collapse [symmetric]]])

lemmas demo_reachable = demo_planned_reachable demo_submit_reachable

section \<open>At most one order per entry intent\<close>

text \<open>C1. In every reachable state of the gateway, whatever the brokers answered, the disk did and
  processes died, at most one call of submit_order for an entry intent may have placed an
  order: every other call for it was answered with a verdict that proves none was.\<close>

theorem at_most_one_live_order:
  assumes "gateway_reachable s"
  shows "length (live_posts iid (gw_posted s)) \<le> 1"
  using gateway_reachable_inv [OF assms] accepted_one_live by (simp add: gateway_inv_def del: One_nat_def)

lemma at_most_one_live_order_witness:
  "length (live_posts ''d:005930:entry'' (gw_posted (snd (demo_submit (Inr (demo_result ACCEPTED)) False demo_crashed)))) \<le> 1
   \<and> length (live_posts ''d:005930:entry'' (gw_posted demo_crashed)) = 1"
proof
  show "length (live_posts ''d:005930:entry''
      (gw_posted (snd (demo_submit (Inr (demo_result ACCEPTED)) False demo_crashed)))) \<le> 1"
    by (rule at_most_one_live_order) (simp add: demo_crashed_def demo_reachable)
  show "length (live_posts ''d:005930:entry'' (gw_posted demo_crashed)) = 1" by code_simp
qed

text \<open>C2. Write-ahead: in every reachable state whose journal loads, an intent was posted to the
  broker at most as often as the journal has a send for it, so no order is ever outside
  the journal.\<close>

theorem every_post_is_journaled:
  assumes "gateway_reachable s" "load_lines (j_lines s) = Inr es"
  shows "length (posts_of iid (gw_posted s)) \<le> length (of_kind K_SEND (events_of iid es))"
  using gateway_reachable_inv [OF assms(1)] assms(2) by (simp add: gateway_inv_def exchange_ok_def)

lemma every_post_is_journaled_witness:
  "\<exists>es. load_lines (j_lines demo_crashed) = Inr es
     \<and> length (posts_of ''d:005930:entry'' (gw_posted demo_crashed)) \<le> length (of_kind K_SEND (events_of ''d:005930:entry'' es))"
proof -
  have "(case load_lines (j_lines demo_crashed) of Inl _ \<Rightarrow> False | Inr _ \<Rightarrow> True)" by code_simp
  then obtain es where es: "load_lines (j_lines demo_crashed) = Inr es" by (auto split: sum.splits)
  from every_post_is_journaled [OF _ es, of "''d:005930:entry''"] es show ?thesis
    by (auto simp: demo_crashed_def demo_reachable)
qed

text \<open>C3. While an exchange of an intent is open, its send unanswered or answered with anything
  but a proof that no order was placed, submit does nothing: it returns the derived state
  and leaves the journal, the broker and its counters as they are.\<close>

theorem open_exchange_blocks_submit:
  assumes "j_locked s" "load_lines (j_lines s) = Inr es" "events_states es = Inr sts"
    and "map_of sts iid = Some st"
    and "send_phase_of (events_of iid es) = Waiting \<or> (\<exists>v. send_phase_of (events_of iid es) = Settled v)"
  shows "submit B L run iid deadline s = (Inr st, s)"
proof -
  have wf: "journal_wf es" by (rule load_lines_wf [OF assms(2)])
  then have "sorted_wrt (<) (map ev_seq (events_of iid es))"
    by (intro sorted_events_of) (simp add: journal_wf_def)
  moreover have "derive_intent_state (events_of iid es) = Inr st"
    using events_states_lookup(1) [OF assms(3) wf] assms(4) by blast
  ultimately have "\<not> sendable (st_status st)" using open_exchange_not_sendable assms(5) by blast
  then show ?thesis using assms(1-4)
    by (simp add: submit_def require_lock_def bnd_def gets_def ret_def read_states_def lift_res_def journal_states_def)
qed

lemma open_exchange_blocks_submit_witness:
  "\<exists>st. demo_submit (Inr (demo_result ACCEPTED)) False demo_crashed = (Inr st, demo_crashed)"
proof -
  have "(case load_lines (j_lines demo_crashed) of Inl _ \<Rightarrow> False | Inr es \<Rightarrow>
      (case events_states es of Inl _ \<Rightarrow> False | Inr sts \<Rightarrow> map_of sts ''d:005930:entry'' \<noteq> None)
      \<and> send_phase_of (events_of ''d:005930:entry'' es) = Waiting) \<and> j_locked demo_crashed" by code_simp
  then obtain es sts st where h: "j_locked demo_crashed" "load_lines (j_lines demo_crashed) = Inr es"
    "events_states es = Inr sts" "map_of sts ''d:005930:entry'' = Some st"
    "send_phase_of (events_of ''d:005930:entry'' es) = Waiting"
    by (auto split: sum.splits)
  show ?thesis unfolding demo_submit_def
    by (rule exI, rule open_exchange_blocks_submit [OF h(1-4)]) (simp add: h(5))
qed

section \<open>Refusals and budgets\<close>

text \<open>A submit that sees the HALT file does not call the broker.\<close>

theorem halted_submit_is_silent:
  assumes "submit B L run iid deadline s = (r, s')" "fst (h_halted B (j_world s))"
  shows "gw_posted s' = gw_posted s"
proof (rule ccontr)
  assume "gw_posted s' \<noteq> gw_posted s"
  then show False by (rule submit_calls [OF assms(1)]) (use assms(2) in simp)
qed

lemma halted_submit_is_silent_witness:
  "gw_posted (snd (demo_submit (Inr (demo_result ACCEPTED)) True demo_planned)) = gw_posted demo_planned"
  by (rule halted_submit_is_silent [OF prod.collapse [symmetric, of "demo_submit _ _ _", unfolded demo_submit_def],
        folded demo_submit_def]) (simp add: demo_broker_def)

text \<open>C4. The first send of an intent is within the limits: the run's send cap is not reached; a
  buy's notional is within the order cap and, with the other buys of its date that may
  hold money, within the seed capital; a sell is within its parent's open lot.\<close>

theorem first_send_respects_limits:
  assumes "submit B L run iid deadline s = (r, s')" "gw_posted s' \<noteq> gw_posted s"
    and "journal_states (j_lines s) = Inr sts" "map_of sts iid = Some st" "st_n_sends st = 0"
  shows "\<exists>i. st_intent st = Some i \<and> gw_sends_made s < max_sends_per_run L
      \<and> (side i = BUY \<longrightarrow> (\<exists>own total. notional i = Inr own \<and> own \<le> max_notional_per_order_krw L
           \<and> buy_exposure i sts own = Inr total \<and> total \<le> seed_capital_krw L))
      \<and> (side i = SELL \<longrightarrow> (\<exists>lots. open_lots (j_lines s) = Inr lots \<and> qty i \<le> parent_lot_qty i lots))"
  by (rule first_send_within_limits [OF assms])

lemma first_send_respects_limits_witness:
  "\<exists>sts st i. journal_states (j_lines demo_planned) = Inr sts \<and> map_of sts ''d:005930:entry'' = Some st
     \<and> st_intent st = Some i \<and> gw_sends_made demo_planned < max_sends_per_run demo_limits"
proof -
  let ?run = "demo_submit (Inr (demo_result ACCEPTED)) False demo_planned"
  have "(case journal_states (j_lines demo_planned) of Inl _ \<Rightarrow> False | Inr sts \<Rightarrow>
      (case map_of sts ''d:005930:entry'' of None \<Rightarrow> False | Some st \<Rightarrow> st_n_sends st = 0))" by code_simp
  then obtain sts st where h: "journal_states (j_lines demo_planned) = Inr sts"
    "map_of sts ''d:005930:entry'' = Some st" "st_n_sends st = 0"
    by (auto split: sum.splits option.splits)
  have called: "gw_posted (snd ?run) \<noteq> gw_posted demo_planned" by code_simp
  from first_send_respects_limits [OF prod.collapse [symmetric, of ?run, unfolded demo_submit_def]
      called [unfolded demo_submit_def] h] h
  show ?thesis by blast
qed

text \<open>One submit calls the broker at most send_max_attempts times (at least one is allowed),
  and once more only when the limits allow an exit to be sent again.\<close>

theorem submit_call_budget:
  "length (gw_posted (snd (submit B L run iid deadline s)))
     \<le> length (gw_posted s) + nat (max 1 (send_max_attempts L)) + (if exit_resend_on_ambiguous L then 1 else 0)"
  using posts_submit [of L B run iid deadline] by (simp add: posts_at_most_def add.assoc)

end
