(* ===== verification/Session_Plans.thy ===== *)
theory Session_Plans
  imports Order_Session Gateway_Properties
begin

text \<open>
  What the order session plans: the buys of a decision fit the capital, the sells fit the
  lots and what is sellable, and a validated decision is what its rules say. Also the time
  the entry run waits for a decision.
\<close>

section \<open>The buys\<close>

definition planned_qty :: "(string \<times> int) list \<Rightarrow> entry_pick \<Rightarrow> int" where
  "planned_qty quantities c = dget 0 quantities (ep_symbol c)"

lemma entry_step_eq:
  "0 < planned_qty quantities c \<Longrightarrow> entry_step date_str quantities c (intents, skips) =
     rbind (make_intent (entry_order date_str c (planned_qty quantities c))) (\<lambda>i. Inr (intents @ [i], skips))"
  "\<not> 0 < planned_qty quantities c \<Longrightarrow> entry_step date_str quantities c (intents, skips) =
     Inr (intents, skips @ [entry_skip date_str (ep_symbol c) ''zero_qty''])"
  by (simp_all add: entry_step_def Let_def planned_qty_def)

lemma entry_orders_run:
  "rfold (entry_step date_str quantities) priced (intents0, skips0) = Inr (intents, skips) \<Longrightarrow>
   intents = intents0 @ map (\<lambda>c. entry_order date_str c (planned_qty quantities c)) (filter (\<lambda>c. 0 < planned_qty quantities c) priced)
   \<and> skips = skips0 @ map (\<lambda>c. entry_skip date_str (ep_symbol c) ''zero_qty'') (filter (\<lambda>c. \<not> 0 < planned_qty quantities c) priced)
   \<and> (\<forall>c\<in>set priced. 0 < planned_qty quantities c \<longrightarrow> valid_intent (entry_order date_str c (planned_qty quantities c)))"
proof (induction priced arbitrary: intents0 skips0)
  case (Cons c priced)
  show ?case
  proof (cases "0 < planned_qty quantities c")
    case True
    then have "valid_intent (entry_order date_str c (planned_qty quantities c))"
      "rfold (entry_step date_str quantities) priced (intents0 @ [entry_order date_str c (planned_qty quantities c)], skips0) = Inr (intents, skips)"
      using Cons.prems by (auto simp: entry_step_eq make_intent_Inr)
    with Cons.IH [OF this(2)] True show ?thesis by simp
  next
    case False
    then have "rfold (entry_step date_str quantities) priced (intents0, skips0 @ [entry_skip date_str (ep_symbol c) ''zero_qty'']) = Inr (intents, skips)"
      using Cons.prems by (auto simp: entry_step_eq)
    with Cons.IH [OF this] False show ?thesis by simp
  qed
qed simp

lemma entry_orders_Inr:
  assumes "entry_orders date_str quantities priced skips0 = Inr (intents, skips)"
  shows "intents = map (\<lambda>c. entry_order date_str c (planned_qty quantities c)) (filter (\<lambda>c. 0 < planned_qty quantities c) priced)"
    and "skips = skips0 @ map (\<lambda>c. entry_skip date_str (ep_symbol c) ''zero_qty'') (filter (\<lambda>c. \<not> 0 < planned_qty quantities c) priced)"
    and "\<And>c. c \<in> set priced \<Longrightarrow> 0 < planned_qty quantities c \<Longrightarrow> valid_intent (entry_order date_str c (planned_qty quantities c))"
  using entry_orders_run [OF assms [unfolded entry_orders_def]] by simp_all

text \<open>The price of a limit order in whole won.\<close>

definition intent_price :: "order_intent \<Rightarrow> int" where
  "intent_price i = (case int_price (limit_price i) of None \<Rightarrow> 0 | Some p \<Rightarrow> p)"

lemma entry_order_simps [simp]:
  "qty (entry_order date_str c q) = q" "intent_price (entry_order date_str c q) = ep_limit_price c"
  "symbol (entry_order date_str c q) = ep_symbol c" "intent_id (entry_order date_str c q) = entry_intent_id date_str (ep_symbol c)"
  "side (entry_order date_str c q) = BUY"
  by (simp_all add: entry_order_def intent_price_def int_price_def)

lemma sum_list_filter_le:
  "(\<And>x. x \<in> set xs \<Longrightarrow> 0 \<le> (f x :: int)) \<Longrightarrow> sum_list (map f (filter P xs)) \<le> sum_list (map f xs)"
  by (induction xs) (auto simp: add_increasing)

text \<open>C8. The buys the entry run plans fit the money: with their fees they cost at most the capital,
  the smaller of the seed and the orderable cash; each is a valid intent within the order
  cap, and every priced pick gives exactly one order or one zero-quantity skip.\<close>

theorem entry_plan_fits_capital:
  assumes "size_entry_orders priced capital cap = Inr quantities"
    and "entry_orders date_str quantities priced skips0 = Inr (intents, skips)"
  shows "sum_list (map (\<lambda>i. order_cost (intent_price i) (qty i)) intents) \<le> capital
    \<and> (\<forall>i\<in>set intents. valid_intent i \<and> side i = BUY \<and> qty i * intent_price i \<le> cap)
    \<and> mset (map intent_id intents @ map ps_intent_id (drop (length skips0) skips))
        = mset (map (\<lambda>c. entry_intent_id date_str (ep_symbol c)) priced)"
proof (intro conjI ballI)
  note os = entry_orders_Inr [OF assms(2)]
  have nonneg: "0 \<le> order_cost (ep_limit_price c) (planned_qty quantities c)"
    and cap: "planned_qty quantities c * ep_limit_price c \<le> cap"
    and the: "the (map_of quantities (ep_symbol c)) = planned_qty quantities c" if "c \<in> set priced" for c
  proof -
    obtain q where q: "map_of quantities (ep_symbol c) = Some q" "0 \<le> q"
      "q * ep_limit_price c \<le> alloc_budget capital cap (ep_allocation c)"
      using size_entry_orders_plan(3) [OF assms(1)] \<open>c \<in> set priced\<close> by blast
    have pick: "pick_ok c" "0 < cap"
      using assms(1) check_picks_Inr [of priced "[]"] that by (auto simp: size_entry_orders_def split: if_splits)
    then have "0 \<le> q * ep_limit_price c" using q(2) by (simp add: pick_ok_def)
    then show "0 \<le> order_cost (ep_limit_price c) (planned_qty quantities c)"
      using side_fee_krw_nonneg q(1) by (simp add: order_cost_def planned_qty_def dget_def)
    have "alloc_budget capital cap (ep_allocation c) \<le> cap"
      using pick(2) by (auto simp: alloc_budget_def split: fl.splits)
    then show "planned_qty quantities c * ep_limit_price c \<le> cap"
      using q by (simp add: planned_qty_def dget_def)
    show "the (map_of quantities (ep_symbol c)) = planned_qty quantities c"
      using q(1) by (simp add: planned_qty_def dget_def)
  qed
  have "sum_list (map (\<lambda>i. order_cost (intent_price i) (qty i)) intents)
      = sum_list (map (\<lambda>c. order_cost (ep_limit_price c) (planned_qty quantities c)) (filter (\<lambda>c. 0 < planned_qty quantities c) priced))"
    by (simp add: os(1) comp_def)
  also have "\<dots> \<le> sum_list (map (\<lambda>c. order_cost (ep_limit_price c) (planned_qty quantities c)) priced)"
    using nonneg by (rule sum_list_filter_le)
  also have "\<dots> = sum_list (map (\<lambda>p. order_cost (ep_limit_price p) (the (map_of quantities (ep_symbol p)))) priced)"
    using the by (intro arg_cong [where f = sum_list] map_cong) simp_all
  also have "\<dots> \<le> capital" by (rule size_entry_orders_plan(4) [OF assms(1)])
  finally show "sum_list (map (\<lambda>i. order_cost (intent_price i) (qty i)) intents) \<le> capital" .
  fix i
  assume "i \<in> set intents"
  then obtain c where c: "c \<in> set priced" "0 < planned_qty quantities c" "i = entry_order date_str c (planned_qty quantities c)"
    by (auto simp: os(1))
  then show "valid_intent i" "side i = BUY" "qty i * intent_price i \<le> cap" using os(3) cap by simp_all
next
  note os = entry_orders_Inr [OF assms(2)]
  have split: "mset (map f (filter P xs) @ map f (filter (\<lambda>x. \<not> P x) xs)) = mset (map f xs)" for f :: "entry_pick \<Rightarrow> string" and P xs
    by (induction xs) auto
  show "mset (map intent_id intents @ map ps_intent_id (drop (length skips0) skips))
        = mset (map (\<lambda>c. entry_intent_id date_str (ep_symbol c)) priced)"
    using split [of "\<lambda>c. entry_intent_id date_str (ep_symbol c)" "\<lambda>c. 0 < planned_qty quantities c" priced]
    by (simp add: os(1,2) comp_def entry_skip_def)
qed

section \<open>The sells\<close>

lemma exit_order_simps [simp]:
  "qty (exit_order date_str l q) = q" "symbol (exit_order date_str l q) = ol_symbol l"
  "intent_id (exit_order date_str l q) = exit_intent_id (ol_entry_intent_id l) date_str"
  "side (exit_order date_str l q) = SELL" "parent_intent_id (exit_order date_str l q) = JStr (ol_entry_intent_id l)"
  by (simp_all add: exit_order_def)

definition sold_of :: "string \<Rightarrow> order_intent list \<Rightarrow> int" where
  "sold_of sy intents = sum_list (map qty (filter (\<lambda>i. symbol i = sy) intents))"

lemma exit_orders_Inr:
  assumes "exit_orders date_str sellable lots = Inr (intents, skips)" "\<And>l. l \<in> set lots \<Longrightarrow> 0 \<le> ol_qty l"
  shows "(\<forall>i\<in>set intents. valid_intent i \<and> (\<exists>l\<in>set lots. i = exit_order date_str l (qty i) \<and> qty i \<le> ol_qty l))
    \<and> sold_of sy intents \<le> max 0 (dget 0 sellable sy)
    \<and> mset (map intent_id intents @ map ps_intent_id skips) = mset (map (\<lambda>l. exit_intent_id (ol_entry_intent_id l) date_str) lots)"
  using assms
proof (induction lots arbitrary: sellable intents skips)
  case (Cons l lots)
  let ?av = "dget 0 sellable (ol_symbol l)"
  let ?q = "min (ol_qty l) ?av"
  let ?left = "dset (ol_symbol l) (?av - ?q) sellable"
  have left: "dget 0 ?left sy = (if sy = ol_symbol l then ?av - ?q else dget 0 sellable sy)"
    by (simp add: dget_dset)
  show ?case
  proof (cases "?q \<le> 0")
    case True
    then obtain ks where ks: "exit_orders date_str ?left lots = Inr (intents, ks)"
      "skips = exit_skip date_str l ''not_sellable'' # ks"
      using Cons.prems(1) by (auto simp: Let_def)
    have "0 \<le> ol_qty l" using Cons.prems(2) by simp
    then have "max 0 (dget 0 ?left sy) \<le> max 0 (dget 0 sellable sy)" using True left by auto
    then show ?thesis using Cons.IH [OF ks(1)] Cons.prems(2) ks(2) by (auto simp: exit_skip_def)
  next
    case False
    then obtain rest where os: "exit_orders date_str ?left lots = Inr (rest, skips)"
      "intents = exit_order date_str l ?q # rest" "valid_intent (exit_order date_str l ?q)"
      using Cons.prems(1) by (auto simp: Let_def make_intent_Inr)
    note IH = Cons.IH [OF os(1)] and lots = Cons.prems(2)
    have IH': "sold_of sy rest \<le> max 0 (dget 0 ?left sy)"
      "\<forall>i\<in>set rest. valid_intent i \<and> (\<exists>l\<in>set lots. i = exit_order date_str l (qty i) \<and> qty i \<le> ol_qty l)"
      "mset (map intent_id rest @ map ps_intent_id skips) = mset (map (\<lambda>l. exit_intent_id (ol_entry_intent_id l) date_str) lots)"
      using IH lots by simp_all
    have "sold_of sy intents = (if sy = ol_symbol l then ?q else 0) + sold_of sy rest"
      by (simp add: sold_of_def os(2))
    then have "sold_of sy intents \<le> max 0 (dget 0 sellable sy)" using IH'(1) left False by auto
    then show ?thesis using IH'(2,3) os by auto
  qed
qed (simp add: sold_of_def)

lemma lots_of_pos: "lots_of exits sts = Inr lots \<Longrightarrow> l \<in> set lots \<Longrightarrow> 0 < ol_qty l"
  by (induction exits sts arbitrary: lots rule: lots_of.induct)
    (auto simp: Let_def split: option.splits if_splits)

lemma open_lots_pos: "open_lots f = Inr lots \<Longrightarrow> l \<in> set lots \<Longrightarrow> 0 < ol_qty l"
  by (auto simp: open_lots_def states_open_lots_def dest: lots_of_pos)

text \<open>C9. The sells the exit run plans out of the open lots never sell more than is held: each sells
  one lot, at most its quantity; thise of one symbol together at most what the broker says
  is sellable; and every lot gives exactly one order or one skip.\<close>

theorem exit_plan_fits_holdings:
  assumes "open_lots f = Inr all_lots" "set lots \<subseteq> set all_lots"
    and "exit_orders date_str sellable lots = Inr (intents, skips)"
  shows "(\<forall>i\<in>set intents. valid_intent i \<and> (\<exists>l\<in>set lots. i = exit_order date_str l (qty i) \<and> qty i \<le> ol_qty l))
    \<and> (\<forall>sy. sold_of sy intents \<le> max 0 (dget 0 sellable sy))
    \<and> mset (map intent_id intents @ map ps_intent_id skips) = mset (map (\<lambda>l. exit_intent_id (ol_entry_intent_id l) date_str) lots)"
proof -
  have "\<And>l. l \<in> set lots \<Longrightarrow> 0 \<le> ol_qty l" using open_lots_pos [OF assms(1)] assms(2) by force
  then show ?thesis using exit_orders_Inr [OF assms(3)] by blast
qed

section \<open>The decision\<close>

lemma list_all2_mem: "list_all2 P xs ys \<Longrightarrow> x \<in> set xs \<Longrightarrow> \<exists>y\<in>set ys. P x y"
  by (induction rule: list_all2_induct) auto

lemma stamp_rule_None:
  "stamp_rule date_str now cell = None \<longleftrightarrow> (\<exists>t. cell = Stamp t \<and> iso_str (kst_date t) = date_str
     \<and> 55200 \<le> second_of_day t \<and> second_of_day t < 55800 \<and> t < now)"
  by (auto simp: stamp_rule_def hhmmss_cases split: decided_cell.splits if_splits)

text \<open>C11. A validated decision is one: within the send cap, every symbol once and well formed, every
  allocation positive and finite and their sum not over one (up to the tolerance), every
  close positive, every row decided on the trading date, inside the decision window and
  before now; and the picks come in the order of their rank.\<close>

theorem validated_decision_is_sound:
  assumes "validate_decision f date_str now max_sends = Inr (Inr picks)"
  shows "0 < length picks \<and> int (length picks) \<le> max_sends \<and> distinct (map dp_symbol picks)
    \<and> sorted (map (\<lambda>p. decision_rank (dp_pred p) (dp_symbol p)) picks)
    \<and> (\<forall>p\<in>set picks. is_symbol (dp_symbol p) \<and> 0 < dp_close p \<and> f_isfinite (dp_allocation p) \<and> f_lt (Fin 0) (dp_allocation p)
        \<and> (\<exists>r\<in>set (df_rows f). dr_symbol r = dp_symbol p \<and> (\<exists>t. dr_decided r = Stamp t \<and> iso_str (kst_date t) = date_str
             \<and> 55200 \<le> second_of_day t \<and> second_of_day t < 55800 \<and> t < now)))
    \<and> (\<exists>rows. mset rows = mset picks \<and> \<not> f_lt allocation_limit (allocation_sum (map dp_allocation rows)))"
proof -
  note v = validate_decision_Inr [OF assms]
  obtain rows where rows: "mset picks = mset rows" "list_all2 (pick_from_row date_str now) rows (df_rows f)"
      "\<forall>p\<in>set rows. f_isfinite (dp_allocation p) \<and> f_lt (Fin 0) (dp_allocation p)"
      "\<not> f_lt allocation_limit (allocation_sum (map dp_allocation rows))"
    using v(1) by blast
  have mem: "set picks = set rows" using rows(1) by (metis set_mset_mset)
  have "\<exists>r\<in>set (df_rows f). pick_from_row date_str now p r" if "p \<in> set picks" for p
    using list_all2_mem [OF rows(2)] that mem by blast
  then have "\<forall>p\<in>set picks. 0 < dp_close p
      \<and> (\<exists>r\<in>set (df_rows f). dr_symbol r = dp_symbol p \<and> stamp_rule date_str now (dr_decided r) = None)"
    unfolding pick_from_row_def by (metis close_value_pos)
  then show ?thesis using v(2-6) rows mem unfolding stamp_rule_None [symmetric] by auto
qed

definition demo_frame :: decision_frame where
  "demo_frame = \<lparr>df_columns = [''symbol'', ''allocation'', ''close'', ''decided_at''],
     df_rows = [\<lparr>dr_symbol = ''005930'', dr_allocation = JInt 1, dr_pred = JNull, dr_close = JInt 70000,
       dr_decided = Stamp (instant (2026, 3, 2) 55500)\<rparr>]\<rparr>"

lemma demo_date: "valid_civil (2026, 3, 2)" "iso_str (2026, 3, 2) = ''2026-03-02''" "is_symbol ''005930''"
  "is_trading_date ''2026-03-02''"
  by code_simp+

lemma demo_frame_valid:
  "validate_decision demo_frame ''2026-03-02'' (instant (2026, 3, 2) 55600) 5
    = Inr (Inr [\<lparr>dp_symbol = ''005930'', dp_allocation = Fin 1, dp_pred = NaN, dp_close = 70000\<rparr>])"
proof -
  have one: "rnd64 1 = 1" using rnd64_of_int [of 1] by simp
  have limit: "\<not> f_lt allocation_limit (Fin 1)"
    using rnd64_mono [of 1 "1 + rnd64 (1 / 10 ^ 9)"] one by (simp add: allocation_limit_def rnd64_nonneg not_less)
  have stamp: "stamp_rule ''2026-03-02'' (instant (2026, 3, 2) 55600) (Stamp (instant (2026, 3, 2) 55500)) = None"
    using instant_parts [OF demo_date(1), of 55500] by (simp add: stamp_rule_None demo_date(2)) (simp add: instant_def)
  show ?thesis
    using limit stamp one demo_date(3)
    by (simp add: validate_decision_def missing_column_def demo_frame_def try_float_def too_large_def close_value_def
        allocation_sum_def Let_def f_le_def)
qed

lemma validated_decision_is_sound_witness:
  "\<exists>picks. validate_decision demo_frame ''2026-03-02'' (instant (2026, 3, 2) 55600) 5 = Inr (Inr picks)
     \<and> length picks = 1 \<and> 0 < length picks"
  using validated_decision_is_sound [OF demo_frame_valid] demo_frame_valid by auto

section \<open>Runs of the plans\<close>

definition demo_priced :: "entry_pick list" where
  "demo_priced = [\<lparr>ep_symbol = ''005930'', ep_allocation = Fin 1, ep_pred = NaN, ep_decision_price = 70000,
     ep_limit_price = 70500\<rparr>]"

lemma entry_plan_fits_capital_witness:
  "\<exists>quantities intents skips. size_entry_orders demo_priced 1000000 500000 = Inr quantities
     \<and> entry_orders ''2026-03-02'' quantities demo_priced [] = Inr (intents, skips)
     \<and> sum_list (map (\<lambda>i. order_cost (intent_price i) (qty i)) intents) \<le> 1000000"
proof -
  obtain quantities where q: "size_entry_orders demo_priced 1000000 500000 = Inr quantities"
    by (simp add: size_entry_orders_def demo_priced_def f_le_def)
  have "0 < n \<Longrightarrow> valid_intent (entry_order ''2026-03-02'' (hd demo_priced) n)" for n
    using demo_date by (simp add: valid_intent_def make_intent_def entry_order_def demo_priced_def is_pos_int_def)
  then obtain intents skips where "entry_orders ''2026-03-02'' quantities demo_priced [] = Inr (intents, skips)"
    by (cases "0 < planned_qty quantities (hd demo_priced)")
      (auto simp: entry_orders_def demo_priced_def entry_step_eq make_intent_Inr [THEN iffD2])
  with entry_plan_fits_capital [OF q this] q show ?thesis by blast
qed

text \<open>A journal with one filled buy.\<close>

definition demo_fill :: broker_order where
  "demo_fill = \<lparr>bo_order_no = ''77'', bo_orig_order_no = [], bo_org_no = ''1'', bo_symbol = ''005930'',
     bo_side = BUY, bo_order_qty = 3, bo_order_price = 70000, bo_filled_qty = 3, bo_filled_amount_krw = 210000,
     bo_remaining_qty = 0, bo_cancelled = False, bo_rejected_qty = 0\<rparr>"

definition demo_event :: "int \<Rightarrow> event_kind \<Rightarrow> payload \<Rightarrow> jline" where
  "demo_event n k p = event_line \<lparr>ev_seq = n, ev_ts = ''t'', ev_kind = k, ev_id = ''d:005930:entry'', ev_run = ''r'', ev_payload = p\<rparr>"

definition demo_file :: "jline list option" where
  "demo_file = Some [demo_event 1 K_INTENT (intent_to_payload demo_intent), demo_event 2 K_SEND (send_payload 1 None),
     demo_event 3 K_RESULT (result_payload 1 (demo_result ACCEPTED)), demo_event 4 K_BROKER_STATE (broker_state_payload demo_fill True)]"

definition demo_lot :: open_lot where
  "demo_lot = \<lparr>ol_entry_intent_id = ''d:005930:entry'', ol_symbol = ''005930'', ol_trading_date = ''2026-03-02'', ol_qty = 3\<rparr>"

lemma demo_file_lots: "open_lots demo_file = Inr [demo_lot]"
  by code_simp

lemma exit_plan_fits_holdings_witness:
  "exit_orders ''2026-03-03'' [(''005930'', 2)] [demo_lot] = Inr ([exit_order ''2026-03-03'' demo_lot 2], [])
   \<and> sold_of ''005930'' [exit_order ''2026-03-03'' demo_lot 2] \<le> 2"
proof -
  have run: "exit_orders ''2026-03-03'' [(''005930'', 2)] [demo_lot] = Inr ([exit_order ''2026-03-03'' demo_lot 2], [])"
    by code_simp
  have "sold_of ''005930'' [exit_order ''2026-03-03'' demo_lot 2] \<le> max 0 (dget 0 [(''005930'', 2)] ''005930'')"
    using exit_plan_fits_holdings [OF demo_file_lots _ run] by blast
  then show ?thesis using run by (simp add: dget_def)
qed

end
