(* ===== verification/Session_Safety.thy ===== *)
theory Session_Safety
  imports Order_Session Gateway_Properties "HOL-Library.Sublist"
begin

text \<open>
  What a session run preserves. The session touches the gateway's state through the
  gateway's operations, the lock and the world only, so whatever those preserve a whole
  session preserves; the interface is the locale \<open>gateway_client\<close>, used here for
  reachability (so that every property of the gateway holds across sessions) and for the
  append-only discipline of the journal.
\<close>

section \<open>The interface\<close>

locale gateway_client =
  fixes I :: "'w gateway_state \<Rightarrow> bool" and ok :: "'w session_broker \<Rightarrow> bool"
  assumes plan_keeps: "ok B \<Longrightarrow> keeps I (plan (B :: 'w session_broker) run intents skips)"
    and submit_keeps: "ok B \<Longrightarrow> keeps I (submit (B :: 'w session_broker) L run iid deadline)"
    and reconcile_keeps: "ok B \<Longrightarrow> keeps I (reconcile (B :: 'w session_broker) run td finalize)"
    and carryover_keeps: "ok B \<Longrightarrow> keeps I (resolve_carryover (B :: 'w session_broker) L run as_of)"
    and cancel_keeps: "ok B \<Longrightarrow> keeps I (cancel_working (B :: 'w session_broker) run td)"
    and world_keeps: "I s \<Longrightarrow> I (s\<lparr>j_world := w\<rparr>)"
    and lock_keeps: "I s \<Longrightarrow> I (s\<lparr>j_locked := l\<rparr>)"
    and fresh_keeps: "I s \<Longrightarrow> I (s\<lparr>gw_sends_made := 0\<rparr>)"
begin

lemma calls_keep: "keeps I (world_call f)" "keeps I (broker_call g)"
  using world_keeps by (auto simp: triple_def world_call_def broker_call_def case_prod_beta)

lemma exclusive_keeps: "keeps I body \<Longrightarrow> keeps I (exclusive H body)"
  using lock_keeps by (auto simp: exclusive_def intro!: keeps_intros calls_keep)

lemma reads_keep:
  "keeps I read_states" "keeps I read_events" "keeps I (now_of X)" "keeps I (sleep_for X d)" "keeps I (is_halted H)"
  by (simp_all add: read_states_def read_events_def now_of_def sleep_for_def is_halted_def keeps_intros calls_keep)

lemma new_gateway_keeps: "keeps I new_gateway"
  unfolding new_gateway_def using fresh_keeps by (intro keeps_modify)

lemmas session_keeps = keeps_intros reads_keep calls_keep exclusive_keeps new_gateway_keeps
  plan_keeps submit_keeps reconcile_keeps carryover_keeps cancel_keeps

lemma journal_reads_keep:
  "keeps I (stored_entry_intents date_str)" "keeps I (has_entry_history date_str)"
  "keeps I (planned_skip_count date_str ph)" "keeps I (prior_lots date_str)"
  unfolding stored_entry_intents_def has_entry_history_def planned_skip_count_def prior_lots_def
  by (intro session_keeps)+

lemma finish_entry_keeps: "keeps I (finish_entry_report X run env date_str ids n_picks n_skipped capital tm post_send)"
  unfolding finish_entry_report_def Let_def by (intro session_keeps)

lemma finish_exit_keeps: "keeps I (finish_exit_report run env date_str lots ids n_skipped t_last deadline n)"
  unfolding finish_exit_report_def Let_def by (intro session_keeps)

lemma post_send_keeps: "ok (gateway_port X) \<Longrightarrow> keeps I (post_send_reconcile X run date_str)"
  unfolding post_send_reconcile_def by (intro session_keeps)

lemma submit_all_keeps: "ok (gateway_port X) \<Longrightarrow> keeps I (submit_all X run deadline ids)"
  unfolding submit_all_def by (intro session_keeps)

lemmas entry_keeps = session_keeps journal_reads_keep finish_entry_keeps finish_exit_keeps post_send_keeps submit_all_keeps

lemma stored_entry_keeps: "ok (gateway_port X) \<Longrightarrow> keeps I (submit_stored_entry X run env date_str stored)"
  unfolding submit_stored_entry_def Let_def by (intro entry_keeps)

lemma await_keeps: "keeps I (await_decision X d fuel)"
  by (induction fuel) (auto intro!: entry_keeps)

lemma price_pick_keeps: "keeps I (price_pick X date_str p acc)"
  unfolding price_pick_def Let_def by (intro entry_keeps)

lemma entry_locked_keeps: "ok (gateway_port X) \<Longrightarrow> keeps I (entry_locked X run env date_str picks ready_at deadline)"
  unfolding entry_locked_def Let_def by (intro entry_keeps stored_entry_keeps price_pick_keeps)

lemma run_entry_keeps: "ok (gateway_port X) \<Longrightarrow> keeps I (run_entry X fuel run env d)"
  unfolding run_entry_def Let_def by (intro entry_keeps stored_entry_keeps await_keeps entry_locked_keeps)

lemma exit_carryover_keeps: "ok (gateway_port X) \<Longrightarrow> keeps I (exit_carryover X run date_str)"
  unfolding exit_carryover_def by (intro entry_keeps)

lemma resume_exit_keeps: "ok (gateway_port X) \<Longrightarrow> keeps I (resume_exit X run env date_str lots sts existing deadline n)"
  unfolding resume_exit_def by (intro entry_keeps)

lemma exit_locked_keeps: "ok (gateway_port X) \<Longrightarrow> keeps I (exit_locked X run env date_str deadline carried)"
  unfolding exit_locked_def Let_def by (intro entry_keeps exit_carryover_keeps resume_exit_keeps)

lemma exit_in_window_keeps: "ok (gateway_port X) \<Longrightarrow> keeps I (exit_in_window X run env date_str lots carried now)"
  unfolding exit_in_window_def by (intro entry_keeps exit_locked_keeps)

lemma run_exit_keeps: "ok (gateway_port X) \<Longrightarrow> keeps I (run_exit X run env date_str)"
  unfolding run_exit_def Let_def by (intro entry_keeps exit_carryover_keeps exit_in_window_keeps)

lemma reconcile_round_keeps: "ok (gateway_port X) \<Longrightarrow> keeps I (reconcile_round X run date_str finalize)"
  unfolding reconcile_round_def by (intro entry_keeps)

lemma reconcile_polls_keeps: "ok (gateway_port X) \<Longrightarrow> keeps I (reconcile_polls X run date_str scope backdated deadline fuel acc)"
  by (induction fuel arbitrary: acc) (auto simp: Let_def intro!: entry_keeps reconcile_round_keeps)

lemma reconcile_in_window_keeps:
  "ok (gateway_port X) \<Longrightarrow> keeps I (reconcile_in_window X fuel ph run env date_str scope backdated deadline)"
  unfolding reconcile_in_window_def finish_reconcile_def Let_def by (intro entry_keeps reconcile_polls_keeps)

lemma run_reconcile_keeps: "ok (gateway_port X) \<Longrightarrow> keeps I (run_reconcile X fuel ph run env date_str)"
  unfolding run_reconcile_def Let_def by (intro entry_keeps reconcile_in_window_keeps)

lemma run_cancel_keeps: "ok (gateway_port X) \<Longrightarrow> keeps I (run_cancel X run env date_str)"
  unfolding run_cancel_def by (intro entry_keeps)

lemma record_keeps: "keeps I (record_report X r)"
  unfolding record_report_def by (intro entry_keeps)

lemma session_keeps_invariant: "ok (gateway_port X) \<Longrightarrow> keeps I (run_order_session X fuel ph d)"
  unfolding run_order_session_def execute_phase_def gated_report_def Let_def
  by (intro entry_keeps record_keeps run_entry_keeps run_exit_keeps run_reconcile_keeps run_cancel_keeps)

end

section \<open>Reachability\<close>

lemma keeps_reachable: "(\<And>s r s'. m s = (r, s') \<Longrightarrow> gateway_step s s') \<Longrightarrow> keeps gateway_reachable m"
  by (rule tripleI) (rule gateway_reachable.step)

interpretation reach: gateway_client gateway_reachable "\<lambda>_. True"
proof unfold_locales
  fix B :: "'a session_broker" and L run iid deadline intents skips td finalize as_of
  show "keeps gateway_reachable (plan B run intents skips)" by (rule keeps_reachable) (rule step_plan)
  show "keeps gateway_reachable (submit B L run iid deadline)" by (rule keeps_reachable) (rule step_submit)
  show "keeps gateway_reachable (reconcile B run td finalize)" by (rule keeps_reachable) (rule step_reconcile)
  show "keeps gateway_reachable (resolve_carryover B L run as_of)" by (rule keeps_reachable) (rule step_carryover)
  show "keeps gateway_reachable (cancel_working B run td)" by (rule keeps_reachable) (rule step_cancel)
next
  fix s :: "'a gateway_state" and w l
  assume s: "gateway_reachable s"
  show "gateway_reachable (s\<lparr>j_world := w\<rparr>)" by (rule gateway_reachable.step [OF s step_world])
  show "gateway_reachable (s\<lparr>j_locked := l\<rparr>)" by (rule gateway_reachable.step [OF s step_lock])
  show "gateway_reachable (s\<lparr>gw_sends_made := 0\<rparr>)"
    using gateway_reachable.step [OF s step_process [of s "j_locked s"]] by simp
qed

section \<open>Operations that append\<close>

text \<open>
  The gateway in turn changes its state through \<open>journal_append\<close>, the broker call and the
  send counter; what these keep every operation keeps.
\<close>

locale journal_client =
  fixes J :: "'w gateway_state \<Rightarrow> bool"
  assumes append_keeps: "keeps J (journal_append (B :: 'w session_broker) kind iid p run)"
    and post_keeps: "keeps J (post_order (B :: 'w session_broker) i)"
    and other_world: "J s \<Longrightarrow> J (s\<lparr>j_world := w\<rparr>)"
    and other_lock: "J s \<Longrightarrow> J (s\<lparr>j_locked := l\<rparr>)"
    and count_keeps: "J s \<Longrightarrow> J (s\<lparr>gw_sends_made := n\<rparr>)"
begin

lemma world_calls_keep: "keeps J (world_call f)" "keeps J (broker_call g)"
  using other_world by (auto simp: triple_def world_call_def broker_call_def case_prod_beta)

lemma state_reads_keep:
  "keeps J require_lock" "keeps J read_states" "keeps J read_events" "keeps J (state_of iid)"
  "keeps J (was_not_found iid)" "keeps J (is_halted H)" "keeps J (read_baseline B td)" "keeps J (risk_refusal L i)"
  by (auto simp: require_lock_def read_states_def read_events_def state_of_def was_not_found_def
      is_halted_def read_baseline_def risk_refusal_def intro!: keeps_intros world_calls_keep)

lemmas client_keeps = keeps_intros world_calls_keep state_reads_keep append_keeps post_keeps

lemma refuse_keeps: "keeps J (refuse (B :: 'w session_broker) run i iid reason)"
  unfolding refuse_def by (intro client_keeps)

lemma send_once_keeps: "keeps J (send_once (B :: 'w session_broker) run i iid bl)"
  unfolding send_once_def safe_submit_def Let_def by (intro client_keeps count_keeps)

lemma poll_loop_keeps_J: "keeps J (poll_loop (B :: 'w session_broker) L run i bound n)"
  by (induction n) (auto intro!: client_keeps)

lemma resolve_unknown_keeps_J: "keeps J (resolve_unknown (B :: 'w session_broker) L run i deadline)"
  by (auto simp: resolve_unknown_def resend_exit_def Let_def
      intro!: client_keeps poll_loop_keeps_J send_once_keeps split: poll_end.split)

lemma send_loop_keeps: "keeps J (send_loop (B :: 'w session_broker) L run i iid deadline bl n)"
  by (induction n arbitrary: bl) (auto intro!: client_keeps refuse_keeps send_once_keeps resolve_unknown_keeps_J)

lemma submit_keeps_J: "keeps J (submit (B :: 'w session_broker) L run iid deadline)"
  unfolding submit_def submit_ready_def Let_def
  by (intro client_keeps refuse_keeps send_loop_keeps)

lemma plan_keeps_J: "keeps J (plan (B :: 'w session_broker) run intents skips)"
  unfolding plan_def plan_intent_def plan_skip_def by (intro client_keeps)

lemma broker_state_keeps: "keeps J (append_broker_state (B :: 'w session_broker) run events iid p cs)"
  unfolding append_broker_state_def by (intro client_keeps)

lemma reconcile_keeps_J: "keeps J (reconcile (B :: 'w session_broker) run td finalize)"
  by (auto simp: reconcile_def reconcile_bind_def reconcile_state_def Let_def
      intro!: client_keeps broker_state_keeps)

lemma carryover_keeps_J: "keeps J (resolve_carryover (B :: 'w session_broker) L run as_of)"
  by (auto simp: resolve_carryover_def carryover_date_def carryover_bind_def carryover_state_def
      intro!: client_keeps broker_state_keeps)

lemma cancel_keeps_J: "keeps J (cancel_working (B :: 'w session_broker) run td)"
  unfolding cancel_working_def cancel_one_def Let_def by (auto intro!: client_keeps)

lemma operator_keeps_J: "keeps J (resolve_unknown_intent (B :: 'w session_broker) binding iid ono nf op reason ap)"
  by (auto simp: resolve_unknown_intent_def resolve_body_def resolve_adopt_def resolve_absent_def
      read_snapshot_def exclusive_def Let_def intro!: client_keeps keeps_finally other_lock)

end

sublocale journal_client \<subseteq> gateway_client J "\<lambda>_. True"
  by unfold_locales
    (rule plan_keeps_J submit_keeps_J reconcile_keeps_J carryover_keeps_J cancel_keeps_J |
     erule other_world other_lock count_keeps)+

section \<open>The journal is append-only\<close>

definition file_lines :: "jline list option \<Rightarrow> jline list" where
  "file_lines f = (case f of None \<Rightarrow> [] | Some ls \<Rightarrow> ls)"

text \<open>The file still starts with \<open>ls\<close>, and the calls to the broker with \<open>ps\<close>.\<close>

definition grown :: "jline list \<Rightarrow> (order_intent \<times> submit_verdict) list \<Rightarrow> 'w gateway_state \<Rightarrow> bool" where
  "grown ls ps s \<longleftrightarrow> prefix ls (file_lines (j_lines s)) \<and> prefix ps (gw_posted s)"

lemma grown_frame [simp]:
  "grown ls ps (s\<lparr>j_world := w\<rparr>) = grown ls ps s" "grown ls ps (s\<lparr>j_locked := l\<rparr>) = grown ls ps s"
  "grown ls ps (s\<lparr>gw_sends_made := n\<rparr>) = grown ls ps s"
  by (simp_all add: grown_def)

lemma grown_add_line: "grown ls ps s \<Longrightarrow> grown ls ps (s\<lparr>j_lines := add_line l (j_lines s)\<rparr>)"
  by (cases "j_lines s") (auto simp: grown_def file_lines_def add_line_def)

lemma write_line_grown: "keeps (grown ls ps) (write_line H l)"
  by (auto simp: write_line_def split: disk.split intro!: keeps_intros grown_add_line keeps_world_call)

interpretation journal_grows: journal_client "grown ls ps" for ls ps
proof unfold_locales
  fix B :: "'a session_broker" and kind iid p run i
  show "keeps (grown ls ps) (journal_append B kind iid p run)"
    by (auto simp: journal_append_def Let_def intro!: keeps_intros write_line_grown keeps_world_call)
  show "keeps (grown ls ps) (post_order B i)"
    by (auto simp: triple_def post_order_def grown_def case_prod_beta)
qed simp_all

section \<open>The kill switch\<close>

interpretation halted: gateway_client "posted_is ps" "\<lambda>B. \<forall>w. fst (h_halted B w)" for ps
proof unfold_locales
  fix B :: "'a session_broker" and L run iid deadline
  assume halt: "\<forall>w. fst (h_halted B w)"
  show "keeps (posted_is ps) (submit B L run iid deadline)"
  proof (rule tripleI)
    fix s r s'
    assume ps: "gw_posted s = ps" and run: "submit B L run iid deadline s = (r, s')"
    show "gw_posted s' = ps"
    proof (rule ccontr)
      assume "gw_posted s' \<noteq> ps"
      with ps have "gw_posted s' \<noteq> gw_posted s" by simp
      then show False by (rule submit_calls [OF run]) (use halt [THEN spec, of "j_world s"] in simp)
    qed
  qed
qed (auto simp: plan_def plan_intent_def plan_skip_def reconcile_def reconcile_bind_def reconcile_state_def
    append_broker_state_def resolve_carryover_def carryover_date_def carryover_bind_def carryover_state_def
    cancel_working_def cancel_one_def Let_def intro!: keeps_intros)

section \<open>Properties of a session\<close>

text \<open>A session whose world is its own time, with a HALT file or not.\<close>

definition demo_session :: "bool \<Rightarrow> decision_frame \<Rightarrow> int session_env" where
  "demo_session halt f = \<lparr>se_broker = \<lparr>h_ts = (\<lambda>w. (''t'', w)), h_disk = (\<lambda>w. (Disk_ok, w)), h_halted = (\<lambda>w. (halt, w)),
       h_lock = (\<lambda>w. (True, w)), b_submit = (\<lambda>i w. (Inr (demo_result ACCEPTED), w)),
       b_cancel = (\<lambda>org no w. (Inl OtherException, w)), b_daily_orders = (\<lambda>td w. (Inr [], w)),
       b_positions = (\<lambda>w. (Inr [], w)), b_now = (\<lambda>w. (w, w)), b_sleep = (\<lambda>x w. ((), w + 10 * 10 ^ 9)),
       sb_ensure_token = (\<lambda>w. (Inr (), w)), sb_orderable_cash = (\<lambda>sy p w. (Inr 0, w)),
       sb_price_limits = (\<lambda>sy w. (Inl BrokerReadError, w))\<rparr>,
     se_clock = (\<lambda>w. (w, w)), se_decide = (\<lambda>d w. (Inr f, w)), se_store = (\<lambda>w. (True, w)),
     se_record = (\<lambda>r w. (Inr (), w)), se_session_day = (\<lambda>d. Inr \<lparr>day_date = d, day_kind = STANDARD, day_clock = None, day_provenance = ''standard''\<rparr>),
     se_settings = \<lparr>ORDER_SEED_CAPITAL = 1000000, ORDER_MAX_NOTIONAL_PER_ORDER_KRW = 500000,
       ORDER_MAX_SENDS_PER_RUN = 5, ORDER_SEND_MAX_ATTEMPTS = 3, ORDER_UNKNOWN_RESOLVE_POLLS = 2,
       ORDER_UNKNOWN_RESOLVE_INTERVAL_SECONDS = Fin 1, ORDER_EXIT_RESEND_ON_AMBIGUOUS = False,
       ORDER_UNKNOWN_CARRYOVER_LOOKBACK_DAYS = 5, ORDER_ENTRY_LIMIT_BUFFER_BP = Fin 100\<rparr>,
     se_binding = Inr demo_binding, se_timedelta_seconds = (\<lambda>n. Fin 0)\<rparr>"

definition no_frame :: decision_frame where
  "no_frame = \<lparr>df_columns = [], df_rows = []\<rparr>"

definition demo_day_start :: "int gateway_state" where
  "demo_day_start = \<lparr>j_lines = None, j_locked = False, j_world = 0, gw_sends_made = 0, gw_posted = []\<rparr>"

text \<open>C7. A session run, in any phase, on any day, with any broker, clock and settings, leads
  from a reachable state of the gateway to a reachable one, also when it raises: all that
  holds of the gateway's states holds across the sessions of a strategy.\<close>

theorem session_stays_reachable:
  assumes "gateway_reachable s"
  shows "gateway_reachable (snd (run_order_session X fuel ph d s))"
  using keepsD [OF reach.session_keeps_invariant [OF TrueI] assms] .

lemma session_stays_reachable_witness:
  "gateway_reachable (snd (run_order_session (demo_session False no_frame) 5 ''cancel'' (2026, 3, 2) demo_day_start))"
  by (rule session_stays_reachable) (rule gateway_reachable.fresh; simp add: demo_day_start_def)

text \<open>No session run rewrites or removes a line of the journal: the old file is a prefix of
  the new one, and the calls to the broker only grow.\<close>

theorem session_appends_only:
  "prefix (file_lines (j_lines s)) (file_lines (j_lines (snd (run_order_session X fuel ph d s))))
   \<and> prefix (gw_posted s) (gw_posted (snd (run_order_session X fuel ph d s)))"
  using keepsD [OF journal_grows.session_keeps_invariant [OF TrueI, of "file_lines (j_lines s)" "gw_posted s"], of s]
  by (simp add: grown_def)

text \<open>C10. While the HALT file stands, no session run of any phase places an order: the calls to the
  broker's submit_order stay what they were.\<close>

theorem halted_session_places_nothing:
  assumes "\<And>w. fst (h_halted (se_broker X) w)"
  shows "gw_posted (snd (run_order_session X fuel ph d s)) = gw_posted s"
proof -
  have halt: "\<forall>w. fst (h_halted (gateway_port X) w)" using assms by (simp add: gateway_port_def)
  show ?thesis using keepsD [OF halted.session_keeps_invariant [OF halt, of "gw_posted s"], of s] by simp
qed

lemma halted_session_places_nothing_witness:
  "gw_posted (snd (run_order_session (demo_session True no_frame) 5 ''entry'' (2026, 3, 2) demo_day_start)) = []"
  using halted_session_places_nothing [of "demo_session True no_frame" 5 "''entry''" "(2026, 3, 2)" demo_day_start]
  by (simp add: demo_session_def demo_day_start_def)

end
