(* ===== verification/Order_Refinement.thy ===== *)
theory Order_Refinement
  imports Session_Safety
begin

text \<open>
  The contract of the gateway as an abstract machine, and the proof that the gateway and a
  whole session implement it. The machine's state is the set of entry intents that may have
  an order at the broker; it is all a caller has to know about the journal, the statuses,
  the retries and the crashes behind it.
\<close>

section \<open>The at-most-once machine\<close>

inductive order_machine :: "string set \<Rightarrow> (order_intent \<times> submit_verdict) list \<Rightarrow> string set \<Rightarrow> bool" where
  machine_stop: "order_machine T [] T"
| machine_refused: "phase i = ENTRY \<Longrightarrow> intent_id i \<notin> T \<Longrightarrow> v \<in> set safe_verdicts \<Longrightarrow>
    order_machine T cs U \<Longrightarrow> order_machine T ((i, v) # cs) U"
| machine_placed: "phase i = ENTRY \<Longrightarrow> intent_id i \<notin> T \<Longrightarrow> v \<notin> set safe_verdicts \<Longrightarrow>
    order_machine (insert (intent_id i) T) cs U \<Longrightarrow> order_machine T ((i, v) # cs) U"
| machine_exit: "phase i = EXIT \<Longrightarrow> order_machine T cs U \<Longrightarrow> order_machine T ((i, v) # cs) U"

text \<open>The abstraction: the entry intents with a call that was not provably refused.\<close>

definition may_have_order :: "'w gateway_state \<Rightarrow> string set" where
  "may_have_order s = {iid. live_posts iid (gw_posted s) \<noteq> []}"

lemma machine_accepts: "accepted_calls T cs \<Longrightarrow> order_machine T cs (fold take_call cs T)"
proof (induction T cs rule: accepted_calls.induct)
  case (2 T i v cs)
  then show ?case
    by (cases "phase i"; cases "v \<in> set safe_verdicts") (auto simp: take_call_def intro: order_machine.intros)
qed (simp add: machine_stop)

text \<open>A machine run grows its state and never touches an intent that is in it.\<close>

lemma machine_grows: "order_machine T cs U \<Longrightarrow> T \<subseteq> U"
  by (induction rule: order_machine.induct) auto

lemma machine_spares: "order_machine T cs U \<Longrightarrow> (i, v) \<in> set cs \<Longrightarrow> phase i = ENTRY \<Longrightarrow> intent_id i \<notin> T"
  by (induction rule: order_machine.induct) auto

text \<open>Whatever keeps the reachable states and only adds calls implements the machine.\<close>

lemma simulates:
  assumes "gateway_inv s'" "prefix (gw_posted s) (gw_posted s')"
  shows "\<exists>cs. gw_posted s' = gw_posted s @ cs \<and> order_machine (may_have_order s) cs (may_have_order s')"
proof -
  obtain cs where cs: "gw_posted s' = gw_posted s @ cs" using assms(2) by (auto simp: prefix_def)
  have "accepted_calls (may_have_order s) cs"
    using assms(1) by (simp add: gateway_inv_def cs accepted_calls_append taken_calls may_have_order_def)
  moreover have "fold take_call cs (may_have_order s) = may_have_order s'"
    using taken_calls [of "gw_posted s'" "{}"] taken_calls [of "gw_posted s" "{}"]
    by (simp add: cs may_have_order_def)
  ultimately show ?thesis using machine_accepts cs by metis
qed

section \<open>The gateway implements it\<close>

lemma keeps_grown: "keeps (grown [] (gw_posted s)) m \<Longrightarrow> m s = (r, s') \<Longrightarrow> prefix (gw_posted s) (gw_posted s')"
  by (drule tripleD [where s = s]) (auto simp: grown_def)

lemma step_grows: "gateway_step s s' \<Longrightarrow> prefix (gw_posted s) (gw_posted s')"
proof (induction rule: gateway_step.induct)
qed (auto intro: keeps_grown [OF journal_grows.plan_keeps_J] keeps_grown [OF journal_grows.submit_keeps_J]
    keeps_grown [OF journal_grows.reconcile_keeps_J] keeps_grown [OF journal_grows.carryover_keeps_J]
    keeps_grown [OF journal_grows.cancel_keeps_J] keeps_grown [OF journal_grows.operator_keeps_J])

text \<open>C13. Refinement: one step of the gateway from a reachable state, whichever operation it is
  and however it ends, is a run of the at-most-once machine: the calls it makes to the
  broker's submit_order are ones the machine allows, and lead to the abstraction of its
  final state.\<close>

theorem gateway_implements_order_machine:
  assumes "gateway_reachable s" "gateway_step s s'"
  shows "\<exists>cs. gw_posted s' = gw_posted s @ cs \<and> order_machine (may_have_order s) cs (may_have_order s')"
  by (rule simulates [OF gateway_reachable_inv [OF gateway_reachable.step [OF assms]] step_grows [OF assms(2)]])

lemma gateway_implements_order_machine_witness:
  "\<exists>cs. gw_posted (snd (demo_submit (Inr (demo_result ACCEPTED)) False demo_planned)) = gw_posted demo_planned @ cs
     \<and> order_machine (may_have_order demo_planned) cs
         (may_have_order (snd (demo_submit (Inr (demo_result ACCEPTED)) False demo_planned)))"
  by (rule gateway_implements_order_machine [OF demo_planned_reachable])
    (unfold demo_submit_def, rule step_submit [OF prod.collapse [symmetric]])

section \<open>The session implements it\<close>

text \<open>C14. Refinement: a whole session run, in any phase, on any day and against any broker and
  clock, is a run of the same machine, so sessions compose: no entry intent that may have
  an order after one session is sent by the next.\<close>

theorem session_implements_order_machine:
  assumes "gateway_reachable s"
  shows "\<exists>cs. gw_posted (snd (run_order_session X fuel ph d s)) = gw_posted s @ cs
    \<and> order_machine (may_have_order s) cs (may_have_order (snd (run_order_session X fuel ph d s)))"
proof (rule simulates)
  let ?s' = "snd (run_order_session X fuel ph d s)"
  show "gateway_inv ?s'"
    using gateway_reachable_inv [OF keepsD [OF reach.session_keeps_invariant [OF TrueI] assms]] .
  show "prefix (gw_posted s) (gw_posted ?s')"
    using keepsD [OF journal_grows.session_keeps_invariant [OF TrueI, of "[]" "gw_posted s"], of s]
    by (simp add: grown_def)
qed

lemma session_implements_order_machine_witness:
  "\<exists>cs. gw_posted (snd (run_order_session (demo_session False no_frame) 5 ''cancel'' (2026, 3, 2) demo_day_start)) = cs
    \<and> order_machine {} cs (may_have_order (snd (run_order_session (demo_session False no_frame) 5 ''cancel'' (2026, 3, 2) demo_day_start)))"
proof -
  have "gateway_reachable demo_day_start" by (rule gateway_reachable.fresh) (simp_all add: demo_day_start_def)
  from session_implements_order_machine [OF this, of "demo_session False no_frame" 5 "''cancel''" "(2026, 3, 2)"]
  show ?thesis by (simp add: demo_day_start_def may_have_order_def live_posts_def)
qed

end
