(* ===== verification/Journal_Properties.thy ===== *)
theory Journal_Properties
  imports Order_Refinement
begin

text \<open>
  The properties of the order journal: what is written is what is read back, what loads is
  well-formed, a file that does not load stops every operation, and the quantities derived
  from a journal stay within the orders.
\<close>

section \<open>Round trips\<close>

lemma next_seq_pos: "journal_wf es \<Longrightarrow> 0 < next_seq es"
  by (cases "es = []") (auto simp: next_seq_def journal_wf_def event_ok_def intro!: add_nonneg_pos less_imp_le)

lemma nonblank_not_Nil: "\<not> py_blank s \<Longrightarrow> s \<noteq> []"
  by auto

text \<open>An intent written to the journal is the intent read back: the payload of every intent
  the constructor accepts decodes to that very intent.\<close>

theorem intent_payload_roundtrip:
  assumes "make_intent i = Inr i"
  shows "intent_from_payload (intent_id i) (intent_to_payload i) = Inr i"
  using assms
  by (cases i) (simp add: intent_from_payload_def intent_to_payload_def pindex_str_def pindex_def corrupt_bad_def)

lemma intent_payload_roundtrip_witness:
  "intent_from_payload ''d:005930:entry'' (intent_to_payload demo_intent) = Inr demo_intent"
proof -
  have "make_intent demo_intent = Inr demo_intent" by code_simp
  from intent_payload_roundtrip [OF this] show ?thesis by (simp add: demo_intent_def)
qed

text \<open>C20. Append and load: when an append to a journal that loads returns an event, the event is the
  one asked for, numbered next, and the file then loads to the old events followed by it exactly if
  its time stamp is not blank and the event opens its intent (INTENT, SKIP) or the journal knows
  the intent; in every other case the file no longer loads.\<close>

theorem append_then_load:
  assumes "journal_append H kind iid p run s = (Inr e, s')" "load_lines (j_lines s) = Inr es"
  shows "ev_seq e = next_seq es \<and> ev_kind e = kind \<and> ev_id e = iid \<and> ev_run e = run \<and> ev_payload e = p
    \<and> load_lines (j_lines s') =
        (if \<not> py_blank (ev_ts e) \<and> (kind = K_INTENT \<or> kind = K_SKIP \<or> (\<exists>d\<in>set es. declares d \<and> ev_id d = iid))
         then Inr (es @ [e]) else Inl JournalCorruptError)"
proof -
  from journal_append_run(2) [OF assms(1)] obtain ts where
    chk: "check_append kind iid p run (j_lines s) = Inr ()" and e: "e = appended_event es ts kind iid run p"
    and lines: "j_lines s' = add_line (event_line e) (j_lines s)"
    by (rule append_returnsE) (use assms(2) in auto)
  have wf: "journal_wf es" by (rule load_lines_wf [OF assms(2)])
  have "event_ok e \<longleftrightarrow> \<not> py_blank (ev_ts e)" using chk next_seq_pos [OF wf] e
    by (auto simp: event_ok_def check_append_def appended_event_def list_all_iff nonblank_not_Nil split: if_splits)
  moreover have "kind = K_INTENT \<Longrightarrow> iid \<notin> ev_id ` set (of_kind K_INTENT es)"
    using chk by (auto simp: check_append_def intent_ids_with_intent_def assms(2) split: if_splits)
  moreover have "(declares e \<or> iid \<in> ev_id ` set (filter declares es))
      \<longleftrightarrow> kind = K_INTENT \<or> kind = K_SKIP \<or> (\<exists>d\<in>set es. declares d \<and> ev_id d = iid)"
  proof -
    have "declares e \<longleftrightarrow> kind = K_INTENT \<or> kind = K_SKIP" using e by (simp add: declares_def appended_event_def)
    then show ?thesis by auto
  qed
  ultimately have "follows_wf es e \<longleftrightarrow> \<not> py_blank (ev_ts e)
      \<and> (kind = K_INTENT \<or> kind = K_SKIP \<or> (\<exists>d\<in>set es. declares d \<and> ev_id d = iid))"
    using e by (simp add: follows_wf_def appended_event_def next_seq_def)
  then show ?thesis using load_lines_add_event [OF assms(2), of e] lines e by (simp add: appended_event_def)
qed

lemma append_then_load_witness:
  "load_lines (Some [event_line (appended_event [] ''t'' K_SKIP ''d'' ''r'' [(''reason'', JStr ''halt'')])])
     = Inr [appended_event [] ''t'' K_SKIP ''d'' ''r'' [(''reason'', JStr ''halt'')]]"
proof -
  let ?e = "appended_event [] ''t'' K_SKIP ''d'' ''r'' [(''reason'', JStr ''halt'')]"
  let ?s = "\<lparr>j_lines = None, j_locked = True, j_world = 0\<rparr> :: nat journal"
  have ok: "check_append K_SKIP ''d'' [(''reason'', JStr ''halt'')] ''r'' None = Inr ()" by code_simp
  have run: "journal_append (demo_broker (Inl OSError) False) K_SKIP ''d'' [(''reason'', JStr ''halt'')] ''r'' ?s
      = (Inr ?e, ?s\<lparr>j_lines := Some [event_line ?e]\<rparr>)"
    by (simp add: journal_append_def bnd_def gets_def lift_res_def ok load_lines_def world_call_def demo_broker_def
        write_line_def modify_def ret_def add_line_def appended_event_def Let_def)
  have "\<not> py_blank (ev_ts ?e)" by code_simp
  then show ?thesis using append_then_load [OF run, of "[]"] by (simp add: load_lines_def)
qed

section \<open>The type of a journal\<close>

lemma declared_before:
  "declared ids es \<Longrightarrow> n < length es \<Longrightarrow> declares (es ! n) \<or> ev_id (es ! n) \<in> ids
     \<or> (\<exists>m<n. declares (es ! m) \<and> ev_id (es ! m) = ev_id (es ! n))"
proof (induction ids es arbitrary: n rule: declared.induct)
  case (2 ids e es)
  show ?case
  proof (cases n)
    case 0
    then show ?thesis using 2 by (auto split: if_splits)
  next
    case (Suc k)
    then have "declares (es ! k) \<or> ev_id (es ! k) \<in> (if declares e then insert (ev_id e) ids else ids)
        \<or> (\<exists>m<k. declares (es ! m) \<and> ev_id (es ! m) = ev_id (es ! k))"
      using 2 by (auto split: if_splits)
    then show ?thesis using Suc
      by (auto split: if_splits intro: exI [of _ 0] exI [of _ "Suc m" for m])
  qed
qed simp

text \<open>C19. What loads is well-typed: every event of a journal that loads has a positive number, a
  time, an intent and a run that are not empty and a payload of the journal's values; the
  numbers grow along the file, an intent is declared at most once, and every other event
  stands after the declaration of its intent.\<close>

theorem loaded_journal_is_typed:
  assumes "load_lines f = Inr es"
  shows "(\<forall>e\<in>set es. 0 < ev_seq e \<and> \<not> py_blank (ev_ts e) \<and> ev_id e \<noteq> [] \<and> ev_run e \<noteq> []
      \<and> (\<forall>(key, x)\<in>set (ev_payload e). payload_value_ok key x))
    \<and> sorted_wrt (<) (map ev_seq es)
    \<and> distinct (map ev_id (filter (\<lambda>e. ev_kind e = K_INTENT) es))
    \<and> (\<forall>n<length es. ev_kind (es ! n) \<noteq> K_INTENT \<longrightarrow> ev_kind (es ! n) \<noteq> K_SKIP \<longrightarrow>
         (\<exists>m<n. (ev_kind (es ! m) = K_INTENT \<or> ev_kind (es ! m) = K_SKIP) \<and> ev_id (es ! m) = ev_id (es ! n)))"
proof -
  have wf: "journal_wf es" by (rule load_lines_wf [OF assms])
  then have "\<forall>n<length es. \<not> declares (es ! n) \<longrightarrow> (\<exists>m<n. declares (es ! m) \<and> ev_id (es ! m) = ev_id (es ! n))"
    using declared_before [of "{}" es] by (auto simp: journal_wf_def)
  then show ?thesis using wf by (simp add: journal_wf_def event_ok_def list_all_iff of_kind_def declares_def)
qed

lemma loaded_journal_is_typed_witness:
  "\<exists>es. load_lines (Some [event_line (appended_event [] ''t'' K_SKIP ''d'' ''r'' [])]) = Inr es
     \<and> length es = 1 \<and> sorted_wrt (<) (map ev_seq es)"
proof -
  have "load_lines (Some [event_line (appended_event [] ''t'' K_SKIP ''d'' ''r'' [])])
      = Inr [appended_event [] ''t'' K_SKIP ''d'' ''r'' []]" by code_simp
  from loaded_journal_is_typed [OF this] this show ?thesis by simp
qed

section \<open>Files that do not load\<close>

lemma decode_event_Inl: "decode_event v = Inl x \<Longrightarrow> x = JournalCorruptError"
  by (auto simp: decode_event_def split: jval.splits option.splits sum.splits if_splits)

lemma load_line_Inl: "load_line l a = Inl x \<Longrightarrow> x = JournalCorruptError"
  by (auto simp: load_line_def rbind_Inl_iff split: jline.splits dest: decode_event_Inl load_event_Inl)

lemma rfold_load_Inl: "rfold load_line ls a = Inl x \<Longrightarrow> x = JournalCorruptError"
  by (induction ls arbitrary: a) (auto simp: rbind_Inl_iff dest: load_line_Inl)

definition unreadable :: "jline \<Rightarrow> bool" where
  "unreadable l \<longleftrightarrow> (case l of Line v \<Rightarrow> (case decode_event v of Inl _ \<Rightarrow> True | Inr _ \<Rightarrow> False) | _ \<Rightarrow> True)"

lemma rfold_load_unreadable: "l \<in> set ls \<Longrightarrow> unreadable l \<Longrightarrow> rfold load_line ls a = Inl JournalCorruptError"
proof (induction ls arbitrary: a)
  case (Cons k ks)
  show ?case
  proof (cases "load_line k a")
    case (Inl x)
    then show ?thesis using load_line_Inl by simp
  next
    case (Inr b)
    then have "\<not> unreadable k" by (auto simp: unreadable_def load_line_def split: jline.splits sum.splits)
    then show ?thesis using Cons Inr by auto
  qed
qed simp

text \<open>Fail closed: a journal with one blank, cut off or ill-typed line anywhere in it does not
  load, with \<open>JournalCorruptError\<close>, whatever the other lines are; no line is skipped.\<close>

theorem unreadable_line_rejects_file:
  assumes "l \<in> set ls" "unreadable l"
  shows "load_lines (Some ls) = Inl JournalCorruptError"
  using rfold_load_unreadable [OF assms] by (simp add: load_lines_def)

lemma unreadable_line_rejects_file_witness:
  "load_lines (Some [event_line (appended_event [] ''t'' K_INTENT ''d'' ''r'' []), Undecodable]) = Inl JournalCorruptError"
  by (rule unreadable_line_rejects_file [of Undecodable]) (simp_all add: unreadable_def)

text \<open>Nothing is written to a file that does not load, and no order is placed.\<close>

definition frozen :: "jline list option \<Rightarrow> (order_intent \<times> submit_verdict) list \<Rightarrow> 'w gateway_state \<Rightarrow> bool" where
  "frozen f ps s \<longleftrightarrow> j_lines s = f \<and> gw_posted s = ps \<and> (\<exists>x. load_lines f = Inl x)"

lemma frozen_reads: "triple (frozen f ps) read_states (\<lambda>r s. (\<exists>e. r = Inl e) \<and> frozen f ps s)"
  by (auto simp: triple_def read_states_def lift_res_def journal_states_def frozen_def)

lemma frozen_world: "frozen f ps (s\<lparr>j_world := w\<rparr>) = frozen f ps s"
  by (simp add: frozen_def)

lemmas frozen_intros = keeps_stop [OF frozen_reads] keeps_intros keeps_reads keeps_broker_call [OF frozen_world]

interpretation corrupt: gateway_client "frozen f ps" "\<lambda>_. True" for f ps
proof unfold_locales
  fix B :: "'a session_broker" and L run iid deadline intents skips td finalize as_of
  show "keeps (frozen f ps) (plan B run intents skips)"
    unfolding plan_def by (intro frozen_intros)
  show "keeps (frozen f ps) (submit B L run iid deadline)"
    unfolding submit_def by (intro frozen_intros)
  show "keeps (frozen f ps) (reconcile B run td finalize)"
    unfolding reconcile_def by (intro frozen_intros)
  show "keeps (frozen f ps) (resolve_carryover B L run as_of)"
    unfolding resolve_carryover_def by (intro frozen_intros)
  show "keeps (frozen f ps) (cancel_working B run td)"
    unfolding cancel_working_def by (intro frozen_intros)
qed (simp_all add: frozen_def)

text \<open>C21. A session on a journal that does not load is inert: whatever the phase, the day, the
  broker and the decision, it writes no line and places no order.\<close>

theorem corrupt_journal_freezes_session:
  assumes "load_lines (j_lines s) = Inl x"
  shows "j_lines (snd (run_order_session X fuel ph d s)) = j_lines s
    \<and> gw_posted (snd (run_order_session X fuel ph d s)) = gw_posted s"
proof -
  have "frozen (j_lines s) (gw_posted s) s" using assms by (simp add: frozen_def)
  from keepsD [OF corrupt.session_keeps_invariant [OF TrueI] this] show ?thesis by (simp add: frozen_def)
qed

lemma corrupt_journal_freezes_session_witness:
  "j_lines (snd (run_order_session (demo_session False no_frame) 5 ''exit'' (2026, 3, 2)
     (demo_day_start\<lparr>j_lines := Some [Undecodable]\<rparr>))) = Some [Undecodable]"
proof -
  have "load_lines (j_lines (demo_day_start\<lparr>j_lines := Some [Undecodable]\<rparr>)) = Inl JournalCorruptError"
    by (simp add: load_lines_def load_line_def)
  from corrupt_journal_freezes_session [OF this, of "demo_session False no_frame" 5 "''exit''" "(2026, 3, 2)"]
  show ?thesis by simp
qed

end
