(* ===== verification/Session_Wait.thy ===== *)
theory Session_Wait
  imports Session_Safety Journal_Properties
begin

text \<open>
  The waiting of the session ends: under a clock that moves forward and a sleep that sleeps,
  the entry run's wait for a decision returns within its window's number of polls, and the
  reconcile of a past day makes one round.
\<close>

section \<open>A clock that moves\<close>

definition hour_ns :: int where
  "hour_ns = 3600 * 10 ^ 9"

text \<open>
  The hypotheses on the parameters, over the true time \<open>time w\<close> of a world: the clock tells
  it, no call goes back in time or takes an hour, and the sleep of a poll lasts at least as
  long as asked (\<open>asyncio.sleep\<close>). \<open>NotReturned\<close> is no exception of the decision loader.
\<close>

definition orderly_clock :: "'w session_env \<Rightarrow> ('w \<Rightarrow> int) \<Rightarrow> bool" where
  "orderly_clock X time \<longleftrightarrow>
     (\<forall>w. fst (se_clock X w) = time w \<and> time w \<le> time (snd (se_clock X w))
        \<and> time (snd (se_clock X w)) \<le> time w + hour_ns)
     \<and> (\<forall>d w. fst (se_decide X d w) \<noteq> Inl NotReturned \<and> time w \<le> time (snd (se_decide X d w))
        \<and> time (snd (se_decide X d w)) \<le> time w + hour_ns)
     \<and> (\<forall>w. time w + 2 * 10 ^ 9 \<le> time (snd (b_sleep (se_broker X) ORDER_DECISION_POLL_SECONDS w))
        \<and> time (snd (b_sleep (se_broker X) ORDER_DECISION_POLL_SECONDS w)) \<le> time w + hour_ns)"

definition of_day :: "int \<Rightarrow> int" where
  "of_day n = n mod day_ns"

lemma of_day_forward: "n \<le> m \<Longrightarrow> of_day n + (m - n) < day_ns \<Longrightarrow> of_day m = of_day n + (m - n)"
proof -
  assume "n \<le> m" and less: "of_day n + (m - n) < day_ns"
  have "0 \<le> n mod day_ns" by (simp add: day_ns_def)
  then have "0 \<le> of_day n + (m - n)" using \<open>n \<le> m\<close> by (simp add: of_day_def)
  then have "(of_day n + (m - n)) mod day_ns = of_day n + (m - n)" using less by (rule mod_pos_pos_trivial)
  then show ?thesis by (simp add: of_day_def mod_add_left_eq)
qed

lemma second_of_day_ge: "k \<le> second_of_day n \<longleftrightarrow> int k * 10 ^ 9 \<le> of_day n"
proof -
  have "0 \<le> n mod day_ns" by (simp add: day_ns_def)
  then have "k \<le> second_of_day n \<longleftrightarrow> int k \<le> n mod day_ns div 10 ^ 9"
    by (simp add: second_of_day_def nat_le_iff pos_imp_zdiv_nonneg_iff le_nat_iff)
  also have "\<dots> \<longleftrightarrow> int k * 10 ^ 9 \<le> of_day n"
  proof -
    have "i \<le> x div 1000000000 \<longleftrightarrow> i * 1000000000 \<le> x" for i x :: int
    proof -
      have "x = x div 1000000000 * 1000000000 + x mod 1000000000" "0 \<le> x mod 1000000000" "x mod 1000000000 < 1000000000"
        by simp_all
      then show ?thesis by linarith
    qed
    then show ?thesis by (simp add: of_day_def)
  qed
  finally show ?thesis .
qed

text \<open>One round: it ends the wait, or starts the next one at least two seconds later.\<close>

lemma await_round:
  fixes s :: "'w gateway_state"
  assumes orderly: "orderly_clock X time"
    and early: "of_day (time (j_world s)) < 72000 * 10 ^ 9"
    and enough: "55680 * 10 ^ 9 \<le> of_day (time (j_world s)) + int fuel * (2 * 10 ^ 9)"
    and IH: "\<And>s' :: 'w gateway_state. 0 < fuel \<Longrightarrow> of_day (time (j_world s')) < 72000 * 10 ^ 9 \<Longrightarrow>
      55680 * 10 ^ 9 \<le> of_day (time (j_world s')) + int (fuel - 1) * (2 * 10 ^ 9) \<Longrightarrow>
      fst (await_decision X d fuel s') \<noteq> Inl NotReturned"
  shows "fst (await_decision X d (Suc fuel) s) \<noteq> Inl NotReturned"
proof -
  let ?t = "time (j_world s)"
  obtain r w1 where decide: "se_decide X d (j_world s) = (r, w1)" by (cases "se_decide X d (j_world s)")
  obtain n w2 where clock: "se_clock X w1 = (n, w2)" by (cases "se_clock X w1")
  obtain u w3 where sleep: "b_sleep (se_broker X) ORDER_DECISION_POLL_SECONDS w2 = (u, w3)"
    by (cases "b_sleep (se_broker X) ORDER_DECISION_POLL_SECONDS w2")
  have r: "r \<noteq> Inl NotReturned" and n: "n = time w1" "?t \<le> n" "n \<le> ?t + hour_ns"
    and w3: "n + 2 * 10 ^ 9 \<le> time w3" "time w3 \<le> n + 2 * hour_ns"
  proof -
    have "fst (se_decide X d (j_world s)) \<noteq> Inl NotReturned" "fst (se_clock X w1) = time w1"
      "?t \<le> time (snd (se_decide X d (j_world s)))" "time (snd (se_decide X d (j_world s))) \<le> ?t + hour_ns"
      "time w1 \<le> time (snd (se_clock X w1))" "time (snd (se_clock X w1)) \<le> time w1 + hour_ns"
      "time w2 + 2 * 10 ^ 9 \<le> time (snd (b_sleep (se_broker X) ORDER_DECISION_POLL_SECONDS w2))"
      "time (snd (b_sleep (se_broker X) ORDER_DECISION_POLL_SECONDS w2)) \<le> time w2 + hour_ns"
      using orderly unfolding orderly_clock_def by blast+
    then show "r \<noteq> Inl NotReturned" "n = time w1" "?t \<le> n" "n \<le> ?t + hour_ns"
      "n + 2 * 10 ^ 9 \<le> time w3" "time w3 \<le> n + 2 * hour_ns"
      using decide clock sleep by simp_all
  qed
  have read: "of_day n = of_day ?t + (n - ?t)"
    using early n by (intro of_day_forward) (simp_all add: day_ns_def hour_ns_def)
  show ?thesis
  proof (cases "\<exists>f. r = Inr f \<and> frame_empty f \<and> of_day n < 55680 * 10 ^ 9")
    case False
    have "ORDER_ENTRY_DECISION_WAIT_DEADLINE_HHMMSS \<le> hhmmss n \<longleftrightarrow> 55680 * 10 ^ 9 \<le> of_day n"
      using second_of_day_ge [of 55680 n] by (simp add: hhmmss_cases)
    with False r decide clock show ?thesis
      by (cases r) (auto simp: bnd_def broker_call_def now_of_def world_call_def ret_def)
  next
    case True
    have small: "of_day n < 55680 * 10 ^ 9" using True by blast
    have later: "of_day (time w3) = of_day n + (time w3 - n)"
      using small w3 by (intro of_day_forward) (simp_all add: day_ns_def hour_ns_def)
    have fuel: "0 < fuel" using True enough read n by (cases fuel) auto
    then have "55680 * 10 ^ 9 \<le> of_day (time w3) + int (fuel - 1) * (2 * 10 ^ 9)"
      using enough later read n w3 by (simp add: algebra_simps of_nat_diff)
    moreover have "of_day (time w3) < 72000 * 10 ^ 9" using later small w3 by (simp add: hour_ns_def)
    moreover have "\<not> ORDER_ENTRY_DECISION_WAIT_DEADLINE_HHMMSS \<le> hhmmss n"
      using small second_of_day_ge [of 55680 n] by (simp add: hhmmss_cases)
    ultimately show ?thesis using IH [OF fuel, of "s\<lparr>j_world := w3\<rparr>"] True decide clock sleep
      by (auto simp: bnd_def broker_call_def now_of_def sleep_for_def world_call_def)
  qed
qed

lemma await_decision_ends:
  fixes s :: "'w gateway_state"
  assumes orderly: "orderly_clock X time"
  shows "of_day (time (j_world s)) < 72000 * 10 ^ 9 \<Longrightarrow>
    55680 * 10 ^ 9 \<le> of_day (time (j_world s)) + int fuel * (2 * 10 ^ 9) \<Longrightarrow>
    fst (await_decision X d (Suc fuel) s) \<noteq> Inl NotReturned"
  by (induction fuel arbitrary: s) (rule await_round [OF orderly]; simp)+

section \<open>Properties\<close>

text \<open>The entry run's wait for a decision ends: under an orderly clock, started before 20:00, it
  returns within 27841 polls, whatever the decision loader gives.\<close>

theorem await_decision_returns:
  fixes s :: "'w gateway_state"
  assumes "orderly_clock X time" "of_day (time (j_world s)) < 72000 * 10 ^ 9" "27841 \<le> fuel"
  shows "fst (await_decision X d fuel s) \<noteq> Inl NotReturned"
proof -
  obtain k where k: "fuel = Suc k" "27840 \<le> k" using assms(3) by (cases fuel) auto
  have "0 \<le> of_day (time (j_world s))" by (simp add: of_day_def day_ns_def)
  then have "55680 * 10 ^ 9 \<le> of_day (time (j_world s)) + int k * (2 * 10 ^ 9)" using k(2) by simp
  then show ?thesis unfolding k(1) by (rule await_decision_ends [OF assms(1,2)])
qed

lemma await_decision_returns_witness:
  "fst (await_decision (demo_session False \<lparr>df_columns = [], df_rows = []\<rparr>) (2026, 3, 2) 30000
     \<lparr>j_lines = None, j_locked = False, j_world = 0, gw_sends_made = 0, gw_posted = []\<rparr>) \<noteq> Inl NotReturned"
  by (rule await_decision_returns [where time = id])
    (simp_all add: orderly_clock_def demo_session_def hour_ns_def of_day_def)

section \<open>The reconcile loop\<close>

text \<open>The reads of the journal raise exceptions of the program, never \<open>NotReturned\<close>.\<close>

definition answers :: "'a res \<Rightarrow> bool" where
  "answers r \<longleftrightarrow> r \<noteq> Inl NotReturned"

named_theorems answers_intros \<open>results that are the program's own\<close>

lemma answers_basic [answers_intros]: "answers (Inr x)" "e \<noteq> NotReturned \<Longrightarrow> answers (Inl e)"
  by (simp_all add: answers_def)

lemma answers_rbind [answers_intros]: "answers r \<Longrightarrow> (\<And>x. answers (f x)) \<Longrightarrow> answers (rbind r f)"
  by (cases r) (simp_all add: answers_def)

lemma answers_split [answers_intros]:
  "answers a \<Longrightarrow> answers b \<Longrightarrow> answers (if c then a else b)"
  "answers a \<Longrightarrow> (\<And>x. answers (f x)) \<Longrightarrow> answers (case v of None \<Rightarrow> a | Some x \<Rightarrow> f x)"
  "(\<And>x y. answers (g x y)) \<Longrightarrow> answers (case z of (x, y) \<Rightarrow> g x y)"
  by (simp_all split: option.splits prod.splits)

lemma answers_rfold [answers_intros]: "(\<And>x a. answers (f x a)) \<Longrightarrow> answers (rfold f xs a)"
  by (induction xs arbitrary: a) (simp_all add: answers_intros)

lemma answers_rmap [answers_intros]: "(\<And>x. answers (f x)) \<Longrightarrow> answers (rmap f xs)"
  by (induction xs) (simp_all add: answers_intros)

lemma answers_rforeach: "(\<And>x. x \<in> set xs \<Longrightarrow> answers (f x)) \<Longrightarrow> answers (rforeach f xs)"
  by (induction xs) (simp_all add: answers_intros)

lemma payload_int_answers [answers_intros]: "answers (payload_int p k)"
  by (simp add: payload_int_def answers_def split: jval.splits)

lemma intent_from_payload_answers [answers_intros]: "answers (intent_from_payload iid p)"
proof -
  have "answers (corrupt_bad r)" if "answers r" for r :: "order_intent res"
    using that by (cases r) (simp_all add: corrupt_bad_def answers_def)
  moreover have "answers (pindex p k)" "answers (phase_of t)" "answers (side_of t)" "answers (type_of t)"
    "answers (make_intent i)" for k t i
    by (auto simp: pindex_def phase_of_def side_of_def type_of_def enum_of_def make_intent_def answers_def
        split: option.splits if_splits)
  moreover have "answers (py_int v)" for v
    by (cases v) (auto simp: int_of_str_def answers_def Let_def split: fl.splits option.splits prod.splits)
  ultimately show ?thesis unfolding intent_from_payload_def pindex_str_def by (simp add: answers_intros)
qed

lemma payload_baseline_answers [answers_intros]: "answers (payload_baseline p)"
proof -
  have "answers (baseline_element v)" for v
    by (simp add: baseline_element_def answers_def Let_def split: jval.splits)
  then have "answers (rmap baseline_element xs)" for xs by (rule answers_rmap)
  then show ?thesis by (auto simp: payload_baseline_def answers_basic answers_rbind split: option.splits jval.splits)
qed

lemma validate_operator_payload_answers [answers_intros]: "answers (validate_operator_payload p)"
  by (simp add: validate_operator_payload_def answers_def Let_def)

lemma derive_fields_answers [answers_intros]: "answers (derive_fields intent es)"
proof -
  have "answers (derive_order_no es)"
    unfolding derive_order_no_def by (rule answers_rfold) (simp add: answers_def split: sum.splits)
  moreover have "answers (derive_fills intent es)"
    unfolding derive_fills_def check_fill_def Let_def by (simp add: answers_intros)
  moreover have "answers (derive_status intent es)"
    unfolding derive_status_def final_status_def by (simp add: answers_intros split: option.splits)
  moreover have "answers (derive_baseline es)"
    unfolding derive_baseline_def by (simp add: answers_intros)
  ultimately show ?thesis unfolding derive_fields_def by (simp add: answers_intros split: prod.splits)
qed

lemma derive_intent_state_answers [answers_intros]: "answers (derive_intent_state es)"
proof (induction es rule: length_induct)
  case (1 es)
  have fewer: "answers (derive_intent_state (take i (sort_key ev_seq es)))" if "i < length es" for i
    using 1 that by simp
  have "answers (derive_intent (sort_key ev_seq es))"
    unfolding derive_intent_def by (simp add: answers_intros)
  moreover have "answers (rforeach (\<lambda>i. if ev_kind (sort_key ev_seq es ! i) = K_OPERATOR_RESOLVE then
        rbind (validate_operator_payload (ev_payload (sort_key ev_seq es ! i))) (\<lambda>_.
          if i = 0 then Inl JournalCorruptError
          else rbind (derive_intent_state (take i (sort_key ev_seq es))) (\<lambda>prior.
            if resolvable (st_status prior) then Inr () else Inl JournalCorruptError))
        else Inr ()) [0..<length (sort_key ev_seq es)])"
    by (rule answers_rforeach) (simp add: answers_intros fewer)
  ultimately show ?case
    unfolding derive_intent_state.simps [of es] Let_def by (simp add: answers_intros)
qed

lemma read_states_answers: "fst (read_states s) \<noteq> Inl NotReturned"
proof -
  have "answers (load_lines f)" for f
    by (auto simp: load_lines_def answers_def rbind_Inl_iff dest: rfold_load_Inl split: option.splits)
  then have "answers (journal_states (j_lines s))"
    unfolding journal_states_def events_states_def by (simp add: answers_intros split: prod.splits)
  then show ?thesis by (simp add: read_states_def lift_res_def answers_def)
qed

text \<open>The clock as above; one round of reads goes forward, takes at most an hour and raises only
  exceptions of the program, and the sleep between two rounds lasts at least as long as asked.\<close>

definition orderly_rounds :: "'w session_env \<Rightarrow> string \<Rightarrow> string \<Rightarrow> ('w \<Rightarrow> int) \<Rightarrow> bool" where
  "orderly_rounds X run date_str time \<longleftrightarrow>
     (\<forall>w. fst (se_clock X w) = time w \<and> time w \<le> time (snd (se_clock X w))
        \<and> time (snd (se_clock X w)) \<le> time w + hour_ns)
     \<and> (\<forall>f s. fst (reconcile_round X run date_str f s) \<noteq> Inl NotReturned
        \<and> time (j_world s) \<le> time (j_world (snd (reconcile_round X run date_str f s)))
        \<and> time (j_world (snd (reconcile_round X run date_str f s))) \<le> time (j_world s) + hour_ns)
     \<and> (\<forall>w. time w + 10 * 10 ^ 9 \<le> time (snd (b_sleep (se_broker X) ORDER_RECONCILE_POLL_SECONDS w))
        \<and> time (snd (b_sleep (se_broker X) ORDER_RECONCILE_POLL_SECONDS w)) \<le> time w + hour_ns)"

lemma bnd_ret: "bnd (ret a) f = f a"
  by (simp add: bnd_def ret_def fun_eq_iff)

text \<open>One round. It ends the polling, with a result that does not depend on the fuel, or, and only
  before the deadline, goes on at least ten seconds later.\<close>

lemma reconcile_poll:
  fixes s :: "'w gateway_state"
  assumes orderly: "orderly_rounds X run date_str time"
  obtains (ends) r where "fst r \<noteq> Inl NotReturned"
      "\<And>fuel. reconcile_polls X run date_str scope backdated deadline (Suc fuel) acc s = r"
  | (again) acc' s' where "\<not> backdated" "\<not> deadline \<le> hhmmss (time (j_world s))"
      "time (j_world s) + 10 * 10 ^ 9 \<le> time (j_world s')" "time (j_world s') \<le> time (j_world s) + 3 * hour_ns"
      "\<And>fuel. reconcile_polls X run date_str scope backdated deadline (Suc fuel) acc s
        = reconcile_polls X run date_str scope backdated deadline fuel acc' s'"
proof -
  obtain n w1 where clock: "se_clock X (j_world s) = (n, w1)" by (cases "se_clock X (j_world s)")
  let ?past = "backdated \<or> deadline \<le> hhmmss n"
  let ?f = "backdated \<or> (scope = ENTRY \<and> ?past)"
  let ?s1 = "s\<lparr>j_world := w1\<rparr>"
  obtain r s2 where round: "reconcile_round X run date_str ?f ?s1 = (r, s2)"
    by (cases "reconcile_round X run date_str ?f ?s1")
  obtain u w3 where sleep: "b_sleep (se_broker X) ORDER_RECONCILE_POLL_SECONDS (j_world s2) = (u, w3)"
    by (cases "b_sleep (se_broker X) ORDER_RECONCILE_POLL_SECONDS (j_world s2)")
  have n: "n = time (j_world s)" and w3: "n + 10 * 10 ^ 9 \<le> time w3" "time w3 \<le> n + 3 * hour_ns"
    and real: "r \<noteq> Inl NotReturned"
  proof -
    have "fst (se_clock X (j_world s)) = time (j_world s)" "time (j_world s) \<le> time (snd (se_clock X (j_world s)))"
      "time (snd (se_clock X (j_world s))) \<le> time (j_world s) + hour_ns"
      "fst (reconcile_round X run date_str ?f ?s1) \<noteq> Inl NotReturned"
      "time (j_world ?s1) \<le> time (j_world (snd (reconcile_round X run date_str ?f ?s1)))"
      "time (j_world (snd (reconcile_round X run date_str ?f ?s1))) \<le> time (j_world ?s1) + hour_ns"
      "time (j_world s2) + 10 * 10 ^ 9 \<le> time (snd (b_sleep (se_broker X) ORDER_RECONCILE_POLL_SECONDS (j_world s2)))"
      "time (snd (b_sleep (se_broker X) ORDER_RECONCILE_POLL_SECONDS (j_world s2))) \<le> time (j_world s2) + hour_ns"
      using orderly unfolding orderly_rounds_def by blast+
    then show "n = time (j_world s)" "n + 10 * 10 ^ 9 \<le> time w3" "time w3 \<le> n + 3 * hour_ns" "r \<noteq> Inl NotReturned"
      using clock round sleep by simp_all
  qed
  obtain q where q: "(bnd read_states (\<lambda>sts. ret (all_final date_str scope sts))) s2 = (q, s2)" and
    final: "q \<noteq> Inl NotReturned"
    using read_states_answers [of s2]
    by (cases "fst (read_states s2)") (auto simp: bnd_def read_states_def lift_res_def ret_def)
  have now: "now_of X s = (Inr n, ?s1)" by (simp add: now_of_def world_call_def clock)
  have paused: "sleep_for X ORDER_RECONCILE_POLL_SECONDS s2 = (Inr u, s2\<lparr>j_world := w3\<rparr>)"
    by (simp add: sleep_for_def world_call_def sleep)
  let ?go = "\<lambda>acc' fuel. bnd (sleep_for X ORDER_RECONCILE_POLL_SECONDS)
      (\<lambda>_. reconcile_polls X run date_str scope backdated deadline fuel acc') s2"
  have go: "?go acc' fuel = reconcile_polls X run date_str scope backdated deadline fuel acc' (s2\<lparr>j_world := w3\<rparr>)" for acc' fuel
    by (simp add: bnd_run paused)
  note ev = reconcile_polls.simps(2) [of X run date_str scope backdated deadline _ acc]
  show thesis
  proof (cases r)
    case (Inl e)
    show thesis by (rule ends [of "(Inl e, s2)"])
      (use real Inl round in \<open>simp_all add: ev eff_simps now Let_def\<close>)
  next
    case (Inr c)
    obtain m outcome where c: "c = (m, outcome)" by (cases c)
    let ?acc = "acc\<lparr>pa_report := (if outcome = None then pa_report acc else outcome),
        pa_failed := (outcome = None), pa_carryover := pa_carryover acc + m\<rparr>"
    let ?q = "if outcome = None then Inr False else q"
    have run: "reconcile_polls X run date_str scope backdated deadline (Suc fuel) acc s = (case ?q of
        Inl e \<Rightarrow> (Inl e, s2) | Inr fin \<Rightarrow> if fin \<or> ?past then (Inr ?acc, s2) else ?go ?acc fuel)" for fuel
    proof (cases outcome)
      case None
      then show ?thesis using round Inr c by (simp add: ev bnd_run eff_run(1) bnd_ret now Let_def)
    next
      case (Some report)
      then show ?thesis using round Inr c q by (cases q) (simp_all add: ev bnd_run eff_run(1) bnd_ret now Let_def)
    qed
    show thesis
    proof (cases "(\<exists>e. ?q = Inl e) \<or> ?q = Inr True \<or> ?past")
      case True
      then show thesis
      proof (cases ?q)
        case (Inl e)
        have "e \<noteq> NotReturned" using Inl final by (auto split: if_splits)
        then show thesis by (intro ends [of "(Inl e, s2)"]) (simp_all only: run Inl sum.case, simp)
      next
        case (Inr fin)
        then have "fin \<or> ?past" using True by auto
        then show thesis by (intro ends [of "(Inr ?acc, s2)"]) (simp_all only: run Inr sum.case if_True, simp)
      qed
    next
      case False
      then have "?q = Inr False" by (cases ?q) auto
      with False show thesis using n w3
        by (intro again [of "s2\<lparr>j_world := w3\<rparr>" ?acc]) (simp_all only: run go, simp_all)
    qed
  qed
qed

lemma reconcile_polls_enough:
  fixes s :: "'w gateway_state"
  assumes orderly: "orderly_rounds X run date_str time"
    and deadline: "\<And>n. deadline \<le> hhmmss n \<longleftrightarrow> D * 10 ^ 9 \<le> of_day n" "D \<le> 56400"
  shows "of_day (time (j_world s)) < 72000 * 10 ^ 9 \<Longrightarrow>
    D * 10 ^ 9 \<le> of_day (time (j_world s)) + int k * (10 * 10 ^ 9) \<Longrightarrow>
    reconcile_polls X run date_str scope backdated deadline (Suc k + extra) acc s
      = reconcile_polls X run date_str scope backdated deadline (Suc k) acc s
    \<and> fst (reconcile_polls X run date_str scope backdated deadline (Suc k) acc s) \<noteq> Inl NotReturned"
proof (induction k arbitrary: s acc)
  case (0 s acc)
  show ?case using 0 deadline(1)
    by (cases rule: reconcile_poll [OF orderly, of scope backdated deadline acc s]) auto
next
  case (Suc k s acc)
  show ?case
  proof (cases rule: reconcile_poll [OF orderly, of scope backdated deadline acc s, case_names ends again])
    case (ends r)
    then show ?thesis by simp
  next
    case (again acc' s')
    let ?n = "time (j_world s)"
    have early: "of_day ?n < D * 10 ^ 9" using again deadline by auto
    have later: "of_day (time (j_world s')) = of_day ?n + (time (j_world s') - ?n)"
      using early deadline(2) again by (intro of_day_forward) (simp_all add: day_ns_def hour_ns_def)
    have "of_day (time (j_world s')) < 72000 * 10 ^ 9"
      using later early deadline(2) again by (simp add: hour_ns_def)
    moreover have "D * 10 ^ 9 \<le> of_day (time (j_world s')) + int k * (10 * 10 ^ 9)"
      using Suc.prems(2) later again by (simp add: algebra_simps)
    ultimately show ?thesis using Suc.IH [of s' acc'] unfolding add_Suc again(5) by blast
  qed
qed

text \<open>C12. The polling of a reconcile run returns. Under an orderly clock, with rounds of at most an
  hour each and started before 20:00, 5641 rounds are enough: it returns a result or an exception
  of the program, and more fuel changes nothing. A round that begins at or after the deadline, or
  that reconciles a past day, is the last one.\<close>

theorem reconcile_polls_return:
  fixes s :: "'w gateway_state"
  assumes "orderly_rounds X run date_str time" "of_day (time (j_world s)) < 72000 * 10 ^ 9" "5641 \<le> fuel"
    and "deadline \<in> {ORDER_ENTRY_RECONCILE_DEADLINE_HHMMSS, ORDER_EXIT_RECONCILE_DEADLINE_HHMMSS}"
  shows "reconcile_polls X run date_str scope backdated deadline fuel acc s
      = reconcile_polls X run date_str scope backdated deadline 5641 acc s
    \<and> fst (reconcile_polls X run date_str scope backdated deadline fuel acc s) \<noteq> Inl NotReturned
    \<and> (backdated \<or> deadline \<le> hhmmss (time (j_world s)) \<longrightarrow>
         reconcile_polls X run date_str scope backdated deadline fuel acc s
         = reconcile_polls X run date_str scope backdated deadline 1 acc s)"
proof -
  define D :: int where "D = (if deadline = ORDER_ENTRY_RECONCILE_DEADLINE_HHMMSS then 56400 else 34200)"
  have D: "deadline \<le> hhmmss n \<longleftrightarrow> D * 10 ^ 9 \<le> of_day n" for n
    using assms(4) second_of_day_ge [of 56400 n] second_of_day_ge [of 34200 n]
    by (auto simp: D_def hhmmss_cases)
  have le: "D \<le> 56400" by (simp add: D_def)
  have "0 \<le> of_day (time (j_world s))" by (simp add: of_day_def day_ns_def)
  then have "D * 10 ^ 9 \<le> of_day (time (j_world s)) + int 5640 * (10 * 10 ^ 9)" using le by simp
  note enough = reconcile_polls_enough [OF assms(1) D le assms(2) this, of scope backdated _ acc]
  have fuel: "reconcile_polls X run date_str scope backdated deadline fuel acc s
      = reconcile_polls X run date_str scope backdated deadline 5641 acc s"
    using enough [of "fuel - 5641"] assms(3) by simp
  have last_round: "backdated \<or> deadline \<le> hhmmss (time (j_world s)) \<Longrightarrow>
      reconcile_polls X run date_str scope backdated deadline (Suc k) acc s
      = reconcile_polls X run date_str scope backdated deadline (Suc 0) acc s" for k
    by (cases rule: reconcile_poll [OF assms(1), of scope backdated deadline acc s]) auto
  obtain k where k: "fuel = Suc k" using assms(3) by (cases fuel) auto
  show ?thesis using fuel enough [of 0] last_round [of k] k by (simp add: One_nat_def)
qed

text \<open>A broker that cannot be read: every round fails, until the deadline.\<close>

definition demo_offline :: "int session_env" where
  "demo_offline = (demo_session False \<lparr>df_columns = [], df_rows = []\<rparr>)\<lparr>se_broker :=
     (se_broker (demo_session False \<lparr>df_columns = [], df_rows = []\<rparr>))\<lparr>sb_ensure_token := (\<lambda>w. (Inl BrokerReadError, w))\<rparr>\<rparr>"

lemma reconcile_polls_return_witness:
  "\<exists>s. fst (reconcile_polls demo_offline ''r'' ''2026-03-02'' ENTRY False ORDER_ENTRY_RECONCILE_DEADLINE_HHMMSS 9000
       \<lparr>pa_report = None, pa_failed = False, pa_carryover = 0\<rparr> s) \<noteq> Inl NotReturned
     \<and> reconcile_polls demo_offline ''r'' ''2026-03-02'' ENTRY False ORDER_ENTRY_RECONCILE_DEADLINE_HHMMSS 9000
       \<lparr>pa_report = None, pa_failed = False, pa_carryover = 0\<rparr> s
     = reconcile_polls demo_offline ''r'' ''2026-03-02'' ENTRY False ORDER_ENTRY_RECONCILE_DEADLINE_HHMMSS 5641
       \<lparr>pa_report = None, pa_failed = False, pa_carryover = 0\<rparr> s"
proof -
  have round: "reconcile_round demo_offline run d f s = (Inr (0, None), s)" for run d f s
    by (simp add: reconcile_round_def catch_only_def bnd_def broker_call_def gateway_port_def demo_offline_def ret_def)
  have "orderly_rounds demo_offline ''r'' ''2026-03-02'' id"
  proof -
    have "se_clock demo_offline w = (w, w)" "b_sleep (se_broker demo_offline) d w = ((), w + 10 * 10 ^ 9)" for d w
      by (simp_all add: demo_offline_def demo_session_def)
    then show ?thesis by (simp add: orderly_rounds_def round hour_ns_def)
  qed
  note orderly = this
  let ?s = "\<lparr>j_lines = None, j_locked = False, j_world = 0, gw_sends_made = 0, gw_posted = []\<rparr>"
  have "of_day (id (j_world ?s)) < 72000 * 10 ^ 9" "(5641::nat) \<le> 9000"
    "ORDER_ENTRY_RECONCILE_DEADLINE_HHMMSS \<in> {ORDER_ENTRY_RECONCILE_DEADLINE_HHMMSS, ORDER_EXIT_RECONCILE_DEADLINE_HHMMSS}"
    by (simp_all add: of_day_def)
  from reconcile_polls_return [OF orderly this, of ENTRY False "\<lparr>pa_report = None, pa_failed = False, pa_carryover = 0\<rparr>"]
  show ?thesis by blast
qed

end
