(* ===== verification/Journal_Quantities.thy ===== *)
theory Journal_Quantities
  imports Gateway_Properties
begin

text \<open>
  What the journal says of quantities: the fills of an intent stay within its order, a
  history that grows never takes anything back, and the open lots are the entries' fills
  less the exits' fills.
\<close>

section \<open>Fills\<close>

definition fill_row_ok :: "order_intent option \<Rightarrow> payload \<Rightarrow> bool" where
  "fill_row_ok intent p \<longleftrightarrow> (\<exists>fq fa rq. payload_int p ''filled_qty'' = Inr fq
     \<and> payload_int p ''filled_amount_krw'' = Inr fa \<and> payload_int p ''remaining_qty'' = Inr rq
     \<and> 0 \<le> fq \<and> 0 \<le> fa \<and> 0 \<le> rq \<and> (\<forall>i. intent = Some i \<longrightarrow> fq + rq \<le> qty i))"

lemma check_fill_Inr:
  assumes "check_fill intent p prev = Inr acc"
  obtains fq where "acc = Some fq" "payload_int p ''filled_qty'' = Inr fq" "fill_row_ok intent p"
    "\<And>f. prev = Some f \<Longrightarrow> f \<le> fq"
proof -
  from assms obtain fq where "acc = Some fq" "payload_int p ''filled_qty'' = Inr fq" "fill_row_ok intent p"
    "\<forall>f. prev = Some f \<longrightarrow> f \<le> fq"
    by (auto simp: check_fill_def fill_row_ok_def split: if_splits option.splits)
  then show thesis by (intro that) auto
qed

lemma check_fills_last:
  "rfold (check_fill intent) ps prev = Inr acc \<Longrightarrow> ps \<noteq> [] \<Longrightarrow>
   (\<exists>fq. acc = Some fq \<and> payload_int (last ps) ''filled_qty'' = Inr fq) \<and> fill_row_ok intent (last ps)"
proof (induction ps rule: rev_induct)
  case (snoc p ps)
  then obtain a where "check_fill intent p a = Inr acc" by (auto simp: rfold_snoc)
  then show ?case by (rule check_fill_Inr) auto
qed simp

lemma check_fills_mono:
  assumes "rfold (check_fill intent) ps (Some f) = Inr acc"
  shows "\<exists>g. acc = Some g \<and> f \<le> g"
proof (rule rfold_invariant [where I = "\<lambda>a. \<exists>g. a = Some g \<and> f \<le> g", OF assms])
  fix p a b
  assume "\<exists>g. a = Some g \<and> f \<le> g" "check_fill intent p a = Inr b"
  then show "\<exists>g. b = Some g \<and> f \<le> g" by (auto elim!: check_fill_Inr)
qed simp

lemma derive_fills_Inr:
  assumes "derive_fills intent es = Inr (fq, fa, rq)"
  shows "0 \<le> fq \<and> 0 \<le> fa \<and> 0 \<le> rq"
    and "\<And>i. intent = Some i \<Longrightarrow> of_kind K_BROKER_STATE es \<noteq> [] \<Longrightarrow> fq + rq \<le> qty i"
    and "of_kind K_BROKER_STATE es = [] \<Longrightarrow> fq = 0 \<and> fa = 0 \<and> rq = 0"
  using assms check_fills_last [of intent "map ev_payload (of_kind K_BROKER_STATE es)" None]
  by (auto simp: derive_fills_def Let_def fill_row_ok_def split: if_splits)

lemma derive_fills_mono:
  assumes "derive_fills intent es = Inr (fq, x)" "derive_fills intent (es @ fs) = Inr (gq, y)"
  shows "fq \<le> gq"
proof (cases "of_kind K_BROKER_STATE es = []")
  case True
  then show ?thesis using assms derive_fills_Inr(1) [of intent "es @ fs" gq "fst y" "snd y"] derive_fills_Inr(3) [of intent es fq "fst x" "snd x"]
    by simp
next
  case False
  let ?ps = "map ev_payload (of_kind K_BROKER_STATE es)" and ?qs = "map ev_payload (of_kind K_BROKER_STATE fs)"
  obtain a where a: "rfold (check_fill intent) ?ps None = Inr a" "payload_int (last ?ps) ''filled_qty'' = Inr fq"
    using assms(1) False by (cases x) (auto simp: derive_fills_def Let_def)
  with check_fills_last [OF a(1)] False have "a = Some fq" by auto
  with a(1) assms(2) False obtain b where b: "rfold (check_fill intent) ?qs (Some fq) = Inr b"
    "rfold (check_fill intent) (?ps @ ?qs) None = Inr b" "payload_int (last (?ps @ ?qs)) ''filled_qty'' = Inr gq"
    by (cases y) (auto simp: derive_fills_def Let_def rfold_append)
  have "b = Some gq" using check_fills_last [OF b(2)] b(3) False by auto
  then show ?thesis using check_fills_mono [OF b(1)] by auto
qed

text \<open>The quantities of an intent: what the journal derives for it is never negative, and once
  the broker has reported, the filled and the remaining shares fit the ordered quantity.\<close>

theorem fills_stay_within_order:
  assumes "derive_intent_state es = Inr st" "sorted_wrt (<) (map ev_seq es)"
  shows "0 \<le> st_filled_qty st \<and> 0 \<le> st_filled_amount_krw st \<and> 0 \<le> st_remaining_qty st
    \<and> (\<forall>i. st_intent st = Some i \<longrightarrow> st_filled_qty st + st_remaining_qty st \<le> qty i)"
proof -
  obtain intent where d: "derive_intent es = Inr intent" "derive_fields intent es = Inr st"
    by (rule derive_Inr [OF assms])
  note f = derive_fills_Inr [OF derive_fields_Inr(6) [OF d(2)]]
  have "st_filled_qty st + st_remaining_qty st \<le> qty i" if "st_intent st = Some i" for i
  proof (cases "of_kind K_BROKER_STATE es = []")
    case True
    have "0 < qty i" using d(1) that derive_fields_Inr(1) [OF d(2)] derive_intent_Some [of es i]
      by (auto simp: intent_from_payload_def make_intent_Inr dest: valid_intentD)
    then show ?thesis using f(3) [OF True] by simp
  next
    case False
    then show ?thesis using f(2) that derive_fields_Inr(1) [OF d(2)] by blast
  qed
  then show ?thesis using f(1) by blast
qed

definition history_event :: "int \<Rightarrow> event_kind \<Rightarrow> payload \<Rightarrow> journal_event" where
  "history_event n k p = \<lparr>ev_seq = n, ev_ts = ''t'', ev_kind = k, ev_id = ''d:005930:entry'', ev_run = ''r'', ev_payload = p\<rparr>"

text \<open>An order of three shares, of which one and then two are filled, the rest unfilled.\<close>

definition demo_fill :: "int \<Rightarrow> bool \<Rightarrow> payload" where
  "demo_fill n final = [(''order_qty'', JInt 3), (''filled_qty'', JInt n), (''filled_amount_krw'', JInt (n * 70000)),
     (''remaining_qty'', JInt (3 - n)), (''final'', JBool final)]"

definition demo_history :: "journal_event list" where
  "demo_history = [history_event 1 K_INTENT (intent_to_payload demo_intent), history_event 2 K_SEND (send_payload 1 None),
     history_event 3 K_RESULT (result_payload 1 (demo_result ACCEPTED)), history_event 4 K_BROKER_STATE (demo_fill 1 False)]"

definition demo_more :: "journal_event list" where
  "demo_more = [history_event 5 K_BROKER_STATE (demo_fill 2 True)]"

lemma fills_stay_within_order_witness:
  "\<exists>st. derive_intent_state demo_history = Inr st \<and> st_filled_qty st = 1 \<and> st_filled_qty st + st_remaining_qty st \<le> 3"
proof -
  have "(case derive_intent_state demo_history of Inl _ \<Rightarrow> False
      | Inr st \<Rightarrow> st_filled_qty st = 1 \<and> st_intent st = Some demo_intent)" by code_simp
  then obtain st where st: "derive_intent_state demo_history = Inr st" "st_filled_qty st = 1" "st_intent st = Some demo_intent"
    by (auto split: sum.splits)
  have "sorted_wrt (<) (map ev_seq demo_history)" by code_simp
  from fills_stay_within_order [OF st(1) this] st show ?thesis by (simp add: demo_intent_def)
qed

section \<open>A history that grows\<close>

lemma derive_intent_extends:
  assumes "derive_intent es = Inr (Some i)" "length (of_kind K_INTENT (es @ fs)) \<le> 1"
  shows "derive_intent (es @ fs) = Inr (Some i)"
proof -
  obtain e where "e \<in> set es" "ev_kind e = K_INTENT" using derive_intent_Some [OF assms(1)] by blast
  then have "of_kind K_INTENT es \<noteq> []" by (auto simp: of_kind_def filter_empty_conv)
  then have none: "of_kind K_INTENT fs = []" using assms(2) by (cases "of_kind K_INTENT es") auto
  then show ?thesis
  proof (induction fs rule: rev_induct)
    case (snoc f fs)
    then have "ev_kind f \<noteq> K_INTENT" "of_kind K_INTENT fs = []" by (auto split: if_splits)
    then show ?case using snoc.IH by (simp add: append_assoc [symmetric] derive_intent_snoc del: append_assoc)
  qed (simp add: assms(1))
qed

lemma final_status_settled: "final_status i p = Inr x \<Longrightarrow> x \<in> {S_FILLED, S_PARTIAL, S_CANCELLED, S_UNFILLED}"
  by (auto simp: final_status_def split: if_splits)

text \<open>Nothing is taken back: when the history of an intent grows, the intent stays the one
  recorded, the sends and the filled shares do not decrease, and once the broker's final
  row is in, the state is final for ever and can never be sent again.\<close>

theorem growing_history_is_monotone:
  assumes "derive_intent_state es = Inr st" "derive_intent_state (es @ fs) = Inr st'"
    and "sorted_wrt (<) (map ev_seq (es @ fs))" "st_intent st = Some i"
  shows "st_intent st' = Some i \<and> st_n_sends st \<le> st_n_sends st' \<and> st_filled_qty st \<le> st_filled_qty st'
    \<and> (final_states es \<noteq> [] \<longrightarrow> st_final st \<and> st_final st'
         \<and> st_status st' \<in> {S_FILLED, S_PARTIAL, S_CANCELLED, S_UNFILLED} \<and> \<not> sendable (st_status st'))"
proof -
  have sorted: "sorted_wrt (<) (map ev_seq es)" using assms(3) by (simp add: sorted_wrt_append)
  obtain intent where d: "derive_intent es = Inr intent" "derive_fields intent es = Inr st"
    by (rule derive_Inr [OF assms(1) sorted])
  obtain intent' where d': "derive_intent (es @ fs) = Inr intent'" "derive_fields intent' (es @ fs) = Inr st'"
    "length (of_kind K_INTENT (es @ fs)) \<le> 1"
    by (rule derive_Inr [OF assms(2,3)])
  note r = derive_fields_Inr [OF d(2)] and r' = derive_fields_Inr [OF d'(2)]
  have i: "intent = Some i" "intent' = Some i"
    using derive_intent_extends [of es i fs] d d' assms(4) r(1) by auto
  have "st_filled_qty st \<le> st_filled_qty st'"
    using derive_fills_mono r(6) r'(6) unfolding i by blast
  moreover have "final_states es \<noteq> [] \<Longrightarrow> final_states (es @ fs) \<noteq> []" by (simp add: final_states_def)
  then have "final_states es \<noteq> [] \<Longrightarrow> st_final st \<and> st_final st'
      \<and> (\<exists>p. final_status intent' p = Inr (st_status st'))"
    using r(2) r'(2) by (auto simp: derive_status_def)
  then have "final_states es \<noteq> [] \<Longrightarrow> st_final st \<and> st_final st'
      \<and> st_status st' \<in> {S_FILLED, S_PARTIAL, S_CANCELLED, S_UNFILLED} \<and> \<not> sendable (st_status st')"
    using final_status_settled final_status_not_sendable by blast
  ultimately show ?thesis using r(1,3) r'(1,3) i by simp
qed

lemma growing_history_is_monotone_witness:
  "\<exists>st st'. derive_intent_state demo_history = Inr st \<and> derive_intent_state (demo_history @ demo_more) = Inr st'
     \<and> st_filled_qty st = 1 \<and> st_filled_qty st \<le> st_filled_qty st'"
proof -
  have "(case derive_intent_state demo_history of Inl _ \<Rightarrow> False
      | Inr st \<Rightarrow> st_filled_qty st = 1 \<and> st_intent st = Some demo_intent)"
    "(case derive_intent_state (demo_history @ demo_more) of Inl _ \<Rightarrow> False | Inr st' \<Rightarrow> True)" by code_simp+
  then obtain st st' where st: "derive_intent_state demo_history = Inr st" "st_filled_qty st = 1"
    "st_intent st = Some demo_intent" "derive_intent_state (demo_history @ demo_more) = Inr st'"
    by (auto split: sum.splits)
  have "sorted_wrt (<) (map ev_seq (demo_history @ demo_more))" by code_simp
  from growing_history_is_monotone [OF st(1,4) this st(3)] st show ?thesis by blast
qed

section \<open>Open lots\<close>

text \<open>The shares sold against an entry: the fills of the exits that name it.\<close>

definition exit_fills_of :: "string \<Rightarrow> (string \<times> intent_state) list \<Rightarrow> int" where
  "exit_fills_of iid sts = sum_list (map (\<lambda>(k, st). case st_intent st of
     None \<Rightarrow> 0
   | Some i \<Rightarrow> if phase i = EXIT \<and> py_str (parent_intent_id i) = iid then st_filled_qty st else 0) sts)"

lemma exits_by_parent_sold: "dget 0 (exits_by_parent sts) iid = exit_fills_of iid sts"
proof (induction sts rule: rev_induct)
  case Nil
  then show ?case by (simp add: exits_by_parent_def exit_fills_of_def dget_def)
next
  case (snoc p sts)
  obtain k st where p: "p = (k, st)" by (cases p)
  have "exits_by_parent (sts @ [(k, st)]) = (case st_intent st of
       None \<Rightarrow> exits_by_parent sts
     | Some i \<Rightarrow> if phase i = EXIT
         then (let parent = py_str (parent_intent_id i) in
           dset parent (dget 0 (exits_by_parent sts) parent + st_filled_qty st) (exits_by_parent sts))
         else exits_by_parent sts)"
    by (simp add: exits_by_parent_def split: option.splits)
  then show ?case using snoc.IH
    by (cases "st_intent st") (auto simp: p exit_fills_of_def dget_def Let_def)
qed

text \<open>The shares of the lots opened by one entry.\<close>

definition lot_qty_of :: "string \<Rightarrow> open_lot list \<Rightarrow> int" where
  "lot_qty_of iid lots = sum_list (map ol_qty (filter (\<lambda>l. ol_entry_intent_id l = iid) lots))"

lemma lot_qty_of_simps [simp]:
  "lot_qty_of iid [] = 0"
  "lot_qty_of iid (l # lots) = (if ol_entry_intent_id l = iid then ol_qty l else 0) + lot_qty_of iid lots"
  by (simp_all add: lot_qty_of_def)

lemma lot_qty_of_absent: "iid \<notin> ol_entry_intent_id ` set lots \<Longrightarrow> lot_qty_of iid lots = 0"
  by (induction lots) auto

lemma lots_of_Inr:
  assumes "lots_of d sts = Inr lots" "distinct (map fst sts)"
  shows "(\<forall>l\<in>set lots. 0 < ol_qty l) \<and> ol_entry_intent_id ` set lots \<subseteq> fst ` set sts
    \<and> (\<forall>(iid, st)\<in>set sts. \<forall>i. st_intent st = Some i \<longrightarrow> phase i = ENTRY \<longrightarrow>
         dget 0 d iid \<le> st_filled_qty st \<and> lot_qty_of iid lots = st_filled_qty st - dget 0 d iid)"
  using assms
proof (induction sts arbitrary: lots)
  case (Cons p sts)
  obtain iid st where p: "p = (iid, st)" by (cases p)
  have fresh: "iid \<notin> fst ` set sts" and dist: "distinct (map fst sts)" using Cons.prems(2) p by auto
  let ?q = "st_filled_qty st - dget 0 d iid"
  let ?entry = "\<exists>i. st_intent st = Some i \<and> phase i = ENTRY"
  obtain rest where rest: "lots_of d sts = Inr rest"
    and entry: "?entry \<Longrightarrow> ?q = 0 \<and> lots = rest
        \<or> 0 < ?q \<and> (\<exists>l. lots = l # rest \<and> ol_qty l = ?q \<and> ol_entry_intent_id l = iid)"
    and other: "\<not> ?entry \<Longrightarrow> lots = rest"
    using Cons.prems(1) p by (auto simp: Let_def not_less split: option.splits if_splits)
  note IH = Cons.IH [OF rest dist]
  have ids: "\<And>l. l \<in> set rest \<Longrightarrow> ol_entry_intent_id l \<in> fst ` set sts" using IH by blast
  have none: "lot_qty_of iid rest = 0" using IH fresh by (intro lot_qty_of_absent) auto
  have "(\<forall>l\<in>set lots. 0 < ol_qty l) \<and> ol_entry_intent_id ` set lots \<subseteq> fst ` set (p # sts)"
    using IH ids entry other p by (cases ?entry) auto
  moreover have "lot_qty_of iid lots = ?q \<and> 0 \<le> ?q" if ?entry
    using entry [OF that] none by auto
  moreover have "lot_qty_of k lots = lot_qty_of k rest" if "k \<in> fst ` set sts" for k
  proof -
    have "k \<noteq> iid" using that fresh by blast
    then show ?thesis using entry other by (cases ?entry) auto
  qed
  moreover have "\<forall>(k, st)\<in>set sts. \<forall>i. st_intent st = Some i \<longrightarrow> phase i = ENTRY \<longrightarrow>
      dget 0 d k \<le> st_filled_qty st \<and> lot_qty_of k lots = st_filled_qty st - dget 0 d k"
    using IH calculation(3) by force
  ultimately show ?case using p by (auto split: prod.splits)
qed simp

text \<open>Conservation of shares: when the journal's lots are read, every lot is positive and opened
  by an intent of the journal, and for every entry the open shares are exactly the shares
  it bought less the shares sold by the exits that name it, which never exceed them.\<close>

theorem open_lots_conserve_shares:
  assumes "journal_states f = Inr sts" "open_lots f = Inr lots"
  shows "(\<forall>l\<in>set lots. 0 < ol_qty l \<and> ol_entry_intent_id l \<in> fst ` set sts)
    \<and> (\<forall>(iid, st)\<in>set sts. \<forall>i. st_intent st = Some i \<longrightarrow> phase i = ENTRY \<longrightarrow>
         exit_fills_of iid sts \<le> st_filled_qty st \<and> lot_qty_of iid lots = st_filled_qty st - exit_fills_of iid sts)"
proof -
  obtain es where es: "journal_wf es" "events_states es = Inr sts"
    by (rule journal_states_lookup [OF assms(1)])
  obtain ls where ls: "lots_of (exits_by_parent sts) sts = Inr ls" "lots = sort_key lot_key ls"
    using assms by (auto simp: open_lots_def states_open_lots_def)
  have perm: "lot_qty_of iid lots = lot_qty_of iid ls" for iid
  proof -
    have "mset lots = mset ls" using ls(2) by simp
    then have "mset (map ol_qty (filter (\<lambda>l. ol_entry_intent_id l = iid) lots))
        = mset (map ol_qty (filter (\<lambda>l. ol_entry_intent_id l = iid) ls))"
      by (simp only: mset_map mset_filter)
    then show ?thesis unfolding lot_qty_of_def by (rule sum_list_mset_eq)
  qed
  have "set lots = set ls" using ls(2) by simp
  then show ?thesis
    using lots_of_Inr [OF ls(1) events_states_lookup(2) [OF es(2,1)]]
    by (auto simp: perm exits_by_parent_sold)
qed

definition demo_sold_journal :: "jline list" where
  "demo_sold_journal = map event_line (demo_history @ demo_more @
     [\<lparr>ev_seq = 6, ev_ts = ''t'', ev_kind = K_INTENT, ev_id = ''x'', ev_run = ''r'',
        ev_payload = intent_to_payload (demo_intent\<lparr>intent_id := ''x'', phase := EXIT, side := SELL,
          order_type := MARKET, qty := 1, limit_price := JNull, parent_intent_id := JStr ''d:005930:entry''\<rparr>)\<rparr>,
      \<lparr>ev_seq = 7, ev_ts = ''t'', ev_kind = K_BROKER_STATE, ev_id = ''x'', ev_run = ''r'',
        ev_payload = [(''order_qty'', JInt 1), (''filled_qty'', JInt 1), (''filled_amount_krw'', JInt 70000),
          (''remaining_qty'', JInt 0), (''final'', JBool True)]\<rparr>])"

lemma open_lots_conserve_shares_witness:
  "\<exists>sts lots. journal_states (Some demo_sold_journal) = Inr sts \<and> open_lots (Some demo_sold_journal) = Inr lots
     \<and> length lots = 1 \<and> (\<forall>l\<in>set lots. 0 < ol_qty l)"
proof -
  have "(case journal_states (Some demo_sold_journal) of Inl _ \<Rightarrow> False | Inr sts \<Rightarrow>
      case open_lots (Some demo_sold_journal) of Inl _ \<Rightarrow> False | Inr lots \<Rightarrow> length lots = 1)" by code_simp
  then obtain sts lots where h: "journal_states (Some demo_sold_journal) = Inr sts"
    "open_lots (Some demo_sold_journal) = Inr lots" "length lots = 1"
    by (auto split: sum.splits)
  from open_lots_conserve_shares [OF h(1,2)] h show ?thesis by blast
qed

end
