(* ===== verification/Contract_Properties.thy ===== *)
theory Contract_Properties
  imports Gateway_Properties Session_Calendar
begin

text \<open>
  The properties of the order contract, the tick table, the session calendar and the
  operator's resolution: the sizing loop is the greedy allocation, limit prices stay on the
  tick grid between the decision and the upper limit, the gate of a session opens on plain
  days only, and an operator's resolution writes one event or none.
\<close>

section \<open>Sizing\<close>

text \<open>The reference: each pick in the order of its rank takes the most it can afford.\<close>

definition greatest_affordable :: "int \<Rightarrow> int \<Rightarrow> int \<Rightarrow> int" where
  "greatest_affordable price remaining hi = Max {q. 0 \<le> q \<and> q \<le> hi \<and> affordable price remaining q}"

fun greedy_plan :: "int \<Rightarrow> int \<Rightarrow> entry_pick list \<Rightarrow> int \<Rightarrow> (string \<times> int) list" where
  "greedy_plan capital cap [] remaining = []"
| "greedy_plan capital cap (p # ps) remaining =
     (let q = greatest_affordable (ep_limit_price p) remaining
            (alloc_budget capital cap (ep_allocation p) div ep_limit_price p)
      in (ep_symbol p, q) # greedy_plan capital cap ps (remaining - order_cost (ep_limit_price p) q))"

lemma search_qty_greatest:
  assumes "0 < price" "0 \<le> hi" "0 \<le> remaining"
  shows "search_qty price remaining 0 hi = greatest_affordable price remaining hi"
proof -
  let ?q = "search_qty price remaining 0 hi"
  have zero: "affordable price remaining 0" using assms(3) by (simp add: affordable_def)
  have q: "0 \<le> ?q" "?q \<le> hi" "affordable price remaining ?q"
    and top: "\<And>q. ?q < q \<Longrightarrow> q \<le> hi \<Longrightarrow> \<not> affordable price remaining q"
    using search_qty_bounds [OF assms(2), of price remaining] search_qty_spec [OF assms(1,2) zero] by auto
  have "finite {q. 0 \<le> q \<and> q \<le> hi \<and> affordable price remaining q}"
    by (rule finite_subset [of _ "{0..hi}"]) auto
  then have "Max {q. 0 \<le> q \<and> q \<le> hi \<and> affordable price remaining q} = ?q"
    by (rule Max_eqI) (use q top not_le in auto)
  then show ?thesis by (simp add: greatest_affordable_def)
qed

lemma size_loop_greedy:
  assumes "\<And>p. p \<in> set ps \<Longrightarrow> pick_ok p" "0 \<le> capital" "0 < cap" "0 \<le> remaining"
  shows "size_loop capital cap ps remaining = greedy_plan capital cap ps remaining"
  using assms
proof (induction ps arbitrary: remaining)
  case (Cons p ps)
  let ?price = "ep_limit_price p" and ?budget = "alloc_budget capital cap (ep_allocation p)"
  let ?q = "search_qty ?price remaining 0 (?budget div ?price)"
  have price: "0 < ?price" and "0 \<le> ?budget"
    using Cons.prems(1) [of p] alloc_budget_nonneg [OF Cons.prems(2,3)] by (auto simp: pick_ok_def)
  then have hi: "0 \<le> ?budget div ?price" by (simp add: pos_imp_zdiv_nonneg_iff)
  have "affordable ?price remaining ?q"
    using search_qty_spec [OF price hi, of remaining] Cons.prems(4) by (simp add: affordable_def)
  then have "0 \<le> remaining - order_cost ?price ?q" by (simp add: affordable_def order_cost_def)
  then show ?case
    using search_qty_greatest [OF price hi Cons.prems(4)] Cons.IH Cons.prems
    by (simp add: Let_def order_cost_def)
qed simp

text \<open>C22. The binary search and the bookkeeping of the sizing loop compute the greedy plan: in the
  order of their rank, every pick gets the greatest quantity within its budget whose cost
  with fees fits what is left of the capital.\<close>

theorem sizing_is_greedy:
  assumes "size_entry_orders picks capital cap = Inr sizes"
  shows "sizes = greedy_plan capital cap (sort_key (\<lambda>p. rank_key (ep_pred p) (ep_symbol p)) picks) capital"
proof -
  have c: "0 \<le> capital" "0 < cap" "check_picks picks [] = Inr ()"
    and sizes: "sizes = size_loop capital cap (sort_key (\<lambda>p. rank_key (ep_pred p) (ep_symbol p)) picks) capital"
    using assms by (auto simp: size_entry_orders_def split: if_splits)
  have "\<And>p. p \<in> set (sort_key (\<lambda>p. rank_key (ep_pred p) (ep_symbol p)) picks) \<Longrightarrow> pick_ok p"
    using check_picks_Inr [OF c(3)] by simp
  then show ?thesis unfolding sizes by (rule size_loop_greedy) (use c in auto)
qed

definition demo_pick :: entry_pick where
  "demo_pick = \<lparr>ep_symbol = ''005930'', ep_allocation = Fin 1, ep_pred = Fin 0, ep_decision_price = 70000,
     ep_limit_price = 70000\<rparr>"

lemma sizing_is_greedy_witness:
  "\<exists>sizes. size_entry_orders [demo_pick] 1000000 500000 = Inr sizes \<and> sizes = greedy_plan 1000000 500000 [demo_pick] 1000000"
proof -
  obtain sizes where "size_entry_orders [demo_pick] 1000000 500000 = Inr sizes"
    by (simp add: size_entry_orders_def demo_pick_def f_le_def)
  from sizing_is_greedy [OF this] this show ?thesis by simp
qed

section \<open>Limit prices and ticks\<close>

text \<open>The limit price of an entry lies between the decision price and the upper price limit,
  and when it is below the upper limit it is a multiple of a KRX tick; every refusal is a
  ValueError.\<close>

theorem entry_limit_price_is_bounded:
  "(\<forall>p. entry_limit_price d b u = Inr p \<longrightarrow> 0 < d \<and> d \<le> p \<and> p \<le> u
      \<and> (p < u \<longrightarrow> (\<exists>t::int. t \<in> {1, 5, 10, 50, 100, 500, 1000} \<and> t dvd p)))
   \<and> (\<forall>e. entry_limit_price d b u = Inl e \<longrightarrow> e = ValueError)"
proof -
  have "0 < d" if "entry_limit_price d b u = Inr p" for p
    using that by (auto simp: entry_limit_price_def split: if_splits)
  moreover have "e = ValueError" if "entry_limit_price d b u = Inl e" for e
    using that by (auto simp: entry_limit_price_def Let_def split: fl.splits if_splits)
  moreover have "d \<le> p \<and> p \<le> u \<and> (p < u \<longrightarrow> (\<exists>t::int. t \<in> {1, 5, 10, 50, 100, 500, 1000} \<and> t dvd p))"
    if "entry_limit_price d b u = Inr p" for p
    using entry_limit_price_bounds [OF that] entry_limit_price_tick [OF that] by blast
  ultimately show ?thesis by meson
qed

lemma entry_limit_price_is_bounded_witness:
  "(\<exists>p. entry_limit_price 70000 (Fin 0) 80000 = Inr p \<and> 70000 \<le> p \<and> p \<le> 80000)
   \<and> entry_limit_price 0 (Fin 0) 80000 = Inl ValueError"
proof
  have unit: "dec28 1 = 1" "dec28 70000 = 70000" "dec28 700 = 700" "rnd64 70000 = 70000"
    using dec28_of_int [of 1] dec28_of_int [of 70000] dec28_of_int [of 700] rnd64_of_int [of 70000] by simp_all
  have "krx_tick_size (Fin 70000) = Fin 100" by (simp add: krx_tick_size_Fin)
  then obtain p where "entry_limit_price 70000 (Fin 0) 80000 = Inr p"
    by (simp add: entry_limit_price_def unit)
  with entry_limit_price_is_bounded [of 70000 "Fin 0" 80000]
  show "\<exists>p. entry_limit_price 70000 (Fin 0) 80000 = Inr p \<and> 70000 \<le> p \<and> p \<le> 80000" by blast
  show "entry_limit_price 0 (Fin 0) 80000 = Inl ValueError" by (simp add: entry_limit_price_def)
qed

text \<open>The tick table is a monotone step function with the seven KRX ticks as its values, the
  dated table agrees with it from the reform day on for every market and never leaves the
  seven ticks before, and an invalid price has no tick.\<close>

theorem tick_table_is_sound:
  "(0 < r \<and> r \<le> x \<longrightarrow> (\<exists>t u. krx_tick_size (Fin r) = Fin t \<and> krx_tick_size (Fin x) = Fin u \<and> t \<le> u
      \<and> {t, u} \<subseteq> {1, 5, 10, 50, 100, 500, 1000}))
   \<and> (TICK_REFORM_DATE \<le> d \<longrightarrow> krx_tick_size_asof y (Some d) m = krx_tick_size y)
   \<and> (0 < r \<longrightarrow> krx_tick_size_asof (Fin r) (Some d) m \<in> Fin ` {1, 5, 10, 50, 100, 500, 1000})
   \<and> (\<not> valid_price y \<longrightarrow> krx_tick_size y = NaN \<and> krx_tick_size_asof y (Some d) m = NaN)
   \<and> krx_tick_size_asof y None m = NaN"
  using krx_tick_size_asof_Fin [of r d m]
  by (simp add: krx_tick_size_asof_post_reform krx_tick_size_invalid krx_tick_size_Fin)
    (simp add: krx_tick_size_asof_def)

lemma tick_table_is_sound_witness:
  "(\<exists>t u. krx_tick_size (Fin 1999) = Fin t \<and> krx_tick_size (Fin 70000) = Fin u \<and> t \<le> u)
   \<and> krx_tick_size_asof (Fin 70000) (Some 738545) ''KOSDAQ'' = krx_tick_size (Fin 70000)
   \<and> krx_tick_size NaN = NaN"
  using tick_table_is_sound [of 1999 70000 738545 "Fin 70000" "''KOSDAQ''"]
    tick_table_is_sound [of 1999 70000 738545 NaN "''KOSDAQ''"]
  by (simp add: TICK_REFORM_DATE_def toordinal_schedule valid_price_def del: One_nat_def) blast

section \<open>Session days\<close>

text \<open>The gate of a trading session opens exactly on the plain days: not a weekend, no
  override by the operator, within the verified range of the calendar, neither closed nor
  shifted; the day then has the standard clock, and every day without an override resolves.\<close>

theorem gate_opens_on_plain_days_only:
  "(\<exists>day. resolve_session_day cal ovr d = Inr day \<and> trading_session_gate day = None) \<longleftrightarrow>
     \<not> is_weekend d \<and> map_of ovr (iso_str d) = None \<and> in_verified_range cal d
     \<and> d \<notin> set (closed_weekdays cal) \<and> map_of (shifted_sessions cal) d = None"
proof
  assume "\<exists>day. resolve_session_day cal ovr d = Inr day \<and> trading_session_gate day = None"
  then show "\<not> is_weekend d \<and> map_of ovr (iso_str d) = None \<and> in_verified_range cal d
     \<and> d \<notin> set (closed_weekdays cal) \<and> map_of (shifted_sessions cal) d = None"
    using resolve_session_day_cases(2) unfolding trading_session_gate_None by blast
next
  assume "\<not> is_weekend d \<and> map_of ovr (iso_str d) = None \<and> in_verified_range cal d
     \<and> d \<notin> set (closed_weekdays cal) \<and> map_of (shifted_sessions cal) d = None"
  then show "\<exists>day. resolve_session_day cal ovr d = Inr day \<and> trading_session_gate day = None"
    using standard_clock_Inr [of d] by (auto simp: resolve_session_day_def trading_session_gate_None)
qed

text \<open>An override wins over the verified range: on a weekday outside the range, which without
  it resolves to an unknown session, the operator's clock gives a shifted one.\<close>

theorem override_beats_verified_range:
  assumes "\<not> is_weekend d" "\<not> in_verified_range cal d" "d \<notin> set (closed_weekdays cal)"
    and "map_of ovr (iso_str d) = Some clock" "session_clock.trading_date clock = d"
  shows "(\<exists>day. resolve_session_day cal ovr d = Inr day \<and> day_kind day = SHIFTED)
    \<and> (\<exists>day. resolve_session_day cal [] d = Inr day \<and> day_kind day = UNKNOWN_SESSION)"
  using assms by (simp add: resolve_session_day_def)

lemma override_beats_verified_range_witness:
  "\<exists>clock day. resolve_session_day KRX_CALENDAR [(''2027-03-02'', clock)] (2027, 3, 2) = Inr day \<and> day_kind day = SHIFTED"
proof -
  obtain clock :: session_clock where clock: "session_clock.trading_date clock = (2027, 3, 2)"
    using standard_clock_Inr [of "(2027, 3, 2)"] by blast
  have day: "\<not> is_weekend (2027, 3, 2)" by (simp add: is_weekend_def weekday_def civil_eval)
  have iso: "iso_str (2027, 3, 2) = ''2027-03-02''" by code_simp
  have out: "\<not> in_verified_range KRX_CALENDAR (2027, 3, 2)" "(2027, 3, 2) \<notin> set (closed_weekdays KRX_CALENDAR)"
    by (simp_all add: in_verified_range_def KRX_CALENDAR_def)
  from override_beats_verified_range [OF day out, of "[(''2027-03-02'', clock)]" clock] iso clock
  show ?thesis by auto
qed

end
