(* ===== verification/Resolve_Properties.thy ===== *)
theory Resolve_Properties
  imports Order_Refinement
begin

text \<open>
  The operator's manual resolution of an unknown order: what it refuses leaves no trace,
  what it applies is one event, on the evidence the rules ask for.
\<close>

section \<open>What a resolution may do\<close>

text \<open>The file was \<open>f\<close> when the lock was taken; the outcome of a call against it.\<close>

definition resolved_on :: "jline list option \<Rightarrow> string \<Rightarrow> bool \<Rightarrow> resolve_report res \<Rightarrow> 'w gateway_state \<Rightarrow> bool" where
  "resolved_on f iid apply r s \<longleftrightarrow> (case r of
     Inl _ \<Rightarrow> True
   | Inr rep \<Rightarrow> rv_intent_id rep = iid
       \<and> (if rv_applied rep
          then apply \<and> (\<exists>e sts st. j_lines s = add_line (event_line e) f \<and> ev_kind e = K_OPERATOR_RESOLVE \<and> ev_id e = iid
            \<and> journal_states f = Inr sts \<and> map_of sts iid = Some st \<and> resolvable (st_status st))
          else j_lines s = f))"

abbreviation file_is :: "jline list option \<Rightarrow> 'w gateway_state \<Rightarrow> bool" where
  "file_is f s \<equiv> j_lines s = f"

lemma report_refused: "triple (file_is f) (ret (refused iid why cs)) (resolved_on f iid apply)"
  by (simp add: triple_def ret_def resolved_on_def refused_def)

lemma report_dry_run: "triple (file_is f) (ret (resolved iid action False cs)) (resolved_on f iid apply)"
  by (simp add: triple_def ret_def resolved_on_def resolved_def)

lemma report_applied:
  assumes "journal_states f = Inr sts" "map_of sts iid = Some st" "resolvable (st_status st)" "apply"
  shows "triple (file_is f) (bnd (journal_append B K_OPERATOR_RESOLVE iid p run) (\<lambda>_. ret (resolved iid action True cs)))
    (resolved_on f iid apply)"
proof (rule tripleI)
  fix s :: "'a gateway_state" and r s'
  assume s: "j_lines s = f"
    and run: "bnd (journal_append B K_OPERATOR_RESOLVE iid p run) (\<lambda>_. ret (resolved iid action True cs)) s = (r, s')"
  obtain q t where q: "journal_append B K_OPERATOR_RESOLVE iid p run s = (q, t)"
    by (cases "journal_append B K_OPERATOR_RESOLVE iid p run s") auto
  show "resolved_on f iid apply r s'"
  proof (cases q)
    case (Inl e)
    then show ?thesis using run q by (auto simp: bnd_def resolved_on_def)
  next
    case (Inr e)
    then have r: "r = Inr (resolved iid action True cs)" "s' = t" using run q by (auto simp: bnd_def ret_def)
    from journal_append_run(2) [OF q, unfolded Inr s]
    have "j_lines t = add_line (event_line e) f \<and> ev_kind e = K_OPERATOR_RESOLVE \<and> ev_id e = iid"
      by (rule append_returnsE) (auto simp: appended_event_def)
    then show ?thesis using assms r by (auto simp: resolved_on_def resolved_def)
  qed
qed

lemma file_reads [keeps_intros]: "keeps (file_is f) (read_snapshot B td)"
  unfolding read_snapshot_def by (auto intro!: keeps_intros keeps_broker_call)

lemma resolve_adopt_triple:
  assumes "journal_states f = Inr sts" "map_of sts iid = Some st" "resolvable (st_status st)"
  shows "triple (file_is f) (resolve_adopt B run iid i no op reason ap bound snap) (resolved_on f iid ap)"
proof -
  have "triple (file_is f) (case cs of
        [bo] \<Rightarrow> if py_blank (bo_org_no bo) then ret (refused iid ''order_mismatch'' [])
          else if ap then bnd (journal_append B K_OPERATOR_RESOLVE iid
                (operator_payload ''adopt'' op reason @ adopt_payload bo) run) (\<lambda>_. ret (resolved iid ''adopt'' True [no]))
          else ret (resolved iid ''adopt'' False [no])
      | _ \<Rightarrow> ret (refused iid ''order_mismatch'' [])) (resolved_on f iid ap)" for cs
    by (auto intro: report_refused report_dry_run report_applied [OF assms] split: list.split)
  then show ?thesis unfolding resolve_adopt_def Let_def .
qed

lemma resolve_absent_triple:
  assumes "journal_states f = Inr sts" "map_of sts iid = Some st" "resolvable (st_status st)"
  shows "triple (file_is f) (resolve_absent B run iid i bl op reason ap bound snap) (resolved_on f iid ap)"
  unfolding resolve_absent_def Let_def
  by (auto intro: report_refused report_dry_run report_applied [OF assms])

lemma report_reads:
  assumes "\<And>sts. journal_states f = Inr sts \<Longrightarrow> triple (file_is f) (g sts) (resolved_on f iid apply)"
  shows "triple (file_is f) (bnd read_states g) (resolved_on f iid apply)"
proof (rule tripleI)
  fix s :: "'a gateway_state" and r s'
  assume s: "j_lines s = f" and run: "bnd read_states g s = (r, s')"
  show "resolved_on f iid apply r s'"
  proof (cases "journal_states f")
    case (Inl e)
    then show ?thesis using run s by (auto simp: read_states_def bnd_def lift_res_def resolved_on_def)
  next
    case (Inr sts)
    then have "g sts s = (r, s')" using run s by (simp add: read_states_def bnd_def lift_res_def)
    then show ?thesis using tripleD [OF assms [OF Inr]] s by blast
  qed
qed

lemma resolve_body_triple: "triple (file_is f) (resolve_body B iid ono op reason ap) (resolved_on f iid ap)"
  unfolding resolve_body_def Let_def
proof (rule report_reads)
  fix sts
  assume sts: "journal_states f = Inr sts"
  let ?has = "case ono of None \<Rightarrow> False | Some n \<Rightarrow> \<not> py_blank n"
  let ?no = "case ono of None \<Rightarrow> [] | Some n \<Rightarrow> normalize_order_no n"
  have go: "triple (file_is f) (bnd (read_snapshot B td) (\<lambda>snap. case snap of
        None \<Rightarrow> ret (refused iid ''broker_unreadable'' [])
      | Some snapshot \<Rightarrow> if has
          then resolve_adopt B run iid i no op reason ap bound snapshot
          else resolve_absent B run iid i bl op reason ap bound snapshot)) (resolved_on f iid ap)"
    if "map_of sts iid = Some st" "resolvable (st_status st)" for st td has run i no bound bl
    by (rule keeps_then [OF file_reads])
      (auto simp: resolved_on_def [of _ _ _ "Inl _"] split: option.split
        intro: report_refused resolve_adopt_triple [OF sts that] resolve_absent_triple [OF sts that])
  show "triple (file_is f) (case map_of sts iid of None \<Rightarrow> ret (refused iid ''not_unknown'' [])
      | Some st \<Rightarrow> (case st_intent st of None \<Rightarrow> ret (refused iid ''not_unknown'' [])
        | Some i \<Rightarrow> if st_status st \<notin> (if ?has then {S_UNKNOWN, S_NOT_FOUND} else {S_UNKNOWN})
            then ret (refused iid ''not_unknown'' [])
            else if ?has \<and> ?no = [] then ret (refused iid ''bad_arguments'' [])
            else bnd (read_snapshot B (order_intent.trading_date i)) (\<lambda>snap. case snap of
                None \<Rightarrow> ret (refused iid ''broker_unreadable'' [])
              | Some snapshot \<Rightarrow> if ?has
                  then resolve_adopt B (''operator-resolve:'' @ iid) iid i ?no op reason ap (bound_numbers sts) snapshot
                  else resolve_absent B (''operator-resolve:'' @ iid) iid i (st_baseline st) op reason ap
                    (bound_numbers sts) snapshot))) (resolved_on f iid ap)"
  proof (cases "map_of sts iid")
    case None
    then show ?thesis by (simp add: report_refused)
  next
    case st: (Some st)
    have ok: "\<not> st_status st \<notin> (if ?has then {S_UNKNOWN, S_NOT_FOUND} else {S_UNKNOWN}) \<Longrightarrow> resolvable (st_status st)"
      by (auto simp: resolvable_def split: if_splits)
    show ?thesis
    proof (cases "st_intent st")
      case None
      then show ?thesis by (simp add: st report_refused)
    next
      case (Some i)
      show ?thesis unfolding st Some option.case
        by (intro triple_branch report_refused go [OF st ok])
    qed
  qed
qed

text \<open>An operator's resolution is all or nothing: it never places an order; a report that is not
  applied leaves the journal exactly as it was; and one that is applied, which takes the
  apply flag and an intent whose derived status was unknown or not found, adds exactly one
  OPERATOR_RESOLVE event for that intent.\<close>

theorem operator_resolution_is_guarded:
  assumes "resolve_unknown_intent B binding iid ono nf op reason ap s = (Inr rep, s')"
  shows "gw_posted s' = gw_posted s \<and> rv_intent_id rep = iid
    \<and> (\<not> rv_applied rep \<longrightarrow> j_lines s' = j_lines s)
    \<and> (rv_applied rep \<longrightarrow> ap \<and> \<not> py_blank op \<and> \<not> py_blank reason \<and> binding = Inr ()
       \<and> (\<exists>e sts st. j_lines s' = add_line (event_line e) (j_lines s) \<and> ev_kind e = K_OPERATOR_RESOLVE \<and> ev_id e = iid
            \<and> journal_states (j_lines s) = Inr sts \<and> map_of sts iid = Some st \<and> resolvable (st_status st)))"
proof -
  let ?has = "case ono of None \<Rightarrow> False | Some n \<Rightarrow> \<not> py_blank n"
  show ?thesis
  proof (cases "?has = nf \<or> py_blank op \<or> py_blank reason \<or> binding \<noteq> Inr ()")
    case True
    then have "rep = refused iid ''bad_arguments'' [] \<or> rep = refused iid ''trading_disabled'' []" "s' = s"
      using assms by (auto simp: resolve_unknown_intent_def Let_def ret_def throw_def split: if_splits sum.splits)
    then show ?thesis by (auto simp: refused_def)
  next
    case False
    let ?body = "resolve_body B iid ono (py_strip op) (py_strip reason) ap"
    have run: "exclusive B ?body s = (Inr rep, s')"
      using assms False by (auto simp: resolve_unknown_intent_def Let_def)
    then obtain w t where t: "?body (s\<lparr>j_world := w, j_locked := True\<rparr>) = (Inr rep, t)" "s' = t\<lparr>j_locked := False\<rparr>"
      by (auto simp: exclusive_def bnd_def gets_def world_call_def modify_def finally_do_def throw_def
          split: if_splits prod.splits)
    have "resolved_on (j_lines s) iid ap (Inr rep) t"
      using tripleD [OF resolve_body_triple [of "j_lines s"] _ t(1)] by simp
    moreover have "gw_posted t = gw_posted s"
    proof -
      have "keeps (posted_is (gw_posted s)) ?body"
        by (auto simp: resolve_body_def resolve_adopt_def resolve_absent_def read_snapshot_def Let_def
            intro!: keeps_intros)
      from keepsD [OF this, of "s\<lparr>j_world := w, j_locked := True\<rparr>"] show ?thesis using t(1) by simp
    qed
    ultimately show ?thesis using t(2) False by (auto simp: resolved_on_def split: if_splits)
  qed
qed

text \<open>An unknown order, its send unanswered, adopted by the operator from the broker's list.\<close>

definition demo_order_row :: broker_order where
  "demo_order_row = \<lparr>bo_order_no = ''0000077'', bo_orig_order_no = [], bo_org_no = ''1'', bo_symbol = ''005930'', bo_side = BUY, bo_order_qty = 3,
     bo_order_price = 70000, bo_filled_qty = 0, bo_filled_amount_krw = 0, bo_remaining_qty = 3, bo_cancelled = False,
     bo_rejected_qty = 0\<rparr>"

definition demo_desk :: "nat session_broker" where
  "demo_desk = (demo_broker (Inr (demo_result ACCEPTED)) False)\<lparr>b_daily_orders := (\<lambda>td w. (Inr [demo_order_row], w))\<rparr>"

definition demo_resolution :: "resolve_report res \<times> nat gateway_state" where
  "demo_resolution = resolve_unknown_intent demo_desk (Inr ()) ''d:005930:entry'' (Some ''77'') False ''kim'' ''seen''
     True (demo_crashed\<lparr>j_locked := False\<rparr>)"

lemma operator_resolution_is_guarded_witness:
  "\<exists>rep. fst demo_resolution = Inr rep \<and> rv_applied rep \<and> gw_posted (snd demo_resolution) = gw_posted demo_crashed
     \<and> (\<exists>e. j_lines (snd demo_resolution) = add_line (event_line e) (j_lines demo_crashed) \<and> ev_kind e = K_OPERATOR_RESOLVE)"
proof -
  have "(case fst demo_resolution of Inl _ \<Rightarrow> False | Inr rep \<Rightarrow> rv_applied rep)" by code_simp
  then obtain rep where rep: "fst demo_resolution = Inr rep" "rv_applied rep" by (auto split: sum.splits)
  then have "demo_resolution = (Inr rep, snd demo_resolution)" by (metis prod.collapse)
  from operator_resolution_is_guarded [OF this [unfolded demo_resolution_def]] rep
  show ?thesis by (auto simp: demo_resolution_def)
qed

end
