(* ===== verification/Paper_Trips.thy ===== *)
theory Paper_Trips
  imports Paper_Fills
begin

text \<open>
  The economic state of \<open>src/execution/paper_broker.py\<close> derived from the fill ledger: the
  pairing of buys and sells into round trips and the NAV snapshot. A ledger frame is the
  list of its rows in record order.
\<close>

section \<open>Rows\<close>

record fill_row =
  fr_order_id :: string
  fr_symbol :: string
  fr_side :: string
  fr_qty :: int
  fr_fill_price :: int
  fr_filled_at :: "moment option"
  fr_trigger :: string
  fr_entry_order_id :: "string option"
  fr_decision_date :: string

record round_trip =
  rt_entry_order_id :: string
  rt_exit_order_id :: string
  rt_symbol :: string
  rt_decision_date :: string
  rt_entry_filled_at :: "moment option"
  rt_exit_filled_at :: "moment option"
  rt_qty :: int
  rt_entry_price :: int
  rt_exit_price :: int
  rt_exit_trigger :: string
  rt_gross_pnl :: int
  rt_buy_fee :: int
  rt_sell_fee :: int
  rt_sell_tax :: int
  rt_cost :: int
  rt_net_pnl :: int
  rt_gross_ret :: rat
  rt_net_ret :: rat
  rt_carry_days :: nat

text \<open>\<open>/\<close> of two integers is correctly rounded and raises on a zero divisor.\<close>

definition py_truediv :: "int \<Rightarrow> int \<Rightarrow> rat res" where
  "py_truediv a b = (if b = 0 then Inl ZeroDivisionError else Inr (rnd64 (of_int a / of_int b)))"

section \<open>Round trips\<close>

type_synonym trip_state = "(string \<rightharpoonup> fill_row) \<times> round_trip list"

definition close_trip ::
  "(civil \<Rightarrow> session_day res) \<Rightarrow> fill_row \<Rightarrow> fill_row \<Rightarrow> moment \<Rightarrow> round_trip res" where
  "close_trip resolve buy sell sold =
     (let qty = fr_qty sell;
          entry_price = fr_fill_price buy;
          exit_price = fr_fill_price sell;
          entry_notional = entry_price * qty;
          exit_notional = exit_price * qty;
          buy_fee = side_fee_krw entry_notional;
          sell_fee = side_fee_krw exit_notional;
          tax_bp = statutory_bp_asof (Some (toordinal (fst sold)))
      in rbind (py_floor (f_div (f_mul (fl_of_int exit_notional) tax_bp) (Fin 10000))) (\<lambda>sell_tax.
         let cost = buy_fee + sell_fee + sell_tax;
             gross_pnl = exit_notional - entry_notional;
             net_pnl = gross_pnl - cost
         in rbind (py_truediv exit_price entry_price) (\<lambda>gross.
            rbind (py_truediv net_pnl entry_notional) (\<lambda>net_ret.
            rbind (carry_days resolve (fr_filled_at buy) (Some sold)) (\<lambda>carry.
              Inr \<lparr>rt_entry_order_id = fr_order_id buy, rt_exit_order_id = fr_order_id sell,
                   rt_symbol = fr_symbol sell, rt_decision_date = fr_decision_date buy,
                   rt_entry_filled_at = fr_filled_at buy, rt_exit_filled_at = fr_filled_at sell,
                   rt_qty = qty, rt_entry_price = entry_price, rt_exit_price = exit_price,
                   rt_exit_trigger = fr_trigger sell, rt_gross_pnl = gross_pnl,
                   rt_buy_fee = buy_fee, rt_sell_fee = sell_fee, rt_sell_tax = sell_tax,
                   rt_cost = cost, rt_net_pnl = net_pnl, rt_gross_ret = rnd64 (gross - 1),
                   rt_net_ret = net_ret, rt_carry_days = carry\<rparr>)))))"

definition trip_step ::
  "(civil \<Rightarrow> session_day res) \<Rightarrow> fill_row \<Rightarrow> trip_state \<Rightarrow> trip_state res" where
  "trip_step resolve rec st = (case st of (open_buys, rows) \<Rightarrow>
     if fr_side rec = ''buy'' then Inr (open_buys(fr_order_id rec \<mapsto> rec), rows)
     else if fr_side rec = ''sell'' then
       (case fr_entry_order_id rec of
          None \<Rightarrow> Inl ValueError
        | Some link \<Rightarrow>
          (case open_buys link of
             None \<Rightarrow> Inl ValueError
           | Some buy \<Rightarrow>
             (let open_buys' = open_buys(link := None) in
              if fr_symbol buy \<noteq> fr_symbol rec then Inl ValueError
              else if fr_qty rec \<noteq> fr_qty buy then Inl ValueError
              else case fr_filled_at rec of
                None \<Rightarrow> Inl ValueError
              | Some sold \<Rightarrow>
                  rbind (close_trip resolve buy rec sold) (\<lambda>row. Inr (open_buys', rows @ [row])))))
     else Inl ValueError)"

definition build_round_trips ::
  "(civil \<Rightarrow> session_day res) \<Rightarrow> fill_row list \<Rightarrow> round_trip list res" where
  "build_round_trips resolve fills =
     rbind (rfold (trip_step resolve) fills (Map.empty, [])) (\<lambda>(_, rows). Inr rows)"

section \<open>The NAV snapshot\<close>

record nav_row =
  nv_as_of_date :: string
  nv_seed_capital :: int
  nv_cash :: int
  nv_open_cost_basis :: int
  nv_open_buy_fees :: int
  nv_realized_net_pnl :: int
  nv_cumulative_cost :: int
  nv_nav :: int
  nv_n_open_positions :: nat
  nv_n_closed_trades :: nat
  nv_open_market_value :: int
  nv_nav_mtm :: int
  nv_n_open_unmarked :: nat

definition notional_of :: "fill_row \<Rightarrow> int" where
  "notional_of rec = fr_fill_price rec * fr_qty rec"

text \<open>The loop over the open lots: cost, fees, market value and the two counts.\<close>

type_synonym open_acc = "int \<times> int \<times> int \<times> nat \<times> nat"

definition open_lot_step ::
  "string \<Rightarrow> (string \<rightharpoonup> int) \<Rightarrow> string set \<Rightarrow> fill_row \<Rightarrow> open_acc \<Rightarrow> open_acc res" where
  "open_lot_step as_of_date marks closed_ids rec acc = (case acc of (cost, fees, value, n_open, n_unmarked) \<Rightarrow>
     if fr_side rec = ''buy'' \<and> fr_order_id rec \<notin> closed_ids then
       (let notional = notional_of rec;
            fee = side_fee_krw notional;
            mark = (case marks (fr_symbol rec) of None \<Rightarrow> 0 | Some m \<Rightarrow> m)
        in case fr_filled_at rec of
          None \<Rightarrow> Inl ValueError
        | Some filled \<Rightarrow>
            if iso_str (fst filled) = as_of_date then
              Inr (cost + notional, fees + fee, value + notional, n_open + 1, n_unmarked)
            else if 0 < mark then
              Inr (cost + notional, fees + fee, value + mark * fr_qty rec, n_open + 1, n_unmarked)
            else Inr (cost + notional, fees + fee, value + notional, n_open + 1, n_unmarked + 1))
     else Inr acc)"

definition build_nav_snapshot ::
  "(civil \<Rightarrow> session_day res) \<Rightarrow> fill_row list \<Rightarrow> int \<Rightarrow> string \<Rightarrow> (string \<rightharpoonup> int) \<Rightarrow> nav_row res" where
  "build_nav_snapshot resolve fills seed_capital as_of_date marks =
     (if fills = [] then
        Inr \<lparr>nv_as_of_date = as_of_date, nv_seed_capital = seed_capital, nv_cash = seed_capital,
             nv_open_cost_basis = 0, nv_open_buy_fees = 0, nv_realized_net_pnl = 0,
             nv_cumulative_cost = 0, nv_nav = seed_capital, nv_n_open_positions = 0,
             nv_n_closed_trades = 0, nv_open_market_value = 0, nv_nav_mtm = seed_capital,
             nv_n_open_unmarked = 0\<rparr>
      else rbind (build_round_trips resolve fills) (\<lambda>trips.
        let buys = filter (\<lambda>r. fr_side r = ''buy'') fills;
            buy_outflow = sum_list (map (\<lambda>r. notional_of r + side_fee_krw (notional_of r)) buys);
            total_buy_fees = sum_list (map (\<lambda>r. side_fee_krw (notional_of r)) buys);
            closed_ids = set (map rt_entry_order_id trips)
        in rbind (rfold (open_lot_step as_of_date marks closed_ids) fills (0, 0, 0, 0, 0))
             (\<lambda>(open_cost_basis, open_buy_fees, open_market_value, n_open, n_unmarked).
          let exit_inflow = sum_list (map (\<lambda>t. rt_exit_price t * rt_qty t - rt_sell_fee t - rt_sell_tax t) trips);
              sell_costs = sum_list (map (\<lambda>t. rt_sell_fee t + rt_sell_tax t) trips);
              realized_net_pnl = sum_list (map rt_net_pnl trips);
              cash = seed_capital - buy_outflow + exit_inflow;
              cumulative_cost = total_buy_fees + sell_costs;
              nav = cash + open_cost_basis
          in Inr \<lparr>nv_as_of_date = as_of_date, nv_seed_capital = seed_capital, nv_cash = cash,
                  nv_open_cost_basis = open_cost_basis, nv_open_buy_fees = open_buy_fees,
                  nv_realized_net_pnl = realized_net_pnl, nv_cumulative_cost = cumulative_cost,
                  nv_nav = nav, nv_n_open_positions = n_open, nv_n_closed_trades = length trips,
                  nv_open_market_value = open_market_value, nv_nav_mtm = cash + open_market_value,
                  nv_n_open_unmarked = n_unmarked\<rparr>)))"

section \<open>Accounting facts\<close>

abbreviation buys_of :: "fill_row list \<Rightarrow> fill_row list" where
  "buys_of fills \<equiv> filter (\<lambda>r. fr_side r = ''buy'') fills"

abbreviation sells_of :: "fill_row list \<Rightarrow> fill_row list" where
  "sells_of fills \<equiv> filter (\<lambda>r. fr_side r = ''sell'') fills"

text \<open>A trip carries the buy it closes and adds its parts up exactly.\<close>

definition trip_sound :: "round_trip \<Rightarrow> bool" where
  "trip_sound t \<longleftrightarrow>
     rt_buy_fee t = side_fee_krw (rt_entry_price t * rt_qty t)
   \<and> rt_sell_fee t = side_fee_krw (rt_exit_price t * rt_qty t)
   \<and> rt_cost t = rt_buy_fee t + rt_sell_fee t + rt_sell_tax t
   \<and> rt_gross_pnl t = rt_exit_price t * rt_qty t - rt_entry_price t * rt_qty t
   \<and> rt_net_pnl t = rt_gross_pnl t - rt_cost t"

lemma close_trip_sound:
  assumes "close_trip resolve buy sell sold = Inr t"
  shows "trip_sound t" "rt_entry_order_id t = fr_order_id buy" "rt_exit_order_id t = fr_order_id sell"
    "rt_entry_price t = fr_fill_price buy" "rt_exit_price t = fr_fill_price sell"
    "rt_qty t = fr_qty sell" "rt_symbol t = fr_symbol sell"
  using assms by (auto simp: close_trip_def trip_sound_def Let_def)

text \<open>
  The loop invariant: the open dictionary holds exactly the buys seen so far that no trip
  has closed, and the trips so far close distinct buys with the buy's own price and
  quantity, one per sell.
\<close>

definition trip_inv :: "fill_row list \<Rightarrow> trip_state \<Rightarrow> bool" where
  "trip_inv seen st \<longleftrightarrow> (case st of (open_buys, rows) \<Rightarrow>
     (\<forall>k b. open_buys k = Some b \<longleftrightarrow>
        b \<in> set (buys_of seen) \<and> fr_order_id b = k \<and> k \<notin> set (map rt_entry_order_id rows))
   \<and> distinct (map rt_entry_order_id rows)
   \<and> set (map rt_entry_order_id rows) \<subseteq> set (map fr_order_id (buys_of seen))
   \<and> (\<forall>t\<in>set rows. trip_sound t \<and> (\<exists>b\<in>set (buys_of seen). fr_order_id b = rt_entry_order_id t
        \<and> rt_entry_price t = fr_fill_price b \<and> rt_qty t = fr_qty b))
   \<and> map rt_exit_order_id rows = map fr_order_id (sells_of seen))"

lemma trip_step_inv:
  assumes "trip_inv seen st" "trip_step resolve rec st = Inr st'"
    "distinct (map fr_order_id (buys_of (seen @ [rec])))"
  shows "trip_inv (seen @ [rec]) st'"
proof -
  obtain ob rows where st: "st = (ob, rows)" by (cases st)
  consider (buy) "fr_side rec = ''buy''" | (sell) "fr_side rec = ''sell''"
    using assms(2) by (auto simp: trip_step_def st split: if_splits)
  then show ?thesis
  proof cases
    case buy
    then have fresh: "fr_order_id rec \<notin> set (map fr_order_id (buys_of seen))" using assms(3) by simp
    have st': "st' = (ob(fr_order_id rec \<mapsto> rec), rows)"
      using assms(2) buy by (simp add: trip_step_def st)
    have inv: "\<And>k b. ob k = Some b \<longleftrightarrow>
          b \<in> set (buys_of seen) \<and> fr_order_id b = k \<and> k \<notin> set (map rt_entry_order_id rows)"
      and rest: "distinct (map rt_entry_order_id rows)"
        "set (map rt_entry_order_id rows) \<subseteq> set (map fr_order_id (buys_of seen))"
        "\<forall>t\<in>set rows. trip_sound t \<and> (\<exists>b\<in>set (buys_of seen). fr_order_id b = rt_entry_order_id t
          \<and> rt_entry_price t = fr_fill_price b \<and> rt_qty t = fr_qty b)"
        "map rt_exit_order_id rows = map fr_order_id (sells_of seen)"
      using assms(1) unfolding trip_inv_def st prod.case by blast+
    have buys: "buys_of (seen @ [rec]) = buys_of seen @ [rec]" "sells_of (seen @ [rec]) = sells_of seen"
      using buy by simp_all
    have unclosed: "fr_order_id rec \<notin> set (map rt_entry_order_id rows)" using rest(2) fresh by blast
    have other: "b \<in> set (buys_of seen) \<Longrightarrow> fr_order_id b \<noteq> fr_order_id rec" for b
      using fresh by (metis image_eqI set_map)
    have "(ob(fr_order_id rec \<mapsto> rec)) k = Some b \<longleftrightarrow>
        b \<in> set (buys_of seen @ [rec]) \<and> fr_order_id b = k \<and> k \<notin> set (map rt_entry_order_id rows)" for k b
      using inv [of k b] other [of b] unclosed by (cases "k = fr_order_id rec") auto
    moreover have "set (map rt_entry_order_id rows) \<subseteq> set (map fr_order_id (buys_of seen @ [rec]))"
      using rest(2) unfolding map_append set_append by blast
    moreover have "\<forall>t\<in>set rows. trip_sound t \<and> (\<exists>b\<in>set (buys_of seen @ [rec]).
        fr_order_id b = rt_entry_order_id t \<and> rt_entry_price t = fr_fill_price b \<and> rt_qty t = fr_qty b)"
      using rest(3) unfolding set_append by blast
    ultimately show ?thesis using rest(1,4) unfolding st' trip_inv_def prod.case buys by blast
  next
    case sell
    then obtain link b sold row where
      l: "fr_entry_order_id rec = Some link" "ob link = Some b" "fr_qty rec = fr_qty b"
        "fr_filled_at rec = Some sold" "close_trip resolve b rec sold = Inr row"
        "st' = (ob(link := None), rows @ [row])"
      using assms(2) by (auto simp: trip_step_def st Let_def split: if_splits option.splits)
    note row = close_trip_sound [OF l(5)]
    have b: "b \<in> set (buys_of seen)" "fr_order_id b = link" "link \<notin> set (map rt_entry_order_id rows)"
      using assms(1) l(2) by (auto simp: trip_inv_def st)
    show ?thesis
      using assms(1) b row l(3) sell unfolding l(6) trip_inv_def st prod.case
      by (intro conjI) (auto simp: fun_upd_def)
  qed
qed

lemma trips_inv:
  assumes "rfold (trip_step resolve) fills (Map.empty, []) = Inr st"
    "distinct (map fr_order_id (buys_of fills))"
  shows "trip_inv fills st"
  using assms
proof (induction fills arbitrary: st rule: rev_induct)
  case Nil
  then show ?case by (auto simp: trip_inv_def)
next
  case (snoc rec fills)
  then obtain st0 where st0: "rfold (trip_step resolve) fills (Map.empty, []) = Inr st0"
    "trip_step resolve rec st0 = Inr st" by (auto simp: rfold_append)
  have "trip_inv fills st0" using snoc st0(1) by simp
  then show ?case using trip_step_inv st0(2) snoc.prems(2) by blast
qed

text \<open>Summing a quantity of the buy over all buys splits into the open lots and the trips.\<close>

lemma sum_split_closed:
  assumes "distinct (map fr_order_id bs)" "distinct (map rt_entry_order_id rows)"
    "\<And>t. t \<in> set rows \<Longrightarrow> \<exists>b\<in>set bs. fr_order_id b = rt_entry_order_id t \<and> g b = (G t :: int)"
  shows "sum_list (map g bs) =
    sum_list (map g (filter (\<lambda>b. fr_order_id b \<notin> set (map rt_entry_order_id rows)) bs))
    + sum_list (map G rows)"
  using assms(2,3)
proof (induction rows)
  case (Cons t rows)
  let ?ids = "set (map rt_entry_order_id rows)"
  obtain b where b: "b \<in> set bs" "fr_order_id b = rt_entry_order_id t" "g b = G t"
    using Cons.prems(2) by fastforce
  have nb: "fr_order_id b \<notin> ?ids" using Cons.prems(1) b(2) by simp
  have dist: "distinct bs" "\<And>c. c \<in> set bs \<Longrightarrow> fr_order_id c = fr_order_id b \<Longrightarrow> c = b"
    using assms(1) b(1) by (auto simp: distinct_map inj_on_def)
  have "sum_list (map g (filter (\<lambda>c. fr_order_id c \<notin> ?ids) bs)) =
      g b + sum_list (map g (filter (\<lambda>c. fr_order_id c \<notin> ?ids \<and> c \<noteq> b) bs))"
  proof -
    have "sum_list (map g (filter (\<lambda>c. fr_order_id c \<notin> ?ids) bs)) =
        (\<Sum>c\<in>{c \<in> set bs. fr_order_id c \<notin> ?ids}. g c)"
      using dist(1) by (simp add: sum_list_distinct_conv_sum_set)
    also have "\<dots> = g b + (\<Sum>c\<in>{c \<in> set bs. fr_order_id c \<notin> ?ids} - {b}. g c)"
      using b(1) nb by (intro sum.remove) auto
    also have "{c \<in> set bs. fr_order_id c \<notin> ?ids} - {b} = {c \<in> set bs. fr_order_id c \<notin> ?ids \<and> c \<noteq> b}"
      by auto
    finally show ?thesis using dist(1) by (simp add: sum_list_distinct_conv_sum_set)
  qed
  moreover have "filter (\<lambda>c. fr_order_id c \<notin> ?ids \<and> c \<noteq> b) bs =
      filter (\<lambda>c. fr_order_id c \<notin> set (map rt_entry_order_id (t # rows))) bs"
    using dist(2) b(2) by (intro filter_cong) auto
  ultimately show ?case using Cons b(3) by simp
qed simp

text \<open>The fold over the open lots sums cost and fees of the buys not closed.\<close>

lemma open_lots_sums:
  assumes "rfold (open_lot_step d marks ids) fills (c0, f0, v0, n0, u0) = Inr (c, f, v, n, u)"
  shows "c = c0 + sum_list (map notional_of (filter (\<lambda>r. fr_order_id r \<notin> ids) (buys_of fills)))"
    and "f = f0 + sum_list (map (\<lambda>r. side_fee_krw (notional_of r))
        (filter (\<lambda>r. fr_order_id r \<notin> ids) (buys_of fills)))"
    and "n = n0 + length (filter (\<lambda>r. fr_order_id r \<notin> ids) (buys_of fills))"
    and "u - u0 \<le> n - n0" "u0 \<le> u"
proof -
  have "c = c0 + sum_list (map notional_of (filter (\<lambda>r. fr_order_id r \<notin> ids) (buys_of fills)))
    \<and> f = f0 + sum_list (map (\<lambda>r. side_fee_krw (notional_of r))
        (filter (\<lambda>r. fr_order_id r \<notin> ids) (buys_of fills)))
    \<and> n = n0 + length (filter (\<lambda>r. fr_order_id r \<notin> ids) (buys_of fills))
    \<and> u - u0 \<le> n - n0 \<and> u0 \<le> u"
    using assms
  proof (induction fills arbitrary: c0 f0 v0 n0 u0)
    case (Cons r fills)
    then obtain c1 f1 v1 n1 u1 where s: "open_lot_step d marks ids r (c0, f0, v0, n0, u0) = Inr (c1, f1, v1, n1, u1)"
      "rfold (open_lot_step d marks ids) fills (c1, f1, v1, n1, u1) = Inr (c, f, v, n, u)" by auto
    from s(1) Cons.IH [OF s(2)] show ?case
      by (auto simp: open_lot_step_def Let_def split: if_splits option.splits)
  qed simp
  then show "c = c0 + sum_list (map notional_of (filter (\<lambda>r. fr_order_id r \<notin> ids) (buys_of fills)))"
    and "f = f0 + sum_list (map (\<lambda>r. side_fee_krw (notional_of r))
        (filter (\<lambda>r. fr_order_id r \<notin> ids) (buys_of fills)))"
    and "n = n0 + length (filter (\<lambda>r. fr_order_id r \<notin> ids) (buys_of fills))"
    and "u - u0 \<le> n - n0" "u0 \<le> u" by auto
qed


lemma build_round_trips_inv:
  assumes "build_round_trips resolve fills = Inr trips" "distinct (map fr_order_id (buys_of fills))"
  obtains ob where "trip_inv fills (ob, trips)"
proof -
  obtain ob where "rfold (trip_step resolve) fills (Map.empty, []) = Inr (ob, trips)"
    using assms(1) by (auto simp: build_round_trips_def)
  then show thesis using trips_inv [OF _ assms(2)] that by blast
qed

lemma trip_parts_sum:
  assumes "\<forall>t\<in>set rows. trip_sound t"
  shows "sum_list (map (\<lambda>t. rt_exit_price t * rt_qty t - rt_sell_fee t - rt_sell_tax t) rows) =
    sum_list (map rt_net_pnl rows) + sum_list (map (\<lambda>t. rt_entry_price t * rt_qty t) rows)
    + sum_list (map rt_buy_fee rows)"
  using assms by (induction rows) (auto simp: trip_sound_def)

text \<open>The snapshot of any ledger with unique buy ids, as sums over its buys and trips.\<close>

lemma nav_snapshot_parts:
  assumes nav: "build_nav_snapshot resolve fills seed d marks = Inr nv"
    and dist: "distinct (map fr_order_id (buys_of fills))"
  obtains trips where "build_round_trips resolve fills = Inr trips"
    "nv_realized_net_pnl nv = sum_list (map rt_net_pnl trips)"
    "nv_n_closed_trades nv = length trips"
    "nv_nav nv = nv_cash nv + nv_open_cost_basis nv"
    "nv_nav_mtm nv = nv_cash nv + nv_open_market_value nv"
    "nv_cash nv + nv_open_cost_basis nv = seed + nv_realized_net_pnl nv - nv_open_buy_fees nv"
    "nv_n_open_positions nv + length trips = length (buys_of fills)"
    "nv_n_open_unmarked nv \<le> nv_n_open_positions nv"
proof (cases "fills = []")
  case True
  then show ?thesis using nav that [of "[]"]
    by (auto simp: build_nav_snapshot_def build_round_trips_def)
next
  case False
  then obtain trips c f v n u where t: "build_round_trips resolve fills = Inr trips"
    and lots: "rfold (open_lot_step d marks (set (map rt_entry_order_id trips))) fills (0, 0, 0, 0, 0)
        = Inr (c, f, v, n, u)"
    and nv: "nv_realized_net_pnl nv = sum_list (map rt_net_pnl trips)" "nv_n_closed_trades nv = length trips"
      "nv_nav nv = nv_cash nv + c" "nv_open_cost_basis nv = c" "nv_open_buy_fees nv = f"
      "nv_nav_mtm nv = nv_cash nv + v" "nv_open_market_value nv = v"
      "nv_n_open_positions nv = n" "nv_n_open_unmarked nv = u"
      "nv_cash nv = seed - sum_list (map (\<lambda>r. notional_of r + side_fee_krw (notional_of r)) (buys_of fills))
        + sum_list (map (\<lambda>t. rt_exit_price t * rt_qty t - rt_sell_fee t - rt_sell_tax t) trips)"
    using nav by (auto simp: build_nav_snapshot_def Let_def)
  obtain ob where inv: "trip_inv fills (ob, trips)" by (rule build_round_trips_inv [OF t dist])
  then have dt: "distinct (map rt_entry_order_id trips)"
    and sound: "\<forall>t\<in>set trips. trip_sound t"
    and link: "\<And>t. t \<in> set trips \<Longrightarrow> \<exists>b\<in>set (buys_of fills). fr_order_id b = rt_entry_order_id t
        \<and> rt_entry_price t = fr_fill_price b \<and> rt_qty t = fr_qty b"
    unfolding trip_inv_def prod.case by blast+
  let ?open = "filter (\<lambda>b. fr_order_id b \<notin> set (map rt_entry_order_id trips)) (buys_of fills)"
  note sums = open_lots_sums [OF lots]
  have notional: "sum_list (map notional_of (buys_of fills)) =
      sum_list (map notional_of ?open) + sum_list (map (\<lambda>t. rt_entry_price t * rt_qty t) trips)"
    by (rule sum_split_closed [OF dist dt]) (use link in \<open>fastforce simp: notional_of_def\<close>)
  have fees: "sum_list (map (\<lambda>r. side_fee_krw (notional_of r)) (buys_of fills)) =
      sum_list (map (\<lambda>r. side_fee_krw (notional_of r)) ?open) + sum_list (map rt_buy_fee trips)"
    by (rule sum_split_closed [OF dist dt]) (use link sound in \<open>fastforce simp: notional_of_def trip_sound_def\<close>)
  have count: "int (length (buys_of fills)) = int (length ?open) + int (length trips)"
    using sum_split_closed [OF dist dt, of "\<lambda>_. 1" "\<lambda>_. 1"] link by (fastforce simp: sum_list_triv)
  have outflow: "sum_list (map (\<lambda>r. notional_of r + side_fee_krw (notional_of r)) (buys_of fills)) =
      sum_list (map notional_of (buys_of fills)) + sum_list (map (\<lambda>r. side_fee_krw (notional_of r)) (buys_of fills))"
    by (simp add: sum_list_addf)
  show ?thesis
  proof (rule that [OF t])
    show "nv_cash nv + nv_open_cost_basis nv = seed + nv_realized_net_pnl nv - nv_open_buy_fees nv"
      using nv sums(1,2) notional fees outflow trip_parts_sum [OF sound] by simp
    show "nv_n_open_positions nv + length trips = length (buys_of fills)"
      using nv sums(3) count by simp
    show "nv_n_open_unmarked nv \<le> nv_n_open_positions nv" using nv sums(4) by simp
  qed (use nv in simp_all)
qed

end
