(* ===== verification/Paper_Ledger.thy ===== *)
theory Paper_Ledger
  imports Paper_Trips
begin

text \<open>
  The on-disk ledger of \<open>src/execution/paper_broker.py\<close>: the stores of \<open>PaperLedger\<close> as
  lists of rows, the append-only discipline of fills and corrections, voiding a fill by a
  correction event, the effective view every reader derives from, and the roster of held
  symbols. The exclusive file lock and the parquet files are the environment: each method
  is one read-modify-write under the lock.
\<close>

section \<open>Stores\<close>

record correction_row =
  co_correction_id :: string
  co_action :: string
  co_target_order_ids :: string
  co_reason :: string
  co_evidence :: string
  co_operator :: string
  co_as_of_date :: string
  co_recorded_at :: moment

record decision_entry =
  de_decision_date :: string
  de_symbol :: string
  de_reason :: string

record paper_ledger =
  pl_orders :: "order_row list"
  pl_fills :: "fill_row list"
  pl_decisions :: "decision_entry list"
  pl_trades :: "round_trip list"
  pl_nav :: "nav_row list"
  pl_corrections :: "correction_row list"

definition empty_ledger :: paper_ledger where
  "empty_ledger = \<lparr>pl_orders = [], pl_fills = [], pl_decisions = [], pl_trades = [], pl_nav = [],
     pl_corrections = []\<rparr>"

definition CORRECTION_ACTION_VOID_FILL :: string where
  "CORRECTION_ACTION_VOID_FILL = ''VOID_FILL''"

definition CORRECTION_ACTION_NOTE :: string where
  "CORRECTION_ACTION_NOTE = ''NOTE''"

section \<open>Appending\<close>

text \<open>
  \<open>_append\<close> has two modes. Append-only kinds refuse a key that repeats within the batch
  or is already stored; the other kinds concatenate and keep the last row of every key
  (\<open>drop_duplicates(keep="last")\<close>), except that a first batch is written as it is.
\<close>

definition append_only :: "('r \<Rightarrow> 'k) \<Rightarrow> 'r list \<Rightarrow> 'r list \<Rightarrow> 'r list res" where
  "append_only key rows existing =
     (if \<not> distinct (map key rows) then Inl ValueError
      else if list_ex (\<lambda>r. key r \<in> set (map key existing)) rows then Inl ValueError
      else Inr (existing @ rows))"

fun keep_last :: "('r \<Rightarrow> 'k) \<Rightarrow> 'r list \<Rightarrow> 'r list" where
  "keep_last key [] = []"
| "keep_last key (r # rs) =
     (if key r \<in> set (map key rs) then keep_last key rs else r # keep_last key rs)"

definition append_upsert :: "('r \<Rightarrow> 'k) \<Rightarrow> 'r list \<Rightarrow> 'r list \<Rightarrow> 'r list" where
  "append_upsert key rows existing =
     (if existing = [] then rows else keep_last key (existing @ rows))"

definition record_fills :: "fill_row list \<Rightarrow> paper_ledger \<Rightarrow> paper_ledger res" where
  "record_fills rows l = rbind (append_only fr_order_id rows (pl_fills l)) (\<lambda>fs. Inr (l\<lparr>pl_fills := fs\<rparr>))"

definition record_corrections :: "correction_row list \<Rightarrow> paper_ledger \<Rightarrow> paper_ledger res" where
  "record_corrections rows l =
     rbind (append_only co_correction_id rows (pl_corrections l)) (\<lambda>cs. Inr (l\<lparr>pl_corrections := cs\<rparr>))"

definition record_orders :: "order_row list \<Rightarrow> paper_ledger \<Rightarrow> paper_ledger" where
  "record_orders rows l =
     l\<lparr>pl_orders := append_upsert (\<lambda>r. po_order_id (or_order r)) rows (pl_orders l)\<rparr>"

definition record_nav :: "nav_row list \<Rightarrow> paper_ledger \<Rightarrow> paper_ledger" where
  "record_nav rows l = l\<lparr>pl_nav := append_upsert nv_as_of_date rows (pl_nav l)\<rparr>"

definition record_no_decision :: "string \<Rightarrow> string \<Rightarrow> paper_ledger \<Rightarrow> paper_ledger" where
  "record_no_decision decision_date reason l =
     l\<lparr>pl_decisions := append_upsert (\<lambda>r. (de_decision_date r, de_symbol r))
        [\<lparr>de_decision_date = decision_date, de_symbol = [], de_reason = reason\<rparr>] (pl_decisions l)\<rparr>"

definition rewrite_derived :: "round_trip list \<Rightarrow> paper_ledger \<Rightarrow> paper_ledger" where
  "rewrite_derived trips l = l\<lparr>pl_trades := trips\<rparr>"

section \<open>Corrections\<close>

fun split_on :: "char \<Rightarrow> string \<Rightarrow> string list" where
  "split_on c [] = [[]]"
| "split_on c (d # s) = (if d = c then [] # split_on c s
     else (case split_on c s of w # ws \<Rightarrow> (d # w) # ws | [] \<Rightarrow> [[d]]))"

definition voided_order_ids :: "paper_ledger \<Rightarrow> string set" where
  "voided_order_ids l =
     set (filter (\<lambda>p. p \<noteq> []) (concat (map (\<lambda>c. map py_strip (split_on (CHR '','') (co_target_order_ids c)))
       (filter (\<lambda>c. co_action c = CORRECTION_ACTION_VOID_FILL) (pl_corrections l)))))"

definition load_effective_fills :: "paper_ledger \<Rightarrow> fill_row list" where
  "load_effective_fills l = filter (\<lambda>f. fr_order_id f \<notin> voided_order_ids l) (pl_fills l)"

record open_position =
  op_entry_order_id :: string
  op_symbol :: string
  op_qty :: int
  op_entry_price :: int
  op_decision_date :: string

definition load_open_positions :: "paper_ledger \<Rightarrow> open_position list res" where
  "load_open_positions l = (let fills = load_effective_fills l; sells = sells_of fills in
     if list_ex (\<lambda>r. fr_entry_order_id r = None) sells then Inl ValueError
     else let closed = set (map fr_entry_order_id sells) in
       Inr (map (\<lambda>r. \<lparr>op_entry_order_id = fr_order_id r, op_symbol = fr_symbol r, op_qty = fr_qty r,
                      op_entry_price = fr_fill_price r, op_decision_date = fr_decision_date r\<rparr>)
              (filter (\<lambda>r. Some (fr_order_id r) \<notin> closed) (buys_of fills))))"

definition void_fill ::
  "string \<Rightarrow> string \<Rightarrow> string \<Rightarrow> string \<Rightarrow> string \<Rightarrow> moment \<Rightarrow> paper_ledger \<Rightarrow> paper_ledger res" where
  "void_fill order_id reason evidence operator as_of_date now l =
     (if py_blank reason then Inl ValueError
      else if py_blank operator then Inl ValueError
      else if order_id \<notin> set (map fr_order_id (pl_fills l)) then Inl ValueError
      else if order_id \<in> voided_order_ids l then Inl ValueError
      else if (case find (\<lambda>f. fr_order_id f = order_id) (pl_fills l) of
                 Some f \<Rightarrow> fr_side f = ''buy'' | None \<Rightarrow> False)
           \<and> Some order_id \<in> set (map fr_entry_order_id (sells_of (load_effective_fills l)))
        then Inl ValueError
      else record_corrections
        [\<lparr>co_correction_id = as_of_date @ '':'' @ CORRECTION_ACTION_VOID_FILL @ '':'' @ order_id,
          co_action = CORRECTION_ACTION_VOID_FILL, co_target_order_ids = order_id, co_reason = reason,
          co_evidence = evidence, co_operator = operator, co_as_of_date = as_of_date,
          co_recorded_at = now\<rparr>] l)"

fun join_comma :: "string list \<Rightarrow> string" where
  "join_comma [] = []"
| "join_comma [w] = w"
| "join_comma (w # ws) = w @ '','' @ join_comma ws"

definition record_note ::
  "string list \<Rightarrow> string \<Rightarrow> string \<Rightarrow> string \<Rightarrow> string \<Rightarrow> moment \<Rightarrow> paper_ledger \<Rightarrow> paper_ledger res" where
  "record_note target_order_ids reason evidence operator as_of_date now l =
     (if py_blank reason then Inl ValueError
      else if py_blank operator then Inl ValueError
      else record_corrections
        [\<lparr>co_correction_id = as_of_date @ '':'' @ CORRECTION_ACTION_NOTE @ '':'' @ reason,
          co_action = CORRECTION_ACTION_NOTE, co_target_order_ids = join_comma target_order_ids,
          co_reason = reason, co_evidence = evidence, co_operator = operator,
          co_as_of_date = as_of_date, co_recorded_at = now\<rparr>] l)"

section \<open>Derived ledgers\<close>

text \<open>Trades are rewritten from the effective fills, then the day's NAV row is stored; a failure to
  write one of the two stores is not modelled (both are rebuilt by the next refresh).\<close>

definition refresh_trade_ledgers ::
  "(civil \<Rightarrow> session_day res) \<Rightarrow> int \<Rightarrow> string \<Rightarrow> (string \<rightharpoonup> int) \<Rightarrow> (paper_ledger, nat) eff" where
  "refresh_trade_ledgers resolve seed_capital as_of_date marks =
     bnd (gets load_effective_fills) (\<lambda>fills.
     bnd (lift_res (\<lambda>_. build_round_trips resolve fills)) (\<lambda>trips.
     bnd (modify (rewrite_derived trips)) (\<lambda>_.
     bnd (lift_res (\<lambda>_. build_nav_snapshot resolve fills seed_capital as_of_date marks)) (\<lambda>nav.
     bnd (modify (record_nav [nav])) (\<lambda>_. ret (length trips))))))"

section \<open>The roster of held symbols\<close>

record held_roster =
  hr_symbols :: "string list"
  hr_ok :: bool
  hr_failure_reason :: "string option"

definition make_held_roster :: "string list \<Rightarrow> bool \<Rightarrow> string option \<Rightarrow> held_roster res" where
  "make_held_roster symbols ok reason =
     (if ok = (reason \<noteq> None) then Inl ValueError
      else Inr \<lparr>hr_symbols = symbols, hr_ok = ok, hr_failure_reason = reason\<rparr>)"

text \<open>The loop over the symbols: identifiable codes, and how many were not.\<close>

fun roster_codes :: "string option list \<Rightarrow> string list \<times> nat" where
  "roster_codes [] = ([], 0)"
| "roster_codes (item # items) = (case roster_codes items of (codes, unidentified) \<Rightarrow>
     (case item of
        None \<Rightarrow> (codes, Suc unidentified)
      | Some s \<Rightarrow> (let text = py_strip s in
          if text = [] then (codes, Suc unidentified) else (py_zfill 6 text # codes, unidentified))))"

definition load_held_roster :: "exn + string option list \<Rightarrow> (exn \<Rightarrow> string) \<Rightarrow> held_roster res" where
  "load_held_roster source exn_name = (case source of
     Inl e \<Rightarrow> make_held_roster [] False (Some (exn_name e))
   | Inr [] \<Rightarrow> make_held_roster [] True None
   | Inr raw \<Rightarrow> (case roster_codes raw of (codes, unidentified) \<Rightarrow>
       if unidentified \<noteq> 0
       then make_held_roster (sort (remdups codes)) False (Some ''unidentified_symbol'')
       else make_held_roster (sort (remdups codes)) True None))"

section \<open>Facts\<close>

lemma append_only_Inr:
  "append_only key rows existing = Inr out \<longleftrightarrow>
     distinct (map key rows) \<and> set (map key rows) \<inter> set (map key existing) = {} \<and> out = existing @ rows"
  by (auto simp: append_only_def list_ex_iff)

lemma append_only_distinct:
  "append_only key rows existing = Inr out \<Longrightarrow> distinct (map key existing) \<Longrightarrow> distinct (map key out)"
  by (auto simp: append_only_Inr)

lemma set_keep_last: "set (map key (keep_last key rs)) = set (map key rs)"
  by (induction rs) auto

lemma keep_last_subset: "set (keep_last key rs) \<subseteq> set rs"
  by (induction rs) auto

lemma distinct_keep_last: "distinct (map key (keep_last key rs))"
  using set_keep_last [of key] by (induction rs) auto

text \<open>After an upsert, the row found for a key is the last one written for it.\<close>

lemma keep_last_last: "keep_last key (rs @ [r]) = keep_last key (filter (\<lambda>x. key x \<noteq> key r) rs) @ [r]"
  by (induction rs) auto

text \<open>
  The well-formed ledger: order ids of fills and ids of corrections are unique, and every
  effective sell names an effective buy of its own.
\<close>

definition ledger_wf :: "paper_ledger \<Rightarrow> bool" where
  "ledger_wf l \<longleftrightarrow> distinct (map fr_order_id (pl_fills l)) \<and> distinct (map co_correction_id (pl_corrections l))
   \<and> (\<forall>s\<in>set (sells_of (load_effective_fills l)). \<exists>b\<in>set (buys_of (load_effective_fills l)).
        fr_entry_order_id s = Some (fr_order_id b))"

lemma ledger_wf_empty: "ledger_wf empty_ledger"
  by (simp add: ledger_wf_def empty_ledger_def load_effective_fills_def)

lemma split_on_no_sep: "c \<notin> set s \<Longrightarrow> split_on c s = [s]"
  by (induction s) auto

lemma void_fill_effects:
  assumes "void_fill oid reason ev opr d now l = Inr l'"
  shows "pl_fills l' = pl_fills l"
    and "\<exists>c. pl_corrections l' = pl_corrections l @ [c] \<and> co_action c = CORRECTION_ACTION_VOID_FILL
       \<and> co_target_order_ids c = oid"
    and "oid \<in> set (map fr_order_id (pl_fills l))" "oid \<notin> voided_order_ids l"
    and "distinct (map co_correction_id (pl_corrections l)) \<Longrightarrow>
       distinct (map co_correction_id (pl_corrections l'))"
  using assms
  by (auto simp: void_fill_def record_corrections_def append_only_Inr split: if_splits)

lemma voided_append:
  "voided_order_ids (l\<lparr>pl_corrections := cs @ [c]\<rparr>) =
   voided_order_ids (l\<lparr>pl_corrections := cs\<rparr>) \<union>
   (if co_action c = CORRECTION_ACTION_VOID_FILL
    then set (filter (\<lambda>p. p \<noteq> []) (map py_strip (split_on (CHR '','') (co_target_order_ids c)))) else {})"
  by (simp add: voided_order_ids_def)

lemma voided_cong: "pl_corrections l = pl_corrections l' \<Longrightarrow> voided_order_ids l = voided_order_ids l'"
  by (simp add: voided_order_ids_def)

text \<open>
  An order id is plain when it is not empty, has no comma and no outer white space, as the
  ids the pipeline writes are: then it is voided exactly.
\<close>

definition plain_id :: "string \<Rightarrow> bool" where
  "plain_id s \<longleftrightarrow> s \<noteq> [] \<and> CHR '','' \<notin> set s \<and> py_strip s = s"

lemma void_fill_voided:
  assumes "void_fill oid reason ev opr d now l = Inr l'" "plain_id oid"
  shows "voided_order_ids l' = insert oid (voided_order_ids l)"
proof -
  obtain c where c: "pl_corrections l' = pl_corrections l @ [c]" "co_action c = CORRECTION_ACTION_VOID_FILL"
    "co_target_order_ids c = oid" using void_fill_effects(2) [OF assms(1)] by blast
  have "voided_order_ids l' = voided_order_ids (l\<lparr>pl_corrections := pl_corrections l @ [c]\<rparr>)"
    using c(1) by (intro voided_cong) simp
  then show ?thesis using c assms(2) by (auto simp: voided_append plain_id_def split_on_no_sep)
qed

lemma void_fill_effective:
  assumes "void_fill oid reason ev opr d now l = Inr l'" "plain_id oid"
  shows "load_effective_fills l' = filter (\<lambda>f. fr_order_id f \<noteq> oid) (load_effective_fills l)"
  using void_fill_effects(1) [OF assms(1)] void_fill_voided [OF assms]
  by (auto simp: load_effective_fills_def intro: filter_cong)

lemma void_fill_wf:
  assumes v: "void_fill oid reason ev opr d now l = Inr l'" and p: "plain_id oid" and wf: "ledger_wf l"
  shows "ledger_wf l'"
proof -
  note eff = void_fill_effective [OF v p]
  have dist: "distinct (map fr_order_id (pl_fills l))" using wf by (simp add: ledger_wf_def)
  have no_ref: "Some oid \<notin> set (map fr_entry_order_id (sells_of (load_effective_fills l)))"
    if "b \<in> set (pl_fills l)" "fr_side b = ''buy''" "fr_order_id b = oid" for b
  proof -
    have "find (\<lambda>f. fr_order_id f = oid) (pl_fills l) = Some b"
      using that dist by (auto simp: find_Some_iff in_set_conv_nth distinct_conv_nth nth_eq_iff_index_eq)
    then show ?thesis using v that(2) by (auto simp: void_fill_def split: if_splits)
  qed
  have "\<exists>b\<in>set (buys_of (load_effective_fills l')). fr_entry_order_id s = Some (fr_order_id b)"
    if s: "s \<in> set (sells_of (load_effective_fills l'))" for s
  proof -
    have s0: "s \<in> set (sells_of (load_effective_fills l))" using s eff by auto
    then obtain b where b: "b \<in> set (buys_of (load_effective_fills l))" "fr_entry_order_id s = Some (fr_order_id b)"
      using wf by (auto simp: ledger_wf_def)
    have "fr_order_id b \<noteq> oid"
    proof
      assume "fr_order_id b = oid"
      then have "Some oid \<notin> set (map fr_entry_order_id (sells_of (load_effective_fills l)))"
        using no_ref b(1) by (auto simp: load_effective_fills_def)
      then show False using s0 b(2) \<open>fr_order_id b = oid\<close> by (metis image_eqI set_map)
    qed
    then show ?thesis using b eff by auto
  qed
  then show ?thesis
    using wf void_fill_effects [OF v] by (simp add: ledger_wf_def)
qed

end
