(* ===== verification/Paper_Properties.thy ===== *)
theory Paper_Properties
  imports Paper_Ledger
begin

text \<open>
  The properties of the paper broker: the append-only stores as instances of one contract,
  the conservation of money in the NAV, the agreement of the two readers of open positions,
  voided fills, repeated refreshes and the fill oracle.
\<close>

section \<open>Append-only stores\<close>

text \<open>
  A log of rows with unique keys: a batch is taken whole, at the end, exactly when its keys
  are new; nothing stored is changed.
\<close>

locale keyed_log =
  fixes key :: "'r \<Rightarrow> 'k" and rows :: "'l \<Rightarrow> 'r list" and add :: "'r list \<Rightarrow> 'l \<Rightarrow> 'l res"
  assumes add_accepts: "distinct (map key rs) \<Longrightarrow> set (map key rs) \<inter> set (map key (rows l)) = {} \<Longrightarrow>
      \<exists>l'. add rs l = Inr l'"
    and add_rows: "add rs l = Inr l' \<Longrightarrow> rows l' = rows l @ rs"
    and add_fresh: "add rs l = Inr l' \<Longrightarrow> distinct (map key rs) \<and> set (map key rs) \<inter> set (map key (rows l)) = {}"
begin

lemma add_iff: "(\<exists>l'. add rs l = Inr l') \<longleftrightarrow>
    distinct (map key rs) \<and> set (map key rs) \<inter> set (map key (rows l)) = {}"
  using add_accepts add_fresh by blast

lemma add_distinct: "add rs l = Inr l' \<Longrightarrow> distinct (map key (rows l)) \<Longrightarrow> distinct (map key (rows l'))"
  using add_rows add_fresh by force

text \<open>Batch after batch: the log is the concatenation of what was taken.\<close>

lemma adds_rows: "rfold add batches l = Inr l' \<Longrightarrow> rows l' = rows l @ concat batches"
  by (induction batches arbitrary: l) (auto simp: add_rows)

lemma adds_distinct: "rfold add batches l = Inr l' \<Longrightarrow> distinct (map key (rows l)) \<Longrightarrow> distinct (map key (rows l'))"
  by (rule rfold_invariant [where I = "\<lambda>l. distinct (map key (rows l))"]) (auto intro: add_distinct)

lemma adds_lookup:
  assumes "rfold add batches l = Inr l'" "distinct (map key (rows l))" "r \<in> set (rows l) \<union> set (concat batches)"
  shows "find (\<lambda>x. key x = key r) (rows l') = Some r"
proof -
  have r: "r \<in> set (rows l')" using assms(3) adds_rows [OF assms(1)] by auto
  have "distinct (map key (rows l'))" by (rule adds_distinct [OF assms(1,2)])
  with r show ?thesis
    by (auto simp: find_Some_iff in_set_conv_nth distinct_conv_nth nth_eq_iff_index_eq)
qed

end

interpretation fills_log: keyed_log fr_order_id pl_fills record_fills
  by unfold_locales (auto simp: record_fills_def append_only_Inr)

interpretation corrections_log: keyed_log co_correction_id pl_corrections record_corrections
  by unfold_locales (auto simp: record_corrections_def append_only_Inr)

text \<open>The fill ledger is append-only: after any sequence of batches it is the old ledger
  followed by them, the ids stay unique, every fill ever taken is still found under its id,
  and a batch that repeats a stored id is refused.\<close>

theorem fill_ledger_appends_only:
  assumes "rfold record_fills batches l = Inr l'" "distinct (map fr_order_id (pl_fills l))"
  shows "pl_fills l' = pl_fills l @ concat batches \<and> distinct (map fr_order_id (pl_fills l'))
    \<and> (\<forall>r\<in>set (pl_fills l) \<union> set (concat batches). find (\<lambda>x. fr_order_id x = fr_order_id r) (pl_fills l') = Some r)
    \<and> (\<forall>r\<in>set (pl_fills l'). \<forall>rs. r \<in> set rs \<longrightarrow> (\<exists>e. record_fills rs l' = Inl e))"
proof -
  have "\<exists>e. record_fills rs l' = Inl e" if "r \<in> set (pl_fills l')" "r \<in> set rs" for r rs
  proof (cases "record_fills rs l'")
    case (Inr l2)
    then have "set (map fr_order_id rs) \<inter> set (map fr_order_id (pl_fills l')) = {}"
      using fills_log.add_fresh by blast
    then show ?thesis using that by auto
  qed simp
  then show ?thesis using fills_log.adds_rows [OF assms(1)] fills_log.adds_distinct [OF assms]
      fills_log.adds_lookup [OF assms] by blast
qed

definition demo_buy :: fill_row where
  "demo_buy = \<lparr>fr_order_id = ''b1'', fr_symbol = ''005930'', fr_side = ''buy'', fr_qty = 10,
     fr_fill_price = 70000, fr_filled_at = Some ((2026, 3, 2), 0), fr_trigger = ''auction_close'',
     fr_entry_order_id = None, fr_decision_date = ''2026-03-02''\<rparr>"

lemma fill_ledger_appends_only_witness:
  "\<exists>l'. rfold record_fills [[demo_buy], [demo_buy\<lparr>fr_order_id := ''b2''\<rparr>]] empty_ledger = Inr l'
     \<and> distinct (map fr_order_id (pl_fills l')) \<and> length (pl_fills l') = 2"
proof -
  obtain l' where l': "rfold record_fills [[demo_buy], [demo_buy\<lparr>fr_order_id := ''b2''\<rparr>]] empty_ledger = Inr l'"
    by (simp add: record_fills_def append_only_def demo_buy_def empty_ledger_def)
  from fill_ledger_appends_only [OF this] l' show ?thesis by (auto simp: empty_ledger_def)
qed

section \<open>Money\<close>

text \<open>C23. Conservation of money: for any fill ledger with unique buy ids, the net asset value is
  the seed capital plus the realised net result less the fees of the open buys, it is also
  cash plus the cost of the open positions, and every buy is either open or closed by
  exactly one round trip.\<close>

theorem nav_conserves_capital:
  assumes "build_nav_snapshot resolve fills seed d marks = Inr nv"
    and "distinct (map fr_order_id (buys_of fills))"
  shows "nv_nav nv = seed + nv_realized_net_pnl nv - nv_open_buy_fees nv
    \<and> nv_nav nv = nv_cash nv + nv_open_cost_basis nv
    \<and> nv_nav_mtm nv = nv_cash nv + nv_open_market_value nv
    \<and> nv_n_open_positions nv + nv_n_closed_trades nv = length (buys_of fills)
    \<and> nv_n_open_unmarked nv \<le> nv_n_open_positions nv"
  by (rule nav_snapshot_parts [OF assms]) simp

definition demo_sell :: fill_row where
  "demo_sell = \<lparr>fr_order_id = ''s1'', fr_symbol = ''005930'', fr_side = ''sell'', fr_qty = 10,
     fr_fill_price = 71000, fr_filled_at = Some ((2026, 3, 3), 0), fr_trigger = ''auction_open'',
     fr_entry_order_id = Some ''b1'', fr_decision_date = ''2026-03-02''\<rparr>"

definition demo_calendar :: "civil \<Rightarrow> session_day res" where
  "demo_calendar d = Inr \<lparr>day_date = d, day_kind = STANDARD, day_clock = None, day_provenance = ''standard''\<rparr>"

lemma demo_tax: "\<exists>x. statutory_bp_asof (Some (toordinal (2026, 3, 3))) = Fin x"
proof -
  have "toordinal (2026, 3, 3) = 739678"
    by (simp add: toordinal_def days_before_year_def days_before_month_numeral days_in_month_def month_days_def
        leap_year_def Let_def)
  then show ?thesis
    by (simp add: statutory_bp_asof_def STATUTORY_BP_SCHEDULE_def toordinal_schedule Let_def del: One_nat_def)
qed

lemma demo_carry: "carry_days demo_calendar (Some ((2026, 3, 2), 0)) (Some ((2026, 3, 3), 0)) = Inr 0"
  by code_simp

lemma demo_trip: "\<exists>t. close_trip demo_calendar demo_buy demo_sell ((2026, 3, 3), 0) = Inr t"
  using demo_tax demo_carry
  by (auto simp: close_trip_def demo_buy_def demo_sell_def py_floor_def py_truediv_def fl_of_int_def Let_def)

lemma demo_rows [simp]:
  "fr_order_id demo_buy = ''b1''" "fr_side demo_buy = ''buy''" "fr_symbol demo_buy = ''005930''" "fr_qty demo_buy = 10"
  "fr_filled_at demo_buy = Some ((2026, 3, 2), 0)"
  "fr_order_id demo_sell = ''s1''" "fr_side demo_sell = ''sell''" "fr_symbol demo_sell = ''005930''" "fr_qty demo_sell = 10"
  "fr_entry_order_id demo_sell = Some ''b1''" "fr_filled_at demo_sell = Some ((2026, 3, 3), 0)"
  by (simp_all add: demo_buy_def demo_sell_def)

lemma demo_round_trips:
  "\<exists>t. build_round_trips demo_calendar [demo_buy, demo_sell] = Inr [t] \<and> rt_entry_order_id t = ''b1''"
proof -
  obtain t where t: "close_trip demo_calendar demo_buy demo_sell ((2026, 3, 3), 0) = Inr t" using demo_trip by blast
  then have "rt_entry_order_id t = ''b1''" using close_trip_sound(2) by fastforce
  with t show ?thesis by (simp add: build_round_trips_def trip_step_def Let_def)
qed

lemma nav_conserves_capital_witness:
  "\<exists>nv. build_nav_snapshot demo_calendar [demo_buy, demo_sell] 1000000 ''2026-03-03'' Map.empty = Inr nv
     \<and> nv_nav nv = 1000000 + nv_realized_net_pnl nv - nv_open_buy_fees nv
     \<and> nv_n_open_positions nv + nv_n_closed_trades nv = 1"
proof -
  obtain t where t: "build_round_trips demo_calendar [demo_buy, demo_sell] = Inr [t]" "rt_entry_order_id t = ''b1''"
    using demo_round_trips by blast
  then obtain nv where nv: "build_nav_snapshot demo_calendar [demo_buy, demo_sell] 1000000 ''2026-03-03'' Map.empty = Inr nv"
    by (simp add: build_nav_snapshot_def open_lot_step_def Let_def)
  from nav_conserves_capital [OF nv] nv show ?thesis by simp
qed

section \<open>Open positions\<close>

text \<open>Each trip closes the buy its sell names.\<close>

lemma trip_step_links:
  assumes "trip_step resolve rec (ob, rows) = Inr (ob', rows')" "\<And>k b. ob k = Some b \<Longrightarrow> fr_order_id b = k"
  shows "map (\<lambda>t. Some (rt_entry_order_id t)) rows' = map (\<lambda>t. Some (rt_entry_order_id t)) rows
      @ (if fr_side rec = ''sell'' then [fr_entry_order_id rec] else [])"
    and "\<And>k b. ob' k = Some b \<Longrightarrow> fr_order_id b = k"
  using assms close_trip_sound(2)
  by (fastforce simp: trip_step_def Let_def split: if_splits option.splits)+

lemma trips_links:
  assumes "build_round_trips resolve fills = Inr trips"
  shows "map (\<lambda>t. Some (rt_entry_order_id t)) trips = map fr_entry_order_id (sells_of fills)"
proof -
  have "rfold (trip_step resolve) fills (Map.empty, []) = Inr (ob, rows) \<Longrightarrow>
      map (\<lambda>t. Some (rt_entry_order_id t)) rows = map fr_entry_order_id (sells_of fills)
      \<and> (\<forall>k b. ob k = Some b \<longrightarrow> fr_order_id b = k)" for ob rows
  proof (induction fills arbitrary: ob rows rule: rev_induct)
    case (snoc rec fills)
    then obtain ob0 rows0 where s: "rfold (trip_step resolve) fills (Map.empty, []) = Inr (ob0, rows0)"
      "trip_step resolve rec (ob0, rows0) = Inr (ob, rows)" by (auto simp: rfold_snoc)
    note IH = snoc.IH [OF s(1)]
    show ?case using trip_step_links [OF s(2)] IH by auto
  qed simp
  then show ?thesis using assms by (auto simp: build_round_trips_def)
qed

lemma positions_of_trips:
  assumes "build_round_trips resolve (load_effective_fills l) = Inr trips"
    and "build_nav_snapshot resolve (load_effective_fills l) seed d marks = Inr nv"
    and "distinct (map fr_order_id (buys_of (load_effective_fills l)))"
  shows "\<exists>ps. load_open_positions l = Inr ps
    \<and> map op_entry_order_id ps = filter (\<lambda>k. k \<notin> set (map rt_entry_order_id trips))
        (map fr_order_id (buys_of (load_effective_fills l)))
    \<and> length ps = nv_n_open_positions nv"
proof -
  let ?fills = "load_effective_fills l"
  have links: "map (\<lambda>t. Some (rt_entry_order_id t)) trips = map fr_entry_order_id (sells_of ?fills)"
    by (rule trips_links [OF assms(1)])
  then have set_links: "set (map fr_entry_order_id (sells_of ?fills)) = Some ` set (map rt_entry_order_id trips)"
    by (metis (no_types, lifting) image_set list.map_comp comp_apply map_eq_conv)
  have named: "\<not> list_ex (\<lambda>r. fr_entry_order_id r = None) (sells_of ?fills)"
  proof
    assume "list_ex (\<lambda>r. fr_entry_order_id r = None) (sells_of ?fills)"
    then have "None \<in> set (map fr_entry_order_id (sells_of ?fills))" by (force simp: list_ex_iff image_iff)
    then show False unfolding set_links by auto
  qed
  let ?open = "filter (\<lambda>r. fr_order_id r \<notin> set (map rt_entry_order_id trips)) (buys_of ?fills)"
  have iff: "(Some (fr_order_id r) \<notin> set (map fr_entry_order_id (sells_of ?fills)))
      = (fr_order_id r \<notin> set (map rt_entry_order_id trips))" for r
    unfolding set_links by (simp add: inj_image_mem_iff)
  have ps: "load_open_positions l = Inr (map (\<lambda>r. \<lparr>op_entry_order_id = fr_order_id r, op_symbol = fr_symbol r,
      op_qty = fr_qty r, op_entry_price = fr_fill_price r, op_decision_date = fr_decision_date r\<rparr>) ?open)"
    using named by (simp only: load_open_positions_def Let_def iff if_False)
  have "nv_n_open_positions nv + length trips = length (buys_of ?fills)"
    by (rule nav_snapshot_parts [OF assms(2,3)]) (use assms(1) in auto)
  moreover have "length (buys_of ?fills) = length ?open + length trips"
  proof -
    obtain ob where inv: "trip_inv ?fills (ob, trips)" by (rule build_round_trips_inv [OF assms(1,3)])
    then have "distinct (map rt_entry_order_id trips)"
      "\<And>t. t \<in> set trips \<Longrightarrow> \<exists>b\<in>set (buys_of ?fills). fr_order_id b = rt_entry_order_id t"
      by (auto simp: trip_inv_def)
    from sum_split_closed [OF assms(3) this(1), of "\<lambda>_. 1" "\<lambda>_. 1"] this(2)
    show ?thesis by (fastforce simp: sum_list_triv)
  qed
  moreover have "map fr_order_id ?open = filter (\<lambda>k. k \<notin> set (map rt_entry_order_id trips)) (map fr_order_id (buys_of ?fills))"
    by (simp only: filter_map comp_def)
  ultimately show ?thesis using ps by (auto simp: comp_def)
qed

text \<open>The two readers of the fill ledger agree: the positions that load_open_positions reports
  are, in order, the buys that the pairing into round trips leaves open, and their number
  is the number of open positions of every NAV snapshot of the ledger.\<close>

theorem open_positions_agree_with_trips:
  assumes "build_round_trips resolve (load_effective_fills l) = Inr trips"
    and "build_nav_snapshot resolve (load_effective_fills l) seed d marks = Inr nv"
    and "distinct (map fr_order_id (buys_of (load_effective_fills l)))"
  shows "\<exists>ps. load_open_positions l = Inr ps
    \<and> map op_entry_order_id ps = filter (\<lambda>k. k \<notin> set (map rt_entry_order_id trips))
        (map fr_order_id (buys_of (load_effective_fills l)))
    \<and> length ps = nv_n_open_positions nv"
  by (rule positions_of_trips [OF assms])

definition demo_ledger :: paper_ledger where
  "demo_ledger = empty_ledger\<lparr>pl_fills := [demo_buy, demo_sell]\<rparr>"

lemma demo_effective [simp]: "load_effective_fills demo_ledger = [demo_buy, demo_sell]"
  by (simp add: load_effective_fills_def voided_order_ids_def demo_ledger_def empty_ledger_def)

lemma open_positions_agree_with_trips_witness:
  "\<exists>nv. build_nav_snapshot demo_calendar [demo_buy, demo_sell] 1000000 ''2026-03-03'' Map.empty = Inr nv
     \<and> load_open_positions demo_ledger = Inr [] \<and> nv_n_open_positions nv = 0"
proof -
  obtain t where t: "build_round_trips demo_calendar [demo_buy, demo_sell] = Inr [t]" "rt_entry_order_id t = ''b1''"
    using demo_round_trips by blast
  then obtain nv where nv: "build_nav_snapshot demo_calendar [demo_buy, demo_sell] 1000000 ''2026-03-03'' Map.empty = Inr nv"
    by (simp add: build_nav_snapshot_def open_lot_step_def Let_def)
  show ?thesis
    using open_positions_agree_with_trips [of demo_calendar demo_ledger "[t]" 1000000 "''2026-03-03''" Map.empty nv] t nv by simp
qed

section \<open>Voiding a fill\<close>

text \<open>Voiding a fill appends one correction and takes exactly that fill out of the effective
  view: no stored fill changes, the ledger stays well-formed (unique ids, every effective
  sell names an effective buy), and the same fill cannot be voided twice.\<close>

theorem void_fill_removes_one:
  assumes "void_fill oid reason ev opr d now l = Inr l'" "plain_id oid" "ledger_wf l"
  shows "ledger_wf l' \<and> pl_fills l' = pl_fills l \<and> length (pl_corrections l') = Suc (length (pl_corrections l))
    \<and> load_effective_fills l' = filter (\<lambda>f. fr_order_id f \<noteq> oid) (load_effective_fills l)
    \<and> (\<forall>reason ev opr d now. \<exists>e. void_fill oid reason ev opr d now l' = Inl e)"
proof -
  have "oid \<in> voided_order_ids l'" using void_fill_voided [OF assms(1,2)] by simp
  then have "\<exists>e. void_fill oid reason ev opr d now l' = Inl e" for reason ev opr d now
    by (auto simp: void_fill_def)
  then show ?thesis
    using void_fill_wf [OF assms] void_fill_effects(1,2) [OF assms(1)] void_fill_effective [OF assms(1,2)] by auto
qed

lemma void_fill_removes_one_witness:
  "\<exists>l'. void_fill ''s1'' ''typo'' ''mail'' ''kim'' ''2026-03-04'' ((2026, 3, 4), 0) demo_ledger = Inr l'
     \<and> load_effective_fills l' = [demo_buy] \<and> ledger_wf l'"
proof -
  have "\<not> py_blank ''typo''" "\<not> py_blank ''kim''" and plain: "plain_id ''s1''" by code_simp+
  then obtain l' where l': "void_fill ''s1'' ''typo'' ''mail'' ''kim'' ''2026-03-04'' ((2026, 3, 4), 0) demo_ledger = Inr l'"
    by (simp add: void_fill_def record_corrections_def append_only_def demo_ledger_def empty_ledger_def
        voided_order_ids_def)
  have "pl_fills demo_ledger = [demo_buy, demo_sell]" "pl_corrections demo_ledger = []"
    by (simp_all add: demo_ledger_def empty_ledger_def)
  then have "ledger_wf demo_ledger" by (simp add: ledger_wf_def)
  from void_fill_removes_one [OF l' plain this] l' show ?thesis by simp
qed

section \<open>Refreshing the derived ledgers\<close>

lemma keep_last_id: "distinct (map key rs) \<Longrightarrow> keep_last key rs = rs"
  by (induction rs) auto

lemma keep_last_Nil [simp]: "keep_last key rs = [] \<longleftrightarrow> rs = []"
  using set_keep_last [of key rs] by auto

lemma keep_last_twice: "keep_last key (keep_last key (rs @ [r]) @ [r]) = keep_last key (rs @ [r])"
proof -
  have "keep_last key (keep_last key (rs @ [r]) @ [r])
      = keep_last key (filter (\<lambda>x. key x \<noteq> key r) (keep_last key (rs @ [r]))) @ [r]"
    by (rule keep_last_last)
  also have "filter (\<lambda>x. key x \<noteq> key r) (keep_last key (rs @ [r]))
      = filter (\<lambda>x. key x \<noteq> key r) (keep_last key (filter (\<lambda>x. key x \<noteq> key r) rs))"
    by (simp add: keep_last_last)
  also have "\<dots> = keep_last key (filter (\<lambda>x. key x \<noteq> key r) rs)"
    using keep_last_subset [of key "filter (\<lambda>x. key x \<noteq> key r) rs"] by (intro filter_True) auto
  finally show ?thesis by (simp add: keep_last_id distinct_keep_last keep_last_last)
qed

lemma record_nav_twice: "record_nav [nv] (record_nav [nv] l) = record_nav [nv] l"
  by (auto simp: record_nav_def append_upsert_def keep_last_twice)

lemma effective_derived [simp]:
  "load_effective_fills (rewrite_derived trips l) = load_effective_fills l"
  "load_effective_fills (record_nav rows l) = load_effective_fills l"
  by (simp_all add: load_effective_fills_def voided_order_ids_def rewrite_derived_def record_nav_def)

lemma rewrite_record: "rewrite_derived trips (record_nav rows l) = record_nav rows (rewrite_derived trips l)"
  "rewrite_derived trips (rewrite_derived trips' l) = rewrite_derived trips l"
  by (simp_all add: rewrite_derived_def record_nav_def)

lemma refresh_run:
  "refresh_trade_ledgers resolve seed d marks l = (case build_round_trips resolve (load_effective_fills l) of
     Inl e \<Rightarrow> (Inl e, l)
   | Inr trips \<Rightarrow> (case build_nav_snapshot resolve (load_effective_fills l) seed d marks of
       Inl e \<Rightarrow> (Inl e, rewrite_derived trips l)
     | Inr nv \<Rightarrow> (Inr (length trips), record_nav [nv] (rewrite_derived trips l))))"
  by (simp add: refresh_trade_ledgers_def bnd_def gets_def lift_res_def modify_def ret_def split: sum.splits)

text \<open>Refreshing the derived ledgers reads only the fills and corrections: it never changes
  them, and refreshing again, for the same day and marks, returns the same count and leaves
  the ledger exactly as it is.\<close>

theorem refresh_is_idempotent:
  assumes "refresh_trade_ledgers resolve seed d marks l = (r, l')"
  shows "refresh_trade_ledgers resolve seed d marks l' = (r, l')
    \<and> pl_fills l' = pl_fills l \<and> pl_corrections l' = pl_corrections l \<and> pl_orders l' = pl_orders l"
  using assms
  by (auto simp: refresh_run rewrite_record record_nav_twice split: sum.splits)
    (simp_all add: rewrite_derived_def record_nav_def)

lemma refresh_is_idempotent_witness:
  "\<exists>l'. refresh_trade_ledgers demo_calendar 1000000 ''2026-03-03'' Map.empty demo_ledger = (Inr 1, l')
     \<and> refresh_trade_ledgers demo_calendar 1000000 ''2026-03-03'' Map.empty l' = (Inr 1, l')"
proof -
  obtain t where t: "build_round_trips demo_calendar [demo_buy, demo_sell] = Inr [t]" "rt_entry_order_id t = ''b1''"
    using demo_round_trips by blast
  then obtain l' where l': "refresh_trade_ledgers demo_calendar 1000000 ''2026-03-03'' Map.empty demo_ledger = (Inr 1, l')"
    by (simp add: refresh_run build_nav_snapshot_def open_lot_step_def Let_def)
  from refresh_is_idempotent [OF l'] l' show ?thesis by blast
qed

section \<open>The fill oracle\<close>

text \<open>No look-ahead: a fill carries the order's id, symbol, side and quantity, is never dated
  before the order was placed, never violates its limit, and an auction fill needs a
  confirmed row with a positive close; an observation from before the order is refused.\<close>

theorem fills_never_look_ahead:
  "(decide_fill ord p t = Inr (Some f) \<longrightarrow> po_placed_at ord \<le> pf_filled_at f \<and> pf_fill_price f = p
      \<and> pf_order_id f = po_order_id ord \<and> pf_qty f = po_qty ord
      \<and> (\<forall>l. po_limit_price ord = Some l \<longrightarrow> (if po_side ord = ''buy'' then p \<le> l else l \<le> p)))
   \<and> (build_auction_fill ord row = Inr (Some f) \<longrightarrow> notna_true (row_confirmed row) \<and> 0 < pf_fill_price f
      \<and> pf_fill_price f = row_close row \<and> po_placed_at ord \<le> pf_filled_at f \<and> pf_qty f = po_qty ord)
   \<and> (build_open_auction_fill ord op_price t = Inr (Some f) \<longrightarrow> po_placed_at ord \<le> t \<and> 0 < pf_fill_price f
      \<and> pf_fill_price f = op_price \<and> pf_filled_at f = po_placed_at ord)
   \<and> (t < po_placed_at ord \<longrightarrow> decide_fill ord p t = Inl ValueError \<and> build_open_auction_fill ord op_price t = Inl ValueError)"
  by (auto simp: decide_fill_def build_auction_fill_def build_open_auction_fill_def fill_of_def split: if_splits option.splits)

definition demo_order :: paper_order where
  "demo_order = \<lparr>po_order_id = ''b1'', po_decision_date = ''2026-03-02'', po_symbol = ''005930'', po_side = ''buy'',
     po_qty = 10, po_limit_price = Some 70500, po_placed_at = ((2026, 3, 2), 55200), po_reason = [],
     po_entry_order_id = None\<rparr>"

lemma fills_never_look_ahead_witness:
  "\<exists>f. decide_fill demo_order 70000 ((2026, 3, 2), 55800) = Inr (Some f) \<and> pf_fill_price f \<le> 70500
     \<and> po_placed_at demo_order \<le> pf_filled_at f
     \<and> decide_fill demo_order 70000 ((2026, 3, 2), 0) = Inl ValueError"
proof -
  obtain f where f: "decide_fill demo_order 70000 ((2026, 3, 2), 55800) = Inr (Some f)"
    by (simp add: decide_fill_def demo_order_def)
  have early: "((2026, 3, 2), 0) < po_placed_at demo_order" by (simp add: demo_order_def)
  from fills_never_look_ahead [of demo_order 70000 "((2026, 3, 2), 55800)" f]
    fills_never_look_ahead [of demo_order 70000 "((2026, 3, 2), 0)" f] f early
  show ?thesis by (auto simp: demo_order_def)
qed

section \<open>The held roster\<close>

lemma roster_codes_spec:
  "roster_codes items = (codes, n) \<Longrightarrow> n = length (filter (\<lambda>x. case x of None \<Rightarrow> True | Some s \<Rightarrow> py_blank s) items)
   \<and> codes = map (\<lambda>x. py_zfill 6 (py_strip (the x))) (filter (\<lambda>x. case x of None \<Rightarrow> False | Some s \<Rightarrow> \<not> py_blank s) items)"
  by (induction items arbitrary: codes n) (auto simp: py_blank_def Let_def split: option.splits prod.splits if_splits)

text \<open>The roster of held symbols fails closed: it always exists, is reported good only when the
  source was read and every row names a symbol, and then lists exactly the symbols of the
  source, each once and in order; a failed read or a nameless row gives a reason.\<close>

theorem held_roster_fails_closed:
  "\<exists>h. load_held_roster source name = Inr h \<and> (hr_ok h \<longleftrightarrow> hr_failure_reason h = None)
    \<and> (hr_ok h \<longleftrightarrow> (\<exists>items. source = Inr items \<and> (\<forall>x\<in>set items. \<exists>s. x = Some s \<and> \<not> py_blank s)))
    \<and> sorted (hr_symbols h) \<and> distinct (hr_symbols h)
    \<and> (\<forall>items. source = Inr items \<longrightarrow>
         set (hr_symbols h) = (\<lambda>s. py_zfill 6 (py_strip s)) ` {s. Some s \<in> set items \<and> \<not> py_blank s})"
proof (cases source)
  case (Inl e)
  then show ?thesis by (simp add: load_held_roster_def make_held_roster_def)
next
  case (Inr items)
  obtain codes n where rc: "roster_codes items = (codes, n)" by (cases "roster_codes items")
  note spec = roster_codes_spec [OF rc]
  have all: "n = 0 \<longleftrightarrow> (\<forall>x\<in>set items. \<exists>s. x = Some s \<and> \<not> py_blank s)"
    using spec by (auto simp: filter_empty_conv split: option.splits)
  have "set (filter (\<lambda>x. case x of None \<Rightarrow> False | Some s \<Rightarrow> \<not> py_blank s) items)
      = Some ` {s. Some s \<in> set items \<and> \<not> py_blank s}"
    by (auto split: option.splits)
  then have codes: "set codes = (\<lambda>s. py_zfill 6 (py_strip s)) ` {s. Some s \<in> set items \<and> \<not> py_blank s}"
    using spec by (auto simp: image_iff)
  have "load_held_roster source name = Inr \<lparr>hr_symbols = sort (remdups codes), hr_ok = (n = 0),
      hr_failure_reason = (if n = 0 then None else Some ''unidentified_symbol'')\<rparr>"
    using rc Inr by (cases items) (auto simp: load_held_roster_def make_held_roster_def)
  then show ?thesis using all codes Inr by (simp add: eq_commute [of "set codes"])
qed

lemma held_roster_fails_closed_witness:
  "\<exists>h. load_held_roster (Inr [Some ''5930'', Some '' 660 '', Some ''5930'']) (\<lambda>_. ''E'') = Inr h \<and> hr_ok h
     \<and> sorted (hr_symbols h) \<and> set (hr_symbols h) = {''005930'', ''000660''}"
proof -
  let ?src = "Inr [Some ''5930'', Some '' 660 '', Some ''5930''] :: exn + string option list"
  have c: "\<not> py_blank ''5930''" "\<not> py_blank '' 660 ''" "py_zfill 6 (py_strip ''5930'') = ''005930''"
    "py_zfill 6 (py_strip '' 660 '') = ''000660''" by code_simp+
  have "{s. Some s \<in> set [Some ''5930'', Some '' 660 '', Some ''5930''] \<and> \<not> py_blank s} = {''5930'', '' 660 ''}"
    using c by auto
  moreover obtain h where h: "load_held_roster ?src (\<lambda>_. ''E'') = Inr h"
    "hr_ok h \<longleftrightarrow> (\<exists>items. ?src = Inr items \<and> (\<forall>x\<in>set items. \<exists>s. x = Some s \<and> \<not> py_blank s))"
    "sorted (hr_symbols h)" "\<And>items. ?src = Inr items \<Longrightarrow>
       set (hr_symbols h) = (\<lambda>s. py_zfill 6 (py_strip s)) ` {s. Some s \<in> set items \<and> \<not> py_blank s}"
    using held_roster_fails_closed [of ?src "\<lambda>_. ''E''"] by blast
  ultimately show ?thesis using c by simp
qed

end
