(* ===== verification/Paper_Quotes.thy ===== *)
theory Paper_Quotes
  imports Paper_Ledger Entry_Decision
begin

text \<open>
  The pure parts of \<open>src/daily/paper_trade.py\<close>: the windows of the two phases, the orders
  of a decision and of the open lots, the marks of carried lots and the dated open quote.
  A decision frame is the rows of the decision store for one date; the vendor's answers
  are decoded JSON values.
\<close>

section \<open>Windows\<close>

definition PAPER_ENTRY_HHMMSS :: string where
  "PAPER_ENTRY_HHMMSS = ''152000''"

definition PAPER_EXIT_OPEN_AUCTION_HHMMSS :: string where
  "PAPER_EXIT_OPEN_AUCTION_HHMMSS = ''090000''"

definition PAPER_EXIT_MAX_PRESTART_WAIT_SECONDS :: int where
  "PAPER_EXIT_MAX_PRESTART_WAIT_SECONDS = 600"

definition PAPER_ENTRY_EARLIEST_HHMMSS :: string where
  "PAPER_ENTRY_EARLIEST_HHMMSS = DECISION_WINDOW_END_HHMMSS"

definition PAPER_ENTRY_CATCHUP_DEADLINE_HHMMSS :: string where
  "PAPER_ENTRY_CATCHUP_DEADLINE_HHMMSS = ''083000''"

definition PAPER_EXIT_OPEN_QUOTE_MAX_ATTEMPTS :: nat where
  "PAPER_EXIT_OPEN_QUOTE_MAX_ATTEMPTS = 24"

definition PAPER_EXIT_OPEN_QUOTE_RETRY_SECONDS :: fl where
  "PAPER_EXIT_OPEN_QUOTE_RETRY_SECONDS = Fin 10"

definition PAPER_EXIT_DATED_QUOTE_LOOKBACK_DAYS :: nat where
  "PAPER_EXIT_DATED_QUOTE_LOOKBACK_DAYS = 14"

text \<open>\<open>_placed_at\<close>, as the moment an order carries and as an instant of the clock.\<close>

definition placed_at :: "civil \<Rightarrow> string \<Rightarrow> moment" where
  "placed_at d hms = at_hhmmss d hms"

definition placed_instant :: "civil \<Rightarrow> string \<Rightarrow> int" where
  "placed_instant d hms = instant d (snd (placed_at d hms))"

definition moment_of :: "int \<Rightarrow> moment" where
  "moment_of t = (kst_date t, second_of_day t)"

datatype window_state = EARLY_SKIP | WAIT | WINDOW_OPEN | EXPIRED

definition exit_window_state :: "civil \<Rightarrow> int \<Rightarrow> window_state res" where
  "exit_window_state d now =
     (if kst_date now \<noteq> d then Inl ValueError
      else let earliest = placed_instant d PAPER_EXIT_OPEN_QUOTE_EARLIEST_HHMMSS in
        Inr (if now < earliest then
               (if f_lt (Fin (of_int PAPER_EXIT_MAX_PRESTART_WAIT_SECONDS)) (total_seconds (to_us (earliest - now)))
                then EARLY_SKIP else WAIT)
             else if now \<le> placed_instant d PAPER_EXIT_WINDOW_END_HHMMSS then WINDOW_OPEN
             else EXPIRED))"

definition entry_window_state :: "civil \<Rightarrow> int \<Rightarrow> window_state" where
  "entry_window_state d now =
     (if now < placed_instant d PAPER_ENTRY_EARLIEST_HHMMSS then WAIT
      else if placed_instant (next_day d) PAPER_ENTRY_CATCHUP_DEADLINE_HHMMSS \<le> now then EXPIRED
      else WINDOW_OPEN)"

text \<open>The loop back over a weekend, on ordinals.\<close>

fun back_to_weekday :: "nat \<Rightarrow> nat" where
  "back_to_weekday 0 = 0"
| "back_to_weekday (Suc n) = (if 5 \<le> (Suc n + 6) mod 7 then back_to_weekday n else Suc n)"

definition resolve_entry_decision_date :: "int \<Rightarrow> civil" where
  "resolve_entry_decision_date now = (let today = kst_date now in
     if placed_instant today PAPER_ENTRY_EARLIEST_HHMMSS \<le> now then today
     else fromordinal (back_to_weekday (toordinal today - 1)))"

section \<open>The decision\<close>

record paper_pick =
  pp_symbol :: string
  pp_allocation :: jval
  pp_pred :: jval
  pp_close :: jval
  pp_decided :: decided_cell

record topk_store =
  ts_has_decided :: bool
  ts_has_pred :: bool
  ts_rows :: "(string \<times> paper_pick) list"

record topk_frame =
  tf_has_decided :: bool
  tf_has_pred :: bool
  tf_picks :: "paper_pick list"

text \<open>\<open>load_topk_decision\<close>: the rows of the date, the last one of each symbol.\<close>

definition load_topk_decision :: "topk_store option \<Rightarrow> string \<Rightarrow> topk_frame" where
  "load_topk_decision store date_str = (case store of
     None \<Rightarrow> \<lparr>tf_has_decided = False, tf_has_pred = False, tf_picks = []\<rparr>
   | Some st \<Rightarrow> \<lparr>tf_has_decided = ts_has_decided st, tf_has_pred = ts_has_pred st,
       tf_picks = keep_last pp_symbol (map snd (filter (\<lambda>(d, p). d = date_str) (ts_rows st)))\<rparr>)"

definition is_na :: "jval \<Rightarrow> bool" where
  "is_na v \<longleftrightarrow> v = JNull \<or> v = JFloat NaN"

text \<open>The price an entry is sized with; zero when the decision has none.\<close>

definition decision_price_of :: "jval \<Rightarrow> int res" where
  "decision_price_of v = (if is_na v then Inr 0
     else case py_int v of
       Inr n \<Rightarrow> Inr n
     | Inl e \<Rightarrow> if e \<in> {TypeError, ValueError} then Inr 0 else Inl e)"

definition pick_sizing_price :: "fl \<Rightarrow> paper_pick \<Rightarrow> int res" where
  "pick_sizing_price buffer_bp p = rbind (decision_price_of (pp_close p)) (\<lambda>n.
     if n \<le> 0 then Inr 0 else sizing_price n buffer_bp)"

definition price_picks :: "fl \<Rightarrow> paper_pick list \<Rightarrow> (paper_pick \<times> int) list res" where
  "price_picks buffer_bp picks = rmap (\<lambda>p. rbind (pick_sizing_price buffer_bp p) (\<lambda>n. Inr (p, n))) picks"

text \<open>Whether the decision came too late for the closing auction.\<close>

definition decided_late :: "int \<Rightarrow> paper_pick \<Rightarrow> bool" where
  "decided_late auction_close p \<longleftrightarrow> (case pp_decided p of
     Stamp t \<Rightarrow> auction_close \<le> t
   | _ \<Rightarrow> True)"

definition missed_auction :: "topk_frame \<Rightarrow> int \<Rightarrow> session_kind \<Rightarrow> bool" where
  "missed_auction f auction_close kind \<longleftrightarrow>
     (if tf_has_decided f then list_ex (decided_late auction_close) (tf_picks f) else True)
     \<or> kind = SHIFTED \<or> kind = UNKNOWN_SESSION"

section \<open>Orders\<close>

definition paper_entry_order_id :: "string \<Rightarrow> string \<Rightarrow> string" where
  "paper_entry_order_id decision_date code = decision_date @ '':'' @ code @ '':entry''"

definition paper_entry_order :: "string \<Rightarrow> string \<Rightarrow> int \<Rightarrow> moment \<Rightarrow> paper_order" where
  "paper_entry_order decision_date code q placed =
     \<lparr>po_order_id = paper_entry_order_id decision_date code, po_decision_date = decision_date, po_symbol = code,
      po_side = ''buy'', po_qty = q, po_limit_price = None, po_placed_at = placed, po_reason = ''entry'',
      po_entry_order_id = None\<rparr>"

definition zero_qty_entry_order :: "string \<Rightarrow> string \<Rightarrow> moment \<Rightarrow> paper_order" where
  "zero_qty_entry_order decision_date code placed = paper_entry_order decision_date code 0 placed"

fun build_entry_orders ::
    "(paper_pick \<times> int) list \<Rightarrow> string \<Rightarrow> int \<Rightarrow> moment \<Rightarrow> paper_order list res" where
  "build_entry_orders [] decision_date seed_capital placed = Inr []"
| "build_entry_orders ((p, sizing) # ps) decision_date seed_capital placed =
     (if sizing \<le> 0 then build_entry_orders ps decision_date seed_capital placed
      else rbind (py_float (pp_allocation p)) (\<lambda>a.
        rbind (size_order_qty seed_capital a sizing) (\<lambda>q.
          if q = 0 then build_entry_orders ps decision_date seed_capital placed
          else rbind (build_entry_orders ps decision_date seed_capital placed) (\<lambda>rest.
            Inr (paper_entry_order decision_date (pp_symbol p) q placed # rest)))))"

definition exit_order_of :: "string \<Rightarrow> moment \<Rightarrow> open_position \<Rightarrow> paper_order" where
  "exit_order_of decision_date placed pos =
     \<lparr>po_order_id = op_entry_order_id pos @ '':exit:'' @ decision_date, po_decision_date = decision_date,
      po_symbol = op_symbol pos, po_side = ''sell'', po_qty = op_qty pos, po_limit_price = None,
      po_placed_at = placed, po_reason = ''open_exit'', po_entry_order_id = Some (op_entry_order_id pos)\<rparr>"

definition build_exit_orders :: "open_position list \<Rightarrow> string \<Rightarrow> moment \<Rightarrow> paper_order list" where
  "build_exit_orders positions decision_date placed = map (exit_order_of decision_date placed) positions"

definition entry_already_recorded :: "order_row list \<Rightarrow> string \<Rightarrow> bool" where
  "entry_already_recorded rows decision_date \<longleftrightarrow>
     list_ex (\<lambda>r. po_decision_date (or_order r) = decision_date \<and> po_reason (or_order r) = ''entry'') rows"

text \<open>\<open>_fill_row\<close>\<close>

definition fill_row_of :: "paper_fill \<Rightarrow> paper_order \<Rightarrow> fill_row" where
  "fill_row_of f ord =
     \<lparr>fr_order_id = pf_order_id f, fr_symbol = pf_symbol f, fr_side = pf_side f, fr_qty = pf_qty f,
      fr_fill_price = pf_fill_price f, fr_filled_at = Some (pf_filled_at f), fr_trigger = pf_trigger f,
      fr_entry_order_id = po_entry_order_id ord, fr_decision_date = po_decision_date ord\<rparr>"

text \<open>The rank of an order: the predicted value of its symbol, minus infinity if it has none.\<close>

definition pick_pred :: "paper_pick \<Rightarrow> fl res" where
  "pick_pred p = rbind (try_float (pp_pred p)) (\<lambda>r. Inr (case r of
     None \<Rightarrow> NegInf
   | Some f \<Rightarrow> if f_isnan f then NegInf else f))"

definition pred_by_symbol :: "topk_frame \<Rightarrow> (string \<times> fl) list res" where
  "pred_by_symbol f = (if tf_has_pred f
     then rmap (\<lambda>p. rbind (pick_pred p) (\<lambda>v. Inr (pp_symbol p, v))) (tf_picks f) else Inr [])"

definition order_rank :: "(string \<times> fl) list \<Rightarrow> paper_order \<Rightarrow> fl \<times> string" where
  "order_rank preds ord = (f_neg (case map_of preds (po_symbol ord) of None \<Rightarrow> NegInf | Some v \<Rightarrow> v), po_symbol ord)"

section \<open>Filling the entry orders\<close>

text \<open>The loop over the ranked orders: the cash left, the fills and the status of each order.\<close>

record entry_acc =
  ea_cash :: int
  ea_fills :: "fill_row list"
  ea_rows :: "(paper_order \<times> string) list"

definition entry_fill_step ::
    "(string \<times> Paper_Fills.decision_row) list \<Rightarrow> paper_order \<Rightarrow> entry_acc \<Rightarrow> entry_acc res" where
  "entry_fill_step snap ord acc = (case map_of snap (po_symbol ord) of
     None \<Rightarrow> Inr (acc\<lparr>ea_rows := ea_rows acc @ [(ord, ''NO_SNAPSHOT_ROW'')]\<rparr>)
   | Some row \<Rightarrow> rbind (build_auction_fill ord row) (\<lambda>fill. case fill of
       None \<Rightarrow> Inr (acc\<lparr>ea_rows := ea_rows acc @ [(ord, ''UNCONFIRMED'')]\<rparr>)
     | Some f \<Rightarrow>
         (let notional = pf_fill_price f * pf_qty f;
              fill_cost = notional + side_fee_krw notional
          in if ea_cash acc < fill_cost
             then Inr (acc\<lparr>ea_rows := ea_rows acc @ [(ord, ''INSUFFICIENT_CASH'')]\<rparr>)
             else Inr (acc\<lparr>ea_cash := ea_cash acc - fill_cost, ea_fills := ea_fills acc @ [fill_row_of f ord],
                    ea_rows := ea_rows acc @ [(ord, ''FILLED'')]\<rparr>))))"

definition unordered_picks :: "paper_pick list \<Rightarrow> paper_order list \<Rightarrow> paper_pick list" where
  "unordered_picks picks orders = filter (\<lambda>p. pp_symbol p \<notin> set (map po_symbol orders)) picks"

section \<open>Marks of carried lots\<close>

record panel_row =
  pn_symbol :: string
  pn_date :: civil
  pn_close :: fl

definition carried_symbols :: "open_position list \<Rightarrow> string \<Rightarrow> string list" where
  "carried_symbols positions as_of_date =
     sort (remdups (map op_symbol (filter (\<lambda>p. op_decision_date p < as_of_date) positions)))"

text \<open>The last close of a symbol that is a number.\<close>

definition last_close :: "panel_row list \<Rightarrow> string \<Rightarrow> fl option" where
  "last_close rows code = (case filter (\<lambda>c. \<not> f_isnan c) (map pn_close (filter (\<lambda>r. pn_symbol r = code) rows)) of
     [] \<Rightarrow> None | c # cs \<Rightarrow> Some (last (c # cs)))"

definition lot_marks :: "panel_row list \<Rightarrow> civil \<Rightarrow> string list \<Rightarrow> (string \<times> int) list res" where
  "lot_marks panel as_of codes =
     (let rows = sort_key pn_date (filter (\<lambda>r. pn_date r < as_of) panel) in
      rbind (rmap (\<lambda>code. case last_close rows code of
          Some c \<Rightarrow> if f_lt (Fin 0) c then rbind (py_int (JFloat c)) (\<lambda>n. Inr [(code, n)]) else Inr []
        | None \<Rightarrow> Inr []) codes) (\<lambda>ms. Inr (concat ms)))"

section \<open>The dated open quote\<close>

record dated_open_quote =
  dq_symbol :: string
  dq_business_date :: string
  dq_open_price :: int

text \<open>\<open>int(safe_float(value, 0.0))\<close>\<close>

definition safe_float :: "jval \<Rightarrow> fl \<Rightarrow> fl" where
  "safe_float v dflt = (if v = JNull then dflt
     else case float_of_str (filter (\<lambda>c. c \<noteq> CHR '','') (py_str v)) of Inr f \<Rightarrow> f | Inl _ \<Rightarrow> dflt)"

definition vendor_int :: "jval \<Rightarrow> int res" where
  "vendor_int v = py_int (JFloat (safe_float v (Fin 0)))"

definition inquire_open_of :: "jval \<Rightarrow> int res" where
  "inquire_open_of body = (case body of
     JObj r \<Rightarrow> (if pget r ''rt_cd'' = JStr ''0'' then
        (case pget r ''output'' of JObj out \<Rightarrow> vendor_int (pget out ''stck_oprc'') | _ \<Rightarrow> Inr 0) else Inr 0)
   | _ \<Rightarrow> Inr 0)"

text \<open>The newest dated row with a positive open: its date text and its open.\<close>

definition chart_step :: "jval \<Rightarrow> string \<times> int \<Rightarrow> (string \<times> int) res" where
  "chart_step row best = (case row of
     JObj r \<Rightarrow> (let raw_date = py_str (pget_default r ''stck_bsop_date'' (JStr [])) in
       rbind (vendor_int (pget r ''stck_oprc'')) (\<lambda>row_open.
         Inr (if 0 < row_open \<and> fst best < raw_date then (raw_date, row_open) else best)))
   | _ \<Rightarrow> Inr best)"

definition business_date_of :: "string \<Rightarrow> string" where
  "business_date_of best_date = (if best_date = [] then []
     else take 4 best_date @ ''-'' @ take 2 (drop 4 best_date) @ ''-'' @ take 2 (drop 6 best_date))"

definition chart_open_of :: "jval \<Rightarrow> (string \<times> int) res" where
  "chart_open_of body = (case body of
     JObj r \<Rightarrow> (if pget r ''rt_cd'' = JStr ''0'' then
        (case pget r ''output2'' of
           JList rows \<Rightarrow> rbind (rfold chart_step rows ([], 0)) (\<lambda>(best_date, chart_open).
             Inr (business_date_of best_date, chart_open))
         | _ \<Rightarrow> Inr ([], 0)) else Inr ([], 0))
   | _ \<Rightarrow> Inr ([], 0))"

text \<open>
  \<open>fetch_krx_dated_open_quote\<close> on the outcomes of its two requests; an exception of the
  request or of reading its answer is swallowed, \<open>Interrupted\<close> is not.
\<close>

definition swallow :: "'a \<Rightarrow> 'a res \<Rightarrow> 'a res" where
  "swallow dflt r = (case r of Inr a \<Rightarrow> Inr a | Inl e \<Rightarrow> if e = Interrupted then Inl e else Inr dflt)"

definition fetch_krx_dated_open_quote :: "string \<Rightarrow> string \<Rightarrow> jval res \<Rightarrow> jval res \<Rightarrow> dated_open_quote res" where
  "fetch_krx_dated_open_quote code decision_date price chart =
     rbind (swallow 0 (rbind price inquire_open_of)) (\<lambda>inquire_open.
     rbind (swallow ([], 0) (rbind chart chart_open_of)) (\<lambda>(business_date, chart_open).
       Inr \<lparr>dq_symbol = code, dq_business_date = business_date,
            dq_open_price = (if 0 < inquire_open \<and> business_date = decision_date \<and> inquire_open = chart_open
              then inquire_open else 0)\<rparr>))"

end
