(* ===== verification/Paper_Session.thy ===== *)
theory Paper_Session
  imports Paper_Quotes
begin

text \<open>
  The daily paper session of \<open>src/daily/paper_trade.py\<close>: \<open>_run_entry\<close>, \<open>_run_exit\<close> and
  \<open>run_paper_session\<close> over the ledger of \<open>Paper_Ledger\<close>. The decision store, the archive,
  the price panel, the quotes, the trading-day oracle, the clock, the host lock and the
  disk are functions of an abstract world; log output is left out.
\<close>

section \<open>The desk\<close>

text \<open>A write of a store is done, refused before it changes anything, or done and reported as
  failed; \<open>atomic_write_parquet\<close> never leaves half a file.\<close>

datatype store_write = Written | Refused | Reported

record paper_outcome =
  ou_outcome :: string
  ou_run_date :: string
  ou_reason :: string
  ou_metrics :: payload

record 'w paper_env =
  pe_seed_capital :: int
  pe_buffer_bp :: fl
  pe_session_day :: "civil \<Rightarrow> session_day res"
  pe_calendar :: "civil \<Rightarrow> session_day res"
  pe_now :: "'w \<Rightarrow> int \<times> 'w"
  pe_wall :: "'w \<Rightarrow> moment \<times> 'w"
  pe_sleep :: "fl \<Rightarrow> 'w \<Rightarrow> unit \<times> 'w"
  pe_lock :: "'w \<Rightarrow> bool \<times> 'w"
  pe_write :: "'w \<Rightarrow> store_write \<times> 'w"
  pe_topk :: "'w \<Rightarrow> topk_store option res \<times> 'w"
  pe_snapshot :: "string \<Rightarrow> 'w \<Rightarrow> (string \<times> Paper_Fills.decision_row) list res \<times> 'w"
  pe_panel :: "string list \<Rightarrow> 'w \<Rightarrow> panel_row list res \<times> 'w"
  pe_quote :: "string \<Rightarrow> 'w \<Rightarrow> dated_open_quote res \<times> 'w"
  pe_trading_day :: "string \<Rightarrow> 'w \<Rightarrow> bool res \<times> 'w"
  pe_record :: "(paper_outcome \<Rightarrow> 'w \<Rightarrow> unit res \<times> 'w) option"

record 'w paper_desk =
  pd_ledger :: paper_ledger
  pd_world :: 'w

type_synonym ('w, 'a) desk = "('w paper_desk, 'a) eff"

definition desk_call :: "('w \<Rightarrow> 'a \<times> 'w) \<Rightarrow> ('w, 'a) desk" where
  "desk_call f = (\<lambda>s. let (a, w) = f (pd_world s) in (Inr a, s\<lparr>pd_world := w\<rparr>))"

definition desk_try :: "('w \<Rightarrow> 'a res \<times> 'w) \<Rightarrow> ('w, 'a) desk" where
  "desk_try f = (\<lambda>s. let (r, w) = f (pd_world s) in (r, s\<lparr>pd_world := w\<rparr>))"

definition desk_ledger :: "(paper_ledger, 'a) eff \<Rightarrow> ('w, 'a) desk" where
  "desk_ledger m = (\<lambda>s. let (r, l) = m (pd_ledger s) in (r, s\<lparr>pd_ledger := l\<rparr>))"

text \<open>One \<open>record\<close> call: the new store is computed, then written.\<close>

definition ledger_write :: "('w, 'e) paper_env_scheme \<Rightarrow> (paper_ledger \<Rightarrow> paper_ledger res) \<Rightarrow> ('w, unit) desk" where
  "ledger_write X f = bnd (lift_res (\<lambda>s. f (pd_ledger s))) (\<lambda>l. bnd (desk_call (pe_write X)) (\<lambda>w. case w of
     Written \<Rightarrow> modify (\<lambda>s. s\<lparr>pd_ledger := l\<rparr>)
   | Refused \<Rightarrow> throw OSError
   | Reported \<Rightarrow> bnd (modify (\<lambda>s. s\<lparr>pd_ledger := l\<rparr>)) (\<lambda>_. throw OSError)))"

text \<open>\<open>with ledger.exclusive()\<close>\<close>

definition locked :: "('w, 'e) paper_env_scheme \<Rightarrow> ('w, 'a) desk \<Rightarrow> ('w, 'a) desk" where
  "locked X body = bnd (desk_call (pe_lock X)) (\<lambda>acquired. if acquired then body else throw TimeoutError)"

definition report ::
    "('w, 'e) paper_env_scheme \<Rightarrow> string \<Rightarrow> string \<Rightarrow> string \<Rightarrow> payload \<Rightarrow> ('w, unit) desk" where
  "report X outcome run_date reason metrics = (case pe_record X of
     None \<Rightarrow> ret ()
   | Some f \<Rightarrow> desk_try (f \<lparr>ou_outcome = outcome, ou_run_date = run_date, ou_reason = reason, ou_metrics = metrics\<rparr>))"

text \<open>\<open>order_record\<close> of each order with its status, stamped one by one.\<close>

fun order_records :: "('w, 'e) paper_env_scheme \<Rightarrow> (paper_order \<times> string) list \<Rightarrow> ('w, order_row list) desk" where
  "order_records X [] = ret []"
| "order_records X ((ord, status) # rest) =
     bnd (desk_call (pe_wall X)) (\<lambda>now.
     bnd (lift_res (\<lambda>_. order_record ord status now)) (\<lambda>row.
     bnd (order_records X rest) (\<lambda>rows. ret (row # rows))))"

definition record_order_rows :: "('w, 'e) paper_env_scheme \<Rightarrow> order_row list \<Rightarrow> ('w, unit) desk" where
  "record_order_rows X rows = (if rows = [] then ret () else ledger_write X (\<lambda>l. Inr (record_orders rows l)))"

definition record_fill_rows :: "('w, 'e) paper_env_scheme \<Rightarrow> fill_row list \<Rightarrow> ('w, unit) desk" where
  "record_fill_rows X fills = (if fills = [] then ret () else ledger_write X (record_fills fills))"

text \<open>\<open>load_open_lot_marks\<close>; a panel that cannot be read gives no marks.\<close>

definition load_open_lot_marks ::
    "('w, 'e) paper_env_scheme \<Rightarrow> open_position list \<Rightarrow> civil \<Rightarrow> string \<Rightarrow> ('w, (string \<times> int) list) desk" where
  "load_open_lot_marks X positions d date_str =
     (let codes = carried_symbols positions date_str in
      if codes = [] then ret []
      else bnd (catch_only OSError (catch_only ValueError
          (bnd (desk_try (pe_panel X codes)) (\<lambda>panel. ret (Some panel))) (ret None)) (ret None)) (\<lambda>r. case r of
        None \<Rightarrow> ret []
      | Some panel \<Rightarrow> lift_res (\<lambda>_. lot_marks panel d codes)))"

text \<open>The refresh both phases end with.\<close>

definition refresh_desk :: "('w, 'e) paper_env_scheme \<Rightarrow> civil \<Rightarrow> string \<Rightarrow> ('w, nat) desk" where
  "refresh_desk X d date_str =
     bnd (lift_res (\<lambda>s. load_open_positions (pd_ledger s))) (\<lambda>positions.
     bnd (load_open_lot_marks X positions d date_str) (\<lambda>marks.
       desk_ledger (refresh_trade_ledgers (pe_calendar X) (pe_seed_capital X) date_str (map_of marks))))"

section \<open>The entry phase\<close>

text \<open>After the window has passed: report a decision that was never booked.\<close>

definition entry_expired :: "('w, 'e) paper_env_scheme \<Rightarrow> string \<Rightarrow> ('w, nat) desk" where
  "entry_expired X date_str = (case pe_record X of
     None \<Rightarrow> ret 0
   | Some _ \<Rightarrow>
       bnd (desk_try (pe_topk X)) (\<lambda>store.
       let picks = tf_picks (load_topk_decision store date_str) in
       if picks = [] then ret 0
       else bnd (gets (\<lambda>s. pl_orders (pd_ledger s))) (\<lambda>rows.
         if entry_already_recorded rows date_str then ret 0
         else bnd (report X ''NO_DECISION'' date_str ''entry_window_expired'' [(''n_picks'', JInt (int (length picks)))]) (\<lambda>_.
           ret 0))))"

text \<open>A day without a decision: nothing on a holiday, an explicit row on a trading day.\<close>

definition entry_no_decision :: "('w, 'e) paper_env_scheme \<Rightarrow> string \<Rightarrow> ('w, nat) desk" where
  "entry_no_decision X date_str =
     bnd (desk_try (pe_trading_day X date_str)) (\<lambda>trading_open.
     if \<not> trading_open
     then bnd (report X ''SKIPPED'' date_str ''non_trading_day'' [(''session'', JStr ''CLOSED'')]) (\<lambda>_. ret 0)
     else bnd (ledger_write X (\<lambda>l. Inr (record_no_decision date_str ''no_persisted_decision'' l))) (\<lambda>_. ret 0))"

text \<open>A decision after the closing auction: one order row per pick, no fill.\<close>

definition entry_missed ::
    "('w, 'e) paper_env_scheme \<Rightarrow> string \<Rightarrow> moment \<Rightarrow> (paper_pick \<times> int) list \<Rightarrow> int \<Rightarrow> string option \<Rightarrow> ('w, nat) desk" where
  "entry_missed X date_str placed priced capital gate =
     bnd (lift_res (\<lambda>_. build_entry_orders priced date_str capital placed)) (\<lambda>orders.
     bnd (order_records X (map (\<lambda>ord. (ord, ''MISSED_AUCTION'')) orders
         @ map (\<lambda>p. (zero_qty_entry_order date_str (pp_symbol p) placed, ''MISSED_AUCTION''))
             (unordered_picks (map fst priced) orders))) (\<lambda>rows.
     bnd (record_order_rows X rows) (\<lambda>_.
     bnd (report X ''NO_DECISION'' date_str
         (case gate of Some g \<Rightarrow> g | None \<Rightarrow> ''decided_after_auction_close'') []) (\<lambda>_. ret 0))))"

text \<open>The booking itself: size, rank, fill while the cash lasts, record.\<close>

definition entry_book ::
    "('w, 'e) paper_env_scheme \<Rightarrow> civil \<Rightarrow> string \<Rightarrow> moment \<Rightarrow> topk_frame \<Rightarrow> (paper_pick \<times> int) list \<Rightarrow>
     (string \<times> Paper_Fills.decision_row) list \<Rightarrow> int \<Rightarrow> int \<Rightarrow> ('w, nat) desk" where
  "entry_book X d date_str placed frame priced snap cash capital =
     bnd (lift_res (\<lambda>_. build_entry_orders priced date_str capital placed)) (\<lambda>orders.
     bnd (order_records X (map (\<lambda>p. (zero_qty_entry_order date_str (pp_symbol p) placed, ''ZERO_QTY''))
         (unordered_picks (map fst priced) orders))) (\<lambda>zero_rows.
     bnd (lift_res (\<lambda>_. pred_by_symbol frame)) (\<lambda>preds.
     if \<not> distinct (map fst snap) then throw ValueError
     else
       bnd (lift_res (\<lambda>_. rfold (entry_fill_step snap) (sort_key (order_rank preds) orders)
           \<lparr>ea_cash = cash, ea_fills = [], ea_rows = []\<rparr>)) (\<lambda>acc.
       bnd (order_records X (ea_rows acc)) (\<lambda>rows.
       bnd (record_fill_rows X (ea_fills acc)) (\<lambda>_.
       bnd (record_order_rows X (zero_rows @ rows)) (\<lambda>_.
       bnd (refresh_desk X d date_str) (\<lambda>_. ret (length (ea_fills acc))))))))))"

definition entry_locked_body :: "('w, 'e) paper_env_scheme \<Rightarrow> civil \<Rightarrow> string \<Rightarrow> session_day \<Rightarrow> ('w, nat) desk" where
  "entry_locked_body X d date_str day =
     bnd (gets (\<lambda>s. pl_orders (pd_ledger s))) (\<lambda>existing.
     if entry_already_recorded existing date_str then ret 0
     else
       bnd (desk_try (pe_topk X)) (\<lambda>store.
       let frame = load_topk_decision store date_str in
       if tf_picks frame = [] then entry_no_decision X date_str
       else
         bnd (desk_try (pe_snapshot X date_str)) (\<lambda>snap.
         bnd (lift_res (\<lambda>_. price_picks (pe_buffer_bp X) (tf_picks frame))) (\<lambda>priced.
         let placed = placed_at d PAPER_ENTRY_HHMMSS in
         bnd (lift_res (\<lambda>s. build_nav_snapshot (pe_calendar X) (load_effective_fills (pd_ledger s))
             (pe_seed_capital X) date_str Map.empty)) (\<lambda>nav.
         let capital = investable_capital (nv_cash nav) (pe_seed_capital X) in
         if missed_auction frame (placed_instant d DECISION_WINDOW_END_HHMMSS) (day_kind day)
         then entry_missed X date_str placed priced capital (trading_session_gate day)
         else entry_book X d date_str placed frame priced snap (nv_cash nav) capital)))))"

definition run_paper_entry :: "('w, 'e) paper_env_scheme \<Rightarrow> civil \<Rightarrow> int \<Rightarrow> ('w, nat) desk" where
  "run_paper_entry X d now =
     (let date_str = iso_str d in
      case entry_window_state d now of
        WAIT \<Rightarrow> ret 0
      | EXPIRED \<Rightarrow> entry_expired X date_str
      | _ \<Rightarrow>
          bnd (lift_res (\<lambda>_. pe_session_day X d)) (\<lambda>day.
          if day_kind day = CLOSED
          then bnd (report X ''SKIPPED'' date_str ''non_trading_day'' [(''session'', JStr ''CLOSED'')]) (\<lambda>_. ret 0)
          else locked X (entry_locked_body X d date_str day)))"

section \<open>The exit phase\<close>

text \<open>One pass over the symbols still without an attested price.\<close>

fun quote_round ::
    "('w, 'e) paper_env_scheme \<Rightarrow> string \<Rightarrow> string list \<Rightarrow> (string \<times> int) list \<Rightarrow> (string \<times> dated_open_quote) list \<Rightarrow>
     ('w, (string \<times> int) list \<times> (string \<times> dated_open_quote) list) desk" where
  "quote_round X date_str [] prices seen = ret (prices, seen)"
| "quote_round X date_str (code # codes) prices seen =
     bnd (desk_try (pe_quote X code)) (\<lambda>q.
     quote_round X date_str codes
       (if 0 < dq_open_price q \<and> dq_business_date q = date_str then dset code (dq_open_price q) prices else prices)
       (dset code q seen))"

fun quote_attempts ::
    "('w, 'e) paper_env_scheme \<Rightarrow> string \<Rightarrow> nat \<Rightarrow> string list \<Rightarrow> (string \<times> int) list \<Rightarrow> (string \<times> dated_open_quote) list \<Rightarrow>
     ('w, (string \<times> int) list \<times> (string \<times> dated_open_quote) list) desk" where
  "quote_attempts X date_str 0 pending prices seen = ret (prices, seen)"
| "quote_attempts X date_str (Suc n) pending prices seen =
     bnd (quote_round X date_str pending prices seen) (\<lambda>(prices', seen').
     let pending' = filter (\<lambda>c. c \<notin> set (map fst prices')) pending in
     if pending' = [] then ret (prices', seen')
     else if 0 < n then bnd (desk_call (pe_sleep X PAPER_EXIT_OPEN_QUOTE_RETRY_SECONDS)) (\<lambda>_.
       quote_attempts X date_str n pending' prices' seen')
     else ret (prices', seen'))"

text \<open>Every quote seen is of an earlier session.\<close>

definition all_quotes_earlier :: "string \<Rightarrow> (string \<times> dated_open_quote) list \<Rightarrow> bool" where
  "all_quotes_earlier date_str seen \<longleftrightarrow> seen \<noteq> []
     \<and> list_all (\<lambda>(c, q). dq_business_date q \<noteq> [] \<and> dq_business_date q < date_str) seen"

definition exit_fills ::
    "paper_order list \<Rightarrow> (string \<times> int) list \<Rightarrow> moment \<Rightarrow> (paper_order \<times> paper_fill) list res" where
  "exit_fills orders prices observed_at = rbind (rmap (\<lambda>ord.
     rbind (build_open_auction_fill ord (dget 0 prices (po_symbol ord)) observed_at) (\<lambda>f.
       Inr (case f of None \<Rightarrow> [] | Some fill \<Rightarrow> [(ord, fill)]))) orders) (\<lambda>fs. Inr (concat fs))"

definition exit_skip_expired :: "('w, 'e) paper_env_scheme \<Rightarrow> string \<Rightarrow> nat \<Rightarrow> ('w, nat) desk" where
  "exit_skip_expired X date_str n_open =
     bnd (report X ''DEGRADED'' date_str ''exit_window_expired'' [(''n_open'', JInt (int n_open))]) (\<lambda>_. ret 0)"

definition exit_locked_body :: "('w, 'e) paper_env_scheme \<Rightarrow> civil \<Rightarrow> string \<Rightarrow> int \<Rightarrow> ('w, nat) desk" where
  "exit_locked_body X d date_str observed =
     bnd (lift_res (\<lambda>s. load_open_positions (pd_ledger s))) (\<lambda>positions.
     let orders = build_exit_orders positions date_str (placed_at d PAPER_EXIT_OPEN_AUCTION_HHMMSS) in
     if orders = [] then ret 0
     else
       bnd (quote_attempts X date_str PAPER_EXIT_OPEN_QUOTE_MAX_ATTEMPTS
           (sort (remdups (map po_symbol orders))) [] []) (\<lambda>(prices, seen).
       bnd (desk_call (pe_now X)) (\<lambda>late_now.
       let open_prices = (if placed_instant d PAPER_EXIT_WINDOW_END_HHMMSS < late_now then [] else prices) in
       bnd (lift_res (\<lambda>_. exit_fills orders open_prices (moment_of observed))) (\<lambda>filled.
       let filled_ids = map (\<lambda>(ord, f). po_order_id ord) filled;
           fills = map (\<lambda>(ord, f). fill_row_of f ord) filled in
       if filled_ids = [] \<and> all_quotes_earlier date_str seen
       then bnd (report X ''DEGRADED'' date_str ''session_not_opened'' [(''n_open'', JInt (int (length orders)))]) (\<lambda>_. ret 0)
       else
         bnd (record_fill_rows X fills) (\<lambda>_.
         bnd (order_records X (map (\<lambda>ord. (ord, if po_order_id ord \<in> set filled_ids then ''FILLED'' else ''UNFILLED'')) orders)) (\<lambda>rows.
         bnd (ledger_write X (\<lambda>l. Inr (record_orders rows l))) (\<lambda>_.
         bnd (refresh_desk X d date_str) (\<lambda>_. ret (length fills)))))))))"

text \<open>The checks of the calendar and the oracle before the lock; \<open>None\<close> to go on.\<close>

definition exit_gate :: "('w, 'e) paper_env_scheme \<Rightarrow> string \<Rightarrow> session_day \<Rightarrow> nat \<Rightarrow> ('w, nat option) desk" where
  "exit_gate X date_str day n_open =
     (if day_kind day = SHIFTED
      then bnd (report X ''DEGRADED'' date_str ''shifted_session_hold'' [(''n_open'', JInt (int n_open))]) (\<lambda>_. ret (Some 0))
      else bnd (desk_try (pe_trading_day X date_str)) (\<lambda>trading_open.
        if \<not> trading_open then
          (if day_kind day = STANDARD
           then bnd (report X ''DEGRADED'' date_str ''calendar_disagreement'' [(''n_open'', JInt (int n_open))]) (\<lambda>_. ret (Some 0))
           else bnd (report X ''SKIPPED'' date_str ''non_trading_day'' [(''session'', JStr ''CLOSED'')]) (\<lambda>_. ret (Some 0)))
        else if day_kind day = CLOSED
        then bnd (report X ''DEGRADED'' date_str ''calendar_disagreement'' [(''n_open'', JInt (int n_open))]) (\<lambda>_. ret (Some 0))
        else ret None))"

definition exit_after_gate ::
    "('w, 'e) paper_env_scheme \<Rightarrow> civil \<Rightarrow> string \<Rightarrow> nat \<Rightarrow> window_state \<Rightarrow> int \<Rightarrow> ('w, nat) desk" where
  "exit_after_gate X d date_str n_open state now =
     (let earliest = placed_instant d PAPER_EXIT_OPEN_QUOTE_EARLIEST_HHMMSS;
          observed = max now earliest in
      if state = WAIT then
        bnd (desk_call (pe_sleep X (total_seconds (to_us (earliest - now))))) (\<lambda>_.
        bnd (desk_call (pe_now X)) (\<lambda>later.
        bnd (lift_res (\<lambda>_. exit_window_state d later)) (\<lambda>state'.
          if state' = EXPIRED then exit_skip_expired X date_str n_open
          else locked X (exit_locked_body X d date_str observed))))
      else locked X (exit_locked_body X d date_str observed))"

definition run_paper_exit :: "('w, 'e) paper_env_scheme \<Rightarrow> civil \<Rightarrow> int \<Rightarrow> ('w, nat) desk" where
  "run_paper_exit X d now =
     (let date_str = iso_str d in
      bnd (lift_res (\<lambda>s. load_open_positions (pd_ledger s))) (\<lambda>probe.
      if probe = [] then ret 0
      else bnd (lift_res (\<lambda>_. exit_window_state d now)) (\<lambda>state.
        if state = EARLY_SKIP then ret 0
        else if state = EXPIRED then exit_skip_expired X date_str (length probe)
        else
          bnd (lift_res (\<lambda>_. pe_session_day X d)) (\<lambda>day.
          bnd (exit_gate X date_str day (length probe)) (\<lambda>stop. case stop of
            Some n \<Rightarrow> ret n
          | None \<Rightarrow> exit_after_gate X d date_str (length probe) state now)))))"

section \<open>A session\<close>

definition run_paper_session :: "('w, 'e) paper_env_scheme \<Rightarrow> civil \<Rightarrow> string \<Rightarrow> ('w, nat) desk" where
  "run_paper_session X d ph =
     (if ph \<noteq> ''entry'' \<and> ph \<noteq> ''exit'' then throw ValueError
      else bnd (desk_call (pe_now X)) (\<lambda>now.
        if ph = ''entry'' then run_paper_entry X d now else run_paper_exit X d now))"

end
