(* ===== verification/Paper_Soundness.thy ===== *)
theory Paper_Soundness
  imports Paper_Session "HOL-Library.Sublist"
begin

text \<open>
  What a paper session preserves. A session changes the ledger through a few writes only;
  the locale \<open>paper_client\<close> is their interface, and whatever they keep every session
  keeps, however it ends. It is interpreted for the accounting invariant of the fills and
  for the append-only discipline of the evidence.
\<close>

section \<open>The fills a session records\<close>

text \<open>What an entry phase books: buys of the day, paid at a positive price.\<close>

definition entry_batch :: "fill_row list \<Rightarrow> bool" where
  "entry_batch rows \<longleftrightarrow> (\<forall>r\<in>set rows. fr_side r = ''buy'' \<and> 0 < fr_qty r \<and> 0 < fr_fill_price r
     \<and> fr_filled_at r \<noteq> None \<and> fr_entry_order_id r = None)"

text \<open>What an exit phase books: sells of open positions, each position at most once, whole.\<close>

definition sells_position :: "moment \<Rightarrow> fill_row \<Rightarrow> open_position \<Rightarrow> bool" where
  "sells_position t r p \<longleftrightarrow> fr_side r = ''sell'' \<and> fr_entry_order_id r = Some (op_entry_order_id p)
     \<and> fr_symbol r = op_symbol p \<and> fr_qty r = op_qty p \<and> 0 < fr_fill_price r \<and> fr_filled_at r = Some t"

definition exit_batch :: "civil \<Rightarrow> paper_ledger \<Rightarrow> fill_row list \<Rightarrow> bool" where
  "exit_batch d l rows \<longleftrightarrow> (\<exists>ps sold. load_open_positions l = Inr ps \<and> subseq sold ps
     \<and> list_all2 (sells_position (placed_at d PAPER_EXIT_OPEN_AUCTION_HHMMSS)) rows sold)"

lemma size_order_qty_nonneg:
  assumes "size_order_qty capital a price = Inr q" "0 \<le> capital"
  shows "0 \<le> q"
proof -
  have p: "0 < price" "\<not> f_le a (Fin 0)" and fl: "py_floor (f_div (f_mul (fl_of_int capital) a) (fl_of_int price)) = Inr q"
    using assms(1) by (auto simp: size_order_qty_def split: if_splits)
  obtain r where r: "f_div (f_mul (fl_of_int capital) a) (fl_of_int price) = Fin r" "q = \<lfloor>r\<rfloor>"
    using fl by (auto simp: py_floor_def split: fl.splits)
  have cap: "0 \<le> rnd64 (of_int capital)" "0 \<le> rnd64 (of_int price)"
    using assms(2) p(1) by (simp_all add: rnd64_nonneg)
  have "0 \<le> r"
  proof (cases a)
    case (Fin x)
    then have "0 < x" using p(2) by (simp add: f_le_def)
    then show ?thesis using r(1) cap unfolding Fin fl_of_int_def
      by (auto split: if_splits intro!: rnd64_nonneg divide_nonneg_nonneg mult_nonneg_nonneg)
  next
    case PosInf
    then show ?thesis using r(1) by (auto simp: fl_of_int_def split: if_splits)
  next
    case NegInf
    then show ?thesis using p(2) by (simp add: f_le_def)
  next
    case NaN
    then show ?thesis using r(1) by (auto simp: fl_of_int_def)
  qed
  then show ?thesis using r(2) by simp
qed

lemma build_entry_orders_Inr:
  "build_entry_orders priced dt capital placed = Inr orders \<Longrightarrow> 0 \<le> capital \<Longrightarrow>
   (\<forall>ord\<in>set orders. po_side ord = ''buy'' \<and> 0 < po_qty ord \<and> po_entry_order_id ord = None \<and> po_placed_at ord = placed
      \<and> po_order_id ord = paper_entry_order_id dt (po_symbol ord) \<and> po_decision_date ord = dt \<and> po_reason ord = ''entry'')
   \<and> subseq (map po_symbol orders) (map (\<lambda>(p, n). pp_symbol p) priced)"
proof (induction priced dt capital placed arbitrary: orders rule: build_entry_orders.induct)
  case (2 p sizing ps dt capital placed)
  show ?case
  proof (cases "sizing \<le> 0")
    case True
    then show ?thesis using 2(1) [OF True] 2(4,5) by auto
  next
    case False
    then obtain a q where a: "py_float (pp_allocation p) = Inr a" "size_order_qty capital a sizing = Inr q"
      using 2(4) by auto
    then have "0 \<le> q" using size_order_qty_nonneg 2(5) by blast
    show ?thesis
    proof (cases "q = 0")
      case True
      then show ?thesis using 2(2) [OF False] 2(4,5) False a by auto
    next
      case q: False
      obtain rest where rest: "build_entry_orders ps dt capital placed = Inr rest"
        "orders = paper_entry_order dt (pp_symbol p) q placed # rest"
        using 2(4) False a q by auto
      then show ?thesis using 2(3) [OF False a q rest(1)] 2(5) \<open>0 \<le> q\<close> q
        by (auto simp: paper_entry_order_def)
    qed
  qed
qed simp

text \<open>The money of a batch of buys, fees included.\<close>

definition batch_cost :: "fill_row list \<Rightarrow> int" where
  "batch_cost rows = sum_list (map (\<lambda>r. notional_of r + side_fee_krw (notional_of r)) rows)"

lemma batch_cost_append [simp]: "batch_cost (xs @ ys) = batch_cost xs + batch_cost ys"
  and batch_cost_simps [simp]: "batch_cost [] = 0" "batch_cost (r # rows) = notional_of r + side_fee_krw (notional_of r) + batch_cost rows"
  by (simp_all add: batch_cost_def)

lemma entry_batch_append [simp]: "entry_batch (xs @ ys) \<longleftrightarrow> entry_batch xs \<and> entry_batch ys"
  by (auto simp: entry_batch_def)

lemma entry_fill_step_Inr:
  assumes "entry_fill_step snap ord acc = Inr acc'" "po_side ord = ''buy''" "0 < po_qty ord" "po_entry_order_id ord = None"
  shows "\<exists>new status. ea_fills acc' = ea_fills acc @ new \<and> ea_cash acc' = ea_cash acc - batch_cost new
    \<and> (0 \<le> ea_cash acc \<longrightarrow> 0 \<le> ea_cash acc') \<and> entry_batch new \<and> ea_rows acc' = ea_rows acc @ [(ord, status)]
    \<and> (\<forall>r\<in>set new. fr_order_id r = po_order_id ord \<and> fr_qty r = po_qty ord \<and> status = ''FILLED''
         \<and> (\<exists>row. map_of snap (po_symbol ord) = Some row \<and> notna_true (row_confirmed row) \<and> fr_fill_price r = row_close row))"
proof -
  have auction: "0 < pf_fill_price f \<and> pf_order_id f = po_order_id ord \<and> pf_side f = po_side ord \<and> pf_qty f = po_qty ord
      \<and> notna_true (row_confirmed row) \<and> pf_fill_price f = row_close row"
    if "build_auction_fill ord row = Inr (Some f)" for row f
    using that by (auto simp: build_auction_fill_def fill_of_def split: if_splits)
  consider (none) status where "acc' = acc\<lparr>ea_rows := ea_rows acc @ [(ord, status)]\<rparr>"
    | (fill) row f where "map_of snap (po_symbol ord) = Some row" "build_auction_fill ord row = Inr (Some f)"
      "pf_fill_price f * pf_qty f + side_fee_krw (pf_fill_price f * pf_qty f) \<le> ea_cash acc"
      "acc' = acc\<lparr>ea_cash := ea_cash acc - (pf_fill_price f * pf_qty f + side_fee_krw (pf_fill_price f * pf_qty f)),
         ea_fills := ea_fills acc @ [fill_row_of f ord], ea_rows := ea_rows acc @ [(ord, ''FILLED'')]\<rparr>"
    using assms(1) by (auto simp: entry_fill_step_def Let_def not_less split: option.splits if_splits)
  then show ?thesis
  proof cases
    case none
    then show ?thesis by (intro exI [of _ "[]"] exI [of _ status]) (simp add: entry_batch_def)
  next
    case fill
    then show ?thesis using auction [OF fill(2)] assms(2-4)
      by (intro exI [of _ "[fill_row_of f ord]"] exI [of _ "''FILLED''"])
        (simp add: entry_batch_def fill_row_of_def notional_of_def)
  qed
qed

lemma entry_fills_Inr:
  assumes "rfold (entry_fill_step snap) orders acc = Inr acc'"
    "\<forall>ord\<in>set orders. po_side ord = ''buy'' \<and> 0 < po_qty ord \<and> po_entry_order_id ord = None"
  shows "\<exists>new. ea_fills acc' = ea_fills acc @ new \<and> ea_cash acc' = ea_cash acc - batch_cost new
    \<and> (0 \<le> ea_cash acc \<longrightarrow> 0 \<le> ea_cash acc') \<and> entry_batch new
    \<and> map fst (ea_rows acc') = map fst (ea_rows acc) @ orders"
  using assms
proof (induction orders arbitrary: acc)
  case Nil
  then show ?case by (auto simp: entry_batch_def)
next
  case (Cons ord orders)
  then obtain mid where mid: "entry_fill_step snap ord acc = Inr mid" "rfold (entry_fill_step snap) orders mid = Inr acc'"
    by auto
  obtain new status where new: "ea_fills mid = ea_fills acc @ new" "ea_cash mid = ea_cash acc - batch_cost new"
    "0 \<le> ea_cash acc \<longrightarrow> 0 \<le> ea_cash mid" "entry_batch new" "ea_rows mid = ea_rows acc @ [(ord, status)]"
    using entry_fill_step_Inr [OF mid(1)] Cons.prems(2) by auto
  obtain more where "ea_fills acc' = ea_fills mid @ more" "ea_cash acc' = ea_cash mid - batch_cost more"
    "0 \<le> ea_cash mid \<longrightarrow> 0 \<le> ea_cash acc'" "entry_batch more" "map fst (ea_rows acc') = map fst (ea_rows mid) @ orders"
    using Cons.IH [OF mid(2)] Cons.prems(2) by auto
  then show ?case using new by (intro exI [of _ "new @ more"]) simp
qed

lemma exit_fills_Inr:
  assumes "exit_fills (map (exit_order_of dt placed) ps) prices observed = Inr filled"
  shows "\<exists>sold. subseq sold ps \<and> list_all2 (sells_position placed) (map (\<lambda>(ord, f). fill_row_of f ord) filled) sold
    \<and> (\<forall>(ord, f)\<in>set filled. ord \<in> set (map (exit_order_of dt placed) ps) \<and> pf_fill_price f = dget 0 prices (po_symbol ord)
         \<and> placed \<le> observed)"
  using assms
proof (induction ps arbitrary: filled)
  case Nil
  then show ?case by (auto simp: exit_fills_def)
next
  case (Cons p ps)
  let ?ord = "exit_order_of dt placed p"
  obtain fo rest where fo: "build_open_auction_fill ?ord (dget 0 prices (po_symbol ?ord)) observed = Inr fo"
    and rest: "exit_fills (map (exit_order_of dt placed) ps) prices observed = Inr rest"
    and filled: "filled = (case fo of None \<Rightarrow> [] | Some f \<Rightarrow> [(?ord, f)]) @ rest"
    using Cons.prems by (auto simp: exit_fills_def split: option.splits)
  obtain sold where sold: "subseq sold ps" "list_all2 (sells_position placed) (map (\<lambda>(ord, f). fill_row_of f ord) rest) sold"
    "\<forall>(ord, f)\<in>set rest. ord \<in> set (map (exit_order_of dt placed) ps) \<and> pf_fill_price f = dget 0 prices (po_symbol ord)
         \<and> placed \<le> observed"
    using Cons.IH [OF rest] by blast
  show ?case
  proof (cases fo)
    case None
    then show ?thesis using sold filled by (intro exI [of _ sold]) auto
  next
    case (Some f)
    then have "sells_position placed (fill_row_of f ?ord) p" "pf_fill_price f = dget 0 prices (po_symbol ?ord)"
        "placed \<le> observed"
      using fo by (auto simp: build_open_auction_fill_def fill_of_def exit_order_of_def fill_row_of_def sells_position_def
          split: if_splits)
    then show ?thesis using sold filled Some by (intro exI [of _ "p # sold"]) auto
  qed
qed

section \<open>The interface\<close>

text \<open>Assertions about the ledger are kept by whatever only touches the world.\<close>

lemma world_keeps:
  "keeps (\<lambda>s. P (pd_ledger s)) (desk_call f)" "keeps (\<lambda>s. P (pd_ledger s)) (desk_try g)"
  by (simp_all add: triple_def desk_call_def desk_try_def case_prod_beta)

lemma report_keeps: "keeps (\<lambda>s. P (pd_ledger s)) (report X outcome dt reason metrics)"
  by (simp add: report_def world_keeps keeps_basic split: option.split)

lemma order_records_keeps: "keeps (\<lambda>s. P (pd_ledger s)) (order_records X rows)"
  by (induction X rows rule: order_records.induct) (auto intro!: keeps_intros world_keeps)

lemma marks_keep: "keeps (\<lambda>s. P (pd_ledger s)) (load_open_lot_marks X ps d dt)"
  unfolding load_open_lot_marks_def Let_def by (intro keeps_intros world_keeps)

lemma quote_round_keeps: "keeps (\<lambda>s. P (pd_ledger s)) (quote_round X dt codes prices seen)"
  by (induction X dt codes prices seen rule: quote_round.induct) (auto intro!: keeps_intros world_keeps)

lemma quote_attempts_keep: "keeps (\<lambda>s. P (pd_ledger s)) (quote_attempts X dt n pending prices seen)"
  by (induction X dt n pending prices seen rule: quote_attempts.induct)
    (auto simp: Let_def intro!: keeps_intros world_keeps quote_round_keeps split: prod.splits)

lemma ledger_write_triple:
  assumes "\<And>l'. f l = Inr l' \<Longrightarrow> I l'" "I l"
  shows "triple (\<lambda>s. pd_ledger s = l) (ledger_write X f) (\<lambda>_ s. I (pd_ledger s))"
  using assms
  by (auto simp: triple_def ledger_write_def bnd_def lift_res_def desk_call_def modify_def throw_def case_prod_beta
      split: sum.split store_write.split)

locale paper_client =
  fixes I :: "paper_ledger \<Rightarrow> bool"
  assumes orders_keep: "I l \<Longrightarrow> I (record_orders rows l)"
    and decision_keep: "I l \<Longrightarrow> I (record_no_decision dt reason l)"
    and derived_keep: "I l \<Longrightarrow> I (rewrite_derived trips l)"
    and nav_keep: "I l \<Longrightarrow> I (record_nav navs l)"
    and entry_fills_keep: "I l \<Longrightarrow> entry_batch fills \<Longrightarrow> record_fills fills l = Inr l' \<Longrightarrow> I l'"
    and exit_fills_keep: "I l \<Longrightarrow> exit_batch d l fills \<Longrightarrow> record_fills fills l = Inr l' \<Longrightarrow> I l'"
begin

abbreviation kept :: "'w paper_desk \<Rightarrow> bool" where
  "kept s \<equiv> I (pd_ledger s)"

lemma write_keeps: "(\<And>l l'. I l \<Longrightarrow> f l = Inr l' \<Longrightarrow> I l') \<Longrightarrow> keeps kept (ledger_write X f)"
  using ledger_write_triple [of f _ I] by (fastforce simp: triple_def)

lemma order_rows_keep: "keeps kept (record_order_rows X rows)"
  unfolding record_order_rows_def by (intro keeps_intros write_keeps) (auto intro: orders_keep)

lemma entry_rows_keep: "entry_batch rows \<Longrightarrow> keeps kept (record_fill_rows X rows)"
  unfolding record_fill_rows_def by (intro keeps_intros write_keeps) (auto intro: entry_fills_keep)

lemma refresh_keeps: "keeps kept (refresh_desk X d dt)"
proof -
  have "keeps I (refresh_trade_ledgers r seed dt marks)" for r seed marks
    unfolding refresh_trade_ledgers_def by (intro keeps_intros) (auto intro: derived_keep nav_keep)
  then have "keeps kept (desk_ledger (refresh_trade_ledgers r seed dt marks))" for r seed marks
    by (auto simp: triple_def desk_ledger_def case_prod_beta)
  then show ?thesis unfolding refresh_desk_def by (intro keeps_intros marks_keep)
qed

lemmas desk_keeps = keeps_intros world_keeps report_keeps order_records_keeps order_rows_keep refresh_keeps

lemma entry_book_keeps:
  assumes "0 \<le> capital"
  shows "keeps kept (entry_book X d dt placed frame priced snap cash capital)"
proof -
  have batch: "entry_batch (ea_fills acc)"
    if "build_entry_orders priced dt capital placed = Inr orders"
      "rfold (entry_fill_step snap) (sort_key (order_rank preds) orders) \<lparr>ea_cash = cash, ea_fills = [], ea_rows = []\<rparr> = Inr acc"
    for orders preds acc
    using entry_fills_Inr [OF that(2)] build_entry_orders_Inr [OF that(1) assms] by auto
  show ?thesis unfolding entry_book_def
    by (intro keeps_lift desk_keeps) (auto intro!: desk_keeps entry_rows_keep elim: batch)
qed

lemma capital_nonneg: "0 \<le> investable_capital cash seed"
  by (simp add: investable_capital_def)

lemma entry_body_keeps: "keeps kept (entry_locked_body X d dt day)"
proof -
  have none: "keeps kept (entry_no_decision X dt)"
    unfolding entry_no_decision_def by (intro desk_keeps write_keeps) (auto intro: decision_keep)
  have missed: "keeps kept (entry_missed X dt placed priced capital gate)" for placed priced capital gate
    unfolding entry_missed_def by (intro desk_keeps)
  show ?thesis unfolding entry_locked_body_def Let_def
    by (intro desk_keeps none missed entry_book_keeps capital_nonneg)
qed

lemma locked_keeps: "keeps kept m \<Longrightarrow> keeps kept (locked X m)"
  unfolding locked_def by (intro desk_keeps)

lemma entry_keeps: "keeps kept (run_paper_entry X d now)"
proof -
  have expired: "keeps kept (entry_expired X dt)" for dt
    unfolding entry_expired_def Let_def by (intro desk_keeps)
  have "keeps kept (bnd (lift_res (\<lambda>_. pe_session_day X d)) (\<lambda>day.
      if day_kind day = CLOSED
      then bnd (report X ''SKIPPED'' dt ''non_trading_day'' [(''session'', JStr ''CLOSED'')]) (\<lambda>_. ret 0)
      else locked X (entry_locked_body X d dt day)))" for dt
    by (intro desk_keeps locked_keeps entry_body_keeps)
  then show ?thesis unfolding run_paper_entry_def Let_def
    by (auto intro: expired keeps_basic split: window_state.split)
qed

text \<open>Inside the lock the positions are read, and the ledger stays the one they were read from
  until the fills are written.\<close>

lemma exit_body_keeps: "keeps kept (exit_locked_body X d dt observed)"
proof (rule tripleI)
  fix s :: "'a paper_desk" and r s'
  assume s: "kept s" and run: "exit_locked_body X d dt observed s = (r, s')"
  let ?l = "pd_ledger s"
  let ?at = "\<lambda>s. pd_ledger s = ?l"
  let ?placed = "placed_at d PAPER_EXIT_OPEN_AUCTION_HHMMSS"
  have at_kept: "kept s1" if "?at s1" for s1 using that s by simp
  have book: "triple ?at (bnd (record_fill_rows X fills) (\<lambda>_. bnd (order_records X ords) (\<lambda>rows.
         bnd (ledger_write X (\<lambda>l. Inr (record_orders rows l))) (\<lambda>_.
         bnd (refresh_desk X d dt) (\<lambda>_. ret n))))) (\<lambda>_. kept)"
    if "exit_batch d ?l fills" for fills ords n
  proof -
    have fills: "triple ?at (record_fill_rows X fills) (\<lambda>_. kept)"
      unfolding record_fill_rows_def
      by (intro triple_branch ledger_write_triple) (use s that in \<open>auto simp: triple_def ret_def intro: exit_fills_keep\<close>)
    have rest: "keeps kept (bnd (order_records X ords) (\<lambda>rows.
         bnd (ledger_write X (\<lambda>l. Inr (record_orders rows l))) (\<lambda>_.
         bnd (refresh_desk X d dt) (\<lambda>_. ret n))))"
      by (intro desk_keeps write_keeps) (auto intro: orders_keep)
    show ?thesis
      by (rule triple_bnd [where B = "\<lambda>_. kept"]) (use fills rest in \<open>auto elim!: triple_post split: sum.split\<close>)
  qed
  have batch: "exit_batch d ?l (map (\<lambda>(ord, f). fill_row_of f ord) filled)"
    if "load_open_positions ?l = Inr ps" "exit_fills (build_exit_orders ps dt ?placed) prices obs = Inr filled"
    for ps prices obs filled
    using exit_fills_Inr [of dt ?placed ps prices obs filled] that
    by (auto simp: exit_batch_def build_exit_orders_def)
  have "triple ?at (exit_locked_body X d dt observed) (\<lambda>_. kept)"
    unfolding exit_locked_body_def Let_def
    apply (rule triple_lift_read [where x = "load_open_positions ?l"])
      apply simp
     apply (simp add: s)
    apply (rule triple_branch)
     apply (simp add: triple_def ret_def s)
    apply (rule keeps_then [OF quote_attempts_keep])
     apply (simp add: s)
    apply (clarsimp split: prod.split)
    apply (rule keeps_then [OF world_keeps(1)])
     apply (simp add: s)
    apply (rule triple_lift_read [OF refl])
     apply (simp add: s)
    apply (rule triple_branch)
     apply (rule triple_post [OF keeps_bnd [OF report_keeps keeps_basic(1)]])
     apply (simp add: s)
    apply (rule book)
    apply (rule batch)
     apply assumption+
    done
  then show "kept s'" using run by (auto dest: tripleD)
qed

lemma exit_keeps: "keeps kept (run_paper_exit X d now)"
proof -
  have skip: "keeps kept (exit_skip_expired X dt n)" for dt n
    unfolding exit_skip_expired_def by (intro desk_keeps)
  have gate: "keeps kept (exit_gate X dt day n)" for dt day n
    unfolding exit_gate_def by (intro desk_keeps)
  have after: "keeps kept (exit_after_gate X d dt n st now)" for dt n st
    unfolding exit_after_gate_def Let_def by (intro desk_keeps skip locked_keeps exit_body_keeps)
  show ?thesis unfolding run_paper_exit_def Let_def
    by (intro desk_keeps skip gate) (auto intro: keeps_basic after split: option.split)
qed

lemma session_keeps: "keeps kept (run_paper_session X d ph)"
  unfolding run_paper_session_def by (intro desk_keeps entry_keeps exit_keeps)

end

end
