(* ===== verification/Paper_Book.thy ===== *)
theory Paper_Book
  imports Paper_Soundness Paper_Properties
begin

text \<open>
  The accounting book of the paper ledger. The effective fills of a ledger form a book when
  every sell closes, whole and once, a buy before it. A book always accounts: the pairing
  into round trips and the NAV cannot fail on it. Every session, every voided fill and every
  note keeps it, so every ledger that can be reached is a book; the fills and corrections
  of a ledger only ever grow.
\<close>

section \<open>Books\<close>

definition lot_ok :: "fill_row \<Rightarrow> bool" where
  "lot_ok r \<longleftrightarrow> 0 < fr_qty r \<and> 0 < fr_fill_price r \<and> fr_filled_at r \<noteq> None"

definition closes :: "fill_row \<Rightarrow> fill_row \<Rightarrow> bool" where
  "closes r b \<longleftrightarrow> fr_entry_order_id r = Some (fr_order_id b) \<and> fr_symbol r = fr_symbol b \<and> fr_qty r = fr_qty b"

inductive book :: "fill_row list \<Rightarrow> bool" where
  book_empty: "book []"
| book_buy: "book fs \<Longrightarrow> fr_side r = ''buy'' \<Longrightarrow> lot_ok r \<Longrightarrow> fr_order_id r \<notin> set (map fr_order_id fs) \<Longrightarrow> book (fs @ [r])"
| book_sell: "book fs \<Longrightarrow> fr_side r = ''sell'' \<Longrightarrow> lot_ok r \<Longrightarrow> fr_order_id r \<notin> set (map fr_order_id fs) \<Longrightarrow>
    b \<in> set (buys_of fs) \<Longrightarrow> closes r b \<Longrightarrow> fr_entry_order_id r \<notin> set (map fr_entry_order_id (sells_of fs)) \<Longrightarrow>
    book (fs @ [r])"

lemma book_rows: "book fs \<Longrightarrow> distinct (map fr_order_id fs) \<and> (\<forall>r\<in>set fs. lot_ok r \<and> (fr_side r = ''buy'' \<or> fr_side r = ''sell''))"
  by (induction rule: book.induct) auto

lemma book_links: "book fs \<Longrightarrow> distinct (map fr_entry_order_id (sells_of fs))
    \<and> (\<forall>r\<in>set (sells_of fs). \<exists>b\<in>set (buys_of fs). closes r b)"
  by (induction rule: book.induct) auto

text \<open>A batch of buys, and a batch of sells of open buys, extend a book.\<close>

lemma book_entry:
  "book fs \<Longrightarrow> entry_batch rows \<Longrightarrow> distinct (map fr_order_id (fs @ rows)) \<Longrightarrow> book (fs @ rows)"
proof (induction rows rule: rev_induct)
  case (snoc r rows)
  then have "book (fs @ rows)" by (auto simp: entry_batch_def)
  then have "book ((fs @ rows) @ [r])" using snoc.prems by (intro book_buy) (auto simp: entry_batch_def lot_ok_def)
  then show ?case by simp
qed simp

definition exit_rows :: "fill_row list \<Rightarrow> fill_row list \<Rightarrow> bool" where
  "exit_rows fs rows \<longleftrightarrow> distinct (map fr_entry_order_id rows) \<and> (\<forall>r\<in>set rows. fr_side r = ''sell'' \<and> lot_ok r
     \<and> (\<exists>b\<in>set (buys_of fs). closes r b) \<and> fr_entry_order_id r \<notin> set (map fr_entry_order_id (sells_of fs)))"

lemma exit_rows_filter: "exit_rows fs rows \<Longrightarrow> exit_rows fs (filter P rows)"
  by (auto simp: exit_rows_def distinct_map_filter)

lemma book_exit:
  "book fs \<Longrightarrow> exit_rows fs rows \<Longrightarrow> distinct (map fr_order_id (fs @ rows)) \<Longrightarrow> book (fs @ rows)"
proof (induction rows rule: rev_induct)
  case (snoc r rows)
  then have rows: "book (fs @ rows)" by (auto simp: exit_rows_def)
  obtain b where b: "b \<in> set (buys_of fs)" "closes r b" using snoc.prems(2) by (auto simp: exit_rows_def)
  have "fr_entry_order_id r \<notin> set (map fr_entry_order_id (sells_of (fs @ rows)))"
    using snoc.prems(2) by (auto simp: exit_rows_def)
  then have "book ((fs @ rows) @ [r])"
    using snoc.prems b rows by (intro book_sell [where b = b]) (auto simp: exit_rows_def)
  then show ?case by simp
qed simp

text \<open>Taking out one fill that no sell refers to.\<close>

lemma book_remove:
  assumes "book fs" "Some oid \<notin> set (map fr_entry_order_id (sells_of fs))"
  shows "book (filter (\<lambda>r. fr_order_id r \<noteq> oid) fs)"
  using assms
proof (induction rule: book.induct)
  case (book_buy fs r)
  then show ?case by (auto intro!: book.book_buy)
next
  case (book_sell fs r b)
  then have "fr_order_id b \<noteq> oid" by (auto simp: closes_def)
  then show ?case using book_sell by (auto intro!: book.book_sell [where b = b])
qed (auto intro: book.book_empty)

text \<open>The open positions of a book are its buys that no sell closes.\<close>

lemma book_open_positions:
  assumes "load_open_positions l = Inr ps" "book (load_effective_fills l)"
  shows "distinct (map op_entry_order_id ps)"
    and "p \<in> set ps \<Longrightarrow> \<exists>b\<in>set (buys_of (load_effective_fills l)). fr_order_id b = op_entry_order_id p \<and> fr_symbol b = op_symbol p
       \<and> fr_qty b = op_qty p \<and> Some (op_entry_order_id p) \<notin> set (map fr_entry_order_id (sells_of (load_effective_fills l)))"
proof -
  let ?fs = "load_effective_fills l"
  have ps: "ps = map (\<lambda>r. \<lparr>op_entry_order_id = fr_order_id r, op_symbol = fr_symbol r, op_qty = fr_qty r,
      op_entry_price = fr_fill_price r, op_decision_date = fr_decision_date r\<rparr>)
      (filter (\<lambda>r. Some (fr_order_id r) \<notin> set (map fr_entry_order_id (sells_of ?fs))) (buys_of ?fs))"
    using assms(1) by (auto simp: load_open_positions_def Let_def simp del: filter_filter set_map split: if_splits)
  show "distinct (map op_entry_order_id ps)"
    using book_rows [OF assms(2)] unfolding ps by (simp add: comp_def distinct_map_filter)
  show "\<exists>b\<in>set (buys_of ?fs). fr_order_id b = op_entry_order_id p \<and> fr_symbol b = op_symbol p
       \<and> fr_qty b = op_qty p \<and> Some (op_entry_order_id p) \<notin> set (map fr_entry_order_id (sells_of ?fs))" if "p \<in> set ps"
    using that unfolding ps by (auto simp del: filter_filter)
qed

lemma exit_batch_rows:
  assumes "exit_batch d l rows" "book (load_effective_fills l)"
  shows "exit_rows (load_effective_fills l) rows"
proof -
  obtain ps sold where ps: "load_open_positions l = Inr ps" "subseq sold ps"
    and rows: "list_all2 (sells_position (placed_at d PAPER_EXIT_OPEN_AUCTION_HHMMSS)) rows sold"
    using assms(1) by (auto simp: exit_batch_def)
  note open_lots = book_open_positions [OF ps(1) assms(2)]
  have "map fr_entry_order_id rows = map (\<lambda>p. Some (op_entry_order_id p)) sold"
    using rows by (induction rule: list_all2_induct) (auto simp: sells_position_def)
  moreover have "distinct (map op_entry_order_id sold)"
    using open_lots(1) ps(2) by (auto simp: subseq_conv_nths simp flip: nths_map)
  then have "distinct (map (\<lambda>p. Some (op_entry_order_id p)) sold)"
    by (simp add: distinct_map inj_on_def)
  moreover have "fr_side r = ''sell'' \<and> lot_ok r \<and> (\<exists>b\<in>set (buys_of (load_effective_fills l)). closes r b)
      \<and> fr_entry_order_id r \<notin> set (map fr_entry_order_id (sells_of (load_effective_fills l)))" if r: "r \<in> set rows" for r
  proof -
    obtain p where p: "p \<in> set sold" "sells_position (placed_at d PAPER_EXIT_OPEN_AUCTION_HHMMSS) r p"
      using rows r by (force simp: list_all2_conv_all_nth in_set_conv_nth)
    then have "p \<in> set ps" using ps(2) by (auto elim: list_emb_set)
    then obtain b where b: "b \<in> set (buys_of (load_effective_fills l))" "fr_order_id b = op_entry_order_id p" "fr_symbol b = op_symbol p"
      "fr_qty b = op_qty p" "Some (op_entry_order_id p) \<notin> set (map fr_entry_order_id (sells_of (load_effective_fills l)))"
      using open_lots(2) by blast
    have "lot_ok b" using b(1) book_rows [OF assms(2)] by auto
    then show ?thesis using b p(2) by (auto simp: sells_position_def closes_def lot_ok_def)
  qed
  ultimately show ?thesis by (simp add: exit_rows_def)
qed

section \<open>Sound ledgers\<close>

definition ledger_sound :: "paper_ledger \<Rightarrow> bool" where
  "ledger_sound l \<longleftrightarrow> distinct (map fr_order_id (pl_fills l)) \<and> book (load_effective_fills l)"

lemma sound_empty: "ledger_sound empty_ledger"
  by (simp add: ledger_sound_def empty_ledger_def load_effective_fills_def book_empty)

lemma effective_cong:
  "pl_fills l' = pl_fills l \<Longrightarrow> pl_corrections l' = pl_corrections l \<Longrightarrow> load_effective_fills l' = load_effective_fills l"
  by (simp only: load_effective_fills_def voided_cong [of l' l])

lemma sound_cong: "pl_fills l' = pl_fills l \<Longrightarrow> pl_corrections l' = pl_corrections l \<Longrightarrow> ledger_sound l \<Longrightarrow> ledger_sound l'"
  by (simp only: ledger_sound_def effective_cong [of l' l])

text \<open>New fills join the effective view at its end, those voided in advance apart.\<close>

lemma record_fills_effective:
  assumes "record_fills rows l = Inr l'"
  shows "pl_fills l' = pl_fills l @ rows" "pl_corrections l' = pl_corrections l"
    "load_effective_fills l' = load_effective_fills l @ filter (\<lambda>r. fr_order_id r \<notin> voided_order_ids l) rows"
    "distinct (map fr_order_id (pl_fills l)) \<Longrightarrow> distinct (map fr_order_id (pl_fills l'))"
proof -
  have l': "l' = l\<lparr>pl_fills := pl_fills l @ rows\<rparr>" and new: "distinct (map fr_order_id rows)"
    "set (map fr_order_id rows) \<inter> set (map fr_order_id (pl_fills l)) = {}"
    using assms by (auto simp: record_fills_def append_only_Inr)
  show "pl_fills l' = pl_fills l @ rows" "pl_corrections l' = pl_corrections l" by (simp_all add: l')
  show "load_effective_fills l' = load_effective_fills l @ filter (\<lambda>r. fr_order_id r \<notin> voided_order_ids l) rows"
    by (simp add: l' load_effective_fills_def voided_order_ids_def)
  show "distinct (map fr_order_id (pl_fills l'))" if "distinct (map fr_order_id (pl_fills l))"
    using that new by (auto simp: l')
qed

lemma sound_extend:
  assumes "record_fills rows l = Inr l'" "ledger_sound l"
    and "\<And>new. distinct (map fr_order_id (load_effective_fills l @ new)) \<Longrightarrow>
      new = filter (\<lambda>r. fr_order_id r \<notin> voided_order_ids l) rows \<Longrightarrow> book (load_effective_fills l @ new)"
  shows "ledger_sound l'"
proof -
  note fills = record_fills_effective [OF assms(1)]
  have "distinct (map fr_order_id (pl_fills l'))" using fills(4) assms(2) by (simp add: ledger_sound_def)
  moreover from this have "distinct (map fr_order_id (load_effective_fills l'))"
    unfolding load_effective_fills_def by (rule distinct_map_filter)
  ultimately show ?thesis using assms(3) fills(3) by (simp add: ledger_sound_def)
qed

interpretation accounts: paper_client ledger_sound
proof unfold_locales
  fix l l' fills d
  assume l: "ledger_sound l"
  show "ledger_sound (record_orders rows l)" "ledger_sound (record_no_decision dt reason l)"
    "ledger_sound (rewrite_derived trips l)" "ledger_sound (record_nav navs l)" for rows dt reason trips navs
    by (rule sound_cong [OF _ _ l];
        simp add: record_orders_def record_no_decision_def rewrite_derived_def record_nav_def)+
  assume rec: "record_fills fills l = Inr l'"
  show "ledger_sound l'" if "entry_batch fills"
    using that l by (intro sound_extend [OF rec l] book_entry) (auto simp: ledger_sound_def entry_batch_def)
  show "ledger_sound l'" if "exit_batch d l fills"
  proof (rule sound_extend [OF rec l])
    have "exit_rows (load_effective_fills l) fills" using exit_batch_rows [OF that] l by (simp add: ledger_sound_def)
    then show "book (load_effective_fills l @ new)"
      if "distinct (map fr_order_id (load_effective_fills l @ new))" "new = filter (\<lambda>r. fr_order_id r \<notin> voided_order_ids l) fills" for new
      using that l by (intro book_exit) (auto simp: ledger_sound_def intro: exit_rows_filter)
  qed
qed

definition grown_from :: "paper_ledger \<Rightarrow> paper_ledger \<Rightarrow> bool" where
  "grown_from l0 l \<longleftrightarrow> prefix (pl_fills l0) (pl_fills l) \<and> pl_corrections l = pl_corrections l0"

interpretation grows: paper_client "grown_from l0" for l0
  by unfold_locales
    (auto simp: grown_from_def record_orders_def record_no_decision_def rewrite_derived_def record_nav_def
      record_fills_effective(1,2) prefix_def)

text \<open>The operator's correction.\<close>

lemma void_keeps_sound:
  assumes v: "void_fill oid reason ev opr d now l = Inr l'" and p: "plain_id oid" and l: "ledger_sound l"
  shows "ledger_sound l'"
proof -
  let ?eff = "load_effective_fills l"
  have dist: "distinct (map fr_order_id (pl_fills l))" and bk: "book ?eff" using l by (auto simp: ledger_sound_def)
  have "Some oid \<notin> set (map fr_entry_order_id (sells_of ?eff))"
  proof
    assume ref: "Some oid \<in> set (map fr_entry_order_id (sells_of ?eff))"
    then obtain b where b: "b \<in> set (buys_of ?eff)" "fr_order_id b = oid"
      using book_links [OF bk] by (fastforce simp: closes_def)
    then have "b \<in> set (pl_fills l)" "fr_side b = ''buy''" by (auto simp: load_effective_fills_def)
    then have "find (\<lambda>f. fr_order_id f = oid) (pl_fills l) = Some b"
      using b(2) dist by (auto simp: find_Some_iff in_set_conv_nth distinct_conv_nth nth_eq_iff_index_eq)
    then show False using v ref \<open>fr_side b = ''buy''\<close> by (auto simp: void_fill_def split: if_splits)
  qed
  from book_remove [OF bk this] show ?thesis
    using void_fill_effects(1) [OF v] void_fill_effective [OF v p] dist by (simp add: ledger_sound_def)
qed

section \<open>A book always accounts\<close>

definition taxed :: "fill_row list \<Rightarrow> bool" where
  "taxed fs \<longleftrightarrow> (\<forall>r\<in>set (sells_of fs). \<exists>m. fr_filled_at r = Some m \<and> toordinal (1996, 1, 1) \<le> toordinal (fst m))"

definition calendar_total :: "(civil \<Rightarrow> session_day res) \<Rightarrow> bool" where
  "calendar_total resolve \<longleftrightarrow> (\<forall>day. \<exists>sd. resolve day = Inr sd)"

lemma tax_known: "toordinal (1996, 1, 1) \<le> n \<Longrightarrow> \<exists>x. statutory_bp_asof (Some n) = Fin x"
  by (simp add: statutory_bp_asof_def STATUTORY_BP_SCHEDULE_def Let_def)

lemma sessions_counted:
  "calendar_total resolve \<Longrightarrow> \<exists>n. count_sessions resolve day until k = Inr n"
proof (induction resolve day until k rule: count_sessions.induct)
  case (1 resolve day until k)
  obtain sd where "resolve (next_day day) = Inr sd" using 1(2) unfolding calendar_total_def by blast
  then show ?case using 1(1) [of sd] 1(2) by (subst count_sessions.simps) auto
qed

lemma trip_closes:
  assumes "calendar_total resolve" "lot_ok buy" "lot_ok sell" "fr_filled_at sell = Some sold"
    "toordinal (1996, 1, 1) \<le> toordinal (fst sold)" "fr_qty sell = fr_qty buy"
  shows "\<exists>t. close_trip resolve buy sell sold = Inr t"
proof -
  obtain x where tax: "statutory_bp_asof (Some (toordinal (fst sold))) = Fin x" using tax_known [OF assms(5)] by blast
  obtain bought where b: "fr_filled_at buy = Some bought" using assms(2) by (auto simp: lot_ok_def)
  obtain n where "count_sessions resolve (fst bought) (fst sold) 0 = Inr n" using sessions_counted [OF assms(1)] by blast
  then have "\<exists>c. carry_days resolve (fr_filled_at buy) (Some sold) = Inr c" using b by (simp add: carry_days_def)
  then show ?thesis using assms(2,3,6) tax
    by (auto simp: close_trip_def py_floor_def py_truediv_def fl_of_int_def Let_def lot_ok_def)
qed

text \<open>While a book is folded, the open dictionary holds the buys without a sell so far.\<close>

lemma book_folds:
  assumes "book fs" "calendar_total resolve" "taxed fs"
  shows "\<exists>ob rows. rfold (trip_step resolve) fs (Map.empty, []) = Inr (ob, rows) \<and> length rows = length (sells_of fs)
    \<and> (\<forall>b\<in>set (buys_of fs). Some (fr_order_id b) \<notin> set (map fr_entry_order_id (sells_of fs)) \<longrightarrow> ob (fr_order_id b) = Some b)"
  using assms(1,3)
proof (induction rule: book.induct)
  case (book_buy fs r)
  then obtain ob rows where f: "rfold (trip_step resolve) fs (Map.empty, []) = Inr (ob, rows)" "length rows = length (sells_of fs)"
    "\<forall>b\<in>set (buys_of fs). Some (fr_order_id b) \<notin> set (map fr_entry_order_id (sells_of fs)) \<longrightarrow> ob (fr_order_id b) = Some b"
    by (auto simp: taxed_def)
  moreover have "trip_step resolve r (ob, rows) = Inr (ob(fr_order_id r \<mapsto> r), rows)"
    using book_buy(2) by (simp add: trip_step_def)
  ultimately show ?case using book_buy(2,4)
    by (intro exI [of _ "ob(fr_order_id r \<mapsto> r)"] exI [of _ rows]) (auto simp: rfold_append image_iff)
next
  case (book_sell fs r b)
  obtain ob rows where f: "rfold (trip_step resolve) fs (Map.empty, []) = Inr (ob, rows)" "length rows = length (sells_of fs)"
    "\<forall>b\<in>set (buys_of fs). Some (fr_order_id b) \<notin> set (map fr_entry_order_id (sells_of fs)) \<longrightarrow> ob (fr_order_id b) = Some b"
    using book_sell.IH book_sell.prems by (auto simp: taxed_def)
  obtain sold where sold: "fr_filled_at r = Some sold" "toordinal (1996, 1, 1) \<le> toordinal (fst sold)"
    using book_sell.prems book_sell.hyps(2) by (auto simp: taxed_def)
  have link: "fr_entry_order_id r = Some (fr_order_id b)" "fr_symbol r = fr_symbol b" "fr_qty r = fr_qty b"
    using book_sell.hyps(6) by (auto simp: closes_def)
  have ob: "ob (fr_order_id b) = Some b" using f(3) book_sell.hyps(5,7) link(1) by (metis)
  have "lot_ok b" using book_rows [OF book_sell.hyps(1)] book_sell.hyps(5) by auto
  then obtain t where "close_trip resolve b r sold = Inr t"
    using trip_closes [OF assms(2) _ book_sell.hyps(3) sold link(3)] by blast
  then have "trip_step resolve r (ob, rows) = Inr (ob(fr_order_id b := None), rows @ [t])"
    using book_sell.hyps(2) link ob sold(1) by (simp add: trip_step_def Let_def)
  then show ?case using f book_sell.hyps(2) link
    by (intro exI [of _ "ob(fr_order_id b := None)"] exI [of _ "rows @ [t]"]) (auto simp: rfold_append)
qed (simp add: rfold_append)

lemma open_lots_counted:
  "(\<And>r. r \<in> set fs \<Longrightarrow> fr_filled_at r \<noteq> None) \<Longrightarrow> \<exists>acc'. rfold (open_lot_step d marks closed_ids) fs acc = Inr acc'"
proof (induction fs arbitrary: acc)
  case (Cons r fs)
  obtain c f v n u where acc: "acc = (c, f, v, n, u)" by (cases acc) blast
  have "\<exists>mid. open_lot_step d marks closed_ids r acc = Inr mid"
    using Cons.prems [of r] by (auto simp: open_lot_step_def acc Let_def split: option.split)
  then show ?case using Cons.IH Cons.prems by fastforce
qed (simp only: rfold.simps, blast)

lemma book_accounts:
  assumes "book fs" "calendar_total resolve" "taxed fs"
  shows "\<exists>trips. build_round_trips resolve fs = Inr trips \<and> length trips = length (sells_of fs)"
    and "\<exists>nv. build_nav_snapshot resolve fs seed d marks = Inr nv"
proof -
  show trips: "\<exists>trips. build_round_trips resolve fs = Inr trips \<and> length trips = length (sells_of fs)"
    using book_folds [OF assms] by (auto simp: build_round_trips_def)
  have "\<exists>acc'. rfold (open_lot_step d marks closed_ids) fs acc = Inr acc'" for closed_ids acc
    using book_rows [OF assms(1)] by (intro open_lots_counted) (auto simp: lot_ok_def)
  then show "\<exists>nv. build_nav_snapshot resolve fs seed d marks = Inr nv"
    using trips by (fastforce simp: build_nav_snapshot_def Let_def)
qed

section \<open>Reachable desks\<close>

text \<open>Whatever happens to a ledger: sessions of any phase on any day, in any environment and
  however they end, the world moving on, voided fills and notes.\<close>

inductive desk_reachable :: "'w paper_desk \<Rightarrow> bool" where
  desk_new: "desk_reachable \<lparr>pd_ledger = empty_ledger, pd_world = w\<rparr>"
| desk_session: "desk_reachable s \<Longrightarrow> run_paper_session (X :: 'w paper_env) d ph s = (r, s') \<Longrightarrow> desk_reachable s'"
| desk_world: "desk_reachable s \<Longrightarrow> desk_reachable (s\<lparr>pd_world := w\<rparr>)"
| desk_void: "desk_reachable s \<Longrightarrow> plain_id oid \<Longrightarrow> void_fill oid reason ev opr day now (pd_ledger s) = Inr l \<Longrightarrow>
    desk_reachable (s\<lparr>pd_ledger := l\<rparr>)"
| desk_note: "desk_reachable s \<Longrightarrow> record_note ids reason ev opr day now (pd_ledger s) = Inr l \<Longrightarrow>
    desk_reachable (s\<lparr>pd_ledger := l\<rparr>)"

lemma note_keeps_effective:
  assumes "record_note ids reason ev opr day now l = Inr l'"
  shows "pl_fills l' = pl_fills l" "load_effective_fills l' = load_effective_fills l"
proof -
  obtain c where c: "co_action c = CORRECTION_ACTION_NOTE" "l' = l\<lparr>pl_corrections := pl_corrections l @ [c]\<rparr>"
    using assms by (auto simp: record_note_def record_corrections_def append_only_Inr
        intro!: that split: if_splits)
  then show "pl_fills l' = pl_fills l" "load_effective_fills l' = load_effective_fills l"
    by (simp_all add: load_effective_fills_def voided_order_ids_def CORRECTION_ACTION_NOTE_def CORRECTION_ACTION_VOID_FILL_def)
qed

lemma reachable_sound: "desk_reachable s \<Longrightarrow> ledger_sound (pd_ledger s)"
proof (induction rule: desk_reachable.induct)
  case (desk_session s X d ph r s')
  then show ?case using tripleD [OF accounts.session_keeps [of X d ph], of s] by simp
next
  case (desk_void s oid reason ev opr day now l)
  then show ?case using void_keeps_sound by simp
next
  case (desk_note s ids reason ev opr day now l)
  then show ?case using note_keeps_effective [OF desk_note.hyps(2)] by (simp add: ledger_sound_def)
qed (simp_all add: sound_empty)

end
