(* ===== verification/Paper_Runs.thy ===== *)
theory Paper_Runs
  imports Paper_Book
begin

text \<open>
  What a run of the paper desk guarantees: the books and the evidence it leaves, an entry
  booked once, buys within the cash, sells at an attested opening price. The witnesses run
  one entry session on a small desk.
\<close>

section \<open>A demo entry\<close>

definition demo_pick :: paper_pick where
  "demo_pick = \<lparr>pp_symbol = ''005930'', pp_allocation = JFloat (Fin 1), pp_pred = JFloat (Fin 1), pp_close = JInt 100000,
     pp_decided = Stamp 0\<rparr>"

definition demo_close :: Paper_Fills.decision_row where
  "demo_close = \<lparr>row_confirmed = JBool True, row_close = 50000, row_execution_timestamp = ((2026, 3, 2), 55800)\<rparr>"

definition demo_day :: civil where
  "demo_day = (2026, 3, 2)"

definition demo_desk_env :: "int \<Rightarrow> unit paper_env" where
  "demo_desk_env now = \<lparr>pe_seed_capital = 1000000, pe_buffer_bp = Fin 0, pe_session_day = demo_calendar,
     pe_calendar = demo_calendar, pe_now = (\<lambda>w. (now, w)), pe_wall = (\<lambda>w. (((2026, 3, 2), 56000), w)),
     pe_sleep = (\<lambda>_ w. ((), w)), pe_lock = (\<lambda>w. (True, w)), pe_write = (\<lambda>w. (Written, w)),
     pe_topk = (\<lambda>w. (Inr (Some \<lparr>ts_has_decided = True, ts_has_pred = True, ts_rows = [(''2026-03-02'', demo_pick)]\<rparr>), w)),
     pe_snapshot = (\<lambda>_ w. (Inr [(''005930'', demo_close)], w)), pe_panel = (\<lambda>_ w. (Inr [], w)),
     pe_quote = (\<lambda>c w. (Inl OSError, w)), pe_trading_day = (\<lambda>_ w. (Inr True, w)), pe_record = None\<rparr>"

text \<open>The capital of the demo desk lies between half a million and a million won, so the order
  is for five to ten shares, and ten shares at the close cost less than the cash.\<close>

lemma rnd64_between:
  "of_int a \<le> x \<Longrightarrow> x \<le> of_int b \<Longrightarrow> \<bar>a\<bar> < 2 ^ 53 \<Longrightarrow> \<bar>b\<bar> < 2 ^ 53 \<Longrightarrow> of_int a \<le> rnd64 x \<and> rnd64 x \<le> of_int b"
  using rnd64_mono [of "of_int a" x] rnd64_mono [of x "of_int b"] by (simp add: rnd64_of_int)

lemma demo_side_bp: "0 \<le> PAPER_BROKERAGE_SIDE_BP \<and> PAPER_BROKERAGE_SIDE_BP \<le> 10000"
proof -
  have a: "0 \<le> rnd64 (36396 / 1000000000) \<and> rnd64 (36396 / 1000000000) \<le> (1 :: rat)"
    using rnd64_between [of 0 "36396 / 1000000000" 1] by simp
  have "0 \<le> rnd64 (rnd64 (36396 / 1000000000) * 10000) \<and> rnd64 (rnd64 (36396 / 1000000000) * 10000) \<le> 10000"
    using rnd64_between [of 0 "rnd64 (36396 / 1000000000) * 10000" 10000] a by simp
  then show ?thesis by (simp add: PAPER_BROKERAGE_SIDE_BP_def BROKERAGE_SIDE_BP_def)
qed

lemma demo_fee: "0 \<le> n \<Longrightarrow> n \<le> 500000 \<Longrightarrow> side_fee_krw n \<le> 500000"
proof -
  assume n: "0 \<le> n" "n \<le> 500000"
  have "(of_int n :: rat) * PAPER_BROKERAGE_SIDE_BP \<le> 500000 * 10000"
    by (rule mult_mono) (use demo_side_bp n in \<open>simp_all\<close>)
  moreover have "0 \<le> (of_int n :: rat) * PAPER_BROKERAGE_SIDE_BP" using demo_side_bp n by simp
  ultimately have "0 \<le> rnd64 (of_int n * PAPER_BROKERAGE_SIDE_BP)" "rnd64 (of_int n * PAPER_BROKERAGE_SIDE_BP) \<le> 5000000000"
    using rnd64_between [of 0 "of_int n * PAPER_BROKERAGE_SIDE_BP" 5000000000] by simp_all
  then have "rnd64 (rnd64 (of_int n * PAPER_BROKERAGE_SIDE_BP) / 10000) \<le> 500000"
    using rnd64_between [of 0 "rnd64 (of_int n * PAPER_BROKERAGE_SIDE_BP) / 10000" 500000] by simp
  then show ?thesis using n by (simp add: side_fee_krw_def rnd64_of_int floor_le_iff)
qed

lemma demo_capital: "500000 \<le> investable_capital 1000000 1000000" "investable_capital 1000000 1000000 \<le> 1000000"
proof -
  let ?r = "rnd64 (1 + rnd64 (PAPER_BROKERAGE_SIDE_BP / 10000))"
  have "0 \<le> rnd64 (PAPER_BROKERAGE_SIDE_BP / 10000) \<and> rnd64 (PAPER_BROKERAGE_SIDE_BP / 10000) \<le> 1"
    using rnd64_between [of 0 "PAPER_BROKERAGE_SIDE_BP / 10000" 1] demo_side_bp by simp
  then have r: "1 \<le> ?r" "?r \<le> 2" using rnd64_between [of 1 "1 + rnd64 (PAPER_BROKERAGE_SIDE_BP / 10000)" 2] by simp_all
  have "500000 \<le> 1000000 / ?r" "1000000 / ?r \<le> 1000000" using r by (simp_all add: field_simps)
  then have "500000 \<le> rnd64 (1000000 / ?r)" "rnd64 (1000000 / ?r) \<le> 1000000"
    using rnd64_between [of 500000 "1000000 / ?r" 1000000] by simp_all
  moreover have "rnd64 1000000 = 1000000" using rnd64_of_int [of 1000000] by simp
  ultimately show "500000 \<le> investable_capital 1000000 1000000" "investable_capital 1000000 1000000 \<le> 1000000"
    by (simp_all add: investable_capital_def le_floor_iff)
qed

lemma demo_qty: "\<exists>q. size_order_qty (investable_capital 1000000 1000000) (Fin 1) 100000 = Inr q \<and> 5 \<le> q \<and> q \<le> 10"
proof -
  let ?c = "investable_capital 1000000 1000000"
  have c: "rnd64 (of_int ?c) = of_int ?c" using demo_capital by (intro rnd64_of_int) simp
  have p: "rnd64 100000 = (100000 :: rat)" using rnd64_of_int [of 100000] by simp
  have "(500000 :: rat) \<le> of_int ?c" "(of_int ?c :: rat) \<le> 1000000" using demo_capital by linarith+
  then have "5 \<le> rnd64 (of_int ?c / 100000)" "rnd64 (of_int ?c / 100000) \<le> 10"
    using rnd64_between [of 5 "of_int ?c / 100000" 10] by simp_all
  then show ?thesis
    by (auto simp: size_order_qty_def f_le_def fl_of_int_def py_floor_def c p le_floor_iff floor_le_iff)
qed

section \<open>An entry is booked once\<close>

lemma recorded_entry_keeps:
  assumes "entry_already_recorded (pl_orders l) (iso_str d)"
  shows "keeps (\<lambda>s. pd_ledger s = l) (run_paper_entry X d now)"
proof -
  let ?at = "\<lambda>s. pd_ledger s = l"
  note at_keeps = keeps_intros world_keeps report_keeps
  have body: "keeps ?at (entry_locked_body X d (iso_str d) day)" for day
    using assms by (simp add: triple_def entry_locked_body_def bnd_def gets_def ret_def)
  have expired: "keeps ?at (entry_expired X dt)" for dt
    unfolding entry_expired_def Let_def by (intro at_keeps)
  have go: "keeps ?at (bnd (lift_res (\<lambda>_. pe_session_day X d)) (\<lambda>day.
      if day_kind day = CLOSED
      then bnd (report X ''SKIPPED'' dt ''non_trading_day'' [(''session'', JStr ''CLOSED'')]) (\<lambda>_. ret 0)
      else locked X (entry_locked_body X d (iso_str d) day)))" for dt
    unfolding locked_def by (intro at_keeps body)
  show ?thesis unfolding run_paper_entry_def Let_def
    using go by (auto intro: expired keeps_basic split: window_state.split)
qed

lemma order_records_rows:
  "triple (\<lambda>_. True) (order_records X xs) (\<lambda>r s. \<forall>rows. r = Inr rows \<longrightarrow> map or_order rows = map fst xs)"
proof (induction X xs rule: order_records.induct)
  case (2 X ord status rest)
  have stamp: "or_order row = ord" if "order_record ord status now = Inr row" for now row
    using that by (auto simp: order_record_def split: if_splits)
  have tail: "triple (\<lambda>_. True) (bnd (order_records X rest) (\<lambda>rows. ret (row # rows)))
      (\<lambda>r s. \<forall>rows. r = Inr rows \<longrightarrow> map or_order rows = ord # map fst rest)" if "or_order row = ord" for row
    by (rule triple_bnd [where B = "\<lambda>rows s. map or_order rows = map fst rest"])
      (use 2 that in \<open>auto elim!: triple_post simp: triple_def ret_def split: sum.split\<close>)
  have "triple (\<lambda>_. True) (bnd (lift_res (\<lambda>_. order_record ord status now)) (\<lambda>row.
      bnd (order_records X rest) (\<lambda>rows. ret (row # rows))))
      (\<lambda>r s. \<forall>rows. r = Inr rows \<longrightarrow> map or_order rows = ord # map fst rest)" for now
    by (rule triple_lift_read [OF refl]) (use tail stamp in auto)
  from keeps_then [OF _ _ this] show ?case
    unfolding order_records.simps list.map fst_conv by (simp add: triple_def)
qed (simp add: triple_def ret_def)

lemma upsert_last: "rows \<noteq> [] \<Longrightarrow> last rows \<in> set (append_upsert key rows existing)"
  by (cases rows rule: rev_cases) (auto simp: append_upsert_def keep_last_last simp flip: append_assoc)

definition entry_on_record :: "string \<Rightarrow> 'w paper_desk \<Rightarrow> bool" where
  "entry_on_record dt s \<longleftrightarrow> entry_already_recorded (pl_orders (pd_ledger s)) dt"

definition booked :: "string \<Rightarrow> exn + nat \<Rightarrow> 'w paper_desk \<Rightarrow> bool" where
  "booked dt r s \<longleftrightarrow> (\<forall>n. r = Inr n \<longrightarrow> 0 < n \<longrightarrow> entry_on_record dt s)"

lemma booked_unfinished [simp]: "booked dt (Inl e) s" "booked dt (Inr 0) s"
  by (simp_all add: booked_def)

lemma thrown: "triple (\<lambda>_. True) (throw e) (booked dt)"
  by (simp add: triple_def throw_def)

lemma any_then: "(\<And>a. triple (\<lambda>_. True) (g a) (booked dt)) \<Longrightarrow> triple (\<lambda>_. True) (bnd m g) (booked dt)"
  by (rule keeps_then) (simp_all add: triple_def)

lemma any_lift: "(\<And>a. x = Inr a \<Longrightarrow> triple (\<lambda>_. True) (g a) (booked dt)) \<Longrightarrow>
    triple (\<lambda>_. True) (bnd (lift_res (\<lambda>_. x)) g) (booked dt)"
  by (rule triple_lift_read [OF refl]) simp_all

lemma refresh_keeps_record: "keeps (entry_on_record dt) (refresh_desk X d day)"
proof -
  have "keeps (\<lambda>l. entry_already_recorded (pl_orders l) dt) (refresh_trade_ledgers r seed day marks)" for r seed marks
    unfolding refresh_trade_ledgers_def by (intro keeps_intros) (auto simp: rewrite_derived_def record_nav_def)
  then have "keeps (entry_on_record dt) (desk_ledger (refresh_trade_ledgers r seed day marks))" for r seed marks
    by (auto simp: triple_def desk_ledger_def case_prod_beta entry_on_record_def)
  then show ?thesis unfolding refresh_desk_def
    by (intro keeps_intros marks_keep [where P = "\<lambda>l. entry_already_recorded (pl_orders l) dt", folded entry_on_record_def])
qed

text \<open>Rows of the day with at least one order of its entry put the day on record.\<close>

lemma rows_on_record:
  assumes "rows \<noteq> []" "\<forall>row\<in>set rows. po_decision_date (or_order row) = dt \<and> po_reason (or_order row) = ''entry''"
  shows "triple (\<lambda>_. True) (record_order_rows X rows) (\<lambda>r s. r = Inr () \<longrightarrow> entry_on_record dt s)"
proof -
  have "entry_already_recorded (pl_orders (record_orders rows l)) dt" for l
    using upsert_last [OF assms(1), of "\<lambda>r. po_order_id (or_order r)" "pl_orders l"] assms(2) last_in_set [OF assms(1)]
    by (auto simp: entry_already_recorded_def record_orders_def list_ex_iff)
  then show ?thesis using assms(1)
    by (auto simp: record_order_rows_def ledger_write_def triple_def bnd_def lift_res_def desk_call_def modify_def throw_def
        entry_on_record_def case_prod_beta split: store_write.split)
qed

text \<open>The rows of a day's entry all carry the day and the reason.\<close>

definition day_rows :: "string \<Rightarrow> order_row list \<Rightarrow> bool" where
  "day_rows dt rows \<longleftrightarrow> (\<forall>row\<in>set rows. po_decision_date (or_order row) = dt \<and> po_reason (or_order row) = ''entry'')"

lemma day_rows_of:
  assumes "map or_order rows = ords" "\<forall>ord\<in>set ords. po_decision_date ord = dt \<and> po_reason ord = ''entry''"
  shows "day_rows dt rows"
  using assms by (auto simp: day_rows_def)

lemma day_rows_zero: "map or_order rows = map fst (map (\<lambda>p. (zero_qty_entry_order dt (pp_symbol p) placed, st)) ps) \<Longrightarrow> day_rows dt rows"
  by (erule day_rows_of) (auto simp: zero_qty_entry_order_def paper_entry_order_def)

lemma rows_then_refresh:
  assumes "rows \<noteq> []" "day_rows dt rows"
  shows "triple (\<lambda>_. True) (bnd (record_order_rows X rows) (\<lambda>_. bnd (refresh_desk X d dt) (\<lambda>_. ret n))) (booked dt)"
proof -
  have "keeps (entry_on_record dt) (bnd (refresh_desk X d dt) (\<lambda>_. ret n))"
    by (intro keeps_bnd refresh_keeps_record keeps_basic)
  then have done_: "triple (entry_on_record dt) (bnd (refresh_desk X d dt) (\<lambda>_. ret n)) (booked dt)"
    by (rule triple_post) (simp add: booked_def)
  show ?thesis
    by (rule triple_bnd [OF triple_post [OF rows_on_record [OF assms [unfolded day_rows_def]]] done_]) (simp split: sum.split)
qed

lemma fills_booked:
  assumes fold: "rfold (entry_fill_step snap) (sort_key key orders) \<lparr>ea_cash = cash, ea_fills = [], ea_rows = []\<rparr> = Inr acc"
    and orders: "build_entry_orders priced dt capital placed = Inr orders" "0 \<le> capital"
    and rows: "map or_order rows = map fst (ea_rows acc)" and zs: "day_rows dt zero_rows"
  shows "triple (\<lambda>_. True) (bnd (record_order_rows X (zero_rows @ rows)) (\<lambda>_.
      bnd (refresh_desk X d dt) (\<lambda>_. ret (length (ea_fills acc))))) (booked dt)"
proof -
  note made = build_entry_orders_Inr [OF orders]
  have sorted: "map or_order rows = sort_key key orders" using entry_fills_Inr [OF fold] made rows by auto
  show ?thesis
  proof (cases "zero_rows @ rows = []")
    case True
    then have "sort_key key orders = []" using sorted by simp
    then have "ea_fills acc = []" using fold by auto
    then show ?thesis by (intro any_then) (simp add: triple_def ret_def)
  next
    case False
    have "day_rows dt rows" by (rule day_rows_of [OF sorted]) (use made in auto)
    then show ?thesis using zs by (intro rows_then_refresh [OF False]) (auto simp: day_rows_def)
  qed
qed

text \<open>The rows that \<open>order_records\<close> returns are what the continuation sees.\<close>

lemma stamped_then:
  assumes "\<And>rows. map or_order rows = map fst xs \<Longrightarrow> triple (\<lambda>_. True) (g rows) (booked dt)"
  shows "triple (\<lambda>_. True) (bnd (order_records X xs) g) (booked dt)"
proof (rule triple_bnd)
  show "triple (\<lambda>_. True) (order_records X xs) (\<lambda>r s. case r of Inl e \<Rightarrow> booked dt (Inl e) s | Inr rows \<Rightarrow> map or_order rows = map fst xs)"
    by (rule triple_post [OF order_records_rows]) (simp split: sum.split)
  show "triple (\<lambda>s. map or_order rows = map fst xs) (g rows) (booked dt)" for rows
    using assms by (simp add: triple_def)
qed

lemma entry_book_booked:
  assumes "0 \<le> capital"
  shows "triple (\<lambda>_. True) (entry_book X d dt placed frame priced snap cash capital) (booked dt)"
  unfolding entry_book_def
  by (intro thrown fills_booked any_lift stamped_then triple_branch any_then) (assumption | rule assms | erule day_rows_zero)+


lemma run_paper_entry_booked: "triple (\<lambda>_. True) (run_paper_entry X d now) (booked (iso_str d))"
proof -
  let ?dt = "iso_str d"
  have none: "triple (\<lambda>_. True) (ret 0) (booked dt)" for dt
    by (simp add: triple_def ret_def)
  have no_decision: "triple (\<lambda>_. True) (entry_no_decision X dt) (booked dt)" for dt
    unfolding entry_no_decision_def by (intro triple_branch any_then none)
  have missed: "triple (\<lambda>_. True) (entry_missed X dt placed priced capital gate) (booked dt)" for dt placed priced capital gate
    unfolding entry_missed_def by (intro any_then none)
  have body: "triple (\<lambda>_. True) (entry_locked_body X d dt day) (booked dt)" for dt day
    unfolding entry_locked_body_def Let_def
    by (intro triple_branch none no_decision missed entry_book_booked accounts.capital_nonneg any_then)
  have expired: "triple (\<lambda>_. True) (entry_expired X dt) (booked dt)" for dt
    unfolding entry_expired_def Let_def by (auto intro!: triple_branch none any_then split: option.split)
  have "triple (\<lambda>_. True) (bnd (lift_res (\<lambda>_. pe_session_day X d)) (\<lambda>day.
      if day_kind day = CLOSED
      then bnd (report X ''SKIPPED'' dt ''non_trading_day'' [(''session'', JStr ''CLOSED'')]) (\<lambda>_. ret 0)
      else locked X (entry_locked_body X d dt day))) (booked dt)" for dt
    unfolding locked_def by (intro triple_branch thrown body any_then none)
  then show ?thesis unfolding run_paper_entry_def Let_def
    by (auto intro: expired none split: window_state.split)
qed

text \<open>C17. An entry is booked once: when an entry session of a day returned with at least one fill, or
  left, however it ended, an entry row of the day in the orders ledger, no later entry session of
  that day changes the ledger, whatever its clock, its environment and the decision store then
  say and whatever other sessions wrote in between, as long as the rows of the orders ledger are
  still there. (The fills are written before the order rows: a session that fails between the
  two writes is not recognised as booked; its fills keep their ids, so the same fill cannot be
  stored again.)\<close>

theorem entry_books_once:
  assumes "run_paper_session X d ''entry'' s = (r1, s1)"
    and "(\<exists>n>0. r1 = Inr n) \<or> entry_already_recorded (pl_orders (pd_ledger s1)) (iso_str d)"
    and "set (pl_orders (pd_ledger s1)) \<subseteq> set (pl_orders (pd_ledger s2))"
    and "run_paper_session X' d ''entry'' s2 = (r, s3)"
  shows "entry_already_recorded (pl_orders (pd_ledger s1)) (iso_str d) \<and> pd_ledger s3 = pd_ledger s2"
proof -
  have rec: "entry_already_recorded (pl_orders (pd_ledger s1)) (iso_str d)"
    using assms(2)
  proof
    assume "\<exists>n>0. r1 = Inr n"
    then obtain n where n: "0 < n" "r1 = Inr n" by blast
    obtain now t where "run_paper_entry X d now t = (Inr n, s1)"
      using assms(1) n(2) by (auto simp: run_paper_session_def bnd_def desk_call_def case_prod_beta split: if_splits)
    then have "booked (iso_str d) (Inr n) s1" by (rule tripleD [OF run_paper_entry_booked, rotated]) simp
    then show ?thesis using n(1) by (simp add: booked_def entry_on_record_def)
  qed
  then have rec2: "entry_already_recorded (pl_orders (pd_ledger s2)) (iso_str d)"
    using assms(3) by (auto simp: entry_already_recorded_def list_ex_iff)
  have "keeps (\<lambda>s. pd_ledger s = pd_ledger s2) (run_paper_session X' d ''entry'')"
    unfolding run_paper_session_def
    by (intro keeps_bnd keeps_if keeps_basic world_keeps recorded_entry_keeps [OF rec2]) simp
  from tripleD [OF this, OF refl assms(4)] rec show ?thesis by blast
qed

subsection \<open>The demo entry run\<close>

definition demo_bought :: "int \<Rightarrow> fill_row" where
  "demo_bought q = \<lparr>fr_order_id = ''2026-03-02:005930:entry'', fr_symbol = ''005930'', fr_side = ''buy'', fr_qty = q,
     fr_fill_price = 50000, fr_filled_at = Some ((2026, 3, 2), 55800), fr_trigger = ''auction_close'',
     fr_entry_order_id = None, fr_decision_date = ''2026-03-02''\<rparr>"

definition demo_now :: int where
  "demo_now = placed_instant (2026, 3, 2) DECISION_WINDOW_END_HHMMSS"

lemma desk_date: "iso_str (2026, 3, 2) = ''2026-03-02''"
  by code_simp

lemma demo_placed: "placed_at (2026, 3, 2) PAPER_ENTRY_HHMMSS = ((2026, 3, 2), 55200)"
  by (simp add: placed_at_def PAPER_ENTRY_HHMMSS_def at_hhmmss_def digits_val_def digit_val_def)

lemma demo_window: "entry_window_state (2026, 3, 2) demo_now = WINDOW_OPEN"
proof -
  have tomorrow: "toordinal (next_day (2026, 3, 2)) = Suc (toordinal (2026, 3, 2))"
    by (rule toordinal_next_day) code_simp
  show ?thesis unfolding entry_window_state_def demo_now_def placed_instant_def instant_def tomorrow
    by (simp add: placed_at_def PAPER_ENTRY_HHMMSS_def PAPER_ENTRY_EARLIEST_HHMMSS_def DECISION_WINDOW_END_HHMMSS_def
        PAPER_ENTRY_CATCHUP_DEADLINE_HHMMSS_def at_hhmmss_def digits_val_def digit_val_def day_ns_def)
qed

lemma demo_priced: "price_picks (Fin 0) [demo_pick] = Inr [(demo_pick, 100000)]"
proof -
  have "rnd64 100000 = (100000 :: rat)" "rnd64 1 = (1 :: rat)" using rnd64_of_int [of 100000] rnd64_of_int [of 1] by simp_all
  then show ?thesis
    by (simp add: price_picks_def pick_sizing_price_def demo_pick_def decision_price_of_def is_na_def sizing_price_def
        fl_of_int_def py_ceil_def)
qed


abbreviation demo_desk :: "unit paper_desk" where
  "demo_desk \<equiv> \<lparr>pd_ledger = empty_ledger, pd_world = ()\<rparr>"

lemma demo_effective_bought: "load_effective_fills (empty_ledger\<lparr>pl_fills := [demo_bought q], pl_orders := os\<rparr>) = [demo_bought q]"
  by (simp add: load_effective_fills_def voided_order_ids_def empty_ledger_def)

lemma demo_frame: "load_topk_decision (Some \<lparr>ts_has_decided = True, ts_has_pred = True, ts_rows = [(''2026-03-02'', demo_pick)]\<rparr>) ''2026-03-02''
   = \<lparr>tf_has_decided = True, tf_has_pred = True, tf_picks = [demo_pick]\<rparr>"
  by (simp add: load_topk_decision_def)

lemma demo_on_time: "\<not> missed_auction \<lparr>tf_has_decided = True, tf_has_pred = True, tf_picks = [demo_pick]\<rparr>
    (placed_instant (2026, 3, 2) DECISION_WINDOW_END_HHMMSS) STANDARD"
  by (simp add: missed_auction_def decided_late_def demo_pick_def placed_instant_def instant_def placed_at_def
      DECISION_WINDOW_END_HHMMSS_def at_hhmmss_def digits_val_def digit_val_def day_ns_def not_le add_nonneg_pos)

lemma demo_preds: "\<exists>v. pred_by_symbol \<lparr>tf_has_decided = True, tf_has_pred = True, tf_picks = [demo_pick]\<rparr> = Inr v"
  by (simp add: pred_by_symbol_def pick_pred_def demo_pick_def try_float_def)

lemma demo_bought_book: "0 < q \<Longrightarrow> book [demo_bought q] \<and> taxed [demo_bought q] \<and> calendar_total demo_calendar"
  using book_buy [OF book_empty, of "demo_bought q"]
  by (simp add: demo_bought_def lot_ok_def taxed_def calendar_total_def demo_calendar_def)

lemma demo_refresh:
  assumes "0 < q"
  shows "\<exists>l. refresh_desk (demo_desk_env now) demo_day ''2026-03-02'' (\<lparr>pd_ledger = empty_ledger\<lparr>pl_fills := [demo_bought q], pl_orders := os\<rparr>, pd_world = ()\<rparr>)
     = (Inr 0, \<lparr>pd_ledger = l, pd_world = ()\<rparr>) \<and> pl_fills l = [demo_bought q] \<and> pl_corrections l = []"
proof -
  let ?l = "empty_ledger\<lparr>pl_fills := [demo_bought q], pl_orders := os\<rparr>"
  have pos: "load_open_positions ?l = Inr [\<lparr>op_entry_order_id = ''2026-03-02:005930:entry'', op_symbol = ''005930'', op_qty = q,
      op_entry_price = 50000, op_decision_date = ''2026-03-02''\<rparr>]"
    by (simp add: load_open_positions_def demo_effective_bought Let_def) (simp add: demo_bought_def)
  have marks: "load_open_lot_marks X [\<lparr>op_entry_order_id = ''2026-03-02:005930:entry'', op_symbol = ''005930'', op_qty = q,
      op_entry_price = 50000, op_decision_date = ''2026-03-02''\<rparr>] demo_day ''2026-03-02'' = ret []" for X :: "unit paper_env"
    by (simp add: load_open_lot_marks_def carried_symbols_def)
  have trips: "build_round_trips demo_calendar [demo_bought q] = Inr []"
    by (simp add: build_round_trips_def trip_step_def demo_bought_def)
  obtain nv where "build_nav_snapshot demo_calendar [demo_bought q] 1000000 ''2026-03-02'' Map.empty = Inr nv"
    using book_accounts(2) demo_bought_book [OF assms] by blast
  then have run: "refresh_trade_ledgers demo_calendar 1000000 ''2026-03-02'' Map.empty ?l = (Inr 0, record_nav [nv] (rewrite_derived [] ?l))"
    by (simp add: refresh_run demo_effective_bought trips)
  show ?thesis
    by (simp add: refresh_desk_def bnd_def lift_res_def pos marks ret_def desk_ledger_def run demo_desk_env_def)
      (simp add: record_nav_def rewrite_derived_def empty_ledger_def)
qed


definition demo_buy_order :: "int \<Rightarrow> paper_order" where
  "demo_buy_order q = paper_entry_order ''2026-03-02'' ''005930'' q ((2026, 3, 2), 55200)"

lemma demo_orders:
  assumes "size_order_qty capital (Fin 1) 100000 = Inr q" "0 < q"
  shows "build_entry_orders [(demo_pick, 100000)] ''2026-03-02'' capital ((2026, 3, 2), 55200) = Inr [demo_buy_order q]"
  using assms by (simp add: demo_pick_def demo_buy_order_def)

lemma demo_fill_step:
  assumes "0 < q" "q \<le> 10"
  shows "entry_fill_step [(''005930'', demo_close)] (demo_buy_order q) \<lparr>ea_cash = 1000000, ea_fills = [], ea_rows = []\<rparr>
    = Inr \<lparr>ea_cash = 1000000 - (50000 * q + side_fee_krw (50000 * q)), ea_fills = [demo_bought q], ea_rows = [(demo_buy_order q, ''FILLED'')]\<rparr>"
proof -
  have "\<not> (1000000 < 50000 * q + side_fee_krw (50000 * q))" using demo_fee [of "50000 * q"] assms by simp
  then show ?thesis
    by (simp add: entry_fill_step_def demo_buy_order_def paper_entry_order_def build_auction_fill_def demo_close_def notna_true_def
        fill_of_def fill_row_of_def demo_bought_def paper_entry_order_id_def Let_def)
qed

lemma demo_book:
  assumes "size_order_qty capital (Fin 1) 100000 = Inr q" "0 < q" "q \<le> 10"
  shows "\<exists>l. entry_book (demo_desk_env now) demo_day ''2026-03-02'' ((2026, 3, 2), 55200)
      \<lparr>tf_has_decided = True, tf_has_pred = True, tf_picks = [demo_pick]\<rparr> [(demo_pick, 100000)] [(''005930'', demo_close)] 1000000 capital demo_desk
    = (Inr 1, \<lparr>pd_ledger = l, pd_world = ()\<rparr>) \<and> pl_fills l = [demo_bought q] \<and> pl_corrections l = []"
proof -
  obtain v where v: "pred_by_symbol \<lparr>tf_has_decided = True, tf_has_pred = True, tf_picks = [demo_pick]\<rparr> = Inr v"
    using demo_preds by blast
  let ?row = "\<lparr>or_order = demo_buy_order q, or_status = ''FILLED'', or_recorded_at = ((2026, 3, 2), 56000)\<rparr>"
  have none_left: "unordered_picks [demo_pick] [demo_buy_order q] = []"
    by (simp add: unordered_picks_def demo_pick_def demo_buy_order_def paper_entry_order_def)
  have fills: "record_fills [demo_bought q] empty_ledger = Inr (empty_ledger\<lparr>pl_fills := [demo_bought q]\<rparr>)"
    by (simp add: record_fills_def append_only_def empty_ledger_def)
  have orders: "record_orders [?row] (empty_ledger\<lparr>pl_fills := [demo_bought q]\<rparr>)
      = empty_ledger\<lparr>pl_fills := [demo_bought q], pl_orders := [?row]\<rparr>"
    by (simp add: record_orders_def append_upsert_def empty_ledger_def)
  obtain l where l: "refresh_desk (demo_desk_env now) demo_day ''2026-03-02''
      (\<lparr>pd_ledger = empty_ledger\<lparr>pl_fills := [demo_bought q], pl_orders := [?row]\<rparr>, pd_world = ()\<rparr>)
      = (Inr 0, \<lparr>pd_ledger = l, pd_world = ()\<rparr>)" "pl_fills l = [demo_bought q]" "pl_corrections l = []"
    using demo_refresh [OF assms(2)] by blast
  have env: "pe_wall (demo_desk_env now) w = (((2026, 3, 2), 56000), w)" "pe_write (demo_desk_env now) w = (Written, w)" for w
    by (simp_all add: demo_desk_env_def)
  have row: "order_record (demo_buy_order q) ''FILLED'' ((2026, 3, 2), 56000) = Inr ?row"
    by (simp add: order_record_def ORDER_STATUSES_def)
  show ?thesis using l
    by (simp add: entry_book_def bnd_def lift_res_def demo_orders [OF assms(1,2)] none_left ret_def v demo_fill_step [OF assms(2,3)]
        desk_call_def env row record_fill_rows_def ledger_write_def fills modify_def record_order_rows_def orders
        del: build_entry_orders.simps)
qed

lemma demo_entry:
  "\<exists>q l. run_paper_session (demo_desk_env demo_now) demo_day ''entry'' demo_desk = (Inr 1, \<lparr>pd_ledger = l, pd_world = ()\<rparr>)
    \<and> 5 \<le> q \<and> q \<le> 10 \<and> pl_fills l = [demo_bought q] \<and> pl_corrections l = []"
proof -
  let ?cap = "investable_capital 1000000 1000000"
  obtain q where q: "size_order_qty ?cap (Fin 1) 100000 = Inr q" "5 \<le> q" "q \<le> 10" using demo_qty by blast
  then obtain l where l: "entry_book (demo_desk_env demo_now) demo_day ''2026-03-02'' ((2026, 3, 2), 55200)
      \<lparr>tf_has_decided = True, tf_has_pred = True, tf_picks = [demo_pick]\<rparr> [(demo_pick, 100000)] [(''005930'', demo_close)] 1000000 ?cap demo_desk
    = (Inr 1, \<lparr>pd_ledger = l, pd_world = ()\<rparr>)" "pl_fills l = [demo_bought q]" "pl_corrections l = []"
    using demo_book [of ?cap q demo_now] by auto
  have env: "pe_session_day (demo_desk_env now) d = Inr \<lparr>day_date = d, day_kind = STANDARD, day_clock = None, day_provenance = ''standard''\<rparr>"
    "pe_lock (demo_desk_env now) w = (True, w)" "pe_now (demo_desk_env now) w = (now, w)"
    "pe_topk (demo_desk_env now) w = (Inr (Some \<lparr>ts_has_decided = True, ts_has_pred = True, ts_rows = [(''2026-03-02'', demo_pick)]\<rparr>), w)"
    "pe_snapshot (demo_desk_env now) dt w = (Inr [(''005930'', demo_close)], w)" "pe_buffer_bp (demo_desk_env now) = Fin 0"
    "pe_seed_capital (demo_desk_env now) = 1000000" for now d w dt
    by (simp_all add: demo_desk_env_def demo_calendar_def)
  have nav: "load_effective_fills empty_ledger = []" by (simp add: load_effective_fills_def empty_ledger_def)
  have body: "entry_locked_body (demo_desk_env demo_now) demo_day ''2026-03-02''
      \<lparr>day_date = demo_day, day_kind = STANDARD, day_clock = None, day_provenance = ''standard''\<rparr> demo_desk
      = (Inr 1, \<lparr>pd_ledger = l, pd_world = ()\<rparr>)"
    using l(1) demo_on_time demo_placed
    by (simp add: entry_locked_body_def bnd_def gets_def ret_def lift_res_def desk_try_def env demo_frame demo_priced
        build_nav_snapshot_def nav demo_day_def entry_already_recorded_def) (simp add: empty_ledger_def)
  show ?thesis using q l(2,3) body
    by (intro exI [of _ q] exI [of _ l]) (simp add: run_paper_session_def bnd_def desk_call_def env run_paper_entry_def demo_window demo_day_def desk_date
        lift_res_def locked_def)
qed


lemma entry_books_once_witness:
  "\<exists>l r s3. run_paper_session (demo_desk_env demo_now) demo_day ''entry'' demo_desk = (Inr 1, \<lparr>pd_ledger = l, pd_world = ()\<rparr>)
     \<and> pl_fills l \<noteq> []
     \<and> run_paper_session (demo_desk_env (demo_now + 1)) demo_day ''entry'' \<lparr>pd_ledger = l, pd_world = ()\<rparr> = (r, s3) \<and> pd_ledger s3 = l"
proof -
  obtain q l where l: "run_paper_session (demo_desk_env demo_now) demo_day ''entry'' demo_desk = (Inr 1, \<lparr>pd_ledger = l, pd_world = ()\<rparr>)"
    "pl_fills l = [demo_bought q]" using demo_entry by blast
  obtain r s3 where r: "run_paper_session (demo_desk_env (demo_now + 1)) demo_day ''entry'' \<lparr>pd_ledger = l, pd_world = ()\<rparr> = (r, s3)"
    by (cases "run_paper_session (demo_desk_env (demo_now + 1)) demo_day ''entry'' \<lparr>pd_ledger = l, pd_world = ()\<rparr>")
  from entry_books_once [OF l(1) _ _ r] have "pd_ledger s3 = l" by simp
  then show ?thesis using l r by auto
qed

section \<open>Books and evidence\<close>

text \<open>C15. A paper session of either phase, however it ends, only appends evidence and keeps the
  books: the stored fills before it are a prefix of those after it, no correction is written,
  every fill id stays unique, and among the effective fills every sell closes, with its
  symbol and its whole quantity, a buy that no other sell closes.\<close>

theorem paper_session_keeps_books:
  assumes "run_paper_session X d ph s = (r, s')" "ledger_sound (pd_ledger s)"
  shows "prefix (pl_fills (pd_ledger s)) (pl_fills (pd_ledger s')) \<and> pl_corrections (pd_ledger s') = pl_corrections (pd_ledger s)
    \<and> distinct (map fr_order_id (pl_fills (pd_ledger s')))
    \<and> (let fills = load_effective_fills (pd_ledger s') in distinct (map fr_entry_order_id (sells_of fills))
      \<and> (\<forall>r\<in>set (sells_of fills). \<exists>b\<in>set (buys_of fills). fr_entry_order_id r = Some (fr_order_id b)
          \<and> fr_symbol r = fr_symbol b \<and> fr_qty r = fr_qty b)
      \<and> (\<forall>r\<in>set fills. 0 < fr_qty r \<and> 0 < fr_fill_price r))"
proof -
  have "grown_from (pd_ledger s) (pd_ledger s')"
    by (rule tripleD [OF grows.session_keeps _ assms(1)]) (simp add: grown_from_def)
  moreover have sound: "ledger_sound (pd_ledger s')" by (rule tripleD [OF accounts.session_keeps assms(2,1)])
  then have bk: "book (load_effective_fills (pd_ledger s'))" by (simp add: ledger_sound_def)
  ultimately show ?thesis using book_links [OF bk] book_rows [OF bk] sound unfolding Let_def
    by (simp add: grown_from_def ledger_sound_def closes_def lot_ok_def)
qed

lemma paper_session_keeps_books_witness:
  "\<exists>q l. run_paper_session (demo_desk_env demo_now) demo_day ''entry'' demo_desk = (Inr 1, \<lparr>pd_ledger = l, pd_world = ()\<rparr>)
     \<and> pl_fills l = [demo_bought q] \<and> distinct (map fr_order_id (pl_fills l)) \<and> pl_corrections l = []"
proof -
  obtain q l where l: "run_paper_session (demo_desk_env demo_now) demo_day ''entry'' demo_desk = (Inr 1, \<lparr>pd_ledger = l, pd_world = ()\<rparr>)"
    "pl_fills l = [demo_bought q]" using demo_entry by blast
  from paper_session_keeps_books [OF l(1)] sound_empty l show ?thesis by (auto simp: empty_ledger_def)
qed

text \<open>C16. Accounting never gets stuck: on every ledger that sessions, voided fills and notes can
  lead to, with a calendar that resolves every day and sells no older than the tax table,
  the open positions, the round trips and the refresh of the derived ledgers all succeed;
  there is one trip per sell and every buy is either a trip or an open position.\<close>

theorem reachable_ledger_accounts:
  assumes "desk_reachable s" "calendar_total resolve" "taxed (load_effective_fills (pd_ledger s))"
  shows "\<exists>ps trips l. load_open_positions (pd_ledger s) = Inr ps
    \<and> build_round_trips resolve (load_effective_fills (pd_ledger s)) = Inr trips
    \<and> refresh_trade_ledgers resolve seed d marks (pd_ledger s) = (Inr (length trips), l) \<and> pl_trades l = trips
    \<and> length trips = length (sells_of (load_effective_fills (pd_ledger s)))
    \<and> length ps + length trips = length (buys_of (load_effective_fills (pd_ledger s)))"
proof -
  let ?fills = "load_effective_fills (pd_ledger s)"
  have bk: "book ?fills" using reachable_sound [OF assms(1)] by (simp add: ledger_sound_def)
  obtain trips where trips: "build_round_trips resolve ?fills = Inr trips" "length trips = length (sells_of ?fills)"
    using book_accounts(1) [OF bk assms(2,3)] by blast
  obtain nv where nv: "build_nav_snapshot resolve ?fills seed d marks = Inr nv"
    using book_accounts(2) [OF bk assms(2,3)] by blast
  have dist: "distinct (map fr_order_id (buys_of ?fills))" using book_rows [OF bk] distinct_map_filter by blast
  obtain ps where ps: "load_open_positions (pd_ledger s) = Inr ps" "length ps = nv_n_open_positions nv"
    using positions_of_trips [OF trips(1) nv dist] by blast
  have "nv_n_open_positions nv + length trips = length (buys_of ?fills)"
    by (rule nav_snapshot_parts [OF nv dist]) (use trips(1) in simp)
  then show ?thesis using trips ps nv by (auto simp: refresh_run record_nav_def rewrite_derived_def)
qed

lemma reachable_ledger_accounts_witness:
  "\<exists>q (s :: unit paper_desk) l. desk_reachable s \<and> pl_fills (pd_ledger s) = [demo_bought q]
     \<and> refresh_trade_ledgers demo_calendar 1000000 ''2026-03-03'' Map.empty (pd_ledger s) = (Inr 0, l)"
proof -
  obtain q l where l: "run_paper_session (demo_desk_env demo_now) demo_day ''entry'' demo_desk = (Inr 1, \<lparr>pd_ledger = l, pd_world = ()\<rparr>)"
    "5 \<le> q" "pl_fills l = [demo_bought q]" "pl_corrections l = []" using demo_entry by blast
  let ?s = "\<lparr>pd_ledger = l, pd_world = ()\<rparr>"
  have reach: "desk_reachable ?s" by (rule desk_session [OF desk_new l(1)])
  have eff: "load_effective_fills l = [demo_bought q]"
    using l(3,4) by (simp add: load_effective_fills_def voided_order_ids_def)
  have side: "fr_side (demo_bought q) = ''buy''" by (simp add: demo_bought_def)
  have "calendar_total demo_calendar" "taxed (load_effective_fills (pd_ledger ?s))"
    using demo_bought_book [of q] l(2) by (simp_all add: eff)
  from reachable_ledger_accounts [OF reach this, of 1000000 "''2026-03-03''" Map.empty] obtain l' where
    "refresh_trade_ledgers demo_calendar 1000000 ''2026-03-03'' Map.empty l = (Inr 0, l')" by (auto simp: eff side)
  with reach l(3) have "desk_reachable ?s \<and> pl_fills (pd_ledger ?s) = [demo_bought q]
      \<and> refresh_trade_ledgers demo_calendar 1000000 ''2026-03-03'' Map.empty (pd_ledger ?s) = (Inr 0, l')" by simp
  then show ?thesis by blast
qed


section \<open>Money and prices of a run\<close>

lemma entry_fills_traced:
  assumes "rfold (entry_fill_step snap) orders acc = Inr acc'"
    "\<forall>ord\<in>set orders. po_side ord = ''buy'' \<and> 0 < po_qty ord \<and> po_entry_order_id ord = None"
  shows "\<forall>r\<in>set (ea_fills acc') - set (ea_fills acc). \<exists>ord\<in>set orders. \<exists>row. fr_order_id r = po_order_id ord \<and> fr_qty r = po_qty ord
        \<and> map_of snap (po_symbol ord) = Some row \<and> notna_true (row_confirmed row) \<and> fr_fill_price r = row_close row"
  using assms
proof (induction orders arbitrary: acc)
  case (Cons ord orders)
  then obtain mid where mid: "entry_fill_step snap ord acc = Inr mid" "rfold (entry_fill_step snap) orders mid = Inr acc'"
    by auto
  have "po_side ord = ''buy''" "0 < po_qty ord" "po_entry_order_id ord = None" using Cons.prems(2) by auto
  from entry_fill_step_Inr [OF mid(1) this] Cons.IH [OF mid(2)] Cons.prems(2) show ?case
    by (auto 0 4)
qed simp

text \<open>C18. An entry never spends more than the cash: filling the orders of a decision in rank order
  leaves the cash less the notional and the fee of every fill, never below zero when it was
  not; every fill is for its order's whole quantity at the confirmed close of the snapshot,
  and every order gets exactly one status row, in rank order.\<close>

theorem entry_fills_fit_cash:
  assumes "build_entry_orders priced dt capital placed = Inr orders" "0 \<le> capital" "0 \<le> cash"
    and "rfold (entry_fill_step snap) (sort_key key orders) \<lparr>ea_cash = cash, ea_fills = [], ea_rows = []\<rparr> = Inr acc"
  shows "ea_cash acc = cash - sum_list (map (\<lambda>r. notional_of r + side_fee_krw (notional_of r)) (ea_fills acc))
    \<and> 0 \<le> ea_cash acc \<and> map fst (ea_rows acc) = sort_key key orders
    \<and> (\<forall>r\<in>set (ea_fills acc). \<exists>ord\<in>set orders. \<exists>row. fr_order_id r = po_order_id ord \<and> fr_qty r = po_qty ord
        \<and> map_of snap (po_symbol ord) = Some row \<and> notna_true (row_confirmed row) \<and> fr_fill_price r = row_close row)"
proof -
  have orders: "\<forall>ord\<in>set (sort_key key orders). po_side ord = ''buy'' \<and> 0 < po_qty ord \<and> po_entry_order_id ord = None"
    using build_entry_orders_Inr [OF assms(1,2)] by simp
  show ?thesis
    using entry_fills_Inr [OF assms(4) orders] entry_fills_traced [OF assms(4) orders] assms(3)
    by (simp add: batch_cost_def)
qed

lemma entry_fills_fit_cash_witness:
  "\<exists>q acc. rfold (entry_fill_step [(''005930'', demo_close)]) (sort_key (\<lambda>ord. po_symbol ord) [demo_buy_order q])
      \<lparr>ea_cash = 1000000, ea_fills = [], ea_rows = []\<rparr> = Inr acc \<and> ea_fills acc = [demo_bought q] \<and> 0 \<le> ea_cash acc"
proof -
  obtain q where q: "size_order_qty (investable_capital 1000000 1000000) (Fin 1) 100000 = Inr q" "5 \<le> q" "q \<le> 10"
    using demo_qty by blast
  then have q0: "0 < q" by simp
  obtain acc where acc: "rfold (entry_fill_step [(''005930'', demo_close)]) (sort_key (\<lambda>ord. po_symbol ord) [demo_buy_order q])
      \<lparr>ea_cash = 1000000, ea_fills = [], ea_rows = []\<rparr> = Inr acc" "ea_fills acc = [demo_bought q]"
    using demo_fill_step [OF q0 q(3)] by simp
  have "0 \<le> investable_capital 1000000 1000000" using demo_capital by simp
  from entry_fills_fit_cash [OF demo_orders [OF q(1) q0] this _ acc(1)] acc show ?thesis by auto
qed

text \<open>The open of the chart answer is that of one of its rows.\<close>

lemma chart_steps_row:
  "rfold chart_step rows best = Inr (bd, n) \<Longrightarrow> (bd, n) = best \<or> (\<exists>row. JObj row \<in> set rows
     \<and> py_str (pget_default row ''stck_bsop_date'' (JStr [])) = bd \<and> vendor_int (pget row ''stck_oprc'') = Inr n)"
proof (induction rows arbitrary: best)
  case (Cons r rows)
  then obtain mid where mid: "chart_step r best = Inr mid" "rfold chart_step rows mid = Inr (bd, n)" by auto
  from Cons.IH [OF mid(2)] show ?case
  proof
    assume "(bd, n) = mid"
    then show ?thesis using mid(1) by (cases r) (auto simp: chart_step_def Let_def split: if_splits)
  qed auto
qed simp

lemma chart_open_row:
  assumes "chart_open_of body = Inr (dt, n)" "0 < n"
  shows "\<exists>r rows row. body = JObj r \<and> pget r ''rt_cd'' = JStr ''0'' \<and> pget r ''output2'' = JList rows
      \<and> JObj row \<in> set rows \<and> vendor_int (pget row ''stck_oprc'') = Inr n
      \<and> business_date_of (py_str (pget_default row ''stck_bsop_date'' (JStr []))) = dt"
proof -
  obtain r rows bd where b: "body = JObj r" "pget r ''rt_cd'' = JStr ''0''" "pget r ''output2'' = JList rows"
    "rfold chart_step rows ([], 0) = Inr (bd, n)" "business_date_of bd = dt"
    using assms by (auto simp: chart_open_of_def split: jval.splits if_splits)
  then show ?thesis using chart_steps_row [OF b(4)] assms(2) by auto
qed

text \<open>A positive open of a dated quote is attested twice: the price request answered with
  exactly this open, and a row of the chart request, of the decision date itself, has the
  same open; any failure, an older session or a disagreement gives zero.\<close>

theorem dated_quote_is_attested:
  assumes "fetch_krx_dated_open_quote code dt price chart = Inr q" "0 < dq_open_price q"
  shows "dq_symbol q = code \<and> dq_business_date q = dt
    \<and> (\<exists>body. price = Inr body \<and> inquire_open_of body = Inr (dq_open_price q))
    \<and> (\<exists>r rows row. chart = Inr (JObj r) \<and> pget r ''rt_cd'' = JStr ''0'' \<and> pget r ''output2'' = JList rows
        \<and> JObj row \<in> set rows \<and> vendor_int (pget row ''stck_oprc'') = Inr (dq_open_price q)
        \<and> business_date_of (py_str (pget_default row ''stck_bsop_date'' (JStr []))) = dt)"
proof -
  obtain n bd m where n: "swallow 0 (rbind price inquire_open_of) = Inr n"
    and m: "swallow ([], 0) (rbind chart chart_open_of) = Inr (bd, m)"
    and q: "q = \<lparr>dq_symbol = code, dq_business_date = bd, dq_open_price = (if 0 < n \<and> bd = dt \<and> n = m then n else 0)\<rparr>"
    using assms(1) by (auto simp: fetch_krx_dated_open_quote_def)
  have ok: "0 < n" "bd = dt" "m = n" "dq_open_price q = n" using assms(2) q by (auto split: if_splits)
  have "rbind price inquire_open_of = Inr n" using n ok(1) by (auto simp: swallow_def split: sum.splits if_splits)
  moreover have "rbind chart chart_open_of = Inr (dt, n)"
    using m ok by (auto simp: swallow_def split: sum.splits if_splits)
  ultimately show ?thesis using chart_open_row [of _ dt n] ok(1) unfolding ok(4) by (auto simp: q ok(2))
qed

definition demo_price_body :: jval where
  "demo_price_body = JObj [(''rt_cd'', JStr ''0''), (''output'', JObj [(''stck_oprc'', JStr ''71000'')])]"

definition demo_chart_body :: jval where
  "demo_chart_body = JObj [(''rt_cd'', JStr ''0''), (''output2'', JList [JObj [(''stck_bsop_date'', JStr ''20260303''), (''stck_oprc'', JStr ''71000'')]])]"


lemma demo_open_read: "vendor_int (JStr ''71000'') = Inr 71000"
proof -
  have r: "rnd64 71000 = (71000 :: rat)" using rnd64_of_int [of 71000] by simp
  have strip: "signed (py_strip ''71000'') = (False, ''71000'')" and low: "ascii_lower ''71000'' = ''71000''"
    and digits: "opt_digits ''71000'' = Some ''71000''" "opt_digits [] = Some []"
    by code_simp+
  have read: "digits_val ''71000'' = 71000" by (simp add: digits_val_def digit_val_def)
  have "(71000 :: rat) < 2 ^ 17" "(2 :: rat) ^ 17 \<le> 2 ^ 1024" by (simp, rule power_increasing) simp_all
  then have "\<not> too_large 71000" by (simp add: too_large_def r)
  then have "float_of_str ''71000'' = Inr (Fin 71000)"
    using digits by (simp add: read float_of_str_def strip low exponent_of_def scale10_def r)
  then show ?thesis by (simp add: vendor_int_def safe_float_def)
qed

lemma dated_quote_is_attested_witness:
  "\<exists>q. fetch_krx_dated_open_quote ''005930'' ''2026-03-03'' (Inr demo_price_body) (Inr demo_chart_body) = Inr q
     \<and> dq_open_price q = 71000 \<and> dq_business_date q = ''2026-03-03''"
proof -
  have "inquire_open_of demo_price_body = Inr 71000"
    by (simp add: inquire_open_of_def demo_price_body_def pget_def demo_open_read)
  moreover have "chart_open_of demo_chart_body = Inr (''2026-03-03'', 71000)"
    by (simp add: chart_open_of_def demo_chart_body_def pget_def pget_default_def chart_step_def demo_open_read business_date_of_def)
  ultimately obtain q where q: "fetch_krx_dated_open_quote ''005930'' ''2026-03-03'' (Inr demo_price_body) (Inr demo_chart_body) = Inr q"
    "dq_open_price q = 71000" by (simp add: fetch_krx_dated_open_quote_def swallow_def)
  from dated_quote_is_attested [OF q(1)] q show ?thesis by auto
qed

end
