(* ===== verification/Pit_Report.thy ===== *)
theory Pit_Report
  imports Kis_Trading Entry_Decision
begin

text \<open>
  \<open>src/ml/pit_report.py\<close>: the report of the decision-time certification and the certificate
  of the tape reconstruction, as the JSON objects they are stored in. Text encoding and decoding are
  the identity on decoded values; the key order of an object, which the encoder sorts, is not
  observed. The daily evidence table (parquet) is left out.
\<close>

section \<open>Numbers\<close>

definition PIT_REPORT_SCHEMA_VERSION :: int where "PIT_REPORT_SCHEMA_VERSION = 1"
definition RECON_CERTIFICATION_SCHEMA_VERSION :: int where "RECON_CERTIFICATION_SCHEMA_VERSION = 2"

datatype PitReportStatus = PIT_OK | PIT_INSUFFICIENT_DAYS | PIT_INSUFFICIENT_COVERAGE

fun pit_status_value :: "PitReportStatus \<Rightarrow> string" where
  "pit_status_value PIT_OK = ''OK''"
| "pit_status_value PIT_INSUFFICIENT_DAYS = ''INSUFFICIENT_DAYS''"
| "pit_status_value PIT_INSUFFICIENT_COVERAGE = ''INSUFFICIENT_COVERAGE''"

definition pit_status_of :: "string \<Rightarrow> PitReportStatus res" where
  "pit_status_of s = (case find (\<lambda>x. pit_status_value x = s) [PIT_OK, PIT_INSUFFICIENT_DAYS, PIT_INSUFFICIENT_COVERAGE] of
     None \<Rightarrow> Inl ValueError | Some x \<Rightarrow> Inr x)"

record PairedDelta =
  dl_delta :: fl
  dl_ci_low :: fl
  dl_ci_high :: fl
  dl_p_value :: fl
  dl_n_days :: int

record AugmentationSummary =
  au_status :: string
  au_improvement_bp :: "PairedDelta option"
  au_declared_trials :: int
  au_alpha :: fl
  au_verdict :: string

definition dump_float :: "fl \<Rightarrow> jval" where
  "dump_float v = (if f_isfinite v then JFloat v else JNull)"

definition load_float :: "jval \<Rightarrow> fl res" where
  "load_float v = (case v of
     JNull \<Rightarrow> Inr NaN
   | JInt _ \<Rightarrow> py_float v
   | JFloat f \<Rightarrow> Inr f
   | _ \<Rightarrow> Inl ValueError)"

definition dump_delta :: "PairedDelta \<Rightarrow> jval" where
  "dump_delta d = JObj
     [(''delta'', dump_float (dl_delta d)), (''ci_low'', dump_float (dl_ci_low d)),
      (''ci_high'', dump_float (dl_ci_high d)), (''p_value'', dump_float (dl_p_value d)),
      (''n_days'', JInt (dl_n_days d))]"

text \<open>\<open>except (KeyError, TypeError, ValueError)\<close>, raising \<open>ValueError\<close>.\<close>

definition malformed :: "exn \<Rightarrow> bool" where
  "malformed e \<longleftrightarrow> e = KeyError \<or> e = TypeError \<or> is_value_error e"

definition as_value_error :: "'a res \<Rightarrow> 'a res" where
  "as_value_error r = (case r of Inl e \<Rightarrow> Inl (if malformed e then ValueError else e) | Inr x \<Rightarrow> Inr x)"

definition only_keys :: "payload \<Rightarrow> string list \<Rightarrow> bool" where
  "only_keys p ks \<longleftrightarrow> list_all (\<lambda>k. k \<in> set ks) (map fst p)"

definition has_keys :: "payload \<Rightarrow> string list \<Rightarrow> bool" where
  "has_keys p ks \<longleftrightarrow> list_all (\<lambda>k. map_of p k \<noteq> None) ks"

definition load_delta :: "jval \<Rightarrow> PairedDelta res" where
  "load_delta v = (case v of
     JObj p \<Rightarrow>
       if \<not> only_keys p [''delta'', ''ci_low'', ''ci_high'', ''p_value'', ''n_days''] then Inl ValueError
       else
         rbind (as_value_error (rbind (pindex p ''n_days'') py_int)) (\<lambda>n.
         rbind (load_float (pget p ''delta'')) (\<lambda>d.
         rbind (load_float (pget p ''ci_low'')) (\<lambda>lo.
         rbind (load_float (pget p ''ci_high'')) (\<lambda>hi.
         rbind (load_float (pget p ''p_value'')) (\<lambda>pv.
         Inr \<lparr>dl_delta = d, dl_ci_low = lo, dl_ci_high = hi, dl_p_value = pv, dl_n_days = n\<rparr>)))))
   | _ \<Rightarrow> Inl ValueError)"

definition dump_augmentation :: "AugmentationSummary option \<Rightarrow> jval" where
  "dump_augmentation s = (case s of
     None \<Rightarrow> JNull
   | Some a \<Rightarrow> JObj
       [(''status'', JStr (au_status a)),
        (''improvement_bp'', case au_improvement_bp a of None \<Rightarrow> JNull | Some d \<Rightarrow> dump_delta d),
        (''declared_trials'', JInt (au_declared_trials a)), (''alpha'', dump_float (au_alpha a)),
        (''verdict'', JStr (au_verdict a))])"

definition load_augmentation :: "jval \<Rightarrow> AugmentationSummary option res" where
  "load_augmentation v = (case v of
     JNull \<Rightarrow> Inr None
   | JObj p \<Rightarrow>
       if \<not> only_keys p [''status'', ''improvement_bp'', ''declared_trials'', ''alpha'', ''verdict''] then Inl ValueError
       else
         rbind (case pget p ''improvement_bp'' of
             JNull \<Rightarrow> Inr None | x \<Rightarrow> rbind (load_delta x) (\<lambda>d. Inr (Some d))) (\<lambda>improvement.
         rbind (py_int (pget_default p ''declared_trials'' (JInt 0))) (\<lambda>trials.
         rbind (load_float (pget p ''alpha'')) (\<lambda>alpha.
         Inr (Some \<lparr>au_status = py_str (pget_default p ''status'' (JStr [])), au_improvement_bp = improvement,
           au_declared_trials = trials, au_alpha = alpha,
           au_verdict = py_str (pget_default p ''verdict'' (JStr []))\<rparr>))))
   | _ \<Rightarrow> Inl ValueError)"

type_synonym float_map = "(string \<times> fl) list"

definition dump_float_map :: "float_map \<Rightarrow> jval" where
  "dump_float_map m = JObj (map (\<lambda>(k, v). (k, dump_float v)) m)"

definition load_float_map :: "jval \<Rightarrow> float_map res" where
  "load_float_map v = (case v of
     JObj p \<Rightarrow> rmap (\<lambda>(k, x). rbind (load_float x) (\<lambda>f. Inr (k, f))) p
   | _ \<Rightarrow> Inl ValueError)"

section \<open>The report\<close>

record PitHaircutReport =
  hr_schema_version :: int
  hr_generated_at :: string
  hr_strategy_id :: string
  hr_strategy_fingerprint :: string
  hr_top_k :: int
  hr_select_universe :: "payload option"
  hr_feature_contract_version :: string
  hr_model_params :: "payload option"
  hr_seeds :: "int list"
  hr_status :: PitReportStatus
  hr_panel_date_min :: string
  hr_panel_date_max :: string
  hr_n_usable_days :: int
  hr_n_paired_days :: int
  hr_n_live_days :: int
  hr_n_eod_index_days :: int
  hr_mean_net_bp :: "float_map option"
  hr_haircut :: "PairedDelta option"
  hr_coverage_component :: "PairedDelta option"
  hr_feature_component :: "PairedDelta option"
  hr_selection_component :: "PairedDelta option"
  hr_pit_native_vs_zero :: "PairedDelta option"
  hr_rank_ic_mean :: "float_map option"
  hr_rank_ic_haircut :: "PairedDelta option"
  hr_pick_overlap_mean :: "float_map option"
  hr_haircut_by_index_basis :: "float_map option"
  hr_augmentation :: "AugmentationSummary option"

definition REPORT_FIELDS :: "string list" where
  "REPORT_FIELDS = [''schema_version'', ''generated_at'', ''strategy_id'', ''strategy_fingerprint'', ''top_k'',
     ''select_universe'', ''feature_contract_version'', ''model_params'', ''seeds'', ''status'', ''panel_date_min'',
     ''panel_date_max'', ''n_usable_days'', ''n_paired_days'', ''n_live_days'', ''n_eod_index_days'', ''mean_net_bp'',
     ''haircut'', ''coverage_component'', ''feature_component'', ''selection_component'', ''pit_native_vs_zero'',
     ''rank_ic_mean'', ''rank_ic_haircut'', ''pick_overlap_mean'', ''haircut_by_index_basis'', ''augmentation'']"

text \<open>A field that is not populated is refused.\<close>

definition populated :: "'a option \<Rightarrow> 'a res" where
  "populated x = (case x of None \<Rightarrow> Inl ValueError | Some v \<Rightarrow> Inr v)"

definition report_to_payload :: "PitHaircutReport \<Rightarrow> payload res" where
  "report_to_payload r =
     rbind (populated (hr_select_universe r)) (\<lambda>universe.
     rbind (populated (hr_model_params r)) (\<lambda>params.
     rbind (populated (hr_mean_net_bp r)) (\<lambda>mean_net.
     rbind (populated (hr_haircut r)) (\<lambda>haircut.
     rbind (populated (hr_coverage_component r)) (\<lambda>coverage.
     rbind (populated (hr_feature_component r)) (\<lambda>feature.
     rbind (populated (hr_selection_component r)) (\<lambda>selection.
     rbind (populated (hr_pit_native_vs_zero r)) (\<lambda>native.
     rbind (populated (hr_rank_ic_haircut r)) (\<lambda>ic_haircut.
     rbind (populated (hr_rank_ic_mean r)) (\<lambda>ic_mean.
     rbind (populated (hr_pick_overlap_mean r)) (\<lambda>overlap.
     rbind (populated (hr_haircut_by_index_basis r)) (\<lambda>by_basis.
     Inr
      [(''schema_version'', JInt (hr_schema_version r)),
       (''generated_at'', JStr (hr_generated_at r)),
       (''strategy_id'', JStr (hr_strategy_id r)),
       (''strategy_fingerprint'', JStr (hr_strategy_fingerprint r)),
       (''top_k'', JInt (hr_top_k r)),
       (''select_universe'', JObj universe),
       (''feature_contract_version'', JStr (hr_feature_contract_version r)),
       (''model_params'', JObj params),
       (''seeds'', JList (map JInt (hr_seeds r))),
       (''status'', JStr (pit_status_value (hr_status r))),
       (''panel_date_min'', JStr (hr_panel_date_min r)),
       (''panel_date_max'', JStr (hr_panel_date_max r)),
       (''n_usable_days'', JInt (hr_n_usable_days r)),
       (''n_paired_days'', JInt (hr_n_paired_days r)),
       (''n_live_days'', JInt (hr_n_live_days r)),
       (''n_eod_index_days'', JInt (hr_n_eod_index_days r)),
       (''mean_net_bp'', dump_float_map mean_net),
       (''haircut'', dump_delta haircut),
       (''coverage_component'', dump_delta coverage),
       (''feature_component'', dump_delta feature),
       (''selection_component'', dump_delta selection),
       (''pit_native_vs_zero'', dump_delta native),
       (''rank_ic_mean'', dump_float_map ic_mean),
       (''rank_ic_haircut'', dump_delta ic_haircut),
       (''pick_overlap_mean'', dump_float_map overlap),
       (''haircut_by_index_basis'', dump_float_map by_basis),
       (''augmentation'', dump_augmentation (hr_augmentation r))]))))))))))))"

definition as_object :: "jval \<Rightarrow> payload res" where
  "as_object v = (case v of JObj p \<Rightarrow> Inr p | _ \<Rightarrow> Inl ValueError)"

definition as_list :: "jval \<Rightarrow> jval list res" where
  "as_list v = (case v of JList xs \<Rightarrow> Inr xs | _ \<Rightarrow> Inl ValueError)"

text \<open>\<open>str(payload.get(k, ""))\<close> and \<open>int(payload.get(k, 0))\<close>\<close>

definition str_field :: "payload \<Rightarrow> string \<Rightarrow> string" where
  "str_field p k = py_str (pget_default p k (JStr []))"

definition int_field :: "payload \<Rightarrow> string \<Rightarrow> int res" where
  "int_field p k = py_int (pget_default p k (JInt 0))"

definition payload_to_report :: "payload \<Rightarrow> PitHaircutReport res" where
  "payload_to_report p =
     rbind (guard_ok (only_keys p REPORT_FIELDS) ValueError) (\<lambda>_.
     rbind (guard_ok (jeq_scalar (pget p ''schema_version'') (JInt PIT_REPORT_SCHEMA_VERSION)) ValueError) (\<lambda>_.
     rbind (guard_ok (has_keys p REPORT_FIELDS) ValueError) (\<lambda>_.
     rbind (pit_status_of (py_str (pget p ''status''))) (\<lambda>status.
     rbind (as_object (pget p ''select_universe'')) (\<lambda>universe.
     rbind (as_object (pget p ''model_params'')) (\<lambda>params.
     rbind (as_list (pget p ''seeds'')) (\<lambda>seeds_raw.
     rbind (py_int (pget p ''schema_version'')) (\<lambda>version.
     rbind (int_field p ''top_k'') (\<lambda>top_k.
     rbind (rmap py_int seeds_raw) (\<lambda>seeds.
     rbind (int_field p ''n_usable_days'') (\<lambda>usable.
     rbind (int_field p ''n_paired_days'') (\<lambda>paired.
     rbind (int_field p ''n_live_days'') (\<lambda>live.
     rbind (int_field p ''n_eod_index_days'') (\<lambda>eod.
     rbind (load_float_map (pget p ''mean_net_bp'')) (\<lambda>mean_net.
     rbind (load_delta (pget p ''haircut'')) (\<lambda>haircut.
     rbind (load_delta (pget p ''coverage_component'')) (\<lambda>coverage.
     rbind (load_delta (pget p ''feature_component'')) (\<lambda>feature.
     rbind (load_delta (pget p ''selection_component'')) (\<lambda>selection.
     rbind (load_delta (pget p ''pit_native_vs_zero'')) (\<lambda>native.
     rbind (load_float_map (pget p ''rank_ic_mean'')) (\<lambda>ic_mean.
     rbind (load_delta (pget p ''rank_ic_haircut'')) (\<lambda>ic_haircut.
     rbind (load_float_map (pget p ''pick_overlap_mean'')) (\<lambda>overlap.
     rbind (load_float_map (pget p ''haircut_by_index_basis'')) (\<lambda>by_basis.
     rbind (load_augmentation (pget p ''augmentation'')) (\<lambda>augmentation.
     Inr \<lparr>hr_schema_version = version, hr_generated_at = str_field p ''generated_at'',
       hr_strategy_id = str_field p ''strategy_id'', hr_strategy_fingerprint = str_field p ''strategy_fingerprint'',
       hr_top_k = top_k, hr_select_universe = Some universe,
       hr_feature_contract_version = str_field p ''feature_contract_version'', hr_model_params = Some params,
       hr_seeds = seeds, hr_status = status, hr_panel_date_min = str_field p ''panel_date_min'',
       hr_panel_date_max = str_field p ''panel_date_max'', hr_n_usable_days = usable, hr_n_paired_days = paired,
       hr_n_live_days = live, hr_n_eod_index_days = eod, hr_mean_net_bp = Some mean_net, hr_haircut = Some haircut,
       hr_coverage_component = Some coverage, hr_feature_component = Some feature,
       hr_selection_component = Some selection, hr_pit_native_vs_zero = Some native,
       hr_rank_ic_mean = Some ic_mean, hr_rank_ic_haircut = Some ic_haircut, hr_pick_overlap_mean = Some overlap,
       hr_haircut_by_index_basis = Some by_basis, hr_augmentation = augmentation\<rparr>)))))))))))))))))))))))))"

text \<open>A file is absent, does not decode, or holds a value.\<close>

datatype json_file = No_json | Undecodable_json | Json jval

definition save_pit_haircut_report :: "PitHaircutReport \<Rightarrow> json_file res" where
  "save_pit_haircut_report r = rbind (report_to_payload r) (\<lambda>p. Inr (Json (JObj p)))"

definition load_pit_haircut_report :: "json_file \<Rightarrow> PitHaircutReport option res" where
  "load_pit_haircut_report f = (case f of
     No_json \<Rightarrow> Inr None
   | Undecodable_json \<Rightarrow> Inl ValueError
   | Json v \<Rightarrow> rbind (as_object v) (\<lambda>p. rbind (as_value_error (payload_to_report p)) (\<lambda>r. Inr (Some r))))"


section \<open>The view in the bundle\<close>

definition pit_certification_metadata ::
    "PitHaircutReport option \<Rightarrow> string \<Rightarrow> string \<Rightarrow> string list \<Rightarrow> string \<Rightarrow> payload res" where
  "pit_certification_metadata report mode gate reasons arm =
     (let outcome = [(''gate_mode'', JStr mode), (''gate_status'', JStr gate),
                     (''gate_reasons'', JList (map JStr reasons)), (''arm'', JStr arm)]
      in case report of
        None \<Rightarrow> Inr
          ([(''status'', JStr ''MISSING''), (''generated_at'', JNull), (''panel_date_min'', JStr []),
            (''panel_date_max'', JStr []), (''n_paired_days'', JInt 0), (''mean_net_bp'', JObj []),
            (''haircut'', JObj [(''delta'', JNull), (''ci_low'', JNull), (''ci_high'', JNull), (''p_value'', JNull)]),
            (''rank_ic_mean'', JObj []), (''pick_overlap_mean'', JObj [])] @ outcome)
      | Some r \<Rightarrow>
          (case (hr_mean_net_bp r, hr_haircut r, hr_rank_ic_mean r, hr_pick_overlap_mean r) of
             (Some mean_net, Some haircut, Some ic, Some overlap) \<Rightarrow> Inr
               ([(''status'', JStr (pit_status_value (hr_status r))), (''generated_at'', JStr (hr_generated_at r)),
                 (''panel_date_min'', JStr (hr_panel_date_min r)), (''panel_date_max'', JStr (hr_panel_date_max r)),
                 (''n_paired_days'', JInt (hr_n_paired_days r)), (''mean_net_bp'', dump_float_map mean_net),
                 (''haircut'', JObj [(''delta'', dump_float (dl_delta haircut)), (''ci_low'', dump_float (dl_ci_low haircut)),
                    (''ci_high'', dump_float (dl_ci_high haircut)), (''p_value'', dump_float (dl_p_value haircut))]),
                 (''rank_ic_mean'', dump_float_map ic), (''pick_overlap_mean'', dump_float_map overlap)] @ outcome)
           | _ \<Rightarrow> Inl OtherException))"

section \<open>The reconstruction certificate\<close>

record CertificationBindings =
  bi_decomposition_config_sha256 :: string
  bi_calibration_table_sha256 :: string
  bi_exact_report_sha256 :: string
  bi_recon_report_sha256 :: string

record CalibrationStability =
  cs_passed :: bool
  cs_rel_err_p90 :: fl
  cs_coverage :: fl
  cs_bias_drift :: fl
  cs_alpha_at_boundary :: bool
  cs_n_holdout_rows :: int
  cs_detail :: string

record ReconstructionCertification =
  rc_schema_version :: int
  rc_generated_at :: string
  rc_exact_dir :: string
  rc_recon_dir :: string
  rc_paired_days :: "string list"
  rc_dropped_days :: "string list"
  rc_coverage_improvement :: "PairedDelta option"
  rc_reconstruction_feature :: "PairedDelta option"
  rc_stability :: "CalibrationStability option"
  rc_coverage_by_year_and_basis :: "payload option"
  rc_bindings :: "CertificationBindings option"
  rc_fidelity :: "float_map option"
  rc_holdout_start :: string
  rc_holdout_end :: string
  rc_gate_config :: "float_map option"
  rc_gate_verdict :: string
  rc_gate_reasons :: "string list"

definition CERT_FIELDS :: "string list" where
  "CERT_FIELDS = [''schema_version'', ''generated_at'', ''exact_dir'', ''recon_dir'', ''paired_days'', ''dropped_days'',
     ''coverage_improvement'', ''reconstruction_feature'', ''stability'', ''coverage_by_year_and_basis'', ''bindings'',
     ''fidelity'', ''holdout_start'', ''holdout_end'', ''gate_config'', ''gate_verdict'', ''gate_reasons'']"

definition BINDING_FIELDS :: "string list" where
  "BINDING_FIELDS = [''decomposition_config_sha256'', ''calibration_table_sha256'', ''exact_report_sha256'',
     ''recon_report_sha256'']"

text \<open>\<open>_HEX64.match\<close>: the \<open>$\<close> of the pattern also matches before a final line feed.\<close>

definition hex_digit :: "char \<Rightarrow> bool" where
  "hex_digit c \<longleftrightarrow> is_digit c \<or> c \<in> set ''abcdefABCDEF''"

definition hex64 :: "string \<Rightarrow> bool" where
  "hex64 s \<longleftrightarrow> length (takeWhile hex_digit s) = 64 \<and> drop 64 s \<in> {[], [CHR 10]}"

definition load_binding_digest :: "jval \<Rightarrow> string res" where
  "load_binding_digest v = (case v of
     JStr s \<Rightarrow> if hex64 s then Inr (ascii_lower s) else Inl ValueError
   | _ \<Rightarrow> Inl ValueError)"

definition dump_bindings :: "CertificationBindings \<Rightarrow> jval" where
  "dump_bindings b = JObj
     [(''decomposition_config_sha256'', JStr (bi_decomposition_config_sha256 b)),
      (''calibration_table_sha256'', JStr (bi_calibration_table_sha256 b)),
      (''exact_report_sha256'', JStr (bi_exact_report_sha256 b)),
      (''recon_report_sha256'', JStr (bi_recon_report_sha256 b))]"

definition load_bindings :: "jval \<Rightarrow> CertificationBindings res" where
  "load_bindings v =
     rbind (as_object v) (\<lambda>p.
     rbind (guard_ok (only_keys p BINDING_FIELDS) ValueError) (\<lambda>_.
     rbind (guard_ok (has_keys p BINDING_FIELDS) ValueError) (\<lambda>_.
     rbind (load_binding_digest (pget p ''decomposition_config_sha256'')) (\<lambda>config.
     rbind (load_binding_digest (pget p ''calibration_table_sha256'')) (\<lambda>table.
     rbind (load_binding_digest (pget p ''exact_report_sha256'')) (\<lambda>exact.
     rbind (load_binding_digest (pget p ''recon_report_sha256'')) (\<lambda>recon.
     Inr \<lparr>bi_decomposition_config_sha256 = config, bi_calibration_table_sha256 = table,
          bi_exact_report_sha256 = exact, bi_recon_report_sha256 = recon\<rparr>)))))))"

definition dump_stability :: "CalibrationStability \<Rightarrow> jval" where
  "dump_stability s = JObj
     [(''passed'', JBool (cs_passed s)), (''rel_err_p90'', dump_float (cs_rel_err_p90 s)),
      (''coverage'', dump_float (cs_coverage s)), (''bias_drift'', dump_float (cs_bias_drift s)),
      (''alpha_at_boundary'', JBool (cs_alpha_at_boundary s)), (''n_holdout_rows'', JInt (cs_n_holdout_rows s)),
      (''detail'', JStr (cs_detail s))]"

definition as_bool :: "jval \<Rightarrow> bool res" where
  "as_bool v = (case v of JBool b \<Rightarrow> Inr b | _ \<Rightarrow> Inl ValueError)"

definition load_stability :: "jval \<Rightarrow> CalibrationStability option res" where
  "load_stability v = (case v of
     JNull \<Rightarrow> Inr None
   | JObj p \<Rightarrow>
       if \<not> only_keys p [''passed'', ''rel_err_p90'', ''coverage'', ''bias_drift'', ''alpha_at_boundary'',
            ''n_holdout_rows'', ''detail''] then Inl ValueError
       else
         rbind (as_bool (pget_default p ''passed'' (JBool False))) (\<lambda>passed.
         rbind (as_bool (pget_default p ''alpha_at_boundary'' (JBool False))) (\<lambda>boundary.
         rbind (as_value_error (int_field p ''n_holdout_rows'')) (\<lambda>n.
         rbind (load_float (pget p ''rel_err_p90'')) (\<lambda>p90.
         rbind (load_float (pget p ''coverage'')) (\<lambda>coverage.
         rbind (load_float (pget p ''bias_drift'')) (\<lambda>drift.
         Inr (Some \<lparr>cs_passed = passed, cs_rel_err_p90 = p90, cs_coverage = coverage, cs_bias_drift = drift,
           cs_alpha_at_boundary = boundary, cs_n_holdout_rows = n, cs_detail = str_field p ''detail''\<rparr>)))))))
   | _ \<Rightarrow> Inl ValueError)"

definition cert_to_payload :: "ReconstructionCertification \<Rightarrow> payload res" where
  "cert_to_payload c =
     rbind (populated (rc_coverage_improvement c)) (\<lambda>improvement.
     rbind (populated (rc_reconstruction_feature c)) (\<lambda>feature.
     rbind (populated (rc_stability c)) (\<lambda>stability.
     rbind (populated (rc_coverage_by_year_and_basis c)) (\<lambda>coverage.
     rbind (populated (rc_bindings c)) (\<lambda>bindings.
     rbind (populated (rc_fidelity c)) (\<lambda>fidelity.
     rbind (populated (rc_gate_config c)) (\<lambda>config.
     Inr
      [(''schema_version'', JInt (rc_schema_version c)),
       (''generated_at'', JStr (rc_generated_at c)),
       (''exact_dir'', JStr (rc_exact_dir c)),
       (''recon_dir'', JStr (rc_recon_dir c)),
       (''paired_days'', JList (map JStr (rc_paired_days c))),
       (''dropped_days'', JList (map JStr (rc_dropped_days c))),
       (''coverage_improvement'', dump_delta improvement),
       (''reconstruction_feature'', dump_delta feature),
       (''stability'', dump_stability stability),
       (''coverage_by_year_and_basis'', JObj coverage),
       (''bindings'', dump_bindings bindings),
       (''fidelity'', dump_float_map fidelity),
       (''holdout_start'', JStr (rc_holdout_start c)),
       (''holdout_end'', JStr (rc_holdout_end c)),
       (''gate_config'', dump_float_map config),
       (''gate_verdict'', JStr (rc_gate_verdict c)),
       (''gate_reasons'', JList (map JStr (rc_gate_reasons c)))])))))))"

definition load_str_tuple :: "jval \<Rightarrow> string list res" where
  "load_str_tuple v = rbind (as_list v) (\<lambda>xs. Inr (map py_str xs))"

definition cert_from_payload :: "payload \<Rightarrow> ReconstructionCertification res" where
  "cert_from_payload p =
     rbind (guard_ok (only_keys p CERT_FIELDS) ValueError) (\<lambda>_.
     rbind (guard_ok (jeq_scalar (pget p ''schema_version'') (JInt RECON_CERTIFICATION_SCHEMA_VERSION)) ValueError) (\<lambda>_.
     rbind (guard_ok (has_keys p CERT_FIELDS) ValueError) (\<lambda>_.
     rbind (load_str_tuple (pget p ''paired_days'')) (\<lambda>paired.
     rbind (load_str_tuple (pget p ''dropped_days'')) (\<lambda>dropped.
     rbind (load_str_tuple (pget p ''gate_reasons'')) (\<lambda>reasons.
     rbind (as_object (pget p ''coverage_by_year_and_basis'')) (\<lambda>coverage.
     let verdict = str_field p ''gate_verdict'' in
     rbind (guard_ok (verdict = ''ADOPT'' \<or> verdict = ''REJECT'') ValueError) (\<lambda>_.
     rbind (py_int (pget p ''schema_version'')) (\<lambda>version.
     rbind (load_delta (pget p ''coverage_improvement'')) (\<lambda>improvement.
     rbind (load_delta (pget p ''reconstruction_feature'')) (\<lambda>feature.
     rbind (load_stability (pget p ''stability'')) (\<lambda>stability.
     rbind (load_bindings (pget p ''bindings'')) (\<lambda>bindings.
     rbind (load_float_map (pget p ''fidelity'')) (\<lambda>fidelity.
     rbind (load_float_map (pget p ''gate_config'')) (\<lambda>config.
     Inr \<lparr>rc_schema_version = version, rc_generated_at = str_field p ''generated_at'',
       rc_exact_dir = str_field p ''exact_dir'', rc_recon_dir = str_field p ''recon_dir'', rc_paired_days = paired,
       rc_dropped_days = dropped, rc_coverage_improvement = Some improvement, rc_reconstruction_feature = Some feature,
       rc_stability = stability, rc_coverage_by_year_and_basis = Some coverage, rc_bindings = Some bindings,
       rc_fidelity = Some fidelity, rc_holdout_start = str_field p ''holdout_start'',
       rc_holdout_end = str_field p ''holdout_end'', rc_gate_config = Some config, rc_gate_verdict = verdict,
       rc_gate_reasons = reasons\<rparr>)))))))))))))))"

definition save_reconstruction_certification :: "ReconstructionCertification \<Rightarrow> json_file res" where
  "save_reconstruction_certification c = rbind (cert_to_payload c) (\<lambda>p. Inr (Json (JObj p)))"

definition load_reconstruction_certification :: "json_file \<Rightarrow> ReconstructionCertification res" where
  "load_reconstruction_certification f = (case f of
     No_json \<Rightarrow> Inl FileNotFoundError
   | Undecodable_json \<Rightarrow> Inl ValueError
   | Json v \<Rightarrow> rbind (as_object v) (\<lambda>p. as_value_error (cert_from_payload p)))"

end
