(* ===== verification/Strategy_Store.thy ===== *)
theory Strategy_Store
  imports Prelude Float64
begin

text \<open>
  \<open>src/strategy/store.py\<close>: the chosen strategy values, read from a TOML file of the private
  store, and the refusal of the public example store on a deciding path. A store is what
  its two files hold: the parsed \<open>params.toml\<close>, \<open>None\<close> when it cannot be read or parsed, and
  the text of \<open>STORE_REVISION\<close>.
\<close>

section \<open>TOML values\<close>

datatype toml =
    TStr string | TInt int | TFloat fl | TBool bool | TMoment string
  | TArray "toml list" | TTable "(string \<times> toml) list"

type_synonym toml_table = "(string \<times> toml) list"

datatype store_root = Example_root | Root_at string

record store_files =
  params_toml :: "toml_table option"
  revision_text :: "string option"

datatype param_type = P_int | P_float

record strategy_values =
  universe_chg_min :: fl
  universe_chg_max :: fl
  universe_min_trade_value_100m :: fl
  universe_min_market_cap_100m :: fl
  ranker_model_params :: toml_table
  ranker_seeds :: "int list"
  label_clip :: fl
  champion_model_params :: toml_table
  production_calendar_flow_features :: "string list"
  example_store :: bool
  values_root :: store_root
  values_revision :: "string option"

definition RANKER_PARAM_TYPES :: "(string \<times> param_type) list" where
  "RANKER_PARAM_TYPES =
     [(''n_estimators'', P_int), (''learning_rate'', P_float), (''num_leaves'', P_int),
      (''min_child_samples'', P_int), (''subsample'', P_float), (''subsample_freq'', P_int),
      (''colsample_bytree'', P_float), (''reg_lambda'', P_float)]"

definition CHAMPION_PARAM_TYPES :: "(string \<times> param_type) list" where
  "CHAMPION_PARAM_TYPES = RANKER_PARAM_TYPES"

definition STORE_SCHEMA :: string where
  "STORE_SCHEMA = ''kca.strategy_values.v1''"

section \<open>Reading one key\<close>

definition strategy_store_root :: "string option \<Rightarrow> store_root res" where
  "strategy_store_root env = (let raw = py_strip (case env of None \<Rightarrow> [] | Some s \<Rightarrow> s) in
     case raw of
       [] \<Rightarrow> Inr Example_root
     | c # _ \<Rightarrow> if c = CHR ''/'' then Inr (Root_at raw) else Inl StrategyStoreError)"

definition store_revision :: "store_files \<Rightarrow> string option" where
  "store_revision files = (case revision_text files of
     None \<Rightarrow> None
   | Some text \<Rightarrow> (case py_strip text of [] \<Rightarrow> None | c # cs \<Rightarrow> Some (c # cs)))"

definition required_key :: "toml_table \<Rightarrow> string \<Rightarrow> toml res" where
  "required_key t k = (case map_of t k of None \<Rightarrow> Inl StrategyStoreError | Some v \<Rightarrow> Inr v)"

definition table_key :: "toml_table \<Rightarrow> string \<Rightarrow> toml_table res" where
  "table_key t k = rbind (required_key t k) (\<lambda>v. case v of TTable d \<Rightarrow> Inr d | _ \<Rightarrow> Inl StrategyStoreError)"

definition text_key :: "toml_table \<Rightarrow> string \<Rightarrow> string res" where
  "text_key t k = rbind (required_key t k) (\<lambda>v. case v of
     TStr s \<Rightarrow> if s = [] then Inl StrategyStoreError else Inr s
   | _ \<Rightarrow> Inl StrategyStoreError)"

definition boolean_key :: "toml_table \<Rightarrow> string \<Rightarrow> bool res" where
  "boolean_key t k = rbind (required_key t k) (\<lambda>v. case v of TBool b \<Rightarrow> Inr b | _ \<Rightarrow> Inl StrategyStoreError)"

definition finite_key :: "toml_table \<Rightarrow> string \<Rightarrow> fl res" where
  "finite_key t k = rbind (required_key t k) (\<lambda>v. case v of
     TFloat f \<Rightarrow> if f_isfinite f then Inr f else Inl StrategyStoreError
   | _ \<Rightarrow> Inl StrategyStoreError)"

definition toml_int :: "toml \<Rightarrow> int res" where
  "toml_int v = (case v of TInt i \<Rightarrow> Inr i | _ \<Rightarrow> Inl StrategyStoreError)"

definition toml_name :: "toml \<Rightarrow> string res" where
  "toml_name v = (case v of
     TStr s \<Rightarrow> if s = [] then Inl StrategyStoreError else Inr s
   | _ \<Rightarrow> Inl StrategyStoreError)"

text \<open>A non-empty array of the element type, without duplicates.\<close>

definition distinct_array :: "(toml \<Rightarrow> 'a res) \<Rightarrow> toml_table \<Rightarrow> string \<Rightarrow> 'a list res" where
  "distinct_array element t k = rbind (required_key t k) (\<lambda>v. case v of
     TArray vs \<Rightarrow>
       if vs = [] then Inl StrategyStoreError
       else rbind (rmap element vs) (\<lambda>xs. if distinct xs then Inr xs else Inl StrategyStoreError)
   | _ \<Rightarrow> Inl StrategyStoreError)"

definition seeds_key :: "toml_table \<Rightarrow> string \<Rightarrow> int list res" where
  "seeds_key = distinct_array toml_int"

definition features_key :: "toml_table \<Rightarrow> string \<Rightarrow> string list res" where
  "features_key = distinct_array toml_name"

fun has_type :: "param_type \<Rightarrow> toml \<Rightarrow> bool" where
  "has_type P_int (TInt _) = True"
| "has_type P_float (TFloat _) = True"
| "has_type _ _ = False"

definition model_params :: "toml_table \<Rightarrow> string \<Rightarrow> (string \<times> param_type) list \<Rightarrow> toml_table res" where
  "model_params t k types = rbind (table_key t k) (\<lambda>raw.
     if set (map fst raw) \<noteq> set (map fst types) then Inl StrategyStoreError
     else rmap (\<lambda>(n, kind). case map_of raw n of
            None \<Rightarrow> Inl KeyError
          | Some v \<Rightarrow> if has_type kind v then Inr (n, v) else Inl StrategyStoreError) types)"

section \<open>The store\<close>

definition load_strategy_values :: "store_root \<Rightarrow> store_files \<Rightarrow> strategy_values res" where
  "load_strategy_values base files = (case params_toml files of
     None \<Rightarrow> Inl StrategyStoreError
   | Some raw \<Rightarrow>
       rbind (table_key raw ''meta'') (\<lambda>meta.
       rbind (text_key meta ''schema'') (\<lambda>schema.
       rbind (guard_ok (schema = STORE_SCHEMA) StrategyStoreError) (\<lambda>_.
       rbind (rforeach (\<lambda>k. rbind (text_key meta k) (\<lambda>_. Inr ()))
                [''version'', ''created_at'', ''source'', ''validated_by'']) (\<lambda>_.
       rbind (boolean_key meta ''example'') (\<lambda>example.
       rbind (table_key raw ''universe'') (\<lambda>universe.
       rbind (table_key raw ''ranker'') (\<lambda>ranker.
       rbind (table_key raw ''champion'') (\<lambda>champion.
       rbind (table_key raw ''features'') (\<lambda>features.
       rbind (finite_key universe ''chg_min'') (\<lambda>chg_min.
       rbind (finite_key universe ''chg_max'') (\<lambda>chg_max.
       rbind (finite_key universe ''min_trade_value_100m'') (\<lambda>min_tv.
       rbind (finite_key universe ''min_market_cap_100m'') (\<lambda>min_mc.
       rbind (model_params ranker ''model_params'' RANKER_PARAM_TYPES) (\<lambda>rparams.
       rbind (seeds_key ranker ''seeds'') (\<lambda>seeds.
       rbind (finite_key ranker ''label_clip'') (\<lambda>clip.
       rbind (model_params champion ''model_params'' CHAMPION_PARAM_TYPES) (\<lambda>cparams.
       rbind (features_key features ''production_calendar_flow'') (\<lambda>flow.
       Inr \<lparr>universe_chg_min = chg_min, universe_chg_max = chg_max,
            universe_min_trade_value_100m = min_tv, universe_min_market_cap_100m = min_mc,
            ranker_model_params = rparams, ranker_seeds = seeds, label_clip = clip,
            champion_model_params = cparams, production_calendar_flow_features = flow,
            example_store = example, values_root = base, values_revision = store_revision files\<rparr>)))))))))))))))))))"

text \<open>The file system gives the files of a root.\<close>

definition strategy_values_of :: "string option \<Rightarrow> (store_root \<Rightarrow> store_files) \<Rightarrow> strategy_values res" where
  "strategy_values_of env fs = rbind (strategy_store_root env) (\<lambda>base. load_strategy_values base (fs base))"

definition require_production_store :: "string option \<Rightarrow> (store_root \<Rightarrow> store_files) \<Rightarrow> strategy_values res" where
  "require_production_store env fs = rbind (strategy_values_of env fs) (\<lambda>v.
     if example_store v then Inl StrategyStoreError else Inr v)"

section \<open>Facts\<close>

lemma rbindE: "rbind m f = Inr b \<Longrightarrow> (\<And>a. m = Inr a \<Longrightarrow> f a = Inr b \<Longrightarrow> P) \<Longrightarrow> P"
  by auto

lemma finite_key_Inr: "finite_key t k = Inr f \<Longrightarrow> f_isfinite f"
  unfolding finite_key_def by (erule rbindE) (simp split: toml.split_asm if_split_asm)

lemma distinct_array_E:
  assumes "distinct_array el t k = Inr xs"
  obtains vs where "vs \<noteq> []" "rmap el vs = Inr xs" "distinct xs"
  using assms unfolding distinct_array_def by (auto elim!: rbindE simp del: rbind_Inr_iff split: toml.split_asm if_split_asm)

lemma distinct_array_Inr: "distinct_array el t k = Inr xs \<Longrightarrow> xs \<noteq> [] \<and> distinct xs"
  by (erule distinct_array_E) (auto dest: rmap_Inr_length)

lemma toml_name_Inr: "toml_name v = Inr s \<Longrightarrow> s \<noteq> []"
  by (auto simp: toml_name_def split: toml.split_asm if_split_asm)

lemma rmap_Inr_elements: "rmap f xs = Inr ys \<Longrightarrow> list_all2 (\<lambda>x y. f x = Inr y) xs ys"
  by (induction xs arbitrary: ys) auto

lemma features_key_names: "features_key t k = Inr xs \<Longrightarrow> [] \<notin> set xs"
  unfolding features_key_def
  by (erule distinct_array_E, drule rmap_Inr_elements)
    (auto simp: list_all2_conv_all_nth in_set_conv_nth dest: toml_name_Inr)

lemma model_params_Inr:
  assumes "model_params t k types = Inr ps"
  shows "map fst ps = map fst types \<and> list_all2 (\<lambda>(n, kind) (n', v). n' = n \<and> has_type kind v) types ps"
proof -
  let ?f = "\<lambda>raw (n, kind). case map_of raw n of None \<Rightarrow> Inl KeyError
    | Some v \<Rightarrow> if has_type kind v then Inr (n, v) else Inl StrategyStoreError"
  obtain raw where "rmap (?f raw) types = Inr ps"
    using assms by (auto simp: model_params_def split: if_splits)
  then have "list_all2 (\<lambda>x y. ?f raw x = Inr y) types ps" by (rule rmap_Inr_elements)
  then show ?thesis
    by (induction rule: list_all2_induct) (auto split: option.splits if_splits prod.splits)
qed

text \<open>What every loaded set of values satisfies.\<close>

definition values_ok :: "strategy_values \<Rightarrow> bool" where
  "values_ok v \<longleftrightarrow>
     list_all f_isfinite [universe_chg_min v, universe_chg_max v, universe_min_trade_value_100m v,
       universe_min_market_cap_100m v, label_clip v]
   \<and> ranker_seeds v \<noteq> [] \<and> distinct (ranker_seeds v)
   \<and> production_calendar_flow_features v \<noteq> [] \<and> distinct (production_calendar_flow_features v)
   \<and> [] \<notin> set (production_calendar_flow_features v)
   \<and> map fst (ranker_model_params v) = map fst RANKER_PARAM_TYPES
   \<and> map fst (champion_model_params v) = map fst CHAMPION_PARAM_TYPES"

lemma load_strategy_values_ok:
  "load_strategy_values base files = Inr v \<Longrightarrow> values_ok v"
  by (auto simp: load_strategy_values_def values_ok_def split: option.split_asm
      dest: finite_key_Inr distinct_array_Inr [of toml_int, folded seeds_key_def]
        distinct_array_Inr [of toml_name, folded features_key_def] model_params_Inr features_key_names)

lemma production_store_is_private:
  "require_production_store env fs = Inr v \<Longrightarrow> \<not> example_store v \<and> values_ok v"
  by (auto simp: require_production_store_def strategy_values_of_def dest: load_strategy_values_ok
      split: if_splits)

end
