(* ===== verification/Strategy_Contract.thy ===== *)
theory Strategy_Contract
  imports Strategy_Store Cost_Model
begin

text \<open>
  \<open>src/strategy/contract.py\<close>: the certified strategies and their admission screens over the
  values of the store, the ratio and ceiling columns, the screen itself and the contract
  check of the features. The functions on numpy columns act row by row, so each is given on
  one row; \<open>select_universe\<close> is given on a frame too, with the check of its columns. The
  hash of \<open>fingerprint\<close> is left out.
\<close>

section \<open>Specifications\<close>

datatype ExecutionMode = AA | PA

definition MIN_ROUND_TRIP_TICKS :: "ExecutionMode \<Rightarrow> fl" where
  "MIN_ROUND_TRIP_TICKS m = (case m of AA \<Rightarrow> Fin 2 | PA \<Rightarrow> Fin 1)"

definition CEILING_CHG_THRESHOLD :: fl where "CEILING_CHG_THRESHOLD = Fin (rnd64 (29 / 100))"
definition MAX_TICK_COST_BP :: fl where "MAX_TICK_COST_BP = Fin 12"
definition KRX_DAILY_LIMIT_RATIO :: fl where "KRX_DAILY_LIMIT_RATIO = Fin (rnd64 (31 / 100))"
definition APPROXIMATE_SPEARMAN_THRESHOLD :: fl where "APPROXIMATE_SPEARMAN_THRESHOLD = Fin (rnd64 (99 / 100))"
definition MIN_TOP_K :: int where "MIN_TOP_K = 3"

record CostSpec =
  cs_mode :: ExecutionMode
  cs_round_trip_ticks :: fl

definition make_CostSpec :: "ExecutionMode \<Rightarrow> fl \<Rightarrow> CostSpec res" where
  "make_CostSpec mode ticks =
     (if \<not> f_isfinite ticks then Inl ValueError
      else if f_lt ticks (MIN_ROUND_TRIP_TICKS mode) then Inl ValueError
      else Inr \<lparr>cs_mode = mode, cs_round_trip_ticks = ticks\<rparr>)"

record UniverseSpec =
  us_chg_min :: fl
  us_chg_max :: fl
  us_min_trade_value_100m :: fl
  us_min_market_cap_100m :: fl
  us_exclude_ceiling :: bool
  us_max_tick_cost_bp :: "fl option"
  us_exclude_non_screenable_class :: bool

record StrategySpec =
  ss_strategy_id :: string
  ss_top_k :: int
  ss_universe :: UniverseSpec
  ss_cost :: CostSpec

definition AA_COST :: CostSpec where "AA_COST = \<lparr>cs_mode = AA, cs_round_trip_ticks = Fin 2\<rparr>"
definition PA_COST :: CostSpec where "PA_COST = \<lparr>cs_mode = PA, cs_round_trip_ticks = Fin 1\<rparr>"

definition DEFAULT_UNIVERSE :: "strategy_values \<Rightarrow> UniverseSpec" where
  "DEFAULT_UNIVERSE v = \<lparr>us_chg_min = universe_chg_min v, us_chg_max = universe_chg_max v,
     us_min_trade_value_100m = universe_min_trade_value_100m v,
     us_min_market_cap_100m = universe_min_market_cap_100m v, us_exclude_ceiling = True,
     us_max_tick_cost_bp = None, us_exclude_non_screenable_class = False\<rparr>"

definition COST_AWARE_UNIVERSE :: "strategy_values \<Rightarrow> UniverseSpec" where
  "COST_AWARE_UNIVERSE v = (DEFAULT_UNIVERSE v)\<lparr>us_max_tick_cost_bp := Some MAX_TICK_COST_BP\<rparr>"

definition CAPFREE_UNIVERSE :: "strategy_values \<Rightarrow> UniverseSpec" where
  "CAPFREE_UNIVERSE v = (DEFAULT_UNIVERSE v)\<lparr>us_max_tick_cost_bp := None\<rparr>"

definition COST_AWARE_SCREENABLE_UNIVERSE :: "strategy_values \<Rightarrow> UniverseSpec" where
  "COST_AWARE_SCREENABLE_UNIVERSE v = (DEFAULT_UNIVERSE v)\<lparr>us_max_tick_cost_bp := Some MAX_TICK_COST_BP,
     us_exclude_non_screenable_class := True\<rparr>"

definition KCA_TOP3_SHADOW_001 :: "strategy_values \<Rightarrow> StrategySpec" where
  "KCA_TOP3_SHADOW_001 v = \<lparr>ss_strategy_id = ''KCA-TOP3-SHADOW-001'', ss_top_k = MIN_TOP_K,
     ss_universe = DEFAULT_UNIVERSE v, ss_cost = AA_COST\<rparr>"

definition KCA_TOPK_COSTAWARE_001 :: "strategy_values \<Rightarrow> StrategySpec" where
  "KCA_TOPK_COSTAWARE_001 v = \<lparr>ss_strategy_id = ''KCA-TOPK-COSTAWARE-001'', ss_top_k = MIN_TOP_K,
     ss_universe = COST_AWARE_UNIVERSE v, ss_cost = AA_COST\<rparr>"

definition KCA_TOPK_CAPFREE_001 :: "strategy_values \<Rightarrow> StrategySpec" where
  "KCA_TOPK_CAPFREE_001 v = \<lparr>ss_strategy_id = ''KCA-TOPK-CAPFREE-001'', ss_top_k = MIN_TOP_K,
     ss_universe = CAPFREE_UNIVERSE v, ss_cost = AA_COST\<rparr>"

definition KCA_TOPK_COSTAWARE_002 :: "strategy_values \<Rightarrow> StrategySpec" where
  "KCA_TOPK_COSTAWARE_002 v = \<lparr>ss_strategy_id = ''KCA-TOPK-COSTAWARE-002'', ss_top_k = MIN_TOP_K,
     ss_universe = COST_AWARE_SCREENABLE_UNIVERSE v, ss_cost = AA_COST\<rparr>"

definition PRODUCTION_STRATEGY :: "strategy_values \<Rightarrow> StrategySpec" where
  "PRODUCTION_STRATEGY v = KCA_TOPK_COSTAWARE_002 v"

definition CERTIFIED_STRATEGIES :: "strategy_values \<Rightarrow> (string \<times> StrategySpec) list" where
  "CERTIFIED_STRATEGIES v = [(''KCA-TOPK-COSTAWARE-001'', KCA_TOPK_COSTAWARE_001 v),
     (''KCA-TOPK-CAPFREE-001'', KCA_TOPK_CAPFREE_001 v), (''KCA-TOPK-COSTAWARE-002'', KCA_TOPK_COSTAWARE_002 v)]"

definition training_universe :: "UniverseSpec \<Rightarrow> UniverseSpec" where
  "training_universe select = select\<lparr>us_max_tick_cost_bp := None\<rparr>"

section \<open>Columns\<close>

definition f_sub :: "fl \<Rightarrow> fl \<Rightarrow> fl" where
  "f_sub a b = f_add a (f_neg b)"

fun f_abs :: "fl \<Rightarrow> fl" where
  "f_abs (Fin x) = Fin \<bar>x\<bar>"
| "f_abs NaN = NaN"
| "f_abs _ = PosInf"

definition derive_chg_ratio :: "fl \<Rightarrow> fl \<Rightarrow> fl" where
  "derive_chg_ratio c p = (let valid = f_isfinite c \<and> f_isfinite p \<and> f_lt (Fin 0) p;
       out = (if valid then f_div c p else NaN);
       ratio = f_sub out (Fin 1);
       over = valid \<and> f_isfinite ratio \<and> f_lt KRX_DAILY_LIMIT_RATIO (f_abs ratio)
     in if over then NaN else ratio)"

text \<open>\<open>np.isclose\<close> with \<open>atol=0\<close>\<close>

definition f_isclose :: "fl \<Rightarrow> fl \<Rightarrow> fl \<Rightarrow> bool" where
  "f_isclose rtol x y \<longleftrightarrow> (f_le (f_abs (f_sub x y)) (f_mul rtol (f_abs y)) \<and> f_isfinite y) \<or> (x = y \<and> x \<noteq> NaN)"

definition detect_mixed_unit_row :: "fl \<Rightarrow> fl \<Rightarrow> fl \<Rightarrow> fl \<Rightarrow> bool" where
  "detect_mixed_unit_row rtol c p v = (let ratio = derive_chg_ratio c p;
       computable = f_isfinite ratio \<and> f_isfinite v;
       match_pct = f_isclose rtol v (f_mul ratio (Fin 100));
       match_ratio = f_isclose rtol v ratio
     in computable \<and> match_pct \<and> \<not> match_ratio)"

definition contract_round_trip_cost_bp :: "fl \<Rightarrow> nat option \<Rightarrow> string \<Rightarrow> CostSpec \<Rightarrow> fl res" where
  "contract_round_trip_cost_bp price trade_date market cost =
     pit_round_trip_cost_bp (tick_cost_bp price trade_date market) trade_date (cs_round_trip_ticks cost)"

text \<open>\<open>mark_ceiling\<close> on one row whose columns are present.\<close>

definition mark_ceiling :: "fl \<Rightarrow> fl \<Rightarrow> fl \<Rightarrow> bool" where
  "mark_ceiling chg close high \<longleftrightarrow> f_le CEILING_CHG_THRESHOLD chg \<and> f_le high close"

section \<open>The screen\<close>

record screen_row =
  sc_chg_ratio :: fl
  sc_tv_clean :: fl
  sc_mc_clean :: fl
  sc_close :: fl
  sc_volume :: fl
  sc_is_ceiling :: bool
  sc_tick_cost_bp :: fl
  sc_is_screenable :: bool

record screen_frame =
  sf_columns :: "string list"
  sf_rows :: "screen_row list"

definition screen_columns :: "UniverseSpec \<Rightarrow> string list" where
  "screen_columns spec = [''chg_ratio'', ''tv_clean'', ''mc_clean'', ''close'', ''volume'']
     @ (if us_exclude_ceiling spec then [''is_ceiling''] else [])
     @ (if us_max_tick_cost_bp spec \<noteq> None then [''tick_cost_bp''] else [])
     @ (if us_exclude_non_screenable_class spec then [''is_screenable''] else [])"

definition admits :: "UniverseSpec \<Rightarrow> screen_row \<Rightarrow> bool" where
  "admits spec r \<longleftrightarrow>
     f_le (us_chg_min spec) (sc_chg_ratio r) \<and> f_lt (sc_chg_ratio r) (us_chg_max spec)
   \<and> f_le (us_min_trade_value_100m spec) (sc_tv_clean r)
   \<and> f_le (us_min_market_cap_100m spec) (sc_mc_clean r)
   \<and> f_lt (Fin 0) (sc_close r) \<and> f_lt (Fin 0) (sc_volume r)
   \<and> (us_exclude_ceiling spec \<longrightarrow> \<not> sc_is_ceiling r)
   \<and> (case us_max_tick_cost_bp spec of None \<Rightarrow> True | Some cap \<Rightarrow> f_le (sc_tick_cost_bp r) cap)
   \<and> (us_exclude_non_screenable_class spec \<longrightarrow> sc_is_screenable r)"

definition select_universe :: "screen_frame \<Rightarrow> UniverseSpec \<Rightarrow> bool list res" where
  "select_universe df spec =
     (if \<not> set (screen_columns spec) \<subseteq> set (sf_columns df) then Inl ValueError
      else Inr (map (admits spec) (sf_rows df)))"

section \<open>The feature contract\<close>

record FeatureContractRow =
  fc_feature :: string
  fc_historical_source :: string
  fc_live_source :: "string option"
  fc_status :: string
  fc_spearman :: "fl option"
  fc_is_cross_sectional_rank :: bool
  fc_action :: string

definition status_to_action :: "string \<Rightarrow> string" where
  "status_to_action status =
     (if status = ''MATCH'' then ''KEEP''
      else if status = ''APPROXIMATE'' then ''JUSTIFY_OR_ALIGN''
      else ''REMOVE_OR_REPLACE'')"

text \<open>The literal \<open>1.0 - 1e-9\<close>\<close>

definition EXACT_SPEARMAN :: fl where
  "EXACT_SPEARMAN = Fin (rnd64 (1 - rnd64 (1 / 10 ^ 9)))"

definition classify_feature_contract ::
    "string \<Rightarrow> string \<Rightarrow> string option \<Rightarrow> fl option \<Rightarrow> bool \<Rightarrow> bool option \<Rightarrow> fl \<Rightarrow> FeatureContractRow res" where
  "classify_feature_contract feature historical live spearman is_rank populations_match threshold =
     (case live of
        None \<Rightarrow> Inr \<lparr>fc_feature = feature, fc_historical_source = historical, fc_live_source = None,
          fc_status = ''UNAVAILABLE_LIVE'', fc_spearman = None, fc_is_cross_sectional_rank = is_rank,
          fc_action = status_to_action ''UNAVAILABLE_LIVE''\<rparr>
      | Some src \<Rightarrow> (case spearman of
          None \<Rightarrow> Inl ValueError
        | Some rho \<Rightarrow>
            let status =
              (if is_rank \<and> populations_match \<noteq> Some True then ''MISMATCH''
               else if f_le EXACT_SPEARMAN rho then ''MATCH''
               else if f_le threshold rho then ''APPROXIMATE''
               else ''MISMATCH'')
            in Inr \<lparr>fc_feature = feature, fc_historical_source = historical, fc_live_source = Some src,
                 fc_status = status, fc_spearman = Some rho, fc_is_cross_sectional_rank = is_rank,
                 fc_action = status_to_action status\<rparr>))"

definition assert_production_feature_set :: "FeatureContractRow list \<Rightarrow> string list \<Rightarrow> unit res" where
  "assert_production_feature_set rows justified =
     (let offending = filter (\<lambda>r. fc_status r \<in> {''MISMATCH'', ''UNAVAILABLE_LIVE''}
        \<or> (fc_status r = ''APPROXIMATE'' \<and> fc_feature r \<notin> set justified)) rows
      in if offending \<noteq> [] then Inl ValueError else Inr ())"

section \<open>Facts\<close>

lemma f_le_refl_iff: "f_le a a \<longleftrightarrow> a \<noteq> NaN"
  by (cases a) (auto simp: f_le_def)

lemma admits_training: "admits spec r \<Longrightarrow> admits (training_universe spec) r"
  by (simp add: admits_def training_universe_def)

lemma screen_columns_training: "set (screen_columns (training_universe spec)) \<subseteq> set (screen_columns spec)"
  by (auto simp: screen_columns_def training_universe_def)

lemma select_universe_Inr:
  "select_universe df spec = Inr m \<longleftrightarrow> set (screen_columns spec) \<subseteq> set (sf_columns df) \<and> m = map (admits spec) (sf_rows df)"
  by (auto simp: select_universe_def)

text \<open>An admitted row has real numbers wherever the screen compares.\<close>

lemma admits_numbers: "admits spec r \<Longrightarrow> sc_chg_ratio r \<noteq> NaN \<and> sc_close r \<noteq> NaN \<and> sc_volume r \<noteq> NaN"
  by (auto simp: admits_def)

end
