(* ===== verification/Topk_Contract.thy ===== *)
theory Topk_Contract
  imports Strategy_Contract Json_Value Entry_Decision
begin

text \<open>
  \<open>src/ml/topk_contract.py\<close>: what the trainer and the decision path agree on. The declared
  features and their manifest, the version check of a bundle, the parity of the bundle's
  screen with the live one, the scores and the equal-weight selection; and the structural
  check of \<open>src/serving/realtime/artifacts.py\<close>. The fitted models of a bundle are third-party
  objects: a model is a function of the feature matrix that returns one number per row or
  raises. \<open>compute_derived_features\<close> and the writing of a bundle are left out.
\<close>

section \<open>The declared features\<close>

definition FEATURE_COLS :: "string list" where
  "FEATURE_COLS = [''chg_ratio'', ''log_tv'', ''log_mc'', ''body_ratio'', ''upper_shadow_ratio'', ''intraday_range'',
     ''kospi_pct'', ''kosdaq_pct'', ''v_kospi'', ''tv_rank'', ''chg_rank'']"

definition TOPK_COST_FEATURE_COLS :: "string list" where
  "TOPK_COST_FEATURE_COLS = [''f_tick_cost'', ''f_log_close'']"

definition TOPK_FLOW_FEATURE_COLS :: "string list" where
  "TOPK_FLOW_FEATURE_COLS = [''inst_density'', ''inst_rank'']"

definition TOPK_HISTORY_FEATURE_COLS :: "string list" where
  "TOPK_HISTORY_FEATURE_COLS = [''f_ret5'', ''f_ret20'', ''f_ret60'', ''f_dist_high60'', ''f_upcount20'', ''f_on_mean20'',
     ''f_on_mean60'', ''f_upnext_on60'', ''f_gap'', ''f_id_mean20'', ''f_inst_cum5'', ''f_foreign_cum5'']"

definition TOPK_FEATURE_COLS_V2 :: "string list" where
  "TOPK_FEATURE_COLS_V2 = FEATURE_COLS @ TOPK_FLOW_FEATURE_COLS @ TOPK_COST_FEATURE_COLS @ TOPK_HISTORY_FEATURE_COLS"

datatype FeatureUnit =
    DECIMAL_RETURN | DECIMAL_RATIO | LOG1P_100M_KRW | LOG_KRW | LOG_RETURN_SUM
  | PCT_RANK | INDEX_LEVEL | BASIS_POINTS | COUNT

datatype FeatureTiming = DECISION_SNAPSHOT | PRIOR_CONFIRMED | SNAPSHOT_AND_PRIOR

fun unit_value :: "FeatureUnit \<Rightarrow> string" where
  "unit_value DECIMAL_RETURN = ''decimal_return''"
| "unit_value DECIMAL_RATIO = ''decimal_ratio''"
| "unit_value LOG1P_100M_KRW = ''log1p_100m_krw''"
| "unit_value LOG_KRW = ''log_krw''"
| "unit_value LOG_RETURN_SUM = ''log_return_sum''"
| "unit_value PCT_RANK = ''pct_rank''"
| "unit_value INDEX_LEVEL = ''index_level''"
| "unit_value BASIS_POINTS = ''basis_points''"
| "unit_value COUNT = ''count''"

fun timing_value :: "FeatureTiming \<Rightarrow> string" where
  "timing_value DECISION_SNAPSHOT = ''decision_snapshot''"
| "timing_value PRIOR_CONFIRMED = ''prior_confirmed''"
| "timing_value SNAPSHOT_AND_PRIOR = ''snapshot_and_prior''"

record TopkFeatureSpec =
  fs_name :: string
  fs_unit :: FeatureUnit
  fs_timing :: FeatureTiming
  fs_definition :: string

definition TOPK_FEATURE_SPECS :: "TopkFeatureSpec list" where
  "TOPK_FEATURE_SPECS = [
     \<lparr>fs_name = ''chg_ratio'', fs_unit = DECIMAL_RETURN, fs_timing = DECISION_SNAPSHOT,
      fs_definition = ''close_T / prev_close_T - 1; NaN beyond the KRX daily limit''\<rparr>,
     \<lparr>fs_name = ''log_tv'', fs_unit = LOG1P_100M_KRW, fs_timing = DECISION_SNAPSHOT,
      fs_definition = ''log1p(max(trade value in 100M KRW, 0))''\<rparr>,
     \<lparr>fs_name = ''log_mc'', fs_unit = LOG1P_100M_KRW, fs_timing = DECISION_SNAPSHOT,
      fs_definition = ''log1p(max(market cap in 100M KRW, 0))''\<rparr>,
     \<lparr>fs_name = ''body_ratio'', fs_unit = DECIMAL_RATIO, fs_timing = DECISION_SNAPSHOT,
      fs_definition = ''signed (close - open) / max(high - low, 1 KRW)''\<rparr>,
     \<lparr>fs_name = ''upper_shadow_ratio'', fs_unit = DECIMAL_RATIO, fs_timing = DECISION_SNAPSHOT,
      fs_definition = ''(high - max(open, close)) / max(high - low, 1 KRW)''\<rparr>,
     \<lparr>fs_name = ''intraday_range'', fs_unit = DECIMAL_RATIO, fs_timing = DECISION_SNAPSHOT,
      fs_definition = ''(high - low) / close''\<rparr>,
     \<lparr>fs_name = ''kospi_pct'', fs_unit = DECIMAL_RETURN, fs_timing = DECISION_SNAPSHOT,
      fs_definition = ''KOSPI index day change as a fraction''\<rparr>,
     \<lparr>fs_name = ''kosdaq_pct'', fs_unit = DECIMAL_RETURN, fs_timing = DECISION_SNAPSHOT,
      fs_definition = ''KOSDAQ index day change as a fraction''\<rparr>,
     \<lparr>fs_name = ''v_kospi'', fs_unit = INDEX_LEVEL, fs_timing = DECISION_SNAPSHOT,
      fs_definition = ''V-KOSPI index level''\<rparr>,
     \<lparr>fs_name = ''tv_rank'', fs_unit = PCT_RANK, fs_timing = DECISION_SNAPSHOT,
      fs_definition = ''within-date percentile rank of trade value over the candidate cross-section''\<rparr>,
     \<lparr>fs_name = ''chg_rank'', fs_unit = PCT_RANK, fs_timing = DECISION_SNAPSHOT,
      fs_definition = ''within-date percentile rank of chg_ratio over the candidate cross-section''\<rparr>,
     \<lparr>fs_name = ''inst_density'', fs_unit = DECIMAL_RATIO, fs_timing = PRIOR_CONFIRMED,
      fs_definition = ''T-1 institutional net buy / T-1 traded value in KRW, clipped to [-1, 1]''\<rparr>,
     \<lparr>fs_name = ''inst_rank'', fs_unit = PCT_RANK, fs_timing = PRIOR_CONFIRMED,
      fs_definition = ''within-date percentile rank of T-1 institutional net buy''\<rparr>,
     \<lparr>fs_name = ''f_tick_cost'', fs_unit = BASIS_POINTS, fs_timing = DECISION_SNAPSHOT,
      fs_definition = ''point-in-time one-tick cost at the decision price''\<rparr>,
     \<lparr>fs_name = ''f_log_close'', fs_unit = LOG_KRW, fs_timing = DECISION_SNAPSHOT,
      fs_definition = ''ln(raw close price level)''\<rparr>,
     \<lparr>fs_name = ''f_ret5'', fs_unit = LOG_RETURN_SUM, fs_timing = PRIOR_CONFIRMED,
      fs_definition = ''sum of ln(1 + chg) over [t-5, t-1]''\<rparr>,
     \<lparr>fs_name = ''f_ret20'', fs_unit = LOG_RETURN_SUM, fs_timing = PRIOR_CONFIRMED,
      fs_definition = ''sum of ln(1 + chg) over [t-20, t-1]''\<rparr>,
     \<lparr>fs_name = ''f_ret60'', fs_unit = LOG_RETURN_SUM, fs_timing = PRIOR_CONFIRMED,
      fs_definition = ''sum of ln(1 + chg) over [t-60, t-1]''\<rparr>,
     \<lparr>fs_name = ''f_dist_high60'', fs_unit = DECIMAL_RETURN, fs_timing = SNAPSHOT_AND_PRIOR,
      fs_definition = ''exp(cumulative log return at T - its trailing 60-row max including T) - 1''\<rparr>,
     \<lparr>fs_name = ''f_upcount20'', fs_unit = COUNT, fs_timing = PRIOR_CONFIRMED,
      fs_definition = ''number of days with chg >= DEFAULT_UNIVERSE.chg_min over [t-20, t-1]''\<rparr>,
     \<lparr>fs_name = ''f_on_mean20'', fs_unit = DECIMAL_RETURN, fs_timing = PRIOR_CONFIRMED,
      fs_definition = ''mean overnight gap open/prev_close - 1 over [t-20, t-1]''\<rparr>,
     \<lparr>fs_name = ''f_on_mean60'', fs_unit = DECIMAL_RETURN, fs_timing = PRIOR_CONFIRMED,
      fs_definition = ''mean overnight gap open/prev_close - 1 over [t-60, t-1]''\<rparr>,
     \<lparr>fs_name = ''f_upnext_on60'', fs_unit = DECIMAL_RETURN, fs_timing = SNAPSHOT_AND_PRIOR,
      fs_definition = ''mean next-day overnight gap after up days s <= t-1 within 60 rows (includes gap_T); NaN below MIN_CONDITIONAL_OBS''\<rparr>,
     \<lparr>fs_name = ''f_gap'', fs_unit = DECIMAL_RETURN, fs_timing = DECISION_SNAPSHOT,
      fs_definition = ''open_T / prev_close_T - 1''\<rparr>,
     \<lparr>fs_name = ''f_id_mean20'', fs_unit = DECIMAL_RETURN, fs_timing = PRIOR_CONFIRMED,
      fs_definition = ''mean intraday return close/open - 1 over [t-20, t-1]''\<rparr>,
     \<lparr>fs_name = ''f_inst_cum5'', fs_unit = DECIMAL_RATIO, fs_timing = PRIOR_CONFIRMED,
      fs_definition = ''sum institutional net buy / sum traded value over [t-5, t-1], clipped to [-1, 1]''\<rparr>,
     \<lparr>fs_name = ''f_foreign_cum5'', fs_unit = DECIMAL_RATIO, fs_timing = PRIOR_CONFIRMED,
      fs_definition = ''sum foreign net buy / sum traded value over [t-5, t-1], clipped to [-1, 1]''\<rparr>]"

text \<open>One row of the manifest: name, source column, availability rule, unit, scope, definition.\<close>

record manifest_row =
  mr_feature_name :: string
  mr_source_column :: string
  mr_availability_rule :: string
  mr_unit :: string
  mr_panel_scope :: string
  mr_definition :: string

definition manifest_row_of :: "TopkFeatureSpec \<Rightarrow> manifest_row" where
  "manifest_row_of s = \<lparr>mr_feature_name = fs_name s, mr_source_column = fs_name s,
     mr_availability_rule = timing_value (fs_timing s), mr_unit = unit_value (fs_unit s),
     mr_panel_scope = ''candidate_panel'', mr_definition = fs_definition s\<rparr>"

text \<open>\<open>Inl\<close> for an argument that is one string, \<open>Inr\<close> for a sequence of names.\<close>

definition build_topk_feature_manifest :: "string + string list \<Rightarrow> manifest_row list res" where
  "build_topk_feature_manifest arg = (case arg of
     Inl _ \<Rightarrow> Inl TypeError
   | Inr cols \<Rightarrow>
       let by_name = map (\<lambda>s. (fs_name s, s)) TOPK_FEATURE_SPECS;
           unknown = filter (\<lambda>n. map_of by_name n = None) cols
       in if unknown \<noteq> [] then Inl ValueError
          else rmap (\<lambda>n. case map_of by_name n of None \<Rightarrow> Inl KeyError | Some s \<Rightarrow> Inr (manifest_row_of s)) cols)"

section \<open>The bundle\<close>

type_synonym feature_matrix = "fl list list"
type_synonym fitted_model = "feature_matrix \<Rightarrow> fl list res"

text \<open>A calibrator is a constant, or a classifier with its classes and class probabilities.\<close>

datatype calibrator = Constant fl | Classifier "bool list" "feature_matrix \<Rightarrow> fl list list res"

record topk_bundle =
  tb_select_universe :: jval
  tb_strategy_id :: jval
  tb_feature_cols :: "string list"
  tb_top_k :: "jval option"
  tb_version :: "jval option"
  tb_training_cutoff :: "string option"
  tb_trained_at :: "string option"
  tb_has_rank_model :: bool
  tb_return_model :: "fitted_model option"
  tb_quantile_models :: "(string \<times> fitted_model) list option"
  tb_calibrators :: "(string \<times> calibrator) list option"

definition TOPK_FEATURE_CONTRACT_VERSION :: string where "TOPK_FEATURE_CONTRACT_VERSION = ''1''"
definition LEGACY_FEATURE_CONTRACT_VERSION :: string where "LEGACY_FEATURE_CONTRACT_VERSION = ''1''"

definition bundle_feature_contract_version :: "topk_bundle \<Rightarrow> string res" where
  "bundle_feature_contract_version b = (case tb_version b of
     None \<Rightarrow> Inr LEGACY_FEATURE_CONTRACT_VERSION
   | Some v \<Rightarrow> (case v of JStr s \<Rightarrow> if s = [] then Inl ValueError else Inr s | _ \<Rightarrow> Inl ValueError))"

text \<open>\<open>None\<close> for a compatible bundle; the texts of the issues are shortened to their kind.\<close>

definition feature_contract_issue :: "topk_bundle \<Rightarrow> string option" where
  "feature_contract_issue b = (case bundle_feature_contract_version b of
     Inl _ \<Rightarrow> Some ''version value''
   | Inr resolved \<Rightarrow>
       if tb_version b = None then
         (if TOPK_FEATURE_CONTRACT_VERSION = LEGACY_FEATURE_CONTRACT_VERSION then None
          else Some ''version missing'')
       else if resolved \<noteq> TOPK_FEATURE_CONTRACT_VERSION then Some ''version differs''
       else None)"

definition assert_feature_contract :: "topk_bundle \<Rightarrow> unit res" where
  "assert_feature_contract b = (case feature_contract_issue b of None \<Rightarrow> Inr () | Some _ \<Rightarrow> Inl ValueError)"

text \<open>\<open>None\<close> for a bundle file that is not there; the error of a file that does not unpickle.\<close>

definition load_model_bundle :: "topk_bundle res option \<Rightarrow> topk_bundle res" where
  "load_model_bundle file = (case file of
     None \<Rightarrow> Inl FileNotFoundError
   | Some loaded \<Rightarrow>
       rbind loaded (\<lambda>b.
       rbind (guard_ok (tb_feature_cols b \<noteq> []) ValueError) (\<lambda>_.
       rbind (guard_ok (tb_has_rank_model b \<and> tb_quantile_models b \<noteq> None \<and> tb_calibrators b \<noteq> None) ValueError) (\<lambda>_.
       rbind (assert_feature_contract b) (\<lambda>_.
       Inr b)))))"

section \<open>Screen parity\<close>

text \<open>\<open>dataclasses.asdict\<close> of a screen.\<close>

definition universe_dict :: "UniverseSpec \<Rightarrow> (string \<times> jval) list" where
  "universe_dict s =
     [(''chg_min'', JFloat (us_chg_min s)), (''chg_max'', JFloat (us_chg_max s)),
      (''min_trade_value_100m'', JFloat (us_min_trade_value_100m s)),
      (''min_market_cap_100m'', JFloat (us_min_market_cap_100m s)),
      (''exclude_ceiling'', JBool (us_exclude_ceiling s)),
      (''max_tick_cost_bp'', case us_max_tick_cost_bp s of None \<Rightarrow> JNull | Some c \<Rightarrow> JFloat c),
      (''exclude_non_screenable_class'', JBool (us_exclude_non_screenable_class s))]"

definition screen_value :: "jval \<Rightarrow> jval res" where
  "screen_value v = (case v of
     JBool b \<Rightarrow> Inr (JBool b)
   | JNull \<Rightarrow> Inr JNull
   | _ \<Rightarrow> rbind (py_float v) (\<lambda>f. Inr (JFloat f)))"

definition GRANDFATHERED_STRATEGY_IDS :: "string list" where
  "GRANDFATHERED_STRATEGY_IDS = [''KCA-TOPK-COSTAWARE-001'']"

definition certified_screen :: "strategy_values \<Rightarrow> topk_bundle \<Rightarrow> (string \<times> jval) list res" where
  "certified_screen v b = (case tb_select_universe b of
     JObj screened \<Rightarrow>
       let live = universe_dict (ss_universe (PRODUCTION_STRATEGY v)); defaults = universe_dict (DEFAULT_UNIVERSE v)
       in if \<not> set (map fst screened) \<subseteq> set (map fst live) then Inl ValueError
          else rmap (\<lambda>(k, _). rbind (screen_value (pget_default screened k (pget defaults k)))
                 (\<lambda>x. Inr (k, x))) live
   | _ \<Rightarrow> Inl ValueError)"

text \<open>The fields in which two screens differ, in the order of the live screen.\<close>

fun differing_fields :: "(string \<Rightarrow> jval) \<Rightarrow> (string \<times> jval) list \<Rightarrow> string list res" where
  "differing_fields certified [] = Inr []"
| "differing_fields certified ((k, v) # live) =
     rbind (screen_value (certified k)) (\<lambda>a.
     rbind (screen_value v) (\<lambda>b.
     rbind (differing_fields certified live) (\<lambda>rest.
     Inr (if jeq_scalar a b then rest else k # rest))))"

definition assert_bundle_screen_parity :: "strategy_values \<Rightarrow> topk_bundle \<Rightarrow> UniverseSpec \<Rightarrow> unit res" where
  "assert_bundle_screen_parity v b spec = (case tb_select_universe b of
     JObj screened \<Rightarrow>
       let live = universe_dict spec; defaults = universe_dict (DEFAULT_UNIVERSE v);
           certified = (\<lambda>k. pget_default screened k (pget defaults k))
       in if \<not> set (map fst screened) \<subseteq> set (map fst live) then Inl ValueError
          else rbind (differing_fields certified live) (\<lambda>differing.
            if differing = [''exclude_non_screenable_class'']
               \<and> (\<exists>s\<in>set GRANDFATHERED_STRATEGY_IDS. tb_strategy_id b = JStr s)
               \<and> certified ''exclude_non_screenable_class'' = JBool False
               \<and> pget live ''exclude_non_screenable_class'' = JBool True
            then Inr ()
            else if differing \<noteq> [] then Inl ValueError
            else Inr ())
   | _ \<Rightarrow> Inl ValueError)"

section \<open>Scores\<close>

record feature_row =
  cd_symbol :: string
  cd_date :: civil
  cd_close :: fl
  cd_admitted :: bool
  cd_value :: "string \<Rightarrow> fl"

record feature_frame =
  ff_columns :: "string list"
  ff_rows :: "feature_row list"

record scored_row =
  st_row :: feature_row
  st_pred :: fl
  st_q10 :: fl
  st_q50 :: fl
  st_q90 :: fl
  st_p_good :: fl
  st_p_bad :: fl

text \<open>\<open>np.minimum\<close> and \<open>np.maximum\<close> hand NaN on.\<close>

definition f_min :: "fl \<Rightarrow> fl \<Rightarrow> fl" where
  "f_min a b = (if a = NaN \<or> b = NaN then NaN else if f_le a b then a else b)"

definition f_max :: "fl \<Rightarrow> fl \<Rightarrow> fl" where
  "f_max a b = (if a = NaN \<or> b = NaN then NaN else if f_le a b then b else a)"

definition f_clip :: "fl \<Rightarrow> fl \<Rightarrow> fl \<Rightarrow> fl" where
  "f_clip x lo hi = f_min (f_max x lo) hi"

definition features_of :: "string list \<Rightarrow> feature_row list \<Rightarrow> feature_matrix" where
  "features_of cols rows = map (\<lambda>r. map (cd_value r) cols) rows"

text \<open>A prediction is assigned as a column: its length must be the frame's.\<close>

definition column_of_length :: "nat \<Rightarrow> 'a list \<Rightarrow> 'a list res" where
  "column_of_length n ys = (if length ys = n then Inr ys else Inl ValueError)"

definition named_model :: "(string \<times> 'm) list \<Rightarrow> string \<Rightarrow> 'm res" where
  "named_model ms k = (case map_of ms k of None \<Rightarrow> Inl KeyError | Some m \<Rightarrow> Inr m)"

definition calibrate :: "calibrator \<Rightarrow> feature_matrix \<Rightarrow> fl list res" where
  "calibrate c X = (case c of
     Constant x \<Rightarrow> Inr (replicate (length X) x)
   | Classifier classes proba \<Rightarrow>
       rbind (proba X) (\<lambda>rows.
       rbind (guard_ok (True \<in> set classes) ValueError) (\<lambda>_.
       let idx = length (takeWhile Not classes) in
       rbind (guard_ok (\<forall>r\<in>set rows. idx < length r) IndexError) (\<lambda>_.
       column_of_length (length X) (map (\<lambda>r. r ! idx) rows)))))"

definition score_topk_candidates :: "strategy_values \<Rightarrow> feature_frame \<Rightarrow> topk_bundle \<Rightarrow> scored_row list res" where
  "score_topk_candidates v df b =
     rbind (assert_bundle_screen_parity v b (ss_universe (PRODUCTION_STRATEGY v))) (\<lambda>_.
     let cols = tb_feature_cols b; rows = ff_rows df; n = length rows; X = features_of cols rows in
     rbind (guard_ok (cols \<noteq> []) ValueError) (\<lambda>_.
     rbind (guard_ok (set cols \<subseteq> set (ff_columns df)) ValueError) (\<lambda>_.
     rbind (case tb_return_model b of None \<Rightarrow> Inl KeyError | Some m \<Rightarrow> m X) (\<lambda>pred0.
     rbind (column_of_length n pred0) (\<lambda>pred.
     rbind (case tb_quantile_models b of None \<Rightarrow> Inl KeyError | Some q \<Rightarrow> Inr q) (\<lambda>qs.
     rbind (rbind (named_model qs ''pred_q10'') (\<lambda>m. m X)) (\<lambda>q10.
     rbind (rbind (named_model qs ''pred_q50'') (\<lambda>m. m X)) (\<lambda>q50.
     rbind (rbind (named_model qs ''pred_q90'') (\<lambda>m. m X)) (\<lambda>q90.
     rbind (guard_ok (length q10 = n \<and> length q50 = n \<and> length q90 = n) ValueError) (\<lambda>_.
     rbind (case tb_calibrators b of None \<Rightarrow> Inl KeyError | Some c \<Rightarrow> Inr c) (\<lambda>cs.
     rbind (rbind (named_model cs ''p_good'') (\<lambda>c. calibrate c X)) (\<lambda>good.
     rbind (rbind (named_model cs ''p_bad'') (\<lambda>c. calibrate c X)) (\<lambda>bad.
     Inr (map (\<lambda>i.
       let lo = f_min (f_min (q10 ! i) (q50 ! i)) (q90 ! i);
           mid = f_clip (q50 ! i) lo (q90 ! i);
           hi = f_max (q90 ! i) mid
       in \<lparr>st_row = rows ! i, st_pred = pred ! i, st_q10 = lo, st_q50 = mid, st_q90 = hi,
           st_p_good = good ! i, st_p_bad = bad ! i\<rparr>) [0..<n]))))))))))))))"

section \<open>The selection\<close>

text \<open>\<open>sort_values\<close> in descending order is stable and puts NaN last.\<close>

definition score_rank :: "scored_row \<Rightarrow> nat \<times> fl" where
  "score_rank r = (if f_isnan (st_pred r) then (1, Fin 0) else (0, f_neg (st_pred r)))"

abbreviation st_date :: "scored_row \<Rightarrow> civil" where
  "st_date r \<equiv> cd_date (st_row r)"

text \<open>\<open>groupby(date).head(k)\<close>: a row stays while fewer than \<open>k\<close> of its date came before.\<close>

fun head_per_date :: "nat \<Rightarrow> civil list \<Rightarrow> scored_row list \<Rightarrow> scored_row list" where
  "head_per_date k seen [] = []"
| "head_per_date k seen (r # rs) =
     (if count_list seen (st_date r) < k then r # head_per_date k (st_date r # seen) rs
      else head_per_date k (st_date r # seen) rs)"

definition select_topk_by_score :: "scored_row list \<Rightarrow> int \<Rightarrow> scored_row list res" where
  "select_topk_by_score cands k =
     (if k < 1 then Inl ValueError
      else Inr (head_per_date (nat k) [] (sort_key (\<lambda>r. (st_date r, score_rank r)) cands)))"

record topk_pick =
  pk_row :: scored_row
  pk_allocation :: fl

definition select_topk_equal_weight ::
    "strategy_values \<Rightarrow> feature_frame \<Rightarrow> topk_bundle \<Rightarrow> int \<Rightarrow> topk_pick list res" where
  "select_topk_equal_weight v df b top_k =
     (if top_k \<noteq> MIN_TOP_K then Inl ValueError
      else rbind (score_topk_candidates v df b) (\<lambda>work.
        let admitted = (if ''admitted'' \<in> set (ff_columns df) then filter (\<lambda>r. cd_admitted (st_row r)) work else work) in
        rbind (guard_ok (''date'' \<in> set (ff_columns df)) KeyError) (\<lambda>_.
        let enough = (\<lambda>d. top_k \<le> int (count_list (map st_date admitted) d));
            pool = filter (\<lambda>r. enough (st_date r)) admitted
        in rbind (select_topk_by_score pool top_k) (\<lambda>picks.
           Inr (map (\<lambda>r. \<lparr>pk_row = r, pk_allocation = f_div (Fin 1) (Fin (of_int top_k))\<rparr>) picks)))))"

end
