(* ===== verification/Retrain_Gate.thy ===== *)
theory Retrain_Gate
  imports Pit_Report Topk_Contract Session_Clock
begin

text \<open>
  \<open>src/ml/retrain_gate.py\<close>, the adoption gate of \<open>src/ml/research/pit_certification.py\<close> and the
  bundle training of \<open>src/ml/retrain.py\<close> with its registry
  (\<open>src/ml/retrain_registry.py\<close>): when a retrained bundle replaces the live one. The
  fitted models, the statistics of pandas (standard deviation, rank correlation, mean), the
  parser of time stamps and the files are parameters; reasons are constructors or shortened
  texts. A bundle without a \<open>select_universe\<close> has a null there. A registry row
  leaves out the training window and the digest of the stored file.
\<close>

section \<open>Equality of decoded values\<close>

text \<open>Python's \<open>==\<close>; two objects are equal when they have the same keys with equal values.\<close>

fun jeq :: "jval \<Rightarrow> jval \<Rightarrow> bool"
  and jeq_list :: "jval list \<Rightarrow> jval list \<Rightarrow> bool"
  and jeq_obj :: "(string \<times> jval) list \<Rightarrow> (string \<times> jval) list \<Rightarrow> bool" where
  "jeq (JList xs) w = (case w of JList ys \<Rightarrow> jeq_list xs ys | _ \<Rightarrow> False)"
| "jeq (JObj d) w = (case w of JObj e \<Rightarrow> length d = length e \<and> jeq_obj d e | _ \<Rightarrow> False)"
| "jeq v w = jeq_scalar v w"
| "jeq_list [] ys = (ys = [])"
| "jeq_list (x # xs) ys = (case ys of [] \<Rightarrow> False | y # ys' \<Rightarrow> jeq x y \<and> jeq_list xs ys')"
| "jeq_obj [] e = True"
| "jeq_obj ((k, v) # d) e = (case map_of e k of None \<Rightarrow> False | Some w \<Rightarrow> jeq v w \<and> jeq_obj d e)"

section \<open>The criterion on the decision-time report\<close>

datatype PitGateMode = GATE_OFF | GATE_ADVISORY | GATE_ENFORCE

fun gate_mode_value :: "PitGateMode \<Rightarrow> string" where
  "gate_mode_value GATE_OFF = ''off''"
| "gate_mode_value GATE_ADVISORY = ''advisory''"
| "gate_mode_value GATE_ENFORCE = ''enforce''"

record PitGateConfig =
  gc_mode :: PitGateMode
  gc_max_report_age_days :: int
  gc_min_pit_native_mean_net_bp :: fl
  gc_min_pit_rank_ic :: fl
  gc_max_haircut_bp :: "fl option"

definition pit_gate_config :: "PitGateMode \<Rightarrow> PitGateConfig" where
  "pit_gate_config mode = \<lparr>gc_mode = mode, gc_max_report_age_days = 14, gc_min_pit_native_mean_net_bp = Fin 0,
     gc_min_pit_rank_ic = Fin 0, gc_max_haircut_bp = None\<rparr>"

datatype PitStatus =
    PIT_OFF | PIT_MISSING | PIT_MALFORMED | PIT_STALE | PIT_MISMATCH | PIT_INSUFFICIENT | PIT_PASS | PIT_FAIL

fun pit_gate_value :: "PitStatus \<Rightarrow> string" where
  "pit_gate_value PIT_OFF = ''OFF''"
| "pit_gate_value PIT_MISSING = ''MISSING''"
| "pit_gate_value PIT_MALFORMED = ''MALFORMED''"
| "pit_gate_value PIT_STALE = ''STALE''"
| "pit_gate_value PIT_MISMATCH = ''MISMATCH''"
| "pit_gate_value PIT_INSUFFICIENT = ''INSUFFICIENT''"
| "pit_gate_value PIT_PASS = ''PASS''"
| "pit_gate_value PIT_FAIL = ''FAIL''"

datatype PitArm = ARM_NONE | ARM_1 | ARM_2

fun arm_value :: "PitArm \<Rightarrow> string" where
  "arm_value ARM_NONE = ''none''"
| "arm_value ARM_1 = ''arm1''"
| "arm_value ARM_2 = ''arm2''"

text \<open>\<open>datetime.fromisoformat\<close>: no stamp, a stamp without a zone, or its instant and local date.\<close>

datatype iso_stamp = Not_iso | Zoneless_stamp | Aware_stamp int civil

record retrain_bundle =
  rb_bundle :: topk_bundle
  rb_model_params :: "jval option"
  rb_seeds :: "jval option"

definition as_sequence :: "jval option \<Rightarrow> jval list option" where
  "as_sequence v = (case v of Some (JList xs) \<Rightarrow> Some xs | _ \<Rightarrow> None)"

text \<open>A value that must be a mapping to be compared: \<open>dict(value) != other\<close>.\<close>

definition differs :: "jval \<Rightarrow> payload \<Rightarrow> bool res" where
  "differs v other = (case v of JObj p \<Rightarrow> Inr (\<not> jeq (JObj p) (JObj other)) | _ \<Rightarrow> Inl TypeError)"

definition resolved_contract :: "topk_bundle \<Rightarrow> string option" where
  "resolved_contract b = (case bundle_feature_contract_version b of Inl _ \<Rightarrow> None | Inr c \<Rightarrow> Some c)"

definition named_if :: "string \<Rightarrow> bool \<Rightarrow> string list" where
  "named_if n b = (if b then [n] else [])"

text \<open>The identity fields in which the candidate differs from the report.\<close>

definition pit_mismatch :: "PitHaircutReport \<Rightarrow> retrain_bundle \<Rightarrow> string list res" where
  "pit_mismatch r c =
     (let b = rb_bundle c in
      rbind (case hr_select_universe r of None \<Rightarrow> Inl TypeError | Some u \<Rightarrow>
          if tb_select_universe b = JNull then Inr [''select_universe (missing from candidate)'']
          else rbind (differs (tb_select_universe b) u) (\<lambda>d. Inr (named_if ''select_universe'' d))) (\<lambda>universe.
      rbind (case hr_model_params r of None \<Rightarrow> Inl TypeError | Some m \<Rightarrow>
          (case rb_model_params c of
             None \<Rightarrow> Inr [''model_params (missing from candidate)'']
           | Some p \<Rightarrow> rbind (differs p m) (\<lambda>d. Inr (named_if ''model_params'' d)))) (\<lambda>params.
      Inr (named_if ''strategy_id'' (\<not> jeq (tb_strategy_id b) (JStr (hr_strategy_id r)))
         @ named_if ''top_k'' (\<not> jeq (case tb_top_k b of None \<Rightarrow> JNull | Some k \<Rightarrow> k) (JInt (hr_top_k r)))
         @ universe
         @ named_if ''feature contract version'' (resolved_contract b \<noteq> Some (hr_feature_contract_version r))
         @ params
         @ (case as_sequence (rb_seeds c) of
              None \<Rightarrow> [''seeds (missing from candidate)'']
            | Some xs \<Rightarrow> named_if ''seeds'' (\<not> jeq_list xs (map JInt (hr_seeds r))))))))"

definition map_value :: "float_map \<Rightarrow> string \<Rightarrow> fl" where
  "map_value m k = (case map_of m k of None \<Rightarrow> NaN | Some v \<Rightarrow> v)"

definition undercuts :: "fl \<Rightarrow> fl \<Rightarrow> bool" where
  "undercuts x bound \<longleftrightarrow> \<not> f_isfinite x \<or> f_lt x bound"

definition exceeds :: "fl \<Rightarrow> fl \<Rightarrow> bool" where
  "exceeds x bound \<longleftrightarrow> \<not> f_isfinite x \<or> f_lt bound x"

definition pit_failures :: "PitGateConfig \<Rightarrow> PitHaircutReport \<Rightarrow> string list res" where
  "pit_failures cfg r = (case (hr_mean_net_bp r, hr_rank_ic_mean r, hr_haircut r) of
     (Some mean_net, Some ic, Some haircut) \<Rightarrow> Inr
       (named_if ''mean_net_bp below floor'' (undercuts (map_value mean_net ''pit_native'') (gc_min_pit_native_mean_net_bp cfg))
        @ named_if ''rank_ic below floor'' (undercuts (map_value ic ''pit_native'') (gc_min_pit_rank_ic cfg))
        @ (case gc_max_haircut_bp cfg of
             None \<Rightarrow> [] | Some limit \<Rightarrow> named_if ''haircut above ceiling'' (exceeds (dl_delta haircut) limit)))
   | _ \<Rightarrow> Inl OtherException)"

definition evaluate_selected_pit_gate ::
    "(string \<Rightarrow> iso_stamp) \<Rightarrow> PitGateConfig \<Rightarrow> int \<Rightarrow> PitHaircutReport option \<Rightarrow> retrain_bundle
     \<Rightarrow> (PitStatus \<times> string list) res" where
  "evaluate_selected_pit_gate stamp cfg now report c =
     (if gc_mode cfg = GATE_OFF then Inr (PIT_OFF, [])
      else case report of
        None \<Rightarrow> Inr (PIT_MISSING, [''no report''])
      | Some r \<Rightarrow> (case stamp (hr_generated_at r) of
          Not_iso \<Rightarrow> Inr (PIT_MALFORMED, [''generated_at is not ISO-8601''])
        | Zoneless_stamp \<Rightarrow> Inr (PIT_MALFORMED, [''generated_at is not timezone-aware''])
        | Aware_stamp _ day \<Rightarrow>
            if gc_max_report_age_days cfg < int (toordinal (kst_date now)) - int (toordinal day)
              then Inr (PIT_STALE, [''report is too old''])
            else rbind (pit_mismatch r c) (\<lambda>mismatch.
              if mismatch \<noteq> [] then Inr (PIT_MISMATCH, mismatch)
              else if hr_status r \<noteq> PIT_OK then Inr (PIT_INSUFFICIENT, [pit_status_value (hr_status r)])
              else rbind (pit_failures cfg r) (\<lambda>failures.
                Inr (if failures \<noteq> [] then (PIT_FAIL, failures) else (PIT_PASS, []))))))"

definition select_pit_report ::
    "PitHaircutReport option \<Rightarrow> PitHaircutReport option \<Rightarrow> bool \<Rightarrow> string
     \<Rightarrow> PitHaircutReport option \<times> string option \<times> PitArm" where
  "select_pit_report arm1 recon adopted detail_raw =
     (let detail = py_strip detail_raw; arm = (if arm1 \<noteq> None then ARM_1 else ARM_NONE);
          fallback = (\<lambda>why. (arm1, Some (''pit report arm-1 fallback '' @ (if detail = [] then why else detail)), arm))
      in if adopted then
           (case recon of
              Some r \<Rightarrow> if hr_status r = PIT_OK then (recon, Some (''pit report arm-2 adopted '' @ detail), ARM_2)
                        else fallback ''arm-2 report missing or unusable''
            | None \<Rightarrow> fallback ''arm-2 report missing or unusable'')
         else if recon \<noteq> None \<or> detail \<noteq> [] then fallback ''reconstruction verdict not ADOPT''
         else (arm1, None, arm))"

definition evaluate_pit_gate ::
    "(string \<Rightarrow> iso_stamp) \<Rightarrow> PitGateConfig \<Rightarrow> int \<Rightarrow> PitHaircutReport option \<Rightarrow> retrain_bundle
     \<Rightarrow> PitHaircutReport option \<Rightarrow> bool \<Rightarrow> string \<Rightarrow> (PitStatus \<times> string list \<times> PitArm) res" where
  "evaluate_pit_gate stamp cfg now report c recon adopted detail =
     (case select_pit_report report recon adopted detail of (selected, note, arm) \<Rightarrow>
        rbind (evaluate_selected_pit_gate stamp cfg now selected c) (\<lambda>(status, reasons).
        Inr (status, (case note of None \<Rightarrow> reasons | Some n \<Rightarrow> if status \<noteq> PIT_OFF then n # reasons else reasons), arm)))"

section \<open>The adoption of the reconstruction\<close>

record ReconstructionGateConfig =
  gr_feature_margin_bp :: fl
  gr_min_tv_rank_correlation :: fl
  gr_min_top_k_overlap :: fl
  gr_max_holdout_volume_rel_err_p90 :: fl
  gr_min_holdout_coverage :: fl
  gr_max_bias_drift :: fl
  gr_min_coverage_improvement_bp :: fl
  gr_min_paired_days :: int

definition RECONSTRUCTION_GATE :: ReconstructionGateConfig where
  "RECONSTRUCTION_GATE = \<lparr>gr_feature_margin_bp = Fin 5, gr_min_tv_rank_correlation = Fin (rnd64 (95 / 100)),
     gr_min_top_k_overlap = Fin (rnd64 (9 / 10)), gr_max_holdout_volume_rel_err_p90 = Fin (rnd64 (15 / 100)),
     gr_min_holdout_coverage = Fin (1 / 2), gr_max_bias_drift = Fin (rnd64 (3 / 100)),
     gr_min_coverage_improvement_bp = Fin 0, gr_min_paired_days = 30\<rparr>"

definition estimable :: "PairedDelta \<Rightarrow> bool" where
  "estimable d \<longleftrightarrow> f_isfinite (dl_delta d) \<and> f_isfinite (dl_ci_low d) \<and> f_isfinite (dl_ci_high d)"

text \<open>The reasons against the adoption; none is the verdict ADOPT.\<close>

definition evaluate_reconstruction_gate ::
    "ReconstructionGateConfig \<Rightarrow> PairedDelta \<Rightarrow> PairedDelta \<Rightarrow> CalibrationStability \<Rightarrow> fl \<Rightarrow> fl \<Rightarrow> string list" where
  "evaluate_reconstruction_gate cfg improvement feature stability tv_corr overlap =
     (let margin = gr_feature_margin_bp cfg in
      (if dl_n_days improvement < gr_min_paired_days cfg then [''coverage improvement: paired days'']
       else if \<not> estimable improvement then [''coverage improvement is not estimable'']
       else if f_le (dl_ci_low improvement) (Fin 0) then [''coverage improvement CI includes zero'']
       else if f_le (dl_delta improvement) (gr_min_coverage_improvement_bp cfg) then [''coverage improvement below the minimum'']
       else [])
      @ (if dl_n_days feature < gr_min_paired_days cfg then [''arm-3 feature: paired days'']
         else if \<not> estimable feature then [''arm-3 feature is not estimable'']
         else if \<not> f_isfinite margin then [''feature margin is not finite'']
         else if f_le (dl_ci_low feature) (f_neg margin) then [''arm-3 feature worse than margin'']
         else [])
      @ named_if ''tv_rank_correlation'' (undercuts tv_corr (gr_min_tv_rank_correlation cfg))
      @ named_if ''top_k_overlap'' (undercuts overlap (gr_min_top_k_overlap cfg))
      @ named_if ''stability failed'' (\<not> cs_passed stability)
      @ named_if ''holdout p90'' (exceeds (cs_rel_err_p90 stability) (gr_max_holdout_volume_rel_err_p90 cfg))
      @ named_if ''holdout coverage'' (undercuts (cs_coverage stability) (gr_min_holdout_coverage cfg))
      @ named_if ''bias drift'' (exceeds (cs_bias_drift stability) (gr_max_bias_drift cfg))
      @ named_if ''stability alpha_at_boundary'' (cs_alpha_at_boundary stability)
      @ named_if ''stability has no holdout rows'' (cs_n_holdout_rows stability \<le> 0))"

record recon_files =
  rf_certification :: json_file
  rf_config_sha :: "string res"
  rf_arm2_sha :: "string res"
  rf_arm2_report :: json_file

definition report_identity :: "PitHaircutReport \<Rightarrow> payload res" where
  "report_identity r = (case (hr_select_universe r, hr_model_params r) of
     (Some u, Some m) \<Rightarrow> Inr
       [(''strategy_id'', JStr (hr_strategy_id r)), (''top_k'', JInt (hr_top_k r)), (''select_universe'', JObj u),
        (''feature_contract_version'', JStr (hr_feature_contract_version r)), (''model_params'', JObj m),
        (''seeds'', JList (map JInt (hr_seeds r)))]
   | _ \<Rightarrow> Inl TypeError)"

definition joined :: "string list \<Rightarrow> string" where
  "joined xs = concat (map (\<lambda>x. x @ ''; '') xs)"

text \<open>The report to score, whether it is adopted, and the detail.\<close>

definition load_recon_pit_selection ::
    "(string \<Rightarrow> iso_stamp) \<Rightarrow> recon_files \<Rightarrow> PitHaircutReport option \<Rightarrow> int \<Rightarrow> int
     \<Rightarrow> (PitHaircutReport option \<times> bool \<times> string) res" where
  "load_recon_pit_selection stamp F arm1 now max_age_days =
     (let no = (\<lambda>detail. Inr (None, False, detail)) in
      if rf_certification F = No_json then no []
      else case load_reconstruction_certification (rf_certification F) of
        Inl _ \<Rightarrow> no ''certification unreadable''
      | Inr cert \<Rightarrow>
          if rc_gate_verdict cert \<noteq> ''ADOPT'' then
            no (if rc_gate_reasons cert \<noteq> [] then joined (rc_gate_reasons cert) else ''verdict REJECT'')
          else case (rc_coverage_improvement cert, rc_reconstruction_feature cert, rc_stability cert) of
            (Some improvement, Some feature, Some stability) \<Rightarrow>
              (case rc_bindings cert of
                 None \<Rightarrow> Inl AssertionError
               | Some bindings \<Rightarrow>
                   let fidelity = (case rc_fidelity cert of None \<Rightarrow> [] | Some f \<Rightarrow> f);
                       recheck = evaluate_reconstruction_gate RECONSTRUCTION_GATE improvement feature stability
                         (map_value fidelity ''tv_rank_correlation'') (map_value fidelity ''top_k_overlap'')
                   in if recheck \<noteq> [] then no (''evidence fails the current gate: '' @ joined recheck)
                      else case stamp (rc_generated_at cert) of
                        Not_iso \<Rightarrow> no ''generated_at is not ISO-8601''
                      | Zoneless_stamp \<Rightarrow> no ''generated_at is not timezone-aware''
                      | Aware_stamp generated _ \<Rightarrow>
                          if now - generated < 0 then no ''generated_at is in the future''
                          else if max_age_days * day_ns < now - generated then no ''certification is stale''
                          else case rf_config_sha F of
                            Inl e \<Rightarrow> if is_os_error e then no ''decomposition config unreadable'' else Inl e
                          | Inr config_sha \<Rightarrow>
                              if ascii_lower config_sha \<noteq> ascii_lower (bi_decomposition_config_sha256 bindings)
                                then no ''decomposition config binding mismatch''
                              else case rf_arm2_sha F of
                                Inl e \<Rightarrow> if is_os_error e then no ''arm-2 report missing'' else Inl e
                              | Inr arm2_sha \<Rightarrow>
                                  if ascii_lower arm2_sha \<noteq> ascii_lower (bi_recon_report_sha256 bindings)
                                    then no ''arm-2 report binding mismatch''
                                  else case load_pit_haircut_report (rf_arm2_report F) of
                                    Inl e \<Rightarrow> if is_value_error e then no ''arm-2 report unreadable'' else Inl e
                                  | Inr None \<Rightarrow> no ''arm-2 report missing''
                                  | Inr (Some arm2) \<Rightarrow>
                                      if hr_status arm2 \<noteq> PIT_OK then no ''arm-2 report is not usable''
                                      else case arm1 of
                                        None \<Rightarrow> no ''live arm-1 report is missing''
                                      | Some live \<Rightarrow>
                                          rbind (report_identity live) (\<lambda>l.
                                          rbind (report_identity arm2) (\<lambda>r.
                                          let diffs = sort (filter (\<lambda>k. \<not> jeq (pget l k) (pget r k)) (map fst l))
                                          in if diffs \<noteq> [] then no (''arm-2 identity differs: '' @ joined diffs)
                                             else Inr (Some arm2, True,
                                               if rc_gate_reasons cert \<noteq> [] then joined (rc_gate_reasons cert)
                                               else ''verdict '' @ rc_gate_verdict cert))))
          | _ \<Rightarrow> no ''certification evidence is incomplete'')"


section \<open>The promotion verdict\<close>

datatype promotion_reason =
    SCREEN_PARITY | EMPTY_FEATURES | MISSING_FEATURES "string list" | EMPTY_FRAME | CANDIDATE_CONTRACT string
  | STRATEGY_OR_SCREEN_CHANGED | NON_FINITE_PREDICTIONS | CONSTANT_WITHIN_DAY | CONTRACT_CHANGED
  | NO_DAY_TO_MEASURE | LOW_AGREEMENT fl | PIT_BLOCKED PitStatus "string option"

record PromotionVerdict =
  pv_promote :: bool
  pv_reasons :: "promotion_reason list"
  pv_agreement :: "fl option"
  pv_pit_status :: PitStatus
  pv_pit_reasons :: "string list"
  pv_pit_arm :: PitArm

definition MIN_NAMES_PER_EVAL_DAY :: nat where "MIN_NAMES_PER_EVAL_DAY = 4"
definition RETRAIN_MIN_PREDICTION_AGREEMENT :: fl where
  "RETRAIN_MIN_PREDICTION_AGREEMENT = Fin (rnd64 (95 / 100))"

text \<open>The statistics: sample deviation of a group, rank correlation of two columns, mean.\<close>

record gate_stats =
  gs_std :: "fl list \<Rightarrow> fl"
  gs_rank_corr :: "fl list \<Rightarrow> fl list \<Rightarrow> fl"
  gs_mean :: "fl list \<Rightarrow> fl"

text \<open>The values of each day with enough names, in the order of the days.\<close>

definition eval_days :: "civil list \<Rightarrow> 'a list \<Rightarrow> 'a list list" where
  "eval_days dates xs = filter (\<lambda>g. MIN_NAMES_PER_EVAL_DAY \<le> length g)
     (map (\<lambda>d. map snd (filter (\<lambda>(d', _). d' = d) (zip dates xs))) (sort (remdups dates)))"

definition mean_daily_rank_agreement :: "gate_stats \<Rightarrow> civil list \<Rightarrow> fl list \<Rightarrow> fl list \<Rightarrow> fl option" where
  "mean_daily_rank_agreement S dates a b =
     (let per_day = map (\<lambda>g. gs_rank_corr S (map fst g) (map snd g)) (eval_days dates (zip a b));
          finite_days = filter f_isfinite per_day
      in if finite_days = [] then None else Some (gs_mean S finite_days))"

definition constant_day :: "gate_stats \<Rightarrow> fl list \<Rightarrow> bool" where
  "constant_day S g \<longleftrightarrow> f_isnan (gs_std S g) \<or> f_le (gs_std S g) (Fin 0)"

definition predictions :: "topk_bundle \<Rightarrow> feature_frame \<Rightarrow> string list \<Rightarrow> fl list res" where
  "predictions b df cols = (case tb_return_model b of
     None \<Rightarrow> Inl KeyError
   | Some m \<Rightarrow> rbind (m (features_of cols (ff_rows df))) (\<lambda>ys. column_of_length (length (ff_rows df)) ys))"

text \<open>\<open>_verdict\<close>\<close>

definition gated_verdict ::
    "PitGateConfig \<Rightarrow> PitStatus \<times> string list \<times> PitArm \<Rightarrow> bool \<Rightarrow> promotion_reason list \<Rightarrow> fl option \<Rightarrow> PromotionVerdict" where
  "gated_verdict cfg pit promote reasons agreement = (case pit of (status, pit_reasons, arm) \<Rightarrow>
     let blocked = gc_mode cfg = GATE_ENFORCE \<and> status \<noteq> PIT_PASS;
         gated = (if pit_reasons = [] then [PIT_BLOCKED status None] else map (\<lambda>r. PIT_BLOCKED status (Some r)) pit_reasons)
     in \<lparr>pv_promote = promote \<and> \<not> blocked, pv_reasons = (if blocked then reasons @ gated else reasons),
         pv_agreement = agreement, pv_pit_status = status, pv_pit_reasons = pit_reasons, pv_pit_arm = arm\<rparr>)"

definition when_reason :: "promotion_reason \<Rightarrow> bool \<Rightarrow> promotion_reason list" where
  "when_reason r b = (if b then [r] else [])"

text \<open>The defects of the candidate alone.\<close>

definition structural_reasons :: "strategy_values \<Rightarrow> topk_bundle \<Rightarrow> feature_frame \<Rightarrow> promotion_reason list res" where
  "structural_reasons v b df =
     rbind (case assert_bundle_screen_parity v b (ss_universe (PRODUCTION_STRATEGY v)) of
         Inr _ \<Rightarrow> Inr [] | Inl e \<Rightarrow> if is_value_error e then Inr [SCREEN_PARITY] else Inl e) (\<lambda>parity.
     let cols = tb_feature_cols b; missing = filter (\<lambda>c. c \<notin> set (ff_columns df)) cols in
     Inr (parity @ when_reason EMPTY_FEATURES (cols = [])
        @ when_reason (MISSING_FEATURES missing) (missing \<noteq> [])
        @ when_reason EMPTY_FRAME (ff_rows df = [])
        @ (case feature_contract_issue b of None \<Rightarrow> [] | Some issue \<Rightarrow> [CANDIDATE_CONTRACT issue])))"

text \<open>Whether the candidate is another strategy or another screen than the live bundle.\<close>

definition screen_changed :: "strategy_values \<Rightarrow> topk_bundle \<Rightarrow> topk_bundle \<Rightarrow> bool res" where
  "screen_changed v live b =
     (if \<not> jeq (tb_strategy_id live) (tb_strategy_id b) then Inr True
      else case rbind (certified_screen v live) (\<lambda>x. rbind (certified_screen v b) (\<lambda>y. Inr (x, y))) of
        Inl e \<Rightarrow> if is_value_error e then Inr True else Inl e
      | Inr (x, y) \<Rightarrow> Inr (\<not> jeq (JObj x) (JObj y)))"

definition prediction_reasons :: "gate_stats \<Rightarrow> feature_frame \<Rightarrow> fl list \<Rightarrow> promotion_reason list" where
  "prediction_reasons S df pred =
     (if \<not> list_all f_isfinite pred then [NON_FINITE_PREDICTIONS]
      else when_reason CONSTANT_WITHIN_DAY (list_ex (constant_day S) (eval_days (map cd_date (ff_rows df)) pred)))"

definition evaluate_retrain_promotion ::
    "strategy_values \<Rightarrow> gate_stats \<Rightarrow> PitGateConfig \<Rightarrow> PitStatus \<times> string list \<times> PitArm \<Rightarrow> fl
     \<Rightarrow> topk_bundle \<Rightarrow> topk_bundle option \<Rightarrow> feature_frame \<Rightarrow> PromotionVerdict res" where
  "evaluate_retrain_promotion v S cfg pit min_agreement b live df =
     (let verdict = gated_verdict cfg pit; cols = tb_feature_cols b in
      rbind (structural_reasons v b df) (\<lambda>structural.
      if structural \<noteq> [] then Inr (verdict False structural None)
      else
        rbind (case live of None \<Rightarrow> Inr False | Some l \<Rightarrow> screen_changed v l b) (\<lambda>changed.
        if changed then Inr (verdict False [STRATEGY_OR_SCREEN_CHANGED] None)
        else
          rbind (predictions b df cols) (\<lambda>pred.
          let reasons = prediction_reasons S df pred in
          case live of
            None \<Rightarrow> Inr (verdict (reasons = []) reasons None)
          | Some l \<Rightarrow>
              if tb_feature_cols l \<noteq> cols \<or> resolved_contract l \<noteq> resolved_contract b
                then Inr (verdict False (reasons @ [CONTRACT_CHANGED]) None)
              else
                rbind (predictions l df cols) (\<lambda>live_pred.
                let agreement = mean_daily_rank_agreement S (map cd_date (ff_rows df)) pred live_pred;
                    all_reasons = reasons @ (case agreement of
                       None \<Rightarrow> [NO_DAY_TO_MEASURE]
                     | Some a \<Rightarrow> when_reason (LOW_AGREEMENT a) (f_lt a min_agreement))
                in Inr (verdict (all_reasons = []) all_reasons agreement))))))"

section \<open>Training and publishing a bundle\<close>

datatype retrain_outcome = RETRAIN_PROMOTED | RETRAIN_PROMOTED_UNGATED | RETRAIN_REJECTED

record retrain_row =
  rw_attempted_at :: int
  rw_outcome :: retrain_outcome
  rw_strategy_id :: string
  rw_training_cutoff :: string
  rw_trained_at :: string
  rw_n_features :: nat
  rw_agreement :: "fl option"
  rw_reasons :: "promotion_reason list"
  rw_rejected_path :: bool
  rw_code_commit :: string

text \<open>A published bundle with its certification metadata; the registry; the rejected copy.\<close>

record retrain_desk =
  td_live :: "(retrain_bundle \<times> payload) option"
  td_rejected :: "(retrain_bundle \<times> payload) option"
  td_registry :: "retrain_row list"

record retrain_env =
  tx_values :: strategy_values
  tx_stats :: gate_stats
  tx_train :: "retrain_bundle res"
  tx_trained_at :: string
  tx_attempted_at :: int
  tx_now :: int
  tx_stamp :: "string \<Rightarrow> iso_stamp"
  tx_report :: json_file
  tx_recon :: recon_files
  tx_eval_frame :: "feature_frame res"
  tx_unpickled :: "unit res"
  tx_save_live :: bool
  tx_save_rejected :: bool
  tx_append :: bool
  tx_code_commit :: string

text \<open>\<open>str(bundle.get(k, "UNKNOWN"))\<close>; a fresh bundle has its identity fields.\<close>

definition build_retrain_record ::
    "retrain_env \<Rightarrow> retrain_outcome \<Rightarrow> topk_bundle \<Rightarrow> fl option \<Rightarrow> promotion_reason list \<Rightarrow> bool \<Rightarrow> retrain_row" where
  "build_retrain_record X outcome b agreement reasons rejected =
     \<lparr>rw_attempted_at = tx_attempted_at X, rw_outcome = outcome, rw_strategy_id = py_str (tb_strategy_id b),
      rw_training_cutoff = (case tb_training_cutoff b of None \<Rightarrow> ''UNKNOWN'' | Some c \<Rightarrow> c),
      rw_trained_at = (case tb_trained_at b of None \<Rightarrow> ''UNKNOWN'' | Some c \<Rightarrow> c),
      rw_n_features = length (tb_feature_cols b), rw_agreement = agreement, rw_reasons = reasons,
      rw_rejected_path = rejected, rw_code_commit = tx_code_commit X\<rparr>"

definition append_retrain_record :: "retrain_env \<Rightarrow> retrain_row \<Rightarrow> (retrain_desk, unit) eff" where
  "append_retrain_record X row =
     bnd (lift_res (\<lambda>_. guard_ok (tx_append X) OSError)) (\<lambda>_.
     modify (\<lambda>s. s\<lparr>td_registry := td_registry s @ [row]\<rparr>))"

definition save_live :: "retrain_env \<Rightarrow> retrain_bundle \<Rightarrow> payload \<Rightarrow> (retrain_desk, unit) eff" where
  "save_live X c meta =
     bnd (lift_res (\<lambda>_. guard_ok (tx_save_live X) OSError)) (\<lambda>_. modify (\<lambda>s. s\<lparr>td_live := Some (c, meta)\<rparr>))"

definition save_rejected :: "retrain_env \<Rightarrow> retrain_bundle \<Rightarrow> payload \<Rightarrow> (retrain_desk, unit) eff" where
  "save_rejected X c meta =
     bnd (lift_res (\<lambda>_. guard_ok (tx_save_rejected X) OSError)) (\<lambda>_. modify (\<lambda>s. s\<lparr>td_rejected := Some (c, meta)\<rparr>))"

definition load_current_bundle :: "retrain_env \<Rightarrow> retrain_desk \<Rightarrow> topk_bundle option res" where
  "load_current_bundle X s = (case td_live s of
     None \<Rightarrow> Inr None
   | Some (c, _) \<Rightarrow> rbind (tx_unpickled X) (\<lambda>_. Inr (Some (rb_bundle c))))"

text \<open>The report of the live directory: an unreadable one counts as missing.\<close>

definition live_report :: "retrain_env \<Rightarrow> PitGateMode \<Rightarrow> PitHaircutReport option res" where
  "live_report X mode =
     (if mode = GATE_OFF then Inr None
      else case load_pit_haircut_report (tx_report X) of
        Inl e \<Rightarrow> if is_value_error e then Inr None else Inl e
      | Inr r \<Rightarrow> Inr r)"

text \<open>The gate of a training run: the verdict and the metadata of the candidate.\<close>

definition gate_candidate ::
    "retrain_env \<Rightarrow> PitGateMode \<Rightarrow> retrain_bundle \<Rightarrow> retrain_desk \<Rightarrow> (PromotionVerdict \<times> payload) res" where
  "gate_candidate X mode c s =
     (let cfg = pit_gate_config mode in
      rbind (live_report X mode) (\<lambda>report.
      rbind (load_recon_pit_selection (tx_stamp X) (tx_recon X) report (tx_attempted_at X) (gc_max_report_age_days cfg))
        (\<lambda>(recon, adopted, detail).
      rbind (load_current_bundle X s) (\<lambda>live.
      rbind (tx_eval_frame X) (\<lambda>df.
      rbind (evaluate_pit_gate (tx_stamp X) cfg (tx_now X) report c recon adopted detail) (\<lambda>pit.
      rbind (evaluate_retrain_promotion (tx_values X) (tx_stats X) cfg pit RETRAIN_MIN_PREDICTION_AGREEMENT
          (rb_bundle c) live df) (\<lambda>verdict.
      rbind (pit_certification_metadata (if pv_pit_arm verdict = ARM_2 then recon else report)
          (gate_mode_value mode) (pit_gate_value (pv_pit_status verdict)) (pv_pit_reasons verdict)
          (arm_value (pv_pit_arm verdict))) (\<lambda>meta.
      Inr (verdict, meta)))))))))"

definition train_ranker_bundle :: "retrain_env \<Rightarrow> PitGateMode \<Rightarrow> bool \<Rightarrow> (retrain_desk, unit) eff" where
  "train_ranker_bundle X mode skip_gate =
     bnd (lift_res (\<lambda>_. tx_train X)) (\<lambda>trained.
     let c = trained\<lparr>rb_bundle := (rb_bundle trained)\<lparr>tb_trained_at := Some (tx_trained_at X)\<rparr>\<rparr>; b = rb_bundle c in
     if skip_gate then
       bnd (lift_res (\<lambda>_. pit_certification_metadata None (gate_mode_value mode) ''UNGATED'' [] ''none'')) (\<lambda>meta.
       bnd (save_live X c meta) (\<lambda>_.
       append_retrain_record X (build_retrain_record X RETRAIN_PROMOTED_UNGATED b None [] False)))
     else
       bnd (lift_res (gate_candidate X mode c)) (\<lambda>(verdict, meta).
       if \<not> pv_promote verdict then
         bnd (save_rejected X c meta) (\<lambda>_.
         bnd (append_retrain_record X (build_retrain_record X RETRAIN_REJECTED b (pv_agreement verdict) (pv_reasons verdict) True)) (\<lambda>_.
         throw RuntimeError))
       else
         bnd (save_live X c meta) (\<lambda>_.
         append_retrain_record X (build_retrain_record X RETRAIN_PROMOTED b (pv_agreement verdict) [] False))))"

end
