(* ===== verification/Topk_Selection.thy ===== *)
theory Topk_Selection
  imports Topk_Contract "HOL-Library.Multiset"
begin

text \<open>
  What the scores and the selection of \<open>src/ml/topk_contract.py\<close> guarantee. The locale
  \<open>best_first\<close> states the contract of the ranking the selection relies on; the stable sort of
  the code is interpreted as one.
\<close>

section \<open>A ranking and its first rows\<close>

locale best_first =
  fixes ranked :: "'a list \<Rightarrow> 'a list" and rank_key :: "'a \<Rightarrow> 'k :: linorder"
  assumes mset_ranked: "mset (ranked xs) = mset xs"
    and sorted_ranked: "sorted (map rank_key (ranked xs))"
begin

definition best :: "nat \<Rightarrow> 'a list \<Rightarrow> 'a list" where
  "best k xs = take k (ranked xs)"

lemma set_ranked: "set (ranked xs) = set xs"
  by (metis mset_ranked set_mset_mset)

lemma length_best: "k \<le> length xs \<Longrightarrow> length (best k xs) = k"
  using mset_eq_length [OF mset_ranked [of xs]] by (simp add: best_def)

lemma best_subset: "set (best k xs) \<subseteq> set xs"
  using set_take_subset [of k "ranked xs"] by (simp add: best_def set_ranked)

lemma sorted_best: "sorted (map rank_key (best k xs))"
  using sorted_wrt_take [OF sorted_ranked [of xs], of k] by (simp add: best_def take_map)

lemma mset_best: "mset (best k xs) \<subseteq># mset xs"
  by (metis append_take_drop_id best_def mset_append mset_ranked mset_subset_eq_add_left)

text \<open>No row left out ranks before a row taken.\<close>

lemma best_beats_rest:
  assumes "x \<in># mset xs - mset (best k xs)" "y \<in> set (best k xs)"
  shows "rank_key y \<le> rank_key x"
proof -
  have "mset xs = mset (best k xs) + mset (drop k (ranked xs))"
    by (metis append_take_drop_id best_def mset_append mset_ranked)
  then have "x \<in> set (drop k (ranked xs))" using assms(1) by simp
  moreover have "sorted (map rank_key (take k (ranked xs)) @ map rank_key (drop k (ranked xs)))"
    using sorted_ranked [of xs] by (metis append_take_drop_id map_append)
  ultimately show ?thesis using assms(2) by (auto simp: sorted_append best_def)
qed

end

interpretation by_score: best_first "sort_key score_rank" score_rank
  by unfold_locales simp_all

section \<open>The first rows of every date\<close>

lemma head_per_date_filter:
  "filter (\<lambda>r. st_date r = d) (head_per_date k seen rs)
   = take (k - count_list seen d) (filter (\<lambda>r. st_date r = d) rs)"
proof (induction rs arbitrary: seen)
  case (Cons r rs)
  show ?case
  proof (cases "st_date r = d")
    case True
    then show ?thesis using Cons [of "st_date r # seen"]
      by (cases "k - count_list seen d") (auto simp: Suc_diff_Suc diff_Suc)
  next
    case False
    then show ?thesis using Cons [of "st_date r # seen"] by simp
  qed
qed simp

lemma set_head_per_date: "set (head_per_date k seen rs) \<subseteq> set rs"
  by (induction rs arbitrary: seen) auto

lemma sort_key_same_order:
  assumes "\<And>x y. x \<in> set xs \<Longrightarrow> y \<in> set xs \<Longrightarrow> f x \<le> f y \<longleftrightarrow> g x \<le> g y"
  shows "sort_key f xs = sort_key g xs"
  using assms
proof (induction xs)
  case (Cons x xs)
  have "insort_key f x ys = insort_key g x ys" if "set ys \<subseteq> set xs" for ys
    using that by (induction ys) (use Cons.prems in auto)
  then show ?case using Cons by simp
qed simp

text \<open>The rows of one date among the first \<open>k\<close> per date are the best \<open>k\<close> of that date.\<close>

lemma select_topk_by_score_date:
  assumes "select_topk_by_score cands k = Inr rows"
  shows "filter (\<lambda>r. st_date r = d) rows = by_score.best (nat k) (filter (\<lambda>r. st_date r = d) cands)"
proof -
  have "rows = head_per_date (nat k) [] (sort_key (\<lambda>r. (st_date r, score_rank r)) cands)"
    using assms by (simp add: select_topk_by_score_def split: if_splits)
  moreover have "sort_key (\<lambda>r. (st_date r, score_rank r)) (filter (\<lambda>r. st_date r = d) cands)
      = sort_key score_rank (filter (\<lambda>r. st_date r = d) cands)"
    by (rule sort_key_same_order) auto
  ultimately show ?thesis by (simp add: head_per_date_filter filter_sort by_score.best_def)
qed

lemma select_topk_by_score_subset: "select_topk_by_score cands k = Inr rows \<Longrightarrow> set rows \<subseteq> set cands"
  using set_head_per_date [of "nat k" "[]"] by (fastforce simp: select_topk_by_score_def split: if_splits)

section \<open>Scores\<close>

text \<open>A scored frame has the rows of the frame in their order.\<close>

lemma score_topk_candidates_rows:
  assumes "score_topk_candidates v df b = Inr work"
  shows "map st_row work = ff_rows df"
    and "assert_bundle_screen_parity v b (ss_universe (PRODUCTION_STRATEGY v)) = Inr ()"
    and "set (tb_feature_cols b) \<subseteq> set (ff_columns df)" "tb_feature_cols b \<noteq> []"
  using assms by (auto simp: score_topk_candidates_def Let_def o_def map_nth)

lemma f_min_max_Fin [simp]:
  "f_min (Fin x) (Fin y) = Fin (min x y)" "f_max (Fin x) (Fin y) = Fin (max x y)"
  by (auto simp: f_min_def f_max_def f_le_def min_def max_def)

lemma ordered_quantiles:
  fixes q10 q50 q90 :: rat
  defines "lo \<equiv> f_min (f_min (Fin q10) (Fin q50)) (Fin q90)"
  defines "mid \<equiv> f_clip (Fin q50) lo (Fin q90)"
  shows "f_le lo mid \<and> f_le mid (f_max (Fin q90) mid)"
  by (auto simp: lo_def mid_def f_clip_def f_le_def)

section \<open>The selection\<close>

abbreviation admitted_row :: "scored_row \<Rightarrow> bool" where
  "admitted_row r \<equiv> cd_admitted (st_row r)"

abbreviation picked_on :: "civil \<Rightarrow> topk_pick list \<Rightarrow> scored_row list" where
  "picked_on d picks \<equiv> map pk_row (filter (\<lambda>p. st_date (pk_row p) = d) picks)"

lemma filter_map_pick: "map pk_row (filter (\<lambda>p. Q (pk_row p)) picks) = filter Q (map pk_row picks)"
  by (induction picks) auto

lemma count_dates: "count_list (map st_date rows) d = length (filter (\<lambda>r. st_date r = d) rows)"
  by (induction rows) auto

lemma select_topk_equal_weight_parts:
  assumes sel: "select_topk_equal_weight v df b top_k = Inr picks" and col: "''admitted'' \<in> set (ff_columns df)"
  obtains work where "score_topk_candidates v df b = Inr work" "top_k = 3"
    "\<And>d. picked_on d picks = (let on_day = filter (\<lambda>r. admitted_row r \<and> st_date r = d) work
        in if 3 \<le> length on_day then by_score.best 3 on_day else [])"
    "set (map pk_row picks) \<subseteq> {r \<in> set work. admitted_row r}"
    "\<forall>p\<in>set picks. pk_allocation p = Fin (rnd64 (1 / 3))"
proof -
  have k: "top_k = 3" using sel by (auto simp: select_topk_equal_weight_def MIN_TOP_K_def split: if_splits)
  let ?adm = "\<lambda>work. filter admitted_row work"
  let ?pool = "\<lambda>work. filter (\<lambda>r. 3 \<le> int (count_list (map st_date (?adm work)) (st_date r))) (?adm work)"
  obtain work rows where work: "score_topk_candidates v df b = Inr work"
    and rows: "select_topk_by_score (?pool work) 3 = Inr rows"
    and picks: "picks = map (\<lambda>r. \<lparr>pk_row = r, pk_allocation = f_div (Fin 1) (Fin 3)\<rparr>) rows"
    using sel col by (auto simp: select_topk_equal_weight_def k Let_def MIN_TOP_K_def)
  have map_rows: "map pk_row picks = rows" by (simp add: picks o_def)
  show thesis
  proof (rule that [OF work k])
    fix d
    let ?day = "filter (\<lambda>r. admitted_row r \<and> st_date r = d) work"
    have day: "filter (\<lambda>r. st_date r = d) (?adm work) = ?day"
      by (simp add: conj_commute)
    have "filter (\<lambda>r. st_date r = d) (?pool work) = (if 3 \<le> length ?day then ?day else [])"
    proof -
      have "filter (\<lambda>r. st_date r = d) (?pool work) =
          filter (\<lambda>r. 3 \<le> int (count_list (map st_date (?adm work)) d)) (filter (\<lambda>r. st_date r = d) (?adm work))"
        by (auto simp: intro: filter_cong)
      then show ?thesis by (simp only: count_dates day) simp
    qed
    moreover have "picked_on d picks = filter (\<lambda>r. st_date r = d) rows"
      using filter_map_pick [of "\<lambda>r. st_date r = d" picks] by (simp only: map_rows)
    ultimately show "picked_on d picks = (let on_day = ?day in if 3 \<le> length on_day then by_score.best 3 on_day else [])"
      using select_topk_by_score_date [OF rows, of d] by (simp add: by_score.best_def)
  next
    show "set (map pk_row picks) \<subseteq> {r \<in> set work. admitted_row r}"
      using select_topk_by_score_subset [OF rows] by (auto simp: map_rows)
    show "\<forall>p\<in>set picks. pk_allocation p = Fin (rnd64 (1 / 3))" by (simp add: picks)
  qed
qed

text \<open>
  C24. The certified selection: on every date the picks are none, when fewer than three rows are
  admitted, or else exactly three admitted rows, in descending order of the prediction, such
  that no admitted row left out is ranked before a pick; every pick has the weight one third.
\<close>

theorem equal_weight_selection:
  assumes sel: "select_topk_equal_weight v df b top_k = Inr picks" and col: "''admitted'' \<in> set (ff_columns df)"
  shows "\<exists>work. score_topk_candidates v df b = Inr work
    \<and> map st_row work = ff_rows df
    \<and> (\<forall>p\<in>set picks. pk_row p \<in> set work \<and> admitted_row (pk_row p) \<and> pk_allocation p = Fin (rnd64 (1 / 3)))
    \<and> (\<forall>d. let on_day = filter (\<lambda>r. admitted_row r \<and> st_date r = d) work; chosen = picked_on d picks in
          length chosen = (if 3 \<le> length on_day then 3 else 0)
        \<and> mset chosen \<subseteq># mset on_day
        \<and> sorted (map score_rank chosen)
        \<and> (chosen \<noteq> [] \<longrightarrow> (\<forall>x\<in>#mset on_day - mset chosen. \<forall>y\<in>set chosen. score_rank y \<le> score_rank x)))"
proof -
  obtain work where work: "score_topk_candidates v df b = Inr work"
    and day: "\<And>d. picked_on d picks = (let on_day = filter (\<lambda>r. admitted_row r \<and> st_date r = d) work
        in if 3 \<le> length on_day then by_score.best 3 on_day else [])"
    and sub: "set (map pk_row picks) \<subseteq> {r \<in> set work. admitted_row r}"
    and weight: "\<forall>p\<in>set picks. pk_allocation p = Fin (rnd64 (1 / 3))"
    by (rule select_topk_equal_weight_parts [OF sel col]) blast
  have "let on_day = filter (\<lambda>r. admitted_row r \<and> st_date r = d) work; chosen = picked_on d picks in
          length chosen = (if 3 \<le> length on_day then 3 else 0)
        \<and> mset chosen \<subseteq># mset on_day
        \<and> sorted (map score_rank chosen)
        \<and> (chosen \<noteq> [] \<longrightarrow> (\<forall>x\<in>#mset on_day - mset chosen. \<forall>y\<in>set chosen. score_rank y \<le> score_rank x))" for d
  proof (cases "3 \<le> length (filter (\<lambda>r. admitted_row r \<and> st_date r = d) work)")
    case True
    then show ?thesis
      unfolding day Let_def if_P [OF True]
      by (intro conjI impI ballI by_score.best_beats_rest by_score.mset_best by_score.sorted_best)
        (simp_all add: by_score.length_best)
  qed (simp add: day)
  moreover have "\<forall>p\<in>set picks. pk_row p \<in> set work \<and> admitted_row (pk_row p)" using sub by auto
  ultimately show ?thesis
    using work score_topk_candidates_rows(1) [OF work] weight by (intro exI [of _ work] conjI allI ballI) blast+
qed

section \<open>Screen parity\<close>

definition screen_numbers :: "UniverseSpec \<Rightarrow> bool" where
  "screen_numbers s \<longleftrightarrow> us_chg_min s \<noteq> NaN \<and> us_chg_max s \<noteq> NaN \<and> us_min_trade_value_100m s \<noteq> NaN
     \<and> us_min_market_cap_100m s \<noteq> NaN \<and> us_max_tick_cost_bp s \<noteq> Some NaN"

lemma screen_value_simps [simp]:
  "screen_value (JFloat f) = Inr (JFloat f)" "screen_value (JBool b) = Inr (JBool b)" "screen_value JNull = Inr JNull"
  by (simp_all add: screen_value_def)

lemma jeq_screen_values [simp]:
  "jeq_scalar (JFloat x) (JFloat y) \<longleftrightarrow> x = y \<and> x \<noteq> NaN"
  "jeq_scalar (JBool b) (JBool c) \<longleftrightarrow> b = c"
  "jeq_scalar JNull JNull" "\<not> jeq_scalar JNull (JFloat x)" "\<not> jeq_scalar (JFloat x) JNull"
  by (auto simp: jeq_scalar_def)

text \<open>The screen a bundle was certified under, field by field: a stored value counts as it compares
  (\<open>1\<close> as \<open>1.0\<close>), a field the bundle does not carry is that of the default screen.\<close>

definition certified_under :: "strategy_values \<Rightarrow> UniverseSpec \<Rightarrow> topk_bundle \<Rightarrow> bool" where
  "certified_under v s b \<longleftrightarrow> (\<exists>screened. tb_select_universe b = JObj screened \<and>
     list_all (\<lambda>(k, x). case map_of screened k of
         Some y \<Rightarrow> screen_value y = Inr x
       | None \<Rightarrow> map_of (universe_dict (DEFAULT_UNIVERSE v)) k = Some x) (universe_dict s))"

lemma screen_value_bool: "screen_value y = Inr (JBool c) \<longleftrightarrow> y = JBool c"
  by (auto simp: screen_value_def split: jval.splits)

lemma certified_fields:
  assumes "certified_under v s b" "tb_select_universe b = JObj screened" "(k, x) \<in> set (universe_dict s)"
  shows "screen_value (pget_default screened k (pget (universe_dict (DEFAULT_UNIVERSE v)) k)) = Inr x"
proof -
  have "(case map_of screened k of Some y \<Rightarrow> screen_value y = Inr x
       | None \<Rightarrow> map_of (universe_dict (DEFAULT_UNIVERSE v)) k = Some x)"
    using assms by (auto simp: certified_under_def list_all_iff)
  moreover have "screen_value x = Inr x"
    using assms(3) by (auto simp: universe_dict_def split: option.splits)
  ultimately show ?thesis by (auto simp: pget_default_def pget_def split: option.splits)
qed

lemma differing_universe_fields:
  assumes "screen_numbers s" "\<And>k x. (k, x) \<in> set (universe_dict s) \<Longrightarrow> screen_value (c k) = Inr x"
  shows "differing_fields c (universe_dict spec) = Inr (
     (if us_chg_min s = us_chg_min spec then [] else [''chg_min''])
   @ (if us_chg_max s = us_chg_max spec then [] else [''chg_max''])
   @ (if us_min_trade_value_100m s = us_min_trade_value_100m spec then [] else [''min_trade_value_100m''])
   @ (if us_min_market_cap_100m s = us_min_market_cap_100m spec then [] else [''min_market_cap_100m''])
   @ (if us_exclude_ceiling s = us_exclude_ceiling spec then [] else [''exclude_ceiling''])
   @ (if us_max_tick_cost_bp s = us_max_tick_cost_bp spec then [] else [''max_tick_cost_bp''])
   @ (if us_exclude_non_screenable_class s = us_exclude_non_screenable_class spec then []
      else [''exclude_non_screenable_class'']))"
proof -
  have "screen_value (c ''chg_min'') = Inr (JFloat (us_chg_min s))" "screen_value (c ''chg_max'') = Inr (JFloat (us_chg_max s))"
    "screen_value (c ''min_trade_value_100m'') = Inr (JFloat (us_min_trade_value_100m s))"
    "screen_value (c ''min_market_cap_100m'') = Inr (JFloat (us_min_market_cap_100m s))"
    "screen_value (c ''exclude_ceiling'') = Inr (JBool (us_exclude_ceiling s))"
    "screen_value (c ''max_tick_cost_bp'') = Inr (case us_max_tick_cost_bp s of None \<Rightarrow> JNull | Some t \<Rightarrow> JFloat t)"
    "screen_value (c ''exclude_non_screenable_class'') = Inr (JBool (us_exclude_non_screenable_class s))"
    by (rule assms(2), simp add: universe_dict_def)+
  then show ?thesis using assms(1)
    by (cases "us_max_tick_cost_bp s"; cases "us_max_tick_cost_bp spec")
      (simp_all add: universe_dict_def screen_numbers_def)
qed

text \<open>A bundle certified under a screen passes exactly for that screen, or for the grandfathered addition.\<close>

lemma parity_reads:
  assumes certified: "certified_under v s b" "tb_select_universe b = JObj screened" and s: "screen_numbers s"
  shows "assert_bundle_screen_parity v b spec = Inr () \<longleftrightarrow> set (map fst screened) \<subseteq> set (map fst (universe_dict spec))
    \<and> (s = spec \<or> (tb_strategy_id b = JStr ''KCA-TOPK-COSTAWARE-001'' \<and> \<not> us_exclude_non_screenable_class s
      \<and> spec = s\<lparr>us_exclude_non_screenable_class := True\<rparr>))"
proof -
  let ?c = "\<lambda>k. pget_default screened k (pget (universe_dict (DEFAULT_UNIVERSE v)) k)"
  note fields = certified_fields [OF certified]
  have cls: "?c ''exclude_non_screenable_class'' = JBool (us_exclude_non_screenable_class s)"
    "pget (universe_dict spec) ''exclude_non_screenable_class'' = JBool (us_exclude_non_screenable_class spec)"
    using fields [of "''exclude_non_screenable_class''"] by (simp_all add: universe_dict_def pget_def screen_value_bool)
  define K where "K = (set (map fst screened) \<subseteq> set (map fst (universe_dict spec)))"
  show ?thesis
  proof (cases K)
    case True
    define D where D_is: "D = (if us_chg_min s = us_chg_min spec then [] else [''chg_min''])
   @ (if us_chg_max s = us_chg_max spec then [] else [''chg_max''])
   @ (if us_min_trade_value_100m s = us_min_trade_value_100m spec then [] else [''min_trade_value_100m''])
   @ (if us_min_market_cap_100m s = us_min_market_cap_100m spec then [] else [''min_market_cap_100m''])
   @ (if us_exclude_ceiling s = us_exclude_ceiling spec then [] else [''exclude_ceiling''])
   @ (if us_max_tick_cost_bp s = us_max_tick_cost_bp spec then [] else [''max_tick_cost_bp''])
   @ (if us_exclude_non_screenable_class s = us_exclude_non_screenable_class spec then []
      else [''exclude_non_screenable_class''])"
    have D: "differing_fields ?c (universe_dict spec) = Inr D"
      unfolding D_is by (rule differing_universe_fields [OF s fields])
    have only: "D = [] \<longleftrightarrow> s = spec"
      unfolding D_is by (cases s; cases spec) simp
    have added: "D = [''exclude_non_screenable_class''] \<Longrightarrow> \<not> us_exclude_non_screenable_class s
        \<Longrightarrow> us_exclude_non_screenable_class spec \<Longrightarrow> spec = s\<lparr>us_exclude_non_screenable_class := True\<rparr>"
    proof -
      assume *: "D = [''exclude_non_screenable_class'']" "\<not> us_exclude_non_screenable_class s" "us_exclude_non_screenable_class spec"
      then have "''chg_min'' \<notin> set D" "''chg_max'' \<notin> set D" "''min_trade_value_100m'' \<notin> set D"
        "''min_market_cap_100m'' \<notin> set D" "''exclude_ceiling'' \<notin> set D" "''max_tick_cost_bp'' \<notin> set D" by simp_all
      then show ?thesis using * by (cases s; cases spec) (simp add: D_is split: if_splits)
    qed
    have gives: "spec = s\<lparr>us_exclude_non_screenable_class := True\<rparr> \<Longrightarrow> \<not> us_exclude_non_screenable_class s
        \<Longrightarrow> D = [''exclude_non_screenable_class'']"
      unfolding D_is by simp
    have up: "us_exclude_non_screenable_class (s\<lparr>us_exclude_non_screenable_class := True\<rparr>)" by simp
    have "assert_bundle_screen_parity v b spec = (if D = [''exclude_non_screenable_class'']
          \<and> tb_strategy_id b = JStr ''KCA-TOPK-COSTAWARE-001'' \<and> \<not> us_exclude_non_screenable_class s
          \<and> us_exclude_non_screenable_class spec then Inr () else if D \<noteq> [] then Inl ValueError else Inr ())"
      unfolding assert_bundle_screen_parity_def certified(2) jval.case Let_def D cls K_def [symmetric]
      by (simp add: GRANDFATHERED_STRATEGY_IDS_def True)
    then show ?thesis using only added gives up True unfolding K_def by (metis Inl_Inr_False)
  next
    case False
    then show ?thesis
      unfolding assert_bundle_screen_parity_def certified(2) jval.case Let_def K_def [symmetric] by simp
  qed
qed

lemma certified_under_full: "tb_select_universe b = JObj (universe_dict s) \<Longrightarrow> certified_under v s b"
  by (simp add: certified_under_def universe_dict_def split: option.splits)

lemma parity_iff:
  assumes "tb_select_universe b = JObj (universe_dict s)" "screen_numbers s"
  shows "assert_bundle_screen_parity v b spec = Inr () \<longleftrightarrow>
    s = spec \<or> (tb_strategy_id b = JStr ''KCA-TOPK-COSTAWARE-001'' \<and> \<not> us_exclude_non_screenable_class s
      \<and> spec = s\<lparr>us_exclude_non_screenable_class := True\<rparr>)"
proof -
  have "set (map fst (universe_dict s)) \<subseteq> set (map fst (universe_dict spec))" by (simp add: universe_dict_def)
  then show ?thesis using parity_reads [OF certified_under_full [OF assms(1)] assms(1,2)] by blast
qed

text \<open>
  C25. The parity check never lets a bundle serve rows its certified screen would refuse: when a
  bundle certified under a screen passes, where a field the bundle does not carry is that of the
  default screen, every row the live screen admits was admitted by the certified one, and the
  two screens are equal unless the strategy is the grandfathered one and only the class filter
  was added.
\<close>

theorem parity_serves_certified_rows:
  assumes "certified_under v s b" "screen_numbers s"
    and "assert_bundle_screen_parity v b spec = Inr ()"
  shows "(admits spec r \<longrightarrow> admits s r)
    \<and> (s = spec \<or> (tb_strategy_id b = JStr ''KCA-TOPK-COSTAWARE-001'' \<and> \<not> us_exclude_non_screenable_class s
         \<and> spec = s\<lparr>us_exclude_non_screenable_class := True\<rparr>))"
proof -
  obtain screened where "tb_select_universe b = JObj screened" using assms(1) by (auto simp: certified_under_def)
  from parity_reads [OF assms(1) this assms(2)] assms(3) have "s = spec \<or> (tb_strategy_id b = JStr ''KCA-TOPK-COSTAWARE-001''
      \<and> \<not> us_exclude_non_screenable_class s \<and> spec = s\<lparr>us_exclude_non_screenable_class := True\<rparr>)" by blast
  then show ?thesis by (auto simp: admits_def)
qed

section \<open>A small bundle\<close>

definition demo_values :: strategy_values where
  "demo_values = \<lparr>universe_chg_min = Fin 0, universe_chg_max = Fin 1, universe_min_trade_value_100m = Fin 0,
     universe_min_market_cap_100m = Fin 0, ranker_model_params = [], ranker_seeds = [1], label_clip = Fin 0,
     champion_model_params = [], production_calendar_flow_features = [''f''], example_store = False,
     values_root = Example_root, values_revision = None\<rparr>"

definition demo_model :: fitted_model where
  "demo_model X = Inr (map hd X)"

definition demo_bundle :: topk_bundle where
  "demo_bundle = \<lparr>tb_select_universe = JObj (universe_dict (ss_universe (PRODUCTION_STRATEGY demo_values))),
     tb_strategy_id = JStr ''KCA-TOPK-COSTAWARE-002'', tb_feature_cols = [''chg_ratio''], tb_top_k = Some (JInt 3),
     tb_version = None, tb_training_cutoff = None, tb_trained_at = None, tb_has_rank_model = True,
     tb_return_model = Some demo_model,
     tb_quantile_models = Some [(''pred_q10'', demo_model), (''pred_q50'', demo_model), (''pred_q90'', demo_model)],
     tb_calibrators = Some [(''p_good'', Constant (Fin 0)), (''p_bad'', Constant (Fin 0))]\<rparr>"

definition demo_candidate :: "string \<Rightarrow> rat \<Rightarrow> bool \<Rightarrow> rat \<Rightarrow> feature_row" where
  "demo_candidate s price adm x = \<lparr>cd_symbol = s, cd_date = (2026, 3, 2), cd_close = Fin price, cd_admitted = adm,
     cd_value = (\<lambda>_. Fin x)\<rparr>"

definition demo_candidates :: feature_frame where
  "demo_candidates = \<lparr>ff_columns = [''admitted'', ''symbol'', ''date'', ''close'', ''chg_ratio''],
     ff_rows = [demo_candidate ''000001'' 102400 True 1, demo_candidate ''000002'' 102400 True 4,
                demo_candidate ''000003'' 2048 False 9, demo_candidate ''000004'' 102400 True 3, demo_candidate ''000005'' 102400 True 2]\<rparr>"

lemma demo_screen_numbers: "screen_numbers (ss_universe (PRODUCTION_STRATEGY demo_values))"
  by (simp add: screen_numbers_def PRODUCTION_STRATEGY_def KCA_TOPK_COSTAWARE_002_def DEFAULT_UNIVERSE_def
      COST_AWARE_SCREENABLE_UNIVERSE_def demo_values_def MAX_TICK_COST_BP_def)

lemma demo_parity: "assert_bundle_screen_parity v demo_bundle (ss_universe (PRODUCTION_STRATEGY demo_values)) = Inr ()"
  by (subst parity_iff [where s = "ss_universe (PRODUCTION_STRATEGY demo_values)"])
    (simp_all add: demo_bundle_def demo_screen_numbers)

lemma demo_bundle_fields: "tb_feature_cols demo_bundle = [''chg_ratio'']" "tb_return_model demo_bundle = Some demo_model"
  "tb_quantile_models demo_bundle = Some [(''pred_q10'', demo_model), (''pred_q50'', demo_model), (''pred_q90'', demo_model)]"
  "tb_calibrators demo_bundle = Some [(''p_good'', Constant (Fin 0)), (''p_bad'', Constant (Fin 0))]"
  by (simp_all add: demo_bundle_def)

definition demo_scored :: "feature_row \<Rightarrow> scored_row" where
  "demo_scored r = (let x = cd_value r ''chg_ratio'' in
     \<lparr>st_row = r, st_pred = x, st_q10 = x, st_q50 = x, st_q90 = x, st_p_good = Fin 0, st_p_bad = Fin 0\<rparr>)"

lemma demo_scores: "score_topk_candidates demo_values demo_candidates demo_bundle
    = Inr (map demo_scored (ff_rows demo_candidates))"
  by (simp add: score_topk_candidates_def demo_parity demo_bundle_fields demo_candidates_def demo_model_def
      demo_candidate_def features_of_def column_of_length_def named_model_def calibrate_def guard_ok_def
      demo_scored_def f_clip_def Let_def upt_rec [of 0] upt_rec [of "Suc n" for n])

definition demo_pick :: "string \<Rightarrow> rat \<Rightarrow> topk_pick" where
  "demo_pick s x = \<lparr>pk_row = demo_scored (demo_candidate s 102400 True x), pk_allocation = Fin (rnd64 (1 / 3))\<rparr>"

lemma demo_selection: "select_topk_equal_weight demo_values demo_candidates demo_bundle 3
    = Inr [demo_pick ''000002'' 4, demo_pick ''000004'' 3, demo_pick ''000005'' 2]"
  unfolding select_topk_equal_weight_def demo_scores
  by (simp add: MIN_TOP_K_def demo_candidates_def demo_candidate_def
      demo_scored_def guard_ok_def Let_def select_topk_by_score_def score_rank_def f_isnan_def demo_pick_def
      less_eq_fl_def fl_rank_def)

theorem equal_weight_selection_witness:
  "let picks = [demo_pick ''000002'' 4, demo_pick ''000004'' 3, demo_pick ''000005'' 2] in
   select_topk_equal_weight demo_values demo_candidates demo_bundle 3 = Inr picks
   \<and> (\<forall>p\<in>set picks. admitted_row (pk_row p)) \<and> length (picked_on (2026, 3, 2) picks) \<in> {0, 3}"
  using equal_weight_selection [OF demo_selection] demo_selection
  by (auto simp: demo_candidates_def Let_def demo_pick_def demo_scored_def demo_candidate_def)

text \<open>A bundle of the grandfathered strategy, from before the class filter existed.\<close>

definition demo_old_bundle :: topk_bundle where
  "demo_old_bundle = demo_bundle\<lparr>tb_select_universe := JObj (take 6 (universe_dict (COST_AWARE_UNIVERSE demo_values))),
     tb_strategy_id := JStr ''KCA-TOPK-COSTAWARE-001''\<rparr>"

lemma demo_old_certified: "certified_under demo_values (COST_AWARE_UNIVERSE demo_values) demo_old_bundle"
  by (simp add: certified_under_def demo_old_bundle_def universe_dict_def COST_AWARE_UNIVERSE_def DEFAULT_UNIVERSE_def
      eval_nat_numeral)

definition demo_screened_row :: screen_row where
  "demo_screened_row = \<lparr>sc_chg_ratio = Fin (1/2), sc_tv_clean = Fin 1, sc_mc_clean = Fin 1, sc_close = Fin 1000,
     sc_volume = Fin 1, sc_is_ceiling = False, sc_tick_cost_bp = Fin 0, sc_is_screenable = True\<rparr>"

lemma demo_screened_admitted: "admits (ss_universe (PRODUCTION_STRATEGY demo_values)) demo_screened_row"
  by (simp add: admits_def demo_screened_row_def PRODUCTION_STRATEGY_def KCA_TOPK_COSTAWARE_002_def
      COST_AWARE_SCREENABLE_UNIVERSE_def COST_AWARE_UNIVERSE_def DEFAULT_UNIVERSE_def demo_values_def MAX_TICK_COST_BP_def f_le_def)

text \<open>It passes against the live screen; without the exemption the missing filter is a difference.\<close>

theorem parity_serves_certified_rows_witness:
  "assert_bundle_screen_parity demo_values demo_old_bundle (ss_universe (PRODUCTION_STRATEGY demo_values)) = Inr ()
   \<and> admits (ss_universe (PRODUCTION_STRATEGY demo_values)) demo_screened_row \<and> admits (COST_AWARE_UNIVERSE demo_values) demo_screened_row
   \<and> assert_bundle_screen_parity demo_values (demo_old_bundle\<lparr>tb_strategy_id := JStr ''KCA-TOPK-COSTAWARE-002''\<rparr>)
       (ss_universe (PRODUCTION_STRATEGY demo_values)) \<noteq> Inr ()"
proof -
  let ?live = "ss_universe (PRODUCTION_STRATEGY demo_values)"
  let ?b = "demo_old_bundle\<lparr>tb_strategy_id := JStr ''KCA-TOPK-COSTAWARE-002''\<rparr>"
  have live: "?live = (COST_AWARE_UNIVERSE demo_values)\<lparr>us_exclude_non_screenable_class := True\<rparr>"
    by (simp add: PRODUCTION_STRATEGY_def KCA_TOPK_COSTAWARE_002_def COST_AWARE_SCREENABLE_UNIVERSE_def COST_AWARE_UNIVERSE_def)
  have cls: "\<not> us_exclude_non_screenable_class (COST_AWARE_UNIVERSE demo_values)"
    by (simp add: COST_AWARE_UNIVERSE_def DEFAULT_UNIVERSE_def)
  have numbers: "screen_numbers (COST_AWARE_UNIVERSE demo_values)"
    by (simp add: screen_numbers_def COST_AWARE_UNIVERSE_def DEFAULT_UNIVERSE_def demo_values_def MAX_TICK_COST_BP_def f_le_def)
  have old: "certified_under demo_values (COST_AWARE_UNIVERSE demo_values) ?b"
    using demo_old_certified by (simp add: certified_under_def)
  have keys: "set (map fst (take 6 (universe_dict (COST_AWARE_UNIVERSE demo_values)))) \<subseteq> set (map fst (universe_dict ?live))"
    by (auto simp: universe_dict_def eval_nat_numeral)
  have stored: "tb_select_universe demo_old_bundle = JObj (take 6 (universe_dict (COST_AWARE_UNIVERSE demo_values)))"
    "tb_strategy_id demo_old_bundle = JStr ''KCA-TOPK-COSTAWARE-001''" by (simp_all add: demo_old_bundle_def)
  have passes: "assert_bundle_screen_parity demo_values demo_old_bundle ?live = Inr ()"
    using parity_reads [OF demo_old_certified stored(1) numbers, of ?live] keys stored(2) live cls by simp
  have "assert_bundle_screen_parity demo_values ?b ?live \<noteq> Inr ()"
  proof
    assume "assert_bundle_screen_parity demo_values ?b ?live = Inr ()"
    from parity_serves_certified_rows [OF old numbers this] have same: "COST_AWARE_UNIVERSE demo_values = ?live" by simp
    have "us_exclude_non_screenable_class ?live" by (simp add: live)
    then show False using cls unfolding same by blast
  qed
  then show ?thesis
    using passes demo_screened_admitted parity_serves_certified_rows [OF demo_old_certified numbers passes, of demo_screened_row] by blast
qed

end
