(* ===== verification/Retrain_Properties.thy ===== *)
theory Retrain_Properties
  imports Retrain_Gate Topk_Selection
begin

text \<open>
  What the retrain gate guarantees: a promoted candidate carries the live screen and feature
  contract and agrees with the bundle it replaces, a gated run replaces the live bundle only by such a
  candidate, the decision-time criterion passes only on a current report of the same configuration, and
  a stored report loads as it was.
\<close>

section \<open>The verdict\<close>

lemma gated_promote [simp]:
  "pv_promote (gated_verdict cfg pit p rs a) \<longleftrightarrow> p \<and> (gc_mode cfg = GATE_ENFORCE \<longrightarrow> fst pit = PIT_PASS)"
  by (cases pit) (auto simp: gated_verdict_def Let_def)

lemma when_reason_empty [simp]: "when_reason r b = [] \<longleftrightarrow> \<not> b"
  by (simp add: when_reason_def)

lemma structural_sound:
  assumes "structural_reasons v b df = Inr []"
  shows "assert_bundle_screen_parity v b (ss_universe (PRODUCTION_STRATEGY v)) = Inr ()" "tb_feature_cols b \<noteq> []"
    "set (tb_feature_cols b) \<subseteq> set (ff_columns df)" "ff_rows df \<noteq> []" "assert_feature_contract b = Inr ()"
  using assms
  by (auto simp: structural_reasons_def Let_def assert_feature_contract_def filter_empty_conv
      split: sum.splits option.splits if_splits)

lemma prediction_sound:
  "prediction_reasons S df pred = [] \<longleftrightarrow> list_all f_isfinite pred
     \<and> \<not> list_ex (constant_day S) (eval_days (map cd_date (ff_rows df)) pred)"
  by (simp add: prediction_reasons_def)

lemma screen_unchanged:
  assumes "screen_changed v l b = Inr False"
  shows "jeq (tb_strategy_id l) (tb_strategy_id b)"
    "\<exists>x y. certified_screen v l = Inr x \<and> certified_screen v b = Inr y \<and> jeq (JObj x) (JObj y)"
proof -
  show "jeq (tb_strategy_id l) (tb_strategy_id b)" using assms by (auto simp: screen_changed_def split: if_splits)
  then show "\<exists>x y. certified_screen v l = Inr x \<and> certified_screen v b = Inr y \<and> jeq (JObj x) (JObj y)"
    using assms
    by (cases "certified_screen v l"; cases "certified_screen v b")
      (auto simp: screen_changed_def rbind_def simp del: jeq.simps split: if_splits)
qed

text \<open>The candidate may replace the bundle that is live.\<close>

definition replaces :: "strategy_values \<Rightarrow> gate_stats \<Rightarrow> fl \<Rightarrow> feature_frame \<Rightarrow> topk_bundle \<Rightarrow> topk_bundle \<Rightarrow> bool" where
  "replaces v S bound df b l \<longleftrightarrow> jeq (tb_strategy_id l) (tb_strategy_id b)
   \<and> (\<exists>x y. certified_screen v l = Inr x \<and> certified_screen v b = Inr y \<and> jeq (JObj x) (JObj y))
   \<and> tb_feature_cols l = tb_feature_cols b \<and> resolved_contract l = resolved_contract b
   \<and> (\<exists>pred live_pred a. predictions b df (tb_feature_cols b) = Inr pred \<and> predictions l df (tb_feature_cols b) = Inr live_pred
        \<and> mean_daily_rank_agreement S (map cd_date (ff_rows df)) pred live_pred = Some a \<and> \<not> f_lt a bound)"

definition servable :: "strategy_values \<Rightarrow> topk_bundle \<Rightarrow> bool" where
  "servable v b \<longleftrightarrow> assert_bundle_screen_parity v b (ss_universe (PRODUCTION_STRATEGY v)) = Inr ()
     \<and> tb_feature_cols b \<noteq> [] \<and> assert_feature_contract b = Inr ()"

lemma promote_sound:
  assumes run: "evaluate_retrain_promotion v S cfg pit bound b live df = Inr w" and promote: "pv_promote w"
  shows "servable v b" "set (tb_feature_cols b) \<subseteq> set (ff_columns df)" "ff_rows df \<noteq> []"
    "\<exists>pred. predictions b df (tb_feature_cols b) = Inr pred \<and> list_all f_isfinite pred
       \<and> \<not> list_ex (constant_day S) (eval_days (map cd_date (ff_rows df)) pred)"
    "gc_mode cfg = GATE_ENFORCE \<Longrightarrow> fst pit = PIT_PASS"
    "live = Some l \<Longrightarrow> replaces v S bound df b l"
proof -
  have structural: "structural_reasons v b df = Inr []"
    using run promote by (auto simp: evaluate_retrain_promotion_def Let_def split: if_splits)
  note sound = structural_sound [OF structural]
  show "servable v b" using sound by (simp add: servable_def)
  show "set (tb_feature_cols b) \<subseteq> set (ff_columns df)" "ff_rows df \<noteq> []" using sound by auto
  have changed: "(case live of None \<Rightarrow> Inr False | Some l \<Rightarrow> screen_changed v l b) = Inr False"
    using run promote structural by (auto simp: evaluate_retrain_promotion_def Let_def split: if_splits)
  obtain pred where pred: "predictions b df (tb_feature_cols b) = Inr pred"
    using run promote structural changed by (auto simp: evaluate_retrain_promotion_def Let_def)
  note ev = run [unfolded evaluate_retrain_promotion_def Let_def structural changed pred, simplified]
  have ok: "prediction_reasons S df pred = []"
    using ev promote by (auto split: option.splits if_splits)
  then show "\<exists>pred. predictions b df (tb_feature_cols b) = Inr pred \<and> list_all f_isfinite pred
       \<and> \<not> list_ex (constant_day S) (eval_days (map cd_date (ff_rows df)) pred)"
    using pred by (simp add: prediction_sound)
  show "gc_mode cfg = GATE_ENFORCE \<Longrightarrow> fst pit = PIT_PASS"
    using ev promote by (auto split: option.splits if_splits)
  assume live: "live = Some l"
  have "screen_changed v l b = Inr False" using changed live by simp
  moreover have "tb_feature_cols l = tb_feature_cols b \<and> resolved_contract l = resolved_contract b"
    using ev promote live by (auto split: if_splits)
  moreover have "\<exists>live_pred a. predictions l df (tb_feature_cols b) = Inr live_pred
        \<and> mean_daily_rank_agreement S (map cd_date (ff_rows df)) pred live_pred = Some a \<and> \<not> f_lt a bound"
    using ev promote live ok by (auto split: if_splits option.splits)
  ultimately show "replaces v S bound df b l" using screen_unchanged pred unfolding replaces_def by blast
qed

section \<open>Runs\<close>

lemma gate_candidate_promotes:
  assumes gate: "gate_candidate X mode c s = Inr (w, meta)" and promote: "pv_promote w"
  shows "servable (tx_values X) (rb_bundle c)"
    "td_live s = Some (old, m) \<Longrightarrow>
       \<exists>df. tx_eval_frame X = Inr df
         \<and> replaces (tx_values X) (tx_stats X) RETRAIN_MIN_PREDICTION_AGREEMENT df (rb_bundle c) (rb_bundle old)"
proof -
  obtain df pit live where live: "load_current_bundle X s = Inr live" and df: "tx_eval_frame X = Inr df"
    and run: "evaluate_retrain_promotion (tx_values X) (tx_stats X) (pit_gate_config mode) pit
      RETRAIN_MIN_PREDICTION_AGREEMENT (rb_bundle c) live df = Inr w"
    using gate by (auto simp: gate_candidate_def Let_def)
  show "servable (tx_values X) (rb_bundle c)" using promote_sound(1) [OF run promote] .
  assume "td_live s = Some (old, m)"
  then have "live = Some (rb_bundle old)" using live by (auto simp: load_current_bundle_def)
  then show "\<exists>df. tx_eval_frame X = Inr df
         \<and> replaces (tx_values X) (tx_stats X) RETRAIN_MIN_PREDICTION_AGREEMENT df (rb_bundle c) (rb_bundle old)"
    using promote_sound(6) [OF run promote] df by blast
qed

lemma append_record_live: "append_retrain_record X row s = (q, s') \<Longrightarrow> td_live s' = td_live s"
  by (auto simp: append_retrain_record_def bnd_def lift_res_def modify_def guard_ok_def split: if_splits)

text \<open>A rejected candidate: the live bundle stays and the run fails.\<close>

lemma rejecting_run:
  assumes "bnd (save_rejected X c meta) (\<lambda>_. bnd (append_retrain_record X row) (\<lambda>_. throw RuntimeError)) s = (q, s')"
  shows "td_live s' = td_live s \<and> (\<exists>e. q = Inl e)"
  using assms
  by (auto simp: save_rejected_def append_retrain_record_def bnd_def lift_res_def modify_def guard_ok_def throw_def
      split: if_splits)

lemma publishing_run:
  assumes "bnd (save_live X c meta) (\<lambda>_. append_retrain_record X row) s = (q, s')"
  shows "td_live s' = td_live s \<or> td_live s' = Some (c, meta)"
    "q = Inr () \<Longrightarrow> td_live s' = Some (c, meta) \<and> td_registry s' = td_registry s @ [row]"
  using assms
  by (auto simp: save_live_def append_retrain_record_def bnd_def lift_res_def modify_def guard_ok_def split: if_splits)

lemma gated_run:
  assumes run: "train_ranker_bundle X mode False s = (q, s')"
  obtains (kept) "td_live s' = td_live s" "\<exists>e. q = Inl e"
  | (published) c w meta where "gate_candidate X mode c s = Inr (w, meta)" "pv_promote w" "td_live s' = Some (c, meta)"
      "q = Inr () \<Longrightarrow> td_registry s' = td_registry s @ [build_retrain_record X RETRAIN_PROMOTED (rb_bundle c) (pv_agreement w) [] False]"
proof (cases "tx_train X")
  case (Inl e)
  then show ?thesis using run kept by (auto simp: train_ranker_bundle_def bnd_def lift_res_def)
next
  case (Inr trained)
  define c where "c = trained\<lparr>rb_bundle := (rb_bundle trained)\<lparr>tb_trained_at := Some (tx_trained_at X)\<rparr>\<rparr>"
  show ?thesis
  proof (cases "gate_candidate X mode c s")
    case (Inl e)
    then show ?thesis using run Inr kept by (auto simp: train_ranker_bundle_def bnd_def lift_res_def c_def Let_def)
  next
    case gate: (Inr p)
    obtain w meta where p: "p = (w, meta)" by fastforce
    have rest: "(if \<not> pv_promote w then
         bnd (save_rejected X c meta) (\<lambda>_.
         bnd (append_retrain_record X (build_retrain_record X RETRAIN_REJECTED (rb_bundle c) (pv_agreement w) (pv_reasons w) True)) (\<lambda>_.
         throw RuntimeError))
       else
         bnd (save_live X c meta) (\<lambda>_.
         append_retrain_record X (build_retrain_record X RETRAIN_PROMOTED (rb_bundle c) (pv_agreement w) [] False))) s = (q, s')"
      using run Inr gate p
      by (cases "pv_promote w") (simp_all add: train_ranker_bundle_def bnd_def lift_res_def c_def Let_def)
    show ?thesis
    proof (cases "pv_promote w")
      case False
      have "td_live s' = td_live s \<and> (\<exists>e. q = Inl e)"
        using rest unfolding if_P [OF False] by (rule rejecting_run)
      then show ?thesis using kept by blast
    next
      case True
      have "bnd (save_live X c meta) (\<lambda>_.
          append_retrain_record X (build_retrain_record X RETRAIN_PROMOTED (rb_bundle c) (pv_agreement w) [] False)) s = (q, s')"
        using rest True by simp
      note pub = publishing_run [OF this]
      show ?thesis
      proof (cases "td_live s' = Some (c, meta)")
        case same: True
        then show ?thesis using published [of c w meta] gate p True pub(2) by blast
      next
        case False
        then show ?thesis using pub kept by (cases q) auto
      qed
    qed
  qed
qed

text \<open>
  Any sequence of gated training runs under the same strategy, from an empty models directory,
  whatever was trained, read or written.
\<close>

inductive gated_history :: "strategy_values \<Rightarrow> retrain_desk \<Rightarrow> bool" for v where
  unpublished: "td_live s = None \<Longrightarrow> gated_history v s"
| trained: "gated_history v s \<Longrightarrow> tx_values X = v \<Longrightarrow> gated_history v (snd (train_ranker_bundle X mode False s))"

text \<open>C30. After any sequence of gated training runs the bundle that is live, if there is one, was
  certified for the live screen, declares features and carries the current feature contract
  version: the checks that the decision run makes before it scores. A run that replaces it does so
  only by a candidate of the same strategy, screen, features and contract whose mean daily rank
  agreement with it on the evaluation rows is not below 0.95; a run that fails keeps it or has
  published such a candidate.\<close>

theorem gated_runs_keep_servable_bundle:
  assumes "gated_history v s" "tx_values X = v" "train_ranker_bundle X mode False s = (q, s')"
  shows "(\<forall>c meta. td_live s = Some (c, meta) \<longrightarrow> servable v (rb_bundle c))
    \<and> (td_live s' = td_live s \<or>
        (\<exists>c meta. td_live s' = Some (c, meta) \<and> servable v (rb_bundle c)
          \<and> (\<forall>old m. td_live s = Some (old, m) \<longrightarrow>
               (\<exists>df. tx_eval_frame X = Inr df
                 \<and> replaces v (tx_stats X) RETRAIN_MIN_PREDICTION_AGREEMENT df (rb_bundle c) (rb_bundle old)))))"
proof -
  have step: "\<forall>c meta. td_live s' = Some (c, meta) \<longrightarrow> servable (tx_values X) (rb_bundle c)"
    if "train_ranker_bundle X mode False s = (q, s')" "\<forall>c meta. td_live s = Some (c, meta) \<longrightarrow> servable (tx_values X) (rb_bundle c)"
    for X mode q s s'
    using that(1)
  proof (cases rule: gated_run)
    case kept
    then show ?thesis using that(2) by simp
  next
    case (published c w meta)
    then show ?thesis using gate_candidate_promotes(1) by simp
  qed
  have "\<forall>c meta. td_live s = Some (c, meta) \<longrightarrow> servable v (rb_bundle c)"
    using assms(1)
  proof (induction rule: gated_history.induct)
    case (trained s X mode)
    then show ?case using step [of X mode s] by (metis prod.collapse)
  qed simp
  moreover have "td_live s' = td_live s \<or>
        (\<exists>c meta. td_live s' = Some (c, meta) \<and> servable v (rb_bundle c)
          \<and> (\<forall>old m. td_live s = Some (old, m) \<longrightarrow>
               (\<exists>df. tx_eval_frame X = Inr df
                 \<and> replaces v (tx_stats X) RETRAIN_MIN_PREDICTION_AGREEMENT df (rb_bundle c) (rb_bundle old))))"
    using assms(3)
  proof (cases rule: gated_run)
    case (published c w meta)
    then show ?thesis using gate_candidate_promotes [of X mode c s w meta] assms(2) by blast
  qed simp
  ultimately show ?thesis by blast
qed

section \<open>The decision-time criterion\<close>

lemma below_floor [simp]: "named_if n b = [] \<longleftrightarrow> \<not> b"
  by (simp add: named_if_def)

lemma not_undercut: "\<not> undercuts x bound \<longleftrightarrow> f_isfinite x \<and> \<not> f_lt x bound"
  by (simp add: undercuts_def)

text \<open>A report that is current evidence for a candidate.\<close>

definition current_evidence :: "(string \<Rightarrow> iso_stamp) \<Rightarrow> PitGateConfig \<Rightarrow> int \<Rightarrow> retrain_bundle \<Rightarrow> PitHaircutReport \<Rightarrow> bool" where
  "current_evidence stamp cfg now c r \<longleftrightarrow>
     (\<exists>i day. stamp (hr_generated_at r) = Aware_stamp i day
        \<and> int (toordinal (kst_date now)) - int (toordinal day) \<le> gc_max_report_age_days cfg)
   \<and> pit_mismatch r c = Inr [] \<and> hr_status r = PIT_OK
   \<and> (\<exists>mean_net ic. hr_mean_net_bp r = Some mean_net \<and> hr_rank_ic_mean r = Some ic
        \<and> f_isfinite (map_value mean_net ''pit_native'')
        \<and> \<not> f_lt (map_value mean_net ''pit_native'') (gc_min_pit_native_mean_net_bp cfg)
        \<and> f_isfinite (map_value ic ''pit_native'') \<and> \<not> f_lt (map_value ic ''pit_native'') (gc_min_pit_rank_ic cfg))"

lemma pit_pass_evidence:
  assumes "evaluate_pit_gate stamp cfg now arm1 c recon adopted detail = Inr (PIT_PASS, reasons, arm)"
  shows "\<exists>r. (arm1 = Some r \<or> adopted \<and> recon = Some r) \<and> current_evidence stamp cfg now c r"
proof -
  obtain selected remark where sel: "select_pit_report arm1 recon adopted detail = (selected, remark, arm)"
    and run: "\<exists>rs. evaluate_selected_pit_gate stamp cfg now selected c = Inr (PIT_PASS, rs)"
    using assms by (auto simp: evaluate_pit_gate_def split: prod.splits)
  then obtain r i day where r: "selected = Some r"
    and age: "stamp (hr_generated_at r) = Aware_stamp i day"
      "int (toordinal (kst_date now)) - int (toordinal day) \<le> gc_max_report_age_days cfg"
    and same: "pit_mismatch r c = Inr []" "hr_status r = PIT_OK" "pit_failures cfg r = Inr []"
    by (auto simp: evaluate_selected_pit_gate_def split: if_splits option.splits iso_stamp.splits)
  have arm: "arm1 = Some r \<or> adopted \<and> recon = Some r"
    using sel r by (auto simp: select_pit_report_def Let_def split: if_splits option.splits)
  obtain mean_net ic where "hr_mean_net_bp r = Some mean_net" "hr_rank_ic_mean r = Some ic"
    "\<not> undercuts (map_value mean_net ''pit_native'') (gc_min_pit_native_mean_net_bp cfg)"
    "\<not> undercuts (map_value ic ''pit_native'') (gc_min_pit_rank_ic cfg)"
    using same(3) by (auto simp: pit_failures_def split: option.splits)
  then show ?thesis using age same arm unfolding not_undercut current_evidence_def by blast
qed

text \<open>The adoption thresholds on the evidence a certificate carries: the paired differences of the
  coverage and of the features, the two fidelity figures and the stability of the holdout.\<close>

definition passes_adoption :: "ReconstructionCertification \<Rightarrow> bool" where
  "passes_adoption cert \<longleftrightarrow> (\<exists>i f s m. rc_coverage_improvement cert = Some i \<and> rc_reconstruction_feature cert = Some f
       \<and> rc_stability cert = Some s \<and> rc_fidelity cert = Some m
     \<and> 30 \<le> dl_n_days i \<and> (\<exists>d l h. dl_delta i = Fin d \<and> dl_ci_low i = Fin l \<and> dl_ci_high i = Fin h \<and> 0 < d \<and> 0 < l)
     \<and> 30 \<le> dl_n_days f \<and> (\<exists>d l h. dl_delta f = Fin d \<and> dl_ci_low f = Fin l \<and> dl_ci_high f = Fin h \<and> - 5 < l)
     \<and> (\<exists>x. map_of m ''tv_rank_correlation'' = Some (Fin x) \<and> rnd64 (95 / 100) \<le> x)
     \<and> (\<exists>x. map_of m ''top_k_overlap'' = Some (Fin x) \<and> rnd64 (9 / 10) \<le> x)
     \<and> cs_passed s \<and> \<not> cs_alpha_at_boundary s \<and> 0 < cs_n_holdout_rows s
     \<and> (\<exists>x. cs_rel_err_p90 s = Fin x \<and> x \<le> rnd64 (15 / 100))
     \<and> (\<exists>x. cs_coverage s = Fin x \<and> 1 / 2 \<le> x)
     \<and> (\<exists>x. cs_bias_drift s = Fin x \<and> x \<le> rnd64 (3 / 100)))"

lemma undercuts_Fin: "\<not> undercuts x (Fin b) \<longleftrightarrow> (\<exists>a. x = Fin a \<and> b \<le> a)"
  by (cases x) (auto simp: undercuts_def)

lemma exceeds_Fin: "\<not> exceeds x (Fin b) \<longleftrightarrow> (\<exists>a. x = Fin a \<and> a \<le> b)"
  by (cases x) (auto simp: exceeds_def)

lemma map_value_Fin: "map_value m k = Fin x \<longleftrightarrow> map_of m k = Some (Fin x)"
  by (auto simp: map_value_def split: option.splits)

lemma recheck_passes:
  assumes "rc_coverage_improvement cert = Some i" "rc_reconstruction_feature cert = Some f" "rc_stability cert = Some s"
    "rc_fidelity cert = Some m"
  shows "evaluate_reconstruction_gate RECONSTRUCTION_GATE i f s (map_value m ''tv_rank_correlation'')
      (map_value m ''top_k_overlap'') = [] \<longleftrightarrow> passes_adoption cert"
proof -
  have improvement: "(if dl_n_days i < 30 then [''coverage improvement: paired days'']
       else if \<not> estimable i then [''coverage improvement is not estimable'']
       else if f_le (dl_ci_low i) (Fin 0) then [''coverage improvement CI includes zero'']
       else if f_le (dl_delta i) (Fin 0) then [''coverage improvement below the minimum''] else []) = []
     \<longleftrightarrow> 30 \<le> dl_n_days i \<and> (\<exists>d l h. dl_delta i = Fin d \<and> dl_ci_low i = Fin l \<and> dl_ci_high i = Fin h \<and> 0 < d \<and> 0 < l)"
    by (auto simp: estimable_def f_isfinite_iff f_le_def)
  have feature: "(if dl_n_days f < 30 then [''arm-3 feature: paired days'']
         else if \<not> estimable f then [''arm-3 feature is not estimable'']
         else if \<not> f_isfinite (Fin 5) then [''feature margin is not finite'']
         else if f_le (dl_ci_low f) (f_neg (Fin 5)) then [''arm-3 feature worse than margin''] else []) = []
     \<longleftrightarrow> 30 \<le> dl_n_days f \<and> (\<exists>d l h. dl_delta f = Fin d \<and> dl_ci_low f = Fin l \<and> dl_ci_high f = Fin h \<and> - 5 < l)"
    by (auto simp: estimable_def f_isfinite_iff f_le_def)
  show ?thesis
    unfolding evaluate_reconstruction_gate_def Let_def RECONSTRUCTION_GATE_def ReconstructionGateConfig.select_convs
      append_is_Nil_conv improvement feature
    by (simp add: passes_adoption_def assms undercuts_Fin exceeds_Fin map_value_Fin not_le) blast
qed

text \<open>A certificate that adopts the reconstruction, for the files and the live report at hand.\<close>

definition adopts :: "(string \<Rightarrow> iso_stamp) \<Rightarrow> recon_files \<Rightarrow> int \<Rightarrow> int \<Rightarrow> ReconstructionCertification \<Rightarrow> bool" where
  "adopts stamp F now days cert \<longleftrightarrow> rc_gate_verdict cert = ''ADOPT'' \<and> passes_adoption cert
   \<and> (\<exists>generated day. stamp (rc_generated_at cert) = Aware_stamp generated day
        \<and> generated \<le> now \<and> now - generated \<le> days * day_ns)
   \<and> (\<exists>b config arm2. rc_bindings cert = Some b \<and> rf_config_sha F = Inr config \<and> rf_arm2_sha F = Inr arm2
        \<and> ascii_lower config = ascii_lower (bi_decomposition_config_sha256 b)
        \<and> ascii_lower arm2 = ascii_lower (bi_recon_report_sha256 b))"

lemma as_value_error_Inr: "as_value_error r = Inr x \<longleftrightarrow> r = Inr x"
  by (cases r) (simp_all add: as_value_error_def)

lemma loaded_fidelity:
  assumes "load_reconstruction_certification f = Inr cert"
  shows "\<exists>m. rc_fidelity cert = Some m"
proof -
  obtain p where "cert_from_payload p = Inr cert"
    using assms by (auto simp: load_reconstruction_certification_def as_value_error_Inr split: json_file.splits)
  then show ?thesis by (auto simp: cert_from_payload_def Let_def)
qed

lemma adopted_reconstruction:
  assumes "load_recon_pit_selection stamp F arm1 now days = Inr (recon, True, detail)"
  shows "\<exists>cert r. load_reconstruction_certification (rf_certification F) = Inr cert \<and> adopts stamp F now days cert
    \<and> recon = Some r \<and> load_pit_haircut_report (rf_arm2_report F) = Inr (Some r)"
proof -
  note ev = assms [unfolded load_recon_pit_selection_def Let_def]
  have there: "rf_certification F \<noteq> No_json" using ev by (cases "rf_certification F") simp_all
  note ev = ev [unfolded if_not_P [OF there]]
  obtain cert where cert: "load_reconstruction_certification (rf_certification F) = Inr cert"
    using ev by (cases "load_reconstruction_certification (rf_certification F)") simp_all
  note ev = ev [unfolded cert sum.case]
  have verdict: "\<not> rc_gate_verdict cert \<noteq> ''ADOPT''" using ev by (cases "rc_gate_verdict cert = ''ADOPT''") simp_all
  note ev = ev [unfolded if_not_P [OF verdict]]
  obtain i f s where parts: "rc_coverage_improvement cert = Some i" "rc_reconstruction_feature cert = Some f" "rc_stability cert = Some s"
    using ev by (cases "rc_coverage_improvement cert"; cases "rc_reconstruction_feature cert"; cases "rc_stability cert") simp_all
  obtain b where b: "rc_bindings cert = Some b" using ev parts by (cases "rc_bindings cert") simp_all
  obtain fidelity where fidelity: "rc_fidelity cert = Some fidelity" using loaded_fidelity [OF cert] by blast
  define recheck where "recheck = evaluate_reconstruction_gate RECONSTRUCTION_GATE i f s
      (map_value fidelity ''tv_rank_correlation'') (map_value fidelity ''top_k_overlap'')"
  note ev = ev [unfolded parts b fidelity option.case prod.case recheck_def [symmetric]]
  have passed: "\<not> recheck \<noteq> []" using ev by (cases "recheck = []") simp_all
  note ev = ev [unfolded if_not_P [OF passed]]
  obtain generated day where st: "stamp (rc_generated_at cert) = Aware_stamp generated day"
    using ev by (cases "stamp (rc_generated_at cert)") simp_all
  note ev = ev [unfolded st iso_stamp.case]
  have age: "\<not> now - generated < 0" using ev by (cases "now - generated < 0") simp_all
  note ev = ev [unfolded if_not_P [OF age]]
  have fresh: "\<not> days * day_ns < now - generated" using ev by (cases "days * day_ns < now - generated") simp_all
  note ev = ev [unfolded if_not_P [OF fresh]]
  obtain config where config: "rf_config_sha F = Inr config" using ev by (cases "rf_config_sha F") (simp_all split: if_splits)
  note ev = ev [unfolded config sum.case]
  have bound: "\<not> ascii_lower config \<noteq> ascii_lower (bi_decomposition_config_sha256 b)"
    using ev by (cases "ascii_lower config = ascii_lower (bi_decomposition_config_sha256 b)") simp_all
  note ev = ev [unfolded if_not_P [OF bound]]
  obtain arm2 where arm2: "rf_arm2_sha F = Inr arm2" using ev by (cases "rf_arm2_sha F") (simp_all split: if_splits)
  note ev = ev [unfolded arm2 sum.case]
  have bound2: "\<not> ascii_lower arm2 \<noteq> ascii_lower (bi_recon_report_sha256 b)"
    using ev by (cases "ascii_lower arm2 = ascii_lower (bi_recon_report_sha256 b)") simp_all
  note ev = ev [unfolded if_not_P [OF bound2]]
  have "\<exists>r. recon = Some r \<and> load_pit_haircut_report (rf_arm2_report F) = Inr (Some r)"
    using ev by (auto split: sum.splits option.splits if_splits simp del: jeq.simps)
  moreover have "generated \<le> now" "now - generated \<le> days * day_ns" using age fresh by simp_all
  then have "adopts stamp F now days cert"
    using verdict passed st b config arm2 bound bound2
    unfolding adopts_def recheck_def recheck_passes [OF parts fidelity] by blast
  ultimately show ?thesis using cert by blast
qed

text \<open>C31. With the criterion enforced, a promoted candidate has current evidence: a report of its own
  strategy, screen, contract, parameters and seeds, not older than fourteen days, usable, with a
  finite decision-time mean return and rank correlation that are not below zero. It is the
  report beside the live bundle, or the one of the reconstructed arm; the latter only with a
  certificate whose own figures (coverage improvement, feature difference, fidelity, stability) pass
  the current adoption thresholds, which is not older than fourteen days and is bound by its digests
  to the configuration and the report on disk.\<close>

theorem enforced_promotion_has_evidence:
  assumes "gate_candidate X GATE_ENFORCE c s = Inr (w, meta)" "pv_promote w"
  shows "\<exists>r. current_evidence (tx_stamp X) (pit_gate_config GATE_ENFORCE) (tx_now X) c r
    \<and> (load_pit_haircut_report (tx_report X) = Inr (Some r)
       \<or> load_pit_haircut_report (rf_arm2_report (tx_recon X)) = Inr (Some r)
         \<and> (\<exists>cert. load_reconstruction_certification (rf_certification (tx_recon X)) = Inr cert
              \<and> adopts (tx_stamp X) (tx_recon X) (tx_attempted_at X) 14 cert))"
proof -
  obtain report recon adopted detail live df pit where report: "live_report X GATE_ENFORCE = Inr report"
    and sel: "load_recon_pit_selection (tx_stamp X) (tx_recon X) report (tx_attempted_at X) 14 = Inr (recon, adopted, detail)"
    and pit: "evaluate_pit_gate (tx_stamp X) (pit_gate_config GATE_ENFORCE) (tx_now X) report c recon adopted detail = Inr pit"
    and run: "evaluate_retrain_promotion (tx_values X) (tx_stats X) (pit_gate_config GATE_ENFORCE) pit
      RETRAIN_MIN_PREDICTION_AGREEMENT (rb_bundle c) live df = Inr w"
    using assms(1) by (auto simp: gate_candidate_def Let_def pit_gate_config_def)
  have "fst pit = PIT_PASS" using promote_sound(5) [OF run assms(2)] by (simp add: pit_gate_config_def)
  then obtain reasons arm where "pit = (PIT_PASS, reasons, arm)" by (cases pit) auto
  then obtain r where r: "report = Some r \<or> adopted \<and> recon = Some r"
    and ev: "current_evidence (tx_stamp X) (pit_gate_config GATE_ENFORCE) (tx_now X) c r"
    using pit_pass_evidence pit by blast
  have "report = Some r \<Longrightarrow> load_pit_haircut_report (tx_report X) = Inr (Some r)"
    using report by (auto simp: live_report_def split: sum.splits if_splits)
  then show ?thesis using r ev sel adopted_reconstruction by (cases adopted) fastforce+
qed

section \<open>Stored reports\<close>

text \<open>What a stored number comes back as: a value that is not finite is written as null.\<close>

definition settle :: "fl \<Rightarrow> fl" where "settle x = (if f_isfinite x then x else NaN)"

definition settle_delta :: "PairedDelta \<Rightarrow> PairedDelta" where
  "settle_delta d = d\<lparr>dl_delta := settle (dl_delta d), dl_ci_low := settle (dl_ci_low d),
     dl_ci_high := settle (dl_ci_high d), dl_p_value := settle (dl_p_value d)\<rparr>"

definition settle_map :: "float_map \<Rightarrow> float_map" where "settle_map m = map (\<lambda>(k, v). (k, settle v)) m"

definition settle_augmentation :: "AugmentationSummary \<Rightarrow> AugmentationSummary" where
  "settle_augmentation a = a\<lparr>au_improvement_bp := map_option settle_delta (au_improvement_bp a), au_alpha := settle (au_alpha a)\<rparr>"

definition settle_report :: "PitHaircutReport \<Rightarrow> PitHaircutReport" where
  "settle_report r = r\<lparr>hr_mean_net_bp := map_option settle_map (hr_mean_net_bp r),
     hr_haircut := map_option settle_delta (hr_haircut r),
     hr_coverage_component := map_option settle_delta (hr_coverage_component r),
     hr_feature_component := map_option settle_delta (hr_feature_component r),
     hr_selection_component := map_option settle_delta (hr_selection_component r),
     hr_pit_native_vs_zero := map_option settle_delta (hr_pit_native_vs_zero r),
     hr_rank_ic_mean := map_option settle_map (hr_rank_ic_mean r),
     hr_rank_ic_haircut := map_option settle_delta (hr_rank_ic_haircut r),
     hr_pick_overlap_mean := map_option settle_map (hr_pick_overlap_mean r),
     hr_haircut_by_index_basis := map_option settle_map (hr_haircut_by_index_basis r),
     hr_augmentation := map_option settle_augmentation (hr_augmentation r)\<rparr>"

lemma load_dump_float [simp]: "load_float (dump_float x) = Inr (settle x)"
  by (simp add: load_float_def dump_float_def settle_def)

lemma dump_float_shape [simp]: "dump_delta d \<noteq> JNull"
  by (simp add: dump_delta_def)

lemma load_dump_delta [simp]: "load_delta (dump_delta d) = Inr (settle_delta d)"
  by (simp add: load_delta_def dump_delta_def only_keys_def pget_def pindex_def as_value_error_def settle_delta_def)

lemma load_dump_map [simp]: "load_float_map (dump_float_map m) = Inr (settle_map m)"
proof -
  have "rmap (\<lambda>(k, x). rbind (load_float x) (\<lambda>f. Inr (k, f))) (map (\<lambda>(k, v). (k, dump_float v)) m) = Inr (settle_map m)"
    by (induction m) (auto simp: settle_map_def)
  then show ?thesis by (simp add: load_float_map_def dump_float_map_def)
qed

lemma load_dump_augmentation [simp]: "load_augmentation (dump_augmentation a) = Inr (map_option settle_augmentation a)"
proof (cases a)
  case (Some s)
  have "(case (case au_improvement_bp s of None \<Rightarrow> JNull | Some d \<Rightarrow> dump_delta d) of
      JNull \<Rightarrow> Inr None | x \<Rightarrow> rbind (load_delta x) (\<lambda>d. Inr (Some d))) = Inr (map_option settle_delta (au_improvement_bp s))"
  proof (cases "au_improvement_bp s")
    case (Some d)
    obtain p where p: "dump_delta d = JObj p" by (simp add: dump_delta_def)
    have "load_delta (JObj p) = Inr (settle_delta d)" unfolding p [symmetric] by (rule load_dump_delta)
    then show ?thesis using Some p by simp
  qed simp
  then show ?thesis using Some
    by (simp add: load_augmentation_def dump_augmentation_def only_keys_def pget_def pget_default_def settle_augmentation_def)
qed (simp add: load_augmentation_def dump_augmentation_def)

lemma pit_status_round [simp]: "pit_status_of (pit_status_value x) = Inr x"
  by (cases x) (simp_all add: pit_status_of_def)

lemma load_ints [simp]: "rmap py_int (map JInt xs) = Inr xs"
  by (induction xs) simp_all

lemma populated_Inr [simp]: "populated x = Inr v \<longleftrightarrow> x = Some v"
  by (cases x) (simp_all add: populated_def)

lemma stored_report:
  assumes "save_pit_haircut_report r = Inr f" "hr_schema_version r = PIT_REPORT_SCHEMA_VERSION"
  shows "load_pit_haircut_report f = Inr (Some (settle_report r))"
proof -
  obtain p where p: "report_to_payload r = Inr p" and f: "f = Json (JObj p)"
    using assms(1) by (auto simp: save_pit_haircut_report_def)
  obtain universe params mean_net haircut coverage feature selection native ic_haircut ic_mean overlap by_basis
    where some: "hr_select_universe r = Some universe" "hr_model_params r = Some params" "hr_mean_net_bp r = Some mean_net"
      "hr_haircut r = Some haircut" "hr_coverage_component r = Some coverage" "hr_feature_component r = Some feature"
      "hr_selection_component r = Some selection" "hr_pit_native_vs_zero r = Some native"
      "hr_rank_ic_haircut r = Some ic_haircut" "hr_rank_ic_mean r = Some ic_mean" "hr_pick_overlap_mean r = Some overlap"
      "hr_haircut_by_index_basis r = Some by_basis"
    using p by (auto simp: report_to_payload_def)
  have keys: "map fst p = REPORT_FIELDS" using p some by (auto simp: report_to_payload_def populated_def REPORT_FIELDS_def)
  then have "only_keys p REPORT_FIELDS" "has_keys p REPORT_FIELDS"
    by (simp_all add: only_keys_def has_keys_def list_all_iff map_of_eq_None_iff flip: keys)
  then show ?thesis
    using p assms(2)
    by (simp add: f load_pit_haircut_report_def as_object_def payload_to_report_def guard_ok_def as_value_error_def)
      (auto simp: report_to_payload_def some populated_def pget_def pget_default_def str_field_def int_field_def
        as_object_def as_list_def jeq_scalar_def PIT_REPORT_SCHEMA_VERSION_def settle_report_def)
qed

text \<open>C32. A decision-time report that can be written, of the supported schema, is read back as
  the same report: every field is kept, numbers that are not finite as not-a-number.\<close>

theorem saved_report_loads:
  assumes "save_pit_haircut_report r = Inr f" "hr_schema_version r = PIT_REPORT_SCHEMA_VERSION"
  shows "load_pit_haircut_report f = Inr (Some (settle_report r))"
  by (rule stored_report [OF assms])


section \<open>A first bundle\<close>

definition demo_delta :: PairedDelta where
  "demo_delta = \<lparr>dl_delta = Fin 3, dl_ci_low = Fin 1, dl_ci_high = Fin 5, dl_p_value = Fin (1 / 2), dl_n_days = 40\<rparr>"

definition demo_report :: PitHaircutReport where
  "demo_report = \<lparr>hr_schema_version = 1, hr_generated_at = ''2026-03-02T20:00:00+09:00'',
     hr_strategy_id = ''KCA-TOPK-COSTAWARE-002'', hr_strategy_fingerprint = ''f'', hr_top_k = 3,
     hr_select_universe = Some (universe_dict (ss_universe (PRODUCTION_STRATEGY demo_values))),
     hr_feature_contract_version = ''1'', hr_model_params = Some [], hr_seeds = [1], hr_status = PIT_OK,
     hr_panel_date_min = ''2025-09-01'', hr_panel_date_max = ''2026-02-27'', hr_n_usable_days = 100, hr_n_paired_days = 90,
     hr_n_live_days = 90, hr_n_eod_index_days = 0, hr_mean_net_bp = Some [(''pit_native'', Fin 12)],
     hr_haircut = Some demo_delta, hr_coverage_component = Some demo_delta, hr_feature_component = Some demo_delta,
     hr_selection_component = Some demo_delta, hr_pit_native_vs_zero = Some demo_delta,
     hr_rank_ic_mean = Some [(''pit_native'', Fin (1 / 8))], hr_rank_ic_haircut = Some demo_delta,
     hr_pick_overlap_mean = Some [], hr_haircut_by_index_basis = Some [], hr_augmentation = None\<rparr>"

definition demo_report_file :: json_file where
  "demo_report_file = (case save_pit_haircut_report demo_report of Inl _ \<Rightarrow> No_json | Inr f \<Rightarrow> f)"

lemma demo_saved: "save_pit_haircut_report demo_report = Inr demo_report_file"
  by (simp add: demo_report_file_def save_pit_haircut_report_def report_to_payload_def populated_def demo_report_def)

lemma demo_settled: "settle_report demo_report = demo_report"
  by (simp add: settle_report_def demo_report_def settle_delta_def settle_map_def settle_def f_isfinite_def demo_delta_def)

lemma demo_loaded: "load_pit_haircut_report demo_report_file = Inr (Some demo_report)"
  using stored_report [OF demo_saved] by (simp add: demo_settled PIT_REPORT_SCHEMA_VERSION_def) (simp add: demo_report_def)

definition demo_candidate_bundle :: retrain_bundle where
  "demo_candidate_bundle = \<lparr>rb_bundle = demo_bundle, rb_model_params = Some (JObj []), rb_seeds = Some (JList [JInt 1])\<rparr>"

definition demo_training :: retrain_env where
  "demo_training = \<lparr>tx_values = demo_values,
     tx_stats = \<lparr>gs_std = (\<lambda>_. Fin 1), gs_rank_corr = (\<lambda>_ _. Fin 1), gs_mean = (\<lambda>_. Fin 1)\<rparr>,
     tx_train = Inr demo_candidate_bundle, tx_trained_at = ''2026-03-03T02:00:00+09:00'',
     tx_attempted_at = 0, tx_now = 0, tx_stamp = (\<lambda>_. Aware_stamp 0 (kst_date 0)), tx_report = demo_report_file,
     tx_recon = \<lparr>rf_certification = No_json, rf_config_sha = Inl OSError, rf_arm2_sha = Inl OSError, rf_arm2_report = No_json\<rparr>,
     tx_eval_frame = Inr demo_candidates, tx_unpickled = Inr (), tx_save_live = True, tx_save_rejected = True,
     tx_append = True, tx_code_commit = ''c''\<rparr>"

definition demo_trained :: retrain_bundle where
  "demo_trained = demo_candidate_bundle\<lparr>rb_bundle := demo_bundle\<lparr>tb_trained_at := Some ''2026-03-03T02:00:00+09:00''\<rparr>\<rparr>"

lemma demo_trained_parity:
  "assert_bundle_screen_parity demo_values (rb_bundle demo_trained) (ss_universe (PRODUCTION_STRATEGY demo_values)) = Inr ()"
  by (subst parity_iff [where s = "ss_universe (PRODUCTION_STRATEGY demo_values)"])
    (simp_all add: demo_trained_def demo_bundle_def demo_screen_numbers)

lemma demo_screen_equal:
  "jeq (JObj (universe_dict (ss_universe (PRODUCTION_STRATEGY demo_values))))
       (JObj (universe_dict (ss_universe (PRODUCTION_STRATEGY demo_values))))"
  by (simp add: universe_dict_def PRODUCTION_STRATEGY_def KCA_TOPK_COSTAWARE_002_def DEFAULT_UNIVERSE_def
      COST_AWARE_SCREENABLE_UNIVERSE_def demo_values_def MAX_TICK_COST_BP_def jeq_scalar_def)

lemma jeq_empty: "jeq (JObj []) (JObj [])"
  by simp

lemma demo_report_status: "hr_status demo_report = PIT_OK"
  by (simp add: demo_report_def)

lemma demo_mismatch: "pit_mismatch demo_report demo_trained = Inr []"
  using demo_screen_equal
  by (simp add: jeq_empty pit_mismatch_def demo_report_def demo_trained_def demo_candidate_bundle_def demo_bundle_def Let_def differs_def
      jeq_scalar_def resolved_contract_def bundle_feature_contract_version_def LEGACY_FEATURE_CONTRACT_VERSION_def as_sequence_def
      named_if_def del: jeq.simps(2))


lemma demo_pit:
  "evaluate_pit_gate (\<lambda>_. Aware_stamp 0 (kst_date 0)) (pit_gate_config GATE_ENFORCE) 0 (Some demo_report) demo_trained None False []
   = Inr (PIT_PASS, [], ARM_1)"
proof -
  have "pit_failures (pit_gate_config GATE_ENFORCE) demo_report = Inr []"
    by (simp add: pit_failures_def demo_report_def pit_gate_config_def map_value_def undercuts_def f_isfinite_def)
  moreover have "hr_status demo_report = PIT_OK" by (simp add: demo_report_def)
  moreover have "gc_mode (pit_gate_config GATE_ENFORCE) \<noteq> GATE_OFF" "gc_max_report_age_days (pit_gate_config GATE_ENFORCE) = 14"
    by (simp_all add: pit_gate_config_def)
  moreover have "py_strip [] = []" by (simp add: py_strip_def)
  ultimately show ?thesis
    by (simp add: evaluate_pit_gate_def select_pit_report_def evaluate_selected_pit_gate_def demo_mismatch)
qed

lemma demo_structural: "structural_reasons demo_values (rb_bundle demo_trained) demo_candidates = Inr []"
  by (simp add: structural_reasons_def demo_trained_parity)
    (simp add: demo_trained_def demo_bundle_def demo_candidates_def feature_contract_issue_def
      bundle_feature_contract_version_def TOPK_FEATURE_CONTRACT_VERSION_def LEGACY_FEATURE_CONTRACT_VERSION_def when_reason_def)

lemma demo_predictions:
  "predictions (rb_bundle demo_trained) demo_candidates [''chg_ratio''] = Inr [Fin 1, Fin 4, Fin 9, Fin 3, Fin 2]"
  by (simp add: predictions_def demo_trained_def demo_bundle_def demo_model_def features_of_def demo_candidates_def
      demo_candidate_def column_of_length_def)

definition demo_verdict :: PromotionVerdict where
  "demo_verdict = \<lparr>pv_promote = True, pv_reasons = [], pv_agreement = None, pv_pit_status = PIT_PASS,
     pv_pit_reasons = [], pv_pit_arm = ARM_1\<rparr>"

lemma demo_promoted:
  "evaluate_retrain_promotion demo_values (tx_stats demo_training) (pit_gate_config GATE_ENFORCE) (PIT_PASS, [], ARM_1)
     RETRAIN_MIN_PREDICTION_AGREEMENT (rb_bundle demo_trained) None demo_candidates = Inr demo_verdict"
proof -
  have cols: "tb_feature_cols (rb_bundle demo_trained) = [''chg_ratio'']" by (simp add: demo_trained_def demo_bundle_def)
  have "prediction_reasons (tx_stats demo_training) demo_candidates [Fin 1, Fin 4, Fin 9, Fin 3, Fin 2] = []"
    by (simp add: prediction_sound f_isfinite_def demo_training_def constant_day_def f_isnan_def f_le_def list_ex_iff)
  then show ?thesis
    by (simp add: evaluate_retrain_promotion_def demo_structural cols demo_predictions gated_verdict_def demo_verdict_def)
qed

definition demo_meta :: payload where
  "demo_meta = (case pit_certification_metadata (Some demo_report) ''enforce'' ''PASS'' [] ''arm1'' of Inl _ \<Rightarrow> [] | Inr m \<Rightarrow> m)"

definition demo_fresh :: retrain_desk where
  "demo_fresh = \<lparr>td_live = None, td_rejected = None, td_registry = []\<rparr>"

lemma demo_gate: "gate_candidate demo_training GATE_ENFORCE demo_trained demo_fresh = Inr (demo_verdict, demo_meta)"
proof -
  have meta: "pit_certification_metadata (Some demo_report) ''enforce'' ''PASS'' [] ''arm1'' = Inr demo_meta"
    by (simp add: demo_meta_def pit_certification_metadata_def demo_report_def)
  have env: "tx_values demo_training = demo_values" "tx_report demo_training = demo_report_file"
    "tx_stamp demo_training = (\<lambda>_. Aware_stamp 0 (kst_date 0))" "tx_now demo_training = 0"
    "rf_certification (tx_recon demo_training) = No_json" "tx_eval_frame demo_training = Inr demo_candidates"
    by (simp_all add: demo_training_def)
  show ?thesis
    by (simp add: gate_candidate_def Let_def live_report_def env demo_loaded load_recon_pit_selection_def
        load_current_bundle_def demo_fresh_def demo_pit demo_promoted)
      (simp add: demo_verdict_def meta)
qed

text \<open>A second run, on the evidence of an adopted reconstruction.\<close>

definition demo_certificate :: ReconstructionCertification where
  "demo_certificate = \<lparr>rc_schema_version = RECON_CERTIFICATION_SCHEMA_VERSION, rc_generated_at = ''2026-03-02T21:00:00+09:00'',
     rc_exact_dir = ''e'', rc_recon_dir = ''r'', rc_paired_days = [], rc_dropped_days = [],
     rc_coverage_improvement = Some demo_delta, rc_reconstruction_feature = Some demo_delta,
     rc_stability = Some \<lparr>cs_passed = True, cs_rel_err_p90 = Fin 0, cs_coverage = Fin 1, cs_bias_drift = Fin 0,
       cs_alpha_at_boundary = False, cs_n_holdout_rows = 10, cs_detail = []\<rparr>,
     rc_coverage_by_year_and_basis = Some [], rc_bindings = Some \<lparr>bi_decomposition_config_sha256 = replicate 64 CHR ''a'',
       bi_calibration_table_sha256 = replicate 64 CHR ''a'', bi_exact_report_sha256 = replicate 64 CHR ''a'',
       bi_recon_report_sha256 = replicate 64 CHR ''b''\<rparr>,
     rc_fidelity = Some [(''tv_rank_correlation'', Fin 1), (''top_k_overlap'', Fin 1)],
     rc_holdout_start = [], rc_holdout_end = [], rc_gate_config = Some [], rc_gate_verdict = ''ADOPT'', rc_gate_reasons = []\<rparr>"

definition demo_certificate_file :: json_file where
  "demo_certificate_file = (case save_reconstruction_certification demo_certificate of Inl _ \<Rightarrow> No_json | Inr f \<Rightarrow> f)"

definition demo_adopting :: retrain_env where
  "demo_adopting = demo_training\<lparr>tx_recon := \<lparr>rf_certification = demo_certificate_file,
     rf_config_sha = Inr (replicate 64 CHR ''a''), rf_arm2_sha = Inr (replicate 64 CHR ''b''), rf_arm2_report = demo_report_file\<rparr>\<rparr>"

lemma demo_certificate_loads: "load_reconstruction_certification demo_certificate_file = Inr demo_certificate"
proof -
  have digests: "load_binding_digest (JStr (replicate 64 CHR ''a'')) = Inr (replicate 64 CHR ''a'')"
    "load_binding_digest (JStr (replicate 64 CHR ''b'')) = Inr (replicate 64 CHR ''b'')" by code_simp+
  define B where "B = \<lparr>bi_decomposition_config_sha256 = replicate 64 CHR ''a'',
       bi_calibration_table_sha256 = replicate 64 CHR ''a'', bi_exact_report_sha256 = replicate 64 CHR ''a'',
       bi_recon_report_sha256 = replicate 64 CHR ''b''\<rparr>"
  define S where "S = \<lparr>cs_passed = True, cs_rel_err_p90 = Fin 0, cs_coverage = Fin 1, cs_bias_drift = Fin 0,
       cs_alpha_at_boundary = False, cs_n_holdout_rows = 10, cs_detail = []\<rparr>"
  have bindings: "load_bindings (dump_bindings B) = Inr B"
    by (simp add: load_bindings_def dump_bindings_def B_def as_object_def only_keys_def has_keys_def BINDING_FIELDS_def
        guard_ok_def pget_def digests del: replicate.simps)
  have stability: "load_stability (dump_stability S) = Inr (Some S)"
    by (simp add: load_stability_def dump_stability_def S_def only_keys_def as_bool_def pget_def pget_default_def
        int_field_def as_value_error_def settle_def str_field_def)
  have settled: "settle_delta demo_delta = demo_delta" "settle_map [(''tv_rank_correlation'', Fin 1), (''top_k_overlap'', Fin 1)]
      = [(''tv_rank_correlation'', Fin 1), (''top_k_overlap'', Fin 1)]" "settle_map [] = []"
    by (simp_all add: settle_delta_def demo_delta_def settle_map_def settle_def)
  define P where "P = [(''schema_version'', JInt RECON_CERTIFICATION_SCHEMA_VERSION),
       (''generated_at'', JStr ''2026-03-02T21:00:00+09:00''), (''exact_dir'', JStr ''e''), (''recon_dir'', JStr ''r''),
       (''paired_days'', JList []), (''dropped_days'', JList []),
       (''coverage_improvement'', dump_delta demo_delta), (''reconstruction_feature'', dump_delta demo_delta),
       (''stability'', dump_stability S), (''coverage_by_year_and_basis'', JObj []), (''bindings'', dump_bindings B),
       (''fidelity'', dump_float_map [(''tv_rank_correlation'', Fin 1), (''top_k_overlap'', Fin 1)]),
       (''holdout_start'', JStr []), (''holdout_end'', JStr []), (''gate_config'', dump_float_map []),
       (''gate_verdict'', JStr ''ADOPT''), (''gate_reasons'', JList [])]"
  have cert: "demo_certificate = \<lparr>rc_schema_version = RECON_CERTIFICATION_SCHEMA_VERSION, rc_generated_at = ''2026-03-02T21:00:00+09:00'',
     rc_exact_dir = ''e'', rc_recon_dir = ''r'', rc_paired_days = [], rc_dropped_days = [],
     rc_coverage_improvement = Some demo_delta, rc_reconstruction_feature = Some demo_delta, rc_stability = Some S,
     rc_coverage_by_year_and_basis = Some [], rc_bindings = Some B,
     rc_fidelity = Some [(''tv_rank_correlation'', Fin 1), (''top_k_overlap'', Fin 1)],
     rc_holdout_start = [], rc_holdout_end = [], rc_gate_config = Some [], rc_gate_verdict = ''ADOPT'', rc_gate_reasons = []\<rparr>"
    by (simp add: demo_certificate_def B_def S_def)
  have "cert_to_payload demo_certificate = Inr P"
    by (simp add: cert_to_payload_def populated_def cert P_def)
  then have stored: "demo_certificate_file = Json (JObj P)"
    by (simp add: demo_certificate_file_def save_reconstruction_certification_def)
  have keys: "only_keys P CERT_FIELDS" "has_keys P CERT_FIELDS"
    by (simp_all add: only_keys_def has_keys_def CERT_FIELDS_def P_def)
  have gets: "pget P ''schema_version'' = JInt RECON_CERTIFICATION_SCHEMA_VERSION" "pget P ''paired_days'' = JList []"
    "pget P ''dropped_days'' = JList []" "pget P ''gate_reasons'' = JList []" "pget P ''coverage_by_year_and_basis'' = JObj []"
    "pget P ''coverage_improvement'' = dump_delta demo_delta" "pget P ''reconstruction_feature'' = dump_delta demo_delta"
    "pget P ''stability'' = dump_stability S" "pget P ''bindings'' = dump_bindings B"
    "pget P ''fidelity'' = dump_float_map [(''tv_rank_correlation'', Fin 1), (''top_k_overlap'', Fin 1)]"
    "pget P ''gate_config'' = dump_float_map []"
    by (simp_all add: P_def pget_def)
  have strs: "str_field P ''gate_verdict'' = ''ADOPT''" "str_field P ''generated_at'' = ''2026-03-02T21:00:00+09:00''"
    "str_field P ''exact_dir'' = ''e''" "str_field P ''recon_dir'' = ''r''" "str_field P ''holdout_start'' = []"
    "str_field P ''holdout_end'' = []"
    by (simp_all add: P_def str_field_def pget_default_def)
  show ?thesis
    by (simp add: stored load_reconstruction_certification_def as_value_error_def as_object_def cert_from_payload_def
        guard_ok_def keys gets strs bindings stability settled load_str_tuple_def as_list_def jeq_scalar_def cert)
qed

lemma demo_adopts:
  "load_recon_pit_selection (tx_stamp demo_adopting) (tx_recon demo_adopting) (Some demo_report) 0 14
   = Inr (Some demo_report, True, ''verdict ADOPT'')"
proof -
  have "passes_adoption demo_certificate"
    using rnd64_mono [of "95 / 100" 1] rnd64_mono [of "9 / 10" 1] rnd64_of_int [of 1]
      rnd64_nonneg [of "15 / 100"] rnd64_nonneg [of "3 / 100"]
    by (simp add: passes_adoption_def demo_certificate_def demo_delta_def)
  then have passed: "evaluate_reconstruction_gate RECONSTRUCTION_GATE demo_delta demo_delta
      (the (rc_stability demo_certificate)) (Fin 1) (Fin 1) = []"
    using recheck_passes [of demo_certificate demo_delta demo_delta "the (rc_stability demo_certificate)"
        "[(''tv_rank_correlation'', Fin 1), (''top_k_overlap'', Fin 1)]"]
    by (simp add: demo_certificate_def map_value_def)
  have env: "rf_certification (tx_recon demo_adopting) = demo_certificate_file"
    "rf_config_sha (tx_recon demo_adopting) = Inr (replicate 64 CHR ''a'')"
    "rf_arm2_sha (tx_recon demo_adopting) = Inr (replicate 64 CHR ''b'')"
    "rf_arm2_report (tx_recon demo_adopting) = demo_report_file"
    "tx_stamp demo_adopting = (\<lambda>_. Aware_stamp 0 (kst_date 0))"
    by (simp_all add: demo_adopting_def demo_training_def)
  have there: "demo_certificate_file \<noteq> No_json"
    using demo_certificate_loads by (auto simp: load_reconstruction_certification_def)
  obtain l where l: "report_identity demo_report = Inr l" by (simp add: report_identity_def demo_report_def)
  have same: "filter (\<lambda>k. \<not> jeq (pget l k) (pget l k)) (map fst l) = []"
    using l demo_screen_equal
    by (auto simp: report_identity_def demo_report_def pget_def jeq_scalar_def jeq_empty simp del: jeq.simps(2))
  have cert: "rc_gate_verdict demo_certificate = ''ADOPT''" "rc_coverage_improvement demo_certificate = Some demo_delta"
    "rc_reconstruction_feature demo_certificate = Some demo_delta" "rc_gate_reasons demo_certificate = []"
    "\<exists>s. rc_stability demo_certificate = Some s" "rc_fidelity demo_certificate
      = Some [(''tv_rank_correlation'', Fin 1), (''top_k_overlap'', Fin 1)]"
    "\<exists>b. rc_bindings demo_certificate = Some b \<and> bi_decomposition_config_sha256 b = replicate 64 CHR ''a''
      \<and> bi_recon_report_sha256 b = replicate 64 CHR ''b''"
    by (simp_all add: demo_certificate_def)
  show ?thesis
    using there cert passed same
    by (auto simp: load_recon_pit_selection_def env demo_certificate_loads demo_loaded l Let_def map_value_def
        demo_report_status day_ns_def simp del: replicate.simps)
qed

definition demo_adopted :: PromotionVerdict where
  "demo_adopted = demo_verdict\<lparr>pv_pit_reasons := [''pit report arm-2 adopted verdict ADOPT''], pv_pit_arm := ARM_2\<rparr>"

lemma demo_adopted_pit:
  "evaluate_pit_gate (\<lambda>_. Aware_stamp 0 (kst_date 0)) (pit_gate_config GATE_ENFORCE) 0 (Some demo_report) demo_trained
     (Some demo_report) True ''verdict ADOPT'' = Inr (PIT_PASS, [''pit report arm-2 adopted verdict ADOPT''], ARM_2)"
proof -
  have "pit_failures (pit_gate_config GATE_ENFORCE) demo_report = Inr []"
    by (simp add: pit_failures_def demo_report_def pit_gate_config_def map_value_def undercuts_def f_isfinite_def)
  moreover have "gc_mode (pit_gate_config GATE_ENFORCE) \<noteq> GATE_OFF" "gc_max_report_age_days (pit_gate_config GATE_ENFORCE) = 14"
    by (simp_all add: pit_gate_config_def)
  moreover have "py_strip ''verdict ADOPT'' = ''verdict ADOPT''" by code_simp
  ultimately show ?thesis
    by (simp add: evaluate_pit_gate_def select_pit_report_def evaluate_selected_pit_gate_def demo_mismatch demo_report_status)
qed

lemma demo_adopted_gate: "\<exists>meta. gate_candidate demo_adopting GATE_ENFORCE demo_trained demo_fresh = Inr (demo_adopted, meta)"
proof -
  have cols: "tb_feature_cols (rb_bundle demo_trained) = [''chg_ratio'']" by (simp add: demo_trained_def demo_bundle_def)
  have sound: "prediction_reasons (tx_stats demo_training) demo_candidates [Fin 1, Fin 4, Fin 9, Fin 3, Fin 2] = []"
    by (simp add: prediction_sound f_isfinite_def demo_training_def constant_day_def f_isnan_def f_le_def list_ex_iff)
  have promoted: "evaluate_retrain_promotion demo_values (tx_stats demo_training) (pit_gate_config GATE_ENFORCE)
      (PIT_PASS, [''pit report arm-2 adopted verdict ADOPT''], ARM_2)
      RETRAIN_MIN_PREDICTION_AGREEMENT (rb_bundle demo_trained) None demo_candidates = Inr demo_adopted"
    by (simp add: evaluate_retrain_promotion_def demo_structural cols demo_predictions gated_verdict_def sound demo_adopted_def
        demo_verdict_def)
  obtain meta where meta: "pit_certification_metadata (Some demo_report) ''enforce'' ''PASS''
      [''pit report arm-2 adopted verdict ADOPT''] ''arm2'' = Inr meta"
    by (simp add: pit_certification_metadata_def demo_report_def)
  have env: "tx_values demo_adopting = demo_values" "tx_stats demo_adopting = tx_stats demo_training"
    "tx_report demo_adopting = demo_report_file" "tx_now demo_adopting = 0" "tx_attempted_at demo_adopting = 0"
    "tx_eval_frame demo_adopting = Inr demo_candidates" "gc_max_report_age_days (pit_gate_config GATE_ENFORCE) = 14"
    by (simp_all add: demo_adopting_def demo_training_def pit_gate_config_def)
  have stamp: "tx_stamp demo_adopting = (\<lambda>_. Aware_stamp 0 (kst_date 0))" by (simp add: demo_adopting_def demo_training_def)
  have "gate_candidate demo_adopting GATE_ENFORCE demo_trained demo_fresh = Inr (demo_adopted, meta)"
    by (simp add: gate_candidate_def Let_def live_report_def env demo_loaded load_current_bundle_def demo_fresh_def
        demo_adopts [unfolded stamp] demo_adopted_pit stamp promoted)
      (simp add: demo_adopted_def demo_verdict_def meta)
  then show ?thesis by blast
qed

text \<open>Both ways to be promoted: on the live report, and on an adopted reconstruction.\<close>

theorem enforced_promotion_has_evidence_witness:
  "gate_candidate demo_training GATE_ENFORCE demo_trained demo_fresh = Inr (demo_verdict, demo_meta) \<and> pv_promote demo_verdict
   \<and> current_evidence (tx_stamp demo_training) (pit_gate_config GATE_ENFORCE) 0 demo_trained demo_report
   \<and> (\<exists>meta r. gate_candidate demo_adopting GATE_ENFORCE demo_trained demo_fresh = Inr (demo_adopted, meta)
        \<and> pv_promote demo_adopted \<and> pv_pit_arm demo_adopted = ARM_2
        \<and> current_evidence (tx_stamp demo_adopting) (pit_gate_config GATE_ENFORCE) 0 demo_trained r)
   \<and> adopts (tx_stamp demo_adopting) (tx_recon demo_adopting) 0 14 demo_certificate"
proof -
  obtain meta where gate: "gate_candidate demo_adopting GATE_ENFORCE demo_trained demo_fresh = Inr (demo_adopted, meta)"
    using demo_adopted_gate by blast
  have promoted: "pv_promote demo_verdict" "pv_promote demo_adopted" "pv_pit_arm demo_adopted = ARM_2"
    by (simp_all add: demo_verdict_def demo_adopted_def)
  have times: "tx_now demo_adopting = 0" "tx_now demo_training = 0" "tx_report demo_training = demo_report_file"
    "rf_certification (tx_recon demo_training) = No_json" "rf_certification (tx_recon demo_adopting) = demo_certificate_file"
    by (simp_all add: demo_training_def demo_adopting_def)
  have "current_evidence (tx_stamp demo_training) (pit_gate_config GATE_ENFORCE) 0 demo_trained demo_report"
    using enforced_promotion_has_evidence [OF demo_gate promoted(1)]
    by (auto simp: times load_reconstruction_certification_def demo_loaded)
  moreover have "\<exists>r. current_evidence (tx_stamp demo_adopting) (pit_gate_config GATE_ENFORCE) 0 demo_trained r"
    using enforced_promotion_has_evidence [OF gate promoted(2)] by (auto simp: times)
  moreover have "adopts (tx_stamp demo_adopting) (tx_recon demo_adopting) 0 14 demo_certificate"
    using adopted_reconstruction [OF demo_adopts] by (auto simp: times demo_certificate_loads)
  ultimately show ?thesis using demo_gate gate promoted by blast
qed

lemma demo_trained_run: "train_ranker_bundle demo_training GATE_ENFORCE False demo_fresh = (Inr (),
  \<lparr>td_live = Some (demo_trained, demo_meta), td_rejected = None,
   td_registry = [build_retrain_record demo_training RETRAIN_PROMOTED (rb_bundle demo_trained) None [] False]\<rparr>)"
proof -
  have env: "tx_train demo_training = Inr demo_candidate_bundle" "tx_save_live demo_training" "tx_append demo_training"
    "tx_trained_at demo_training = ''2026-03-03T02:00:00+09:00''"
    by (simp_all add: demo_training_def)
  have c: "demo_candidate_bundle\<lparr>rb_bundle := (rb_bundle demo_candidate_bundle)\<lparr>tb_trained_at := Some ''2026-03-03T02:00:00+09:00''\<rparr>\<rparr> = demo_trained"
    by (simp add: demo_trained_def demo_candidate_bundle_def)
  show ?thesis
    by (simp add: train_ranker_bundle_def env c bnd_def lift_res_def demo_gate Let_def save_live_def append_retrain_record_def
        modify_def guard_ok_def)
      (simp add: demo_verdict_def demo_fresh_def)
qed

theorem gated_runs_keep_servable_bundle_witness:
  "td_live (snd (train_ranker_bundle demo_training GATE_ENFORCE False demo_fresh)) = Some (demo_trained, demo_meta)
   \<and> servable demo_values (rb_bundle demo_trained)"
proof -
  have "gated_history demo_values demo_fresh" by (rule gated_history.unpublished) (simp add: demo_fresh_def)
  moreover have vals: "tx_values demo_training = demo_values" by (simp add: demo_training_def)
  ultimately have "gated_history demo_values (snd (train_ranker_bundle demo_training GATE_ENFORCE False demo_fresh))"
    by (rule gated_history.trained)
  from gated_runs_keep_servable_bundle [OF this vals surjective_pairing, of GATE_ENFORCE] show ?thesis
    by (simp add: demo_trained_run)
qed

theorem saved_report_loads_witness:
  "load_pit_haircut_report demo_report_file = Inr (Some (settle_report demo_report))"
  by (rule saved_report_loads [OF demo_saved]) (simp add: demo_report_def PIT_REPORT_SCHEMA_VERSION_def)

end
