(* ===== verification/Alert_Policy.thy ===== *)
theory Alert_Policy
  imports Session_Clock Market_Session
begin

text \<open>
  \<open>src/tools/alert_policy.py\<close>: which incidents page a human. The policy is pure: a unit, a run
  outcome or an issue key is classified to an incident kind or stays silent, and a classified
  issue is due or not at a moment. The Korean texts of the pages are left out.
\<close>

section \<open>Kinds and tables\<close>

datatype AlertClass = CRITICAL | SILENT

datatype IncidentKind =
    ORDER_ENTRY | ORDER_EXIT | ORDER_RECONCILE_ENTRY | ORDER_RECONCILE_EXIT | COLLECT | PREDICT
  | FINALIZE_CLOSE | PRICE_PANEL_STALE | KIS_TOKEN_WARMUP | KIS_TOKEN_STALE | BACKUP_FAILING
  | KRX_DEFERRED_RECREATE | KSE_PAGE_UNDELIVERED

fun incident_value :: "IncidentKind \<Rightarrow> string" where
  "incident_value ORDER_ENTRY = ''order_entry''"
| "incident_value ORDER_EXIT = ''order_exit''"
| "incident_value ORDER_RECONCILE_ENTRY = ''order_reconcile_entry''"
| "incident_value ORDER_RECONCILE_EXIT = ''order_reconcile_exit''"
| "incident_value COLLECT = ''collect''"
| "incident_value PREDICT = ''predict''"
| "incident_value FINALIZE_CLOSE = ''finalize_close''"
| "incident_value PRICE_PANEL_STALE = ''price_panel_stale''"
| "incident_value KIS_TOKEN_WARMUP = ''kis_token_warmup''"
| "incident_value KIS_TOKEN_STALE = ''kis_token_stale''"
| "incident_value BACKUP_FAILING = ''backup_failing''"
| "incident_value KRX_DEFERRED_RECREATE = ''krx_deferred_recreate''"
| "incident_value KSE_PAGE_UNDELIVERED = ''kse_page_undelivered''"

definition INCIDENT_KINDS :: "IncidentKind list" where
  "INCIDENT_KINDS = [ORDER_ENTRY, ORDER_EXIT, ORDER_RECONCILE_ENTRY, ORDER_RECONCILE_EXIT, COLLECT, PREDICT,
     FINALIZE_CLOSE, PRICE_PANEL_STALE, KIS_TOKEN_WARMUP, KIS_TOKEN_STALE, BACKUP_FAILING,
     KRX_DEFERRED_RECREATE, KSE_PAGE_UNDELIVERED]"

text \<open>\<open>IncidentKind(value)\<close>\<close>

definition incident_of_value :: "string \<Rightarrow> IncidentKind res" where
  "incident_of_value s = (case find (\<lambda>k. incident_value k = s) INCIDENT_KINDS of None \<Rightarrow> Inl ValueError | Some k \<Rightarrow> Inr k)"

datatype SourceScope = SCOPE_OPEN | SCOPE_DAY

fun scope_value :: "SourceScope \<Rightarrow> string" where
  "scope_value SCOPE_OPEN = ''open''"
| "scope_value SCOPE_DAY = ''day''"

record OutcomeRule =
  or_kind :: IncidentKind
  or_outcomes :: "string list"
  or_silent_reasons :: "string list"

text \<open>Durations in nanoseconds, times of day in seconds.\<close>

record AlertPolicyConfig =
  backup_page_after :: int
  kis_token_page_lead :: int
  decision_window_start :: nat
  reminder_earliest :: nat
  max_remediation_hold :: int

definition policy_hour :: int where
  "policy_hour = 3600 * 10 ^ 9"

definition DEFAULT_ALERT_POLICY :: AlertPolicyConfig where
  "DEFAULT_ALERT_POLICY = \<lparr>backup_page_after = 24 * policy_hour, kis_token_page_lead = 2 * policy_hour,
     decision_window_start = snd (at_hhmmss (1, 1, 1) DECISION_WINDOW_START_HHMMSS), reminder_earliest = 8 * 3600,
     max_remediation_hold = 2 * policy_hour\<rparr>"

definition CRITICAL_UNITS :: "(string \<times> IncidentKind) list" where
  "CRITICAL_UNITS =
     [(''kca-order-entry'', ORDER_ENTRY), (''kca-order-exit'', ORDER_EXIT),
      (''kca-order-reconcile-entry'', ORDER_RECONCILE_ENTRY), (''kca-order-reconcile-exit'', ORDER_RECONCILE_EXIT),
      (''kca-collect'', COLLECT), (''kca-predict'', PREDICT), (''kca-finalize-close'', FINALIZE_CLOSE),
      (''kca-kis-token-warmup'', KIS_TOKEN_WARMUP), (''krx-deferred-recreate'', KRX_DEFERRED_RECREATE)]"

definition ALERTED_OUTCOMES :: "string list" where
  "ALERTED_OUTCOMES = [''DEGRADED'', ''NO_DECISION'']"

definition CRITICAL_RUN_OUTCOMES :: "(string \<times> OutcomeRule) list" where
  "CRITICAL_RUN_OUTCOMES =
     [(''order_entry'', \<lparr>or_kind = ORDER_ENTRY, or_outcomes = ALERTED_OUTCOMES, or_silent_reasons = []\<rparr>),
      (''order_exit'', \<lparr>or_kind = ORDER_EXIT, or_outcomes = ALERTED_OUTCOMES, or_silent_reasons = []\<rparr>),
      (''order_reconcile_entry'', \<lparr>or_kind = ORDER_RECONCILE_ENTRY, or_outcomes = ALERTED_OUTCOMES,
         or_silent_reasons = [''partial_or_unfilled'']\<rparr>),
      (''order_reconcile_exit'', \<lparr>or_kind = ORDER_RECONCILE_EXIT, or_outcomes = ALERTED_OUTCOMES, or_silent_reasons = []\<rparr>),
      (''collect'', \<lparr>or_kind = COLLECT, or_outcomes = [''NO_DECISION''], or_silent_reasons = []\<rparr>),
      (''predict'', \<lparr>or_kind = PREDICT, or_outcomes = [''NO_DECISION''], or_silent_reasons = []\<rparr>),
      (''finalize_close'', \<lparr>or_kind = FINALIZE_CLOSE, or_outcomes = [''DEGRADED''],
         or_silent_reasons = [''calendar_unavailable'']\<rparr>)]"

definition PRICE_INGEST_JOB :: string where "PRICE_INGEST_JOB = ''price_ingest''"
definition PRICE_INGEST_STALE_REASON :: string where "PRICE_INGEST_STALE_REASON = ''stale_panel''"

definition BACKUP_FAILING_KEYS :: "string list" where
  "BACKUP_FAILING_KEYS = [''offsite_backup:failed'', ''offsite_backup:missing'', ''offsite_backup:stale'',
     ''offsite_backup:unreadable'', ''offsite_backup:interrupted'']"

definition FAILED_UNIT_PREFIX :: string where "FAILED_UNIT_PREFIX = ''failed_unit:''"
definition STALE_KIS_TOKEN_PREFIX :: string where "STALE_KIS_TOKEN_PREFIX = ''stale_kis_token:''"
definition RUN_SOURCE_PREFIX :: string where "RUN_SOURCE_PREFIX = ''run:''"
definition KSE_ALERT_PREFIX :: string where "KSE_ALERT_PREFIX = ''kse-alert@''"

definition RECONCILE_MEASURED_PREFIXES :: "string list" where
  "RECONCILE_MEASURED_PREFIXES = [FAILED_UNIT_PREFIX @ ''kca-'', ''offsite_backup:'', STALE_KIS_TOKEN_PREFIX]"

definition MEASURED_KINDS :: "IncidentKind list" where
  "MEASURED_KINDS = [KIS_TOKEN_WARMUP, KIS_TOKEN_STALE, BACKUP_FAILING]"

definition incident_scope :: "IncidentKind \<Rightarrow> SourceScope" where
  "incident_scope kind = (if kind \<in> set MEASURED_KINDS then SCOPE_OPEN else SCOPE_DAY)"

section \<open>Classification\<close>

definition starts_with :: "string \<Rightarrow> string \<Rightarrow> bool" where
  "starts_with p s \<longleftrightarrow> take (length p) s = p"

definition ends_with :: "string \<Rightarrow> string \<Rightarrow> bool" where
  "ends_with q s \<longleftrightarrow> length q \<le> length s \<and> drop (length s - length q) s = q"

definition UNIT_SUFFIX :: string where "UNIT_SUFFIX = ''.service''"

text \<open>The loop that strips every trailing suffix.\<close>

function strip_suffixes :: "string \<Rightarrow> string" where
  "strip_suffixes name = (if ends_with UNIT_SUFFIX name
     then strip_suffixes (take (length name - length UNIT_SUFFIX) name) else name)"
  by auto

termination
  by (relation "measure length") (auto simp: ends_with_def UNIT_SUFFIX_def)

declare strip_suffixes.simps [simp del]

definition unit_base_name :: "string \<Rightarrow> string" where
  "unit_base_name u = strip_suffixes (py_strip u)"

definition classify_unit :: "string \<Rightarrow> IncidentKind option" where
  "classify_unit u = (let base = unit_base_name u in
     if starts_with KSE_ALERT_PREFIX base then Some KSE_PAGE_UNDELIVERED
     else map_of CRITICAL_UNITS base)"

definition classify_run_outcome :: "string \<Rightarrow> string \<Rightarrow> string \<Rightarrow> IncidentKind option" where
  "classify_run_outcome job outcome reason =
     (if job = PRICE_INGEST_JOB then
        (if outcome = ''DEGRADED'' \<and> reason = PRICE_INGEST_STALE_REASON then Some PRICE_PANEL_STALE else None)
      else case map_of CRITICAL_RUN_OUTCOMES job of
        None \<Rightarrow> None
      | Some rule \<Rightarrow>
          if outcome \<notin> set (or_outcomes rule) \<or> reason \<in> set (or_silent_reasons rule) then None
          else Some (or_kind rule))"

definition classify_issue_key :: "string \<Rightarrow> IncidentKind option" where
  "classify_issue_key key =
     (if starts_with FAILED_UNIT_PREFIX key then classify_unit (drop (length FAILED_UNIT_PREFIX) key)
      else if starts_with STALE_KIS_TOKEN_PREFIX key then Some KIS_TOKEN_STALE
      else if key \<in> set BACKUP_FAILING_KEYS then Some BACKUP_FAILING
      else None)"

definition issue_page_due :: "AlertPolicyConfig \<Rightarrow> IncidentKind \<Rightarrow> int \<Rightarrow> int \<Rightarrow> bool" where
  "issue_page_due cfg kind first_seen now =
     (if kind = BACKUP_FAILING then backup_page_after cfg \<le> now - first_seen
      else if kind = KIS_TOKEN_STALE then
        (let window_start = instant (kst_date now) (decision_window_start cfg)
         in window_start - kis_token_page_lead cfg \<le> now \<and> now < window_start)
      else True)"

definition alert_class_of_unit :: "string \<Rightarrow> AlertClass" where
  "alert_class_of_unit u = (if classify_unit u \<noteq> None then CRITICAL else SILENT)"

section \<open>Facts\<close>

lemma incident_value_inj: "incident_value a = incident_value b \<longleftrightarrow> a = b"
  by (cases a; cases b) simp_all

lemma incident_of_value_round [simp]: "incident_of_value (incident_value k) = Inr k"
  by (cases k) (simp_all add: incident_of_value_def INCIDENT_KINDS_def)

lemma strip_suffixes_clean: "\<not> ends_with UNIT_SUFFIX (strip_suffixes name)"
proof (induction name rule: strip_suffixes.induct)
  case (1 name)
  then show ?case by (subst strip_suffixes.simps) simp
qed

text \<open>Only measured kinds come from issue keys with an open scope; the reconcile tick measures them.\<close>

lemma run_outcome_kind:
  "classify_run_outcome job outcome reason = Some k \<Longrightarrow> classify_run_outcome job outcome' reason' = Some k' \<Longrightarrow> k = k'"
  by (auto simp: classify_run_outcome_def split: option.splits if_splits)

lemma run_outcome_scope: "classify_run_outcome job outcome reason = Some k \<Longrightarrow> incident_scope k = SCOPE_DAY"
  by (auto simp: classify_run_outcome_def CRITICAL_RUN_OUTCOMES_def incident_scope_def MEASURED_KINDS_def
      split: option.split_asm if_split_asm)

end
