(* ===== verification/Incident_Pager.thy ===== *)
theory Incident_Pager
  imports Alert_Policy
begin

text \<open>
  \<open>src/tools/incident_pager.py\<close>: one mail per incident kind and day, kept in a ledger that
  every operation reads, changes and writes under a lock. The ledger file is kept as its two
  decoded maps; a value of an entry that is the ISO text of an aware moment is kept as that
  moment, any other as its text. A mail is its kind: the texts are left out. What the disk
  and the lock do in one operation is a parameter of it.
\<close>

section \<open>The ledger\<close>

datatype entry_text = Txt string | Iso int

type_synonym entry = "(string \<times> entry_text) list"

record incident_ledger =
  led_sources :: "(string \<times> entry) list"
  led_pages :: "(string \<times> entry) list"

datatype ledger_file = No_ledger | Ledger_unreadable | Ledger_malformed | Ledger_file incident_ledger

datatype PageDecision = SENT | DEDUPED | REMINDER_WAIT

datatype mail = Page_mail IncidentKind | Resolved_mail IncidentKind

record pager =
  pg_file :: ledger_file
  pg_mails :: "mail list"

record pager_io =
  io_locked :: bool
  io_saved :: bool

definition entry_text_is :: "entry \<Rightarrow> string \<Rightarrow> string \<Rightarrow> bool" where
  "entry_text_is e k v \<longleftrightarrow> map_of e k = Some (Txt v)"

text \<open>The text of \<open>entry.get("day", "")\<close>; the ISO text of a moment starts with its date.\<close>

definition entry_day :: "entry \<Rightarrow> string" where
  "entry_day e = (case map_of e ''day'' of
     None \<Rightarrow> [] | Some (Txt s) \<Rightarrow> s | Some (Iso t) \<Rightarrow> iso_str (kst_date t) @ ''T'')"

definition kst_day :: "int \<Rightarrow> string" where
  "kst_day now = iso_str (kst_date now)"

definition load_ledger :: "ledger_file \<Rightarrow> incident_ledger res" where
  "load_ledger f = (case f of
     No_ledger \<Rightarrow> Inr \<lparr>led_sources = [], led_pages = []\<rparr>
   | Ledger_unreadable \<Rightarrow> Inl OSError
   | Ledger_malformed \<Rightarrow> Inl ValueError
   | Ledger_file l \<Rightarrow> Inr l)"

text \<open>\<open>_rollover\<close>: day sources of an earlier day go, then the pages of kinds with no source left.\<close>

definition expired :: "string \<Rightarrow> entry \<Rightarrow> bool" where
  "expired today e \<longleftrightarrow> entry_text_is e ''scope'' (scope_value SCOPE_DAY) \<and> entry_day e < today"

definition has_kind :: "string \<Rightarrow> (string \<times> entry) list \<Rightarrow> bool" where
  "has_kind kind sources \<longleftrightarrow> (\<exists>p\<in>set sources. entry_text_is (snd p) ''kind'' kind)"

definition rollover :: "incident_ledger \<Rightarrow> string \<Rightarrow> incident_ledger" where
  "rollover l today = (let sources = filter (\<lambda>p. \<not> expired today (snd p)) (led_sources l) in
     \<lparr>led_sources = sources, led_pages = filter (\<lambda>p. has_kind (fst p) sources) (led_pages l)\<rparr>)"

text \<open>\<open>_mutate\<close>: lock, load, roll over, change, save.\<close>

definition mutate ::
    "pager_io \<Rightarrow> int \<Rightarrow> (incident_ledger \<Rightarrow> string \<Rightarrow> ('a \<times> incident_ledger) res) \<Rightarrow> (pager, 'a) eff" where
  "mutate io now change =
     bnd (lift_res (\<lambda>_. guard_ok (io_locked io) StoreLockTimeoutError)) (\<lambda>_.
     bnd (lift_res (\<lambda>s. rbind (load_ledger (pg_file s)) (\<lambda>l.
            let today = kst_day now in change (rollover l today) today))) (\<lambda>(result, l).
     bnd (lift_res (\<lambda>_. guard_ok (io_saved io) OSError)) (\<lambda>_.
     bnd (modify (\<lambda>s. s\<lparr>pg_file := Ledger_file l\<rparr>)) (\<lambda>_.
     ret result))))"

definition ledger_error :: "exn \<Rightarrow> bool" where
  "ledger_error e \<longleftrightarrow> is_os_error e \<or> is_value_error e"

section \<open>Operations\<close>

definition new_entry :: "IncidentKind \<Rightarrow> SourceScope \<Rightarrow> int \<Rightarrow> string \<Rightarrow> entry" where
  "new_entry kind scope now today = [(''kind'', Txt (incident_value kind)), (''scope'', Txt (scope_value scope)),
     (''first_seen'', Iso now), (''day'', Txt today)]"

text \<open>\<open>setdefault\<close> and the day of the sighting.\<close>

definition sighting ::
    "IncidentKind \<Rightarrow> string \<Rightarrow> SourceScope \<Rightarrow> int \<Rightarrow> incident_ledger \<Rightarrow> string \<Rightarrow> entry \<times> incident_ledger" where
  "sighting kind source scope now l today =
     (let e = (case map_of (led_sources l) source of None \<Rightarrow> new_entry kind scope now today | Some e \<Rightarrow> e);
          e' = dset ''day'' (Txt today) e
      in (e', l\<lparr>led_sources := dset source e' (led_sources l)\<rparr>))"

definition entry_moment :: "entry \<Rightarrow> string \<Rightarrow> int res" where
  "entry_moment e k = (case map_of e k of
     None \<Rightarrow> Inl KeyError | Some (Iso t) \<Rightarrow> Inr t | Some (Txt _) \<Rightarrow> Inl ValueError)"

definition first_seen_of :: "ledger_file \<Rightarrow> string \<Rightarrow> int option res" where
  "first_seen_of f source = (case load_ledger f of
     Inl e \<Rightarrow> if ledger_error e then Inr None else Inl e
   | Inr l \<Rightarrow> (case map_of (led_sources l) source of
       None \<Rightarrow> Inr None
     | Some e \<Rightarrow> (case entry_moment e ''first_seen'' of
         Inr t \<Rightarrow> Inr (Some t)
       | Inl x \<Rightarrow> if x = KeyError \<or> is_value_error x then Inr None else Inl x)))"

definition observe :: "pager_io \<Rightarrow> IncidentKind \<Rightarrow> string \<Rightarrow> SourceScope \<Rightarrow> int \<Rightarrow> (pager, int) eff" where
  "observe io kind source scope now =
     catch_when ledger_error
       (mutate io now (\<lambda>l today. case sighting kind source scope now l today of (e, l') \<Rightarrow>
          rbind (entry_moment e ''first_seen'') (\<lambda>t. Inr (t, l'))))
       (\<lambda>_. ret now)"

text \<open>The decision of a page request on the rolled-over ledger.\<close>

definition page_change ::
    "AlertPolicyConfig \<Rightarrow> IncidentKind \<Rightarrow> string \<Rightarrow> SourceScope \<Rightarrow> int \<Rightarrow> incident_ledger \<Rightarrow> string
     \<Rightarrow> PageDecision \<times> incident_ledger" where
  "page_change cfg kind source scope now l today =
     (let l' = snd (sighting kind source scope now l today) in
      case map_of (led_pages l') (incident_value kind) of
        Some previous \<Rightarrow>
          (if entry_text_is previous ''day'' today then (DEDUPED, l')
           else if second_of_day now < reminder_earliest cfg then (REMINDER_WAIT, l')
           else (SENT, l'\<lparr>led_pages := dset (incident_value kind) [(''day'', Txt today), (''at'', Iso now)] (led_pages l')\<rparr>))
      | None \<Rightarrow>
          (SENT, l'\<lparr>led_pages := dset (incident_value kind) [(''day'', Txt today), (''at'', Iso now)] (led_pages l')\<rparr>))"

definition send_mail :: "mail \<Rightarrow> (pager, unit) eff" where
  "send_mail m = modify (\<lambda>s. s\<lparr>pg_mails := pg_mails s @ [m]\<rparr>)"

definition page ::
    "AlertPolicyConfig \<Rightarrow> pager_io \<Rightarrow> IncidentKind \<Rightarrow> string \<Rightarrow> SourceScope \<Rightarrow> int \<Rightarrow> (pager, PageDecision) eff" where
  "page cfg io kind source scope now =
     bnd (catch_when ledger_error
            (mutate io now (\<lambda>l today. Inr (page_change cfg kind source scope now l today)))
            (\<lambda>_. ret SENT)) (\<lambda>decision.
     if decision = SENT then bnd (send_mail (Page_mail kind)) (\<lambda>_. ret decision) else ret decision)"

text \<open>
  \<open>resolve\<close>: the sources go; a kind they named that has no source left and was paged is
  resolved, in the order of the kinds' values.
\<close>

fun detach :: "string list \<Rightarrow> (string \<times> entry) list \<Rightarrow> (string list \<times> (string \<times> entry) list) res" where
  "detach [] sources = Inr ([], sources)"
| "detach (src # wanted) sources = (case map_of sources src of
     None \<Rightarrow> detach wanted sources
   | Some e \<Rightarrow> (case map_of e ''kind'' of
       None \<Rightarrow> Inl KeyError
     | Some k \<Rightarrow>
         rbind (detach wanted (filter (\<lambda>p. fst p \<noteq> src) sources)) (\<lambda>(kinds, rest).
         Inr ((case k of Txt s \<Rightarrow> s | Iso t \<Rightarrow> iso_str (kst_date t)) # kinds, rest))))"

definition resolve_change :: "string list \<Rightarrow> incident_ledger \<Rightarrow> (IncidentKind list \<times> incident_ledger) res" where
  "resolve_change wanted l =
     rbind (detach wanted (led_sources l)) (\<lambda>(touched, sources).
     let gone = filter (\<lambda>k. \<not> has_kind k sources) (remdups touched);
         done = sort (filter (\<lambda>k. map_of (led_pages l) k \<noteq> None) gone);
         pages = filter (\<lambda>p. fst p \<notin> set gone) (led_pages l)
     in rbind (rmap incident_of_value done) (\<lambda>kinds.
        Inr (kinds, \<lparr>led_sources = sources, led_pages = pages\<rparr>)))"

definition resolve_sources :: "pager_io \<Rightarrow> string list \<Rightarrow> int \<Rightarrow> (pager, IncidentKind list) eff" where
  "resolve_sources io sources now =
     (let wanted = remdups sources in
      if wanted = [] then ret []
      else bnd (gets (\<lambda>s. pg_file s \<noteq> No_ledger)) (\<lambda>there.
        if \<not> there then ret []
        else bnd (catch_when ledger_error
               (mutate io now (\<lambda>l today. resolve_change wanted l)) (\<lambda>_. ret [])) (\<lambda>resolved.
             bnd (for_each resolved (\<lambda>k. send_mail (Resolved_mail k))) (\<lambda>_. ret resolved))))"

definition resolve_absent_sources :: "pager_io \<Rightarrow> string list \<Rightarrow> string list \<Rightarrow> int \<Rightarrow> (pager, IncidentKind list) eff" where
  "resolve_absent_sources io open_keys prefixes now =
     bnd (gets (\<lambda>s. load_ledger (pg_file s))) (\<lambda>r. case r of
       Inl e \<Rightarrow> if ledger_error e then ret [] else throw e
     | Inr l \<Rightarrow>
         let gone = map fst (filter (\<lambda>(src, e). entry_text_is e ''scope'' (scope_value SCOPE_OPEN)
               \<and> list_ex (\<lambda>p. starts_with p src) prefixes \<and> src \<notin> set open_keys) (led_sources l))
         in resolve_sources io gone now)"

datatype page_status = Not_due | Held | Paged PageDecision

text \<open>\<open>page_issue_keys\<close>: the io of each call by its key.\<close>

fun page_keys ::
    "AlertPolicyConfig \<Rightarrow> (string \<Rightarrow> pager_io) \<Rightarrow> (string \<Rightarrow> int \<Rightarrow> bool) \<Rightarrow> int \<Rightarrow> string list
     \<Rightarrow> (string \<times> page_status) list \<Rightarrow> (pager, (string \<times> page_status) list) eff" where
  "page_keys cfg io pending now [] statuses = ret statuses"
| "page_keys cfg io pending now (key # keys) statuses = (case classify_issue_key key of
     None \<Rightarrow> page_keys cfg io pending now keys statuses
   | Some kind \<Rightarrow>
       if incident_scope kind \<noteq> SCOPE_OPEN then page_keys cfg io pending now keys statuses
       else bnd (observe (io key) kind key SCOPE_OPEN now) (\<lambda>seen.
         if \<not> issue_page_due cfg kind seen now then page_keys cfg io pending now keys (statuses @ [(key, Not_due)])
         else if pending key seen then page_keys cfg io pending now keys (statuses @ [(key, Held)])
         else bnd (page cfg (io key) kind key SCOPE_OPEN now) (\<lambda>d.
              page_keys cfg io pending now keys (statuses @ [(key, Paged d)]))))"

definition page_issue_keys ::
    "AlertPolicyConfig \<Rightarrow> (string \<Rightarrow> pager_io) \<Rightarrow> (string \<Rightarrow> int \<Rightarrow> bool) \<Rightarrow> int \<Rightarrow> string list
     \<Rightarrow> (pager, (string \<times> page_status) list) eff" where
  "page_issue_keys cfg io pending now open_keys = page_keys cfg io pending now (sort (remdups open_keys)) []"

end
