(* ===== verification/Universe_Screen.thy ===== *)
theory Universe_Screen
  imports Strategy_Contract Json_Value
begin

text \<open>
  The decision snapshot and its screens: \<open>src/daily/universe_screen.py\<close>, the admission flag of
  \<open>src/daily/collect.py\<close> (\<open>flag_cost_aware_admission\<close>), the rank pool and the index check of
  \<open>src/daily/predict.py\<close>. A numeric cell is what \<open>pd.to_numeric(errors="coerce")\<close> makes of it, NaN
  for a cell that is no number; \<open>None\<close> is a null of a flag column. The Korean column names are
  the constructors of \<open>snap_col\<close>.
\<close>

section \<open>The snapshot\<close>

datatype snap_col =
    C_code | C_name | C_close | C_prev_close | C_high | C_volume | C_trade_value | C_market_cap
  | C_open | C_low | C_inst_netbuy | C_foreign_netbuy | C_kospi | C_kosdaq | C_market | C_screenable | C_admitted | C_index_failed | C_v_kospi | C_capture_run_id | C_cohort_id | C_available

record snapshot_row =
  sn_code :: string
  sn_name :: string
  sn_close :: fl
  sn_prev_close :: fl
  sn_high :: fl
  sn_volume :: fl
  sn_trade_value :: fl
  sn_market_cap :: fl
  sn_market :: string
  sn_screenable :: "bool option"
  sn_admitted :: "bool option"
  sn_index_failed :: jval
  sn_v_kospi :: fl
  sn_capture_run_id :: string
  sn_cohort_id :: string

record snapshot =
  snap_columns :: "snap_col list"
  snap_rows :: "snapshot_row list"

definition need_columns :: "snap_col list \<Rightarrow> snapshot \<Rightarrow> unit res" where
  "need_columns cs df = guard_ok (set cs \<subseteq> set (snap_columns df)) KeyError"

section \<open>The screen frame\<close>

definition screen_row_of :: "civil \<Rightarrow> snapshot_row \<Rightarrow> screen_row" where
  "screen_row_of d r = (let chg = derive_chg_ratio (sn_close r) (sn_prev_close r) in
     \<lparr>sc_chg_ratio = chg, sc_tv_clean = sn_trade_value r, sc_mc_clean = sn_market_cap r,
      sc_close = sn_close r, sc_volume = sn_volume r,
      sc_is_ceiling = mark_ceiling chg (sn_close r) (sn_high r),
      sc_tick_cost_bp = tick_cost_bp (sn_close r) (Some (toordinal d)) (sn_market r),
      sc_is_screenable = (sn_screenable r = Some True)\<rparr>)"

definition SCREEN_INPUT_COLUMNS :: "snap_col list" where
  "SCREEN_INPUT_COLUMNS = [C_close, C_prev_close, C_high, C_volume, C_trade_value, C_market_cap, C_market]"

definition SCREEN_BASE_COLUMNS :: "string list" where
  "SCREEN_BASE_COLUMNS = [''chg_ratio'', ''is_ceiling'', ''tick_cost_bp'', ''tv_clean'', ''mc_clean'', ''close'', ''volume'']"

definition build_screen_frame :: "snapshot \<Rightarrow> civil \<Rightarrow> screen_frame res" where
  "build_screen_frame df d = rbind (need_columns SCREEN_INPUT_COLUMNS df) (\<lambda>_.
     let rows = map (screen_row_of d) (snap_rows df) in
     if C_screenable \<in> set (snap_columns df) then
       (if list_ex (\<lambda>r. sn_screenable r = None) (snap_rows df) then Inl ValueError
        else Inr \<lparr>sf_columns = SCREEN_BASE_COLUMNS @ [''is_screenable''], sf_rows = rows\<rparr>)
     else Inr \<lparr>sf_columns = SCREEN_BASE_COLUMNS, sf_rows = rows\<rparr>)"

definition PRODUCTION_TRAINING_SCREEN :: "strategy_values \<Rightarrow> UniverseSpec" where
  "PRODUCTION_TRAINING_SCREEN v = training_universe (ss_universe (PRODUCTION_STRATEGY v))"

definition rank_pool_mask :: "snapshot \<Rightarrow> civil \<Rightarrow> UniverseSpec \<Rightarrow> bool list res" where
  "rank_pool_mask df d screen = rbind (build_screen_frame df d) (\<lambda>f. select_universe f screen)"

section \<open>The admission flag\<close>

definition flag_cost_aware_admission :: "snapshot \<Rightarrow> civil \<Rightarrow> UniverseSpec \<Rightarrow> snapshot res" where
  "flag_cost_aware_admission df d screen =
     (if snap_rows df = [] then Inr (df\<lparr>snap_columns := List.insert C_admitted (snap_columns df)\<rparr>)
      else rbind (build_screen_frame df d) (\<lambda>mapped.
           rbind (select_universe mapped screen) (\<lambda>mask.
           Inr \<lparr>snap_columns = List.insert C_admitted (snap_columns df),
                snap_rows = map (\<lambda>(r, m). r\<lparr>sn_admitted := Some m\<rparr>) (zip (snap_rows df) mask)\<rparr>)))"

section \<open>The rank pool\<close>

definition admitted_flag :: "snapshot_row \<Rightarrow> bool" where
  "admitted_flag r \<longleftrightarrow> sn_admitted r = Some True"

definition restrict_to_rank_pool :: "strategy_values \<Rightarrow> snapshot \<Rightarrow> civil \<Rightarrow> snapshot res" where
  "restrict_to_rank_pool v wide d =
     (if snap_rows wide = [] \<or> snap_columns wide = [] then Inl ValueError
      else rbind (rank_pool_mask wide d (PRODUCTION_TRAINING_SCREEN v)) (\<lambda>mask.
           rbind (need_columns [C_admitted, C_code] wide) (\<lambda>_.
           let outside = filter (\<lambda>(r, m). admitted_flag r \<and> \<not> m) (zip (snap_rows wide) mask);
               pool = map fst (filter (\<lambda>(r, m). m) (zip (snap_rows wide) mask))
           in if outside \<noteq> [] then Inl ValueError
              else if pool = [] then Inl ValueError
              else Inr (wide\<lparr>snap_rows := pool\<rparr>))))"

section \<open>The index inputs\<close>

definition validate_index_inputs :: "snapshot \<Rightarrow> unit res" where
  "validate_index_inputs wide =
     (if C_index_failed \<notin> set (snap_columns wide) then Inl ValueError
      else if C_v_kospi \<notin> set (snap_columns wide) then Inl ValueError
      else if list_ex (\<lambda>r. sn_index_failed r \<noteq> JBool False) (snap_rows wide) then Inl ValueError
      else if list_ex (\<lambda>r. \<not> f_isfinite (sn_v_kospi r) \<or> f_le (sn_v_kospi r) (Fin 0)) (snap_rows wide)
        then Inl ValueError
      else Inr ())"

section \<open>Facts\<close>

lemma build_screen_frame_rows:
  "build_screen_frame df d = Inr f \<Longrightarrow> sf_rows f = map (screen_row_of d) (snap_rows df)"
  by (auto simp: build_screen_frame_def Let_def split: if_splits)

lemma rank_pool_mask_Inr:
  "rank_pool_mask df d spec = Inr m \<Longrightarrow> m = map (\<lambda>r. admits spec (screen_row_of d r)) (snap_rows df)"
  by (auto simp: rank_pool_mask_def select_universe_Inr build_screen_frame_rows)

lemma zip_map_right: "zip xs (map f xs) = map (\<lambda>x. (x, f x)) xs"
  by (induction xs) simp_all

lemma filter_zip_map:
  "map fst (filter (\<lambda>(r, m). m) (zip xs (map f xs))) = filter f xs"
  "filter (\<lambda>(r, m). m) (zip xs (map f xs)) = [] \<longleftrightarrow> filter f xs = []"
  by (induction xs) simp_all

lemma list_insert_not_Nil [simp]: "List.insert x xs \<noteq> []"
  by (auto simp: List.insert_def)

lemma screen_row_of_admitted [simp]: "screen_row_of d (r\<lparr>sn_admitted := a\<rparr>) = screen_row_of d r"
  by (simp add: screen_row_of_def Let_def)

text \<open>The flag is the screen's verdict on every row, and nothing else of the snapshot changes.\<close>

lemma flagged_rows:
  assumes "flag_cost_aware_admission df d spec = Inr df'"
  shows "snap_rows df' = map (\<lambda>r. r\<lparr>sn_admitted := Some (admits spec (screen_row_of d r))\<rparr>) (snap_rows df)"
    and "snap_columns df' = List.insert C_admitted (snap_columns df)"
proof -
  show "snap_rows df' = map (\<lambda>r. r\<lparr>sn_admitted := Some (admits spec (screen_row_of d r))\<rparr>) (snap_rows df)"
    using assms by (auto simp: flag_cost_aware_admission_def select_universe_Inr build_screen_frame_rows
        zip_map_right split: if_splits)
  show "snap_columns df' = List.insert C_admitted (snap_columns df)"
    using assms by (auto simp: flag_cost_aware_admission_def split: if_splits)
qed

lemma build_screen_frame_flagged:
  assumes "flag_cost_aware_admission df d spec = Inr df'"
  shows "build_screen_frame df' d = build_screen_frame df d"
proof -
  have same: "map (screen_row_of d) (snap_rows df') = map (screen_row_of d) (snap_rows df)"
    "list_ex (\<lambda>r. sn_screenable r = None) (snap_rows df') = list_ex (\<lambda>r. sn_screenable r = None) (snap_rows df)"
    by (simp_all add: flagged_rows [OF assms] list_ex_iff)
  show ?thesis
    by (simp only: build_screen_frame_def need_columns_def same)
      (simp add: flagged_rows(2) [OF assms] SCREEN_INPUT_COLUMNS_def)
qed

lemma flagged_frame_built:
  "flag_cost_aware_admission df d spec = Inr df' \<Longrightarrow> snap_rows df \<noteq> [] \<Longrightarrow>
   \<exists>f. build_screen_frame df d = Inr f \<and> set (screen_columns spec) \<subseteq> set (sf_columns f)"
  by (auto simp: flag_cost_aware_admission_def select_universe_Inr)

text \<open>
  The snapshot the collector flags with the production screen is never rejected for an
  admitted row outside the training pool; the pool is every row the training screen admits.
\<close>

lemma flagged_pool:
  assumes flag: "flag_cost_aware_admission df d (ss_universe (PRODUCTION_STRATEGY v)) = Inr df'"
    and rows: "snap_rows df \<noteq> []" and code: "C_code \<in> set (snap_columns df)"
  shows "restrict_to_rank_pool v df' d =
    (let pool = filter (\<lambda>r. admits (PRODUCTION_TRAINING_SCREEN v) (screen_row_of d r)) (snap_rows df')
     in if pool = [] then Inl ValueError else Inr (df'\<lparr>snap_rows := pool\<rparr>))"
proof -
  let ?S = "ss_universe (PRODUCTION_STRATEGY v)" and ?T = "PRODUCTION_TRAINING_SCREEN v"
  obtain f where f: "build_screen_frame df' d = Inr f" "set (screen_columns ?S) \<subseteq> set (sf_columns f)"
    using flagged_frame_built [OF flag rows] build_screen_frame_flagged [OF flag] by metis
  have "rank_pool_mask df' d ?T = Inr (map (\<lambda>r. admits ?T (screen_row_of d r)) (snap_rows df'))"
    using f screen_columns_training [of ?S]
    by (auto simp: rank_pool_mask_def select_universe_Inr build_screen_frame_rows PRODUCTION_TRAINING_SCREEN_def)
  moreover have "admits ?T (screen_row_of d r)" if "r \<in> set (snap_rows df')" "admitted_flag r" for r
    using that by (auto simp: flagged_rows [OF flag] admitted_flag_def PRODUCTION_TRAINING_SCREEN_def
        intro: admits_training)
  then have "filter (\<lambda>(r, m). admitted_flag r \<and> \<not> m)
      (zip (snap_rows df') (map (\<lambda>r. admits ?T (screen_row_of d r)) (snap_rows df'))) = []"
    by (auto simp: zip_map_right filter_empty_conv)
  moreover have "snap_rows df' \<noteq> []" "snap_columns df' \<noteq> []"
    using rows code by (auto simp: flagged_rows [OF flag])
  moreover have "need_columns [C_admitted, C_code] df' = Inr ()"
    using code by (simp add: need_columns_def flagged_rows(2) [OF flag])
  ultimately show ?thesis
    by (simp add: restrict_to_rank_pool_def filter_zip_map Let_def)
qed

lemma restrict_to_rank_pool_Inr:
  assumes "restrict_to_rank_pool v wide d = Inr pool"
  shows "snap_rows pool = filter (\<lambda>r. admits (PRODUCTION_TRAINING_SCREEN v) (screen_row_of d r)) (snap_rows wide)"
    and "snap_rows pool \<noteq> []" "snap_columns pool = snap_columns wide"
    and "\<forall>r\<in>set (snap_rows wide). admitted_flag r \<longrightarrow> r \<in> set (snap_rows pool)"
    and "C_admitted \<in> set (snap_columns wide)" "C_code \<in> set (snap_columns wide)"
proof -
  let ?f = "\<lambda>r. admits (PRODUCTION_TRAINING_SCREEN v) (screen_row_of d r)"
  have cols: "{C_admitted, C_code} \<subseteq> set (snap_columns wide)"
    and out: "filter (\<lambda>(r, m). admitted_flag r \<and> \<not> m) (zip (snap_rows wide) (map ?f (snap_rows wide))) = []"
    and pool: "filter ?f (snap_rows wide) \<noteq> []" "pool = wide\<lparr>snap_rows := filter ?f (snap_rows wide)\<rparr>"
    using assms unfolding restrict_to_rank_pool_def
    by (auto simp: Let_def need_columns_def filter_zip_map simp del: map_fst_zip
        dest!: rank_pool_mask_Inr split: if_split_asm)
  have "?f r" if "r \<in> set (snap_rows wide)" "admitted_flag r" for r
    using that out by (auto simp: zip_map_right filter_empty_conv)
  with cols pool show "snap_rows pool = filter ?f (snap_rows wide)" "snap_rows pool \<noteq> []"
    "snap_columns pool = snap_columns wide"
    "\<forall>r\<in>set (snap_rows wide). admitted_flag r \<longrightarrow> r \<in> set (snap_rows pool)"
    "C_admitted \<in> set (snap_columns wide)" "C_code \<in> set (snap_columns wide)" by auto
qed

lemma validate_index_inputs_Inr:
  "validate_index_inputs wide = Inr u \<longleftrightarrow> {C_index_failed, C_v_kospi} \<subseteq> set (snap_columns wide) \<and>
     (\<forall>r\<in>set (snap_rows wide). sn_index_failed r = JBool False \<and> (\<exists>x. sn_v_kospi r = Fin x \<and> 0 < x))"
proof -
  have "(\<not> f_isfinite x \<or> f_le x (Fin 0)) \<longleftrightarrow> \<not> (\<exists>q. x = Fin q \<and> 0 < q)" for x
    by (cases x) (auto simp: f_le_def)
  then show ?thesis by (auto simp: validate_index_inputs_def list_ex_iff)
qed

end
