(* ===== verification/Trading_Calendar.thy ===== *)
theory Trading_Calendar
  imports Session_Clock Json_Value
begin

text \<open>
  \<open>src/data/trading_calendar.py\<close>: the trading-day oracles, the search for the previous trading
  day with the KIS oracle first and the KRX oracle as fallback, and the classification of a
  day. The vendors' answers for a date are parameters; the KRX oracle keeps its answers in a
  cache for the life of the process.
\<close>

datatype day_class = DAY_WEEKEND | DAY_HOLIDAY | DAY_TRADING | DAY_UNKNOWN

fun day_class_str :: "day_class \<Rightarrow> string" where
  "day_class_str DAY_WEEKEND = ''weekend''"
| "day_class_str DAY_HOLIDAY = ''holiday''"
| "day_class_str DAY_TRADING = ''trading''"
| "day_class_str DAY_UNKNOWN = ''unknown''"

definition MAX_PREV_TRADING_DAY_LOOKBACK :: nat where
  "MAX_PREV_TRADING_DAY_LOOKBACK = 15"

text \<open>\<open>strftime("%Y%m%d")\<close>\<close>

definition ymd_str :: "civil \<Rightarrow> string" where
  "ymd_str c = (case c of (y, m, d) \<Rightarrow>
     py_zfill 4 (nat_str y) @ py_zfill 2 (nat_str m) @ py_zfill 2 (nat_str d))"

section \<open>The oracles\<close>

text \<open>The decoded body of the index history: \<open>rt_cd\<close> and the dates of \<open>output2\<close>.\<close>

record index_history =
  ih_rt_cd :: jval
  ih_dates :: "jval list"

definition is_kis_trading_day :: "(string \<Rightarrow> index_history res) \<Rightarrow> civil \<Rightarrow> bool res" where
  "is_kis_trading_day history d = rbind (history (ymd_str d)) (\<lambda>body.
     if ih_rt_cd body \<noteq> JStr ''0'' then Inl RuntimeError
     else Inr (list_ex (\<lambda>v. py_strip (py_str v) = ymd_str d) (ih_dates body)))"

text \<open>\<open>is_krx_trading_day\<close>: the number of rows the exchange publishes for the day, cached.\<close>

type_synonym day_cache = "(string \<times> bool) list"

definition is_krx_trading_day :: "(string \<Rightarrow> nat res) \<Rightarrow> civil \<Rightarrow> (day_cache, bool) eff" where
  "is_krx_trading_day rows d = (let key = ymd_str d in
     bnd (gets (\<lambda>cache. map_of cache key)) (\<lambda>hit. case hit of
       Some v \<Rightarrow> ret v
     | None \<Rightarrow>
         bnd (lift_res (\<lambda>_. rows key)) (\<lambda>n.
         bnd (modify (dset key (0 < n))) (\<lambda>_.
         ret (0 < n)))))"

section \<open>The previous trading day\<close>

text \<open>
  The candidates of the loop are the days \<open>first, first - 1, \<dots>\<close> as ordinals; \<open>fuel\<close> of them are
  tried. A \<open>RuntimeError\<close> of the KIS oracle falls back to the KRX oracle.
\<close>

definition day_open :: "(civil \<Rightarrow> bool res) \<Rightarrow> (civil \<Rightarrow> ('s, bool) eff) \<Rightarrow> civil \<Rightarrow> ('s, bool) eff" where
  "day_open kis krx c = catch_when is_runtime_error (lift_res (\<lambda>_. kis c)) (\<lambda>_. krx c)"

fun search_back :: "(civil \<Rightarrow> bool res) \<Rightarrow> (civil \<Rightarrow> ('s, bool) eff) \<Rightarrow> nat \<Rightarrow> nat \<Rightarrow> ('s, civil) eff" where
  "search_back kis krx 0 n = throw ValueError"
| "search_back kis krx (Suc fuel) n = (let cand = fromordinal n in
     if is_weekend cand then search_back kis krx fuel (n - 1)
     else bnd (day_open kis krx cand) (\<lambda>is_open.
       if is_open then ret cand else search_back kis krx fuel (n - 1)))"

definition resolve_prev_trading_day_kis ::
    "(civil \<Rightarrow> bool res) \<Rightarrow> (civil \<Rightarrow> ('s, bool) eff) \<Rightarrow> civil \<Rightarrow> nat \<Rightarrow> ('s, civil) eff" where
  "resolve_prev_trading_day_kis kis krx d lookback = search_back kis krx lookback (toordinal d - 1)"

section \<open>The class of a day\<close>

definition classify_day :: "civil \<Rightarrow> (civil \<Rightarrow> bool res) \<Rightarrow> day_class res" where
  "classify_day d oracle =
     (if is_weekend d then Inr DAY_WEEKEND
      else case oracle d of
        Inr b \<Rightarrow> Inr (if b then DAY_TRADING else DAY_HOLIDAY)
      | Inl e \<Rightarrow> if is_runtime_error e \<or> is_os_error e \<or> e = ClientError then Inr DAY_UNKNOWN else Inl e)"

section \<open>Facts\<close>

text \<open>
  The day found is a weekday that was answered to be open, and every weekday between it and
  the start of the search was answered to be closed.
\<close>

lemma search_back_result:
  assumes "search_back kis krx fuel n s = (Inr c, s')"
  shows "\<exists>k<fuel. c = fromordinal (n - k) \<and> \<not> is_weekend c
    \<and> (\<exists>t t'. day_open kis krx c t = (Inr True, t'))
    \<and> (\<forall>j<k. \<not> is_weekend (fromordinal (n - j)) \<longrightarrow>
         (\<exists>t t'. day_open kis krx (fromordinal (n - j)) t = (Inr False, t')))"
  using assms
proof (induction fuel arbitrary: n s)
  case 0
  then show ?case by (simp add: throw_def)
next
  case (Suc fuel)
  show ?case
  proof (cases "is_weekend (fromordinal n)")
    case True
    then have "search_back kis krx fuel (n - 1) s = (Inr c, s')" using Suc.prems by (simp add: Let_def)
    from Suc.IH [OF this] obtain k where k: "k < fuel" "c = fromordinal (n - 1 - k)" "\<not> is_weekend c"
        "\<exists>t t'. day_open kis krx c t = (Inr True, t')"
        "\<forall>j<k. \<not> is_weekend (fromordinal (n - 1 - j)) \<longrightarrow>
           (\<exists>t t'. day_open kis krx (fromordinal (n - 1 - j)) t = (Inr False, t'))" by blast
    have "\<forall>j<Suc k. \<not> is_weekend (fromordinal (n - j)) \<longrightarrow>
           (\<exists>t t'. day_open kis krx (fromordinal (n - j)) t = (Inr False, t'))"
      using k(5) True by (auto simp: less_Suc_eq_0_disj)
    then show ?thesis using k by (intro exI [of _ "Suc k"]) auto
  next
    case False
    obtain o1 t where day: "day_open kis krx (fromordinal n) s = (Inr o1, t)"
      and rest: "(if o1 then ret (fromordinal n) else search_back kis krx fuel (n - 1)) t = (Inr c, s')"
      using Suc.prems False by (auto simp: Let_def elim: bndE)
    show ?thesis
    proof (cases o1)
      case True
      then show ?thesis using rest day False by (intro exI [of _ 0]) (auto simp: ret_def)
    next
      case o1: False
      then have "search_back kis krx fuel (n - 1) t = (Inr c, s')" using rest by simp
      from Suc.IH [OF this] obtain k where k: "k < fuel" "c = fromordinal (n - 1 - k)" "\<not> is_weekend c"
          "\<exists>t t'. day_open kis krx c t = (Inr True, t')"
          "\<forall>j<k. \<not> is_weekend (fromordinal (n - 1 - j)) \<longrightarrow>
             (\<exists>t t'. day_open kis krx (fromordinal (n - 1 - j)) t = (Inr False, t'))" by blast
      have "\<forall>j<Suc k. \<not> is_weekend (fromordinal (n - j)) \<longrightarrow>
             (\<exists>t t'. day_open kis krx (fromordinal (n - j)) t = (Inr False, t'))"
        using k(5) day o1 by (auto simp: less_Suc_eq_0_disj)
      then show ?thesis using k by (intro exI [of _ "Suc k"]) auto
    qed
  qed
qed

text \<open>The answers of the exchange are cached: a second question makes no request.\<close>

lemma krx_cache_hit:
  assumes "is_krx_trading_day rows d cache = (Inr v, cache')"
  shows "is_krx_trading_day rows' d cache' = (Inr v, cache')"
  using assms by (auto simp: is_krx_trading_day_def Let_def bnd_def gets_def lift_res_def modify_def ret_def
      split: option.splits prod.splits sum.splits)

lemma classify_day_weekend: "is_weekend d \<Longrightarrow> classify_day d oracle = Inr DAY_WEEKEND"
  by (simp add: classify_day_def)

lemma classify_day_closed:
  "classify_day d oracle = Inr DAY_HOLIDAY \<Longrightarrow> \<not> is_weekend d \<and> oracle d = Inr False"
  by (auto simp: classify_day_def split: sum.splits if_splits)

end
