(* ===== verification/Decision_Run.thy ===== *)
theory Decision_Run
  imports Universe_Screen Topk_Selection Trading_Calendar Paper_Quotes
begin

text \<open>
  \<open>src/daily/predict.py\<close>: the automated decision of a day. The session gate, the ranker
  sleeve over the day's snapshot and the published bundle, and the two stores it writes
  under their locks. The environment gives what one run reads: the strategy store, the
  snapshot the capture store certifies for the date, the bundle file, the price history and
  the derived features of the serving path, the resolved session day, the trading-day oracle,
  the commit, the clock, and whether each store's lock is acquired and each file written.
  Log output and the printed table are left out. An exception text is shortened to its class.
\<close>

section \<open>Environment and stores\<close>

record 'h decision_env =
  de_store_env :: "string option"
  de_store_files :: "store_root \<Rightarrow> store_files"
  de_snapshot :: "civil \<Rightarrow> snapshot res"
  de_bundle_file :: "topk_bundle res option"
  de_history :: "civil \<Rightarrow> 'h res"
  de_features :: "snapshot \<Rightarrow> civil \<Rightarrow> 'h option \<Rightarrow> (string list \<times> (string \<Rightarrow> fl) list) res"
  de_session_day :: "civil \<Rightarrow> session_day res"
  de_trading_day :: "civil \<Rightarrow> bool res"
  de_commit :: string
  de_now :: int
  de_decision_lock :: bool
  de_decision_write :: bool
  de_pool_lock :: bool
  de_pool_write :: bool

datatype 'a stored_file = No_file | Unreadable_file | Stored 'a

record pool_row =
  po_date :: string
  po_symbol :: string
  po_pred :: fl
  po_selected :: bool
  po_name :: "string option"
  po_model_version :: string
  po_rank :: nat
  po_commit :: string

datatype run_outcome = OUT_OK | OUT_DEGRADED | OUT_NO_DECISION | OUT_SKIPPED

record run_event =
  re_job :: string
  re_outcome :: run_outcome
  re_date :: string
  re_reason :: string
  re_picks :: nat

record 'w decision_desk =
  dk_decisions :: "topk_store stored_file"
  dk_pools :: "pool_row list stored_file"
  dk_world :: 'w

text \<open>The recorder bound by \<open>main\<close>: \<open>record_run_outcome("predict", \<dots>)\<close>.\<close>

type_synonym 'w recorder = "(run_event \<Rightarrow> ('w, unit) eff) option"

definition record_event :: "'w recorder \<Rightarrow> run_event \<Rightarrow> ('w decision_desk, unit) eff" where
  "record_event rec e = (case rec of
     None \<Rightarrow> ret ()
   | Some f \<Rightarrow> (\<lambda>s. let (r, w) = f e (dk_world s) in (r, s\<lparr>dk_world := w\<rparr>)))"

section \<open>The sleeve\<close>

text \<open>\<open>load_daily_snapshot\<close> pads the codes.\<close>

definition load_daily_snapshot :: "'h decision_env \<Rightarrow> civil \<Rightarrow> snapshot res" where
  "load_daily_snapshot X d = rbind (de_snapshot X d) (\<lambda>f. Inr (
     if C_code \<in> set (snap_columns f) then f\<lparr>snap_rows := map (\<lambda>r. r\<lparr>sn_code := py_zfill 6 (sn_code r)\<rparr>) (snap_rows f)\<rparr>
     else f))"

definition bundle_model_version :: "topk_bundle \<Rightarrow> string" where
  "bundle_model_version b = (let text = (\<lambda>v. case v of None \<Rightarrow> ''UNKNOWN'' | Some s \<Rightarrow> s) in
     (if tb_strategy_id b = JNull then ''UNKNOWN'' else py_str (tb_strategy_id b))
     @ ''@'' @ text (tb_training_cutoff b) @ ''@'' @ text (tb_trained_at b))"

text \<open>\<open>build_rank_pool_frame\<close>: the pool in descending order of the prediction, ranked from one.\<close>

definition build_rank_pool_frame ::
    "scored_row list \<Rightarrow> topk_pick list \<Rightarrow> (string \<times> string) list \<Rightarrow> string \<Rightarrow> pool_row list" where
  "build_rank_pool_frame scored picks name_map version =
     (let sorted_rows = sort_key score_rank scored;
          chosen = set (map (\<lambda>p. cd_symbol (st_row (pk_row p))) picks)
      in map (\<lambda>(i, r). let s = cd_symbol (st_row r) in
           \<lparr>po_date = [], po_symbol = s, po_pred = st_pred r, po_selected = (s \<in> chosen),
            po_name = map_of name_map s, po_model_version = version, po_rank = i, po_commit = []\<rparr>)
         (zip [1..<Suc (length sorted_rows)] sorted_rows))"

definition needs_history :: "topk_bundle \<Rightarrow> bool" where
  "needs_history b \<longleftrightarrow> set (tb_feature_cols b) \<inter> (set TOPK_HISTORY_FEATURE_COLS \<union> set TOPK_FLOW_FEATURE_COLS) \<noteq> {}"

definition FEATURE_INPUT_COLUMNS :: "snap_col list" where
  "FEATURE_INPUT_COLUMNS = [C_code, C_close, C_prev_close, C_high, C_low, C_open, C_volume, C_trade_value, C_market_cap,
     C_inst_netbuy, C_foreign_netbuy, C_kospi, C_kosdaq, C_v_kospi]"

text \<open>
  \<open>build_topk_ranker_features\<close> (\<open>src/serving/realtime/features.py\<close>): a row per snapshot row, in
  order, with its code, the decision date and its close. The derived columns and their
  values are the parameter \<open>de_features\<close>.
\<close>

definition build_topk_ranker_features :: "'h decision_env \<Rightarrow> snapshot \<Rightarrow> civil \<Rightarrow> 'h option \<Rightarrow> feature_frame res" where
  "build_topk_ranker_features X df d h =
     rbind (guard_ok (set FEATURE_INPUT_COLUMNS \<subseteq> set (snap_columns df)) ValueError) (\<lambda>_.
     rbind (guard_ok (h = None \<or> C_market \<in> set (snap_columns df)) ValueError) (\<lambda>_.
     rbind (de_features X df d h) (\<lambda>(cols, vals).
     rbind (column_of_length (length (snap_rows df)) vals) (\<lambda>vals.
     Inr \<lparr>ff_columns = [''symbol'', ''date'', ''close''] @ cols,
          ff_rows = map (\<lambda>(r, f). \<lparr>cd_symbol = sn_code r, cd_date = d, cd_close = sn_close r,
             cd_admitted = False, cd_value = f\<rparr>) (zip (snap_rows df) vals)\<rparr>))))"

text \<open>The admission flags of the pool become a column of the features.\<close>

definition with_admitted :: "snapshot \<Rightarrow> feature_frame \<Rightarrow> feature_frame res" where
  "with_admitted wide f =
     (if length (ff_rows f) \<noteq> length (snap_rows wide) then Inl ValueError
      else Inr \<lparr>ff_columns = List.insert ''admitted'' (ff_columns f),
                ff_rows = map (\<lambda>(r, w). r\<lparr>cd_admitted := admitted_flag w\<rparr>) (zip (ff_rows f) (snap_rows wide))\<rparr>)"

text \<open>
  The pool copies the provenance of the first pick: \<open>picks[\<dots>].iloc[0]\<close> raises \<open>IndexError\<close> when
  the snapshot carries provenance and nothing was picked.
\<close>

definition PROVENANCE_COLUMNS :: "snap_col list" where
  "PROVENANCE_COLUMNS = [C_capture_run_id, C_cohort_id, C_available]"

definition stamp_provenance :: "snapshot \<Rightarrow> topk_pick list \<Rightarrow> unit res" where
  "stamp_provenance wide picks =
     guard_ok (picks \<noteq> [] \<or> set PROVENANCE_COLUMNS \<inter> set (snap_columns wide) = {}) IndexError"

text \<open>The body of the \<open>try\<close> of \<open>run_topk_ranker_sleeve\<close>: the picks and the ranked pool.\<close>

definition topk_sleeve :: "'h decision_env \<Rightarrow> civil \<Rightarrow> (topk_pick list \<times> pool_row list) res" where
  "topk_sleeve X d =
     rbind (require_production_store (de_store_env X) (de_store_files X)) (\<lambda>v.
     rbind (load_daily_snapshot X d) (\<lambda>snap.
     rbind (restrict_to_rank_pool v snap d) (\<lambda>wide.
     rbind (load_model_bundle (de_bundle_file X)) (\<lambda>b.
     rbind (validate_index_inputs wide) (\<lambda>_.
     rbind (if needs_history b then rbind (de_history X d) (\<lambda>h. Inr (Some h)) else Inr None) (\<lambda>h.
     rbind (build_topk_ranker_features X wide d h) (\<lambda>f0.
     rbind (with_admitted wide f0) (\<lambda>f.
     rbind (case tb_top_k b of None \<Rightarrow> Inl ValueError | Some k \<Rightarrow> py_int k) (\<lambda>top_k.
     rbind (select_topk_equal_weight v f b top_k) (\<lambda>picks.
     rbind (need_columns [C_code, C_name] wide) (\<lambda>_.
     rbind (score_topk_candidates v f b) (\<lambda>scored.
     rbind (stamp_provenance wide picks) (\<lambda>_.
     let names = rev (map (\<lambda>r. (sn_code r, sn_name r)) (snap_rows wide))
     in Inr (picks, build_rank_pool_frame scored picks names (bundle_model_version b)))))))))))))))"

text \<open>\<open>except (FileNotFoundError, ValueError)\<close> makes a failure of it; other exceptions escape.\<close>

datatype sleeve = Sleeve_failed exn | Sleeve "topk_pick list" "pool_row list"

definition run_topk_ranker_sleeve :: "'h decision_env \<Rightarrow> civil \<Rightarrow> sleeve res" where
  "run_topk_ranker_sleeve X d = (case topk_sleeve X d of
     Inr (picks, pool) \<Rightarrow> Inr (Sleeve picks pool)
   | Inl e \<Rightarrow> if e = FileNotFoundError \<or> is_value_error e then Inr (Sleeve_failed e) else Inl e)"

section \<open>The stores\<close>

definition decision_row_of :: "int \<Rightarrow> topk_pick \<Rightarrow> paper_pick" where
  "decision_row_of now p = (let r = pk_row p in
     \<lparr>pp_symbol = cd_symbol (st_row r), pp_allocation = JFloat (pk_allocation p), pp_pred = JFloat (st_pred r),
      pp_close = JFloat (cd_close (st_row r)), pp_decided = Stamp now\<rparr>)"

text \<open>\<open>reindex\<close> gives the rows of a store without a column a null there.\<close>

definition reindexed :: "topk_store \<Rightarrow> (string \<times> paper_pick) list" where
  "reindexed st = map (\<lambda>(d, p). (d, p\<lparr>pp_decided := if ts_has_decided st then pp_decided p else Not_a_stamp,
     pp_pred := if ts_has_pred st then pp_pred p else JFloat NaN\<rparr>)) (ts_rows st)"

abbreviation decision_key :: "string \<times> paper_pick \<Rightarrow> string \<times> string" where
  "decision_key r \<equiv> (fst r, pp_symbol (snd r))"

definition merge_decisions :: "topk_store option \<Rightarrow> (string \<times> paper_pick) list \<Rightarrow> topk_store" where
  "merge_decisions existing out = \<lparr>ts_has_decided = True, ts_has_pred = True,
     ts_rows = (case existing of
       None \<Rightarrow> out
     | Some st \<Rightarrow> if ts_rows st = [] then out else keep_last decision_key (reindexed st @ out))\<rparr>"

definition persist_topk_decision :: "'h decision_env \<Rightarrow> civil \<Rightarrow> topk_pick list \<Rightarrow> ('w decision_desk, nat) eff" where
  "persist_topk_decision X d picks =
     (if picks = [] then ret 0
      else let out = map (\<lambda>p. (iso_str d, decision_row_of (de_now X) p)) picks in
        bnd (lift_res (\<lambda>_. guard_ok (de_decision_lock X) StoreLockTimeoutError)) (\<lambda>_.
        bnd (lift_res (\<lambda>s. case dk_decisions s of
          No_file \<Rightarrow> Inr None
        | Unreadable_file \<Rightarrow> Inl ExistingStoreUnreadableError
        | Stored st \<Rightarrow> Inr (Some st))) (\<lambda>existing.
        bnd (lift_res (\<lambda>_. guard_ok (de_decision_write X) OSError)) (\<lambda>_.
        bnd (modify (\<lambda>s. s\<lparr>dk_decisions := Stored (merge_decisions existing out)\<rparr>)) (\<lambda>_.
        ret (length picks))))))"

abbreviation pool_key :: "pool_row \<Rightarrow> string \<times> string" where
  "pool_key r \<equiv> (po_date r, po_symbol r)"

definition persist_rank_pool_predictions ::
    "'h decision_env \<Rightarrow> civil \<Rightarrow> pool_row list \<Rightarrow> ('w decision_desk, nat) eff" where
  "persist_rank_pool_predictions X d pool =
     (if pool = [] then ret 0
      else let out = map (\<lambda>r. r\<lparr>po_date := iso_str d, po_commit := de_commit X\<rparr>) pool in
        bnd (lift_res (\<lambda>_. guard_ok (de_pool_lock X) StoreLockTimeoutError)) (\<lambda>_.
        bnd (lift_res (\<lambda>s. case dk_pools s of
          No_file \<Rightarrow> Inr out
        | Unreadable_file \<Rightarrow> Inl OtherException
        | Stored rows \<Rightarrow> Inr (keep_last pool_key (rows @ out)))) (\<lambda>merged.
        bnd (lift_res (\<lambda>_. guard_ok (de_pool_write X) OSError)) (\<lambda>_.
        bnd (modify (\<lambda>s. s\<lparr>dk_pools := Stored merged\<rparr>)) (\<lambda>_.
        ret (length pool))))))"

text \<open>\<open>load_topk_decision\<close> on the desk; an unreadable file raises the reader's own error.\<close>

definition load_decision :: "topk_store stored_file \<Rightarrow> civil \<Rightarrow> topk_frame res" where
  "load_decision file d = (case file of
     No_file \<Rightarrow> Inr (load_topk_decision None (iso_str d))
   | Unreadable_file \<Rightarrow> Inl OtherException
   | Stored st \<Rightarrow> Inr (load_topk_decision (Some st) (iso_str d)))"

section \<open>The run\<close>

fun exn_str :: "exn \<Rightarrow> string" where
  "exn_str ValueError = ''ValueError''"
| "exn_str StrategyStoreError = ''StrategyStoreError''"
| "exn_str FileNotFoundError = ''FileNotFoundError''"
| "exn_str _ = ''Exception''"

definition predict_event :: "run_outcome \<Rightarrow> civil \<Rightarrow> string \<Rightarrow> nat \<Rightarrow> run_event" where
  "predict_event out d reason n = \<lparr>re_job = ''predict'', re_outcome = out, re_date = iso_str d,
     re_reason = reason, re_picks = n\<rparr>"

text \<open>The gate refused the day.\<close>

definition report_unfit_day :: "'h decision_env \<Rightarrow> 'w recorder \<Rightarrow> civil \<Rightarrow> session_day \<Rightarrow> string \<Rightarrow> ('w decision_desk, unit) eff" where
  "report_unfit_day X rec d day gate =
     (if day_kind day = CLOSED then
        bnd (lift_res (\<lambda>_. classify_day d (de_trading_day X))) (\<lambda>c.
        if c = DAY_WEEKEND \<or> c = DAY_HOLIDAY
        then record_event rec (predict_event OUT_SKIPPED d ''non_trading_day'' 0)
        else record_event rec (predict_event OUT_NO_DECISION d ''calendar_disagreement'' 0))
      else record_event rec (predict_event OUT_NO_DECISION d gate 0))"

text \<open>The sleeve ran: it failed, it abstained, or it picked.\<close>

definition act_on_sleeve :: "'h decision_env \<Rightarrow> 'w recorder \<Rightarrow> civil \<Rightarrow> sleeve \<Rightarrow> ('w decision_desk, unit) eff" where
  "act_on_sleeve X rec d r = (case r of
     Sleeve_failed e \<Rightarrow>
       bnd (lift_res (\<lambda>_. classify_day d (de_trading_day X))) (\<lambda>c.
       if c = DAY_WEEKEND \<or> c = DAY_HOLIDAY
       then record_event rec (predict_event OUT_SKIPPED d ''non_trading_day'' 0)
       else record_event rec (predict_event OUT_NO_DECISION d (exn_str e) 0))
   | Sleeve picks pool \<Rightarrow>
       if picks = [] then
         bnd (record_event rec (predict_event OUT_OK d ''admitted_below_top_k'' 0)) (\<lambda>_.
         bnd (persist_rank_pool_predictions X d pool) (\<lambda>_. ret ()))
       else
         bnd (persist_topk_decision X d picks) (\<lambda>_.
         bnd (persist_rank_pool_predictions X d pool) (\<lambda>_.
         record_event rec (predict_event OUT_OK d [] (length picks)))))"

definition run_automated_topk_decision ::
    "'h decision_env \<Rightarrow> 'w recorder \<Rightarrow> civil \<Rightarrow> ('w decision_desk, unit) eff" where
  "run_automated_topk_decision X rec d =
     bnd (lift_res (\<lambda>_. de_session_day X d)) (\<lambda>day.
     case trading_session_gate day of
       Some gate \<Rightarrow> report_unfit_day X rec d day gate
     | None \<Rightarrow> bnd (lift_res (\<lambda>_. run_topk_ranker_sleeve X d)) (act_on_sleeve X rec d))"

end
