(* ===== verification/Run_Outcome.thy ===== *)
theory Run_Outcome
  imports Incident_Pager Decision_Run
begin

text \<open>
  \<open>src/tools/run_outcome.py\<close>: the outcome of a job is appended to the event log of its day
  and routed to the pager. The event log keeps the lines of every day; a line is the JSON text
  of a record, some other JSON text, or a text that is no JSON. The moments of the two clock
  reads, the redaction of credentials and what the disk does are parameters. The values of
  the metrics are left out, apart from whether their JSON text holds a raw line separator.
\<close>

section \<open>Records and the event log\<close>

record outcome_record =
  oc_ts :: int
  oc_job :: string
  oc_run_date :: string
  oc_outcome :: string
  oc_reason :: string

datatype log_line = Event_line outcome_record | Other_json | Corrupt_line

record outcome_desk =
  od_events :: "string \<Rightarrow> log_line list option"
  od_pager :: pager

record outcome_env =
  oe_now :: int
  oe_routed_at :: int
  oe_redact :: "string \<Rightarrow> string"
  oe_log_writable :: bool
  oe_metrics_split :: bool
  oe_pager_io :: pager_io
  oe_policy :: AlertPolicyConfig

definition RUN_OUTCOMES :: "string list" where
  "RUN_OUTCOMES = [''OK'', ''DEGRADED'', ''NO_DECISION'', ''SKIPPED'']"

definition RUN_OUTCOMES_ALERTED :: "string list" where
  "RUN_OUTCOMES_ALERTED = [''DEGRADED'', ''NO_DECISION'']"

definition RUN_EVENT_REASON_MAX_CHARS :: nat where
  "RUN_EVENT_REASON_MAX_CHARS = 300"

text \<open>
  The line a record makes when it is read back with \<open>splitlines\<close>. The JSON text escapes the
  control characters below the space but keeps the C1 line separator raw: such a line is cut
  into pieces, none of which is JSON.
\<close>

definition raw_separator :: "string \<Rightarrow> bool" where
  "raw_separator s \<longleftrightarrow> CHR 0x85 \<in> set s"

definition written_lines :: "outcome_env \<Rightarrow> outcome_record \<Rightarrow> log_line list" where
  "written_lines X r =
     (if raw_separator (oc_job r) \<or> raw_separator (oc_reason r) \<or> oe_metrics_split X then [Corrupt_line] else [Event_line r])"

definition append_event :: "outcome_env \<Rightarrow> outcome_record \<Rightarrow> (outcome_desk, unit) eff" where
  "append_event X r =
     bnd (lift_res (\<lambda>_. guard_ok (oe_log_writable X) OSError)) (\<lambda>_.
     modify (\<lambda>s. s\<lparr>od_events := (od_events s)(oc_run_date r \<mapsto>
       (case od_events s (oc_run_date r) of None \<Rightarrow> [] | Some ls \<Rightarrow> ls) @ written_lines X r)\<rparr>))"

section \<open>Routing\<close>

text \<open>An operation of the pager on its part of the desk.\<close>

definition on_pager :: "(pager, 'a) eff \<Rightarrow> (outcome_desk, 'a) eff" where
  "on_pager m = (\<lambda>s. case m (od_pager s) of (r, p) \<Rightarrow> (r, s\<lparr>od_pager := p\<rparr>))"

definition route_outcome :: "outcome_env \<Rightarrow> string \<Rightarrow> string \<Rightarrow> string \<Rightarrow> (outcome_desk, unit) eff" where
  "route_outcome X job outcome reason =
     (let source = RUN_SOURCE_PREFIX @ job; now = oe_routed_at X in
      catch_when (\<lambda>e. e \<noteq> Interrupted)
        (if outcome = ''OK'' then bnd (on_pager (resolve_sources (oe_pager_io X) [source] now)) (\<lambda>_. ret ())
         else case classify_run_outcome job outcome reason of
           None \<Rightarrow> ret ()
         | Some kind \<Rightarrow>
             bnd (on_pager (page (oe_policy X) (oe_pager_io X) kind source (incident_scope kind) now)) (\<lambda>_. ret ()))
        (\<lambda>_. ret ()))"

definition stored_reason :: "outcome_env \<Rightarrow> string \<Rightarrow> string" where
  "stored_reason X reason = (if reason = [] then [] else take RUN_EVENT_REASON_MAX_CHARS (oe_redact X reason))"

definition record_run_outcome ::
    "outcome_env \<Rightarrow> string \<Rightarrow> string \<Rightarrow> string \<Rightarrow> string \<Rightarrow> (outcome_desk, outcome_record) eff" where
  "record_run_outcome X job outcome run_date reason =
     bnd (lift_res (\<lambda>_. guard_ok (outcome \<in> set RUN_OUTCOMES) ValueError)) (\<lambda>_.
     bnd (lift_res (\<lambda>_. guard_ok (\<not> (outcome = ''SKIPPED'' \<and> py_blank reason)) ValueError)) (\<lambda>_.
     let r = \<lparr>oc_ts = oe_now X, oc_job = job, oc_run_date = run_date, oc_outcome = outcome,
              oc_reason = stored_reason X reason\<rparr>
     in bnd (catch_when is_os_error (append_event X r) (\<lambda>_. ret ())) (\<lambda>_.
        bnd (if outcome \<in> set RUN_OUTCOMES_ALERTED \<or> outcome = ''OK'' then route_outcome X job outcome (oc_reason r) else ret ()) (\<lambda>_.
        ret r))))"

text \<open>\<open>load_run_outcomes\<close>: the last outcome of each job in the order of the lines.\<close>

definition load_run_outcomes :: "outcome_desk \<Rightarrow> string \<Rightarrow> (string \<times> string) list" where
  "load_run_outcomes s run_date = (case od_events s run_date of
     None \<Rightarrow> []
   | Some ls \<Rightarrow> fold (\<lambda>l d. case l of
         Event_line r \<Rightarrow> if oc_run_date r = run_date \<and> oc_outcome r \<in> set RUN_OUTCOMES
           then dset (oc_job r) (oc_outcome r) d else d
       | Other_json \<Rightarrow> d
       | Corrupt_line \<Rightarrow> d) ls [])"

section \<open>The recorder of the predict job\<close>

fun outcome_text :: "run_outcome \<Rightarrow> string" where
  "outcome_text OUT_OK = ''OK''"
| "outcome_text OUT_DEGRADED = ''DEGRADED''"
| "outcome_text OUT_NO_DECISION = ''NO_DECISION''"
| "outcome_text OUT_SKIPPED = ''SKIPPED''"

definition predict_recorder :: "outcome_env \<Rightarrow> outcome_desk recorder" where
  "predict_recorder X = Some (\<lambda>e.
     bnd (record_run_outcome X (re_job e) (outcome_text (re_outcome e)) (re_date e) (re_reason e)) (\<lambda>_. ret ()))"

end
