(* ===== verification/Pager_Properties.thy ===== *)
theory Pager_Properties
  imports Incident_Pager
begin

text \<open>
  The contract of the pager over the calls of one day: a kind is mailed once per incident,
  whatever path reports it, a resolution mail closes it, and a ledger that cannot be used
  fails toward paging.
\<close>

section \<open>Mails of a kind\<close>

fun mail_kind :: "mail \<Rightarrow> IncidentKind" where
  "mail_kind (Page_mail k) = k"
| "mail_kind (Resolved_mail k) = k"

definition about :: "IncidentKind \<Rightarrow> mail list \<Rightarrow> mail list" where
  "about k ms = filter (\<lambda>m. mail_kind m = k) ms"

text \<open>No two pages of the kind without its resolution in between.\<close>

definition separated :: "IncidentKind \<Rightarrow> mail list \<Rightarrow> bool" where
  "separated k ms \<longleftrightarrow> successively (\<lambda>a b. a = Resolved_mail k \<or> b = Resolved_mail k) (about k ms)"

definition paged_last :: "IncidentKind \<Rightarrow> mail list \<Rightarrow> bool" where
  "paged_last k ms \<longleftrightarrow> about k ms \<noteq> [] \<and> last (about k ms) = Page_mail k"

lemma about_append [simp]: "about k (xs @ ys) = about k xs @ about k ys"
  by (simp add: about_def)

lemma about_one: "about k [m] = (if mail_kind m = k then [m] else [])"
  by (simp add: about_def)

lemma mail_cases: "mail_kind m = k \<Longrightarrow> m = Page_mail k \<or> m = Resolved_mail k"
  by (cases m) auto

lemma last_about: "about k ms \<noteq> [] \<Longrightarrow> \<not> paged_last k ms \<Longrightarrow> last (about k ms) = Resolved_mail k"
proof -
  assume a: "about k ms \<noteq> []" "\<not> paged_last k ms"
  then have "last (about k ms) \<in> set (about k ms)" by simp
  then have "mail_kind (last (about k ms)) = k" by (simp add: about_def)
  then show ?thesis using a mail_cases by (fastforce simp: paged_last_def)
qed

lemma separated_page: "separated k ms \<Longrightarrow> \<not> paged_last k ms \<Longrightarrow> separated k (ms @ [Page_mail k])"
  using last_about [of k ms] by (auto simp: separated_def about_one successively_append_iff)

lemma separated_resolved: "separated k ms \<Longrightarrow> separated k (ms @ [Resolved_mail k'])"
  by (auto simp: separated_def about_one successively_append_iff)

lemma separated_other: "k \<noteq> k' \<Longrightarrow> separated k (ms @ [Page_mail k']) = separated k ms"
  by (simp add: separated_def about_one)

lemma paged_last_simps [simp]:
  "paged_last k (ms @ [Page_mail k']) \<longleftrightarrow> k = k' \<or> paged_last k ms"
  "paged_last k (ms @ [Resolved_mail k']) \<longleftrightarrow> k \<noteq> k' \<and> paged_last k ms"
  "\<not> paged_last k []"
  by (auto simp: paged_last_def about_one) (auto simp: about_def)

lemma separated_Nil [simp]: "separated k []"
  by (simp add: separated_def about_def)

section \<open>The ledger of a day\<close>

text \<open>\<open>K\<close> names the kind of a source: a unit, a run or an issue key is always of one kind.\<close>

definition typed_ledger :: "(string \<Rightarrow> IncidentKind) \<Rightarrow> incident_ledger \<Rightarrow> bool" where
  "typed_ledger K l \<longleftrightarrow> distinct (map fst (led_sources l)) \<and> distinct (map fst (led_pages l))
   \<and> (\<forall>(src, e)\<in>set (led_sources l). map_of e ''kind'' = Some (Txt (incident_value (K src)))
        \<and> (\<exists>t. map_of e ''first_seen'' = Some (Iso t)))
   \<and> (\<forall>p\<in>set (led_pages l). \<exists>k. fst p = incident_value k)"

definition live_source :: "string \<Rightarrow> incident_ledger \<Rightarrow> IncidentKind \<Rightarrow> bool" where
  "live_source today l k \<longleftrightarrow> (\<exists>p\<in>set (led_sources l). entry_text_is (snd p) ''kind'' (incident_value k) \<and> \<not> expired today (snd p))"

definition open_page :: "string \<Rightarrow> incident_ledger \<Rightarrow> IncidentKind \<Rightarrow> bool" where
  "open_page today l k \<longleftrightarrow> live_source today l k
   \<and> (\<exists>e. map_of (led_pages l) (incident_value k) = Some e \<and> entry_text_is e ''day'' today)"

lemma map_of_filter_key: "map_of (filter (\<lambda>p. P (fst p)) ps) k = (if P k then map_of ps k else None)"
  by (induction ps) auto

lemma rollover_typed: "typed_ledger K l \<Longrightarrow> typed_ledger K (rollover l today)"
  by (auto simp: typed_ledger_def rollover_def Let_def distinct_map_filter)

lemma rollover_open: "open_page today l k \<Longrightarrow> open_page today (rollover l today) k"
proof -
  assume o: "open_page today l k"
  then obtain p e where p: "p \<in> set (led_sources l)" "entry_text_is (snd p) ''kind'' (incident_value k)" "\<not> expired today (snd p)"
    and e: "map_of (led_pages l) (incident_value k) = Some e" "entry_text_is e ''day'' today"
    unfolding open_page_def live_source_def by blast
  have p': "p \<in> set (led_sources (rollover l today))" using p by (simp add: rollover_def Let_def)
  have "has_kind (incident_value k) (led_sources (rollover l today))" using p' p(2) unfolding has_kind_def by blast
  then have "map_of (led_pages (rollover l today)) (incident_value k) = Some e"
    using e(1) by (simp add: rollover_def Let_def map_of_filter_key [where P = "\<lambda>k. has_kind k s" for s])
  then show ?thesis using p' p(2,3) e(2) unfolding open_page_def live_source_def by blast
qed

lemma rollover_live: "p \<in> set (led_sources (rollover l today)) \<Longrightarrow> \<not> expired today (snd p)"
  by (simp add: rollover_def Let_def)

lemma not_expired_today: "map_of e ''day'' = Some (Txt today) \<Longrightarrow> \<not> expired today e"
  by (simp add: expired_def entry_day_def)

lemma in_dset: "p \<in> set (dset k v d) \<Longrightarrow> p = (k, v) \<or> p \<in> set d"
  by (induction d) (auto split: if_splits)

lemma in_dset_other: "p \<in> set d \<Longrightarrow> fst p \<noteq> k \<Longrightarrow> p \<in> set (dset k v d)"
  by (induction d) auto

lemma in_dset_same: "(k, v) \<in> set (dset k v d)"
  by (induction d) auto

text \<open>A sighting keeps the ledger typed, keeps the live sources and leaves one for its kind.\<close>

lemma sighting_typed:
  assumes l: "typed_ledger K l" and s: "sighting (K src) src scope now l today = (e, l')"
  shows "typed_ledger K l'" "led_pages l' = led_pages l" "live_source today l' (K src)"
    "live_source today l k \<Longrightarrow> live_source today l' k" "\<exists>t. entry_moment e ''first_seen'' = Inr t"
proof -
  let ?e0 = "case map_of (led_sources l) src of None \<Rightarrow> new_entry (K src) scope now today | Some e \<Rightarrow> e"
  have e: "e = dset ''day'' (Txt today) ?e0" and l': "l' = l\<lparr>led_sources := dset src e (led_sources l)\<rparr>"
    using s by (auto simp: sighting_def Let_def)
  have e0: "map_of ?e0 ''kind'' = Some (Txt (incident_value (K src)))" "\<exists>t. map_of ?e0 ''first_seen'' = Some (Iso t)"
    using l by (auto simp: typed_ledger_def new_entry_def split: option.splits dest!: map_of_SomeD)
  have fields: "map_of e ''kind'' = Some (Txt (incident_value (K src)))" "\<exists>t. map_of e ''first_seen'' = Some (Iso t)"
    "map_of e ''day'' = Some (Txt today)" using e0 by (simp_all add: e)
  show "typed_ledger K l'"
    using l fields by (auto simp: typed_ledger_def l' dest!: in_dset)
  show "led_pages l' = led_pages l" by (simp add: l')
  show here: "live_source today l' (K src)"
    using fields not_expired_today [OF fields(3)] in_dset_same [of src e]
    by (auto simp: live_source_def l' entry_text_is_def intro!: bexI [of _ "(src, e)"])
  show "\<exists>t. entry_moment e ''first_seen'' = Inr t" using fields(2) by (auto simp: entry_moment_def)
  show "live_source today l' k" if "live_source today l k"
  proof -
    obtain p where p: "p \<in> set (led_sources l)" "entry_text_is (snd p) ''kind'' (incident_value k)" "\<not> expired today (snd p)"
      using \<open>live_source today l k\<close> unfolding live_source_def by blast
    show ?thesis
    proof (cases "fst p = src")
      case True
      then have "map_of (snd p) ''kind'' = Some (Txt (incident_value (K src)))"
        using l p(1) by (auto simp: typed_ledger_def)
      then have "k = K src" using p(2) incident_value_inj by (simp add: entry_text_is_def)
      then show ?thesis using here by simp
    next
      case False
      then show ?thesis using p in_dset_other [OF p(1) False] by (auto simp: live_source_def l')
    qed
  qed
qed

text \<open>The invariant of the calls of a day.\<close>

definition pager_inv :: "(string \<Rightarrow> IncidentKind) \<Rightarrow> string \<Rightarrow> pager \<Rightarrow> bool" where
  "pager_inv K today s \<longleftrightarrow> (\<exists>l. load_ledger (pg_file s) = Inr l \<and> typed_ledger K l
     \<and> (\<forall>k. paged_last k (pg_mails s) \<longrightarrow> open_page today l k)) \<and> (\<forall>k. separated k (pg_mails s))"

lemma mutate_outcome:
  assumes "mutate io now change s = (r, s')" "load_ledger (pg_file s) = Inr l"
  shows "(\<exists>e. r = Inl e \<and> s' = s) \<or>
    (\<exists>a l'. change (rollover l (kst_day now)) (kst_day now) = Inr (a, l') \<and> io_locked io \<and> io_saved io
       \<and> r = Inr a \<and> s' = s\<lparr>pg_file := Ledger_file l'\<rparr>)"
  using assms
  by (auto simp: mutate_def bnd_def lift_res_def modify_def ret_def guard_ok_def Let_def
      split: if_splits sum.splits prod.splits)

lemma mutate_healthy:
  assumes "load_ledger (pg_file s) = Inr l" "change (rollover l (kst_day now)) (kst_day now) = Inr (a, l')"
    and "io_locked io" "io_saved io"
  shows "mutate io now change s = (Inr a, s\<lparr>pg_file := Ledger_file l'\<rparr>)"
  using assms by (simp add: mutate_def bnd_def lift_res_def modify_def ret_def guard_ok_def Let_def)

lemma load_saved [simp]: "load_ledger (Ledger_file l) = Inr l"
  by (simp add: load_ledger_def)


section \<open>Each operation keeps the invariant\<close>

definition day_inv :: "(string \<Rightarrow> IncidentKind) \<Rightarrow> string \<Rightarrow> incident_ledger \<Rightarrow> mail list \<Rightarrow> bool" where
  "day_inv K today l ms \<longleftrightarrow> typed_ledger K l \<and> (\<forall>k. paged_last k ms \<longrightarrow> open_page today l k) \<and> (\<forall>k. separated k ms)"

lemma pager_inv_day: "pager_inv K today s \<longleftrightarrow> (\<exists>l. load_ledger (pg_file s) = Inr l \<and> day_inv K today l (pg_mails s))"
  by (auto simp: pager_inv_def day_inv_def)

lemma day_inv_rollover: "day_inv K today l ms \<Longrightarrow> day_inv K today (rollover l today) ms"
  by (simp add: day_inv_def rollover_typed rollover_open)

lemma day_inv_sighting:
  assumes "day_inv K today l ms" "sighting (K src) src scope now l today = (e, l')"
  shows "day_inv K today l' ms"
  using assms sighting_typed [where K = K, OF _ assms(2)] by (auto simp: day_inv_def open_page_def)

lemma day_inv_page:
  assumes inv: "day_inv K today l ms" and pc: "page_change cfg (K src) src scope now l today = (d, l')"
  shows "day_inv K today l' (if d = SENT then ms @ [Page_mail (K src)] else ms)"
proof -
  obtain e l1 where s: "sighting (K src) src scope now l today = (e, l1)" by fastforce
  have inv1: "day_inv K today l1 ms" using day_inv_sighting [OF inv s] .
  have live: "live_source today l1 (K src)" using sighting_typed(3) [where K = K, OF _ s] inv by (simp add: day_inv_def)
  let ?rec = "[(''day'', Txt today), (''at'', Iso now)]"
  let ?l2 = "l1\<lparr>led_pages := dset (incident_value (K src)) ?rec (led_pages l1)\<rparr>"
  show ?thesis
  proof (cases "d = SENT")
    case False
    then have "l' = l1" using pc s by (auto simp: page_change_def Let_def split: option.splits if_splits)
    then show ?thesis using inv1 False by simp
  next
    case True
    then have l': "l' = ?l2" and fresh: "\<And>e'. map_of (led_pages l1) (incident_value (K src)) = Some e' \<Longrightarrow> \<not> entry_text_is e' ''day'' today"
      using pc s by (auto simp: page_change_def Let_def split: option.splits if_splits)
    have closed_kind: "\<not> paged_last (K src) ms"
      using inv1 fresh by (auto simp: day_inv_def open_page_def)
    have opened: "open_page today ?l2 k" if "k = K src \<or> open_page today l1 k" for k
      using that live by (auto simp: open_page_def live_source_def incident_value_inj entry_text_is_def)
    have typed: "typed_ledger K ?l2"
      using inv1 by (auto simp: day_inv_def typed_ledger_def dest!: in_dset)
    have "separated k (ms @ [Page_mail (K src)])" for k
      using inv1 closed_kind separated_page separated_other by (cases "k = K src") (auto simp: day_inv_def)
    then show ?thesis
      using True l' typed opened inv1 by (auto simp: day_inv_def)
  qed
qed

text \<open>A resolution removes the sources it names and the pages of the kinds that have none left.\<close>

lemma detach_parts:
  assumes "typed_ledger K l" "detach wanted sources = Inr (touched, rest)" "set sources \<subseteq> set (led_sources l)"
    "distinct (map fst sources)"
  shows "set rest \<subseteq> set sources \<and> distinct (map fst rest)
    \<and> (\<forall>p\<in>set sources. p \<notin> set rest \<longrightarrow> incident_value (K (fst p)) \<in> set touched)
    \<and> (\<forall>t\<in>set touched. \<exists>k. t = incident_value k)"
  using assms
proof (induction wanted sources arbitrary: touched rest rule: detach.induct)
  case (1 sources)
  then show ?case by simp
next
  case (2 src wanted sources)
  show ?case
  proof (cases "map_of sources src")
    case None
    then show ?thesis using 2 by simp
  next
    case (Some e)
    let ?less = "filter (\<lambda>p. fst p \<noteq> src) sources"
    have mem: "(src, e) \<in> set (led_sources l)" using map_of_SomeD [OF Some] 2(5) by blast
    then have e: "map_of e ''kind'' = Some (Txt (incident_value (K src)))"
      using 2(3) by (auto simp: typed_ledger_def)
    obtain kinds where d: "detach wanted ?less = Inr (kinds, rest)" and touched: "touched = incident_value (K src) # kinds"
      using 2(4) Some e by auto
    have IH: "set rest \<subseteq> set ?less \<and> distinct (map fst rest)
      \<and> (\<forall>p\<in>set ?less. p \<notin> set rest \<longrightarrow> incident_value (K (fst p)) \<in> set kinds) \<and> (\<forall>t\<in>set kinds. \<exists>k. t = incident_value k)"
      using 2(2) [OF Some e 2(3) d] 2(5,6) by (auto simp: distinct_map_filter)
    have "incident_value (K (fst p)) \<in> set touched" if "p \<in> set sources" "p \<notin> set rest" for p
      using that IH touched by (cases p; cases "fst p = src") auto
    moreover have "set rest \<subseteq> set sources" using IH by auto
    ultimately show ?thesis using IH touched by auto
  qed
qed

lemma kinds_of_values:
  "\<forall>t\<in>set ts. \<exists>k. t = incident_value k \<Longrightarrow> \<exists>ks. rmap incident_of_value ts = Inr ks \<and> map incident_value ks = ts"
proof (induction ts)
  case (Cons t ts)
  then obtain ks k where "rmap incident_of_value ts = Inr ks" "map incident_value ks = ts" "t = incident_value k" by auto
  then show ?case by (auto intro!: exI [of _ "k # ks"])
qed simp

lemma resolutions_separate:
  "separated k ms \<Longrightarrow> separated k (ms @ map Resolved_mail ks)"
proof (induction ks arbitrary: ms)
  case (Cons j ks)
  then show ?case using Cons.IH [OF separated_resolved [OF Cons.prems, of j]] by simp
qed simp

lemma resolutions_close:
  "paged_last k (ms @ map Resolved_mail ks) \<longleftrightarrow> paged_last k ms \<and> k \<notin> set ks"
proof (induction ks arbitrary: ms)
  case (Cons j ks)
  then show ?case using Cons.IH [of "ms @ [Resolved_mail j]"] by auto
qed simp

lemma day_inv_resolve:
  assumes inv: "day_inv K today l ms" and live: "\<And>p. p \<in> set (led_sources l) \<Longrightarrow> \<not> expired today (snd p)"
    and rc: "resolve_change wanted l = Inr (kinds, l')"
  shows "day_inv K today l' (ms @ map Resolved_mail kinds)"
proof -
  obtain touched rest where d: "detach wanted (led_sources l) = Inr (touched, rest)"
    using rc by (auto simp: resolve_change_def Let_def)
  have typed: "typed_ledger K l" using inv by (simp add: day_inv_def)
  define gone where "gone = filter (\<lambda>k. \<not> has_kind k rest) (remdups touched)"
  define due where "due = sort (filter (\<lambda>k. map_of (led_pages l) k \<noteq> None) gone)"
  have parts: "set rest \<subseteq> set (led_sources l)" "distinct (map fst rest)"
    "\<And>p. p \<in> set (led_sources l) \<Longrightarrow> p \<notin> set rest \<Longrightarrow> incident_value (K (fst p)) \<in> set touched"
    "\<forall>t\<in>set touched. \<exists>k. t = incident_value k"
    using detach_parts [OF typed d] typed by (auto simp: typed_ledger_def)
  obtain ks where ks: "rmap incident_of_value due = Inr ks" "map incident_value ks = due"
    using kinds_of_values [of due] parts(4) by (auto simp: due_def gone_def)
  have l': "kinds = ks" "l' = \<lparr>led_sources = rest, led_pages = filter (\<lambda>p. fst p \<notin> set gone) (led_pages l)\<rparr>"
    using rc d ks by (auto simp: resolve_change_def Let_def gone_def due_def)
  have typed': "typed_ledger K l'"
    using typed parts(1,2) by (auto simp: typed_ledger_def l' distinct_map_filter)
  have "open_page today l' k" if "paged_last k ms" "k \<notin> set kinds" for k
  proof -
    obtain e where e: "map_of (led_pages l) (incident_value k) = Some e" "entry_text_is e ''day'' today"
      and lv: "live_source today l k" using inv \<open>paged_last k ms\<close> by (auto simp: day_inv_def open_page_def)
    obtain p where p: "p \<in> set (led_sources l)" "entry_text_is (snd p) ''kind'' (incident_value k)"
      using lv unfolding live_source_def by blast
    have Kp: "K (fst p) = k" using typed p by (auto simp: typed_ledger_def entry_text_is_def incident_value_inj)
    have kept: "incident_value k \<notin> set gone"
    proof
      assume "incident_value k \<in> set gone"
      then have "incident_value k \<in> set due" using e(1) by (simp add: due_def)
      then have "incident_value k \<in> incident_value ` set ks" using ks(2) by (metis set_map)
      then show False using that(2) l'(1) by (auto simp: incident_value_inj)
    qed
    have "has_kind (incident_value k) rest"
    proof (cases "p \<in> set rest")
      case True
      then show ?thesis using p(2) unfolding has_kind_def by blast
    next
      case False
      then show ?thesis using kept parts(3) [OF p(1)] Kp by (auto simp: gone_def)
    qed
    then obtain q where q: "q \<in> set rest" "entry_text_is (snd q) ''kind'' (incident_value k)" unfolding has_kind_def by blast
    then have "live_source today l' k" using live [of q] parts(1) unfolding live_source_def l'(2) by auto
    moreover have "map_of (led_pages l') (incident_value k) = Some e"
      using e(1) kept by (simp add: l'(2) map_of_filter_key [where P = "\<lambda>k. k \<notin> set gone"])
    ultimately show ?thesis using e(2) unfolding open_page_def by blast
  qed
  then show ?thesis using inv typed' by (auto simp: day_inv_def resolutions_close resolutions_separate)
qed


lemma mutate_keeps:
  assumes m: "mutate io now change s = (Inr a, s')" and inv: "pager_inv K (kst_day now) s"
    and step: "\<And>l l'. day_inv K (kst_day now) l (pg_mails s) \<Longrightarrow> (\<And>p. p \<in> set (led_sources l) \<Longrightarrow> \<not> expired (kst_day now) (snd p))
      \<Longrightarrow> change l (kst_day now) = Inr (a, l') \<Longrightarrow> day_inv K (kst_day now) l' (pg_mails s @ ms)"
  shows "pager_inv K (kst_day now) (s'\<lparr>pg_mails := pg_mails s' @ ms\<rparr>)"
proof -
  obtain l where l: "load_ledger (pg_file s) = Inr l" and d: "day_inv K (kst_day now) l (pg_mails s)"
    using inv by (auto simp: pager_inv_day)
  obtain l' where c: "change (rollover l (kst_day now)) (kst_day now) = Inr (a, l')" and s': "s' = s\<lparr>pg_file := Ledger_file l'\<rparr>"
    using mutate_outcome [OF m l] by auto
  have "day_inv K (kst_day now) l' (pg_mails s @ ms)"
    using step [OF day_inv_rollover [OF d] rollover_live c] .
  then show ?thesis by (simp add: pager_inv_day s')
qed

lemma mutate_error_keeps:
  assumes "mutate io now change s = (Inl e, s')" "load_ledger (pg_file s) = Inr l"
  shows "s' = s"
  using mutate_outcome [OF assms] by auto

lemma observe_keeps:
  assumes o: "observe io (K src) src scope now s = (r, s')" and inv: "pager_inv K (kst_day now) s"
  shows "pager_inv K (kst_day now) s'"
proof -
  define change where "change = (\<lambda>l today. case sighting (K src) src scope now l today of (e, l') \<Rightarrow>
    rbind (entry_moment e ''first_seen'') (\<lambda>t. Inr (t, l')))"
  obtain l where l: "load_ledger (pg_file s) = Inr l" using inv by (auto simp: pager_inv_day)
  obtain q s1 where m: "mutate io now change s = (q, s1)" by fastforce
  have s': "s' = s1" using o m unfolding observe_def change_def [symmetric]
    by (auto simp: catch_when_def eff_simps split: sum.splits if_splits)
  show ?thesis
  proof (cases q)
    case (Inl e)
    then have "s1 = s" using mutate_error_keeps [OF _ l] m by blast
    then show ?thesis using inv s' by simp
  next
    case (Inr t)
    have "pager_inv K (kst_day now) (s1\<lparr>pg_mails := pg_mails s1 @ []\<rparr>)"
    proof (rule mutate_keeps [OF m [unfolded Inr] inv])
      fix l0 l1 assume d: "day_inv K (kst_day now) l0 (pg_mails s)" and c: "change l0 (kst_day now) = Inr (t, l1)"
      obtain e l2 where sg: "sighting (K src) src scope now l0 (kst_day now) = (e, l2)" by fastforce
      then have "l1 = l2" using c by (simp add: change_def)
      then show "day_inv K (kst_day now) l1 (pg_mails s @ [])" using day_inv_sighting [OF d sg] by simp
    qed
    then show ?thesis by (simp add: s')
  qed
qed

lemma page_run:
  assumes "io_locked io" "io_saved io" "load_ledger (pg_file s) = Inr l"
    and "page_change cfg kind src scope now (rollover l (kst_day now)) (kst_day now) = (d, l')"
  shows "page cfg io kind src scope now s =
    (Inr d, s\<lparr>pg_file := Ledger_file l', pg_mails := (if d = SENT then pg_mails s @ [Page_mail kind] else pg_mails s)\<rparr>)"
  using assms mutate_healthy [of s l "\<lambda>l today. Inr (page_change cfg kind src scope now l today)" now d l' io]
  by (simp add: page_def catch_when_def eff_simps send_mail_def)

lemma page_keeps:
  assumes p: "page cfg io (K src) src scope now s = (r, s')" and inv: "pager_inv K (kst_day now) s"
    and io: "io_locked io" "io_saved io"
  shows "pager_inv K (kst_day now) s'"
proof -
  obtain l where l: "load_ledger (pg_file s) = Inr l" and d: "day_inv K (kst_day now) l (pg_mails s)"
    using inv by (auto simp: pager_inv_day)
  obtain dec l' where pc: "page_change cfg (K src) src scope now (rollover l (kst_day now)) (kst_day now) = (dec, l')"
    by fastforce
  show ?thesis
    using page_run [OF io l pc] p day_inv_page [OF day_inv_rollover [OF d] pc]
    by (auto simp: pager_inv_day split: if_splits)
qed

lemma resolutions_run:
  "for_each ks (\<lambda>k. send_mail (Resolved_mail k)) s = (Inr (), s\<lparr>pg_mails := pg_mails s @ map Resolved_mail ks\<rparr>)"
  by (induction ks arbitrary: s) (simp_all add: eff_simps send_mail_def)

lemma resolve_keeps:
  assumes r: "resolve_sources io srcs now s = (r, s')" and inv: "pager_inv K (kst_day now) s"
  shows "pager_inv K (kst_day now) s'"
proof -
  obtain l where l: "load_ledger (pg_file s) = Inr l" using inv by (auto simp: pager_inv_day)
  obtain q s1 where m: "mutate io now (\<lambda>l today. resolve_change (remdups srcs) l) s = (q, s1)" by fastforce
  consider "s' = s" | e where "q = Inl e" "s' = s1" | kinds where "q = Inr kinds" "s' = s1\<lparr>pg_mails := pg_mails s1 @ map Resolved_mail kinds\<rparr>"
    using r m by (auto simp: resolve_sources_def Let_def eff_simps bnd_def ret_def catch_when_def resolutions_run split: if_splits sum.splits)
  then show ?thesis
  proof cases
    case 1
    then show ?thesis using inv by simp
  next
    case 2
    then have "s1 = s" using mutate_error_keeps [OF _ l] m by blast
    then show ?thesis using inv 2 by simp
  next
    case 3
    show ?thesis unfolding 3(2)
      by (rule mutate_keeps [OF m [unfolded 3(1)] inv]) (rule day_inv_resolve)
  qed
qed

lemma resolve_absent_keeps:
  assumes r: "resolve_absent_sources io open_keys prefixes now s = (r, s')" and inv: "pager_inv K (kst_day now) s"
  shows "pager_inv K (kst_day now) s'"
proof -
  obtain l where l: "load_ledger (pg_file s) = Inr l" using inv by (auto simp: pager_inv_day)
  obtain gone where "resolve_sources io gone now s = (r, s')"
    using r l by (auto simp: resolve_absent_sources_def eff_simps Let_def)
  then show ?thesis using resolve_keeps inv by blast
qed

lemma page_keys_keeps:
  assumes "page_keys cfg io pending now keys statuses s = (r, s')" "pager_inv K (kst_day now) s"
    and "\<And>key k. key \<in> set keys \<Longrightarrow> classify_issue_key key = Some k \<Longrightarrow> K key = k"
    and "\<And>key. key \<in> set keys \<Longrightarrow> io_locked (io key) \<and> io_saved (io key)"
  shows "pager_inv K (kst_day now) s'"
  using assms
proof (induction keys arbitrary: statuses s)
  case Nil
  then show ?case by (simp add: eff_simps)
next
  case (Cons key keys)
  note IH = Cons.IH [OF _ _ Cons.prems(3,4)]
  show ?case
  proof (cases "\<exists>k. classify_issue_key key = Some k \<and> incident_scope k = SCOPE_OPEN")
    case False
    then have "page_keys cfg io pending now keys statuses s = (r, s')"
      using Cons.prems(1) by (auto split: option.splits if_splits)
    then show ?thesis using IH Cons.prems(2) by simp
  next
    case True
    then obtain k where k: "classify_issue_key key = Some k" "incident_scope k = SCOPE_OPEN" by blast
    have K: "K key = k" using Cons.prems(3) k(1) by simp
    obtain q s1 where o: "observe (io key) k key SCOPE_OPEN now s = (q, s1)" by fastforce
    have inv1: "pager_inv K (kst_day now) s1" using observe_keeps [of _ K key] o K Cons.prems(2) by simp
    obtain p s2 where pg: "page cfg (io key) k key SCOPE_OPEN now s1 = (p, s2)" by fastforce
    have inv2: "pager_inv K (kst_day now) s2" using page_keeps [of _ _ K key] pg K inv1 Cons.prems(4) [of key] by simp
    consider "s' = s1" | "s' = s2" | st where "page_keys cfg io pending now keys st s1 = (r, s')"
      | st where "page_keys cfg io pending now keys st s2 = (r, s')"
      using Cons.prems(1) k o pg by (auto simp: eff_simps bnd_def ret_def split: if_splits sum.splits)
    then show ?thesis using IH inv1 inv2 by cases simp_all
  qed
qed


section \<open>The calls of a day\<close>

text \<open>
  The states of a pager over one KST day: any ledger at the first call, then calls of every
  path, each at some moment of the day. The disk and the lock may fail at any observation or
  resolution; a page request is one whose ledger could be locked, read and saved (the others
  mail unconditionally).
\<close>

inductive pager_day :: "AlertPolicyConfig \<Rightarrow> (string \<Rightarrow> IncidentKind) \<Rightarrow> string \<Rightarrow> pager \<Rightarrow> bool"
  for cfg K today where
  start: "load_ledger f = Inr l \<Longrightarrow> typed_ledger K l \<Longrightarrow> pager_day cfg K today \<lparr>pg_file = f, pg_mails = []\<rparr>"
| observed: "pager_day cfg K today s \<Longrightarrow> kst_day now = today \<Longrightarrow> observe io (K src) src scope now s = (r, s') \<Longrightarrow>
    pager_day cfg K today s'"
| requested: "pager_day cfg K today s \<Longrightarrow> kst_day now = today \<Longrightarrow> io_locked io \<Longrightarrow> io_saved io \<Longrightarrow>
    page cfg io (K src) src scope now s = (d, s') \<Longrightarrow> pager_day cfg K today s'"
| cleared: "pager_day cfg K today s \<Longrightarrow> kst_day now = today \<Longrightarrow> resolve_sources io srcs now s = (ks, s') \<Longrightarrow>
    pager_day cfg K today s'"
| measured: "pager_day cfg K today s \<Longrightarrow> kst_day now = today \<Longrightarrow> resolve_absent_sources io open_keys prefixes now s = (ks, s') \<Longrightarrow>
    pager_day cfg K today s'"
| ticked: "pager_day cfg K today s \<Longrightarrow> kst_day now = today \<Longrightarrow>
    (\<forall>key\<in>set keys. K key = the (classify_issue_key key) \<or> classify_issue_key key = None) \<Longrightarrow>
    (\<forall>key\<in>set keys. io_locked (ios key) \<and> io_saved (ios key)) \<Longrightarrow>
    page_issue_keys cfg ios pending now keys s = (st, s') \<Longrightarrow> pager_day cfg K today s'"

inductive_cases pager_dayE: "pager_day cfg K today s"

lemma pager_day_inv: "pager_day cfg K today s \<Longrightarrow> pager_inv K today s"
proof (induction rule: pager_day.induct)
  case (start f l)
  then show ?case by (auto simp: pager_inv_def)
next
  case (observed s now io src scope r s')
  then show ?case using observe_keeps [of io K src] by blast
next
  case (requested s now io src scope d s')
  then show ?case using page_keeps [of cfg io K src] by blast
next
  case (cleared s now io srcs ks s')
  then show ?case using resolve_keeps by blast
next
  case (measured s now io open_keys prefixes ks s')
  then show ?case using resolve_absent_keeps by blast
next
  case (ticked s now keys ios pending st s')
  have "pager_inv K (kst_day now) s'"
    using ticked by (intro page_keys_keeps [OF ticked.hyps(5) [unfolded page_issue_keys_def]]) auto
  then show ?case using ticked.hyps(2) by simp
qed

lemma unusable_ledger_mails:
  assumes "\<not> io_locked io \<or> \<not> io_saved io \<or> pg_file s = Ledger_unreadable \<or> pg_file s = Ledger_malformed"
  shows "page cfg io kind src scope now s = (Inr SENT, s\<lparr>pg_mails := pg_mails s @ [Page_mail kind]\<rparr>)"
proof -
  have "\<exists>e. ledger_error e \<and> mutate io now (\<lambda>l today. Inr (page_change cfg kind src scope now l today)) s = (Inl e, s)"
    using assms
    by (cases "io_locked io"; cases "pg_file s")
      (auto simp: mutate_def eff_simps load_ledger_def guard_ok_def ledger_error_def is_os_error_def is_value_error_def
        rbind_def Let_def bnd_def lift_res_def split: prod.splits)
  then show ?thesis by (auto simp: page_def catch_when_def eff_simps send_mail_def)
qed

text \<open>
  C33. However the unit hook, the audit, the reconcile tick and the run outcomes interleave
  their calls within one KST day, as long as every page request can lock, read and save the
  ledger, no incident kind is mailed twice without its resolution mailed in between. A request
  that cannot use the ledger, at any of these states, is the exception: it mails its page
  unconditionally and leaves the ledger as it was, so it cannot silence or spend a later page.
\<close>

theorem one_page_per_incident:
  assumes "pager_day cfg K today s"
  shows "separated k (pg_mails s)
    \<and> (\<not> io_locked io \<or> \<not> io_saved io \<longrightarrow>
         page cfg io k src scope now s = (Inr SENT, s\<lparr>pg_mails := pg_mails s @ [Page_mail k]\<rparr>))"
  using pager_day_inv [OF assms] unusable_ledger_mails [of io s cfg k src scope now] by (auto simp: pager_inv_def)

definition demo_kinds :: "string \<Rightarrow> IncidentKind" where
  "demo_kinds src = (if src = ''run:predict:1'' then PREDICT else COLLECT)"

definition good_io :: pager_io where
  "good_io = \<lparr>io_locked = True, io_saved = True\<rparr>"

definition demo_pager :: pager where
  "demo_pager = \<lparr>pg_file = No_ledger, pg_mails = []\<rparr>"

definition demo_noon :: int where
  "demo_noon = instant (2026, 3, 4) (12 * 3600)"

lemma demo_pager_day: "pager_day DEFAULT_ALERT_POLICY demo_kinds (kst_day demo_noon) demo_pager"
  unfolding demo_pager_def by (rule pager_day.start) (auto simp: load_ledger_def typed_ledger_def)

lemma demo_two_requests:
  "pager_day DEFAULT_ALERT_POLICY demo_kinds (kst_day demo_noon)
     (snd (page DEFAULT_ALERT_POLICY good_io (demo_kinds ''kca-collect'') ''kca-collect'' SCOPE_DAY demo_noon
       (snd (page DEFAULT_ALERT_POLICY good_io (demo_kinds ''run:collect:1'') ''run:collect:1'' SCOPE_DAY demo_noon demo_pager))))"
  by (rule pager_day.requested [OF pager_day.requested [OF demo_pager_day refl _ _ surjective_pairing] refl _ _ surjective_pairing])
    (simp_all add: good_io_def)

text \<open>The second request of the day is not mailed; one that finds the ledger locked is.\<close>

theorem one_page_per_incident_witness:
  "let s = snd (page DEFAULT_ALERT_POLICY good_io (demo_kinds ''kca-collect'') ''kca-collect'' SCOPE_DAY demo_noon
       (snd (page DEFAULT_ALERT_POLICY good_io (demo_kinds ''run:collect:1'') ''run:collect:1'' SCOPE_DAY demo_noon demo_pager)))
   in separated COLLECT (pg_mails s)
    \<and> page DEFAULT_ALERT_POLICY (good_io\<lparr>io_locked := False\<rparr>) COLLECT ''kca-collect'' SCOPE_DAY demo_noon s
        = (Inr SENT, s\<lparr>pg_mails := pg_mails s @ [Page_mail COLLECT]\<rparr>)"
  using one_page_per_incident [OF demo_two_requests, of COLLECT "good_io\<lparr>io_locked := False\<rparr>" "''kca-collect''" SCOPE_DAY demo_noon]
  by (simp add: Let_def)

text \<open>
  A ledger that is locked by another process, that cannot be read or decoded, or that
  cannot be written, never silences a page: the request is answered SENT and its mail is sent.
\<close>

theorem fails_toward_paging:
  assumes "\<not> io_locked io \<or> \<not> io_saved io \<or> pg_file s = Ledger_unreadable \<or> pg_file s = Ledger_malformed"
  shows "page cfg io kind src scope now s = (Inr SENT, s\<lparr>pg_mails := pg_mails s @ [Page_mail kind]\<rparr>)"
  by (rule unusable_ledger_mails [OF assms])

theorem fails_toward_paging_witness:
  "page DEFAULT_ALERT_POLICY good_io ORDER_EXIT ''kca-order-exit'' SCOPE_DAY demo_noon
     \<lparr>pg_file = Ledger_malformed, pg_mails = [Page_mail ORDER_EXIT]\<rparr>
   = (Inr SENT, \<lparr>pg_file = Ledger_malformed, pg_mails = [Page_mail ORDER_EXIT, Page_mail ORDER_EXIT]\<rparr>)"
  using fails_toward_paging [of good_io "\<lparr>pg_file = Ledger_malformed, pg_mails = [Page_mail ORDER_EXIT]\<rparr>"
      DEFAULT_ALERT_POLICY ORDER_EXIT "''kca-order-exit''" SCOPE_DAY demo_noon] by simp


lemma unusable_ledger_observed:
  assumes "\<not> io_locked io \<or> pg_file s = Ledger_unreadable \<or> pg_file s = Ledger_malformed"
  shows "observe io kind src scope now s = (Inr now, s)"
proof -
  have "\<exists>e. ledger_error e \<and> mutate io now change s = (Inl e, s)" for change :: "incident_ledger \<Rightarrow> string \<Rightarrow> (int \<times> incident_ledger) res"
  proof (cases "io_locked io")
    case False
    then show ?thesis by (simp add: mutate_def bnd_def lift_res_def guard_ok_def ledger_error_def is_os_error_def is_value_error_def)
  next
    case True
    then obtain e where e: "load_ledger (pg_file s) = Inl e" "ledger_error e"
      using assms by (auto simp: load_ledger_def ledger_error_def is_os_error_def is_value_error_def)
    then show ?thesis using True by (simp add: mutate_def bnd_def lift_res_def guard_ok_def rbind_def)
  qed
  then obtain e where "ledger_error e" "mutate io now (\<lambda>l today. case sighting kind src scope now l today of (e, l') \<Rightarrow>
      rbind (entry_moment e ''first_seen'') (\<lambda>t. Inr (t, l'))) s = (Inl e, s)" by blast
  then show ?thesis by (simp only: observe_def catch_when_def ret_def sum.case prod.case if_True)
qed

text \<open>
  Issue keys are the exception: their first sighting is read from the ledger, and where it
  cannot be read the sighting is now, so a condition that pages only after it has lasted for
  some time is not yet due, at this call and at every later one.
\<close>

theorem unusable_ledger_withholds_backup_pages:
  assumes "(\<forall>k. \<not> io_locked (io k)) \<or> pg_file s = Ledger_unreadable \<or> pg_file s = Ledger_malformed"
    and "0 < backup_page_after cfg" "\<forall>k\<in>set keys. classify_issue_key k = Some BACKUP_FAILING"
  shows "page_issue_keys cfg io pending now keys s = (Inr (map (\<lambda>k. (k, Not_due)) (sort (remdups keys))), s)"
proof -
  have "page_keys cfg io pending now ks sts s = (Inr (sts @ map (\<lambda>k. (k, Not_due)) ks), s)" if "set ks \<subseteq> set keys" for ks sts
    using that
  proof (induction ks arbitrary: sts)
    case (Cons k ks)
    have seen: "observe (io k) BACKUP_FAILING k SCOPE_OPEN now s = (Inr now, s)"
      using assms(1) by (intro unusable_ledger_observed) auto
    have "classify_issue_key k = Some BACKUP_FAILING" using assms(3) Cons.prems by simp
    then show ?case using Cons seen assms(2) by (simp add: bnd_def issue_page_due_def incident_scope_def MEASURED_KINDS_def)
  qed (simp add: ret_def)
  then show ?thesis by (simp add: page_issue_keys_def)
qed

end
