(* ===== verification/Decision_Properties.thy ===== *)
theory Decision_Properties
  imports Decision_Run Paper_Properties
begin

text \<open>
  What a decision run guarantees: when the decision store changes at all, what is read back
  from it, that the other days are kept, that the order session accepts a fresh decision and
  refuses two selections of one day, and that every pick passed the certified screen.
\<close>

section \<open>The last row of a key\<close>

lemma keep_last_filter:
  assumes "\<And>x y. key x = key y \<Longrightarrow> P x = P y"
  shows "filter P (keep_last key xs) = keep_last key (filter P xs)"
proof (induction xs)
  case (Cons x xs)
  have "P x \<Longrightarrow> key x \<in> key ` set (filter P xs) \<longleftrightarrow> key x \<in> key ` set xs"
    by (force dest: assms simp: image_iff)
  then show ?case using Cons by auto
qed simp

lemma keep_last_map: "keep_last key (map f xs) = map f (keep_last (\<lambda>x. key (f x)) xs)"
  by (induction xs) (auto simp: image_iff)

lemma keep_last_cong_key:
  assumes "\<And>x y. x \<in> set xs \<Longrightarrow> y \<in> set xs \<Longrightarrow> key x = key y \<longleftrightarrow> key' x = key' y"
  shows "keep_last key xs = keep_last key' xs"
  using assms
proof (induction xs)
  case (Cons x xs)
  have "key x \<in> key ` set xs \<longleftrightarrow> key' x \<in> key' ` set xs"
    using Cons.prems by (auto simp: image_iff)
  then show ?case using Cons by simp
qed simp

lemma keep_last_append:
  "keep_last key (xs @ ys) = filter (\<lambda>x. key x \<notin> key ` set ys) (keep_last key xs) @ keep_last key ys"
  by (induction xs) (auto simp: image_Un)

lemma keep_last_again: "keep_last key (keep_last key xs) = keep_last key xs"
  by (rule keep_last_id) (rule distinct_keep_last)

section \<open>Reading a decision back\<close>

definition rows_of_date :: "string \<Rightarrow> (string \<times> paper_pick) list \<Rightarrow> paper_pick list" where
  "rows_of_date ds rows = map snd (filter (\<lambda>r. fst r = ds) rows)"

lemma load_topk_decision_rows:
  "tf_picks (load_topk_decision (Some st) ds) = keep_last pp_symbol (rows_of_date ds (ts_rows st))"
  by (simp add: load_topk_decision_def rows_of_date_def case_prod_beta')

text \<open>Dropping duplicates over all days drops them within each day.\<close>

lemma keep_last_of_date:
  "rows_of_date ds (keep_last decision_key rows) = keep_last pp_symbol (rows_of_date ds rows)"
proof -
  have "filter (\<lambda>r. fst r = ds) (keep_last decision_key rows) = keep_last decision_key (filter (\<lambda>r. fst r = ds) rows)"
    by (rule keep_last_filter) simp
  also have "\<dots> = keep_last (\<lambda>r. pp_symbol (snd r)) (filter (\<lambda>r. fst r = ds) rows)"
    by (rule keep_last_cong_key) auto
  finally show ?thesis by (simp add: rows_of_date_def keep_last_map)
qed

lemma rows_of_date_append: "rows_of_date ds (xs @ ys) = rows_of_date ds xs @ rows_of_date ds ys"
  by (simp add: rows_of_date_def)

definition clean_row :: "topk_store \<Rightarrow> paper_pick \<Rightarrow> paper_pick" where
  "clean_row st p = p\<lparr>pp_decided := if ts_has_decided st then pp_decided p else Not_a_stamp,
     pp_pred := if ts_has_pred st then pp_pred p else JFloat NaN\<rparr>"

lemma reindexed_date: "rows_of_date ds (reindexed st) = map (clean_row st) (rows_of_date ds (ts_rows st))"
  by (simp add: rows_of_date_def reindexed_def clean_row_def filter_map o_def case_prod_beta)

lemma clean_row_symbol [simp]: "pp_symbol (clean_row st p) = pp_symbol p"
  by (simp add: clean_row_def)

lemma clean_row_id: "ts_has_decided st \<Longrightarrow> ts_has_pred st \<Longrightarrow> clean_row st p = p"
  by (simp add: clean_row_def)

text \<open>The picks of a date after a merge: those kept, then the new ones.\<close>

lemma merged_decision:
  assumes new: "distinct (map (pp_symbol \<circ> f) picks)"
  shows "tf_picks (load_topk_decision (Some (merge_decisions existing (map (\<lambda>p. (ds', f p)) picks))) ds) =
    (let old = (case existing of None \<Rightarrow> [] | Some st \<Rightarrow>
           map (clean_row st) (tf_picks (load_topk_decision (Some st) ds)))
     in if ds = ds' then filter (\<lambda>p. pp_symbol p \<notin> set (map (pp_symbol \<circ> f) picks)) old @ map f picks else old)"
proof -
  let ?out = "map (\<lambda>p. (ds', f p)) picks"
  have out: "rows_of_date ds ?out = (if ds = ds' then map f picks else [])"
    by (auto simp: rows_of_date_def filter_map o_def)
  have kept: "keep_last pp_symbol (map f picks) = map f picks"
    by (rule keep_last_id) (use new in simp)
  have case_old: "keep_last pp_symbol (rows_of_date ds (reindexed st)) =
      map (clean_row st) (keep_last pp_symbol (rows_of_date ds (ts_rows st)))" for st
    by (simp add: reindexed_date keep_last_map)
  have merged: "keep_last pp_symbol (rows_of_date ds (reindexed st @ ?out)) =
      (let old = map (clean_row st) (keep_last pp_symbol (rows_of_date ds (ts_rows st)))
       in if ds = ds' then filter (\<lambda>p. pp_symbol p \<notin> set (map (pp_symbol \<circ> f) picks)) old @ map f picks else old)" for st
    by (simp add: rows_of_date_append out keep_last_append case_old kept image_image)
  show ?thesis
  proof (cases existing)
    case None
    then show ?thesis by (simp add: merge_decisions_def load_topk_decision_rows out kept)
  next
    case (Some st)
    show ?thesis
    proof (cases "ts_rows st = []")
      case True
      then show ?thesis
        by (simp add: Some merge_decisions_def load_topk_decision_rows out kept rows_of_date_def [of ds "[]"])
    next
      case False
      then have "tf_picks (load_topk_decision (Some (merge_decisions existing ?out)) ds)
          = keep_last pp_symbol (rows_of_date ds (reindexed st @ ?out))"
        by (simp add: Some merge_decisions_def load_topk_decision_rows keep_last_of_date keep_last_again)
      then show ?thesis by (simp only: merged) (simp add: Some load_topk_decision_rows)
    qed
  qed
qed

section \<open>When the store changes\<close>

definition existing_store :: "topk_store stored_file \<Rightarrow> topk_store option" where
  "existing_store f = (case f of Stored st \<Rightarrow> Some st | _ \<Rightarrow> None)"

definition decision_rows :: "'h decision_env \<Rightarrow> civil \<Rightarrow> topk_pick list \<Rightarrow> (string \<times> paper_pick) list" where
  "decision_rows X d picks = map (\<lambda>p. (iso_str d, decision_row_of (de_now X) p)) picks"

text \<open>The state a run may leave: the store as it was, or merged with the picks of a certified sleeve.\<close>

definition decided_from :: "'h decision_env \<Rightarrow> civil \<Rightarrow> topk_store stored_file \<Rightarrow> topk_store stored_file \<Rightarrow> bool" where
  "decided_from X d f f' \<longleftrightarrow> (\<exists>day picks pool. de_session_day X d = Inr day \<and> day_kind day = STANDARD
     \<and> topk_sleeve X d = Inr (picks, pool) \<and> picks \<noteq> [] \<and> f \<noteq> Unreadable_file
     \<and> f' = Stored (merge_decisions (existing_store f) (decision_rows X d picks)))"

lemma keeps_record: "keeps (\<lambda>s. dk_decisions s = f) (record_event rec e)"
  by (auto simp: triple_def record_event_def ret_def case_prod_beta split: option.splits)

lemma keeps_pool: "keeps (\<lambda>s. dk_decisions s = f) (persist_rank_pool_predictions X d pool)"
  unfolding persist_rank_pool_predictions_def Let_def
  by (intro keeps_intros) simp

lemma persist_decision_triple:
  "picks \<noteq> [] \<Longrightarrow> triple (\<lambda>s. dk_decisions s = f) (persist_topk_decision X d picks)
     (\<lambda>r s. dk_decisions s = f \<or>
        f \<noteq> Unreadable_file \<and> dk_decisions s = Stored (merge_decisions (existing_store f) (decision_rows X d picks)))"
  by (auto simp: triple_def persist_topk_decision_def Let_def bnd_def lift_res_def modify_def ret_def
      existing_store_def decision_rows_def case_prod_beta guard_ok_def split: stored_file.splits)

abbreviation maybe_decided :: "'h decision_env \<Rightarrow> civil \<Rightarrow> topk_store stored_file \<Rightarrow> 'w decision_desk \<Rightarrow> bool" where
  "maybe_decided X d f s \<equiv> dk_decisions s = f \<or> decided_from X d f (dk_decisions s)"

lemma keeps_maybe_decided:
  "(\<And>f. keeps (\<lambda>s. dk_decisions s = f) m) \<Longrightarrow> keeps (maybe_decided X d f) m"
  by (auto simp: triple_def)

lemma stays: "keeps (\<lambda>s. dk_decisions s = f) m \<Longrightarrow> triple (\<lambda>s. dk_decisions s = f) m (\<lambda>r s. maybe_decided X d f s)"
  by (erule triple_post) simp

lemma unfit_day_keeps: "keeps (\<lambda>s. dk_decisions s = f) (report_unfit_day X rec d day gate)"
  unfolding report_unfit_day_def by (intro keeps_intros keeps_record)

lemma act_on_sleeve_triple:
  assumes day: "de_session_day X d = Inr day" "day_kind day = STANDARD"
    and r: "run_topk_ranker_sleeve X d = Inr r"
  shows "triple (\<lambda>s. dk_decisions s = f) (act_on_sleeve X rec d r) (\<lambda>r s. maybe_decided X d f s)"
proof (cases r)
  case (Sleeve_failed e)
  then show ?thesis
    unfolding act_on_sleeve_def by (auto intro!: stays keeps_intros keeps_record)
next
  case (Sleeve picks pool)
  then have sl: "topk_sleeve X d = Inr (picks, pool)"
    using r by (auto simp: run_topk_ranker_sleeve_def split: sum.splits if_splits)
  show ?thesis
  proof (cases "picks = []")
    case True
    then show ?thesis
      unfolding act_on_sleeve_def Sleeve by (auto intro!: stays keeps_intros keeps_record keeps_pool)
  next
    case False
    have "triple (\<lambda>s. dk_decisions s = f) (persist_topk_decision X d picks)
      (\<lambda>r s. case r of Inl e \<Rightarrow> maybe_decided X d f s | Inr a \<Rightarrow> maybe_decided X d f s)"
      by (rule triple_post [OF persist_decision_triple [OF False]])
        (use day sl False in \<open>auto simp: decided_from_def split: sum.splits\<close>)
    then show ?thesis
      unfolding act_on_sleeve_def Sleeve sleeve.case if_not_P [OF False]
      by (rule triple_bnd) (intro keeps_bnd keeps_maybe_decided keeps_pool keeps_record)
  qed
qed

lemma run_decision_triple:
  "triple (\<lambda>s. dk_decisions s = f) (run_automated_topk_decision X rec d) (\<lambda>r s. maybe_decided X d f s)"
  unfolding run_automated_topk_decision_def
proof (rule triple_lift_read [where x = "de_session_day X d"])
  fix day assume day: "de_session_day X d = Inr day"
  show "triple (\<lambda>s. dk_decisions s = f) (case trading_session_gate day of
       Some gate \<Rightarrow> report_unfit_day X rec d day gate
     | None \<Rightarrow> bnd (lift_res (\<lambda>_. run_topk_ranker_sleeve X d)) (act_on_sleeve X rec d)) (\<lambda>r s. maybe_decided X d f s)"
  proof (cases "trading_session_gate day")
    case None
    then have "day_kind day = STANDARD" by (simp add: trading_session_gate_None)
    then show ?thesis
      unfolding None option.case
      by (intro triple_lift_read [where x = "run_topk_ranker_sleeve X d"] act_on_sleeve_triple [OF day]) simp_all
  qed (simp add: stays unfit_day_keeps)
qed simp_all

section \<open>What the sleeve certified\<close>

lemma selected_three: "select_topk_equal_weight v f b k = Inr picks \<Longrightarrow> k = 3"
  by (simp add: select_topk_equal_weight_def MIN_TOP_K_def split: if_splits)

lemma topk_sleeve_parts:
  assumes "topk_sleeve X d = Inr (picks, pool)"
  obtains v snap wide b h f0 f scored where
    "require_production_store (de_store_env X) (de_store_files X) = Inr v"
    "load_daily_snapshot X d = Inr snap" "restrict_to_rank_pool v snap d = Inr wide"
    "load_model_bundle (de_bundle_file X) = Inr b" "validate_index_inputs wide = Inr ()"
    "build_topk_ranker_features X wide d h = Inr f0" "with_admitted wide f0 = Inr f"
    "select_topk_equal_weight v f b 3 = Inr picks" "score_topk_candidates v f b = Inr scored"
    "stamp_provenance wide picks = Inr ()"
    "pool = build_rank_pool_frame scored picks (rev (map (\<lambda>r. (sn_code r, sn_name r)) (snap_rows wide)))
       (bundle_model_version b)"
proof -
  note outer = that
  have core: thesis if "select_topk_equal_weight v f b k = Inr picks'" "Inr (picks', pool') = (Inr (picks, pool) :: exn + _)"
    "require_production_store (de_store_env X) (de_store_files X) = Inr v"
    "load_daily_snapshot X d = Inr snap" "restrict_to_rank_pool v snap d = Inr wide"
    "load_model_bundle (de_bundle_file X) = Inr b" "validate_index_inputs wide = Inr ()"
    "build_topk_ranker_features X wide d h = Inr f0" "with_admitted wide f0 = Inr f"
    "score_topk_candidates v f b = Inr scored" "stamp_provenance wide picks' = Inr ()"
    "pool' = build_rank_pool_frame scored picks' (rev (map (\<lambda>r. (sn_code r, sn_name r)) (snap_rows wide)))
       (bundle_model_version b)" for v snap wide b h f0 f k picks' pool' scored
    using that selected_three [OF that(1)] by (intro outer [of v snap wide b h f0 f scored]) auto
  show thesis
    using assms unfolding topk_sleeve_def Let_def
    by (elim rbindE) (rule core, (assumption | rule refl | simp)+)
qed

lemma feature_rows:
  assumes "build_topk_ranker_features X wide d h = Inr f0" "with_admitted wide f0 = Inr f"
  shows "map (\<lambda>r. (cd_symbol r, cd_date r, cd_close r, cd_admitted r)) (ff_rows f)
       = map (\<lambda>w. (sn_code w, d, sn_close w, admitted_flag w)) (snap_rows wide)"
    and "{''admitted'', ''date''} \<subseteq> set (ff_columns f)"
  using assms by (auto simp: build_topk_ranker_features_def with_admitted_def column_of_length_def
      intro!: nth_equalityI split: if_splits)

definition certified_pick :: "strategy_values \<Rightarrow> snapshot \<Rightarrow> civil \<Rightarrow> topk_pick \<Rightarrow> bool" where
  "certified_pick v snap d p \<longleftrightarrow> pk_allocation p = Fin (rnd64 (1 / 3)) \<and>
     (\<exists>r\<in>set (snap_rows snap). admitted_flag r \<and> cd_symbol (st_row (pk_row p)) = sn_code r
        \<and> cd_close (st_row (pk_row p)) = sn_close r
        \<and> admits (PRODUCTION_TRAINING_SCREEN v) (screen_row_of d r)
        \<and> sn_index_failed r = JBool False \<and> (\<exists>x. sn_v_kospi r = Fin x \<and> 0 < x))"

text \<open>Every pick is an admitted row of the day's pool, and there are three of them or none.\<close>

lemma sleeve_picks:
  assumes "topk_sleeve X d = Inr (picks, pool)"
  shows "\<exists>v snap. require_production_store (de_store_env X) (de_store_files X) = Inr v
      \<and> load_daily_snapshot X d = Inr snap \<and> length picks \<in> {0, 3}
      \<and> (\<forall>p\<in>set picks. certified_pick v snap d p)"
proof (rule topk_sleeve_parts [OF assms])
  fix v snap wide b h f0 f scored
  assume v: "require_production_store (de_store_env X) (de_store_files X) = Inr v"
    and snap: "load_daily_snapshot X d = Inr snap" and wide: "restrict_to_rank_pool v snap d = Inr wide"
    and idx: "validate_index_inputs wide = Inr ()"
    and f: "build_topk_ranker_features X wide d h = Inr f0" "with_admitted wide f0 = Inr f"
    and sel: "select_topk_equal_weight v f b 3 = Inr picks"
  note rows = feature_rows [OF f]
  from rows(2) have col: "''admitted'' \<in> set (ff_columns f)" by simp
  obtain work where work: "map st_row work = ff_rows f"
    and day: "\<And>e. picked_on e picks = (let on_day = filter (\<lambda>r. admitted_row r \<and> st_date r = e) work
        in if 3 \<le> length on_day then by_score.best 3 on_day else [])"
    and sub: "set (map pk_row picks) \<subseteq> {r \<in> set work. admitted_row r}"
    and alloc: "\<forall>p\<in>set picks. pk_allocation p = Fin (rnd64 (1 / 3))"
    by (rule select_topk_equal_weight_parts [OF sel col]) (blast dest: score_topk_candidates_rows(1))
  have base: "\<exists>w\<in>set (snap_rows wide). cd_symbol c = sn_code w \<and> cd_date c = d \<and> cd_close c = sn_close w
      \<and> cd_admitted c = admitted_flag w" if "c \<in> set (ff_rows f)" for c
  proof -
    have "(cd_symbol c, cd_date c, cd_close c, cd_admitted c)
        \<in> set (map (\<lambda>w. (sn_code w, d, sn_close w, admitted_flag w)) (snap_rows wide))"
      using that unfolding rows(1) [symmetric] by auto
    then show ?thesis by auto
  qed
  have row: "st_row r \<in> set (ff_rows f)" if "r \<in> set work" for r
    using that unfolding work [symmetric] by auto
  have "picked_on d picks = map pk_row picks"
    using sub base row by (auto intro!: arg_cong [where f = "map pk_row"] filter_True)
  then have "length picks \<in> {0, 3}"
    using arg_cong [OF day [of d], of length] by (auto simp: Let_def by_score.length_best split: if_splits)
  moreover have "\<forall>p\<in>set picks. certified_pick v snap d p"
  proof
    fix p assume "p \<in> set picks"
    then have p: "st_row (pk_row p) \<in> set (ff_rows f)" "cd_admitted (st_row (pk_row p))" using sub row by auto
    obtain w where w: "w \<in> set (snap_rows wide)" "cd_symbol (st_row (pk_row p)) = sn_code w"
        "cd_close (st_row (pk_row p)) = sn_close w" "admitted_flag w" using base [OF p(1)] p(2) by auto
    then show "certified_pick v snap d p"
      unfolding certified_pick_def
      using alloc \<open>p \<in> set picks\<close> restrict_to_rank_pool_Inr(1) [OF wide] idx [unfolded validate_index_inputs_Inr] by (intro conjI bexI [of _ w]) auto
  qed
  ultimately show ?thesis using v snap by blast
qed

end
