(* ===== verification/Decision_Safety.thy ===== *)
theory Decision_Safety
  imports Decision_Properties Session_Plans
begin

text \<open>
  The properties of the decision path: what must hold when a run changes the decision store,
  what the order session reads from it, and how the order session takes it.
\<close>

section \<open>A stored decision\<close>

lemma decided_run:
  assumes "run_automated_topk_decision X rec d s = (r, s')" "dk_decisions s' \<noteq> dk_decisions s"
  shows "decided_from X d (dk_decisions s) (dk_decisions s')"
  using tripleD [OF run_decision_triple [of "dk_decisions s" X rec d] _ assms(1)] assms(2) by simp

text \<open>
  C26. The decision store changes only on a standard session, under the private strategy store,
  with a bundle whose features and screen are those of the code, and then by exactly three
  equal-weight picks, each of them a row of the day's snapshot that the collector admitted,
  that the training screen admits and whose index inputs are valid.
\<close>

theorem decision_is_certified:
  assumes run: "run_automated_topk_decision X rec d s = (r, s')" and changed: "dk_decisions s' \<noteq> dk_decisions s"
  shows "\<exists>day v snap b picks. de_session_day X d = Inr day \<and> day_kind day = STANDARD
    \<and> require_production_store (de_store_env X) (de_store_files X) = Inr v \<and> \<not> example_store v
    \<and> load_daily_snapshot X d = Inr snap
    \<and> load_model_bundle (de_bundle_file X) = Inr b \<and> feature_contract_issue b = None
    \<and> assert_bundle_screen_parity v b (ss_universe (PRODUCTION_STRATEGY v)) = Inr ()
    \<and> length picks = 3 \<and> (\<forall>p\<in>set picks. certified_pick v snap d p)
    \<and> dk_decisions s' = Stored (merge_decisions (existing_store (dk_decisions s)) (decision_rows X d picks))"
proof -
  obtain day picks pool where day: "de_session_day X d = Inr day" "day_kind day = STANDARD"
    and sleeve: "topk_sleeve X d = Inr (picks, pool)" "picks \<noteq> []"
    and store: "dk_decisions s' = Stored (merge_decisions (existing_store (dk_decisions s)) (decision_rows X d picks))"
    using decided_run [OF run changed] by (auto simp: decided_from_def)
  obtain v snap where v: "require_production_store (de_store_env X) (de_store_files X) = Inr v"
    and snap: "load_daily_snapshot X d = Inr snap" and n: "length picks \<in> {0, 3}"
    and certified: "\<forall>p\<in>set picks. certified_pick v snap d p"
    using sleeve_picks [OF sleeve(1)] by blast
  have "\<exists>b. load_model_bundle (de_bundle_file X) = Inr b \<and>
      assert_bundle_screen_parity v b (ss_universe (PRODUCTION_STRATEGY v)) = Inr ()"
    by (rule topk_sleeve_parts [OF sleeve(1)]) (use v in \<open>auto dest: score_topk_candidates_rows(2)\<close>)
  moreover have "feature_contract_issue b = None" if "load_model_bundle (de_bundle_file X) = Inr b" for b
    using that by (auto simp: load_model_bundle_def assert_feature_contract_def split: option.split_asm)
  moreover have "\<not> example_store v" using production_store_is_private [OF v] by simp
  ultimately show ?thesis using day v snap n certified store sleeve(2) by (auto 6 0)
qed

text \<open>A run never changes what is read for another day.\<close>

theorem other_days_are_kept:
  assumes run: "run_automated_topk_decision X rec d s = (r, s')" and other: "iso_str e \<noteq> iso_str d"
    and columns: "\<And>st. dk_decisions s = Stored st \<Longrightarrow> ts_has_decided st \<and> ts_has_pred st"
    and stored: "dk_decisions s \<noteq> No_file"
  shows "load_decision (dk_decisions s') e = load_decision (dk_decisions s) e"
proof (cases "dk_decisions s' = dk_decisions s")
  case False
  then obtain picks where new: "dk_decisions s \<noteq> Unreadable_file"
    "dk_decisions s' = Stored (merge_decisions (existing_store (dk_decisions s)) (decision_rows X d picks))"
    using decided_run [OF run] by (auto simp: decided_from_def)
  then obtain st where st: "dk_decisions s = Stored st" using stored by (cases "dk_decisions s") auto
  have cols: "ts_has_decided st" "ts_has_pred st" using columns [OF st] by auto
  let ?m = "merge_decisions (Some st) (decision_rows X d picks)"
  have "keep_last pp_symbol (rows_of_date (iso_str e) (ts_rows ?m)) = keep_last pp_symbol (rows_of_date (iso_str e) (ts_rows st))"
  proof -
    have "rows_of_date (iso_str e) (decision_rows X d picks) = []"
      using other by (auto simp: rows_of_date_def decision_rows_def)
    then show ?thesis
      using cols by (cases "ts_rows st = []")
        (simp_all add: merge_decisions_def keep_last_of_date keep_last_again rows_of_date_append reindexed_date
          clean_row_id map_idI rows_of_date_def [of _ "[]"])
  qed
  then have "tf_picks (load_topk_decision (Some ?m) (iso_str e)) = tf_picks (load_topk_decision (Some st) (iso_str e))"
    by (simp only: load_topk_decision_rows)
  then have "load_topk_decision (Some ?m) (iso_str e) = load_topk_decision (Some st) (iso_str e)"
    using cols by (simp add: load_topk_decision_def merge_decisions_def)
  then show ?thesis by (simp add: load_decision_def new st existing_store_def)
qed simp

section \<open>Reading the decision of the day\<close>

abbreviation pick_symbols :: "topk_pick list \<Rightarrow> string list" where
  "pick_symbols picks \<equiv> map (\<lambda>p. cd_symbol (st_row (pk_row p))) picks"

definition earlier_picks :: "topk_store stored_file \<Rightarrow> civil \<Rightarrow> paper_pick list" where
  "earlier_picks f d = (case f of
     Stored st \<Rightarrow> map (clean_row st) (tf_picks (load_topk_decision (Some st) (iso_str d)))
   | _ \<Rightarrow> [])"

lemma pp_symbol_row [simp]: "pp_symbol (decision_row_of now p) = cd_symbol (st_row (pk_row p))"
  by (simp add: decision_row_of_def Let_def)

lemma read_after_run:
  assumes changed: "decided_from X d f f'" and sleeve: "topk_sleeve X d = Inr (picks, pool)"
    and distinct: "distinct (pick_symbols picks)"
  shows "load_decision f' d = Inr \<lparr>tf_has_decided = True, tf_has_pred = True,
      tf_picks = filter (\<lambda>p. pp_symbol p \<notin> set (pick_symbols picks)) (earlier_picks f d)
        @ map (decision_row_of (de_now X)) picks\<rparr>"
proof -
  have f': "f' = Stored (merge_decisions (existing_store f) (decision_rows X d picks))"
    using changed sleeve by (auto simp: decided_from_def)
  let ?m = "merge_decisions (existing_store f) (map (\<lambda>p. (iso_str d, decision_row_of (de_now X) p)) picks)"
  have "tf_picks (load_topk_decision (Some ?m) (iso_str d)) =
      filter (\<lambda>p. pp_symbol p \<notin> set (pick_symbols picks)) (earlier_picks f d)
        @ map (decision_row_of (de_now X)) picks"
    by (subst merged_decision) (use distinct in \<open>auto simp: Let_def o_def existing_store_def earlier_picks_def
        split: stored_file.splits\<close>)
  then show ?thesis
    by (simp add: f' load_decision_def decision_rows_def)
      (simp add: load_topk_decision_def merge_decisions_def)
qed

section \<open>The order session's check\<close>

text \<open>The frame the order session validates holds the same columns and rows.\<close>

definition decision_frame_of :: "topk_frame \<Rightarrow> decision_frame" where
  "decision_frame_of f = \<lparr>df_columns = [''symbol'', ''allocation'', ''close'']
       @ (if tf_has_decided f then [''decided_at''] else []) @ (if tf_has_pred f then [''pred''] else []),
     df_rows = map (\<lambda>p. \<lparr>dr_symbol = pp_symbol p, dr_allocation = pp_allocation p, dr_pred = pp_pred p,
       dr_close = pp_close p, dr_decided = pp_decided p\<rparr>) (tf_picks f)\<rparr>"

definition third :: rat where
  "third = 6004799503160661 / 18014398509481984"

lemma third_rnd: "rnd64 (1 / 3) = third"
  by (simp add: float_eval third_def)

lemma third_sums: "rnd64 (0 + third) = third" "rnd64 (third + third) = 2 * third" "rnd64 (2 * third + third) = 1"
  by (simp_all add: float_eval third_def)

lemma rnd64_dyadic: "rnd64 (1 / 8) = 1 / 8" "rnd64 (9 / 8) = 9 / 8" "rnd64 (5 / 4) = 5 / 4" "rnd64 1 = 1"
  by (simp_all add: float_eval)

lemma allocation_limit_bounds: "\<exists>x. allocation_limit = Fin x \<and> 1 \<le> x \<and> x \<le> 9 / 8"
proof -
  let ?e = "rnd64 (1 / 10 ^ 9)"
  have e: "0 \<le> ?e" "?e \<le> 1 / 8"
    using rnd64_nonneg [of "1 / 10 ^ 9"] rnd64_mono [of "1 / 10 ^ 9" "1 / 8"] by (simp_all add: rnd64_dyadic)
  have "1 \<le> rnd64 (1 + ?e)" "rnd64 (1 + ?e) \<le> 9 / 8"
    using rnd64_mono [of 1 "1 + ?e"] rnd64_mono [of "1 + ?e" "9 / 8"] e by (simp_all add: rnd64_dyadic)
  then show ?thesis by (simp add: allocation_limit_def)
qed

lemma allocation_sum_three: "allocation_sum (replicate 3 (Fin third)) = Fin 1"
  by (simp add: allocation_sum_def numeral_3_eq_3 third_sums [simplified])

lemma allocation_sum_more: "\<exists>x. allocation_sum (replicate (4 + n) (Fin third)) = Fin x \<and> 5 / 4 \<le> x"
proof (induction n)
  case 0
  have "allocation_sum (replicate 4 (Fin third)) = f_add (allocation_sum (replicate 3 (Fin third))) (Fin third)"
    by (simp add: allocation_sum_def numeral_3_eq_3 eval_nat_numeral)
  moreover have "5 / 4 \<le> rnd64 (1 + third)"
    using rnd64_mono [of "5 / 4" "1 + third"] by (simp add: rnd64_dyadic third_def)
  ultimately show ?case by (simp add: allocation_sum_three)
next
  case (Suc n)
  then obtain x where x: "allocation_sum (replicate (4 + n) (Fin third)) = Fin x" "5 / 4 \<le> x" by blast
  have "allocation_sum (replicate (4 + Suc n) (Fin third)) = f_add (allocation_sum (replicate (4 + n) (Fin third))) (Fin third)"
  proof -
    have "replicate (4 + Suc n) (Fin third) = replicate (4 + n) (Fin third) @ [Fin third]"
      by (simp only: add_Suc_right replicate_Suc replicate_append_same)
    then show ?thesis by (simp only: allocation_sum_def foldl_append foldl.simps)
  qed
  moreover have "5 / 4 \<le> rnd64 (x + third)"
    using rnd64_mono [of "5 / 4" "x + third"] x(2) by (simp add: rnd64_dyadic third_def)
  ultimately show ?case by (simp add: x)
qed

lemma read_allocations_thirds:
  "\<forall>v\<in>set vs. v = JFloat (Fin third) \<Longrightarrow> read_allocations vs = Inr (Some (replicate (length vs) (Fin third)))"
  by (induction vs) (auto simp: try_float_def f_le_def third_def)

lemma read_picks_ok:
  assumes "\<forall>r\<in>set rs. (\<exists>c. close_value (dr_close r) = Some c) \<and> stamp_rule ds now (dr_decided r) = None
      \<and> (\<exists>a. dr_allocation r = JFloat a) \<and> (\<exists>p. dr_pred r = JFloat p)"
  shows "\<exists>ps. read_picks ds now hp rs = Inr (Inr ps) \<and> map dp_symbol ps = map dr_symbol rs"
  using assms
proof (induction rs)
  case (Cons r rs)
  then obtain ps where "read_picks ds now hp rs = Inr (Inr ps)" "map dp_symbol ps = map dr_symbol rs" by auto
  then show ?case using Cons.prems by (auto simp: pred_value_def try_float_def)
qed simp

text \<open>
  C27. A decision written on a day without an earlier one is accepted by the order session's
  check, pick for pick, when its codes are distinct and valid symbols, its closes are whole
  positive prices, its stamp is inside the decision window and not in the future of the session,
  and the session may send at least three orders.
\<close>

theorem fresh_decision_is_accepted:
  assumes run: "run_automated_topk_decision X rec d s = (r, s')" and changed: "dk_decisions s' \<noteq> dk_decisions s"
    and sleeve: "topk_sleeve X d = Inr (picks, pool)"
    and fresh: "earlier_picks (dk_decisions s) d = []"
    and symbols: "distinct (pick_symbols picks)" "\<forall>c\<in>set (pick_symbols picks). is_symbol c"
    and closes: "\<forall>p\<in>set picks. close_value (JFloat (cd_close (st_row (pk_row p)))) \<noteq> None"
    and window: "stamp_rule (iso_str d) now (Stamp (de_now X)) = None"
    and sends: "3 \<le> max_sends"
  shows "\<exists>frame ps. load_decision (dk_decisions s') d = Inr frame
    \<and> validate_decision (decision_frame_of frame) (iso_str d) now max_sends = Inr (Inr ps)
    \<and> mset (map dp_symbol ps) = mset (pick_symbols picks)"
proof -
  have from_run: "decided_from X d (dk_decisions s) (dk_decisions s')" by (rule decided_run [OF run changed])
  then have "picks \<noteq> []" using sleeve by (auto simp: decided_from_def)
  then have three: "length picks = 3" and third: "\<forall>p\<in>set picks. pk_allocation p = Fin third"
    using sleeve_picks [OF sleeve] by (auto simp: certified_pick_def third_rnd)
  let ?frame = "\<lparr>tf_has_decided = True, tf_has_pred = True, tf_picks = map (decision_row_of (de_now X)) picks\<rparr>"
  have load: "load_decision (dk_decisions s') d = Inr ?frame"
    using read_after_run [OF from_run sleeve symbols(1)] by (simp add: fresh)
  let ?F = "decision_frame_of ?frame"
  have rows: "map dr_symbol (df_rows ?F) = pick_symbols picks" "length (df_rows ?F) = 3"
    by (simp_all add: decision_frame_of_def three)
  have alloc: "read_allocations (map dr_allocation (df_rows ?F)) = Inr (Some (replicate 3 (Fin third)))"
    using third by (subst read_allocations_thirds) (auto simp: decision_frame_of_def three decision_row_of_def Let_def)
  have "\<exists>ps. read_picks (iso_str d) now True (df_rows ?F) = Inr (Inr ps) \<and> map dp_symbol ps = map dr_symbol (df_rows ?F)"
    by (rule read_picks_ok) (use closes window in \<open>auto simp: decision_frame_of_def decision_row_of_def Let_def\<close>)
  then obtain ps where ps: "read_picks (iso_str d) now True (df_rows ?F) = Inr (Inr ps)"
    "map dp_symbol ps = pick_symbols picks" using rows by auto
  have cols: "missing_column ?F = None" "''pred'' \<in> set (df_columns ?F)"
    by (simp_all add: missing_column_def decision_frame_of_def)
  have lim: "\<not> f_lt allocation_limit (Fin 1)"
  proof -
    obtain x where "allocation_limit = Fin x" "1 \<le> x" using allocation_limit_bounds by blast
    then show ?thesis by (elim ssubst) simp
  qed
  have "validate_decision ?F (iso_str d) now max_sends
      = Inr (Inr (sort_key (\<lambda>p. decision_rank (dp_pred p) (dp_symbol p)) ps))"
  proof -
    have "df_rows ?F \<noteq> []" using rows(2) by auto
    then show ?thesis
      using symbols sends lim ps cols alloc rows
      by (simp add: validate_decision_def Let_def allocation_sum_three list_all_iff)
  qed
  moreover have "mset (map dp_symbol (sort_key (\<lambda>p. decision_rank (dp_pred p) (dp_symbol p)) ps)) = mset (map dp_symbol ps)"
    by simp
  ultimately show ?thesis using load by (metis ps(2))
qed

text \<open>
  A second selection on the same day that drops one of the earlier picks leaves more than
  three picks in the store, and the order session refuses the day: it never buys both.
\<close>

theorem second_selection_is_refused:
  assumes run: "run_automated_topk_decision X rec d s = (r, s')" and changed: "dk_decisions s' \<noteq> dk_decisions s"
    and sleeve: "topk_sleeve X d = Inr (picks, pool)" and symbols: "distinct (pick_symbols picks)"
    and earlier: "\<forall>p\<in>set (earlier_picks (dk_decisions s) d). pp_allocation p = JFloat (Fin third)"
    and dropped: "q \<in> set (earlier_picks (dk_decisions s) d)" "pp_symbol q \<notin> set (pick_symbols picks)"
  shows "\<exists>frame rule. load_decision (dk_decisions s') d = Inr frame
    \<and> validate_decision (decision_frame_of frame) (iso_str d) now max_sends = Inr (Inl rule)"
proof -
  have from_run: "decided_from X d (dk_decisions s) (dk_decisions s')" by (rule decided_run [OF run changed])
  then have "picks \<noteq> []" using sleeve by (auto simp: decided_from_def)
  then have three: "length picks = 3" and third: "\<forall>p\<in>set picks. pk_allocation p = Fin third"
    using sleeve_picks [OF sleeve] by (auto simp: certified_pick_def third_rnd)
  let ?old = "filter (\<lambda>p. pp_symbol p \<notin> set (pick_symbols picks)) (earlier_picks (dk_decisions s) d)"
  let ?frame = "\<lparr>tf_has_decided = True, tf_has_pred = True, tf_picks = ?old @ map (decision_row_of (de_now X)) picks\<rparr>"
  let ?F = "decision_frame_of ?frame"
  have load: "load_decision (dk_decisions s') d = Inr ?frame" by (rule read_after_run [OF from_run sleeve symbols])
  have "?old \<noteq> []" using dropped by (auto simp: filter_empty_conv)
  then obtain n where n: "length (df_rows ?F) = 4 + n"
    by (cases ?old) (auto simp: decision_frame_of_def three)
  have alloc: "read_allocations (map dr_allocation (df_rows ?F)) = Inr (Some (replicate (4 + n) (Fin third)))"
    using third earlier n by (subst read_allocations_thirds) (auto simp: decision_frame_of_def decision_row_of_def Let_def)
  obtain x where x: "allocation_sum (replicate (4 + n) (Fin third)) = Fin x" "5 / 4 \<le> x"
    using allocation_sum_more by blast
  obtain lim where lim: "allocation_limit = Fin lim" "lim \<le> 9 / 8" using allocation_limit_bounds by blast
  have over: "f_lt allocation_limit (allocation_sum (replicate (4 + n) (Fin third)))"
    unfolding x(1) lim(1) using x(2) lim(2) by simp
  have "missing_column ?F = None" by (simp add: missing_column_def decision_frame_of_def)
  moreover have "df_rows ?F \<noteq> []" using n by auto
  ultimately have "\<exists>rule. validate_decision ?F (iso_str d) now max_sends = Inr (Inl rule)"
    using alloc over by (simp add: validate_decision_def Let_def)
  then show ?thesis using load by blast
qed

text \<open>The pool of a run whose sleeve picked nothing.\<close>

definition abstaining_pool :: "strategy_values \<Rightarrow> topk_bundle \<Rightarrow> feature_frame \<Rightarrow> snapshot \<Rightarrow> pool_row list res" where
  "abstaining_pool v b f wide = rbind (score_topk_candidates v f b) (\<lambda>scored.
     Inr (build_rank_pool_frame scored [] (rev (map (\<lambda>r. (sn_code r, sn_name r)) (snap_rows wide))) (bundle_model_version b)))"

lemma abstaining_sleeve:
  assumes "require_production_store (de_store_env X) (de_store_files X) = Inr v"
    "load_daily_snapshot X d = Inr snap" "restrict_to_rank_pool v snap d = Inr wide"
    "load_model_bundle (de_bundle_file X) = Inr b" "validate_index_inputs wide = Inr ()"
    "(if needs_history b then rbind (de_history X d) (\<lambda>h. Inr (Some h)) else Inr None) = Inr h"
    "build_topk_ranker_features X wide d h = Inr f0" "with_admitted wide f0 = Inr f"
    "tb_top_k b = Some kv" "py_int kv = Inr k" "select_topk_equal_weight v f b k = Inr []"
    "C_name \<in> set (snap_columns wide)"
  obtains pool where "abstaining_pool v b f wide = Inr pool"
    "run_topk_ranker_sleeve X d =
      (if set PROVENANCE_COLUMNS \<inter> set (snap_columns wide) = {} then Inr (Sleeve [] pool) else Inl IndexError)"
proof -
  obtain scored where scored: "score_topk_candidates v f b = Inr scored"
    using assms(11) by (auto simp: select_topk_equal_weight_def split: if_splits)
  have cols: "need_columns [C_code, C_name] wide = Inr ()"
    using assms(3,12) restrict_to_rank_pool_Inr(3,6) [OF assms(3)] by (simp add: need_columns_def)
  obtain pool where pool: "abstaining_pool v b f wide = Inr pool" using scored by (simp add: abstaining_pool_def)
  have pool_is: "pool = build_rank_pool_frame scored [] (rev (map (\<lambda>r. (sn_code r, sn_name r)) (snap_rows wide)))
      (bundle_model_version b)"
    using pool scored by (simp add: abstaining_pool_def)
  have "topk_sleeve X d = rbind (stamp_provenance wide []) (\<lambda>_. Inr ([], pool))"
    unfolding topk_sleeve_def assms(1-8) rbind_simps
    by (simp add: assms(9-12) scored cols Let_def pool_is)
  then show thesis using pool
    by (intro that) (auto simp: run_topk_ranker_sleeve_def is_value_error_def stamp_provenance_def guard_ok_def)
qed

text \<open>
  C28. When every step of the sleeve succeeds and fewer rows are admitted than the bundle wants, the
  sleeve picks nothing. If the snapshot carries a provenance column of its capture, as every published
  one does, the run then ends with \<open>IndexError\<close>: no outcome is recorded and the pool is not stored. If
  it carries none, the run does what it means to do: it records the OK outcome
  \<open>admitted_below_top_k\<close> and stores the ranked pool.
\<close>

theorem abstaining_run_fails:
  assumes day: "de_session_day X d = Inr day" "day_kind day = STANDARD"
    and sleeve: "require_production_store (de_store_env X) (de_store_files X) = Inr v"
    "load_daily_snapshot X d = Inr snap" "restrict_to_rank_pool v snap d = Inr wide"
    "load_model_bundle (de_bundle_file X) = Inr b" "validate_index_inputs wide = Inr ()"
    "(if needs_history b then rbind (de_history X d) (\<lambda>h. Inr (Some h)) else Inr None) = Inr h"
    "build_topk_ranker_features X wide d h = Inr f0" "with_admitted wide f0 = Inr f"
    "tb_top_k b = Some kv" "py_int kv = Inr k" "select_topk_equal_weight v f b k = Inr []"
    "C_name \<in> set (snap_columns wide)"
  shows "\<exists>pool. abstaining_pool v b f wide = Inr pool \<and> run_automated_topk_decision X rec d s =
    (if {C_capture_run_id, C_cohort_id, C_available} \<inter> set (snap_columns wide) \<noteq> {} then (Inl IndexError, s)
     else bnd (record_event rec (predict_event OUT_OK d ''admitted_below_top_k'' 0)) (\<lambda>_.
          bnd (persist_rank_pool_predictions X d pool) (\<lambda>_. ret ())) s)"
proof -
  obtain pool where pool: "abstaining_pool v b f wide = Inr pool"
    "run_topk_ranker_sleeve X d =
      (if set PROVENANCE_COLUMNS \<inter> set (snap_columns wide) = {} then Inr (Sleeve [] pool) else Inl IndexError)"
    by (rule abstaining_sleeve [OF sleeve])
  have "trading_session_gate day = None" using day(2) by (simp add: trading_session_gate_None)
  then have run: "run_automated_topk_decision X rec d s = (case run_topk_ranker_sleeve X d of
      Inl e \<Rightarrow> (Inl e, s) | Inr r \<Rightarrow> act_on_sleeve X rec d r s)"
    by (simp add: run_automated_topk_decision_def bnd_def lift_res_def day split: sum.splits)
  show ?thesis using pool unfolding run by (auto simp: act_on_sleeve_def PROVENANCE_COLUMNS_def)
qed

section \<open>A small decision day\<close>

definition demo_params :: "(string \<times> toml) list" where
  "demo_params = [(''n_estimators'', TInt 1), (''learning_rate'', TFloat (Fin 1)), (''num_leaves'', TInt 2),
     (''min_child_samples'', TInt 1), (''subsample'', TFloat (Fin 1)), (''subsample_freq'', TInt 0),
     (''colsample_bytree'', TFloat (Fin 1)), (''reg_lambda'', TFloat (Fin 0))]"

definition demo_toml :: toml_table where
  "demo_toml =
     [(''meta'', TTable [(''schema'', TStr STORE_SCHEMA), (''version'', TStr ''1''), (''created_at'', TStr ''t''),
        (''source'', TStr ''s''), (''validated_by'', TStr ''v''), (''example'', TBool False)]),
      (''universe'', TTable [(''chg_min'', TFloat (Fin 0)), (''chg_max'', TFloat (Fin 1)),
        (''min_trade_value_100m'', TFloat (Fin 0)), (''min_market_cap_100m'', TFloat (Fin 0))]),
      (''ranker'', TTable [(''model_params'', TTable demo_params), (''seeds'', TArray [TInt 1]), (''label_clip'', TFloat (Fin 0))]),
      (''champion'', TTable [(''model_params'', TTable demo_params)]),
      (''features'', TTable [(''production_calendar_flow'', TArray [TStr ''f''])])]"

definition demo_store_values :: strategy_values where
  "demo_store_values = demo_values\<lparr>ranker_model_params := demo_params, champion_model_params := demo_params,
     values_root := Root_at ''/s''\<rparr>"

lemma demo_model_params: "model_params t ''model_params'' RANKER_PARAM_TYPES = Inr demo_params"
  if "map_of t ''model_params'' = Some (TTable demo_params)"
  using that by (simp add: model_params_def table_key_def required_key_def RANKER_PARAM_TYPES_def demo_params_def insert_commute)

lemma demo_store: "require_production_store (Some ''/s'') (\<lambda>_. \<lparr>params_toml = Some demo_toml, revision_text = None\<rparr>)
    = Inr demo_store_values"
proof -
  have root: "strategy_store_root (Some ''/s'') = Inr (Root_at ''/s'')" by code_simp
  have "load_strategy_values (Root_at ''/s'') \<lparr>params_toml = Some demo_toml, revision_text = None\<rparr> = Inr demo_store_values"
    by (simp add: load_strategy_values_def demo_toml_def table_key_def text_key_def required_key_def boolean_key_def
        finite_key_def seeds_key_def features_key_def distinct_array_def toml_int_def toml_name_def STORE_SCHEMA_def
        guard_ok_def store_revision_def demo_store_values_def demo_values_def CHAMPION_PARAM_TYPES_def demo_model_params)
  then show ?thesis
    by (simp add: require_production_store_def strategy_values_of_def root)
      (simp add: demo_store_values_def demo_values_def)
qed

definition demo_snapshot_row :: "string \<Rightarrow> rat \<Rightarrow> bool option \<Rightarrow> snapshot_row" where
  "demo_snapshot_row c price adm = \<lparr>sn_code = c, sn_name = c, sn_close = Fin price, sn_prev_close = Fin price,
     sn_high = Fin price, sn_volume = Fin 1, sn_trade_value = Fin 1, sn_market_cap = Fin 1, sn_market = ''KOSPI'',
     sn_screenable = Some True, sn_admitted = adm, sn_index_failed = JBool False, sn_v_kospi = Fin 15,
     sn_capture_run_id = ''r'', sn_cohort_id = ''c''\<rparr>"

definition demo_snapshot :: "bool \<Rightarrow> snapshot" where
  "demo_snapshot many = \<lparr>snap_columns = [C_code, C_name, C_close, C_prev_close, C_high, C_volume, C_trade_value,
       C_market_cap, C_market, C_screenable, C_admitted, C_index_failed, C_v_kospi, C_capture_run_id, C_cohort_id,
       C_open, C_low, C_inst_netbuy, C_foreign_netbuy, C_kospi, C_kosdaq],
     snap_rows = [demo_snapshot_row ''000001'' 102400 (Some many), demo_snapshot_row ''000002'' 102400 (Some True),
       demo_snapshot_row ''000003'' 2048 (Some False), demo_snapshot_row ''000004'' 102400 (Some True), demo_snapshot_row ''000005'' 102400 (Some many)]\<rparr>"

definition sleeve_env :: "bool \<Rightarrow> unit decision_env" where
  "sleeve_env many = \<lparr>de_store_env = Some ''/s'',
     de_store_files = (\<lambda>_. \<lparr>params_toml = Some demo_toml, revision_text = None\<rparr>),
     de_snapshot = (\<lambda>_. Inr (demo_snapshot many)), de_bundle_file = Some (Inr demo_bundle),
     de_history = (\<lambda>_. Inr ()),
     de_features = (\<lambda>_ _ _. Inr ([''chg_ratio''], [\<lambda>_. Fin 1, \<lambda>_. Fin 4, \<lambda>_. Fin 9, \<lambda>_. Fin 3, \<lambda>_. Fin 2])),
     de_session_day = (\<lambda>d. Inr \<lparr>day_date = d, day_kind = STANDARD, day_clock = None, day_provenance = ''standard''\<rparr>),
     de_trading_day = (\<lambda>_. Inr True), de_commit = ''c'', de_now = instant (2026, 3, 2) 55500,
     de_decision_lock = True, de_decision_write = True, de_pool_lock = True, de_pool_write = True\<rparr>"

lemma demo_screen_row: "0 < x \<Longrightarrow> derive_chg_ratio (Fin x) (Fin x) = Fin 0"
proof -
  assume x: "0 < x"
  have "rnd64 1 = 1" using rnd64_of_int [of 1] by simp
  then show ?thesis
    using rnd64_nonneg [of "31 / 100"] x
    by (simp add: derive_chg_ratio_def f_sub_def Let_def KRX_DAILY_LIMIT_RATIO_def)
qed

lemma demo_strategy: "PRODUCTION_STRATEGY demo_store_values = PRODUCTION_STRATEGY demo_values"
  "PRODUCTION_TRAINING_SCREEN demo_store_values = PRODUCTION_TRAINING_SCREEN demo_values"
  by (simp_all add: PRODUCTION_TRAINING_SCREEN_def PRODUCTION_STRATEGY_def KCA_TOPK_COSTAWARE_002_def
      COST_AWARE_SCREENABLE_UNIVERSE_def DEFAULT_UNIVERSE_def demo_store_values_def)

lemma demo_ceiling: "\<not> f_le CEILING_CHG_THRESHOLD (Fin 0)"
  using rnd64_mono [of "1 / 8" "29 / 100"] rnd64_dyadic(1) by (simp add: CEILING_CHG_THRESHOLD_def f_le_def)

lemma demo_admits: "0 < x \<Longrightarrow> admits (PRODUCTION_TRAINING_SCREEN demo_values) (screen_row_of d (demo_snapshot_row c x adm))"
proof -
  assume x: "0 < x"
  then show ?thesis
    using demo_ceiling [unfolded f_le_def]
    by (simp add: admits_def screen_row_of_def demo_snapshot_row_def demo_screen_row mark_ceiling_def Let_def f_le_def
        PRODUCTION_TRAINING_SCREEN_def PRODUCTION_STRATEGY_def KCA_TOPK_COSTAWARE_002_def
        COST_AWARE_SCREENABLE_UNIVERSE_def DEFAULT_UNIVERSE_def demo_values_def training_universe_def)
qed

lemma demo_pool: "restrict_to_rank_pool demo_values (demo_snapshot many) d = Inr (demo_snapshot many)"
proof -
  have "rank_pool_mask (demo_snapshot many) d (PRODUCTION_TRAINING_SCREEN demo_values) = Inr [True, True, True, True, True]"
  proof -
    obtain f where f: "build_screen_frame (demo_snapshot many) d = Inr f"
      "set (screen_columns (PRODUCTION_TRAINING_SCREEN demo_values)) \<subseteq> set (sf_columns f)"
      by (simp add: build_screen_frame_def need_columns_def demo_snapshot_def SCREEN_INPUT_COLUMNS_def Let_def
          demo_snapshot_row_def guard_ok_def screen_columns_def SCREEN_BASE_COLUMNS_def PRODUCTION_TRAINING_SCREEN_def
          PRODUCTION_STRATEGY_def KCA_TOPK_COSTAWARE_002_def COST_AWARE_SCREENABLE_UNIVERSE_def training_universe_def
          DEFAULT_UNIVERSE_def)
    then show ?thesis
      by (simp add: rank_pool_mask_def select_universe_Inr build_screen_frame_rows [OF f(1)])
        (simp add: demo_snapshot_def demo_admits)
  qed
  then show ?thesis
    by (simp add: restrict_to_rank_pool_def need_columns_def Let_def)
      (simp add: demo_snapshot_def demo_snapshot_row_def guard_ok_def admitted_flag_def)
qed

lemma demo_snapshot_columns: "set (snap_columns (demo_snapshot many)) = UNIV - {C_available}"
  by (auto simp: demo_snapshot_def) (metis snap_col.exhaust)

lemma demo_index: "validate_index_inputs (demo_snapshot many) = Inr ()"
  by (simp add: validate_index_inputs_Inr demo_snapshot_columns) (simp add: demo_snapshot_def demo_snapshot_row_def)

lemma demo_load: "load_daily_snapshot (sleeve_env many) d = Inr (demo_snapshot many)"
proof -
  have "py_zfill 6 ''000001'' = ''000001''" "py_zfill 6 ''000002'' = ''000002''" "py_zfill 6 ''000003'' = ''000003''"
    "py_zfill 6 ''000004'' = ''000004''" "py_zfill 6 ''000005'' = ''000005''" by code_simp+
  then show ?thesis
    by (simp add: load_daily_snapshot_def sleeve_env_def demo_snapshot_columns)
      (simp add: demo_snapshot_def demo_snapshot_row_def)
qed

lemma demo_load_bundle: "load_model_bundle (de_bundle_file (sleeve_env many)) = Inr demo_bundle"
  "\<not> needs_history demo_bundle" "tb_top_k demo_bundle = Some (JInt 3)"
  by (simp_all add: load_model_bundle_def sleeve_env_def demo_bundle_def guard_ok_def assert_feature_contract_def
      feature_contract_issue_def bundle_feature_contract_version_def TOPK_FEATURE_CONTRACT_VERSION_def
      LEGACY_FEATURE_CONTRACT_VERSION_def needs_history_def TOPK_HISTORY_FEATURE_COLS_def TOPK_FLOW_FEATURE_COLS_def)

definition demo_features :: "bool \<Rightarrow> feature_frame" where
  "demo_features many = \<lparr>ff_columns = [''admitted'', ''symbol'', ''date'', ''close'', ''chg_ratio''],
     ff_rows = [demo_candidate ''000001'' 102400 many 1, demo_candidate ''000002'' 102400 True 4, demo_candidate ''000003'' 2048 False 9,
       demo_candidate ''000004'' 102400 True 3, demo_candidate ''000005'' 102400 many 2]\<rparr>"

lemma demo_built: "\<exists>f0. build_topk_ranker_features (sleeve_env many) (demo_snapshot many) (2026, 3, 2) None = Inr f0
    \<and> with_admitted (demo_snapshot many) f0 = Inr (demo_features many)"
  by (simp add: build_topk_ranker_features_def guard_ok_def demo_snapshot_columns FEATURE_INPUT_COLUMNS_def)
    (simp add: sleeve_env_def demo_snapshot_def column_of_length_def with_admitted_def demo_features_def
      demo_snapshot_row_def demo_candidate_def admitted_flag_def)

lemma demo_parity_store: "assert_bundle_screen_parity demo_store_values demo_bundle
    (ss_universe (PRODUCTION_STRATEGY demo_store_values)) = Inr ()"
  by (simp only: demo_strategy demo_parity)

lemma demo_features_scores: "score_topk_candidates demo_store_values (demo_features many) demo_bundle
    = Inr (map demo_scored (ff_rows (demo_features many)))"
  by (simp add: score_topk_candidates_def demo_parity_store demo_bundle_fields demo_features_def demo_model_def
      demo_candidate_def features_of_def column_of_length_def named_model_def calibrate_def guard_ok_def
      demo_scored_def f_clip_def Let_def upt_rec [of 0] upt_rec [of "Suc n" for n])

definition demo_picks :: "topk_pick list" where
  "demo_picks = [demo_pick ''000002'' 4, demo_pick ''000004'' 3, demo_pick ''000005'' 2]"

lemma demo_selected: "select_topk_equal_weight demo_store_values (demo_features many) demo_bundle 3
    = Inr (if many then demo_picks else [])"
  unfolding select_topk_equal_weight_def demo_features_scores
  by (simp add: MIN_TOP_K_def demo_features_def demo_candidate_def
      demo_scored_def guard_ok_def Let_def select_topk_by_score_def score_rank_def f_isnan_def demo_pick_def demo_picks_def
      less_eq_fl_def fl_rank_def)

lemma demo_sleeve: "\<exists>pool. topk_sleeve (sleeve_env True) (2026, 3, 2) = Inr (demo_picks, pool)"
proof -
  obtain f0 where f0: "build_topk_ranker_features (sleeve_env True) (demo_snapshot True) (2026, 3, 2) None = Inr f0"
    "with_admitted (demo_snapshot True) f0 = Inr (demo_features True)" using demo_built by blast
  have "need_columns [C_code, C_name] (demo_snapshot True) = Inr ()"
    by (simp add: need_columns_def demo_snapshot_columns)
  moreover have "stamp_provenance (demo_snapshot True) demo_picks = Inr ()"
    by (simp add: stamp_provenance_def demo_picks_def)
  moreover have "restrict_to_rank_pool demo_store_values (demo_snapshot True) (2026, 3, 2) = Inr (demo_snapshot True)"
    using demo_pool by (simp only: restrict_to_rank_pool_def demo_strategy)
  moreover have "require_production_store (de_store_env (sleeve_env True)) (de_store_files (sleeve_env True)) = Inr demo_store_values"
    using demo_store by (simp add: sleeve_env_def)
  ultimately show ?thesis
    by (simp add: topk_sleeve_def demo_load demo_load_bundle demo_index f0 demo_selected demo_features_scores)
qed

section \<open>The properties on the small day\<close>

definition desk_of :: "topk_store stored_file \<Rightarrow> unit decision_desk" where
  "desk_of f = \<lparr>dk_decisions = f, dk_pools = No_file, dk_world = ()\<rparr>"

lemma demo_run:
  assumes "f \<noteq> Unreadable_file"
  shows "\<exists>r s'. run_automated_topk_decision (sleeve_env True) None (2026, 3, 2) (desk_of f) = (r, s')
    \<and> dk_decisions s' = Stored (merge_decisions (existing_store f) (decision_rows (sleeve_env True) (2026, 3, 2) demo_picks))"
proof -
  obtain pool where pool: "run_topk_ranker_sleeve (sleeve_env True) (2026, 3, 2) = Inr (Sleeve demo_picks pool)"
    using demo_sleeve by (auto simp: run_topk_ranker_sleeve_def)
  let ?f' = "Stored (merge_decisions (existing_store f) (decision_rows (sleeve_env True) (2026, 3, 2) demo_picks))"
  have fields: "de_decision_lock (sleeve_env True)" "de_decision_write (sleeve_env True)"
    "de_session_day (sleeve_env True) d = Inr \<lparr>day_date = d, day_kind = STANDARD, day_clock = None, day_provenance = ''standard''\<rparr>" for d
    by (simp_all add: sleeve_env_def)
  have persist: "persist_topk_decision (sleeve_env True) (2026, 3, 2) demo_picks (desk_of f) = (Inr 3, desk_of ?f')"
    using assms by (cases f) (simp_all add: persist_topk_decision_def demo_picks_def bnd_def lift_res_def modify_def ret_def
        desk_of_def fields guard_ok_def existing_store_def decision_rows_def Let_def)
  have pools: "\<exists>r s'. bnd (persist_rank_pool_predictions (sleeve_env True) (2026, 3, 2) pool)
      (\<lambda>_. record_event None e) (desk_of ?f') = (r, s') \<and> dk_decisions s' = ?f'" for e
  proof -
    have "keeps (\<lambda>s. dk_decisions s = ?f') (bnd (persist_rank_pool_predictions (sleeve_env True) (2026, 3, 2) pool)
        (\<lambda>_. record_event (None :: unit recorder) e))" by (intro keeps_bnd keeps_pool keeps_record)
    note kept = keepsD [OF this, of "desk_of ?f'"]
    show ?thesis
      by (intro exI conjI, rule prod.collapse [symmetric]) (rule kept, simp add: desk_of_def)
  qed
  have "demo_picks \<noteq> []" by (simp add: demo_picks_def)
  then have "run_automated_topk_decision (sleeve_env True) None (2026, 3, 2) (desk_of f) =
      bnd (persist_rank_pool_predictions (sleeve_env True) (2026, 3, 2) pool)
        (\<lambda>_. record_event None (predict_event OUT_OK (2026, 3, 2) [] (length demo_picks))) (desk_of ?f')"
    by (simp add: run_automated_topk_decision_def eff_simps fields trading_session_gate_def pool act_on_sleeve_def
        persist)
  then show ?thesis using pools by simp
qed

lemma demo_changed: "f = No_file \<or> f = Stored st \<and> length (ts_rows st) = 1 \<Longrightarrow>
    Stored (merge_decisions (existing_store f) (decision_rows (sleeve_env True) (2026, 3, 2) demo_picks)) \<noteq> f"
proof
  let ?out = "decision_rows (sleeve_env True) (2026, 3, 2) demo_picks"
  assume f: "f = No_file \<or> f = Stored st \<and> length (ts_rows st) = 1"
    and eq: "Stored (merge_decisions (existing_store f) ?out) = f"
  then have st: "f = Stored st" "length (ts_rows st) = 1" by auto
  have "distinct (map decision_key ?out)" "length ?out = 3"
    by (simp_all add: decision_rows_def demo_picks_def demo_pick_def demo_scored_def demo_candidate_def Let_def)
  then have "3 \<le> length (ts_rows (merge_decisions (Some st) ?out))"
    using st(2) by (auto simp: merge_decisions_def keep_last_append keep_last_id)
  then show False using eq st by (simp add: existing_store_def)
qed

lemma demo_pick_symbols: "pick_symbols demo_picks = [''000002'', ''000004'', ''000005'']"
  by (simp add: demo_picks_def demo_pick_def demo_scored_def demo_candidate_def Let_def)

lemma decision_is_certified_witness:
  "\<exists>r s'. run_automated_topk_decision (sleeve_env True) None (2026, 3, 2) (desk_of No_file) = (r, s')
    \<and> dk_decisions s' \<noteq> No_file
    \<and> (\<exists>v snap picks. length picks = 3 \<and> (\<forall>p\<in>set picks. certified_pick v snap (2026, 3, 2) p))"
proof -
  obtain r s' where run: "run_automated_topk_decision (sleeve_env True) None (2026, 3, 2) (desk_of No_file) = (r, s')"
    and s': "dk_decisions s' = Stored (merge_decisions (existing_store No_file)
      (decision_rows (sleeve_env True) (2026, 3, 2) demo_picks))"
    using demo_run [of No_file] by auto
  then have "dk_decisions s' \<noteq> dk_decisions (desk_of No_file)" by (simp add: desk_of_def)
  from decision_is_certified [OF run this] run s' show ?thesis by auto
qed

definition earlier_row :: paper_pick where
  "earlier_row = \<lparr>pp_symbol = ''000009'', pp_allocation = JFloat (Fin third), pp_pred = JFloat (Fin 1),
     pp_close = JFloat (Fin 1000), pp_decided = Stamp 0\<rparr>"

definition store_with :: "string \<Rightarrow> topk_store stored_file" where
  "store_with ds = Stored \<lparr>ts_has_decided = True, ts_has_pred = True, ts_rows = [(ds, earlier_row)]\<rparr>"

lemma other_days_are_kept_witness:
  "\<exists>r s'. run_automated_topk_decision (sleeve_env True) None (2026, 3, 2) (desk_of (store_with ''2026-02-27'')) = (r, s')
    \<and> load_decision (dk_decisions s') (2026, 2, 27) = load_decision (store_with ''2026-02-27'') (2026, 2, 27)"
proof -
  obtain r s' where run: "run_automated_topk_decision (sleeve_env True) None (2026, 3, 2) (desk_of (store_with ''2026-02-27'')) = (r, s')"
    using demo_run [of "store_with ''2026-02-27''"] by (auto simp: store_with_def)
  have "iso_str (2026, 2, 27) \<noteq> iso_str (2026, 3, 2)" by code_simp
  then have "load_decision (dk_decisions s') (2026, 2, 27) = load_decision (dk_decisions (desk_of (store_with ''2026-02-27''))) (2026, 2, 27)"
    by (rule other_days_are_kept [OF run]) (auto simp: desk_of_def store_with_def)
  with run show ?thesis by (simp add: desk_of_def)
qed

lemma demo_stamp: "stamp_rule (iso_str (2026, 3, 2)) (instant (2026, 3, 2) 55600) (Stamp (instant (2026, 3, 2) 55500)) = None"
  using instant_parts [OF demo_date(1), of 55500] by (simp add: stamp_rule_None) (simp add: instant_def)

lemma demo_symbols: "\<forall>c\<in>set (pick_symbols demo_picks). is_symbol c"
proof -
  have "is_symbol ''000002''" "is_symbol ''000004''" "is_symbol ''000005''" by code_simp+
  then show ?thesis by (simp add: demo_pick_symbols)
qed

lemma fresh_decision_is_accepted_witness:
  "\<exists>r s' frame ps. run_automated_topk_decision (sleeve_env True) None (2026, 3, 2) (desk_of No_file) = (r, s')
    \<and> load_decision (dk_decisions s') (2026, 3, 2) = Inr frame
    \<and> validate_decision (decision_frame_of frame) (iso_str (2026, 3, 2)) (instant (2026, 3, 2) 55600) 3 = Inr (Inr ps)
    \<and> length ps = 3"
proof -
  obtain r s' where run: "run_automated_topk_decision (sleeve_env True) None (2026, 3, 2) (desk_of No_file) = (r, s')"
    and s': "dk_decisions s' = Stored (merge_decisions (existing_store No_file)
      (decision_rows (sleeve_env True) (2026, 3, 2) demo_picks))"
    using demo_run [of No_file] by auto
  then have changed: "dk_decisions s' \<noteq> dk_decisions (desk_of No_file)" by (simp add: desk_of_def)
  obtain pool where sleeve: "topk_sleeve (sleeve_env True) (2026, 3, 2) = Inr (demo_picks, pool)" using demo_sleeve by blast
  have fresh: "earlier_picks (dk_decisions (desk_of No_file)) (2026, 3, 2) = []" by (simp add: desk_of_def earlier_picks_def)
  have closes: "\<forall>p\<in>set demo_picks. close_value (JFloat (cd_close (st_row (pk_row p)))) \<noteq> None"
    by (simp add: demo_picks_def demo_pick_def demo_scored_def demo_candidate_def Let_def close_value_def)
  have stamp: "stamp_rule (iso_str (2026, 3, 2)) (instant (2026, 3, 2) 55600) (Stamp (de_now (sleeve_env True))) = None"
    using demo_stamp by (simp add: sleeve_env_def)
  obtain frame ps where "load_decision (dk_decisions s') (2026, 3, 2) = Inr frame"
    "validate_decision (decision_frame_of frame) (iso_str (2026, 3, 2)) (instant (2026, 3, 2) 55600) 3 = Inr (Inr ps)"
    "mset (map dp_symbol ps) = mset (pick_symbols demo_picks)"
    using fresh_decision_is_accepted [OF run changed sleeve fresh _ demo_symbols closes stamp, of 3]
    by (auto simp: demo_pick_symbols)
  moreover from this(3) have "length ps = 3"
    using mset_eq_length [of "map dp_symbol ps" "pick_symbols demo_picks"] by (simp add: demo_picks_def)
  ultimately show ?thesis using run by blast
qed

lemma second_selection_is_refused_witness:
  "\<exists>r s' frame rule. run_automated_topk_decision (sleeve_env True) None (2026, 3, 2) (desk_of (store_with ''2026-03-02'')) = (r, s')
    \<and> load_decision (dk_decisions s') (2026, 3, 2) = Inr frame
    \<and> validate_decision (decision_frame_of frame) (iso_str (2026, 3, 2)) (instant (2026, 3, 2) 55600) 10 = Inr (Inl rule)"
proof -
  let ?f = "store_with ''2026-03-02''"
  obtain r s' where run: "run_automated_topk_decision (sleeve_env True) None (2026, 3, 2) (desk_of ?f) = (r, s')"
    and s': "dk_decisions s' = Stored (merge_decisions (existing_store ?f)
      (decision_rows (sleeve_env True) (2026, 3, 2) demo_picks))"
    using demo_run [of ?f] by (auto simp: store_with_def)
  have "dk_decisions (desk_of ?f) = ?f" by (simp add: desk_of_def)
  moreover have "dk_decisions s' \<noteq> ?f"
    unfolding s' by (rule demo_changed [where st = "\<lparr>ts_has_decided = True, ts_has_pred = True,
      ts_rows = [(''2026-03-02'', earlier_row)]\<rparr>"]) (simp add: store_with_def)
  ultimately have changed: "dk_decisions s' \<noteq> dk_decisions (desk_of ?f)" by simp
  obtain pool where sleeve: "topk_sleeve (sleeve_env True) (2026, 3, 2) = Inr (demo_picks, pool)" using demo_sleeve by blast
  have old: "earlier_picks (dk_decisions (desk_of ?f)) (2026, 3, 2) = [earlier_row]"
    by (simp add: earlier_picks_def desk_of_def store_with_def load_topk_decision_def demo_date(2) clean_row_id)
  show ?thesis
    using second_selection_is_refused [OF run changed sleeve, of earlier_row] run
    by (auto simp: old demo_pick_symbols earlier_row_def)
qed

lemma abstaining_run_fails_witness:
  "run_automated_topk_decision (sleeve_env False) None (2026, 3, 2) (desk_of No_file) = (Inl IndexError, desk_of No_file)"
proof -
  obtain f0 where f0: "build_topk_ranker_features (sleeve_env False) (demo_snapshot False) (2026, 3, 2) None = Inr f0"
    "with_admitted (demo_snapshot False) f0 = Inr (demo_features False)" using demo_built by blast
  have "restrict_to_rank_pool demo_store_values (demo_snapshot False) (2026, 3, 2) = Inr (demo_snapshot False)"
    using demo_pool by (simp only: restrict_to_rank_pool_def demo_strategy)
  moreover have "require_production_store (de_store_env (sleeve_env False)) (de_store_files (sleeve_env False)) = Inr demo_store_values"
    using demo_store by (simp add: sleeve_env_def)
  moreover have "de_session_day (sleeve_env False) (2026, 3, 2) = Inr \<lparr>day_date = (2026, 3, 2), day_kind = STANDARD,
      day_clock = None, day_provenance = ''standard''\<rparr>" by (simp add: sleeve_env_def)
  ultimately show ?thesis
    using abstaining_run_fails [of "sleeve_env False" "(2026, 3, 2)" "\<lparr>day_date = (2026, 3, 2),
        day_kind = STANDARD, day_clock = None, day_provenance = ''standard''\<rparr>" demo_store_values "demo_snapshot False"
        "demo_snapshot False" demo_bundle None f0 "demo_features False" "JInt 3" 3 None "desk_of No_file"]
    by (auto simp: demo_load demo_load_bundle demo_index f0 demo_selected demo_snapshot_columns)
qed

section \<open>The collector's flag\<close>

text \<open>
  C29. When the snapshot is the one the collector flagged with the production screen, every pick
  of the sleeve is one of its rows and passed the full production screen, the cost cap and
  the class filter included, although the pool it was ranked in is wider.
\<close>

theorem picks_pass_production_screen:
  assumes store: "require_production_store (de_store_env X) (de_store_files X) = Inr v"
    and flagged: "flag_cost_aware_admission df d (ss_universe (PRODUCTION_STRATEGY v)) = Inr snap"
    and snapshot: "de_snapshot X d = Inr snap" and sleeve: "topk_sleeve X d = Inr (picks, pool)"
  shows "\<forall>p\<in>set picks. \<exists>r\<in>set (snap_rows df).
     cd_symbol (st_row (pk_row p)) = py_zfill 6 (sn_code r) \<and> cd_close (st_row (pk_row p)) = sn_close r
     \<and> admits (ss_universe (PRODUCTION_STRATEGY v)) (screen_row_of d r)"
proof
  fix p assume "p \<in> set picks"
  obtain loaded where loaded: "load_daily_snapshot X d = Inr loaded"
    and cert: "\<forall>p\<in>set picks. certified_pick v loaded d p"
    using sleeve_picks [OF sleeve] store by auto
  have "C_code \<in> set (snap_columns loaded)"
    by (rule topk_sleeve_parts [OF sleeve]) (use loaded in \<open>auto dest: restrict_to_rank_pool_Inr(6)\<close>)
  then have rows: "snap_rows loaded = map (\<lambda>r. r\<lparr>sn_code := py_zfill 6 (sn_code r)\<rparr>) (snap_rows snap)"
    using loaded snapshot by (auto simp: load_daily_snapshot_def split: if_splits)
  obtain r where r: "r \<in> set (snap_rows loaded)" "admitted_flag r" "cd_symbol (st_row (pk_row p)) = sn_code r"
    "cd_close (st_row (pk_row p)) = sn_close r"
    using cert \<open>p \<in> set picks\<close> by (auto simp: certified_pick_def)
  then obtain q where q: "q \<in> set (snap_rows snap)" "r = q\<lparr>sn_code := py_zfill 6 (sn_code q)\<rparr>" by (auto simp: rows)
  obtain w where "w \<in> set (snap_rows df)"
    "q = w\<lparr>sn_admitted := Some (admits (ss_universe (PRODUCTION_STRATEGY v)) (screen_row_of d w))\<rparr>"
    using q(1) flagged_rows(1) [OF flagged] by auto
  then show "\<exists>r\<in>set (snap_rows df). cd_symbol (st_row (pk_row p)) = py_zfill 6 (sn_code r)
     \<and> cd_close (st_row (pk_row p)) = sn_close r \<and> admits (ss_universe (PRODUCTION_STRATEGY v)) (screen_row_of d r)"
    using r q(2) by (intro bexI [of _ w]) (auto simp: admitted_flag_def)
qed

definition demo_collected :: snapshot where
  "demo_collected = \<lparr>snap_columns = [C_code, C_name, C_close, C_prev_close, C_high, C_volume, C_trade_value,
       C_market_cap, C_market, C_screenable, C_admitted, C_index_failed, C_v_kospi, C_capture_run_id, C_cohort_id,
       C_open, C_low, C_inst_netbuy, C_foreign_netbuy, C_kospi, C_kosdaq],
     snap_rows = [demo_snapshot_row ''000001'' 102400 None, demo_snapshot_row ''000002'' 102400 None,
       demo_snapshot_row ''000003'' 2048 None, demo_snapshot_row ''000004'' 102400 None,
       demo_snapshot_row ''000005'' 102400 None]\<rparr>"

lemma demo_costs: "tick_cost_bp (Fin 102400) (Some (toordinal (2026, 3, 2))) ''KOSPI'' = Fin (625 / 64)"
  "tick_cost_bp (Fin 2048) (Some (toordinal (2026, 3, 2))) ''KOSPI'' = Fin (3125 / 128)"
proof -
  have exact: "rnd64 (1 / 1024) = 1 / 1024" "rnd64 (625 / 64) = 625 / 64" "rnd64 (5 / 2048) = 5 / 2048" "rnd64 (3125 / 128) = 3125 / 128"
    by (simp_all add: float_eval)
  show "tick_cost_bp (Fin 102400) (Some (toordinal (2026, 3, 2))) ''KOSPI'' = Fin (625 / 64)"
    "tick_cost_bp (Fin 2048) (Some (toordinal (2026, 3, 2))) ''KOSPI'' = Fin (3125 / 128)"
    by (simp_all add: tick_cost_bp_def krx_tick_size_asof_def TICK_REFORM_DATE_def civil_eval valid_price_def
        tick_in_bands_def KRX_TICK_BANDS_def f_isnan_def Let_def exact)
qed

lemma demo_flagged: "flag_cost_aware_admission demo_collected (2026, 3, 2) (ss_universe (PRODUCTION_STRATEGY demo_store_values))
    = Inr (demo_snapshot True)"
proof -
  let ?S = "ss_universe (PRODUCTION_STRATEGY demo_values)"
  have verdict: "admits ?S (screen_row_of (2026, 3, 2) (demo_snapshot_row c 102400 None))"
    "\<not> admits ?S (screen_row_of (2026, 3, 2) (demo_snapshot_row c 2048 None))" for c
    using demo_ceiling [unfolded f_le_def]
    by (simp_all add: admits_def screen_row_of_def demo_snapshot_row_def demo_screen_row mark_ceiling_def Let_def f_le_def
        demo_costs
        PRODUCTION_STRATEGY_def KCA_TOPK_COSTAWARE_002_def MAX_TICK_COST_BP_def
        COST_AWARE_SCREENABLE_UNIVERSE_def DEFAULT_UNIVERSE_def demo_values_def)
  obtain f where f: "build_screen_frame demo_collected (2026, 3, 2) = Inr f"
    "set (screen_columns ?S) \<subseteq> set (sf_columns f)"
    by (simp add: build_screen_frame_def need_columns_def demo_collected_def SCREEN_INPUT_COLUMNS_def Let_def
        demo_snapshot_row_def guard_ok_def screen_columns_def SCREEN_BASE_COLUMNS_def
        PRODUCTION_STRATEGY_def KCA_TOPK_COSTAWARE_002_def COST_AWARE_SCREENABLE_UNIVERSE_def DEFAULT_UNIVERSE_def)
  show ?thesis
    using f(2) unfolding flag_cost_aware_admission_def demo_strategy f(1)
    by (simp add: select_universe_def build_screen_frame_rows [OF f(1)])
      (simp add: demo_collected_def verdict, simp add: demo_snapshot_def demo_snapshot_row_def)
qed

lemma picks_pass_production_screen_witness:
  "\<exists>pool. topk_sleeve (sleeve_env True) (2026, 3, 2) = Inr (demo_picks, pool)
    \<and> (\<exists>r\<in>set (snap_rows demo_collected). py_zfill 6 (sn_code r) = ''000002''
        \<and> admits (ss_universe (PRODUCTION_STRATEGY demo_store_values)) (screen_row_of (2026, 3, 2) r))"
proof -
  obtain pool where sleeve: "topk_sleeve (sleeve_env True) (2026, 3, 2) = Inr (demo_picks, pool)" using demo_sleeve by blast
  have "require_production_store (de_store_env (sleeve_env True)) (de_store_files (sleeve_env True)) = Inr demo_store_values"
    "de_snapshot (sleeve_env True) (2026, 3, 2) = Inr (demo_snapshot True)"
    using demo_store by (simp_all add: sleeve_env_def)
  from picks_pass_production_screen [OF this(1) demo_flagged this(2) sleeve] sleeve show ?thesis
    by (auto simp: demo_picks_def demo_pick_def demo_scored_def demo_candidate_def Let_def)
qed

end
