(* ===== verification/Outcome_Properties.thy ===== *)
theory Outcome_Properties
  imports Run_Outcome Pager_Properties Decision_Safety
begin

text \<open>
  What the recorder of run outcomes promises: the log reads back the last outcome of each job,
  and a critical outcome reaches the pager whatever happens to the log. The last theorem
  follows a failed decision run to the mail it causes.
\<close>

section \<open>The log\<close>

lemma on_pager_keeps: "keeps (\<lambda>t. od_events t = e) (on_pager m)"
  by (auto simp: triple_def on_pager_def split: prod.splits)

lemma route_keeps_events: "od_events (snd (route_outcome X job outcome reason s)) = od_events s"
proof -
  have "keeps (\<lambda>t. od_events t = od_events s) (route_outcome X job outcome reason)"
    unfolding route_outcome_def Let_def
    by (intro keeps_catch_when keeps_if keeps_bnd keeps_basic on_pager_keeps)
      (auto split: option.split intro!: keeps_bnd keeps_basic on_pager_keeps)
  then show ?thesis using keepsD by fastforce
qed

lemma append_event_run:
  "catch_when is_os_error (append_event X r) (\<lambda>_. ret ()) s =
    (Inr (), if oe_log_writable X then s\<lparr>od_events := (od_events s)(oc_run_date r \<mapsto>
       (case od_events s (oc_run_date r) of None \<Rightarrow> [] | Some ls \<Rightarrow> ls) @ written_lines X r)\<rparr> else s)"
  by (simp add: append_event_def catch_when_def eff_simps guard_ok_def is_os_error_def)

definition routed :: "outcome_env \<Rightarrow> string \<Rightarrow> string \<Rightarrow> string \<Rightarrow> (outcome_desk, unit) eff" where
  "routed X job outcome reason =
     (if outcome \<in> set RUN_OUTCOMES_ALERTED \<or> outcome = ''OK'' then route_outcome X job outcome reason else ret ())"

lemma routed_keeps_events: "routed X job outcome reason s = (q, s') \<Longrightarrow> od_events s' = od_events s"
  using route_keeps_events [of X job outcome reason s] by (auto simp: routed_def ret_def split: if_splits)

lemma record_run:
  assumes "r = \<lparr>oc_ts = oe_now X, oc_job = job, oc_run_date = d, oc_outcome = outcome, oc_reason = stored_reason X reason\<rparr>"
    and "catch_when is_os_error (append_event X r) (\<lambda>_. ret ()) s = (Inr (), s1)"
    and "routed X job outcome (stored_reason X reason) s1 = (q, s')"
  shows "record_run_outcome X job outcome d reason s =
    (if outcome \<in> set RUN_OUTCOMES \<and> \<not> (outcome = ''SKIPPED'' \<and> py_blank reason)
     then (case q of Inl e \<Rightarrow> (Inl e, s') | Inr _ \<Rightarrow> (Inr r, s')) else (Inl ValueError, s))"
proof -
  have "oc_reason r = stored_reason X reason" by (simp add: assms(1))
  then show ?thesis
    using assms(2,3) unfolding record_run_outcome_def Let_def assms(1) [symmetric] routed_def [symmetric]
    by (simp add: bnd_def lift_res_def guard_ok_def ret_def split: sum.split)
qed

lemma record_run_events:
  assumes "record_run_outcome X job outcome d reason s = (Inr r, s')" "oe_log_writable X"
  shows "outcome \<in> set RUN_OUTCOMES" "oc_job r = job" "oc_outcome r = outcome" "oc_run_date r = d"
    "od_events s' = (od_events s)(d \<mapsto> (case od_events s d of None \<Rightarrow> [] | Some ls \<Rightarrow> ls) @ written_lines X r)"
proof -
  define r0 where "r0 = \<lparr>oc_ts = oe_now X, oc_job = job, oc_run_date = d, oc_outcome = outcome, oc_reason = stored_reason X reason\<rparr>"
  define s1 where "s1 = s\<lparr>od_events := (od_events s)(d \<mapsto> (case od_events s d of None \<Rightarrow> [] | Some ls \<Rightarrow> ls) @ written_lines X r0)\<rparr>"
  have s1: "catch_when is_os_error (append_event X r0) (\<lambda>_. ret ()) s = (Inr (), s1)"
    using assms(2) by (simp add: append_event_run r0_def s1_def)
  obtain q s2 where q: "routed X job outcome (stored_reason X reason) s1 = (q, s2)" by fastforce
  have "outcome \<in> set RUN_OUTCOMES \<and> r = r0 \<and> s' = s2"
    using assms(1) record_run [OF r0_def s1 q] by (auto split: if_splits sum.splits)
  then show "outcome \<in> set RUN_OUTCOMES" "oc_job r = job" "oc_outcome r = outcome" "oc_run_date r = d"
    "od_events s' = (od_events s)(d \<mapsto> (case od_events s d of None \<Rightarrow> [] | Some ls \<Rightarrow> ls) @ written_lines X r)"
    using routed_keeps_events [OF q] by (simp_all add: r0_def s1_def)
qed

text \<open>
  Reading the event log of a day after an outcome was recorded gives that outcome as the
  last one of its job and leaves every other job and every other day as they read before.
\<close>

theorem recorded_outcome_is_loaded:
  assumes "record_run_outcome X job outcome d reason s = (Inr r, s')" "oe_log_writable X"
    and "\<not> raw_separator job" "\<not> raw_separator (oc_reason r)" "\<not> oe_metrics_split X"
  shows "map_of (load_run_outcomes s' d') =
    (if d' = d then (map_of (load_run_outcomes s d))(job \<mapsto> outcome) else map_of (load_run_outcomes s d'))"
proof -
  note r = record_run_events [OF assms(1,2)]
  have "written_lines X r = [Event_line r]" using assms(3-5) r(2) by (simp add: written_lines_def)
  then show ?thesis using r by (auto simp: load_run_outcomes_def split: option.split)
qed

section \<open>The mail of a critical outcome\<close>

text \<open>The pager would mail: no page of the kind is on record for the day, and a reminder is due.\<close>

definition page_allowed :: "AlertPolicyConfig \<Rightarrow> IncidentKind \<Rightarrow> int \<Rightarrow> pager \<Rightarrow> bool" where
  "page_allowed cfg kind now p \<longleftrightarrow> (case load_ledger (pg_file p) of
     Inl _ \<Rightarrow> True
   | Inr l \<Rightarrow> (case map_of (led_pages (rollover l (kst_day now))) (incident_value kind) of
       None \<Rightarrow> True
     | Some e \<Rightarrow> \<not> entry_text_is e ''day'' (kst_day now) \<and> reminder_earliest cfg \<le> second_of_day now))"

lemma page_change_allowed:
  assumes "page_allowed cfg kind now p" "load_ledger (pg_file p) = Inr l"
  shows "fst (page_change cfg kind src scope now (rollover l (kst_day now)) (kst_day now)) = SENT"
  using assms by (auto simp: page_allowed_def page_change_def sighting_def Let_def split: option.splits)

lemma page_allowed_mails:
  assumes "page_allowed cfg kind now s"
  shows "\<exists>f. page cfg io kind src scope now s = (Inr SENT, s\<lparr>pg_file := f, pg_mails := pg_mails s @ [Page_mail kind]\<rparr>)"
proof (cases "\<not> io_locked io \<or> \<not> io_saved io \<or> pg_file s = Ledger_unreadable \<or> pg_file s = Ledger_malformed")
  case True
  then show ?thesis using unusable_ledger_mails [OF True] by (auto intro!: exI [of _ "pg_file s"])
next
  case False
  then obtain l where l: "load_ledger (pg_file s) = Inr l" by (cases "pg_file s") (auto simp: load_ledger_def)
  obtain l' where "page_change cfg kind src scope now (rollover l (kst_day now)) (kst_day now) = (SENT, l')"
    using page_change_allowed [OF assms l] by (metis surjective_pairing)
  then show ?thesis using page_run [OF _ _ l] False by fastforce
qed

text \<open>A page request is mailed if the pager allows it or its ledger cannot be used.\<close>

definition page_mailed :: "AlertPolicyConfig \<Rightarrow> pager_io \<Rightarrow> IncidentKind \<Rightarrow> int \<Rightarrow> pager \<Rightarrow> bool" where
  "page_mailed cfg io kind now p \<longleftrightarrow> page_allowed cfg kind now p \<or> \<not> io_locked io \<or> \<not> io_saved io"

lemma page_runs:
  "\<exists>d f. page cfg io kind src scope now s = (Inr d, s\<lparr>pg_file := f,
     pg_mails := pg_mails s @ (if page_mailed cfg io kind now s then [Page_mail kind] else [])\<rparr>)"
proof (cases "page_allowed cfg kind now s")
  case True
  then show ?thesis using page_allowed_mails [of cfg kind now s io src scope] by (auto simp: page_mailed_def)
next
  case False
  show ?thesis
  proof (cases "io_locked io \<and> io_saved io")
    case usable: True
    obtain l where l: "load_ledger (pg_file s) = Inr l"
      using False by (cases "load_ledger (pg_file s)") (simp_all add: page_allowed_def)
    obtain d l' where pc: "page_change cfg kind src scope now (rollover l (kst_day now)) (kst_day now) = (d, l')"
      by (cases "page_change cfg kind src scope now (rollover l (kst_day now)) (kst_day now)")
    have "d \<noteq> SENT" using pc False l
      by (auto simp: page_allowed_def page_change_def sighting_def Let_def split: option.splits if_splits)
    then show ?thesis using page_run [OF _ _ l pc, of io] usable False by (auto simp: page_mailed_def)
  next
    case unusable: False
    then show ?thesis using unusable_ledger_mails [of io s cfg kind src scope now]
      by (intro exI [of _ SENT] exI [of _ "pg_file s"]) (auto simp: page_mailed_def)
  qed
qed

abbreviation critical_mail :: "outcome_env \<Rightarrow> IncidentKind \<Rightarrow> pager \<Rightarrow> mail list" where
  "critical_mail X k p \<equiv> (if page_mailed (oe_policy X) (oe_pager_io X) k (oe_routed_at X) p then [Page_mail k] else [])"

lemma routed_mail:
  assumes "classify_run_outcome job outcome reason = Some k" "outcome \<noteq> ''OK''"
  shows "\<exists>s'. route_outcome X job outcome reason s = (Inr (), s')
    \<and> pg_mails (od_pager s') = pg_mails (od_pager s) @ critical_mail X k (od_pager s)"
proof -
  obtain d f where "page (oe_policy X) (oe_pager_io X) k (RUN_SOURCE_PREFIX @ job) (incident_scope k) (oe_routed_at X) (od_pager s)
      = (Inr d, (od_pager s)\<lparr>pg_file := f, pg_mails := pg_mails (od_pager s) @ critical_mail X k (od_pager s)\<rparr>)"
    using page_runs by blast
  then show ?thesis using assms(1,2)
    by (simp add: route_outcome_def Let_def catch_when_def bnd_def on_pager_def ret_def)
qed

lemma recorded_mail:
  assumes "classify_run_outcome job outcome (stored_reason X reason) = Some k"
    and "outcome \<in> set RUN_OUTCOMES_ALERTED"
  shows "\<exists>r s'. record_run_outcome X job outcome d reason s = (Inr r, s')
    \<and> pg_mails (od_pager s') = pg_mails (od_pager s) @ critical_mail X k (od_pager s)"
proof -
  let ?r = "\<lparr>oc_ts = oe_now X, oc_job = job, oc_run_date = d, oc_outcome = outcome, oc_reason = stored_reason X reason\<rparr>"
  obtain s1 where s1: "catch_when is_os_error (append_event X ?r) (\<lambda>_. ret ()) s = (Inr (), s1)" "od_pager s1 = od_pager s"
    by (simp add: append_event_run)
  have not_ok: "outcome \<noteq> ''OK''" and known: "outcome \<in> set RUN_OUTCOMES" "outcome \<noteq> ''SKIPPED''"
    using assms(2) by (auto simp: RUN_OUTCOMES_ALERTED_def RUN_OUTCOMES_def)
  obtain s2 where s2: "route_outcome X job outcome (stored_reason X reason) s1 = (Inr (), s2)"
    "pg_mails (od_pager s2) = pg_mails (od_pager s1) @ critical_mail X k (od_pager s1)"
    using routed_mail [OF assms(1) not_ok] by metis
  have "routed X job outcome (stored_reason X reason) s1 = (Inr (), s2)"
    using s2(1) assms(2) by (simp add: routed_def)
  then have "record_run_outcome X job outcome d reason s = (Inr ?r, s2)"
    using known record_run [OF refl s1(1)] by simp
  then show ?thesis using s2(2) s1(2) by auto
qed

text \<open>
  A critical outcome is mailed once it is recorded, even when the event log cannot be
  written or the ledger cannot be used, unless the kind was already paged that day or is
  waiting for the reminder hour.
\<close>

theorem critical_outcome_is_mailed:
  assumes "outcome \<in> set RUN_OUTCOMES_ALERTED"
    and "classify_run_outcome job outcome (stored_reason X reason) = Some k"
    and "page_allowed (oe_policy X) k (oe_routed_at X) (od_pager s)"
  shows "pg_mails (od_pager (snd (record_run_outcome X job outcome d reason s))) = pg_mails (od_pager s) @ [Page_mail k]"
  using recorded_mail [OF assms(2,1), of d s] assms(3) by (auto simp: page_mailed_def)

section \<open>From a failed decision to its mail\<close>

lemma predict_no_decision: "classify_run_outcome ''predict'' ''NO_DECISION'' reason = Some PREDICT"
  by (simp add: classify_run_outcome_def PRICE_INGEST_JOB_def CRITICAL_RUN_OUTCOMES_def)

text \<open>
  C34. When the ranker sleeve of an open trading day fails (a missing bundle, an unfit store, an
  uncertified snapshot, a bad feature frame), the run stores no decision, ends normally and
  requests the page of the prediction incident, also when the event log cannot be written. The
  request is mailed unless the ledger can be used and says that the incident was already paged
  that day or has to wait for the reminder hour.
\<close>

theorem failed_decision_is_mailed:
  assumes "de_session_day X d = Inr day" "trading_session_gate day = None"
    and "run_topk_ranker_sleeve X d = Inr (Sleeve_failed e)"
    and "classify_day d (de_trading_day X) = Inr c" "c \<noteq> DAY_WEEKEND" "c \<noteq> DAY_HOLIDAY"
  shows "\<exists>s'. run_automated_topk_decision X (predict_recorder RO) d s = (Inr (), s')
    \<and> dk_decisions s' = dk_decisions s \<and> dk_pools s' = dk_pools s
    \<and> pg_mails (od_pager (dk_world s')) = pg_mails (od_pager (dk_world s))
        @ (if page_allowed (oe_policy RO) PREDICT (oe_routed_at RO) (od_pager (dk_world s))
              \<or> \<not> io_locked (oe_pager_io RO) \<or> \<not> io_saved (oe_pager_io RO) then [Page_mail PREDICT] else [])"
proof -
  obtain r w where "record_run_outcome RO ''predict'' ''NO_DECISION'' (iso_str d) (exn_str e) (dk_world s) = (Inr r, w)"
    "pg_mails (od_pager w) = pg_mails (od_pager (dk_world s)) @ critical_mail RO PREDICT (od_pager (dk_world s))"
    using recorded_mail [OF predict_no_decision, where d = "iso_str d" and reason = "exn_str e" and X = RO and s = "dk_world s"] by (auto simp: RUN_OUTCOMES_ALERTED_def)
  then show ?thesis using assms
    by (simp add: run_automated_topk_decision_def act_on_sleeve_def bnd_def lift_res_def record_event_def
        predict_recorder_def predict_event_def ret_def Let_def page_mailed_def)
qed


section \<open>Small cases\<close>

definition demo_outcomes :: outcome_env where
  "demo_outcomes = \<lparr>oe_now = demo_noon, oe_routed_at = demo_noon, oe_redact = (\<lambda>s. s), oe_log_writable = True,
     oe_metrics_split = False, oe_pager_io = good_io, oe_policy = DEFAULT_ALERT_POLICY\<rparr>"

definition demo_outcome_desk :: outcome_desk where
  "demo_outcome_desk = \<lparr>od_events = (\<lambda>_. None), od_pager = demo_pager\<rparr>"

definition demo_outcome :: outcome_record where
  "demo_outcome = \<lparr>oc_ts = demo_noon, oc_job = ''collect'', oc_run_date = ''2026-03-04'', oc_outcome = ''SKIPPED'',
     oc_reason = ''non_trading_day''\<rparr>"

lemma demo_recorded:
  "record_run_outcome demo_outcomes ''collect'' ''SKIPPED'' ''2026-03-04'' ''non_trading_day'' demo_outcome_desk
   = (Inr demo_outcome, snd (record_run_outcome demo_outcomes ''collect'' ''SKIPPED'' ''2026-03-04'' ''non_trading_day'' demo_outcome_desk))"
proof -
  have reason: "stored_reason demo_outcomes ''non_trading_day'' = ''non_trading_day''" "\<not> py_blank ''non_trading_day''"
    by (simp add: stored_reason_def demo_outcomes_def RUN_EVENT_REASON_MAX_CHARS_def) code_simp
  have r: "demo_outcome = \<lparr>oc_ts = oe_now demo_outcomes, oc_job = ''collect'', oc_run_date = ''2026-03-04'',
      oc_outcome = ''SKIPPED'', oc_reason = stored_reason demo_outcomes ''non_trading_day''\<rparr>"
    unfolding reason by (simp add: demo_outcome_def demo_outcomes_def)
  obtain s1 where s1: "catch_when is_os_error (append_event demo_outcomes demo_outcome) (\<lambda>_. ret ()) demo_outcome_desk = (Inr (), s1)"
    by (simp add: append_event_run)
  have "routed demo_outcomes ''collect'' ''SKIPPED'' (stored_reason demo_outcomes ''non_trading_day'') s1 = (Inr (), s1)"
    by (simp add: routed_def RUN_OUTCOMES_ALERTED_def ret_def)
  then show ?thesis using record_run [OF r s1] reason(2) by (simp add: RUN_OUTCOMES_def)
qed

theorem recorded_outcome_is_loaded_witness:
  "map_of (load_run_outcomes (snd (record_run_outcome demo_outcomes ''collect'' ''SKIPPED'' ''2026-03-04'' ''non_trading_day''
     demo_outcome_desk)) ''2026-03-04'') ''collect'' = Some ''SKIPPED''"
  using recorded_outcome_is_loaded [OF demo_recorded, of "''2026-03-04''"]
  by (simp add: raw_separator_def demo_outcome_def demo_outcomes_def)

lemma demo_page_allowed: "page_allowed DEFAULT_ALERT_POLICY PREDICT demo_noon demo_pager"
  by (simp add: page_allowed_def load_ledger_def demo_pager_def rollover_def)

theorem critical_outcome_is_mailed_witness:
  "pg_mails (od_pager (snd (record_run_outcome demo_outcomes ''predict'' ''NO_DECISION'' ''2026-03-04'' ''ValueError''
     demo_outcome_desk))) = [Page_mail PREDICT]"
  using critical_outcome_is_mailed [of "''NO_DECISION''" "''predict''" demo_outcomes "''ValueError''" PREDICT demo_outcome_desk "''2026-03-04''"]
    demo_page_allowed predict_no_decision
  by (simp add: RUN_OUTCOMES_ALERTED_def demo_outcomes_def demo_outcome_desk_def demo_pager_def)

definition blind_env :: "unit decision_env" where
  "blind_env = (sleeve_env False)\<lparr>de_snapshot := \<lambda>_. Inl FileNotFoundError\<rparr>"

lemma blind_sleeve: "run_topk_ranker_sleeve blind_env d = Inr (Sleeve_failed FileNotFoundError)"
  using demo_store by (simp add: run_topk_ranker_sleeve_def topk_sleeve_def blind_env_def load_daily_snapshot_def sleeve_env_def)

theorem failed_decision_is_mailed_witness:
  "\<exists>s'. run_automated_topk_decision blind_env (predict_recorder demo_outcomes) (2026, 3, 4)
       \<lparr>dk_decisions = No_file, dk_pools = No_file, dk_world = demo_outcome_desk\<rparr> = (Inr (), s')
     \<and> dk_decisions s' = No_file \<and> dk_pools s' = No_file \<and> pg_mails (od_pager (dk_world s')) = [Page_mail PREDICT]"
proof -
  let ?day = "\<lparr>day_date = (2026, 3, 4), day_kind = STANDARD, day_clock = None, day_provenance = ''standard''\<rparr>"
  have "de_session_day blind_env (2026, 3, 4) = Inr ?day" "trading_session_gate ?day = None"
    by (simp_all add: blind_env_def sleeve_env_def trading_session_gate_None)
  moreover have "classify_day (2026, 3, 4) (de_trading_day blind_env) = Inr DAY_TRADING"
  proof -
    have "\<not> is_weekend (2026, 3, 4)" by (simp add: is_weekend_def weekday_def civil_eval)
    then show ?thesis by (simp add: classify_day_def blind_env_def sleeve_env_def)
  qed
  ultimately show ?thesis
    using failed_decision_is_mailed [of blind_env "(2026, 3, 4)" ?day FileNotFoundError DAY_TRADING demo_outcomes
        "\<lparr>dk_decisions = No_file, dk_pools = No_file, dk_world = demo_outcome_desk\<rparr>"]
      blind_sleeve demo_page_allowed
    by (simp add: demo_outcomes_def demo_outcome_desk_def demo_pager_def)
qed

end
