(* ===== verification/Auto_Remediation.thy ===== *)
theory Auto_Remediation
  imports Run_Outcome
begin

text \<open>
  \<open>src/tools/auto_remediation.py\<close> and the window of \<open>src/tools/deploy_window.py\<close>: the host
  re-runs a unit for an open issue by itself, within a ledger of what it tried. The state is
  the ledger file as its lines and the unit starts requested so far. A line cut off in the middle of a
  multi-byte character, which makes the whole file undecodable, is left out. Whether a unit is busy and
  what \<open>systemctl\<close> answers (the name of the exception it raises, or its exit code and error
  text), both asked anew for every key, and what the disk does are parameters; instants are aware.
\<close>

section \<open>The deploy blackout\<close>

definition KRX_REGULAR_HOUR_FLOOR :: string where "KRX_REGULAR_HOUR_FLOOR = ''090000''"
definition CLOSING_AUCTION_FINALIZE_DEADLINE_HHMMSS :: string where
  "CLOSING_AUCTION_FINALIZE_DEADLINE_HHMMSS = ''153300''"
definition DEPLOY_BLACKOUT_GUARD_MINUTES :: int where "DEPLOY_BLACKOUT_GUARD_MINUTES = 10"
definition DEPLOY_BLACKOUT_PREOPEN_LEAD_MINUTES :: int where "DEPLOY_BLACKOUT_PREOPEN_LEAD_MINUTES = 30"

text \<open>A wall-clock time is its second of the day.\<close>

definition shift_hhmmss :: "string \<Rightarrow> int \<Rightarrow> nat" where
  "shift_hhmmss s delta = (let total = int (digits_val (take 2 s)) * 60 + int (digits_val (take 2 (drop 2 s))) + delta
     in nat (total mod 1440) * 60 + digits_val (take 2 (drop 4 s)))"

definition DEPLOY_BLACKOUT_WINDOWS :: "(nat \<times> nat) list" where
  "DEPLOY_BLACKOUT_WINDOWS =
     [(shift_hhmmss KRX_REGULAR_HOUR_FLOOR (- DEPLOY_BLACKOUT_PREOPEN_LEAD_MINUTES),
       shift_hhmmss PAPER_EXIT_WINDOW_END_HHMMSS DEPLOY_BLACKOUT_GUARD_MINUTES),
      (shift_hhmmss DECISION_WINDOW_START_HHMMSS (- DEPLOY_BLACKOUT_GUARD_MINUTES),
       shift_hhmmss CLOSING_AUCTION_FINALIZE_DEADLINE_HHMMSS DEPLOY_BLACKOUT_GUARD_MINUTES)]"

definition blackout_remaining :: "(nat \<times> nat) list \<Rightarrow> int \<Rightarrow> int" where
  "blackout_remaining windows now =
     (if is_weekend (kst_date now) then 0
      else case find (\<lambda>(start, fin). start \<le> second_of_day now \<and> second_of_day now < fin) windows of
        None \<Rightarrow> 0
      | Some (_, fin) \<Rightarrow> instant (kst_date now) fin - now)"

section \<open>Rules and records\<close>

datatype RemediationOutcome =
    REM_STARTED | REM_RESOLVED | REM_UNRESOLVED | REM_SKIPPED_WINDOW | REM_SKIPPED_BUDGET
  | REM_SKIPPED_BUSY | REM_SKIPPED_FORBIDDEN | REM_FAILED

record RemediationRule =
  rule_prefix :: string
  rule_target :: "string option"
  rule_budget :: nat

record RemediationRecord =
  rem_ts :: int
  rem_key :: string
  rem_unit :: string
  rem_attempt :: nat
  rem_outcome :: RemediationOutcome
  rem_detail :: string

definition minute_ns :: int where "minute_ns = 60 * 10 ^ 9"
definition REMEDIATION_MIN_SPACING :: int where "REMEDIATION_MIN_SPACING = 30 * minute_ns"
definition REMEDIATION_NOTIFY_GRACE :: int where "REMEDIATION_NOTIFY_GRACE = 45 * minute_ns"

definition SAFE_RERUN_UNITS :: "string list" where
  "SAFE_RERUN_UNITS = [''kca-tape-sweep.service'', ''kca-price-ingest.service'', ''kca-altdata-capture.service'',
     ''kca-archive-intraday.service'', ''kca-archive-intraday-regular.service'', ''kca-extended-backfill.service'',
     ''kca-audit-reconcile.service'', ''kca-backup.service'', ''kca-backup-prune.service'',
     ''kca-core-snapshot.service'', ''kca-offsite-verify.service'', ''kca-kis-token-warmup.service'']"

definition FORBIDDEN_UNITS :: "string list" where
  "FORBIDDEN_UNITS = [''kca-collect.service'', ''kca-predict.service'', ''kca-auction-open.service'',
     ''kca-auction-close.service'', ''kca-finalize-close.service'', ''kca-paper-entry.service'',
     ''kca-paper-exit.service'', ''kca-aftermarket-book.service'', ''kca-kiwoom-token-rotate.service'',
     ''kca-retrain.service'', ''kca-daily-audit.service'']"

definition DRIVE_LOCK_SIBLINGS :: "string list" where
  "DRIVE_LOCK_SIBLINGS = [''kca-backup.service'', ''kca-backup-prune.service'', ''kca-core-snapshot.service'',
     ''kca-offsite-verify.service'']"

definition REMEDIATION_RULES :: "RemediationRule list" where
  "REMEDIATION_RULES =
     [\<lparr>rule_prefix = ''failed_unit:'', rule_target = None, rule_budget = 2\<rparr>,
      \<lparr>rule_prefix = ''job_late:'', rule_target = None, rule_budget = 1\<rparr>,
      \<lparr>rule_prefix = ''stale_kis_token:'', rule_target = Some ''kca-kis-token-warmup.service'', rule_budget = 2\<rparr>,
      \<lparr>rule_prefix = ''intraday:tape_expiring:'', rule_target = Some ''kca-tape-sweep.service'', rule_budget = 1\<rparr>,
      \<lparr>rule_prefix = ''offsite_backup:interrupted'', rule_target = Some ''kca-backup.service'', rule_budget = 1\<rparr>]"

definition LIFECYCLE_OUTCOMES :: "RemediationOutcome list" where
  "LIFECYCLE_OUTCOMES = [REM_STARTED, REM_RESOLVED, REM_UNRESOLVED, REM_FAILED]"

definition normalize_unit :: "string \<Rightarrow> string option" where
  "normalize_unit raw = (let name = py_strip raw in
     if name = [] then None
     else if CHR '':'' \<in> set name \<or> CHR ''/'' \<in> set name \<or> CHR '' '' \<in> set name then None
     else Some (if ends_with UNIT_SUFFIX name then name else name @ UNIT_SUFFIX))"

definition match_rule :: "string \<Rightarrow> RemediationRule option" where
  "match_rule key = find (\<lambda>r. starts_with (rule_prefix r) key) REMEDIATION_RULES"

definition derive_unit :: "RemediationRule \<Rightarrow> string \<Rightarrow> string option" where
  "derive_unit r key = (case rule_target r of
     Some u \<Rightarrow> Some u
   | None \<Rightarrow> normalize_unit (drop (length (rule_prefix r)) key))"

text \<open>\<open>_UNIT_NAME_RE\<close>\<close>

definition unit_name_char :: "char \<Rightarrow> bool" where
  "unit_name_char c \<longleftrightarrow> is_digit c \<or> c = CHR ''-'' \<or> (97 \<le> (of_char c :: nat) \<and> (of_char c :: nat) \<le> 122)"

definition is_unit_name :: "string \<Rightarrow> bool" where
  "is_unit_name u \<longleftrightarrow> starts_with ''kca-'' u \<and> ends_with UNIT_SUFFIX u
     \<and> (let middle = drop 4 (take (length u - length UNIT_SUFFIX) u) in middle \<noteq> [] \<and> list_all unit_name_char middle)"

definition rerun_allowed :: "string \<Rightarrow> bool" where
  "rerun_allowed u \<longleftrightarrow> is_unit_name u \<and> u \<in> set SAFE_RERUN_UNITS"

definition remediable_unit :: "string \<Rightarrow> (RemediationRule \<times> string) option" where
  "remediable_unit key = (case match_rule key of
     None \<Rightarrow> None
   | Some r \<Rightarrow> (case derive_unit r key of
       None \<Rightarrow> None
     | Some u \<Rightarrow> if rerun_allowed u then Some (r, u) else None))"

section \<open>The ledger\<close>

text \<open>A line of the ledger: a record, text that is none, or the last line without its line feed, as a
  write that failed left it, which may still read as a record.\<close>

datatype remedy_line = Remedy RemediationRecord | Bad_remedy_line | Open_remedy_line "RemediationRecord option"

datatype remedy_file = No_remedies | Remedies_unreadable | Remedies "remedy_line list"

text \<open>The unit starts requested so far: \<open>rd_starts\<close> as the key, the unit and the moment of the
  record, \<open>rd_calls\<close> as the unit, the moment of the record and the moment of the call.\<close>

record remedy_desk =
  rd_file :: remedy_file
  rd_starts :: "(string \<times> string \<times> int) list"
  rd_calls :: "(string \<times> int \<times> int) list"

definition read_remedy_line :: "remedy_line \<Rightarrow> RemediationRecord option" where
  "read_remedy_line l = (case l of Remedy r \<Rightarrow> Some r | Bad_remedy_line \<Rightarrow> None | Open_remedy_line r \<Rightarrow> r)"

definition readable_remedies :: "remedy_line list \<Rightarrow> RemediationRecord list" where
  "readable_remedies ls = List.map_filter read_remedy_line ls"

definition read_remediation_ledger :: "remedy_file \<Rightarrow> RemediationRecord list res" where
  "read_remediation_ledger f = (case f of
     No_remedies \<Rightarrow> Inr []
   | Remedies_unreadable \<Rightarrow> Inl OSError
   | Remedies ls \<Rightarrow> Inr (readable_remedies ls))"

text \<open>The line of a record as \<open>splitlines\<close> reads it back.\<close>

definition remedy_line_of :: "RemediationRecord \<Rightarrow> remedy_line" where
  "remedy_line_of r = (if raw_separator (rem_key r) \<or> raw_separator (rem_unit r) \<or> raw_separator (rem_detail r)
     then Bad_remedy_line else Remedy r)"

text \<open>One append: done, refused before anything is written, or failed on the way, with some whole
  lines written and the next one cut off, or complete but for its line feed, or not begun.\<close>

datatype torn_tail = Tail_absent | Tail_cut | Tail_unended

datatype ledger_append = Append_done | Append_refused | Append_torn nat torn_tail

definition written_remedies :: "ledger_append \<Rightarrow> RemediationRecord list \<Rightarrow> remedy_line list" where
  "written_remedies w rs = (case w of
     Append_done \<Rightarrow> map remedy_line_of rs
   | Append_refused \<Rightarrow> []
   | Append_torn n tail \<Rightarrow> map remedy_line_of (take n rs) @
       (case drop n rs of
          [] \<Rightarrow> []
        | r # _ \<Rightarrow> (case tail of
            Tail_absent \<Rightarrow> []
          | Tail_cut \<Rightarrow> [Open_remedy_line None]
          | Tail_unended \<Rightarrow> [Open_remedy_line (read_remedy_line (remedy_line_of r))])))"

text \<open>New lines go behind the last line feed; without one the first of them becomes part of the
  open line, which then is no record.\<close>

definition is_open_line :: "remedy_line \<Rightarrow> bool" where
  "is_open_line l \<longleftrightarrow> (case l of Open_remedy_line _ \<Rightarrow> True | _ \<Rightarrow> False)"

definition add_remedy_lines :: "remedy_line list \<Rightarrow> remedy_line list \<Rightarrow> remedy_line list" where
  "add_remedy_lines ls new = (case new of
     [] \<Rightarrow> ls
   | l # rest \<Rightarrow>
       if ls \<noteq> [] \<and> is_open_line (last ls)
       then butlast ls @ (if is_open_line l then Open_remedy_line None else Bad_remedy_line) # rest
       else ls @ new)"

definition append_remedies :: "ledger_append \<Rightarrow> RemediationRecord list \<Rightarrow> (remedy_desk, unit) eff" where
  "append_remedies w rs =
     bnd (modify (\<lambda>s. s\<lparr>rd_file := (case rd_file s of
         No_remedies \<Rightarrow> if w = Append_refused then No_remedies else Remedies (written_remedies w rs)
       | Remedies_unreadable \<Rightarrow> Remedies_unreadable
       | Remedies ls \<Rightarrow> Remedies (add_remedy_lines ls (written_remedies w rs)))\<rparr>)) (\<lambda>_.
     lift_res (\<lambda>_. guard_ok (w = Append_done) OSError))"

text \<open>\<open>_attempts_today\<close>: the starts of the day, and the moment of the last start or failure.\<close>

definition started_on :: "RemediationRecord list \<Rightarrow> string \<Rightarrow> civil \<Rightarrow> nat" where
  "started_on history key d = length (filter (\<lambda>r. rem_key r = key \<and> rem_outcome r = REM_STARTED \<and> kst_date (rem_ts r) = d) history)"

definition latest_attempt :: "RemediationRecord list \<Rightarrow> string \<Rightarrow> int option" where
  "latest_attempt history key = fold (\<lambda>r best.
     if rem_key r = key \<and> (rem_outcome r = REM_STARTED \<or> rem_outcome r = REM_FAILED)
        \<and> (case best of None \<Rightarrow> True | Some t \<Rightarrow> t < rem_ts r) then Some (rem_ts r) else best) history None"

definition attempts_today :: "RemediationRecord list \<Rightarrow> string \<Rightarrow> int \<Rightarrow> nat \<times> int option" where
  "attempts_today history key now = (started_on history key (kst_date now), latest_attempt history key)"

definition latest_record :: "RemediationRecord list \<Rightarrow> string \<Rightarrow> bool \<Rightarrow> RemediationRecord option" where
  "latest_record history key lifecycle_only = fold (\<lambda>r best.
     if rem_key r = key \<and> (\<not> lifecycle_only \<or> rem_outcome r \<in> set LIFECYCLE_OUTCOMES)
        \<and> (case best of None \<Rightarrow> True | Some b \<Rightarrow> rem_ts b \<le> rem_ts r) then Some r else best) history None"

section \<open>Planning\<close>

definition repeats_today :: "RemediationRecord \<Rightarrow> RemediationRecord list \<Rightarrow> bool" where
  "repeats_today r history \<longleftrightarrow> rem_outcome r \<notin> set LIFECYCLE_OUTCOMES
     \<and> (case latest_record history (rem_key r) False of
          None \<Rightarrow> False
        | Some l \<Rightarrow> rem_outcome l = rem_outcome r \<and> kst_date (rem_ts l) = kst_date (rem_ts r))"

definition unit_is_busy :: "(string \<Rightarrow> bool) \<Rightarrow> string \<Rightarrow> bool" where
  "unit_is_busy busy u = (if u \<in> set DRIVE_LOCK_SIBLINGS then list_ex busy (sort DRIVE_LOCK_SIBLINGS) else busy u)"

text \<open>The record planned for one key, if any.\<close>

definition plan_key ::
    "(string \<Rightarrow> string \<Rightarrow> bool) \<Rightarrow> (int \<Rightarrow> int) \<Rightarrow> int \<Rightarrow> RemediationRecord list \<Rightarrow> string \<Rightarrow> RemediationRecord option" where
  "plan_key busy blackout now history key = (case match_rule key of
     None \<Rightarrow> None
   | Some r \<Rightarrow>
       let (attempts, latest) = attempts_today history key now;
           rec = (\<lambda>u outcome detail. \<lparr>rem_ts = now, rem_key = key, rem_unit = u, rem_attempt = attempts + 1,
                    rem_outcome = outcome, rem_detail = detail\<rparr>)
       in case derive_unit r key of
            None \<Rightarrow> Some (rec (let u = py_strip (drop (length (rule_prefix r)) key) in if u = [] then ''unknown'' else u)
                       REM_SKIPPED_FORBIDDEN (''forbidden unit for '' @ rule_prefix r))
          | Some u \<Rightarrow>
              if \<not> rerun_allowed u then Some (rec u REM_SKIPPED_FORBIDDEN (''forbidden unit for '' @ rule_prefix r))
              else if (case latest of None \<Rightarrow> False | Some t \<Rightarrow> now - t < REMEDIATION_MIN_SPACING) then None
              else if 0 < blackout now then Some (rec u REM_SKIPPED_WINDOW ''deploy blackout in effect'')
              else if unit_is_busy (busy key) u then Some (rec u REM_SKIPPED_BUSY ''unit busy or Drive sibling active'')
              else if rule_budget r \<le> attempts then Some (rec u REM_SKIPPED_BUDGET ''per-day attempt budget exhausted'')
              else Some (rec u REM_STARTED (''rule='' @ rule_prefix r)))"

definition plan_remediation ::
    "(string \<Rightarrow> string \<Rightarrow> bool) \<Rightarrow> (int \<Rightarrow> int) \<Rightarrow> int \<Rightarrow> RemediationRecord list \<Rightarrow> string list \<Rightarrow> RemediationRecord list" where
  "plan_remediation busy blackout now history open_keys =
     filter (\<lambda>r. \<not> repeats_today r history)
       (List.map_filter (plan_key busy blackout now history) (sort (remdups open_keys)))"

section \<open>Execution\<close>

record remedy_env =
  rv_run :: "string \<Rightarrow> string list \<Rightarrow> string + int \<times> string"
  rv_redact :: "string \<Rightarrow> string"
  rv_plan_write :: ledger_append
  rv_fail_write :: "string \<Rightarrow> ledger_append"
  rv_called_at :: "string \<Rightarrow> int"
  rv_failed_at :: "string \<Rightarrow> int"

text \<open>\<open>_systemctl_step\<close>: the failure of a command, none when it succeeded.\<close>

definition systemctl_step :: "remedy_env \<Rightarrow> string \<Rightarrow> string list \<Rightarrow> string option" where
  "systemctl_step X key args = (case rv_run X key args of
     Inl exc \<Rightarrow> Some (hd args @ '' '' @ exc)
   | Inr (code, err) \<Rightarrow>
       if code = 0 then None
       else let tail = rv_redact X err; cut = drop (length tail - RUN_EVENT_REASON_MAX_CHARS) tail
            in Some (if cut = [] then hd args @ '' rc='' @ int_str code else cut))"

text \<open>The start of the unit. It is requested when the \<open>reset-failed\<close> before it and the
  \<open>systemctl\<close> calls of the keys before it have returned, some time after the moment of its record.\<close>

definition start_unit :: "remedy_env \<Rightarrow> RemediationRecord \<Rightarrow> (remedy_desk, string option) eff" where
  "start_unit X r =
     bnd (modify (\<lambda>s. s\<lparr>rd_starts := rd_starts s @ [(rem_key r, rem_unit r, rem_ts r)],
         rd_calls := rd_calls s @ [(rem_unit r, rem_ts r, rv_called_at X (rem_key r))]\<rparr>)) (\<lambda>_.
     ret (systemctl_step X (rem_key r) [''start'', ''--no-block'', rem_unit r]))"

definition failed_record :: "remedy_env \<Rightarrow> RemediationRecord \<Rightarrow> string \<Rightarrow> RemediationRecord" where
  "failed_record X r detail = r\<lparr>rem_ts := rv_failed_at X (rem_key r), rem_outcome := REM_FAILED, rem_detail := detail\<rparr>"

definition execute_one :: "remedy_env \<Rightarrow> RemediationRecord \<Rightarrow> (remedy_desk, RemediationRecord list) eff" where
  "execute_one X r =
     (if rem_outcome r \<noteq> REM_STARTED then ret []
      else
        bnd (if \<not> is_unit_name (rem_unit r) then ret (Some ''invalid unit name'')
             else case systemctl_step X (rem_key r) [''reset-failed'', rem_unit r] of
                 Some d \<Rightarrow> ret (Some d)
               | None \<Rightarrow> start_unit X r) (\<lambda>failure.
        case failure of
          None \<Rightarrow> ret []
        | Some d \<Rightarrow>
            bnd (append_remedies (rv_fail_write X (rem_key r)) [failed_record X r d]) (\<lambda>_.
            ret [failed_record X r d])))"

fun execute_each :: "remedy_env \<Rightarrow> RemediationRecord list \<Rightarrow> (remedy_desk, RemediationRecord list) eff" where
  "execute_each X [] = ret []"
| "execute_each X (r # rs) =
     bnd (execute_one X r) (\<lambda>failed.
     bnd (execute_each X rs) (\<lambda>more.
     ret (failed @ more)))"

definition execute_remediation :: "remedy_env \<Rightarrow> RemediationRecord list \<Rightarrow> (remedy_desk, RemediationRecord list) eff" where
  "execute_remediation X planned =
     bnd (append_remedies (rv_plan_write X) planned) (\<lambda>_.
     bnd (execute_each X planned) (\<lambda>failed.
     ret (planned @ failed)))"

section \<open>Settlement and holding\<close>

definition settle_key :: "string list \<Rightarrow> int \<Rightarrow> RemediationRecord list \<Rightarrow> string \<Rightarrow> RemediationRecord option" where
  "settle_key open_keys now history key = (case latest_record history key True of
     None \<Rightarrow> None
   | Some l \<Rightarrow>
       if rem_outcome l \<noteq> REM_STARTED then None
       else if key \<notin> set open_keys
         then Some (l\<lparr>rem_ts := now, rem_key := key, rem_outcome := REM_RESOLVED, rem_detail := ''issue no longer open''\<rparr>)
       else if REMEDIATION_MIN_SPACING \<le> now - rem_ts l
         then Some (l\<lparr>rem_ts := now, rem_key := key, rem_outcome := REM_UNRESOLVED, rem_detail := ''issue still open after spacing''\<rparr>)
       else None)"

definition settle_remediation ::
    "ledger_append \<Rightarrow> string list \<Rightarrow> int \<Rightarrow> RemediationRecord list \<Rightarrow> (remedy_desk, RemediationRecord list) eff" where
  "settle_remediation w open_keys now history =
     (let settled = List.map_filter (settle_key open_keys now history) (sort (remdups (map rem_key history)))
      in if settled = [] then ret [] else bnd (append_remedies w settled) (\<lambda>_. ret settled))"

text \<open>\<open>should_hold_notification\<close> and \<open>remediation_pending\<close> differ in the longest hold.\<close>

definition hold_until :: "int \<Rightarrow> string \<Rightarrow> int \<Rightarrow> int \<Rightarrow> RemediationRecord list \<Rightarrow> bool" where
  "hold_until longest key first_seen now history = (case remediable_unit key of
     None \<Rightarrow> False
   | Some (r, _) \<Rightarrow>
       if longest \<le> now - first_seen then False
       else case latest_record history key True of
         Some l \<Rightarrow> if rem_outcome l = REM_STARTED then True else fst (attempts_today history key now) < rule_budget r
       | None \<Rightarrow> fst (attempts_today history key now) < rule_budget r)"

definition should_hold_notification :: "string \<Rightarrow> int \<Rightarrow> int \<Rightarrow> RemediationRecord list \<Rightarrow> bool" where
  "should_hold_notification = hold_until REMEDIATION_NOTIFY_GRACE"

definition remediation_pending :: "AlertPolicyConfig \<Rightarrow> RemediationRecord list \<Rightarrow> string \<Rightarrow> int \<Rightarrow> int \<Rightarrow> bool" where
  "remediation_pending cfg history key first_seen now = hold_until (max_remediation_hold cfg) key first_seen now history"

definition load_paging_view :: "remedy_file \<Rightarrow> RemediationRecord list" where
  "load_paging_view f = (case read_remediation_ledger f of Inl _ \<Rightarrow> [] | Inr h \<Rightarrow> h)"

section \<open>The tick\<close>

text \<open>The remediation of one reconcile tick that is not a dry run, on the open keys that may be
  remediated: settle, plan on what is settled, execute. Its errors end only the remediation.\<close>

definition remediation_tick ::
    "remedy_env \<Rightarrow> ledger_append \<Rightarrow> (string \<Rightarrow> string \<Rightarrow> bool) \<Rightarrow> int \<Rightarrow> string list \<Rightarrow> (remedy_desk, RemediationRecord list) eff" where
  "remediation_tick X w busy now open_keys =
     bnd (lift_res (\<lambda>s. read_remediation_ledger (rd_file s))) (\<lambda>history.
     bnd (settle_remediation w open_keys now history) (\<lambda>settled.
     let combined = history @ settled;
         planned = plan_remediation busy (blackout_remaining DEPLOY_BLACKOUT_WINDOWS) now combined open_keys
     in if planned = [] then ret [] else execute_remediation X planned))"

end
