(* ===== verification/Remediation_Properties.thy ===== *)
theory Remediation_Properties
  imports Auto_Remediation Pager_Properties "HOL-Library.Sublist"
begin

text \<open>
  The bounds of auto-remediation over any sequence of reconcile ticks: only units that are
  safe to re-run are started, never planned inside a deploy blackout; while no append of the
  ledger is cut off, each start is on record before it is made, and a key is retried within its
  daily budget and no faster than the spacing.
\<close>

section \<open>Plans\<close>

definition is_start :: "RemediationRecord \<Rightarrow> bool" where
  "is_start r \<longleftrightarrow> rem_outcome r = REM_STARTED"

definition key_budget :: "string \<Rightarrow> nat" where
  "key_budget key = (case match_rule key of None \<Rightarrow> 0 | Some r \<Rightarrow> rule_budget r)"

lemma started_on_append [simp]: "started_on (h @ h') key d = started_on h key d + started_on h' key d"
  by (simp add: started_on_def)

lemma started_on_quiet [simp]: "\<forall>r\<in>set h. \<not> is_start r \<Longrightarrow> started_on h key d = 0"
  by (auto simp: started_on_def is_start_def filter_empty_conv)

lemma latest_attempt_snoc:
  "latest_attempt (h @ [r]) key = (if rem_key r = key \<and> (rem_outcome r = REM_STARTED \<or> rem_outcome r = REM_FAILED)
     \<and> (case latest_attempt h key of None \<Rightarrow> True | Some t \<Rightarrow> t < rem_ts r) then Some (rem_ts r) else latest_attempt h key)"
  by (auto simp: latest_attempt_def)

lemma latest_attempt_bound:
  "r \<in> set h \<Longrightarrow> rem_key r = key \<Longrightarrow> is_start r \<Longrightarrow> \<exists>t. latest_attempt h key = Some t \<and> rem_ts r \<le> t"
proof (induction h rule: rev_induct)
  case (snoc x h)
  show ?case
  proof (cases "r = x")
    case True
    then show ?thesis using snoc.prems by (cases "latest_attempt h key") (auto simp: latest_attempt_snoc is_start_def)
  next
    case False
    then obtain t where "latest_attempt h key = Some t" "rem_ts r \<le> t" using snoc by auto
    then show ?thesis by (auto simp: latest_attempt_snoc)
  qed
qed simp

lemma latest_attempt_quiet:
  "\<forall>r\<in>set h'. rem_outcome r \<noteq> REM_STARTED \<and> rem_outcome r \<noteq> REM_FAILED \<Longrightarrow> latest_attempt (h @ h') key = latest_attempt h key"
proof (induction h' rule: rev_induct)
  case (snoc x h')
  then show ?case by (simp add: latest_attempt_snoc flip: append_assoc)
qed simp

lemma plan_key_start:
  assumes "plan_key busy blackout now h key = Some r" "is_start r"
  shows "rem_key r = key" "rem_ts r = now" "rerun_allowed (rem_unit r)" "\<not> 0 < blackout now"
    "started_on h key (kst_date now) < key_budget key"
    "latest_attempt h key = Some t \<Longrightarrow> t + REMEDIATION_MIN_SPACING \<le> now"
  using assms
  by (auto simp: plan_key_def attempts_today_def Let_def is_start_def key_budget_def split: option.splits if_splits)

lemma plan_key_key: "plan_key busy blackout now h key = Some r \<Longrightarrow> rem_key r = key"
  by (auto simp: plan_key_def attempts_today_def Let_def split: option.splits if_splits)

lemma map_filter_keys: "(\<And>k r. f k = Some r \<Longrightarrow> g r = k) \<Longrightarrow> map g (List.map_filter f ks) = filter (\<lambda>k. f k \<noteq> None) ks"
  by (induction ks) (auto simp: List.map_filter_simps split: option.splits)

lemma in_map_filter: "r \<in> set (List.map_filter f ks) \<longleftrightarrow> (\<exists>k\<in>set ks. f k = Some r)"
  by (induction ks) (auto simp: List.map_filter_simps split: option.splits)

lemma plan_distinct: "distinct (map rem_key (plan_remediation busy blackout now h keys))"
proof -
  have "map rem_key (List.map_filter (plan_key busy blackout now h) (sort (remdups keys)))
      = filter (\<lambda>k. plan_key busy blackout now h k \<noteq> None) (sort (remdups keys))"
    by (rule map_filter_keys) (rule plan_key_key)
  then have "distinct (map rem_key (List.map_filter (plan_key busy blackout now h) (sort (remdups keys))))" by simp
  then show ?thesis by (simp add: plan_remediation_def distinct_map_filter)
qed

lemma plan_member: "r \<in> set (plan_remediation busy blackout now h keys) \<Longrightarrow> plan_key busy blackout now h (rem_key r) = Some r"
  using plan_key_key by (fastforce simp: plan_remediation_def in_map_filter)

lemma started_on_distinct: "distinct (map rem_key rs) \<Longrightarrow> started_on rs key d \<le> 1"
proof (induction rs)
  case (Cons r rs)
  have "rem_key r = key \<Longrightarrow> started_on rs key d = 0"
    using Cons.prems by (auto simp: started_on_def filter_empty_conv image_iff)
  then show ?case using Cons by (auto simp: started_on_def)
qed (simp add: started_on_def)

lemma distinct_keys_sorted: "distinct (map f xs) \<Longrightarrow> sorted_wrt (\<lambda>a b. f a \<noteq> f b) xs"
  by (induction xs) (auto simp: image_iff)

section \<open>The ledger\<close>

text \<open>Every start on record is allowed, outside the blackout, within the budget, and spaced.\<close>

definition remedies_ok :: "RemediationRecord list \<Rightarrow> bool" where
  "remedies_ok h \<longleftrightarrow> (\<forall>r\<in>set h. is_start r \<longrightarrow> rerun_allowed (rem_unit r) \<and> \<not> 0 < blackout_remaining DEPLOY_BLACKOUT_WINDOWS (rem_ts r))
   \<and> (\<forall>key d. started_on h key d \<le> key_budget key)
   \<and> sorted_wrt (\<lambda>a b. rem_key a = rem_key b \<longrightarrow> rem_ts a + REMEDIATION_MIN_SPACING \<le> rem_ts b) (filter is_start h)"

lemma remedies_ok_quiet: "\<forall>r\<in>set rs. \<not> is_start r \<Longrightarrow> remedies_ok (h @ rs) = remedies_ok h"
  by (auto simp: remedies_ok_def)

lemma started_on_starts: "started_on (filter is_start h) key d = started_on h key d"
  by (simp add: started_on_def is_start_def) (metis (mono_tags, lifting))

lemma remedies_ok_starts: "remedies_ok (filter is_start h) = remedies_ok h"
  by (simp add: remedies_ok_def started_on_starts) blast

lemma sorted_wrt_sublist: "subseq xs ys \<Longrightarrow> sorted_wrt R ys \<Longrightarrow> sorted_wrt R xs"
proof (induction rule: list_emb.induct)
  case (list_emb_Cons2 x y xs ys)
  then show ?case using set_nths_subset by (auto dest: list_emb_set)
qed auto

lemma started_on_sublist: "subseq xs ys \<Longrightarrow> started_on xs key d \<le> started_on ys key d"
  unfolding started_on_def by (intro list_emb_length [of "(=)"] subseq_filter)

lemma remedies_ok_sublist: "subseq xs ys \<Longrightarrow> remedies_ok ys \<Longrightarrow> remedies_ok xs"
proof -
  assume s: "subseq xs ys" and ok: "remedies_ok ys"
  have sub: "set xs \<subseteq> set ys" using s by (auto dest: list_emb_set)
  have "started_on xs key d \<le> key_budget key" for key d
    using ok le_trans [OF started_on_sublist [OF s]] unfolding remedies_ok_def by blast
  moreover have "sorted_wrt (\<lambda>a b. rem_key a = rem_key b \<longrightarrow> rem_ts a + REMEDIATION_MIN_SPACING \<le> rem_ts b) (filter is_start xs)"
    using sorted_wrt_sublist [OF subseq_filter [OF s]] ok unfolding remedies_ok_def by blast
  ultimately show ?thesis using ok sub unfolding remedies_ok_def by blast
qed

lemma remedies_ok_plan:
  assumes ok: "remedies_ok h" and quiet: "\<forall>r\<in>set q. rem_outcome r \<noteq> REM_STARTED \<and> rem_outcome r \<noteq> REM_FAILED"
    and planned: "planned = plan_remediation busy (blackout_remaining DEPLOY_BLACKOUT_WINDOWS) now (h @ q) keys"
  shows "remedies_ok (h @ planned)"
proof -
  have member: "\<And>r. r \<in> set planned \<Longrightarrow> plan_key busy (blackout_remaining DEPLOY_BLACKOUT_WINDOWS) now (h @ q) (rem_key r) = Some r"
    using plan_member planned by simp
  have dist: "distinct (map rem_key planned)" by (simp add: planned plan_distinct)
  have q0: "started_on q key d = 0" for key d using quiet by (simp add: is_start_def)
  have new: "rerun_allowed (rem_unit r) \<and> \<not> 0 < blackout_remaining DEPLOY_BLACKOUT_WINDOWS (rem_ts r) \<and> rem_ts r = now
      \<and> started_on h (rem_key r) (kst_date now) < key_budget (rem_key r)" if "r \<in> set planned" "is_start r" for r
    using plan_key_start [OF member [OF that(1)] that(2)] q0 by simp
  have count: "started_on (h @ planned) key d \<le> key_budget key" for key d
  proof (cases "started_on planned key d = 0")
    case True
    then show ?thesis using ok unfolding remedies_ok_def by fastforce
  next
    case False
    then obtain r where "r \<in> set planned" "rem_key r = key" "is_start r" "kst_date (rem_ts r) = d"
      by (auto simp: started_on_def is_start_def filter_empty_conv)
    then have "started_on h key d < key_budget key" using new [of r] by auto
    then show ?thesis using started_on_distinct [OF dist, of key d] by simp
  qed
  have spaced: "rem_ts a + REMEDIATION_MIN_SPACING \<le> rem_ts b"
    if a: "a \<in> set h" "is_start a" and b: "b \<in> set planned" "is_start b" and eq: "rem_key a = rem_key b" for a b
  proof -
    obtain t where "latest_attempt h (rem_key b) = Some t" "rem_ts a \<le> t"
      using latest_attempt_bound [OF a(1) eq a(2)] by blast
    then show ?thesis
      using plan_key_start(6) [OF member [OF b(1)] b(2)] new [OF b] latest_attempt_quiet [OF quiet] by force
  qed
  have "sorted_wrt (\<lambda>a b. rem_key a \<noteq> rem_key b) planned" using dist by (rule distinct_keys_sorted)
  then have inside: "sorted_wrt (\<lambda>a b. rem_key a = rem_key b \<longrightarrow> rem_ts a + REMEDIATION_MIN_SPACING \<le> rem_ts b) (filter is_start planned)"
    by (rule sorted_wrt_mono_rel [rotated, OF sorted_wrt_filter]) simp
  have "sorted_wrt (\<lambda>a b. rem_key a = rem_key b \<longrightarrow> rem_ts a + REMEDIATION_MIN_SPACING \<le> rem_ts b) (filter is_start (h @ planned))"
    using ok inside spaced by (simp add: remedies_ok_def sorted_wrt_append)
  moreover have "rerun_allowed (rem_unit r) \<and> \<not> 0 < blackout_remaining DEPLOY_BLACKOUT_WINDOWS (rem_ts r)"
    if "r \<in> set (h @ planned)" "is_start r" for r
    using that new ok unfolding remedies_ok_def by (metis Un_iff set_append)
  ultimately show ?thesis using count unfolding remedies_ok_def by blast
qed


section \<open>What a tick does to the desk\<close>

text \<open>A ledger whose lines all end, as it is while no append was cut off.\<close>

definition tidy :: "remedy_file \<Rightarrow> bool" where
  "tidy f \<longleftrightarrow> (case f of No_remedies \<Rightarrow> True | Remedies_unreadable \<Rightarrow> False | Remedies ls \<Rightarrow> \<not> list_ex is_open_line ls)"

definition whole :: "ledger_append \<Rightarrow> bool" where
  "whole w \<longleftrightarrow> w = Append_done \<or> w = Append_refused"

definition whole_env :: "remedy_env \<Rightarrow> bool" where
  "whole_env X \<longleftrightarrow> whole (rv_plan_write X) \<and> (\<forall>key. whole (rv_fail_write X key))"

definition ledger_of :: "remedy_file \<Rightarrow> RemediationRecord list" where
  "ledger_of f = (case f of Remedies ls \<Rightarrow> readable_remedies ls | _ \<Rightarrow> [])"

definition plain :: "RemediationRecord \<Rightarrow> bool" where
  "plain r \<longleftrightarrow> \<not> raw_separator (rem_key r) \<and> \<not> raw_separator (rem_unit r) \<and> \<not> raw_separator (rem_detail r)"

definition start_events :: "RemediationRecord list \<Rightarrow> (string \<times> string \<times> int) list" where
  "start_events h = map (\<lambda>r. (rem_key r, rem_unit r, rem_ts r)) (filter is_start h)"

text \<open>The ledger gained the records of \<open>q\<close> and the unit starts \<open>b\<close> were requested.\<close>

definition grew :: "RemediationRecord list \<Rightarrow> (string \<times> string \<times> int) list \<Rightarrow> remedy_desk \<Rightarrow> remedy_desk \<Rightarrow> bool" where
  "grew q b s s' \<longleftrightarrow> tidy (rd_file s') \<and> ledger_of (rd_file s') = ledger_of (rd_file s) @ q
     \<and> rd_starts s' = rd_starts s @ b"

lemma line_of_simps [simp]: "\<not> is_open_line (remedy_line_of r)"
  "read_remedy_line (remedy_line_of r) = (if plain r then Some r else None)"
  by (simp_all add: is_open_line_def remedy_line_of_def read_remedy_line_def plain_def)

lemma readable_append: "readable_remedies (ls @ map remedy_line_of rs) = readable_remedies ls @ filter plain rs"
  by (induction rs) (auto simp: readable_remedies_def List.map_filter_def)

lemma add_tidy_lines: "\<not> list_ex is_open_line ls \<Longrightarrow> add_remedy_lines ls new = ls @ new"
  using last_in_set [of ls] by (auto simp: add_remedy_lines_def list_ex_iff split: list.split)

lemma grew_refl: "tidy (rd_file s) \<Longrightarrow> grew [] [] s s"
  by (simp add: grew_def)

lemma grew_trans: "grew q b s s1 \<Longrightarrow> grew q' b' s1 s' \<Longrightarrow> grew (q @ q') (b @ b') s s'"
  by (simp add: grew_def)

lemma append_grew:
  assumes "append_remedies w rs s = (v, s')" "tidy (rd_file s)" "whole w"
  shows "grew (filter plain rs) [] s s' \<and> v = Inr () \<or> s' = s \<and> (\<exists>e. v = Inl e)"
proof -
  have open_free: "\<not> list_ex is_open_line (map remedy_line_of rs)" by (simp add: list_ex_iff)
  show ?thesis
  proof (cases "rd_file s")
    case No_remedies
    then show ?thesis using assms readable_append [of "[]" rs] open_free
      by (auto simp: append_remedies_def bnd_def lift_res_def modify_def guard_ok_def grew_def ledger_of_def whole_def
          written_remedies_def tidy_def readable_remedies_def List.map_filter_simps)
  next
    case Remedies_unreadable
    then show ?thesis using assms(2) by (simp add: tidy_def)
  next
    case (Remedies ls)
    have "add_remedy_lines ls [] = ls" by (simp add: add_remedy_lines_def)
    then show ?thesis using assms Remedies add_tidy_lines [of ls "map remedy_line_of rs"] open_free
      by (cases s) (auto simp: append_remedies_def bnd_def lift_res_def modify_def guard_ok_def grew_def ledger_of_def whole_def
          written_remedies_def tidy_def readable_append)
  qed
qed

definition quiet :: "RemediationRecord list \<Rightarrow> bool" where
  "quiet q \<longleftrightarrow> (\<forall>r\<in>set q. \<not> is_start r)"

lemma quiet_append [simp]: "quiet (q @ q') \<longleftrightarrow> quiet q \<and> quiet q'"
  by (auto simp: quiet_def)

lemma quiet_Nil [simp]: "quiet []"
  by (simp add: quiet_def)

lemma quiet_events [simp]: "quiet q \<Longrightarrow> filter is_start q = []"
  by (simp add: quiet_def filter_empty_conv)

lemma failed_quiet: "quiet (filter plain [failed_record X r d])"
  by (simp add: quiet_def failed_record_def is_start_def)

text \<open>A start that fails adds a record of its failure, which is not a start.\<close>

lemma fail_grew:
  assumes "bnd (append_remedies w [failed_record X r d]) (\<lambda>_. ret [failed_record X r d]) s = (v, s')"
    "tidy (rd_file s)" "whole w"
  shows "\<exists>q. quiet q \<and> grew q [] s s'"
proof -
  obtain v1 s1 where one: "append_remedies w [failed_record X r d] s = (v1, s1)" by fastforce
  then have "s' = s1" using assms(1) by (cases v1) (auto simp: bnd_def ret_def)
  then show ?thesis using append_grew [OF one assms(2,3)] grew_refl [OF assms(2)] failed_quiet quiet_Nil by metis
qed

lemma start_grew: "tidy (rd_file s) \<Longrightarrow> start_unit X r s = (v, s') \<Longrightarrow> grew [] [(rem_key r, rem_unit r, rem_ts r)] s s'"
  by (auto simp: start_unit_def bnd_def modify_def ret_def grew_def)

lemma execute_one_grew:
  assumes run: "execute_one X r s = (v, s')" and readable: "tidy (rd_file s)" and env: "whole_env X"
  shows "\<exists>q b. quiet q \<and> grew q b s s' \<and> subseq b (start_events [r])"
proof (cases "rem_outcome r = REM_STARTED")
  case False
  then show ?thesis using run grew_refl [OF readable] by (auto simp: execute_one_def ret_def intro!: exI [of _ "[]"])
next
  case True
  define first where "first = (if \<not> is_unit_name (rem_unit r) then ret (Some ''invalid unit name'')
             else case systemctl_step X (rem_key r) [''reset-failed'', rem_unit r] of Some d \<Rightarrow> ret (Some d) | None \<Rightarrow> start_unit X r)"
  obtain v1 s1 where one: "first s = (v1, s1)" by fastforce
  have b1: "\<exists>b. grew [] b s s1 \<and> subseq b (start_events [r])"
  proof (cases "is_unit_name (rem_unit r) \<and> systemctl_step X (rem_key r) [''reset-failed'', rem_unit r] = None")
    case True
    then have "start_unit X r s = (v1, s1)" using one by (simp add: first_def)
    then show ?thesis using start_grew [OF readable] \<open>rem_outcome r = REM_STARTED\<close>
      by (intro exI [of _ "[(rem_key r, rem_unit r, rem_ts r)]"]) (simp add: start_events_def is_start_def)
  next
    case False
    then have "s1 = s" using one by (auto simp: first_def ret_def split: if_splits option.splits)
    then show ?thesis using grew_refl [OF readable] by auto
  qed
  then obtain b where b: "grew [] b s s1" "subseq b (start_events [r])" by blast
  then have readable1: "tidy (rd_file s1)" by (simp add: grew_def)
  have "v1 \<noteq> Inl e" for e
    using one by (auto simp: first_def ret_def start_unit_def bnd_def modify_def split: if_splits option.splits)
  then obtain failure where v1: "v1 = Inr failure" by (cases v1) auto
  have rest: "(case failure of None \<Rightarrow> ret [] | Some d \<Rightarrow>
      bnd (append_remedies (rv_fail_write X (rem_key r)) [failed_record X r d]) (\<lambda>_. ret [failed_record X r d])) s1 = (v, s')"
    using run True one v1 by (cases failure) (simp_all add: execute_one_def first_def bnd_def)
  have "\<exists>q. quiet q \<and> grew q [] s1 s'"
  proof (cases failure)
    case None
    then show ?thesis using rest grew_refl [OF readable1] by (auto simp: ret_def intro!: exI [of _ "[]"])
  next
    case (Some d)
    then show ?thesis using fail_grew [OF _ readable1] rest env by (simp add: whole_env_def)
  qed
  then show ?thesis using grew_trans [OF b(1)] b(2) by fastforce
qed

lemma execute_each_grew:
  "execute_each X rs s = (v, s') \<Longrightarrow> tidy (rd_file s) \<Longrightarrow> whole_env X \<Longrightarrow>
   \<exists>q b. quiet q \<and> grew q b s s' \<and> subseq b (start_events rs)"
proof (induction rs arbitrary: s v)
  case Nil
  then show ?case using grew_refl by (auto simp: ret_def start_events_def intro!: exI [of _ "[]"])
next
  case (Cons r rs)
  obtain v1 s1 where one: "execute_one X r s = (v1, s1)" by fastforce
  obtain q b where g: "quiet q" "grew q b s s1" "subseq b (start_events [r])"
    using execute_one_grew [OF one Cons.prems(2,3)] by blast
  have split: "start_events (r # rs) = start_events [r] @ start_events rs" by (simp add: start_events_def)
  show ?case
  proof (cases v1)
    case (Inl e)
    then have "s' = s1" using Cons.prems one by (auto simp: bnd_def)
    moreover have "subseq b (start_events (r # rs))" unfolding split using g(3) by (rule subseq_rev_drop_many)
    ultimately show ?thesis using g by blast
  next
    case (Inr f)
    obtain v2 s2 where two: "execute_each X rs s1 = (v2, s2)" by fastforce
    then have "s' = s2" using Cons.prems one Inr by (cases v2) (auto simp: bnd_def ret_def)
    moreover from this obtain q' b' where "quiet q'" "grew q' b' s1 s2" "subseq b' (start_events rs)"
      using Cons.IH two g(2) Cons.prems(3) unfolding grew_def by metis
    ultimately show ?thesis using g grew_trans [OF g(2)] list_emb_append_mono [OF g(3)] unfolding split by (metis quiet_append)
  qed
qed


lemma settle_quiet:
  "settle_key keys now h k = Some r \<Longrightarrow> rem_outcome r \<noteq> REM_STARTED \<and> rem_outcome r \<noteq> REM_FAILED"
  by (auto simp: settle_key_def split: option.splits if_splits)

lemma settled_grew:
  assumes run: "settle_remediation w keys now h s = (v, s1)" and readable: "tidy (rd_file s)" and w: "whole w"
  shows "\<exists>q. grew q [] s s1 \<and> quiet q"
    and "v = Inr settled \<Longrightarrow> r \<in> set settled \<Longrightarrow> rem_outcome r \<noteq> REM_STARTED \<and> rem_outcome r \<noteq> REM_FAILED"
proof -
  define found where "found = List.map_filter (settle_key keys now h) (sort (remdups (map rem_key h)))"
  have found: "rem_outcome r \<noteq> REM_STARTED \<and> rem_outcome r \<noteq> REM_FAILED" if "r \<in> set found" for r
    using that settle_quiet by (auto simp: found_def in_map_filter)
  then have q: "quiet (filter plain found)" by (auto simp: quiet_def is_start_def)
  obtain v0 s0 where app: "append_remedies w found s = (v0, s0)" by fastforce
  have "s1 = s \<or> s1 = s0" and v: "v = Inr settled \<Longrightarrow> settled = found \<or> settled = []"
    using run app by (auto simp: settle_remediation_def found_def [symmetric] ret_def bnd_def Let_def split: if_splits sum.splits)
  then show "\<exists>q. grew q [] s s1 \<and> quiet q"
    using append_grew [OF app readable w] grew_refl [OF readable] q quiet_Nil by blast
  show "v = Inr settled \<Longrightarrow> r \<in> set settled \<Longrightarrow> rem_outcome r \<noteq> REM_STARTED \<and> rem_outcome r \<noteq> REM_FAILED"
    using v found by auto
qed

lemma execute_remediation_grew:
  assumes run: "execute_remediation X planned s = (v, s')" and readable: "tidy (rd_file s)" and env: "whole_env X"
  shows "s' = s \<or> (\<exists>q b. quiet q \<and> grew (filter plain planned @ q) b s s' \<and> subseq b (start_events planned))"
proof -
  obtain v1 s1 where app: "append_remedies (rv_plan_write X) planned s = (v1, s1)" by fastforce
  have w: "whole (rv_plan_write X)" using env by (simp add: whole_env_def)
  show ?thesis
  proof (cases v1)
    case (Inl e)
    then have "s' = s1" using run app by (auto simp: execute_remediation_def bnd_def)
    then show ?thesis using append_grew [OF app readable w] Inl by auto
  next
    case (Inr u)
    have g: "grew (filter plain planned) [] s s1" using append_grew [OF app readable w] Inr by auto
    then have readable1: "tidy (rd_file s1)" by (simp add: grew_def)
    obtain v2 s2 where each: "execute_each X planned s1 = (v2, s2)" by fastforce
    have "s' = s2" using run app each Inr by (cases v2) (auto simp: execute_remediation_def bnd_def ret_def)
    then show ?thesis using execute_each_grew [OF each readable1 env] grew_trans [OF g] by fastforce
  qed
qed

text \<open>A tick adds quiet records, then maybe a plan made on a ledger that differs from the one
  on disk by quiet records only, and the starts it requests are starts of that plan.\<close>

lemma tick_grew:
  assumes run: "remediation_tick X w busy now keys s = (v, s')" and readable: "tidy (rd_file s)"
    and env: "whole_env X" and w: "whole w"
  obtains q0 seen pl q b where "quiet q0" "quiet q" "\<forall>r\<in>set seen. rem_outcome r \<noteq> REM_STARTED \<and> rem_outcome r \<noteq> REM_FAILED"
    "pl = [] \<or> pl = plan_remediation busy (blackout_remaining DEPLOY_BLACKOUT_WINDOWS) now (ledger_of (rd_file s) @ seen) keys"
    "grew (q0 @ filter plain pl @ q) b s s'" "subseq b (start_events pl)"
proof -
  have read: "read_remediation_ledger (rd_file s) = Inr (ledger_of (rd_file s))"
    using readable by (auto simp: read_remediation_ledger_def ledger_of_def tidy_def split: remedy_file.splits)
  obtain v1 s1 where set: "settle_remediation w keys now (ledger_of (rd_file s)) s = (v1, s1)" by fastforce
  obtain q0 where q0: "grew q0 [] s s1" "quiet q0" using settled_grew(1) [OF set readable w] by blast
  then have readable1: "tidy (rd_file s1)" by (simp add: grew_def)
  show ?thesis
  proof (cases v1)
    case (Inl e)
    then have "s' = s1" using run read set by (auto simp: remediation_tick_def bnd_def lift_res_def)
    then show ?thesis using that [of q0 "[]" "[]" "[]" "[]"] q0 by simp
  next
    case (Inr settled)
    define pl where "pl = plan_remediation busy (blackout_remaining DEPLOY_BLACKOUT_WINDOWS) now (ledger_of (rd_file s) @ settled) keys"
    have rest: "(if pl = [] then ret [] else execute_remediation X pl) s1 = (v, s')"
      using run read set Inr by (cases "pl = []") (simp_all add: remediation_tick_def bnd_def lift_res_def pl_def Let_def)
    have seen: "\<forall>r\<in>set settled. rem_outcome r \<noteq> REM_STARTED \<and> rem_outcome r \<noteq> REM_FAILED"
      using settled_grew(2) [OF set readable w Inr] by blast
    show ?thesis
    proof (cases "s' = s1")
      case True
      then show ?thesis using that [of q0 "[]" "[]" "[]" "[]"] q0 by simp
    next
      case False
      then have "execute_remediation X pl s1 = (v, s')" using rest by (auto simp: ret_def split: if_splits)
      then obtain q b where g: "quiet q" "grew (filter plain pl @ q) b s1 s'" "subseq b (start_events pl)"
        using execute_remediation_grew readable1 False env by blast
      show ?thesis using that [OF q0(2) g(1) seen _ _ g(3)] grew_trans [OF q0(1) g(2)] by (simp add: pl_def)
    qed
  qed
qed


section \<open>Ticks in sequence\<close>

text \<open>The desk after any number of ticks, whatever the units, the disk and the clock did; and after
  ticks in which no append of the ledger was cut off (it was done, or refused as a whole).\<close>

inductive remedy_history :: "remedy_desk \<Rightarrow> bool" where
  created: "remedy_history \<lparr>rd_file = No_remedies, rd_starts = [], rd_calls = []\<rparr>"
| ticked: "remedy_history s \<Longrightarrow> remedy_history (snd (remediation_tick X w busy now keys s))"

inductive remedy_reachable :: "remedy_desk \<Rightarrow> bool" where
  fresh: "remedy_reachable \<lparr>rd_file = No_remedies, rd_starts = [], rd_calls = []\<rparr>"
| tick: "remedy_reachable s \<Longrightarrow> whole_env X \<Longrightarrow> whole w \<Longrightarrow>
    remedy_reachable (snd (remediation_tick X w busy now keys s))"

lemma reachable_history: "remedy_reachable s \<Longrightarrow> remedy_history s"
  by (induction rule: remedy_reachable.induct) (auto intro: remedy_history.intros)

definition remedies_inv :: "remedy_desk \<Rightarrow> bool" where
  "remedies_inv s \<longleftrightarrow> tidy (rd_file s) \<and> remedies_ok (ledger_of (rd_file s))
   \<and> subseq (filter (\<lambda>e. \<not> raw_separator (fst e)) (rd_starts s)) (start_events (ledger_of (rd_file s)))"

lemma safe_units: "u \<in> set SAFE_RERUN_UNITS \<Longrightarrow> u \<notin> set FORBIDDEN_UNITS \<and> \<not> raw_separator u"
proof -
  have "list_all (\<lambda>u. u \<notin> set FORBIDDEN_UNITS \<and> \<not> raw_separator u) SAFE_RERUN_UNITS" by code_simp
  then show "u \<in> set SAFE_RERUN_UNITS \<Longrightarrow> u \<notin> set FORBIDDEN_UNITS \<and> \<not> raw_separator u" by (simp add: list_all_iff)
qed

lemma rule_prefix_plain: "match_rule k = Some r \<Longrightarrow> \<not> raw_separator (''rule='' @ rule_prefix r)"
proof -
  have "list_all (\<lambda>r. \<not> raw_separator (''rule='' @ rule_prefix r)) REMEDIATION_RULES" by code_simp
  then show "match_rule k = Some r \<Longrightarrow> \<not> raw_separator (''rule='' @ rule_prefix r)"
    by (auto simp: match_rule_def find_Some_iff list_all_iff)
qed

lemma planned_plain:
  assumes "plan_key busy blackout now h key = Some r" "is_start r"
  shows "plain r \<longleftrightarrow> \<not> raw_separator key"
proof -
  obtain rl u where "match_rule key = Some rl" "rerun_allowed u"
    "r = \<lparr>rem_ts = now, rem_key = key, rem_unit = u, rem_attempt = fst (attempts_today h key now) + 1,
           rem_outcome = REM_STARTED, rem_detail = ''rule='' @ rule_prefix rl\<rparr>"
    using assms by (auto simp: plan_key_def attempts_today_def Let_def is_start_def split: option.splits if_splits)
  then show ?thesis using rule_prefix_plain safe_units by (auto simp: plain_def rerun_allowed_def)
qed

lemma events_of_plain:
  "(\<And>r. r \<in> set pl \<Longrightarrow> is_start r \<Longrightarrow> plain r = (\<not> raw_separator (rem_key r))) \<Longrightarrow>
   filter (\<lambda>e. \<not> raw_separator (fst e)) (start_events pl) = start_events (filter plain pl)"
  by (induction pl) (auto simp: start_events_def)

lemma start_events_append [simp]: "start_events (a @ b) = start_events a @ start_events b"
  by (simp add: start_events_def)

lemma start_events_quiet [simp]: "quiet q \<Longrightarrow> start_events q = []"
  by (simp add: start_events_def)

lemma remedies_inv_tick:
  assumes inv: "remedies_inv s" and run: "remediation_tick X w busy now keys s = (v, s')"
    and env: "whole_env X" "whole w"
  shows "remedies_inv s'"
proof -
  let ?h = "ledger_of (rd_file s)"
  have readable: "tidy (rd_file s)" using inv by (simp add: remedies_inv_def)
  obtain q0 seen pl q b where q: "quiet q0" "quiet q" "\<forall>r\<in>set seen. rem_outcome r \<noteq> REM_STARTED \<and> rem_outcome r \<noteq> REM_FAILED"
    and pl: "pl = [] \<or> pl = plan_remediation busy (blackout_remaining DEPLOY_BLACKOUT_WINDOWS) now (?h @ seen) keys"
    and g: "grew (q0 @ filter plain pl @ q) b s s'" and b: "subseq b (start_events pl)"
    using tick_grew [OF run readable env] by metis
  have key: "plan_key busy (blackout_remaining DEPLOY_BLACKOUT_WINDOWS) now (?h @ seen) (rem_key r) = Some r" if "r \<in> set pl" for r
    using pl that plan_member by fastforce
  have "remedies_ok (?h @ pl)"
    using pl remedies_ok_plan [OF _ q(3)] inv by (auto simp: remedies_inv_def)
  then have "remedies_ok (filter is_start (?h @ pl))" by (simp only: remedies_ok_starts)
  moreover have "subseq (filter is_start (?h @ q0 @ filter plain pl @ q)) (filter is_start (?h @ pl))"
    using q by (simp add: list_emb_append_mono del: filter_filter)
  ultimately have "remedies_ok (filter is_start (?h @ q0 @ filter plain pl @ q))" by (rule remedies_ok_sublist [rotated])
  then have ok: "remedies_ok (ledger_of (rd_file s'))" using g by (simp only: remedies_ok_starts grew_def)
  have "filter (\<lambda>e. \<not> raw_separator (fst e)) (start_events pl) = start_events (filter plain pl)"
    by (rule events_of_plain) (rule planned_plain [OF key])
  then have "subseq (filter (\<lambda>e. \<not> raw_separator (fst e)) b) (start_events (filter plain pl))"
    using subseq_filter [OF b, of "\<lambda>e. \<not> raw_separator (fst e)"] by simp
  then have on_record: "subseq (filter (\<lambda>e. \<not> raw_separator (fst e)) (rd_starts s')) (start_events (ledger_of (rd_file s')))"
    using g q inv by (simp add: grew_def remedies_inv_def list_emb_append_mono)
  show ?thesis using ok on_record g by (auto simp: remedies_inv_def grew_def)
qed

lemma remedies_inv_reachable: "remedy_reachable s \<Longrightarrow> remedies_inv s"
proof (induction rule: remedy_reachable.induct)
  case fresh
  then show ?case by (simp add: remedies_inv_def ledger_of_def remedies_ok_def started_on_def tidy_def)
next
  case (tick s X w busy now keys)
  then show ?case using remedies_inv_tick [OF tick.IH surjective_pairing] by blast
qed


section \<open>What auto-remediation may do\<close>

lemma subseconds:
  assumes "valid_civil d" "secs < 86400" "0 \<le> ns" "ns < 10 ^ 9"
  shows "kst_date (instant d secs + ns) = d" "second_of_day (instant d secs + ns) = secs"
proof -
  have r: "0 \<le> int secs * 10 ^ 9 + ns" "int secs * 10 ^ 9 + ns < day_ns"
    using assms(2-4) by (simp_all add: day_ns_def)
  have i: "instant d secs + ns = (int secs * 10 ^ 9 + ns) + day_ns * int (toordinal d)" by (simp add: instant_def)
  have q: "(instant d secs + ns) div day_ns = int (toordinal d)"
    unfolding i by (subst div_mult_self2) (use r in \<open>simp_all add: div_pos_pos_trivial\<close>)
  have m: "(instant d secs + ns) mod day_ns = int secs * 10 ^ 9 + ns"
    unfolding i mod_mult_self2 using r by (rule mod_pos_pos_trivial)
  have s: "(int secs * 10 ^ 9 + ns) div 10 ^ 9 = int secs" using assms(3,4) by simp
  show "kst_date (instant d secs + ns) = d" unfolding kst_date_def q nat_int using assms(1) by (rule fromordinal_toordinal)
  show "second_of_day (instant d secs + ns) = secs" unfolding second_of_day_def m s by (rule nat_int)
qed

lemma blackout_windows: "DEPLOY_BLACKOUT_WINDOWS = [(30600, 34800), (54600, 56580)]"
  by (simp add: DEPLOY_BLACKOUT_WINDOWS_def shift_hhmmss_def digits_val_def digit_val_def Let_def
    KRX_REGULAR_HOUR_FLOOR_def PAPER_EXIT_WINDOW_END_HHMMSS_def DECISION_WINDOW_START_HHMMSS_def
    CLOSING_AUCTION_FINALIZE_DEADLINE_HHMMSS_def DEPLOY_BLACKOUT_PREOPEN_LEAD_MINUTES_def DEPLOY_BLACKOUT_GUARD_MINUTES_def)

lemma blackout_positive:
  assumes "valid_civil d" "\<not> is_weekend d" "0 \<le> ns" "ns < 10 ^ 9"
    "30600 \<le> secs \<and> secs < 34800 \<or> 54600 \<le> secs \<and> secs < 56580"
  shows "0 < blackout_remaining DEPLOY_BLACKOUT_WINDOWS (instant d secs + ns)"
proof -
  have "secs < 86400" using assms(5) by auto
  note parts = subseconds [OF assms(1) this assms(3,4)]
  have "blackout_remaining DEPLOY_BLACKOUT_WINDOWS (instant d secs + ns) =
      (case find (\<lambda>(start, fin). start \<le> secs \<and> secs < fin) [(30600, 34800), (54600, 56580)] of
         None \<Rightarrow> 0 | Some (_, fin) \<Rightarrow> instant d fin - (instant d secs + ns))"
    unfolding blackout_remaining_def parts blackout_windows using assms(2) by simp
  then show ?thesis using assms(3-5) by (auto simp: instant_def)
qed

lemma blackout_moment:
  assumes "valid_civil d" "\<not> is_weekend d"
    and "instant d 30600 \<le> t \<and> t < instant d 34800 \<or> instant d 54600 \<le> t \<and> t < instant d 56580"
  shows "0 < blackout_remaining DEPLOY_BLACKOUT_WINDOWS t"
proof -
  define x where "x = t - instant d 0"
  have x: "30600 * 10 ^ 9 \<le> x \<and> x < 34800 * 10 ^ 9 \<or> 54600 * 10 ^ 9 \<le> x \<and> x < 56580 * 10 ^ 9"
    using assms(3) by (auto simp: x_def instant_def)
  define secs ns where "secs = nat (x div 10 ^ 9)" and "ns = x mod 10 ^ 9"
  have parts: "x = int secs * 10 ^ 9 + ns" "0 \<le> ns" "ns < 10 ^ 9"
    using x by (auto simp: secs_def ns_def pos_imp_zdiv_nonneg_iff)
  then have "t = instant d secs + ns" by (simp add: x_def instant_def)
  moreover have "30600 \<le> secs \<and> secs < 34800 \<or> 54600 \<le> secs \<and> secs < 56580" using x parts by auto
  ultimately show ?thesis using blackout_positive [OF assms(1,2) parts(2,3)] by simp
qed

text \<open>The units started so far are allowed, and were planned outside the blackout.\<close>

definition calls_ok :: "remedy_desk \<Rightarrow> bool" where
  "calls_ok s \<longleftrightarrow> (\<forall>(u, planned, called)\<in>set (rd_calls s). rerun_allowed u \<and> \<not> 0 < blackout_remaining DEPLOY_BLACKOUT_WINDOWS planned)"

lemma append_calls: "keeps calls_ok (append_remedies w rs)"
  unfolding append_remedies_def by (intro keeps_intros) (auto simp: calls_ok_def)

lemma execute_one_calls:
  assumes "is_start r \<Longrightarrow> rerun_allowed (rem_unit r) \<and> \<not> 0 < blackout_remaining DEPLOY_BLACKOUT_WINDOWS (rem_ts r)"
  shows "keeps calls_ok (execute_one X r)"
proof (cases "is_start r")
  case True
  have "keeps calls_ok (start_unit X r)"
    unfolding start_unit_def by (intro keeps_intros) (use assms [OF True] in \<open>auto simp: calls_ok_def\<close>)
  then show ?thesis unfolding execute_one_def
    by (auto intro!: keeps_intros append_calls split: option.split)
next
  case False
  then show ?thesis by (auto simp: execute_one_def is_start_def intro!: keeps_intros)
qed

lemma execute_each_calls:
  "(\<And>r. r \<in> set rs \<Longrightarrow> is_start r \<Longrightarrow> rerun_allowed (rem_unit r) \<and> \<not> 0 < blackout_remaining DEPLOY_BLACKOUT_WINDOWS (rem_ts r))
   \<Longrightarrow> keeps calls_ok (execute_each X rs)"
proof (induction rs)
  case (Cons r rs)
  then show ?case by (auto intro!: keeps_intros execute_one_calls)
qed (auto intro!: keeps_intros)

lemma tick_calls: "keeps calls_ok (remediation_tick X w busy now keys)"
proof -
  have plan: "keeps calls_ok (execute_remediation X (plan_remediation busy (blackout_remaining DEPLOY_BLACKOUT_WINDOWS) now h keys))" for h
    unfolding execute_remediation_def
    using plan_key_start [OF plan_member]
    by (auto intro!: keeps_intros append_calls execute_each_calls)
  show ?thesis unfolding remediation_tick_def settle_remediation_def Let_def
    by (intro keeps_intros append_calls plan)
qed

lemma history_calls: "remedy_history s \<Longrightarrow> calls_ok s"
proof (induction rule: remedy_history.induct)
  case created
  then show ?case by (simp add: calls_ok_def)
next
  case (ticked s X w busy now keys)
  then show ?case using tick_calls tripleD surjective_pairing by metis
qed

text \<open>C35. Whatever sequence of reconcile ticks runs, and whatever the disk does to the ledger,
  auto-remediation requests the start of a unit only from the list of units that are safe to re-run,
  never one of the trading, collection or retraining units. No start is planned on a weekday
  between 08:30 and 09:40 (the opening exit) or between 15:10 and 15:43 (the closing decision and its
  orders). The request itself follows its plan by the time the \<open>systemctl\<close> calls before it take: when
  that is at most \<open>lag\<close>, it comes later than \<open>lag\<close> after the beginning of a window never inside it.\<close>

theorem remediation_never_touches_trading:
  assumes "remedy_history s" "(u, planned, called) \<in> set (rd_calls s)"
  shows "u \<in> set SAFE_RERUN_UNITS \<and> u \<notin> set FORBIDDEN_UNITS
    \<and> (valid_civil d \<and> \<not> is_weekend d \<longrightarrow>
         \<not> (instant d 30600 \<le> planned \<and> planned < instant d 34800)
       \<and> \<not> (instant d 54600 \<le> planned \<and> planned < instant d 56580)
       \<and> (planned \<le> called \<and> called \<le> planned + lag \<longrightarrow>
            \<not> (instant d 30600 + lag \<le> called \<and> called < instant d 34800)
          \<and> \<not> (instant d 54600 + lag \<le> called \<and> called < instant d 56580)))"
proof -
  have allowed: "rerun_allowed u" "\<not> 0 < blackout_remaining DEPLOY_BLACKOUT_WINDOWS planned"
    using history_calls [OF assms(1)] assms(2) by (auto simp: calls_ok_def)
  then show ?thesis using safe_units blackout_moment [of d planned] by (auto simp: rerun_allowed_def)
qed

text \<open>C36. Over any sequence of ticks, and across restarts because the counts come from the ledger
  on disk: the starts requested for an issue key on one Seoul day never exceed the daily budget of
  its rule, and any two of them are at least thirty minutes apart, in the time of their records. The
  key must be one that the ledger can read back: with U+0085 in it the record is torn when the file
  is split into lines. And no append may have been cut off on the way, as on a full disk: the rest
  of such a line swallows the record of the next start (\<open>torn_ledger_repeats_start\<close> below).\<close>

theorem remediation_within_budget:
  assumes "remedy_reachable s" "\<not> raw_separator key"
  shows "length (filter (\<lambda>(k, u, t). k = key \<and> kst_date t = d) (rd_starts s)) \<le> key_budget key
    \<and> sorted_wrt (\<lambda>(k, u, t) (k', u', t'). t + REMEDIATION_MIN_SPACING \<le> t') (filter (\<lambda>e. fst e = key) (rd_starts s))"
proof -
  let ?h = "ledger_of (rd_file s)" and ?mine = "filter (\<lambda>e. fst e = key) (rd_starts s)"
  have inv: "remedies_ok ?h" "subseq (filter (\<lambda>e. \<not> raw_separator (fst e)) (rd_starts s)) (start_events ?h)"
    using remedies_inv_reachable [OF assms(1)] by (simp_all add: remedies_inv_def)
  have "filter (\<lambda>e. fst e = key) (filter (\<lambda>e. \<not> raw_separator (fst e)) (rd_starts s)) = ?mine"
    using assms(2) by (auto intro: filter_cong)
  then have sub: "subseq ?mine (filter (\<lambda>e. fst e = key) (start_events ?h))"
    using subseq_filter [OF inv(2), of "\<lambda>e. fst e = key"] by simp
  have "length (filter (\<lambda>(k, u, t). k = key \<and> kst_date t = d) (start_events ?h)) = started_on ?h key d"
    by (simp add: start_events_def started_on_def is_start_def filter_map comp_def) (metis (mono_tags, lifting))
  moreover have "length (filter (\<lambda>(k, u, t). k = key \<and> kst_date t = d) ?mine)
      \<le> length (filter (\<lambda>(k, u, t). k = key \<and> kst_date t = d) (start_events ?h))"
    using subseq_order.trans [OF sub subseq_filter_left] by (intro list_emb_length [of "(=)"] subseq_filter)
  moreover have "filter (\<lambda>(k, u, t). k = key \<and> kst_date t = d) ?mine = filter (\<lambda>(k, u, t). k = key \<and> kst_date t = d) (rd_starts s)"
    by (auto intro: filter_cong)
  moreover have "started_on ?h key d \<le> key_budget key" using inv(1) unfolding remedies_ok_def by blast
  ultimately have count: "length (filter (\<lambda>(k, u, t). k = key \<and> kst_date t = d) (rd_starts s)) \<le> key_budget key" by simp
  have "sorted_wrt (\<lambda>(k, u, t) (k', u', t'). k = k' \<longrightarrow> t + REMEDIATION_MIN_SPACING \<le> t') (start_events ?h)"
    using inv(1) by (simp add: remedies_ok_def start_events_def sorted_wrt_map)
  then have "sorted_wrt (\<lambda>(k, u, t) (k', u', t'). k = k' \<longrightarrow> t + REMEDIATION_MIN_SPACING \<le> t') ?mine"
    by (rule sorted_wrt_sublist [OF subseq_order.trans [OF sub subseq_filter_left]])
  then have "sorted_wrt (\<lambda>(k, u, t) (k', u', t'). t + REMEDIATION_MIN_SPACING \<le> t') ?mine"
    by (rule sorted_wrt_mono_rel [rotated]) auto
  then show ?thesis using count by simp
qed

section \<open>A night of two failures\<close>

definition demo_systemd :: remedy_env where
  "demo_systemd = \<lparr>rv_run = (\<lambda>_ _. Inr (0, [])), rv_redact = id, rv_plan_write = Append_done,
     rv_fail_write = (\<lambda>_. Append_done), rv_called_at = (\<lambda>_. instant (2027, 3, 2) 43205), rv_failed_at = (\<lambda>_. 0)\<rparr>"

definition demo_failed :: string where "demo_failed = ''failed_unit:kca-backup''"

definition demo_tick :: "nat \<Rightarrow> remedy_desk \<Rightarrow> remedy_desk" where
  "demo_tick secs s = snd (remediation_tick demo_systemd Append_done (\<lambda>_ _. False) (instant (2027, 3, 2) secs) [demo_failed] s)"

definition demo_new_desk :: remedy_desk where
  "demo_new_desk = \<lparr>rd_file = No_remedies, rd_starts = [], rd_calls = []\<rparr>"

definition demo_start :: "nat \<Rightarrow> string \<times> string \<times> int" where
  "demo_start secs = (demo_failed, ''kca-backup.service'', instant (2027, 3, 2) secs)"

definition demo_record :: "nat \<Rightarrow> RemediationRecord" where
  "demo_record secs = \<lparr>rem_ts = instant (2027, 3, 2) secs, rem_key = demo_failed, rem_unit = ''kca-backup.service'',
    rem_attempt = 1, rem_outcome = REM_STARTED, rem_detail = ''rule=failed_unit:''\<rparr>"

lemma demo_match: "match_rule demo_failed = Some \<lparr>rule_prefix = ''failed_unit:'', rule_target = None, rule_budget = 2\<rparr>"
  by code_simp

lemma demo_unit:
  "derive_unit \<lparr>rule_prefix = ''failed_unit:'', rule_target = None, rule_budget = 2\<rparr> demo_failed = Some ''kca-backup.service''"
  "rerun_allowed ''kca-backup.service''" "is_unit_name ''kca-backup.service''"
  by code_simp+

lemma demo_plan:
  assumes "secs = 43200 \<or> secs = 43260 \<or> secs = 43320"
  shows "plan_remediation (\<lambda>_ _. False) (blackout_remaining DEPLOY_BLACKOUT_WINDOWS) (instant (2027, 3, 2) secs) [] [demo_failed]
    = [demo_record secs]"
proof -
  have "valid_civil (2027, 3, 2)" by code_simp
  moreover have "secs < 86400" using assms by auto
  ultimately have now: "kst_date (instant (2027, 3, 2) secs) = (2027, 3, 2)" "second_of_day (instant (2027, 3, 2) secs) = secs"
    by (rule instant_parts)+
  have clear: "blackout_remaining DEPLOY_BLACKOUT_WINDOWS (instant (2027, 3, 2) secs) = 0"
    unfolding blackout_remaining_def using assms by (auto simp: now blackout_windows)
  show ?thesis
    by (simp add: plan_remediation_def plan_key_def demo_match demo_unit attempts_today_def started_on_def latest_attempt_def
      clear List.map_filter_simps repeats_today_def LIFECYCLE_OUTCOMES_def unit_is_busy_def demo_record_def list_ex_iff)
qed

text \<open>A tick starts the unit of a failed backup when the ledger says nothing of it.\<close>

lemma demo_step:
  assumes "read_remediation_ledger (rd_file s) = Inr []" "secs = 43200 \<or> secs = 43260 \<or> secs = 43320"
  shows "rd_starts (demo_tick secs s) = rd_starts s @ [demo_start secs]"
    "rd_calls (demo_tick secs s) = rd_calls s @ [(''kca-backup.service'', instant (2027, 3, 2) secs, instant (2027, 3, 2) 43205)]"
    "rd_file (demo_tick secs s) = rd_file (snd (append_remedies Append_done [demo_record secs] s))"
  using assms(1)
  by (simp_all add: demo_tick_def demo_start_def remediation_tick_def settle_remediation_def
      List.map_filter_simps demo_plan [OF assms(2)] execute_remediation_def append_remedies_def execute_one_def start_unit_def
      systemctl_step_def demo_systemd_def demo_unit demo_record_def bnd_def ret_def lift_res_def modify_def guard_ok_def Let_def)

lemma demo_first: "rd_starts (demo_tick 43200 demo_new_desk) = [demo_start 43200]"
  using demo_step(1) [of demo_new_desk 43200] by (simp add: demo_new_desk_def read_remediation_ledger_def)

lemma demo_reached: "remedy_reachable (demo_tick 43200 demo_new_desk)"
  unfolding demo_tick_def demo_new_desk_def
  by (intro remedy_reachable.tick remedy_reachable.fresh) (simp_all add: whole_env_def whole_def demo_systemd_def)

text \<open>At noon of a Tuesday the backup is started, five seconds after the plan.\<close>

theorem remediation_never_touches_trading_witness:
  "remedy_history (demo_tick 43200 demo_new_desk)
   \<and> rd_calls (demo_tick 43200 demo_new_desk) = [(''kca-backup.service'', instant (2027, 3, 2) 43200, instant (2027, 3, 2) 43205)]
   \<and> ''kca-backup.service'' \<in> set SAFE_RERUN_UNITS \<and> ''kca-backup.service'' \<notin> set FORBIDDEN_UNITS
   \<and> \<not> (instant (2027, 3, 2) 30600 + 5 * 10 ^ 9 \<le> instant (2027, 3, 2) 43205 \<and> instant (2027, 3, 2) 43205 < instant (2027, 3, 2) 34800)"
proof -
  have calls: "rd_calls (demo_tick 43200 demo_new_desk)
      = [(''kca-backup.service'', instant (2027, 3, 2) 43200, instant (2027, 3, 2) 43205)]"
    using demo_step(2) [of demo_new_desk 43200] by (simp add: demo_new_desk_def read_remediation_ledger_def)
  have day: "valid_civil (2027, 3, 2)" by code_simp
  have weekday: "\<not> is_weekend (2027, 3, 2)" by (simp add: is_weekend_def weekday_def civil_eval)
  have lag: "instant (2027, 3, 2) 43200 \<le> instant (2027, 3, 2) 43205"
    "instant (2027, 3, 2) 43205 \<le> instant (2027, 3, 2) 43200 + 5 * 10 ^ 9" by (simp_all add: instant_def)
  have started: "(''kca-backup.service'', instant (2027, 3, 2) 43200, instant (2027, 3, 2) 43205)
      \<in> set (rd_calls (demo_tick 43200 demo_new_desk))" by (simp add: calls)
  note safe = remediation_never_touches_trading [OF reachable_history [OF demo_reached] started]
  show ?thesis
    using safe [of "(2027, 3, 2)" "5 * 10 ^ 9"] day weekday lag calls reachable_history [OF demo_reached] by blast
qed

text \<open>A ledger whose last line was cut off loses the record of the next start: the unit is started again
  a minute later, within the spacing.\<close>

theorem torn_ledger_repeats_start:
  "rd_starts (demo_tick 43320 (demo_tick 43260
     \<lparr>rd_file = Remedies (written_remedies (Append_torn 0 Tail_cut) [demo_record 43200]), rd_starts = [], rd_calls = []\<rparr>))
   = [demo_start 43260, demo_start 43320]"
proof -
  let ?s = "\<lparr>rd_file = Remedies (written_remedies (Append_torn 0 Tail_cut) [demo_record 43200]), rd_starts = [], rd_calls = []\<rparr>"
  have r: "read_remediation_ledger (rd_file ?s) = Inr []"
    by (simp add: read_remediation_ledger_def written_remedies_def readable_remedies_def List.map_filter_simps read_remedy_line_def)
  have f: "rd_file (demo_tick 43260 ?s) = Remedies [Bad_remedy_line]"
    using demo_step(3) [OF r, of 43260]
    by (simp add: append_remedies_def written_remedies_def add_remedy_lines_def bnd_def modify_def lift_res_def guard_ok_def)
      (simp add: is_open_line_def remedy_line_of_def)
  then have "read_remediation_ledger (rd_file (demo_tick 43260 ?s)) = Inr []"
    by (simp add: read_remediation_ledger_def readable_remedies_def List.map_filter_simps read_remedy_line_def)
  from demo_step(1) [OF this, of 43320] demo_step(1) [OF r, of 43260] show ?thesis by simp
qed

theorem remediation_within_budget_witness:
  "length (filter (\<lambda>(k, u, t). k = demo_failed \<and> kst_date t = (2027, 3, 2))
     (rd_starts (demo_tick 43200 demo_new_desk))) \<le> 2
   \<and> rd_starts (demo_tick 43200 demo_new_desk) = [demo_start 43200]"
proof -
  have "\<not> raw_separator demo_failed" by code_simp
  from remediation_within_budget [OF demo_reached this, of "(2027, 3, 2)"] show ?thesis
    by (simp add: demo_first key_budget_def demo_match)
qed

end
