(* ===== verification/Partition_Eviction.thy ===== *)
theory Partition_Eviction
  imports Civil_Date
begin

text \<open>
  \<open>src/data/partition_eviction.py\<close> and \<open>src/tools/partition_restore.py\<close>: history partitions
  that are certified by their offsite copy give way to a tombstone, and come back from the
  copy. The store maps the path of a partition relative to the history directory to its file
  and to its tombstone. A file is its digest, its size and what its table reads as. What
  \<open>rclone\<close> answers, the listing of a directory, the clock and what the disk does to each
  path are parameters, and so is what other processes did to the store until the eviction
  holds the lock of a path.
\<close>

section \<open>The store\<close>

record part_table =
  pt_rows :: int
  pt_symbols :: "string option list option"

record part_file =
  pf_md5 :: string
  pf_size :: int
  pf_readable :: bool
  pf_table :: "part_table res"

record tombstone =
  tomb_partition :: string
  tomb_remote_path :: string
  tomb_md5 :: string
  tomb_size :: int
  tomb_rows :: int
  tomb_symbols :: "string list"
  tomb_evicted_at :: int

datatype tomb_file = Tomb_unreadable | Tomb_malformed | Tomb tombstone

record partition_store =
  ps_files :: "string \<Rightarrow> part_file option"
  ps_tombs :: "string \<Rightarrow> tomb_file option"

definition read_tombstone :: "partition_store \<Rightarrow> string \<Rightarrow> tombstone option res" where
  "read_tombstone s p = (case ps_tombs s p of
     None \<Rightarrow> Inr None
   | Some Tomb_unreadable \<Rightarrow> Inl OSError
   | Some Tomb_malformed \<Rightarrow> Inl ValueError
   | Some (Tomb t) \<Rightarrow> Inr (Some t))"

definition is_evicted :: "partition_store \<Rightarrow> string \<Rightarrow> bool" where
  "is_evicted s p \<longleftrightarrow> ps_tombs s p \<noteq> None"

definition require_writable :: "partition_store \<Rightarrow> string \<Rightarrow> unit res" where
  "require_writable s p = guard_ok (ps_tombs s p = None) EvictedPartitionError"

text \<open>
  \<open>stored_symbols\<close>; \<open>null_text\<close> is the text of a null symbol. Reading the column alone fails
  when the table has none.
\<close>

definition stored_symbols :: "string \<Rightarrow> partition_store \<Rightarrow> string \<Rightarrow> string set res" where
  "stored_symbols null_text s p = (case ps_files s p of
     Some f \<Rightarrow> (case pf_table f of
       Inl e \<Rightarrow> Inl OSError
     | Inr tab \<Rightarrow> (case pt_symbols tab of
         None \<Rightarrow> Inl OSError
       | Some col \<Rightarrow> Inr (set (map (\<lambda>x. case x of None \<Rightarrow> null_text | Some v \<Rightarrow> v) col))))
   | None \<Rightarrow> (case read_tombstone s p of
       Inl e \<Rightarrow> if is_value_error e then Inl OSError else Inl e
     | Inr None \<Rightarrow> Inr {}
     | Inr (Some t) \<Rightarrow> Inr (set (tomb_symbols t))))"

section \<open>Retention\<close>

record eviction_profile =
  bars_retention_days :: int
  ticks_retention_days :: int
  sameday_retention_days :: int
  kis_minute_retention_days :: int
  tape_lookback_days :: int

record eviction_family =
  ef_name :: string
  ef_relroots :: "string list"
  ef_retention_days :: int

definition RETENTION_MARGIN_DAYS :: int where
  "RETENTION_MARGIN_DAYS = 7"

definition INTRADAY_KIS_ADJUSTED_1M_DIR_NAME :: string where
  "INTRADAY_KIS_ADJUSTED_1M_DIR_NAME = ''1m_kis_adjusted''"

definition eviction_families :: "eviction_profile \<Rightarrow> eviction_family list" where
  "eviction_families c =
     [\<lparr>ef_name = ''bars'', ef_relroots = [''intraday/1m'', ''intraday/'' @ INTRADAY_KIS_ADJUSTED_1M_DIR_NAME],
       ef_retention_days = bars_retention_days c\<rparr>,
      \<lparr>ef_name = ''ticks'', ef_relroots = [''intraday/ticks''], ef_retention_days = ticks_retention_days c\<rparr>,
      \<lparr>ef_name = ''sameday'', ef_relroots = [''orderbook'', ''auction_path'', ''research''],
       ef_retention_days = sameday_retention_days c\<rparr>]"

definition validate_retention :: "eviction_profile \<Rightarrow> unit res" where
  "validate_retention c = rforeach (\<lambda>(v, floor). guard_ok (\<not> v \<le> floor) ValueError)
     [(bars_retention_days c, kis_minute_retention_days c + RETENTION_MARGIN_DAYS),
      (ticks_retention_days c, tape_lookback_days c + RETENTION_MARGIN_DAYS),
      (sameday_retention_days c, tape_lookback_days c + RETENTION_MARGIN_DAYS)]"

section \<open>The remote listing\<close>

definition line_break :: "char \<Rightarrow> bool" where
  "line_break c \<longleftrightarrow> c \<in> {CHR 0x0A, CHR 0x0B, CHR 0x0C, CHR 0x0D, CHR 0x1C, CHR 0x1D, CHR 0x1E, CHR 0x85}"

function split_lines :: "string \<Rightarrow> string \<Rightarrow> string list" where
  "split_lines acc [] = (if acc = [] then [] else [rev acc])"
| "split_lines acc (c # cs) =
     (if c = CHR 0x0D \<and> take 1 cs = [CHR 0x0A] then rev acc # split_lines [] (drop 1 cs)
      else if line_break c then rev acc # split_lines [] cs
      else split_lines (c # acc) cs)"
  by pat_completeness auto

termination
  by (relation "measure (length \<circ> snd)") auto

definition is_hex :: "char \<Rightarrow> bool" where
  "is_hex c \<longleftrightarrow> is_digit c \<or> (97 \<le> (of_char c :: nat) \<and> (of_char c :: nat) \<le> 102) \<or> (65 \<le> (of_char c :: nat) \<and> (of_char c :: nat) \<le> 70)"

definition hex_lower :: "char \<Rightarrow> char" where
  "hex_lower c = (if 65 \<le> (of_char c :: nat) \<and> (of_char c :: nat) \<le> 70 then char_of ((of_char c :: nat) + 32) else c)"

record remote_month =
  rm_md5 :: "(string \<times> string) list"
  rm_size :: "(string \<times> int) list"

text \<open>A stripped line that is 32 hex digits, white space and a name; any other names a file without a digest.\<close>

definition md5_line :: "string \<Rightarrow> string \<times> string" where
  "md5_line l = (let digest = take 32 l; after = drop 32 l; name = dropWhile py_isspace after in
     if length digest = 32 \<and> list_all is_hex digest \<and> name \<noteq> after then (name, map hex_lower digest) else (l, []))"

definition parse_md5sum :: "string \<Rightarrow> (string \<times> string) list" where
  "parse_md5sum stdout = fold (\<lambda>line out. let stripped = py_strip line in
     if stripped = [] then out else case md5_line stripped of (name, digest) \<Rightarrow> dset name digest out)
     (split_lines [] stdout) []"

definition parse_lsf :: "string \<Rightarrow> (string \<times> int) list" where
  "parse_lsf stdout = fold (\<lambda>line out. let l = py_strip line; digits = takeWhile (\<lambda>c. c \<noteq> CHR '';'') l; rest = drop (length digits) l in
     if rest \<noteq> [] \<and> digits \<noteq> [] \<and> list_all is_digit digits then dset (drop 1 rest) (int (digits_val digits)) out else out)
     (split_lines [] stdout) []"

definition RCLONE_EXIT_DIRECTORY_NOT_FOUND :: int where
  "RCLONE_EXIT_DIRECTORY_NOT_FOUND = 3"

text \<open>\<open>run\<close> is what \<open>rclone\<close> answers: none when it raises, else the exit code and the output.\<close>

definition list_remote_month :: "(string list \<Rightarrow> (int \<times> string) option) \<Rightarrow> string \<Rightarrow> remote_month option" where
  "list_remote_month run dir = (case run [''md5sum'', dir] of
     None \<Rightarrow> None
   | Some (code, out) \<Rightarrow> (case run [''lsf'', ''--format'', ''sp'', dir] of
       None \<Rightarrow> None
     | Some (code', out') \<Rightarrow>
         if code = RCLONE_EXIT_DIRECTORY_NOT_FOUND \<or> code' = RCLONE_EXIT_DIRECTORY_NOT_FOUND
         then Some \<lparr>rm_md5 = [], rm_size = []\<rparr>
         else if code \<noteq> 0 \<or> code' \<noteq> 0 then None
         else Some \<lparr>rm_md5 = parse_md5sum out, rm_size = parse_lsf out'\<rparr>))"

section \<open>Eviction\<close>

datatype keep_reason = REASON_REMOTE_MISSING | REASON_REMOTE_MISMATCH | REASON_REMOTE_UNVERIFIABLE
  | REASON_TOMBSTONE_CONFLICT | REASON_LOCAL_UNREADABLE | REASON_CHANGED

record eviction_env =
  ev_run :: "string list \<Rightarrow> (int \<times> string) option"
  ev_listing :: "string \<Rightarrow> (string \<times> string) list option"
  ev_late :: "string \<Rightarrow> bool"
  ev_writers :: "string \<Rightarrow> partition_store \<Rightarrow> partition_store"
  ev_lock :: "string \<Rightarrow> bool"
  ev_tomb_replaced :: "string \<Rightarrow> bool"
  ev_tomb_synced :: "string \<Rightarrow> bool"
  ev_unlinked :: "string \<Rightarrow> bool"
  ev_now :: "string \<Rightarrow> int"
  ev_remote_base :: string
  ev_dry_run :: bool
  ev_max_files :: nat

record eviction_run =
  er_evicted :: "string list"
  er_kept :: "(string \<times> keep_reason) list"
  er_bytes :: int
  er_months :: "(string \<times> remote_month option) list"
  er_stopped :: bool
  er_capped :: bool

definition path_name :: "string \<Rightarrow> string" where
  "path_name p = rev (takeWhile (\<lambda>c. c \<noteq> CHR ''/'') (rev p))"

definition path_parent :: "string \<Rightarrow> string" where
  "path_parent p = rev (drop 1 (dropWhile (\<lambda>c. c \<noteq> CHR ''/'') (rev p)))"

text \<open>\<open>_candidates\<close> on the sorted regular files below a root, each with its stem.\<close>

definition candidates :: "(string \<times> string) list \<Rightarrow> int \<Rightarrow> string list" where
  "candidates listing cutoff = map fst (filter (\<lambda>(p, stem). case parse_iso stem of
     None \<Rightarrow> False | Some c \<Rightarrow> int (toordinal c) < cutoff) listing)"

definition read_local :: "partition_store \<Rightarrow> string \<Rightarrow> (string \<times> int) res" where
  "read_local s p = (case ps_files s p of
     None \<Rightarrow> Inl FileNotFoundError
   | Some f \<Rightarrow> if pf_readable f then Inr (pf_md5 f, pf_size f) else Inl OSError)"

definition read_rows_and_symbols :: "partition_store \<Rightarrow> string \<Rightarrow> (int \<times> string list) res" where
  "read_rows_and_symbols s p = (case ps_files s p of
     None \<Rightarrow> Inl FileNotFoundError
   | Some f \<Rightarrow> rbind (pf_table f) (\<lambda>tab. Inr (pt_rows tab, (case pt_symbols tab of
       None \<Rightarrow> []
     | Some col \<Rightarrow> sort (remdups (List.map_filter (\<lambda>x. x) col))))))"

definition write_tombstone :: "eviction_env \<Rightarrow> string \<Rightarrow> tombstone \<Rightarrow> (partition_store, unit) eff" where
  "write_tombstone X p t =
     bnd (lift_res (\<lambda>_. guard_ok (ev_tomb_replaced X p) OSError)) (\<lambda>_.
     bnd (modify (\<lambda>s. s\<lparr>ps_tombs := (ps_tombs s)(p \<mapsto> Tomb t)\<rparr>)) (\<lambda>_.
     lift_res (\<lambda>_. guard_ok (ev_tomb_synced X p) OSError)))"

definition evict_locked ::
    "eviction_env \<Rightarrow> string \<Rightarrow> tombstone option \<Rightarrow> string \<Rightarrow> int \<Rightarrow> (partition_store, unit) eff" where
  "evict_locked X p tomb md5 nbytes =
     bnd (if tomb = None then
            bnd (lift_res (\<lambda>s. read_rows_and_symbols s p)) (\<lambda>(rows, symbols).
            write_tombstone X p \<lparr>tomb_partition = p, tomb_remote_path = ev_remote_base X @ ''/'' @ p, tomb_md5 = md5,
              tomb_size = nbytes, tomb_rows = rows, tomb_symbols = symbols, tomb_evicted_at = ev_now X p\<rparr>)
          else ret ()) (\<lambda>_.
     bnd (lift_res (\<lambda>s. guard_ok (ev_unlinked X p) OSError)) (\<lambda>_.
     modify (\<lambda>s. s\<lparr>ps_files := (ps_files s)(p := None)\<rparr>)))"

text \<open>The removal under the lock; the reason when the partition is kept.\<close>

definition remove_partition ::
    "eviction_env \<Rightarrow> string \<Rightarrow> tombstone option \<Rightarrow> string \<Rightarrow> int \<Rightarrow> (partition_store, keep_reason option) eff" where
  "remove_partition X p tomb md5 nbytes = catch_when is_os_error
     (bnd (modify (ev_writers X p)) (\<lambda>_.
      bnd (lift_res (\<lambda>_. guard_ok (ev_lock X p) TimeoutError)) (\<lambda>_.
      bnd (lift_res (\<lambda>s. read_local s p)) (\<lambda>current.
      if current \<noteq> (md5, nbytes) then ret (Some REASON_CHANGED)
      else bnd (evict_locked X p tomb md5 nbytes) (\<lambda>_. ret None)))))
     (\<lambda>_. ret (Some REASON_LOCAL_UNREADABLE))"

text \<open>The digest and nbytes of the month of the partition; each month is listed once.\<close>

definition month_of :: "eviction_env \<Rightarrow> string \<Rightarrow> eviction_run \<Rightarrow> remote_month option \<times> eviction_run" where
  "month_of X p r = (case map_of (er_months r) (path_parent p) of
     Some m \<Rightarrow> (m, r)
   | None \<Rightarrow> let m = list_remote_month (ev_run X) (ev_remote_base X @ ''/'' @ path_parent p)
            in (m, r\<lparr>er_months := er_months r @ [(path_parent p, m)]\<rparr>))"

definition remote_verdict :: "remote_month option \<Rightarrow> string \<Rightarrow> string \<Rightarrow> int \<Rightarrow> keep_reason option" where
  "remote_verdict month name md5 nbytes = (case month of
     None \<Rightarrow> Some REASON_REMOTE_UNVERIFIABLE
   | Some m \<Rightarrow> (case (map_of (rm_md5 m) name, map_of (rm_size m) name) of
       (Some d, Some n) \<Rightarrow>
         if d = [] then Some REASON_REMOTE_UNVERIFIABLE
         else if d \<noteq> md5 \<or> n \<noteq> nbytes then Some REASON_REMOTE_MISMATCH
         else None
     | _ \<Rightarrow> Some REASON_REMOTE_MISSING))"

definition keep :: "string \<Rightarrow> keep_reason \<Rightarrow> eviction_run \<Rightarrow> eviction_run" where
  "keep p reason r = r\<lparr>er_kept := er_kept r @ [(p, reason)]\<rparr>"

text \<open>The reason to keep, from the tombstone or else from the remote listing.\<close>

definition eviction_verdict ::
    "eviction_env \<Rightarrow> string \<Rightarrow> string \<Rightarrow> int \<Rightarrow> tombstone option \<Rightarrow> eviction_run \<Rightarrow> keep_reason option \<times> eviction_run" where
  "eviction_verdict X p md5 nbytes tomb r = (case tomb of
     Some t \<Rightarrow> (if tomb_md5 t \<noteq> md5 then Some REASON_TOMBSTONE_CONFLICT else None, r)
   | None \<Rightarrow> (case month_of X p r of (m, r') \<Rightarrow> (remote_verdict m (path_name p) md5 nbytes, r')))"

definition evict_candidate :: "eviction_env \<Rightarrow> string \<Rightarrow> eviction_run \<Rightarrow> (partition_store, eviction_run) eff" where
  "evict_candidate X p r =
     bnd (gets (\<lambda>s. rbind (read_local s p) (\<lambda>local. rbind (read_tombstone s p) (\<lambda>tomb. Inr (local, tomb))))) (\<lambda>seen.
     case seen of
       Inl e \<Rightarrow> if is_os_error e \<or> is_value_error e
         then bnd (gets (\<lambda>s. is_evicted s p)) (\<lambda>tombed.
              ret (keep p (if tombed then REASON_TOMBSTONE_CONFLICT else REASON_LOCAL_UNREADABLE) r))
         else throw e
     | Inr ((md5, nbytes), tomb) \<Rightarrow>
         let (verdict, r') = eviction_verdict X p md5 nbytes tomb r
         in case verdict of
              Some reason \<Rightarrow> ret (keep p reason r')
            | None \<Rightarrow>
                bnd (if ev_dry_run X then ret None else remove_partition X p tomb md5 nbytes) (\<lambda>failed.
                case failed of
                  Some reason \<Rightarrow> ret (keep p reason r')
                | None \<Rightarrow> ret (r'\<lparr>er_evicted := er_evicted r' @ [p], er_bytes := er_bytes r' + nbytes\<rparr>)))"

fun evict_candidates :: "eviction_env \<Rightarrow> string list \<Rightarrow> eviction_run \<Rightarrow> (partition_store, eviction_run) eff" where
  "evict_candidates X [] r = ret r"
| "evict_candidates X (p # ps) r =
     (if ev_late X p then ret (r\<lparr>er_stopped := True\<rparr>)
      else if ev_max_files X \<le> length (er_evicted r) then ret (r\<lparr>er_capped := True\<rparr>)
      else bnd (evict_candidate X p r) (evict_candidates X ps))"

fun evict_roots :: "eviction_env \<Rightarrow> (int \<times> string) list \<Rightarrow> eviction_run \<Rightarrow> (partition_store, eviction_run) eff" where
  "evict_roots X [] r = ret r"
| "evict_roots X ((cutoff, relroot) # roots) r =
     (case ev_listing X relroot of
        None \<Rightarrow> evict_roots X roots r
      | Some listing \<Rightarrow>
          if er_stopped r \<or> er_capped r then evict_roots X roots r
          else bnd (evict_candidates X (candidates listing cutoff) r) (evict_roots X roots))"

definition family_roots :: "civil \<Rightarrow> eviction_family list \<Rightarrow> (int \<times> string) list" where
  "family_roots today families =
     concat (map (\<lambda>f. map (\<lambda>root. (int (toordinal today) - ef_retention_days f, root)) (ef_relroots f)) families)"

definition no_evictions :: eviction_run where
  "no_evictions = \<lparr>er_evicted = [], er_kept = [], er_bytes = 0, er_months = [], er_stopped = False, er_capped = False\<rparr>"

definition evict_verified_partitions ::
    "eviction_env \<Rightarrow> civil \<Rightarrow> eviction_family list \<Rightarrow> (partition_store, eviction_run) eff" where
  "evict_verified_partitions X today families = evict_roots X (family_roots today families) no_evictions"

section \<open>Restore\<close>

text \<open>
  \<open>rs_copy\<close>: what \<open>rclone copyto\<close> of a remote path does: none when it raises, else the exit
  code and the temporary file it left.
\<close>

record restore_env =
  rs_copy :: "string \<Rightarrow> (int \<times> part_file option) option"
  rs_replaced :: "string \<Rightarrow> bool"
  rs_untombed :: "string \<Rightarrow> bool"
  rs_remote_base :: string
  rs_dry_run :: bool

definition fetched :: "restore_env \<Rightarrow> tombstone \<Rightarrow> part_file option" where
  "fetched R t = (case rs_copy R (rs_remote_base R @ ''/'' @ tomb_partition t) of
     Some (code, Some f) \<Rightarrow>
       if code = 0 \<and> pf_size f = tomb_size t \<and> pf_readable f \<and> pf_md5 f = tomb_md5 t then Some f else None
   | _ \<Rightarrow> None)"

fun restore_each :: "restore_env \<Rightarrow> string list \<Rightarrow> string list \<Rightarrow> string list \<Rightarrow> (partition_store, string list \<times> string list) eff" where
  "restore_each R [] restored failed = ret (restored, failed)"
| "restore_each R (p # ps) restored failed =
     bnd (gets (\<lambda>s. (read_tombstone s p, ps_files s p))) (\<lambda>(tomb, file).
     case tomb of
       Inl e \<Rightarrow> if is_value_error e then restore_each R ps restored (failed @ [p]) else throw e
     | Inr None \<Rightarrow> restore_each R ps restored (failed @ [p])
     | Inr (Some t) \<Rightarrow>
         if file \<noteq> None then restore_each R ps restored (failed @ [p])
         else if rs_dry_run R then restore_each R ps (restored @ [p]) failed
         else case fetched R t of
           None \<Rightarrow> restore_each R ps restored (failed @ [p])
         | Some f \<Rightarrow>
             if \<not> rs_replaced R p then restore_each R ps restored (failed @ [p])
             else bnd (modify (\<lambda>s. s\<lparr>ps_files := (ps_files s)(p \<mapsto> f)\<rparr>)) (\<lambda>_.
                  bnd (lift_res (\<lambda>_. guard_ok (rs_untombed R p) OSError)) (\<lambda>_.
                  bnd (modify (\<lambda>s. s\<lparr>ps_tombs := (ps_tombs s)(p := None)\<rparr>)) (\<lambda>_.
                  restore_each R ps (restored @ [p]) failed))))"

definition restore_partitions :: "restore_env \<Rightarrow> string list \<Rightarrow> (partition_store, string list) eff" where
  "restore_partitions R relpaths =
     bnd (restore_each R relpaths [] []) (\<lambda>(restored, failed).
     if failed \<noteq> [] then throw RuntimeError else ret restored)"

end
