(* ===== verification/Eviction_Properties.thy ===== *)
theory Eviction_Properties
  imports Partition_Eviction
begin

text \<open>
  No history is lost to eviction: what leaves the store left a tombstone of its own content,
  certified by the remote listing of its month; only partitions older than every writer's
  horizon go; and a restore brings the same content back.
\<close>

section \<open>What one candidate can do\<close>

definition lists_copy :: "eviction_env \<Rightarrow> string \<Rightarrow> string \<Rightarrow> int \<Rightarrow> bool" where
  "lists_copy X p md5 n \<longleftrightarrow> (\<exists>m. list_remote_month (ev_run X) (ev_remote_base X @ ''/'' @ path_parent p) = Some m
     \<and> map_of (rm_md5 m) (path_name p) = Some md5 \<and> map_of (rm_size m) (path_name p) = Some n)"

text \<open>The tombstone tells the content of the file and the remote listing shows it.\<close>

definition vouches :: "eviction_env \<Rightarrow> string \<Rightarrow> tombstone \<Rightarrow> part_file \<Rightarrow> bool" where
  "vouches X p t f \<longleftrightarrow> tomb_partition t = p \<and> tomb_md5 t = pf_md5 f \<and> tomb_size t = pf_size f \<and> lists_copy X p (pf_md5 f) (pf_size f)
     \<and> (\<exists>tab. pf_table f = Inr tab \<and> (\<forall>col. pt_symbols tab = Some col \<longrightarrow> set (tomb_symbols t) = {v. Some v \<in> set col}))"

lemma remote_verdict_None:
  "remote_verdict month name md5 n = None \<longleftrightarrow>
    (\<exists>m. month = Some m \<and> map_of (rm_md5 m) name = Some md5 \<and> map_of (rm_size m) name = Some n \<and> md5 \<noteq> [])"
  by (auto simp: remote_verdict_def split: option.splits)

definition months_ok :: "eviction_env \<Rightarrow> eviction_run \<Rightarrow> bool" where
  "months_ok X r \<longleftrightarrow> (\<forall>(d, m)\<in>set (er_months r). m = list_remote_month (ev_run X) (ev_remote_base X @ ''/'' @ d))"

lemma months_ok_frame [simp]:
  "months_ok X (keep p reason r) = months_ok X r" "er_evicted (keep p reason r) = er_evicted r"
  "months_ok X (r\<lparr>er_evicted := ps, er_bytes := n\<rparr>) = months_ok X r"
  by (simp_all add: months_ok_def keep_def)

lemma month_of_ok:
  assumes "months_ok X r" "month_of X p r = (m, r')"
  shows "m = list_remote_month (ev_run X) (ev_remote_base X @ ''/'' @ path_parent p)" "months_ok X r'"
    "er_evicted r' = er_evicted r" "er_bytes r' = er_bytes r"
  using assms by (auto simp: month_of_def months_ok_def Let_def dest: map_of_SomeD split: option.splits)

text \<open>What happened to the store: nothing but the other writers, a tombstone, the removal, or both.\<close>

datatype eviction_effect = Kept | Entombed part_file tombstone | Removed part_file tombstone | Finished part_file tombstone

fun effect_on :: "string \<Rightarrow> eviction_effect \<Rightarrow> partition_store \<Rightarrow> partition_store" where
  "effect_on p Kept s = s"
| "effect_on p (Entombed f t) s = s\<lparr>ps_tombs := (ps_tombs s)(p \<mapsto> Tomb t)\<rparr>"
| "effect_on p (Removed f t) s = s\<lparr>ps_tombs := (ps_tombs s)(p \<mapsto> Tomb t), ps_files := (ps_files s)(p := None)\<rparr>"
| "effect_on p (Finished f t) s = s\<lparr>ps_files := (ps_files s)(p := None)\<rparr>"

fun effect_ok :: "eviction_env \<Rightarrow> string \<Rightarrow> tombstone option \<Rightarrow> partition_store \<Rightarrow> eviction_effect \<Rightarrow> bool" where
  "effect_ok X p tomb s Kept \<longleftrightarrow> True"
| "effect_ok X p tomb s (Entombed f t) \<longleftrightarrow> tomb = None \<and> ps_files s p = Some f \<and> vouches X p t f"
| "effect_ok X p tomb s (Removed f t) \<longleftrightarrow> tomb = None \<and> ps_files s p = Some f \<and> vouches X p t f"
| "effect_ok X p tomb s (Finished f t) \<longleftrightarrow> tomb = Some t \<and> ps_files s p = Some f \<and> tomb_md5 t = pf_md5 f"

fun removes :: "eviction_effect \<Rightarrow> bool" where
  "removes (Removed f t) \<longleftrightarrow> True"
| "removes (Finished f t) \<longleftrightarrow> True"
| "removes _ \<longleftrightarrow> False"

lemma read_localD: "read_local s p = Inr (md5, n) \<Longrightarrow> \<exists>f. ps_files s p = Some f \<and> pf_md5 f = md5 \<and> pf_size f = n"
  by (auto simp: read_local_def split: option.splits if_splits)

lemma present_values: "set (List.map_filter (\<lambda>x. x) col) = {v. Some v \<in> set col}"
  by (induction col) (auto simp: List.map_filter_simps split: option.splits)

lemma evict_locked_effect:
  assumes run: "evict_locked X p tomb md5 n s = (q, s')"
    and f: "ps_files s p = Some f" "pf_md5 f = md5" "pf_size f = n"
    and cert: "tomb = None \<Longrightarrow> lists_copy X p md5 n" "\<And>t. tomb = Some t \<Longrightarrow> tomb_md5 t = md5"
  shows "\<exists>k. s' = effect_on p k s \<and> effect_ok X p tomb s k \<and> (removes k \<longleftrightarrow> q = Inr ())"
proof (cases tomb)
  case (Some t)
  then show ?thesis using run f cert(2)
    by (cases "ev_unlinked X p")
      (auto simp: evict_locked_def eff_simps guard_ok_def intro: exI [of _ Kept] exI [of _ "Finished f t"])
next
  case None
  show ?thesis
  proof (cases "read_rows_and_symbols s p")
    case (Inl e)
    then show ?thesis using run None by (auto simp: evict_locked_def eff_simps bnd_def lift_res_def intro: exI [of _ Kept])
  next
    case (Inr rs)
    obtain rows syms where rs: "rs = (rows, syms)" by fastforce
    let ?t = "\<lparr>tomb_partition = p, tomb_remote_path = ev_remote_base X @ ''/'' @ p, tomb_md5 = md5,
              tomb_size = n, tomb_rows = rows, tomb_symbols = syms, tomb_evicted_at = ev_now X p\<rparr>"
    obtain tab where tab: "pf_table f = Inr tab" "syms = (case pt_symbols tab of None \<Rightarrow> []
       | Some col \<Rightarrow> sort (remdups (List.map_filter (\<lambda>x. x) col)))"
      using Inr rs f(1) by (auto simp: read_rows_and_symbols_def)
    have v: "vouches X p ?t f"
      using tab f cert(1) None by (auto simp: vouches_def present_values)
    have eqs: "evict_locked X p tomb md5 n s =
       (if \<not> ev_tomb_replaced X p then (Inl OSError, s)
        else if \<not> ev_tomb_synced X p then (Inl OSError, effect_on p (Entombed f ?t) s)
        else if \<not> ev_unlinked X p then (Inl OSError, effect_on p (Entombed f ?t) s)
        else (Inr (), effect_on p (Removed f ?t) s))"
      using None Inr rs by (simp add: evict_locked_def write_tombstone_def bnd_def lift_res_def modify_def guard_ok_def)
    then show ?thesis using run v f(1) None
      by (auto split: if_splits intro: exI [of _ Kept] exI [of _ "Entombed f ?t"] exI [of _ "Removed f ?t"])
  qed
qed

lemma remove_partition_effect:
  assumes run: "remove_partition X p tomb md5 n s = (q, s')"
    and cert: "tomb = None \<Longrightarrow> lists_copy X p md5 n" "\<And>t. tomb = Some t \<Longrightarrow> tomb_md5 t = md5"
  shows "\<exists>k. s' = effect_on p k (ev_writers X p s) \<and> effect_ok X p tomb (ev_writers X p s) k \<and> (removes k \<longleftrightarrow> q = Inr None)"
proof -
  let ?s = "ev_writers X p s"
  show ?thesis
  proof (cases "ev_lock X p \<and> read_local ?s p = Inr (md5, n)")
    case False
    then have "s' = ?s \<and> q \<noteq> Inr None"
      using run by (auto simp: remove_partition_def catch_when_def bnd_def lift_res_def modify_def guard_ok_def ret_def
        split: if_splits sum.splits prod.splits)
    then show ?thesis by (intro exI [of _ Kept]) simp
  next
    case True
    obtain q1 s1 where e: "evict_locked X p tomb md5 n ?s = (q1, s1)" by fastforce
    obtain f where f: "ps_files ?s p = Some f" "pf_md5 f = md5" "pf_size f = n" using True read_localD by blast
    obtain k where k: "s1 = effect_on p k ?s" "effect_ok X p tomb ?s k" "removes k \<longleftrightarrow> q1 = Inr ()"
      using evict_locked_effect [OF e f cert] by blast
    have "s' = s1 \<and> (q = Inr None \<longleftrightarrow> q1 = Inr ())"
      using run True e by (auto simp: remove_partition_def catch_when_def bnd_def lift_res_def modify_def guard_ok_def ret_def
        split: if_splits sum.splits prod.splits)
    then show ?thesis using k by blast
  qed
qed

text \<open>The run either stays as it was but for a reason to keep, or counts the partition.\<close>

lemma evict_candidate_effect:
  assumes run: "evict_candidate X p r s = (q, s')" and months: "months_ok X r"
  shows "(s' = s \<and> (\<forall>r'. q = Inr r' \<longrightarrow> months_ok X r' \<and> (er_evicted r' = er_evicted r \<or>
        ev_dry_run X \<and> er_evicted r' = er_evicted r @ [p])))
    \<or> (\<exists>k tomb. read_tombstone s p = Inr tomb \<and> \<not> ev_dry_run X \<and> s' = effect_on p k (ev_writers X p s)
        \<and> effect_ok X p tomb (ev_writers X p s) k
        \<and> (\<forall>r'. q = Inr r' \<longrightarrow> months_ok X r' \<and> er_evicted r' = er_evicted r @ (if removes k then [p] else []))
        \<and> (removes k \<longrightarrow> (\<exists>r'. q = Inr r')))"
proof (cases "rbind (read_local s p) (\<lambda>local. rbind (read_tombstone s p) (\<lambda>tomb. Inr (local, tomb)))")
  case (Inl e)
  then show ?thesis using run months
    by (auto simp: evict_candidate_def eff_simps keep_def months_ok_def split: if_splits)
next
  case (Inr seen)
  obtain md5 n tomb where seen: "seen = ((md5, n), tomb)" by (cases seen) auto
  have tomb: "read_tombstone s p = Inr tomb" and local: "read_local s p = Inr (md5, n)" using Inr seen by auto
  obtain verdict r1 where v: "eviction_verdict X p md5 n tomb r = (verdict, r1)"
    by fastforce
  have r1: "months_ok X r1" "er_evicted r1 = er_evicted r"
    using v months month_of_ok [OF months] by (auto simp: eviction_verdict_def split: option.splits prod.splits)
  have cert: "verdict = None \<Longrightarrow> tomb = None \<Longrightarrow> lists_copy X p md5 n"
    "\<And>t. verdict = None \<Longrightarrow> tomb = Some t \<Longrightarrow> tomb_md5 t = md5"
    using v month_of_ok(1) [OF months]
    by (auto simp: eviction_verdict_def lists_copy_def remote_verdict_None split: option.splits prod.splits if_splits)
  show ?thesis
  proof (cases verdict)
    case (Some reason)
    then show ?thesis using run Inr seen v r1
      by (auto simp: evict_candidate_def eff_simps keep_def months_ok_def Let_def)
  next
    case None
    show ?thesis
    proof (cases "ev_dry_run X")
      case True
      then show ?thesis using run Inr seen v r1 None
        by (auto simp: evict_candidate_def eff_simps keep_def months_ok_def Let_def)
    next
      case False
      obtain q1 s1 where e: "remove_partition X p tomb md5 n s = (q1, s1)" by fastforce
      obtain k where k: "s1 = effect_on p k (ev_writers X p s)" "effect_ok X p tomb (ev_writers X p s) k"
        "removes k \<longleftrightarrow> q1 = Inr None"
        using remove_partition_effect [OF e] cert None by blast
      have "evict_candidate X p r s = (case q1 of Inl e \<Rightarrow> (Inl e, s1)
          | Inr None \<Rightarrow> (Inr (r1\<lparr>er_evicted := er_evicted r1 @ [p], er_bytes := er_bytes r1 + n\<rparr>), s1)
          | Inr (Some reason) \<Rightarrow> (Inr (keep p reason r1), s1))"
        using e unfolding evict_candidate_def bnd_def gets_def ret_def
        by (cases q1) (simp_all add: local tomb v None Let_def False split: option.split)
      then have "s' = s1 \<and> (\<forall>r'. q = Inr r' \<longrightarrow> months_ok X r' \<and> er_evicted r' = er_evicted r @ (if removes k then [p] else []))
          \<and> (removes k \<longrightarrow> (\<exists>r'. q = Inr r'))"
        using run r1 unfolding k(3) by (cases q1) (auto split: option.splits)
      then show ?thesis using k(1,2) tomb False by blast
    qed
  qed
qed

section \<open>The whole run\<close>

lemma evict_candidates_invariant:
  assumes step: "\<And>p r s q s'. p \<in> set ps \<Longrightarrow> I r s \<Longrightarrow> evict_candidate X p r s = (q, s') \<Longrightarrow> (\<exists>r'. I r' s') \<and> (\<forall>r'. q = Inr r' \<longrightarrow> I r' s')"
    and frame: "\<And>r s. I r s \<Longrightarrow> I (r\<lparr>er_stopped := True\<rparr>) s \<and> I (r\<lparr>er_capped := True\<rparr>) s"
    and run: "evict_candidates X ps r s = (q, s')" and I: "I r s"
  shows "(\<exists>r'. I r' s') \<and> (\<forall>r'. q = Inr r' \<longrightarrow> I r' s')"
  using run I step
proof (induction ps arbitrary: r s)
  case Nil
  then show ?case by (auto simp: eff_simps)
next
  case (Cons p ps)
  have IH: "evict_candidates X ps r s = (q, s') \<Longrightarrow> I r s \<Longrightarrow> (\<exists>r'. I r' s') \<and> (\<forall>r'. q = Inr r' \<longrightarrow> I r' s')" for r s
    by (rule Cons.IH, assumption, assumption, rule Cons.prems(3) [OF list.set_intros(2)])
  show ?case
  proof (cases "ev_late X p \<or> ev_max_files X \<le> length (er_evicted r)")
    case True
    then show ?thesis using Cons.prems(1,2) frame by (auto simp: eff_simps split: if_splits)
  next
    case False
    obtain q1 s1 where e: "evict_candidate X p r s = (q1, s1)" by fastforce
    have one: "(\<exists>r'. I r' s1) \<and> (\<forall>r'. q1 = Inr r' \<longrightarrow> I r' s1)" using Cons.prems(3) [OF _ Cons.prems(2) e] by simp
    have "bnd (evict_candidate X p r) (evict_candidates X ps) s = (q, s')" using Cons.prems(1) False by simp
    then show ?thesis using one e IH by (cases q1) (auto simp: bnd_def)
  qed
qed

lemma evict_roots_invariant:
  assumes step: "\<And>cutoff root l p r s q s'. (cutoff, root) \<in> set roots \<Longrightarrow> ev_listing X root = Some l \<Longrightarrow> p \<in> set (candidates l cutoff) \<Longrightarrow>
      I r s \<Longrightarrow> evict_candidate X p r s = (q, s') \<Longrightarrow> (\<exists>r'. I r' s') \<and> (\<forall>r'. q = Inr r' \<longrightarrow> I r' s')"
    and frame: "\<And>r s. I r s \<Longrightarrow> I (r\<lparr>er_stopped := True\<rparr>) s \<and> I (r\<lparr>er_capped := True\<rparr>) s"
    and run: "evict_roots X roots r s = (q, s')" and I: "I r s"
  shows "(\<exists>r'. I r' s') \<and> (\<forall>r'. q = Inr r' \<longrightarrow> I r' s')"
  using run I step
proof (induction roots arbitrary: r s)
  case Nil
  then show ?case by (auto simp: eff_simps)
next
  case (Cons cr roots)
  obtain cutoff root where cr: "cr = (cutoff, root)" by fastforce
  have IH: "evict_roots X roots r s = (q, s') \<Longrightarrow> I r s \<Longrightarrow> (\<exists>r'. I r' s') \<and> (\<forall>r'. q = Inr r' \<longrightarrow> I r' s')" for r s
    by (rule Cons.IH, assumption, assumption, rule Cons.prems(3) [OF list.set_intros(2)])
  show ?case
  proof (cases "ev_listing X root = None \<or> er_stopped r \<or> er_capped r")
    case True
    then show ?thesis using Cons.prems(1,2) IH cr by (auto split: option.splits)
  next
    case False
    then obtain l where l: "ev_listing X root = Some l" by auto
    obtain q1 s1 where e: "evict_candidates X (candidates l cutoff) r s = (q1, s1)" by fastforce
    have one: "(\<exists>r'. I r' s1) \<and> (\<forall>r'. q1 = Inr r' \<longrightarrow> I r' s1)"
      by (rule evict_candidates_invariant [where I = I, OF _ frame e Cons.prems(2)],
          rule Cons.prems(3) [of cutoff root l]) (simp_all add: cr l)
    have "bnd (evict_candidates X (candidates l cutoff) r) (evict_roots X roots) s = (q, s')"
      using Cons.prems(1) False cr l by simp
    then show ?thesis using one e IH by (cases q1) (auto simp: bnd_def)
  qed
qed


text \<open>No other process touches the store during the run.\<close>

definition undisturbed :: "eviction_env \<Rightarrow> bool" where
  "undisturbed X \<longleftrightarrow> (\<forall>p s. ev_writers X p s = s)"

text \<open>How the store of a run differs from the store it began with, path by path.\<close>

definition path_ok :: "eviction_env \<Rightarrow> partition_store \<Rightarrow> partition_store \<Rightarrow> bool \<Rightarrow> string \<Rightarrow> bool" where
  "path_ok X s0 s gone p \<longleftrightarrow>
     (ps_tombs s p = ps_tombs s0 p \<or> ps_tombs s0 p = None \<and> (\<exists>f t. ps_files s0 p = Some f \<and> ps_tombs s p = Some (Tomb t) \<and> vouches X p t f))
     \<and> (if gone then ps_files s p = None \<and> (\<exists>f t. ps_files s0 p = Some f \<and> ps_tombs s p = Some (Tomb t) \<and> tomb_md5 t = pf_md5 f)
        else ps_files s p = ps_files s0 p)"

definition run_ok :: "eviction_env \<Rightarrow> partition_store \<Rightarrow> eviction_run \<Rightarrow> partition_store \<Rightarrow> bool" where
  "run_ok X s0 r s \<longleftrightarrow> months_ok X r \<and> (\<forall>p. path_ok X s0 s (p \<in> set (er_evicted r)) p)"

lemma effect_elsewhere: "q \<noteq> p \<Longrightarrow> ps_files (effect_on p k s) q = ps_files s q \<and> ps_tombs (effect_on p k s) q = ps_tombs s q"
  by (cases k) auto

lemma read_tombstone_Inr: "read_tombstone s p = Inr tomb \<Longrightarrow> ps_tombs s p = map_option Tomb tomb"
  by (auto simp: read_tombstone_def split: option.splits tomb_file.splits)

lemma path_ok_effect:
  assumes ok: "path_ok X s0 s gone p" and eff: "effect_ok X p tomb s k" and tomb: "read_tombstone s p = Inr tomb"
  shows "path_ok X s0 (effect_on p k s) (removes k \<or> gone) p"
proof (cases k)
  case (Entombed f t)
  then have "\<not> gone" "ps_files s0 p = Some f" "ps_files s p = Some f" "vouches X p t f" "ps_tombs s p = None"
    using ok eff read_tombstone_Inr [OF tomb] by (cases gone; auto simp: path_ok_def)+
  then show ?thesis using ok Entombed by (auto simp: path_ok_def)
next
  case (Removed f t)
  then have "\<not> gone" "ps_files s0 p = Some f" "ps_files s p = Some f" "vouches X p t f" "ps_tombs s p = None"
    using ok eff read_tombstone_Inr [OF tomb] by (cases gone; auto simp: path_ok_def)+
  then show ?thesis using ok Removed by (auto simp: path_ok_def vouches_def)
next
  case (Finished f t)
  then have "\<not> gone" "ps_files s0 p = Some f" "ps_files s p = Some f" "tomb_md5 t = pf_md5 f" "ps_tombs s p = Some (Tomb t)"
    using ok eff read_tombstone_Inr [OF tomb] by (cases gone; auto simp: path_ok_def)+
  then show ?thesis using ok Finished by (auto simp: path_ok_def)
qed (use ok in simp)

lemma run_ok_step:
  assumes quiet: "undisturbed X" "\<not> ev_dry_run X" and ok: "run_ok X s0 r s" and run: "evict_candidate X p r s = (q, s')"
  shows "(\<exists>r'. run_ok X s0 r' s') \<and> (\<forall>r'. q = Inr r' \<longrightarrow> run_ok X s0 r' s')"
proof -
  have months: "months_ok X r" using ok by (simp add: run_ok_def)
  consider "s' = s" "\<And>r'. q = Inr r' \<Longrightarrow> months_ok X r' \<and> er_evicted r' = er_evicted r"
    | k tomb where "read_tombstone s p = Inr tomb" "s' = effect_on p k s" "effect_ok X p tomb s k"
      "\<And>r'. q = Inr r' \<Longrightarrow> months_ok X r' \<and> er_evicted r' = er_evicted r @ (if removes k then [p] else [])"
      "removes k \<Longrightarrow> \<exists>r'. q = Inr r'"
    using evict_candidate_effect [OF run months] quiet by (auto simp: undisturbed_def)
  then show ?thesis
  proof cases
    case 1
    have "run_ok X s0 r' s'" if "q = Inr r'" for r' using ok 1(1) 1(2) [OF that] by (simp add: run_ok_def)
    then show ?thesis using ok 1(1) by blast
  next
    case 2
    have paths: "path_ok X s0 s' (if p' = p then removes k \<or> p \<in> set (er_evicted r) else p' \<in> set (er_evicted r)) p'" for p'
    proof (cases "p' = p")
      case True
      have "path_ok X s0 s (p \<in> set (er_evicted r)) p" using ok by (simp add: run_ok_def)
      then show ?thesis using path_ok_effect [OF _ 2(3,1)] True 2(2) by simp
    next
      case False
      have "path_ok X s0 s (p' \<in> set (er_evicted r)) p'" using ok by (simp add: run_ok_def)
      moreover have "path_ok X s0 s' b p' = path_ok X s0 s b p'" for b
        by (simp add: path_ok_def effect_elsewhere [OF False] 2(2))
      ultimately show ?thesis using False by simp
    qed
    have shown: "run_ok X s0 r' s'" if "months_ok X r'" "er_evicted r' = er_evicted r @ (if removes k then [p] else [])" for r'
    proof -
      have "(p' \<in> set (er_evicted r')) = (if p' = p then removes k \<or> p \<in> set (er_evicted r) else p' \<in> set (er_evicted r))" for p'
        using that(2) by auto
      then show ?thesis using that(1) paths unfolding run_ok_def by presburger
    qed
    show ?thesis
    proof (cases "removes k")
      case True
      then show ?thesis using 2(4,5) shown by blast
    next
      case False
      then have "run_ok X s0 r s'" using shown [OF months] by simp
      then show ?thesis using 2(4) shown by blast
    qed
  qed
qed

lemma run_ok_frame: "run_ok X s0 r s \<Longrightarrow> run_ok X s0 (r\<lparr>er_stopped := True\<rparr>) s \<and> run_ok X s0 (r\<lparr>er_capped := True\<rparr>) s"
  by (simp add: run_ok_def months_ok_def)

lemma evicted_store:
  assumes "undisturbed X" "\<not> ev_dry_run X" "evict_verified_partitions X today families s = (q, s')"
  shows "(\<exists>r. run_ok X s r s') \<and> (\<forall>r. q = Inr r \<longrightarrow> run_ok X s r s')"
proof (rule evict_roots_invariant [where I = "run_ok X s"])
  show "evict_roots X (family_roots today families) no_evictions s = (q, s')"
    using assms(3) by (simp add: evict_verified_partitions_def)
  show "run_ok X s no_evictions s" by (simp add: run_ok_def months_ok_def no_evictions_def path_ok_def)
qed (use run_ok_step [OF assms(1,2)] run_ok_frame in blast)+

text \<open>
  C39. Undisturbed by other processes, a run removes no history it cannot vouch for: every
  partition it reports as evicted is gone from the store and has a tombstone with the digest of
  its content. A partition evicted for the first time gets its tombstone in this run, which names the
  content, size and symbols of the file as the offsite listing of its month shows them; one that
  already had a tombstone of the same digest, from an earlier run that did not get to remove it, is
  removed on that evidence without a new listing. Every other file is as it was, also when the run
  is cut short by an error.
\<close>

theorem evicted_partitions_are_certified:
  assumes "undisturbed X" "\<not> ev_dry_run X" "evict_verified_partitions X today families s = (q, s')"
  shows "\<exists>gone. (\<forall>r. q = Inr r \<longrightarrow> gone = set (er_evicted r))
    \<and> (\<forall>p. p \<notin> gone \<longrightarrow> ps_files s' p = ps_files s p)
    \<and> (\<forall>p\<in>gone. ps_files s' p = None \<and> (\<exists>f t. ps_files s p = Some f \<and> ps_tombs s' p = Some (Tomb t) \<and> tomb_md5 t = pf_md5 f
         \<and> (ps_tombs s p = Some (Tomb t) \<or> vouches X p t f)))"
proof -
  obtain r where r: "run_ok X s r s'" "\<And>r'. q = Inr r' \<Longrightarrow> run_ok X s r' s'" using evicted_store [OF assms] by blast
  define r1 where "r1 = (case q of Inr r' \<Rightarrow> r' | Inl e \<Rightarrow> r)"
  have ok: "\<And>p. path_ok X s s' (p \<in> set (er_evicted r1)) p" using r by (auto simp: r1_def run_ok_def split: sum.split)
  show ?thesis
  proof (intro exI [of _ "set (er_evicted r1)"] conjI ballI allI impI)
    fix p assume "p \<in> set (er_evicted r1)"
    then show "ps_files s' p = None" "\<exists>f t. ps_files s p = Some f \<and> ps_tombs s' p = Some (Tomb t) \<and> tomb_md5 t = pf_md5 f
         \<and> (ps_tombs s p = Some (Tomb t) \<or> vouches X p t f)"
      using ok [of p] by (auto simp: path_ok_def)
  next
    fix p assume "p \<notin> set (er_evicted r1)"
    then show "ps_files s' p = ps_files s p" using ok [of p] by (simp add: path_ok_def)
  next
    fix r' assume "q = Inr r'" then show "set (er_evicted r1) = set (er_evicted r')" by (simp add: r1_def)
  qed
qed


section \<open>Which partitions may go\<close>

definition within_cap :: "eviction_env \<Rightarrow> string set \<Rightarrow> eviction_run \<Rightarrow> bool" where
  "within_cap X old r \<longleftrightarrow> months_ok X r \<and> length (er_evicted r) \<le> ev_max_files X \<and> set (er_evicted r) \<subseteq> old"

lemma evict_candidate_run:
  assumes "evict_candidate X p r s = (Inr r', s')" "months_ok X r"
  shows "months_ok X r'" "er_evicted r' = er_evicted r \<or> er_evicted r' = er_evicted r @ [p]"
proof -
  consider "months_ok X r' \<and> (er_evicted r' = er_evicted r \<or> er_evicted r' = er_evicted r @ [p])"
    using evict_candidate_effect [OF assms] by (auto split: if_splits)
  then show "months_ok X r'" "er_evicted r' = er_evicted r \<or> er_evicted r' = er_evicted r @ [p]" by auto
qed

lemma evict_candidates_cap:
  assumes "evict_candidates X ps r s = (Inr r', s')" "within_cap X old r" "set ps \<subseteq> old"
  shows "within_cap X old r'"
  using assms
proof (induction ps arbitrary: r s)
  case Nil
  then show ?case by (simp add: eff_simps)
next
  case (Cons p ps)
  show ?case
  proof (cases "ev_late X p \<or> ev_max_files X \<le> length (er_evicted r)")
    case True
    then show ?thesis using Cons.prems(1,2) by (auto simp: eff_simps within_cap_def months_ok_def split: if_splits)
  next
    case False
    have "bnd (evict_candidate X p r) (evict_candidates X ps) s = (Inr r', s')" using Cons.prems(1) False by simp
    then obtain r1 s1 where e: "evict_candidate X p r s = (Inr r1, s1)" and rest: "evict_candidates X ps r1 s1 = (Inr r', s')"
      by (rule bndE) auto
    have "within_cap X old r1"
      using evict_candidate_run [OF e] Cons.prems(2,3) False by (auto simp: within_cap_def)
    then show ?thesis using Cons.IH [OF rest] Cons.prems(3) by simp
  qed
qed

lemma evict_roots_cap:
  assumes "evict_roots X roots r s = (Inr r', s')" "within_cap X old r"
    and "\<And>cutoff root l. (cutoff, root) \<in> set roots \<Longrightarrow> ev_listing X root = Some l \<Longrightarrow> set (candidates l cutoff) \<subseteq> old"
  shows "within_cap X old r'"
  using assms
proof (induction roots arbitrary: r s)
  case Nil
  then show ?case by (simp add: eff_simps)
next
  case (Cons cr roots)
  obtain cutoff root where cr: "cr = (cutoff, root)" by fastforce
  have IH: "evict_roots X roots r s = (Inr r', s') \<Longrightarrow> within_cap X old r \<Longrightarrow> within_cap X old r'" for r s
    by (rule Cons.IH, assumption, assumption, rule Cons.prems(3) [OF list.set_intros(2)])
  show ?case
  proof (cases "ev_listing X root = None \<or> er_stopped r \<or> er_capped r")
    case True
    then show ?thesis using Cons.prems(1,2) IH cr by (auto split: option.splits)
  next
    case False
    then obtain l where l: "ev_listing X root = Some l" by auto
    have "bnd (evict_candidates X (candidates l cutoff) r) (evict_roots X roots) s = (Inr r', s')"
      using Cons.prems(1) False cr l by simp
    then obtain r1 s1 where e: "evict_candidates X (candidates l cutoff) r s = (Inr r1, s1)"
      and rest: "evict_roots X roots r1 s1 = (Inr r', s')" by (rule bndE) auto
    show ?thesis using IH [OF rest evict_candidates_cap [OF e Cons.prems(2)]] Cons.prems(3) [of cutoff root l] cr l by simp
  qed
qed

text \<open>The partitions below a root whose date lies more than the given days before today.\<close>

definition older_than :: "eviction_env \<Rightarrow> civil \<Rightarrow> string \<Rightarrow> int \<Rightarrow> string set" where
  "older_than X today root days = {p. \<exists>l stem c. ev_listing X root = Some l \<and> (p, stem) \<in> set l
     \<and> parse_iso stem = Some c \<and> days < days_between today c}"

lemma candidates_older:
  "ev_listing X root = Some l \<Longrightarrow> set (candidates l (int (toordinal today) - days)) \<subseteq> older_than X today root days"
  by (fastforce simp: candidates_def older_than_def days_between_def split: option.splits)

lemma older_than_mono: "days' \<le> days \<Longrightarrow> older_than X today root days \<subseteq> older_than X today root days'"
  by (fastforce simp: older_than_def)

lemma validated_margins:
  assumes "validate_retention c = Inr ()"
  shows "kis_minute_retention_days c + RETENTION_MARGIN_DAYS < bars_retention_days c"
    "tape_lookback_days c + RETENTION_MARGIN_DAYS < ticks_retention_days c"
    "tape_lookback_days c + RETENTION_MARGIN_DAYS < sameday_retention_days c"
  using assms by (simp_all add: validate_retention_def)

text \<open>
  With the retentions a prune run validates, no partition is evicted within a week of the
  dates a writer may still touch: a minute bar must be older than the vendor's minute window
  and the margin, a tick or same-day capture older than the lookback and the margin. And no
  run evicts more files than its cap.
\<close>

theorem eviction_clears_writer_horizons:
  assumes "validate_retention c = Inr ()" "evict_verified_partitions X today (eviction_families c) s = (Inr r, s')"
  shows "length (er_evicted r) \<le> ev_max_files X \<and> (\<forall>p\<in>set (er_evicted r).
      (\<exists>root\<in>set [''intraday/1m'', ''intraday/1m_kis_adjusted'']. p \<in> older_than X today root (kis_minute_retention_days c + RETENTION_MARGIN_DAYS))
    \<or> (\<exists>root\<in>set [''intraday/ticks'', ''orderbook'', ''auction_path'', ''research''].
         p \<in> older_than X today root (tape_lookback_days c + RETENTION_MARGIN_DAYS)))"
proof -
  let ?old = "(\<Union>root\<in>set [''intraday/1m'', ''intraday/1m_kis_adjusted'']. older_than X today root (kis_minute_retention_days c + RETENTION_MARGIN_DAYS))
    \<union> (\<Union>root\<in>set [''intraday/ticks'', ''orderbook'', ''auction_path'', ''research''].
         older_than X today root (tape_lookback_days c + RETENTION_MARGIN_DAYS))"
  have roots: "family_roots today (eviction_families c) =
    map (Pair (int (toordinal today) - bars_retention_days c)) [''intraday/1m'', ''intraday/1m_kis_adjusted'']
    @ map (Pair (int (toordinal today) - ticks_retention_days c)) [''intraday/ticks'']
    @ map (Pair (int (toordinal today) - sameday_retention_days c)) [''orderbook'', ''auction_path'', ''research'']"
    by (simp add: family_roots_def eviction_families_def INTRADAY_KIS_ADJUSTED_1M_DIR_NAME_def)
  note old = subset_trans [OF candidates_older older_than_mono]
  have "within_cap X ?old r"
  proof (rule evict_roots_cap)
    show "evict_roots X (family_roots today (eviction_families c)) no_evictions s = (Inr r, s')"
      using assms(2) by (simp add: evict_verified_partitions_def)
    show "within_cap X ?old no_evictions" by (simp add: within_cap_def months_ok_def no_evictions_def)
    fix cutoff root l
    assume root: "(cutoff, root) \<in> set (family_roots today (eviction_families c))" and l: "ev_listing X root = Some l"
    have bars: "set (candidates l (int (toordinal today) - bars_retention_days c)) \<subseteq> older_than X today root (kis_minute_retention_days c + RETENTION_MARGIN_DAYS)"
      by (rule old [OF l]) (use validated_margins [OF assms(1)] in simp)
    have ticks: "set (candidates l (int (toordinal today) - ticks_retention_days c)) \<subseteq> older_than X today root (tape_lookback_days c + RETENTION_MARGIN_DAYS)"
      by (rule old [OF l]) (use validated_margins [OF assms(1)] in simp)
    have sameday: "set (candidates l (int (toordinal today) - sameday_retention_days c)) \<subseteq> older_than X today root (tape_lookback_days c + RETENTION_MARGIN_DAYS)"
      by (rule old [OF l]) (use validated_margins [OF assms(1)] in simp)
    show "set (candidates l cutoff) \<subseteq> ?old"
      using root bars ticks sameday unfolding roots by auto
  qed
  then show ?thesis unfolding within_cap_def by blast
qed

section \<open>The way back\<close>

lemma restore_one:
  assumes run: "restore_partitions R [p] s = (Inr done, s')" and "\<not> rs_dry_run R" and tomb: "ps_tombs s p = Some (Tomb t)"
  shows "done = [p] \<and> (\<exists>f. ps_files s' p = Some f \<and> pf_md5 f = tomb_md5 t \<and> pf_size f = tomb_size t) \<and> ps_tombs s' p = None"
proof -
  have read: "read_tombstone s p = Inr (Some t)" by (simp add: read_tombstone_def tomb)
  have fetched: "fetched R t = Some f \<Longrightarrow> pf_md5 f = tomb_md5 t \<and> pf_size f = tomb_size t" for f
    by (auto simp: fetched_def split: option.splits if_splits)
  show ?thesis
    using run assms(2) fetched
    by (auto simp: restore_partitions_def bnd_def gets_def ret_def throw_def modify_def lift_res_def guard_ok_def read
        split: if_splits option.splits)
qed

lemma evicted_path:
  assumes "undisturbed X" "\<not> ev_dry_run X" "evict_verified_partitions X today families s = (Inr r, s1)" "p \<in> set (er_evicted r)"
  shows "path_ok X s s1 True p"
proof -
  have "run_ok X s r s1" using evicted_store [OF assms(1-3)] by blast
  then have "path_ok X s s1 (p \<in> set (er_evicted r)) p" by (simp add: run_ok_def)
  then show ?thesis using assms(4) by simp
qed

text \<open>
  C40. Eviction followed by a restore gives the content back: when a restore of a partition the
  run evicted reports success, its file has the digest and the size of the file that was
  evicted, whatever the remote copy was meanwhile, and the tombstone is gone, so writers may
  touch it again.
\<close>

theorem restore_returns_the_partition:
  assumes "undisturbed X" "\<not> ev_dry_run X" "evict_verified_partitions X today families s = (Inr r, s1)"
    and "p \<in> set (er_evicted r)" "ps_tombs s p = None" "\<not> rs_dry_run R" "restore_partitions R [p] s1 = (Inr done, s2)"
  shows "\<exists>f f'. ps_files s p = Some f \<and> ps_files s2 p = Some f' \<and> pf_md5 f' = pf_md5 f \<and> pf_size f' = pf_size f
    \<and> require_writable s2 p = Inr ()"
proof -
  have "path_ok X s s1 True p" by (rule evicted_path [OF assms(1-4)])
  then obtain f t where f: "ps_files s p = Some f" "ps_tombs s1 p = Some (Tomb t)" "vouches X p t f"
    using assms(5) by (auto simp: path_ok_def)
  show ?thesis
    using restore_one [OF assms(7,6) f(2)] f by (auto simp: vouches_def require_writable_def)
qed

text \<open>
  A planner sees the same stored symbols of a partition before and after its eviction.
\<close>

theorem eviction_keeps_stored_symbols:
  assumes "undisturbed X" "\<not> ev_dry_run X" "evict_verified_partitions X today families s = (Inr r, s1)"
    and "p \<in> set (er_evicted r)" "ps_tombs s p = None"
    and "ps_files s p = Some f" "pf_table f = Inr tab" "pt_symbols tab = Some col" "None \<notin> set col"
  shows "stored_symbols nul s1 p = stored_symbols nul s p"
proof -
  have "path_ok X s s1 True p" by (rule evicted_path [OF assms(1-4)])
  then obtain t where t: "ps_files s1 p = None" "ps_tombs s1 p = Some (Tomb t)" "vouches X p t f"
    using assms(5,6) by (auto simp: path_ok_def)
  have "set (tomb_symbols t) = {v. Some v \<in> set col}" using t(3) assms(7,8) by (auto simp: vouches_def)
  moreover have "set (map (\<lambda>x. case x of None \<Rightarrow> nul | Some v \<Rightarrow> v) col) = {v. Some v \<in> set col}"
    using assms(9) by (force split: option.splits)
  ultimately show ?thesis
    by (simp add: stored_symbols_def read_tombstone_def t(1,2) assms(6-8))
qed


section \<open>A small history\<close>

definition demo_partition :: string where
  "demo_partition = ''intraday/ticks/2026-01-05.parquet''"

definition demo_md5 :: string where
  "demo_md5 = ''0123456789abcdef0123456789abcdef''"

definition demo_part :: part_file where
  "demo_part = \<lparr>pf_md5 = demo_md5, pf_size = 42, pf_readable = True,
     pf_table = Inr \<lparr>pt_rows = 2, pt_symbols = Some [Some ''000660'', Some ''000660'']\<rparr>\<rparr>"

definition demo_history :: partition_store where
  "demo_history = \<lparr>ps_files = (\<lambda>p. if p = demo_partition then Some demo_part else None), ps_tombs = (\<lambda>_. None)\<rparr>"

definition demo_profile :: eviction_profile where
  "demo_profile = \<lparr>bars_retention_days = 400, ticks_retention_days = 40, sameday_retention_days = 40,
     kis_minute_retention_days = 365, tape_lookback_days = 25\<rparr>"

definition demo_eviction :: eviction_env where
  "demo_eviction = \<lparr>ev_run = (\<lambda>args. if hd args = ''md5sum'' then Some (0, demo_md5 @ ''  2026-01-05.parquet'')
       else Some (0, ''42;2026-01-05.parquet'')),
     ev_listing = (\<lambda>root. if root = ''intraday/ticks'' then Some [(demo_partition, ''2026-01-05'')] else None),
     ev_late = (\<lambda>_. False), ev_writers = (\<lambda>_ s. s), ev_lock = (\<lambda>_. True), ev_tomb_replaced = (\<lambda>_. True),
     ev_tomb_synced = (\<lambda>_. True), ev_unlinked = (\<lambda>_. True), ev_now = (\<lambda>_. 0), ev_remote_base = ''r'',
     ev_dry_run = False, ev_max_files = 400\<rparr>"

definition demo_tombstone :: tombstone where
  "demo_tombstone = \<lparr>tomb_partition = demo_partition, tomb_remote_path = ''r/'' @ demo_partition, tomb_md5 = demo_md5,
     tomb_size = 42, tomb_rows = 2, tomb_symbols = [''000660''], tomb_evicted_at = 0\<rparr>"

definition demo_evicted :: partition_store where
  "demo_evicted = \<lparr>ps_files = (\<lambda>_. None), ps_tombs = (\<lambda>p. if p = demo_partition then Some (Tomb demo_tombstone) else None)\<rparr>"

definition demo_month :: "remote_month option" where
  "demo_month = Some \<lparr>rm_md5 = [(''2026-01-05.parquet'', demo_md5)], rm_size = [(''2026-01-05.parquet'', 42)]\<rparr>"

definition demo_evictions :: eviction_run where
  "demo_evictions = \<lparr>er_evicted = [demo_partition], er_kept = [], er_bytes = 42, er_months = [(''intraday/ticks'', demo_month)],
     er_stopped = False, er_capped = False\<rparr>"

lemma demo_listing: "list_remote_month (ev_run demo_eviction) dir = demo_month"
proof -
  have "parse_md5sum (demo_md5 @ ''  2026-01-05.parquet'') = [(''2026-01-05.parquet'', demo_md5)]" by code_simp
  moreover have "parse_lsf ''42;2026-01-05.parquet'' = [(''2026-01-05.parquet'', 42)]" by code_simp
  ultimately show ?thesis
    by (simp add: list_remote_month_def demo_eviction_def demo_month_def RCLONE_EXIT_DIRECTORY_NOT_FOUND_def)
qed

lemma demo_paths: "path_parent demo_partition = ''intraday/ticks''" "path_name demo_partition = ''2026-01-05.parquet''"
  by code_simp+

lemma demo_stem: "parse_iso ''2026-01-05'' = Some (2026, 1, 5)" "parse_iso ''2026-03-04'' = Some (2026, 3, 4)"
  by code_simp+

lemma demo_candidates: "candidates [(demo_partition, ''2026-01-05'')] (int (toordinal (2026, 3, 4)) - 40) = [demo_partition]"
  by (simp add: candidates_def demo_stem civil_eval)

lemma demo_candidate_run:
  "evict_candidate demo_eviction demo_partition no_evictions demo_history = (Inr demo_evictions, demo_evicted)"
proof -
  have symbols: "sort (remdups (List.map_filter (\<lambda>x. x) [Some ''000660'', Some ''000660''])) = [''000660'']" by code_simp
  have verdict: "eviction_verdict demo_eviction demo_partition demo_md5 42 None no_evictions
      = (None, no_evictions\<lparr>er_months := [(''intraday/ticks'', demo_month)]\<rparr>)"
    by (simp add: eviction_verdict_def month_of_def no_evictions_def demo_paths demo_listing Let_def)
      (simp add: demo_month_def remote_verdict_def demo_md5_def)
  have read: "read_local demo_history demo_partition = Inr (demo_md5, 42)" "read_tombstone demo_history demo_partition = Inr None"
    "read_rows_and_symbols demo_history demo_partition = Inr (2, [''000660''])"
    by (simp_all add: read_local_def read_tombstone_def read_rows_and_symbols_def demo_history_def demo_part_def symbols)
  have locked: "evict_locked demo_eviction demo_partition None demo_md5 42 demo_history = (Inr (), demo_evicted)"
    by (simp add: evict_locked_def write_tombstone_def bnd_def lift_res_def modify_def guard_ok_def read demo_eviction_def)
      (simp add: demo_history_def demo_evicted_def demo_tombstone_def fun_eq_iff)
  have removed: "remove_partition demo_eviction demo_partition None demo_md5 42 demo_history = (Inr None, demo_evicted)"
    using locked read by (simp add: remove_partition_def catch_when_def bnd_def lift_res_def modify_def guard_ok_def ret_def demo_eviction_def)
  show ?thesis
    by (simp add: evict_candidate_def bnd_def gets_def ret_def read verdict removed)
      (simp add: demo_eviction_def no_evictions_def demo_evictions_def)
qed

lemma demo_eviction_run:
  "evict_verified_partitions demo_eviction (2026, 3, 4) (eviction_families demo_profile) demo_history = (Inr demo_evictions, demo_evicted)"
proof -
  have roots: "family_roots (2026, 3, 4) (eviction_families demo_profile) =
    map (Pair (int (toordinal (2026, 3, 4)) - 400)) [''intraday/1m'', ''intraday/1m_kis_adjusted'']
    @ map (Pair (int (toordinal (2026, 3, 4)) - 40)) [''intraday/ticks'', ''orderbook'', ''auction_path'', ''research'']"
    by (simp add: family_roots_def eviction_families_def INTRADAY_KIS_ADJUSTED_1M_DIR_NAME_def demo_profile_def)
  have listing: "ev_listing demo_eviction ''intraday/ticks'' = Some [(demo_partition, ''2026-01-05'')]"
    "ev_listing demo_eviction ''intraday/1m'' = None" "ev_listing demo_eviction ''intraday/1m_kis_adjusted'' = None"
    "ev_listing demo_eviction ''orderbook'' = None" "ev_listing demo_eviction ''auction_path'' = None"
    "ev_listing demo_eviction ''research'' = None" by (simp_all add: demo_eviction_def)
  have one: "evict_candidates demo_eviction [demo_partition] no_evictions demo_history = (Inr demo_evictions, demo_evicted)"
  proof -
    have "\<not> ev_late demo_eviction demo_partition" "\<not> ev_max_files demo_eviction \<le> length (er_evicted no_evictions)"
      by (simp_all add: demo_eviction_def no_evictions_def)
    then show ?thesis by (simp add: bnd_def demo_candidate_run ret_def)
  qed
  have fresh: "\<not> er_stopped no_evictions" "\<not> er_capped no_evictions" by (simp_all add: no_evictions_def)
  show ?thesis
    unfolding evict_verified_partitions_def roots
    using fresh by (simp add: listing demo_candidates bnd_def one ret_def del: evict_candidates.simps)
qed

theorem evicted_partitions_are_certified_witness:
  "ps_files demo_evicted demo_partition = None \<and> ps_tombs demo_evicted demo_partition = Some (Tomb demo_tombstone)
   \<and> vouches demo_eviction demo_partition demo_tombstone demo_part"
proof -
  have "undisturbed demo_eviction" "\<not> ev_dry_run demo_eviction" by (simp_all add: undisturbed_def demo_eviction_def)
  from evicted_partitions_are_certified [OF this demo_eviction_run] show ?thesis
    by (auto simp: demo_evictions_def demo_history_def demo_evicted_def)
qed

theorem eviction_clears_writer_horizons_witness:
  "\<exists>root\<in>set [''intraday/ticks'', ''orderbook'', ''auction_path'', ''research''].
     demo_partition \<in> older_than demo_eviction (2026, 3, 4) root 32"
proof -
  have "validate_retention demo_profile = Inr ()"
    by (simp add: validate_retention_def demo_profile_def RETENTION_MARGIN_DAYS_def)
  from eviction_clears_writer_horizons [OF this demo_eviction_run]
  have "(\<exists>root\<in>set [''intraday/1m'', ''intraday/1m_kis_adjusted'']. demo_partition \<in> older_than demo_eviction (2026, 3, 4) root 372)
    \<or> (\<exists>root\<in>set [''intraday/ticks'', ''orderbook'', ''auction_path'', ''research''].
         demo_partition \<in> older_than demo_eviction (2026, 3, 4) root 32)"
    by (simp add: demo_evictions_def demo_profile_def RETENTION_MARGIN_DAYS_def)
  then show ?thesis by (auto simp: older_than_def demo_eviction_def)
qed

definition demo_restore :: restore_env where
  "demo_restore = \<lparr>rs_copy = (\<lambda>_. Some (0, Some demo_part)), rs_replaced = (\<lambda>_. True), rs_untombed = (\<lambda>_. True),
     rs_remote_base = ''r'', rs_dry_run = False\<rparr>"

lemma demo_restored: "restore_partitions demo_restore [demo_partition] demo_evicted
   = (Inr [demo_partition], snd (restore_partitions demo_restore [demo_partition] demo_evicted))"
  by (simp add: restore_partitions_def bnd_def gets_def ret_def modify_def lift_res_def guard_ok_def read_tombstone_def
      fetched_def demo_restore_def demo_evicted_def demo_tombstone_def demo_part_def)

theorem restore_returns_the_partition_witness:
  "\<exists>f'. ps_files (snd (restore_partitions demo_restore [demo_partition] demo_evicted)) demo_partition = Some f'
     \<and> pf_md5 f' = demo_md5 \<and> pf_size f' = 42"
proof -
  have "undisturbed demo_eviction" "\<not> ev_dry_run demo_eviction" "demo_partition \<in> set (er_evicted demo_evictions)"
    "ps_tombs demo_history demo_partition = None" "\<not> rs_dry_run demo_restore"
    by (simp_all add: undisturbed_def demo_eviction_def demo_evictions_def demo_history_def demo_restore_def)
  from restore_returns_the_partition [OF this(1,2) demo_eviction_run this(3,4,5) demo_restored] show ?thesis
    by (auto simp: demo_history_def demo_part_def)
qed

end
