(* ===== verification/Host_Broker.thy ===== *)
theory Host_Broker
  imports Json_Value
begin

text \<open>
  \<open>src/api/host_broker_contract.py\<close> with its adapters \<open>api/shared_token.py\<close>,
  \<open>api/_token_client.py\<close> and \<open>api/kis/rate_limit.py\<close>: the token record and the pacing file that
  every process of a host shares. The blocking and the asyncio surface do the same. Sections under the
  kernel lock are atomic; what other processes do, they do between them. Clock readings
  (microseconds since the epoch), the lock, the vendor, the disk, \<open>sha256\<close> and the text form of
  an instant are parameters; instants and durations are unbounded. The guard file is the one
  that belongs to the token file. The state keeps the token requests and publications and
  the booked slots as ghosts.
\<close>

datatype broker_error =
    HostBrokerDirNotShared | TokenStoreLockTimeout | TokenIssueThrottled | TokenStoreReadError
  | Bad_argument | Vendor_failed | Write_failed

type_synonym 'a bres = "broker_error + 'a"

section \<open>Names and rates\<close>

definition VENDOR_IDS :: "string list" where "VENDOR_IDS = [''ls'', ''toss'', ''dbsec'', ''kiwoom'']"
definition WILDCARD_SCOPE :: string where "WILDCARD_SCOPE = ''*''"
definition DEFAULT_UNKNOWN_EXPIRY_MAX_AGE_S :: fl where "DEFAULT_UNKNOWN_EXPIRY_MAX_AGE_S = Fin 43200"

definition min_issue_interval :: "string \<Rightarrow> fl" where
  "min_issue_interval vendor = (if vendor = ''dbsec'' then Fin 61 else Fin 0)"

definition TOSS_RATES :: "(string \<times> fl) list" where
  "TOSS_RATES = [(''AUTH'', Fin 5), (''ACCOUNT'', Fin 1), (''ASSET'', Fin 5), (''STOCK'', Fin 5), (''STOCK_ALL'', Fin 1),
     (''STOCK_TRADING_TREND'', Fin 10), (''MARKET_INFO'', Fin 3), (''MARKET_DATA'', Fin 15), (''MARKET_DATA_CHART'', Fin 20),
     (''RANKING'', Fin 5), (''MARKET_INDICATOR'', Fin 10), (''MARKET_INDICATOR_CHART'', Fin 5), (''ORDER'', Fin 10),
     (''ORDER_HISTORY'', Fin 5), (''ORDER_INFO'', Fin 6), (''CONDITIONAL_ORDER'', Fin 5),
     (''CONDITIONAL_ORDER_HISTORY'', Fin 10)]"

definition DEFAULT_RATES :: "((string \<times> string option) \<times> fl) list" where
  "DEFAULT_RATES = [((''dbsec'', None), Fin 20), ((''dbsec'', Some ''chart''), Fin 4), ((''dbsec'', Some ''quote''), Fin 3),
     ((''ls'', None), f_div (Fin 1) (Fin (rnd64 (105 / 100)))), ((''kiwoom'', Some WILDCARD_SCOPE), Fin 5)]
     @ map (\<lambda>(s, r). ((''toss'', Some s), r)) TOSS_RATES"

definition validate_vendor :: "string \<Rightarrow> string bres" where
  "validate_vendor v = (if v \<in> set VENDOR_IDS then Inr v else Inl Bad_argument)"

definition credential_digest :: "(string \<Rightarrow> string) \<Rightarrow> string \<Rightarrow> string bres" where
  "credential_digest sha app_key = (if app_key = [] then Inl Bad_argument else Inr (take 12 (sha app_key)))"

definition scope_char :: "char \<Rightarrow> bool" where
  "scope_char c \<longleftrightarrow> is_digit c \<or> c = CHR ''_'' \<or> c = CHR ''-''
     \<or> (65 \<le> (of_char c :: nat) \<and> (of_char c :: nat) \<le> 90) \<or> (97 \<le> (of_char c :: nat) \<and> (of_char c :: nat) \<le> 122)"

definition validate_scope :: "string \<Rightarrow> string bres" where
  "validate_scope s = (if s = WILDCARD_SCOPE \<or> s = [] \<or> \<not> list_all scope_char s then Inl Bad_argument else Inr s)"

definition rate_for :: "string \<Rightarrow> string option \<Rightarrow> fl bres" where
  "rate_for vendor scope = (case map_of DEFAULT_RATES (vendor, scope) of
     Some r \<Rightarrow> Inr r
   | None \<Rightarrow> if scope = None then Inl Bad_argument
       else (case map_of DEFAULT_RATES (vendor, Some WILDCARD_SCOPE) of Some r \<Rightarrow> Inr r | None \<Rightarrow> Inl Bad_argument))"

datatype share_mode = SHARE_AUTO | SHARE_ALWAYS | SHARE_NEVER

definition resolve_host_broker_dir :: "string \<Rightarrow> share_mode \<Rightarrow> bool \<Rightarrow> bool \<Rightarrow> string bres" where
  "resolve_host_broker_dir dir mode in_container marker =
     (if (mode = SHARE_ALWAYS \<or> mode = SHARE_AUTO \<and> in_container) \<and> \<not> marker
      then Inl HostBrokerDirNotShared else Inr dir)"

text \<open>The file of a kind of state, below the shared directory.\<close>

definition state_path :: "(string \<Rightarrow> string) \<Rightarrow> string \<Rightarrow> string \<Rightarrow> string \<Rightarrow> string \<Rightarrow> string bres" where
  "state_path sha prefix ending vendor app_key = (case validate_vendor vendor of
     Inl e \<Rightarrow> Inl e
   | Inr v \<Rightarrow> (case credential_digest sha app_key of
       Inl e \<Rightarrow> Inl e
     | Inr d \<Rightarrow> Inr (prefix @ v @ ''_'' @ d @ ending)))"

definition token_record_path :: "(string \<Rightarrow> string) \<Rightarrow> string \<Rightarrow> string \<Rightarrow> string bres" where
  "token_record_path sha = state_path sha ''token_'' ''.json''"

definition issue_guard_path :: "(string \<Rightarrow> string) \<Rightarrow> string \<Rightarrow> string \<Rightarrow> string bres" where
  "issue_guard_path sha = state_path sha ''token_issue_'' ''.state''"

definition admission_state_path :: "(string \<Rightarrow> string) \<Rightarrow> string \<Rightarrow> string \<Rightarrow> string option \<Rightarrow> string bres" where
  "admission_state_path sha vendor app_key scope = (case state_path sha ''admission_'' ''.state'' vendor app_key of
     Inl e \<Rightarrow> Inl e
   | Inr plain \<Rightarrow> (case scope of
       None \<Rightarrow> Inr plain
     | Some s \<Rightarrow> (case validate_scope s of
         Inl e \<Rightarrow> Inl e
       | Inr s \<Rightarrow> state_path sha ''admission_'' (''_'' @ s @ ''.state'') vendor app_key)))"

section \<open>The token record\<close>

record IssuedToken =
  it_access_token :: string
  it_expires_in_seconds :: "fl option"

record TokenRecord =
  tk_access_token :: string
  tk_issued_at :: int
  tk_expires_at :: "int option"
  tk_generation :: int

text \<open>\<open>datetime.fromisoformat\<close> of a stamp, and \<open>isoformat\<close>.\<close>

datatype read_stamp = Unparsed | Zoneless | At int

record stamp_codec =
  sc_parse :: "string \<Rightarrow> read_stamp"
  sc_print :: "int \<Rightarrow> string"

definition RECORD_KEYS :: "string list" where
  "RECORD_KEYS = [''schema_version'', ''access_token'', ''issued_at'', ''expires_at'', ''generation'']"

definition parse_record :: "stamp_codec \<Rightarrow> jval \<Rightarrow> TokenRecord option" where
  "parse_record Z v = (case v of
     JObj p \<Rightarrow>
       if set (map fst p) \<noteq> set RECORD_KEYS then None
       else (case (pget p ''schema_version'', pget p ''access_token'', pget p ''generation'', pget p ''issued_at'') of
         (JInt version, JStr token, JInt generation, JStr issued) \<Rightarrow>
           if version \<noteq> 1 \<or> token = [] \<or> generation < 1 then None
           else (case sc_parse Z issued of
             At issued_at \<Rightarrow> (case pget p ''expires_at'' of
                 JNull \<Rightarrow> Some \<lparr>tk_access_token = token, tk_issued_at = issued_at, tk_expires_at = None, tk_generation = generation\<rparr>
               | JStr expires \<Rightarrow> (case sc_parse Z expires of
                     At t \<Rightarrow> Some \<lparr>tk_access_token = token, tk_issued_at = issued_at, tk_expires_at = Some t, tk_generation = generation\<rparr>
                   | _ \<Rightarrow> None)
               | _ \<Rightarrow> None)
           | _ \<Rightarrow> None)
       | _ \<Rightarrow> None)
   | _ \<Rightarrow> None)"

definition record_value :: "stamp_codec \<Rightarrow> TokenRecord \<Rightarrow> jval" where
  "record_value Z r = JObj
     [(''schema_version'', JInt 1), (''access_token'', JStr (tk_access_token r)),
      (''issued_at'', JStr (sc_print Z (tk_issued_at r))),
      (''expires_at'', case tk_expires_at r of None \<Rightarrow> JNull | Some t \<Rightarrow> JStr (sc_print Z t)),
      (''generation'', JInt (tk_generation r))]"

datatype token_file = No_token | Unreadable_token | Token_value jval

definition read_record_file :: "stamp_codec \<Rightarrow> token_file \<Rightarrow> TokenRecord option bres" where
  "read_record_file Z f = (case f of
     No_token \<Rightarrow> Inr None
   | Unreadable_token \<Rightarrow> Inl TokenStoreReadError
   | Token_value v \<Rightarrow> (case parse_record Z v of None \<Rightarrow> Inl TokenStoreReadError | Some r \<Rightarrow> Inr (Some r)))"

text \<open>\<open>timedelta(seconds=s)\<close> in microseconds, and \<open>total_seconds\<close>.\<close>

definition timedelta_us :: "fl \<Rightarrow> int bres" where
  "timedelta_us s = (case s of
     Fin x \<Rightarrow> let whole = (if x < 0 then \<lceil>x\<rceil> else \<lfloor>x\<rfloor>)
              in Inr (whole * 10 ^ 6 + round_half_even (rnd64 (rnd64 (x - of_int whole) * 10 ^ 6)))
   | _ \<Rightarrow> Inl Bad_argument)"

definition seconds_of :: "int \<Rightarrow> fl" where
  "seconds_of us = Fin (rnd64 (of_int us / 10 ^ 6))"

definition build_record :: "IssuedToken \<Rightarrow> TokenRecord option \<Rightarrow> int \<Rightarrow> TokenRecord bres" where
  "build_record issued previous now =
     (let generation = (case previous of None \<Rightarrow> 1 | Some p \<Rightarrow> tk_generation p + 1);
          make = (\<lambda>expires. \<lparr>tk_access_token = it_access_token issued, tk_issued_at = now, tk_expires_at = expires,
                    tk_generation = generation\<rparr>)
      in case it_expires_in_seconds issued of
           None \<Rightarrow> Inr (make None)
         | Some s \<Rightarrow> (case timedelta_us s of Inl e \<Rightarrow> Inl e | Inr d \<Rightarrow> Inr (make (Some (now + d)))))"

section \<open>The store\<close>

datatype throttle_policy = POLICY_WAIT | POLICY_RAISE

record token_store =
  to_vendor :: string
  to_lock_timeout :: fl
  to_margin :: fl
  to_max_age :: fl
  to_policy :: throttle_policy

definition validate_store_args :: "token_store \<Rightarrow> unit bres" where
  "validate_store_args S = (case validate_vendor (to_vendor S) of
     Inl e \<Rightarrow> Inl e
   | Inr _ \<Rightarrow>
       if \<not> f_isfinite (to_lock_timeout S) \<or> f_le (to_lock_timeout S) (Fin 0)
          \<or> \<not> f_isfinite (to_margin S) \<or> f_lt (to_margin S) (Fin 0)
          \<or> \<not> f_isfinite (to_max_age S) \<or> f_lt (to_max_age S) (Fin 0)
       then Inl Bad_argument else Inr ())"

definition is_usable :: "token_store \<Rightarrow> TokenRecord \<Rightarrow> int \<Rightarrow> bool" where
  "is_usable S r now = (case tk_expires_at r of
     None \<Rightarrow> f_lt (seconds_of (now - tk_issued_at r)) (to_max_age S)
   | Some t \<Rightarrow> (case timedelta_us (to_margin S) of Inl _ \<Rightarrow> False | Inr m \<Rightarrow> now < t - m))"

datatype guard_file = No_guard | Bad_guard | Guard fl

definition read_guard_value :: "guard_file \<Rightarrow> fl option bres" where
  "read_guard_value g = (case g of
     No_guard \<Rightarrow> Inr None
   | Bad_guard \<Rightarrow> Inl TokenStoreReadError
   | Guard x \<Rightarrow> if \<not> f_isfinite x \<or> f_lt x (Fin 0) then Inl TokenStoreReadError else Inr (Some x))"

definition throttle_delay_seconds :: "string \<Rightarrow> guard_file \<Rightarrow> fl \<Rightarrow> fl bres" where
  "throttle_delay_seconds vendor g now_epoch =
     (if f_le (min_issue_interval vendor) (Fin 0) then Inr (Fin 0)
      else case read_guard_value g of
        Inl e \<Rightarrow> Inl e
      | Inr None \<Rightarrow> Inr (Fin 0)
      | Inr (Some last_issue) \<Rightarrow>
          let wait = f_add (f_add last_issue (min_issue_interval vendor)) (f_neg now_epoch)
          in Inr (if f_lt (Fin 0) wait then wait else Fin 0))"

text \<open>
  What the host shares, and its ghosts: for each request made to the vendor the clock at the guard
  and at its record, for each publication the clock of the check and the record.
\<close>

record token_host =
  th_record :: token_file
  th_guard :: guard_file
  th_requests :: "(int \<times> int) list"
  th_published :: "(int \<times> TokenRecord) list"

text \<open>One call: its clock readings in the order they are taken, and what the outside answers.\<close>

record token_call =
  ca_checked :: int
  ca_guarded :: int
  ca_guard_written :: int
  ca_built :: int
  ca_guard_saved :: bool
  ca_issued :: "IssuedToken option"
  ca_record_saved :: bool

definition guard_before_issue :: "token_store \<Rightarrow> token_call \<Rightarrow> token_host \<Rightarrow> unit bres \<times> token_host" where
  "guard_before_issue S C h =
     (if f_le (min_issue_interval (to_vendor S)) (Fin 0) then (Inr (), h)
      else case throttle_delay_seconds (to_vendor S) (th_guard h) (seconds_of (ca_guarded C)) of
        Inl e \<Rightarrow> (Inl e, h)
      | Inr wait \<Rightarrow>
          if f_lt (Fin 0) wait \<and> (to_policy S = POLICY_RAISE \<or> f_lt (to_lock_timeout S) wait)
            then (Inl TokenIssueThrottled, h)
          else if \<not> ca_guard_saved C then (Inl Write_failed, h)
          else (Inr (), h\<lparr>th_guard := Guard (seconds_of (ca_guard_written C))\<rparr>))"

definition issue_and_publish ::
    "stamp_codec \<Rightarrow> token_store \<Rightarrow> token_call \<Rightarrow> TokenRecord option \<Rightarrow> token_host \<Rightarrow> TokenRecord bres \<times> token_host" where
  "issue_and_publish Z S C cached h = (case guard_before_issue S C h of
     (Inl e, h1) \<Rightarrow> (Inl e, h1)
   | (Inr _, h1) \<Rightarrow>
       let h2 = h1\<lparr>th_requests := th_requests h1 @ [(ca_guarded C, ca_guard_written C)]\<rparr> in
       case ca_issued C of
         None \<Rightarrow> (Inl Vendor_failed, h2)
       | Some issued \<Rightarrow> (case build_record issued cached (ca_built C) of
           Inl e \<Rightarrow> (Inl e, h2)
         | Inr r \<Rightarrow>
             if \<not> ca_record_saved C then (Inl Write_failed, h2)
             else (Inr r, h2\<lparr>th_record := Token_value (record_value Z r), th_published := th_published h2 @ [(ca_checked C, r)]\<rparr>)))"

text \<open>The section of \<open>get_or_issue\<close> under the lock.\<close>

definition get_or_issue_locked ::
    "stamp_codec \<Rightarrow> token_store \<Rightarrow> token_call \<Rightarrow> token_host \<Rightarrow> TokenRecord bres \<times> token_host" where
  "get_or_issue_locked Z S C h = (case read_record_file Z (th_record h) of
     Inl e \<Rightarrow> (Inl e, h)
   | Inr cached \<Rightarrow> (case cached of
       Some r \<Rightarrow> if is_usable S r (ca_checked C) then (Inr r, h) else issue_and_publish Z S C cached h
     | None \<Rightarrow> issue_and_publish Z S C cached h))"

text \<open>The whole call: the read without the lock, and, unless it found a usable record, the lock
  (after which other processes have made the host \<open>h'\<close>) and the section under it.\<close>

definition get_or_issue ::
    "stamp_codec \<Rightarrow> token_store \<Rightarrow> int \<Rightarrow> bool \<Rightarrow> token_call \<Rightarrow> token_host \<Rightarrow> token_host \<Rightarrow> TokenRecord bres \<times> token_host" where
  "get_or_issue Z S now locked C h h' = (case read_record_file Z (th_record h) of
     Inl e \<Rightarrow> (Inl e, h)
   | Inr cached \<Rightarrow>
       if (case cached of Some r \<Rightarrow> is_usable S r now | None \<Rightarrow> False) then (Inr (the cached), h)
       else if \<not> locked then (Inl TokenStoreLockTimeout, h')
       else get_or_issue_locked Z S C h')"

definition replace_rejected ::
    "stamp_codec \<Rightarrow> token_store \<Rightarrow> string \<Rightarrow> bool \<Rightarrow> token_call \<Rightarrow> token_host \<Rightarrow> TokenRecord bres \<times> token_host" where
  "replace_rejected Z S rejected locked C h =
     (if \<not> locked then (Inl TokenStoreLockTimeout, h)
      else case read_record_file Z (th_record h) of
        Inl e \<Rightarrow> (Inl e, h)
      | Inr cached \<Rightarrow>
          if (case cached of Some r \<Rightarrow> tk_access_token r \<noteq> rejected \<and> is_usable S r (ca_checked C) | None \<Rightarrow> False)
            then (Inr (the cached), h)
          else issue_and_publish Z S C cached h)"

section \<open>The pacer\<close>

datatype pace_file = No_slot | Garbled_slot | Next_free fl

text \<open>The content of the state file as its number; an unusable content resets it.\<close>

definition read_next_free :: "pace_file \<Rightarrow> fl" where
  "read_next_free f = (case f of Next_free x \<Rightarrow> if f_isfinite x then x else Fin 0 | _ \<Rightarrow> Fin 0)"

record pacer =
  pc_max_rate :: fl
  pc_time_period :: fl
  pc_max_lead :: "fl option"

definition make_pacer :: "fl \<Rightarrow> fl \<Rightarrow> fl option \<Rightarrow> pacer bres" where
  "make_pacer max_rate time_period max_lead =
     (if \<not> f_isfinite max_rate \<or> \<not> f_isfinite time_period \<or> f_le max_rate (Fin 0) \<or> f_le time_period (Fin 0) then Inl Bad_argument
      else if (case max_lead of None \<Rightarrow> False | Some l \<Rightarrow> \<not> f_isfinite l \<or> f_le l (Fin 0)) then Inl Bad_argument
      else Inr \<lparr>pc_max_rate = max_rate, pc_time_period = time_period, pc_max_lead = max_lead\<rparr>)"

definition pace_interval :: "pacer \<Rightarrow> fl" where
  "pace_interval P = f_div (pc_time_period P) (pc_max_rate P)"

record pace_host =
  ph_file :: pace_file
  ph_booked :: "(fl \<times> fl) list"

text \<open>
  The disk at one booking: the file cannot be opened or locked, the new content is written, the
  write fails after the old content was cut off (or the process dies there), or only a part of
  the text is written, which \<open>os.write\<close> does not report and which may read as another number.
\<close>

datatype slot_write = Slot_unopened | Slot_written | Slot_lost | Slot_cut pace_file

text \<open>
  A booking at the clock reading \<open>now\<close>: whether a slot was booked, and how long to sleep. The
  ghost keeps the booked slots, each with the clock of its booking, from the last time the file
  lost its content on.
\<close>

definition book_slot :: "fl \<Rightarrow> fl option \<Rightarrow> fl \<Rightarrow> slot_write \<Rightarrow> pace_host \<Rightarrow> (bool \<times> fl) bres \<times> pace_host" where
  "book_slot interval max_lead now w h =
     (if w = Slot_unopened then (Inl Write_failed, h)
      else
        let next_free = read_next_free (ph_file h);
            slot = (if f_lt now next_free then next_free else now);
            lead = f_add slot (f_neg now);
            booked = (case w of
              Slot_cut f \<Rightarrow> (Inr (True, lead), h\<lparr>ph_file := f, ph_booked := []\<rparr>)
            | Slot_lost \<Rightarrow> (Inl Write_failed, h\<lparr>ph_file := No_slot, ph_booked := []\<rparr>)
            | _ \<Rightarrow> (Inr (True, lead), h\<lparr>ph_file := Next_free (f_add slot interval), ph_booked := ph_booked h @ [(now, slot)]\<rparr>))
        in case max_lead of
             None \<Rightarrow> booked
           | Some l \<Rightarrow>
               if f_lt l lead then
                 (let wait = f_add lead (f_neg l) in (Inr (False, if f_lt wait interval then interval else wait), h))
               else booked)"

text \<open>\<open>acquire\<close> on the clock readings and the disk of its attempts: the sleeps it makes, one for each
  refused attempt and one before the slot it owns, and whether it owns one by then.\<close>

fun acquire :: "pacer \<Rightarrow> (fl \<times> slot_write) list \<Rightarrow> pace_host \<Rightarrow> (fl list \<times> bool bres) \<times> pace_host" where
  "acquire P [] h = (([], Inr False), h)"
| "acquire P ((now, w) # later) h = (case book_slot (pace_interval P) (pc_max_lead P) now w h of
     (Inl e, h') \<Rightarrow> (([], Inl e), h')
   | (Inr (booked, wait), h') \<Rightarrow>
       if booked then ((if f_lt (Fin 0) wait then [wait] else [], Inr True), h')
       else (case acquire P later h' of ((sleeps, r), h'') \<Rightarrow> ((wait # sleeps, r), h'')))"

section \<open>The adapters\<close>

datatype AdmissionClass = ADMIT_CRITICAL | ADMIT_STANDARD | ADMIT_BULK

definition max_lead_for :: "fl \<Rightarrow> fl \<Rightarrow> AdmissionClass \<Rightarrow> fl option" where
  "max_lead_for standard bulk c = (case c of ADMIT_CRITICAL \<Rightarrow> None | ADMIT_STANDARD \<Rightarrow> Some standard | ADMIT_BULK \<Rightarrow> Some bulk)"

definition vendor_limiter :: "fl \<Rightarrow> fl \<Rightarrow> string \<Rightarrow> string option \<Rightarrow> AdmissionClass \<Rightarrow> pacer bres" where
  "vendor_limiter standard bulk vendor scope c = (case rate_for vendor scope of
     Inl e \<Rightarrow> Inl e
   | Inr r \<Rightarrow> make_pacer r (Fin 1) (max_lead_for standard bulk c))"

end
