(* ===== verification/Host_Properties.thy ===== *)
theory Host_Properties
  imports Host_Broker
begin

text \<open>
  What the processes of a host may rely on when they share a token and a pacing file: one issuer at
  a time, growing generations, requests to the vendor no closer than its interval, and booked
  slots no closer than the pacing interval.
\<close>

section \<open>The record on disk\<close>

definition codec :: "stamp_codec \<Rightarrow> bool" where
  "codec Z \<longleftrightarrow> (\<forall>t. sc_parse Z (sc_print Z t) = At t)"

definition storable :: "TokenRecord \<Rightarrow> bool" where
  "storable r \<longleftrightarrow> tk_access_token r \<noteq> [] \<and> 1 \<le> tk_generation r"

lemma record_round: "codec Z \<Longrightarrow> storable r \<Longrightarrow> parse_record Z (record_value Z r) = Some r"
  by (auto simp: parse_record_def record_value_def RECORD_KEYS_def pget_def codec_def storable_def split: option.splits)

lemma read_published:
  "codec Z \<Longrightarrow> storable r \<Longrightarrow> read_record_file Z (Token_value (record_value Z r)) = Inr (Some r)"
  by (simp add: read_record_file_def record_round)

lemma read_generation: "read_record_file Z f = Inr (Some r) \<Longrightarrow> 1 \<le> tk_generation r"
  by (auto simp: read_record_file_def parse_record_def split: token_file.splits option.splits jval.splits if_splits read_stamp.splits)

lemma built_record:
  assumes "build_record issued previous now = Inr r"
  shows "tk_access_token r = it_access_token issued" "tk_generation r = (case previous of None \<Rightarrow> 1 | Some p \<Rightarrow> tk_generation p + 1)"
  using assms by (auto simp: build_record_def Let_def split: option.splits sum.splits)

section \<open>One section under the lock\<close>

lemma guard_effect:
  assumes "guard_before_issue S C h = (q, h1)"
  shows "th_record h1 = th_record h \<and> th_published h1 = th_published h \<and> th_requests h1 = th_requests h"
    "q = Inr () \<Longrightarrow> f_lt (Fin 0) (min_issue_interval (to_vendor S)) \<Longrightarrow> to_policy S = POLICY_RAISE \<Longrightarrow>
       th_guard h1 = Guard (seconds_of (ca_guard_written C))
       \<and> throttle_delay_seconds (to_vendor S) (th_guard h) (seconds_of (ca_guarded C)) = Inr (Fin 0)"
    "(\<exists>e. q = Inl e) \<Longrightarrow> h1 = h"
proof -
  show "th_record h1 = th_record h \<and> th_published h1 = th_published h \<and> th_requests h1 = th_requests h"
    "(\<exists>e. q = Inl e) \<Longrightarrow> h1 = h"
    using assms by (auto simp: guard_before_issue_def split: if_splits sum.splits)
  assume ok: "q = Inr ()" "f_lt (Fin 0) (min_issue_interval (to_vendor S))" "to_policy S = POLICY_RAISE"
  have no: "\<not> f_le (min_issue_interval (to_vendor S)) (Fin 0)"
    using ok(2) by (simp add: min_issue_interval_def f_le_def split: if_splits)
  then obtain wait where w: "throttle_delay_seconds (to_vendor S) (th_guard h) (seconds_of (ca_guarded C)) = Inr wait"
    and "\<not> f_lt (Fin 0) wait" "th_guard h1 = Guard (seconds_of (ca_guard_written C))"
    using assms ok by (auto simp: guard_before_issue_def split: if_splits sum.splits)
  moreover have "wait = Fin 0 \<or> f_lt (Fin 0) wait"
    using w no by (auto simp: throttle_delay_seconds_def Let_def split: sum.splits option.splits if_splits)
  ultimately show "th_guard h1 = Guard (seconds_of (ca_guard_written C))
       \<and> throttle_delay_seconds (to_vendor S) (th_guard h) (seconds_of (ca_guarded C)) = Inr (Fin 0)" by auto
qed

text \<open>Nothing happened, or a request was made, and its record published or not.\<close>

lemma issue_effect:
  assumes run: "issue_and_publish Z S C cached h = (q, h')"
  obtains (refused) "h' = h" "\<exists>e. q = Inl e"
  | (requested) h1 where "guard_before_issue S C h = (Inr (), h1)" "th_guard h' = th_guard h1"
      "th_requests h' = th_requests h @ [(ca_guarded C, ca_guard_written C)]"
      "(th_record h' = th_record h \<and> th_published h' = th_published h)
       \<or> (\<exists>issued r. ca_issued C = Some issued \<and> build_record issued cached (ca_built C) = Inr r
            \<and> th_record h' = Token_value (record_value Z r) \<and> th_published h' = th_published h @ [(ca_checked C, r)])"
proof -
  obtain g h1 where guard: "guard_before_issue S C h = (g, h1)" by fastforce
  show ?thesis
  proof (cases g)
    case (Inl e)
    then have "h1 = h" using guard_effect(3) [OF guard] by blast
    then have "h' = h" "q = Inl e" using run guard Inl by (simp_all add: issue_and_publish_def)
    then show ?thesis using refused by blast
  next
    case (Inr u)
    then have "(th_record h' = th_record h \<and> th_published h' = th_published h)
       \<or> (\<exists>issued r. ca_issued C = Some issued \<and> build_record issued cached (ca_built C) = Inr r
            \<and> th_record h' = Token_value (record_value Z r) \<and> th_published h' = th_published h @ [(ca_checked C, r)])"
      "th_guard h' = th_guard h1" "th_requests h' = th_requests h @ [(ca_guarded C, ca_guard_written C)]"
      using run guard guard_effect(1) [OF guard]
      by (auto simp: issue_and_publish_def Let_def split: option.splits sum.splits if_splits)
    then show ?thesis using requested guard Inr by simp
  qed
qed

section \<open>Any interleaving\<close>

text \<open>
  The sections of any number of processes that use the token of one vendor, in any order. Every
  client of the repository refuses rather than waits (\<open>_TOKEN_ISSUE_THROTTLE_POLICY\<close> is
  \<open>raise\<close> in each) and issues only tokens that are not empty.
\<close>

definition nonempty_issue :: "token_call \<Rightarrow> bool" where
  "nonempty_issue C \<longleftrightarrow> (case ca_issued C of None \<Rightarrow> True | Some i \<Rightarrow> it_access_token i \<noteq> [])"

inductive host_history :: "stamp_codec \<Rightarrow> string \<Rightarrow> token_host \<Rightarrow> bool" for Z v where
  found: "th_requests h = [] \<Longrightarrow> th_published h = [] \<Longrightarrow> host_history Z v h"
| issuing: "host_history Z v h \<Longrightarrow> to_vendor S = v \<Longrightarrow> to_policy S = POLICY_RAISE \<Longrightarrow> nonempty_issue C \<Longrightarrow>
    host_history Z v (snd (get_or_issue_locked Z S C h))"
| replacing: "host_history Z v h \<Longrightarrow> to_vendor S = v \<Longrightarrow> to_policy S = POLICY_RAISE \<Longrightarrow> nonempty_issue C \<Longrightarrow>
    host_history Z v (snd (replace_rejected Z S rejected locked C h))"

definition host_inv :: "stamp_codec \<Rightarrow> string \<Rightarrow> token_host \<Rightarrow> bool" where
  "host_inv Z v h \<longleftrightarrow>
     (th_published h \<noteq> [] \<longrightarrow> read_record_file Z (th_record h) = Inr (Some (snd (last (th_published h)))))
   \<and> successively (\<lambda>a b. tk_generation (snd b) = tk_generation (snd a) + 1) (th_published h)
   \<and> (f_lt (Fin 0) (min_issue_interval v) \<longrightarrow>
        (th_requests h \<noteq> [] \<longrightarrow> th_guard h = Guard (seconds_of (snd (last (th_requests h)))))
      \<and> successively (\<lambda>a b. throttle_delay_seconds v (Guard (seconds_of (snd a))) (seconds_of (fst b)) = Inr (Fin 0)) (th_requests h))"

lemma host_inv_issue:
  assumes Z: "codec Z" and inv: "host_inv Z v h" and S: "to_vendor S = v" "to_policy S = POLICY_RAISE" and C: "nonempty_issue C"
    and read: "read_record_file Z (th_record h) = Inr cached" and run: "issue_and_publish Z S C cached h = (q, h')"
  shows "host_inv Z v h'"
  using run
proof (cases rule: issue_effect)
  case refused
  then show ?thesis using inv by simp
next
  case (requested h1)
  note guard = guard_effect(2) [OF requested(1) refl, unfolded S(1), OF _ S(2)]
  have requests: "f_lt (Fin 0) (min_issue_interval v) \<longrightarrow>
        (th_requests h' \<noteq> [] \<longrightarrow> th_guard h' = Guard (seconds_of (snd (last (th_requests h')))))
      \<and> successively (\<lambda>a b. throttle_delay_seconds v (Guard (seconds_of (snd a))) (seconds_of (fst b)) = Inr (Fin 0)) (th_requests h')"
    using guard inv requested(2,3) by (auto simp: host_inv_def successively_append_iff)
  from requested(4) show ?thesis
  proof
    assume "th_record h' = th_record h \<and> th_published h' = th_published h"
    then show ?thesis using inv requests by (simp add: host_inv_def)
  next
    assume "\<exists>issued r. ca_issued C = Some issued \<and> build_record issued cached (ca_built C) = Inr r
            \<and> th_record h' = Token_value (record_value Z r) \<and> th_published h' = th_published h @ [(ca_checked C, r)]"
    then obtain issued r where i: "ca_issued C = Some issued" and r: "build_record issued cached (ca_built C) = Inr r"
      and h': "th_record h' = Token_value (record_value Z r)" "th_published h' = th_published h @ [(ca_checked C, r)]" by blast
    have "storable r"
      using built_record [OF r] C i read_generation read by (fastforce simp: storable_def nonempty_issue_def split: option.splits)
    then have "read_record_file Z (th_record h') = Inr (Some r)" using read_published [OF Z] h'(1) by simp
    moreover have "th_published h \<noteq> [] \<Longrightarrow> tk_generation r = tk_generation (snd (last (th_published h))) + 1"
      using built_record(2) [OF r] read inv by (auto simp: host_inv_def)
    ultimately show ?thesis using inv requests h'(2) by (auto simp: host_inv_def successively_append_iff)
  qed
qed

lemma host_inv_history: "host_history Z v h \<Longrightarrow> codec Z \<Longrightarrow> host_inv Z v h"
proof (induction rule: host_history.induct)
  case (found h)
  then show ?case by (simp add: host_inv_def)
next
  case (issuing h S C)
  then show ?case
    using host_inv_issue [OF issuing.prems issuing.IH [OF issuing.prems] issuing.hyps(2-4)]
    by (auto simp: get_or_issue_locked_def split: sum.splits option.splits) (metis prod.collapse)+
next
  case (replacing h S C rejected locked)
  then show ?case
    using host_inv_issue [OF replacing.prems replacing.IH [OF replacing.prems] replacing.hyps(2-4)]
    by (auto simp: replace_rejected_def split: sum.splits) (metis prod.collapse)+
qed

text \<open>C37. However the clients of a host interleave, each with the throttle policy \<open>raise\<close>, while the token they published last is
  usable no process requests another: \<open>get_or_issue\<close> answers that record and changes
  nothing, and so does \<open>replace_rejected\<close> unless the rejected token is the current one.
  The generations of the published records grow by one, and two requests to a vendor with an issue
  interval are never closer than it (the delay computed from the first at the second is zero).\<close>

theorem host_has_one_issuer:
  assumes "host_history Z v h" "codec Z"
  shows "(\<forall>S C n r. th_published h \<noteq> [] \<longrightarrow> last (th_published h) = (n, r) \<longrightarrow> is_usable S r (ca_checked C) \<longrightarrow>
            get_or_issue_locked Z S C h = (Inr r, h)
          \<and> (\<forall>rejected. rejected \<noteq> tk_access_token r \<longrightarrow> replace_rejected Z S rejected True C h = (Inr r, h)))
    \<and> successively (\<lambda>a b. tk_generation (snd b) = tk_generation (snd a) + 1) (th_published h)
    \<and> (f_lt (Fin 0) (min_issue_interval v) \<longrightarrow>
         successively (\<lambda>a b. throttle_delay_seconds v (Guard (seconds_of (snd a))) (seconds_of (fst b)) = Inr (Fin 0)) (th_requests h))"
  using host_inv_history [OF assms]
  by (auto simp: host_inv_def get_or_issue_locked_def replace_rejected_def)

section \<open>Slots\<close>

inductive pace_history :: "fl \<Rightarrow> pace_host \<Rightarrow> bool" for interval where
  unbooked: "ph_booked h = [] \<Longrightarrow> pace_history interval h"
| booking: "pace_history interval h \<Longrightarrow> f_isfinite now \<Longrightarrow> pace_history interval (snd (book_slot interval lead now w h))"

lemma pacing:
  assumes "pace_history interval h" "f_isfinite interval"
  shows "(ph_booked h \<noteq> [] \<longrightarrow> ph_file h = Next_free (f_add (snd (last (ph_booked h))) interval))
    \<and> (\<forall>e\<in>set (ph_booked h). f_isfinite (snd e) \<and> f_le (fst e) (snd e))
    \<and> successively (\<lambda>a b. f_le (f_add (snd a) interval) (snd b)) (ph_booked h)"
  using assms(1)
proof (induction rule: pace_history.induct)
  case (unbooked h)
  then show ?case by simp
next
  case (booking h now lead w)
  define slot where "slot = (if f_lt now (read_next_free (ph_file h)) then read_next_free (ph_file h) else now)"
  obtain n where n: "now = Fin n" using booking.hyps(2) by (auto simp: f_isfinite_iff)
  obtain i where i: "interval = Fin i" using assms(2) by (auto simp: f_isfinite_iff)
  have fin: "f_isfinite (read_next_free (ph_file h))" by (simp add: read_next_free_def split: pace_file.splits)
  then have slot: "f_isfinite slot" "f_le now slot" "f_le (read_next_free (ph_file h)) slot"
    using n by (auto simp: slot_def f_isfinite_iff f_le_def)
  have last_slot: "ph_booked h \<noteq> [] \<Longrightarrow> f_le (f_add (snd (last (ph_booked h))) interval) slot"
  proof -
    assume b: "ph_booked h \<noteq> []"
    then have "f_isfinite (snd (last (ph_booked h)))" using booking.IH by simp
    then have "f_isfinite (f_add (snd (last (ph_booked h))) interval)" using i by (auto simp: f_isfinite_iff)
    then have "read_next_free (ph_file h) = f_add (snd (last (ph_booked h))) interval"
      using booking.IH b by (simp add: read_next_free_def)
    then show ?thesis using slot(3) by simp
  qed
  have "snd (book_slot interval lead now w h) = h \<or> ph_booked (snd (book_slot interval lead now w h)) = []
    \<or> snd (book_slot interval lead now w h) = h\<lparr>ph_file := Next_free (f_add slot interval), ph_booked := ph_booked h @ [(now, slot)]\<rparr>"
    unfolding book_slot_def Let_def slot_def [symmetric] by (cases w; cases lead) simp_all
  then show ?case
  proof (elim disjE)
    assume "snd (book_slot interval lead now w h) = h"
    then show ?thesis using booking.IH by simp
  next
    assume "ph_booked (snd (book_slot interval lead now w h)) = []"
    then show ?thesis by simp
  next
    assume h': "snd (book_slot interval lead now w h) = h\<lparr>ph_file := Next_free (f_add slot interval), ph_booked := ph_booked h @ [(now, slot)]\<rparr>"
    show ?thesis using booking.IH slot last_slot unfolding h' by (auto simp: successively_append_iff)
  qed
qed

lemma f_lt_irrefl: "\<not> f_lt x x"
  by (cases x) simp_all

text \<open>A refused attempt sleeps at least an interval; the sleep before the owned slot is within the bound.\<close>

lemma acquire_sleeps:
  "acquire P attempts h = ((sleeps, Inr True), h') \<Longrightarrow> \<exists>refused final. sleeps = refused @ final
     \<and> (\<forall>x\<in>set refused. \<not> f_lt x (pace_interval P)) \<and> (pc_max_lead P = None \<longrightarrow> refused = [])
     \<and> length final \<le> 1 \<and> (\<forall>x\<in>set final. f_lt (Fin 0) x \<and> (\<forall>l. pc_max_lead P = Some l \<longrightarrow> \<not> f_lt l x))"
proof (induction P attempts h arbitrary: sleeps h' rule: acquire.induct)
  case (2 P now w later h)
  show ?case
  proof (cases "book_slot (pace_interval P) (pc_max_lead P) now w h")
    case (Pair r h1)
    obtain booked wait where r: "r = Inr (booked, wait)" using 2(2) Pair by (cases r) auto
    show ?thesis
    proof (cases booked)
      case True
      have "\<not> f_lt l wait" if "pc_max_lead P = Some l" for l
        using Pair r True that by (auto simp: book_slot_def Let_def split: if_splits slot_write.splits)
      then show ?thesis using 2(2) Pair r True
        by (intro exI [of _ "[]"] exI [of _ sleeps]) (auto split: if_splits)
    next
      case False
      obtain tail where tail: "acquire P later h1 = ((tail, Inr True), h')" "sleeps = wait # tail"
        using 2(2) Pair r False by (auto split: prod.splits)
      have long: "\<not> f_lt wait (pace_interval P)" "pc_max_lead P \<noteq> None"
        using Pair r False by (auto simp: book_slot_def Let_def f_lt_irrefl split: if_splits slot_write.splits option.splits)
      from 2(1) [OF Pair [symmetric] r _ False tail(1)] obtain refused final where
        "tail = refused @ final" "\<forall>x\<in>set refused. \<not> f_lt x (pace_interval P)"
        "length final \<le> 1" "\<forall>x\<in>set final. f_lt (Fin 0) x \<and> (\<forall>l. pc_max_lead P = Some l \<longrightarrow> \<not> f_lt l x)" by auto
      then show ?thesis using long tail(2) by (intro exI [of _ "wait # refused"] exI [of _ final]) auto
    qed
  qed
qed simp

text \<open>C38. The slots that the processes of a host book on one pacing file, from the last time a write
  lost its content on, are never closer than the interval, whoever books them and with whatever
  lead bound, and never lie before the clock of their booking. A caller that gets a slot has slept
  at least an interval after each refusal (a caller without a bound is never refused), and then
  at most once more, within its bound, before the slot.\<close>

theorem booked_slots_are_paced:
  assumes "pace_history (pace_interval P) h" "make_pacer rate period lead = Inr P"
  shows "successively (\<lambda>a b. f_le (f_add (snd a) (pace_interval P)) (snd b)) (ph_booked h)
    \<and> (\<forall>e\<in>set (ph_booked h). f_le (fst e) (snd e))
    \<and> (\<forall>attempts sleeps h'. acquire P attempts h = ((sleeps, Inr True), h') \<longrightarrow>
         (\<exists>refused final. sleeps = refused @ final
           \<and> (\<forall>x\<in>set refused. \<not> f_lt x (pace_interval P)) \<and> (lead = None \<longrightarrow> refused = [])
           \<and> length final \<le> 1 \<and> (\<forall>x\<in>set final. f_lt (Fin 0) x \<and> (\<forall>l. lead = Some l \<longrightarrow> \<not> f_lt l x))))"
proof -
  have P: "pc_max_lead P = lead" "f_isfinite rate" "f_isfinite period" "\<not> f_le rate (Fin 0)"
    "pc_max_rate P = rate" "pc_time_period P = period"
    using assms(2) by (auto simp: make_pacer_def split: if_splits)
  then have interval: "f_isfinite (pace_interval P)" by (auto simp: pace_interval_def f_isfinite_iff f_le_def)
  show ?thesis using pacing [OF assms(1) interval] acquire_sleeps [of P _ h, unfolded P(1)] by blast
qed

section \<open>A shared minute\<close>

definition host_demo_codec :: stamp_codec where
  "host_demo_codec = \<lparr>sc_parse = (\<lambda>s. case s of
       c # n \<Rightarrow> if c = CHR ''-'' then At (- int (length n)) else At (int (length n)) | [] \<Rightarrow> Unparsed),
     sc_print = (\<lambda>t. (if t < 0 then CHR ''-'' else CHR ''+'') # replicate (nat \<bar>t\<bar>) CHR ''1'')\<rparr>"

lemma host_demo_codec_ok: "codec host_demo_codec"
  by (simp add: codec_def host_demo_codec_def)

definition host_demo_store :: token_store where
  "host_demo_store = \<lparr>to_vendor = ''dbsec'', to_lock_timeout = Fin 10, to_margin = Fin 600,
     to_max_age = DEFAULT_UNKNOWN_EXPIRY_MAX_AGE_S, to_policy = POLICY_RAISE\<rparr>"

definition host_demo_call :: token_call where
  "host_demo_call = \<lparr>ca_checked = 0, ca_guarded = 0, ca_guard_written = 0, ca_built = 0, ca_guard_saved = True,
     ca_issued = Some \<lparr>it_access_token = ''t1'', it_expires_in_seconds = None\<rparr>, ca_record_saved = True\<rparr>"

definition host_demo_host :: token_host where
  "host_demo_host = \<lparr>th_record = No_token, th_guard = No_guard, th_requests = [], th_published = []\<rparr>"

definition host_demo_token :: TokenRecord where
  "host_demo_token = \<lparr>tk_access_token = ''t1'', tk_issued_at = 0, tk_expires_at = None, tk_generation = 1\<rparr>"

lemma host_demo_issue: "get_or_issue_locked host_demo_codec host_demo_store host_demo_call host_demo_host = (Inr host_demo_token,
   \<lparr>th_record = Token_value (record_value host_demo_codec host_demo_token), th_guard = Guard (Fin 0), th_requests = [(0, 0)],
    th_published = [(0, host_demo_token)]\<rparr>)"
  by (simp add: get_or_issue_locked_def host_demo_host_def read_record_file_def issue_and_publish_def guard_before_issue_def
      host_demo_store_def host_demo_call_def min_issue_interval_def throttle_delay_seconds_def read_guard_value_def seconds_of_def
      build_record_def host_demo_token_def Let_def f_le_def)

theorem host_has_one_issuer_witness:
  "let h = snd (get_or_issue_locked host_demo_codec host_demo_store host_demo_call host_demo_host) in
   get_or_issue_locked host_demo_codec host_demo_store host_demo_call h = (Inr host_demo_token, h) \<and> th_requests h = [(0, 0)]"
proof -
  have "host_history host_demo_codec ''dbsec'' (snd (get_or_issue_locked host_demo_codec host_demo_store host_demo_call host_demo_host))"
    by (intro host_history.issuing host_history.found)
      (simp_all add: host_demo_host_def host_demo_store_def host_demo_call_def nonempty_issue_def)
  from host_has_one_issuer [OF this host_demo_codec_ok] have
    "is_usable host_demo_store host_demo_token (ca_checked host_demo_call) \<longrightarrow>
     get_or_issue_locked host_demo_codec host_demo_store host_demo_call (snd (get_or_issue_locked host_demo_codec host_demo_store host_demo_call host_demo_host))
       = (Inr host_demo_token, snd (get_or_issue_locked host_demo_codec host_demo_store host_demo_call host_demo_host))"
    by (simp add: host_demo_issue)
  moreover have "is_usable host_demo_store host_demo_token (ca_checked host_demo_call)"
    by (simp add: is_usable_def host_demo_token_def host_demo_call_def host_demo_store_def seconds_of_def DEFAULT_UNKNOWN_EXPIRY_MAX_AGE_S_def)
  ultimately show ?thesis by (simp add: Let_def) (simp add: host_demo_issue)
qed

text \<open>Two slots in a row, and a bounded caller that finds the next free slot five seconds ahead: it is
  refused, sleeps four seconds, and then one more before its slot.\<close>

definition host_demo_pacer :: pacer where
  "host_demo_pacer = \<lparr>pc_max_rate = Fin 1, pc_time_period = Fin 1, pc_max_lead = Some (Fin 1)\<rparr>"

definition host_demo_paced :: pace_host where
  "host_demo_paced = snd (book_slot (pace_interval host_demo_pacer) None (Fin 0) Slot_written
     (snd (book_slot (pace_interval host_demo_pacer) None (Fin 4) Slot_written \<lparr>ph_file = No_slot, ph_booked = []\<rparr>)))"

theorem booked_slots_are_paced_witness:
  "ph_booked host_demo_paced = [(Fin 4, Fin 4), (Fin 0, Fin 5)] \<and> f_le (f_add (Fin 4) (pace_interval host_demo_pacer)) (Fin 5)
   \<and> fst (acquire host_demo_pacer [(Fin 1, Slot_written), (Fin 5, Slot_written)] host_demo_paced) = ([Fin 4, Fin 1], Inr True)
   \<and> (\<exists>refused final. [Fin 4, Fin 1] = refused @ final \<and> (\<forall>x\<in>set refused. \<not> f_lt x (pace_interval host_demo_pacer))
        \<and> length final \<le> 1 \<and> (\<forall>x\<in>set final. \<not> f_lt (Fin 1) x))"
proof -
  have ints: "rnd64 1 = 1" "rnd64 4 = 4" "rnd64 5 = 5" "rnd64 6 = 6" "rnd64 7 = 7"
    using rnd64_of_int [of 1] rnd64_of_int [of 4] rnd64_of_int [of 5] rnd64_of_int [of 6] rnd64_of_int [of 7] by simp_all
  have interval: "pace_interval host_demo_pacer = Fin 1" by (simp add: pace_interval_def host_demo_pacer_def ints)
  have paced: "host_demo_paced = \<lparr>ph_file = Next_free (Fin 6), ph_booked = [(Fin 4, Fin 4), (Fin 0, Fin 5)]\<rparr>"
    by (simp add: host_demo_paced_def interval book_slot_def read_next_free_def ints Let_def)
  have lead: "pc_max_lead host_demo_pacer = Some (Fin 1)" by (simp add: host_demo_pacer_def)
  have refused: "book_slot (Fin 1) (Some (Fin 1)) (Fin 1) Slot_written host_demo_paced = (Inr (False, Fin 4), host_demo_paced)"
    by (simp add: paced book_slot_def read_next_free_def ints Let_def)
  have owned: "\<exists>h'. book_slot (Fin 1) (Some (Fin 1)) (Fin 5) Slot_written host_demo_paced = (Inr (True, Fin 1), h')"
    by (simp add: paced book_slot_def read_next_free_def ints Let_def)
  then have run: "\<exists>h'. acquire host_demo_pacer [(Fin 1, Slot_written), (Fin 5, Slot_written)] host_demo_paced
      = (([Fin 4, Fin 1], Inr True), h')"
    by (auto simp: interval lead refused)
  have history: "pace_history (pace_interval host_demo_pacer) host_demo_paced"
    unfolding host_demo_paced_def by (intro pace_history.booking pace_history.unbooked) simp_all
  have made: "make_pacer (Fin 1) (Fin 1) (Some (Fin 1)) = Inr host_demo_pacer" by (simp add: make_pacer_def host_demo_pacer_def f_le_def)
  obtain h' where h': "acquire host_demo_pacer [(Fin 1, Slot_written), (Fin 5, Slot_written)] host_demo_paced
      = (([Fin 4, Fin 1], Inr True), h')" using run by blast
  note paced_slots = booked_slots_are_paced [OF history made]
  from conjunct2 [OF conjunct2 [OF this], rule_format, OF h']
  have "\<exists>refused final. [Fin 4, Fin 1] = refused @ final \<and> (\<forall>x\<in>set refused. \<not> f_lt x (pace_interval host_demo_pacer))
        \<and> length final \<le> 1 \<and> (\<forall>x\<in>set final. \<not> f_lt (Fin 1) x)" by metis
  moreover have "f_le (f_add (Fin 4) (pace_interval host_demo_pacer)) (Fin 5)" using paced_slots by (simp add: paced)
  ultimately show ?thesis using h' by (simp add: paced)
qed

end
