(* ===== verification/Spec2Isabelle.thy ===== *)
theory Spec2Isabelle
  imports Session_Calendar Kis_Trading Session_Plans Session_Wait Journal_Properties Journal_Quantities
    Contract_Properties Resolve_Properties Paper_Properties Paper_Runs Retrain_Properties Outcome_Properties Remediation_Properties Eviction_Properties
    Host_Properties
begin

text \<open>
  Verification of the decision, order, ledger and operations core of k-closing-alpha, a system
  that selects stocks of the Korean exchange shortly before the close, buys them in the closing
  auction and sells them the next morning. Source paths below are under \<open>src/src/\<close>.

  \<^bold>\<open>The program.\<close> The collector flags the rows of the day's snapshot that the production
  screen admits; the decision run ranks the training pool with the published models and stores
  three equal-weight picks; an order session reads the decision, plans buys that fit the
  capital and sends them through the gateway, which writes every step to an append-only journal
  before it talks to the broker; the exit session of the next day sells the open lots of the
  journal. The paper sessions do the same against confirmed prices and keep a ledger of fills.
  Each job records its outcome; critical outcomes, failed units and open audit issues meet in
  the incident pager. Old history gives way to tombstones once its offsite copy is verified.

  \<^bold>\<open>Shared theories.\<close> \<open>Prelude\<close> holds the exceptions as constructors, results as sums,
  the state and exception monad \<open>eff\<close> with its Hoare triples (\<open>triple\<close>, \<open>keeps\<close>), Python strings
  and dictionaries in insertion order. \<open>Float64\<close> is the double as an exact rational with
  rounding to nearest, infinities and NaN; \<open>Json_Value\<close> decoded JSON; \<open>Civil_Date\<close> dates and
  ordinals; \<open>Session_Clock\<close> moments in nanoseconds and times of day.

  \<^bold>\<open>Calendar.\<close> \<open>Market_Session\<close> (\<open>config/market_session.py\<close>), \<open>Session_Calendar\<close>
  (\<open>config/krx_calendar.py\<close>, \<open>data/session_calendar.py\<close>, the clock of
  \<open>data/capture_contracts.py\<close>), \<open>Trading_Calendar\<close> (\<open>data/trading_calendar.py\<close>): the session of a
  day, the gate, the oracles and the bounded search for the previous trading day.

  \<^bold>\<open>Orders.\<close> \<open>Order_Contract\<close> (\<open>execution/order_contract.py\<close>), \<open>Order_Journal\<close>
  (\<open>execution/order_journal.py\<close>), \<open>Order_Gateway\<close> (\<open>execution/order_gateway.py\<close>),
  \<open>Order_Resolve\<close> (\<open>daily/order_resolve.py\<close>), \<open>Order_Session\<close> (\<open>daily/order_session.py\<close>) and
  \<open>Kis_Trading\<close> on \<open>Transport\<close> (\<open>api/kis/trading.py\<close>, \<open>api/_transport.py\<close>,
  \<open>api/auth_rejection.py\<close>). The state is the journal file as its lines, the broker's world and
  ghost lists of what was posted. \<open>Send_History\<close>, \<open>Gateway_Properties\<close>, \<open>Gateway_Run\<close>,
  \<open>Gateway_Limits\<close> and \<open>Gateway_Safety\<close> lead to at most one live order per intent over every
  reachable state (\<open>gateway_reachable\<close>, an inductive relation over operations, crashes and
  restarts); \<open>Order_Refinement\<close> states the abstract at-most-once machine and the refinement;
  \<open>Session_Safety\<close>, \<open>Session_Plans\<close>, \<open>Session_Wait\<close> lift it to whole sessions, their plans and
  their waiting loops; \<open>Journal_Properties\<close>, \<open>Journal_Quantities\<close>, \<open>Contract_Properties\<close>,
  \<open>Resolve_Properties\<close> hold typing, round trips, quantities, the greedy reference of the sizing
  and the operator command.

  \<^bold>\<open>Paper ledger.\<close> \<open>Cost_Model\<close> (\<open>execution/cost_model.py\<close>), \<open>Entry_Decision\<close>,
  \<open>Paper_Fills\<close>, \<open>Paper_Trips\<close>, \<open>Paper_Ledger\<close> (\<open>execution/paper_broker.py\<close>),
  \<open>Paper_Quotes\<close>, \<open>Paper_Session\<close> (\<open>daily/paper_trade.py\<close>): orders, fills, corrections, round
  trips, NAV. \<open>Paper_Soundness\<close>, \<open>Paper_Book\<close>, \<open>Paper_Properties\<close>, \<open>Paper_Runs\<close> show that every
  session keeps the books: unique ids, no buy closed twice, conservation of capital.

  \<^bold>\<open>Decision.\<close> \<open>Strategy_Store\<close> (\<open>strategy/store.py\<close>), \<open>Strategy_Contract\<close>
  (\<open>strategy/contract.py\<close>), \<open>Universe_Screen\<close> (\<open>daily/universe_screen.py\<close>, the flag of
  \<open>daily/collect.py\<close>), \<open>Topk_Contract\<close> (\<open>ml/topk_contract.py\<close>,
  \<open>serving/realtime/artifacts.py\<close>), \<open>Decision_Run\<close> (\<open>daily/predict.py\<close>, the row mapping of
  \<open>serving/realtime/features.py\<close>). \<open>Topk_Selection\<close> shows what a selection contains and what the
  parity check guarantees; \<open>Decision_Properties\<close> and \<open>Decision_Safety\<close> follow a stored decision
  back to the certified snapshot and forward to the order session that accepts it.

  \<^bold>\<open>Retraining.\<close> \<open>Pit_Report\<close> (\<open>ml/pit_report.py\<close>) is the stored evidence of the decision-time
  certification; \<open>Retrain_Gate\<close> (\<open>ml/retrain_gate.py\<close>, the adoption gate of
  \<open>ml/research/pit_certification.py\<close>, the bundle training of \<open>ml/retrain.py\<close>,
  \<open>ml/retrain_registry.py\<close>) decides whether a retrained bundle replaces the live one. The state is
  the live bundle, the rejected copy and the registry. \<open>Retrain_Properties\<close> shows that any
  history of gated runs (\<open>gated_history\<close>) leaves a bundle that passes the checks of the decision
  run, what evidence an enforced promotion has, and the round trip of a report.

  \<^bold>\<open>Operations.\<close> \<open>Alert_Policy\<close>, \<open>Incident_Pager\<close>, \<open>Run_Outcome\<close>
  (\<open>tools/alert_policy.py\<close>, \<open>tools/incident_pager.py\<close>, \<open>tools/run_outcome.py\<close>) with
  \<open>Pager_Properties\<close> (the calls of a day as an inductive relation, one page per incident) and
  \<open>Outcome_Properties\<close> (the event log, and a failed decision followed to its mail).
  \<open>Auto_Remediation\<close> (\<open>tools/auto_remediation.py\<close>, the window of \<open>tools/deploy_window.py\<close>, the
  remediation of \<open>tools/audit_reconcile.py\<close>) with \<open>Remediation_Properties\<close>: the reachable
  desks of any sequence of ticks, on which only safe units were started, planned outside the deploy
  blackout, and, while no append of the ledger was cut off, within the daily budget of the key and
  with their spacing.
  \<open>Host_Broker\<close> (\<open>api/host_broker_contract.py\<close>, \<open>api/kis/rate_limit.py\<close>) is the token record
  and the pacing file that all processes of a host share, a section under the lock as one step;
  \<open>Host_Properties\<close> shows over every interleaving (\<open>host_history\<close>, \<open>pace_history\<close>) one issuer
  while the published token is usable, generations that grow by one, requests and slots that
  keep their distance.
  \<open>Partition_Eviction\<close> (\<open>data/partition_eviction.py\<close>, \<open>tools/partition_restore.py\<close>) with
  \<open>Eviction_Properties\<close>: nothing is removed that is not certified, retention margins, restore.

  \<^bold>\<open>Interfaces.\<close> \<open>gateway_client\<close> and \<open>journal_client\<close> are what a session may rely on when
  it calls the gateway and the journal, interpreted for reachability, growth, the halted broker
  and the corrupt journal; \<open>counted_transport\<close> is the HTTP port with its request counter,
  interpreted on the KIS client; \<open>keyed_log\<close> the append-only tables of the ledger,
  \<open>paper_client\<close> the sessions on it, \<open>best_first\<close> a stable ranking, interpreted on the score.

  \<^bold>\<open>Loops and bounds.\<close> The binary searches, the paginations and the date searches end by
  their own measures. The two waiting loops of a session take fuel; \<open>await_decision_returns\<close> and
  \<open>reconcile_polls_return\<close> show that it is never used up: the wait for the decision returns
  within 27841 polls and the polling of a reconciliation within 5641 rounds, when the clock is orderly
  and the run starts before 20:00; a round at or after the deadline is the last.

  \<^bold>\<open>Assumptions of the model.\<close> A process runs alone between acquiring and releasing a lock;
  other processes act between the steps. Clocks are monotone in a run and read in whole
  seconds where the code compares times of day. Korean texts and column names are constructors,
  an exception text is shortened to its class. Rows of a pandas frame are records, its columns a
  list; parquet, joblib, TOML and JSON decoding, LightGBM prediction, HTTP, rclone and the disk are
  parameters. Writes of the derived paper ledgers do not fail. An append of the order journal
  is not cut exactly between a line and its newline.

  \<^bold>\<open>Not modelled.\<close> The vendors' data clients, the capture jobs and the backfills are
  I/O with field mapping; model fitting, research panels and the derived feature values are numerical
  code over numpy and pandas; the audits, backups and deployment tools act on the host through
  systemd, rclone and git; the snapshot enters as the parameter the capture store certifies.
\<close>

end
